(* ===== verification/Odbc_Base.thy ===== *)
theory Odbc_Base
  imports Main "HOL-Library.Word" "HOL-Library.Monad_Syntax"
begin

text \<open>
  The prelude of the development: the ODBC return codes, the C integer conversions the
  driver performs, the application's byte memory, and the list lemmas the components
  share. The constants of \<^verbatim>\<open>sql.h\<close> and \<^verbatim>\<open>sqlext.h\<close> are abbreviations of
  the numbers the ODBC interface fixes for them, so that the simplifier decides every
  \<^verbatim>\<open>switch\<close> of the driver by comparing numerals.

  A value of type \<open>'a option\<close> that a handler returns is \<open>None\<close> where the C++ code has
  undefined behaviour (a null or dangling pointer is dereferenced, a vector is indexed out of
  range); a theorem that a handler returns \<open>Some\<close> is therefore a memory-safety statement.
\<close>

named_theorems odbc_defs \<open>definitions of driver operations that proofs unfold together\<close>
named_theorems mem_simps \<open>facts about reads and writes of application memory\<close>

section \<open>Return codes\<close>

type_synonym SQLRETURN = int
type_synonym SQLSMALLINT = int
type_synonym SQLUSMALLINT = int
type_synonym SQLINTEGER = int
type_synonym SQLUINTEGER = int
type_synonym SQLLEN = int
type_synonym SQLULEN = int

abbreviation (input) SQL_SUCCESS :: SQLRETURN where "SQL_SUCCESS \<equiv> 0"
abbreviation (input) SQL_SUCCESS_WITH_INFO :: SQLRETURN where "SQL_SUCCESS_WITH_INFO \<equiv> 1"
abbreviation (input) SQL_STILL_EXECUTING :: SQLRETURN where "SQL_STILL_EXECUTING \<equiv> 2"
abbreviation (input) SQL_NEED_DATA :: SQLRETURN where "SQL_NEED_DATA \<equiv> 99"
abbreviation (input) SQL_NO_DATA :: SQLRETURN where "SQL_NO_DATA \<equiv> 100"
abbreviation (input) SQL_ERROR :: SQLRETURN where "SQL_ERROR \<equiv> - 1"
abbreviation (input) SQL_INVALID_HANDLE :: SQLRETURN where "SQL_INVALID_HANDLE \<equiv> - 2"

abbreviation (input) SQL_NTS :: int where "SQL_NTS \<equiv> - 3"
abbreviation (input) SQL_NULL_DATA :: int where "SQL_NULL_DATA \<equiv> - 1"
abbreviation (input) SQL_DATA_AT_EXEC :: int where "SQL_DATA_AT_EXEC \<equiv> - 2"
abbreviation (input) SQL_NO_TOTAL :: int where "SQL_NO_TOTAL \<equiv> - 4"
abbreviation (input) SQL_TRUE :: int where "SQL_TRUE \<equiv> 1"
abbreviation (input) SQL_FALSE :: int where "SQL_FALSE \<equiv> 0"

text \<open>The macro \<^verbatim>\<open>SQL_SUCCEEDED(rc)\<close> tests \<^verbatim>\<open>(rc & ~1) == 0\<close>: the code is
  0 or 1.\<close>

definition SQL_SUCCEEDED :: "SQLRETURN \<Rightarrow> bool" where
  "SQL_SUCCEEDED rc \<longleftrightarrow> rc = SQL_SUCCESS \<or> rc = SQL_SUCCESS_WITH_INFO"

lemma SQL_SUCCEEDED_simps [simp]:
  "SQL_SUCCEEDED SQL_SUCCESS" "SQL_SUCCEEDED SQL_SUCCESS_WITH_INFO"
  "\<not> SQL_SUCCEEDED SQL_ERROR" "\<not> SQL_SUCCEEDED SQL_NO_DATA"
  "\<not> SQL_SUCCEEDED SQL_INVALID_HANDLE" "\<not> SQL_SUCCEEDED SQL_NEED_DATA"
  "\<not> SQL_SUCCEEDED SQL_STILL_EXECUTING"
  by (simp_all add: SQL_SUCCEEDED_def)

section \<open>C integer conversions\<close>

text \<open>\<^verbatim>\<open>static_cast\<close> to a signed or unsigned integer of a given width keeps the low
  bits.\<close>

definition to_int16 :: "int \<Rightarrow> int" where "to_int16 x = signed_take_bit 15 x"
definition to_int32 :: "int \<Rightarrow> int" where "to_int32 x = signed_take_bit 31 x"
definition to_int64 :: "int \<Rightarrow> int" where "to_int64 x = signed_take_bit 63 x"
definition to_uint8 :: "int \<Rightarrow> int" where "to_uint8 x = take_bit 8 x"
definition to_uint16 :: "int \<Rightarrow> int" where "to_uint16 x = take_bit 16 x"
definition to_uint32 :: "int \<Rightarrow> int" where "to_uint32 x = take_bit 32 x"
definition to_uint64 :: "int \<Rightarrow> int" where "to_uint64 x = take_bit 64 x"

lemma to_int16_id: "- 32768 \<le> x \<Longrightarrow> x < 32768 \<Longrightarrow> to_int16 x = x"
  unfolding to_int16_def by (rule signed_take_bit_int_eq_self) simp_all

lemma to_int32_id: "- 2147483648 \<le> x \<Longrightarrow> x < 2147483648 \<Longrightarrow> to_int32 x = x"
  unfolding to_int32_def by (rule signed_take_bit_int_eq_self) simp_all

lemma to_int64_id:
  "- 9223372036854775808 \<le> x \<Longrightarrow> x < 9223372036854775808 \<Longrightarrow> to_int64 x = x"
  unfolding to_int64_def by (rule signed_take_bit_int_eq_self) simp_all

lemma to_uint32_id: "0 \<le> x \<Longrightarrow> x < 4294967296 \<Longrightarrow> to_uint32 x = x"
  unfolding to_uint32_def by (rule take_bit_int_eq_self) simp_all

lemma to_uint64_id: "0 \<le> x \<Longrightarrow> x < 18446744073709551616 \<Longrightarrow> to_uint64 x = x"
  unfolding to_uint64_def by (rule take_bit_int_eq_self) simp_all

lemma to_uint32_range: "0 \<le> to_uint32 x \<and> to_uint32 x < 4294967296"
  using take_bit_int_less_exp [of 32 x] by (simp add: to_uint32_def)

text \<open>C division truncates towards zero.\<close>

definition c_div :: "int \<Rightarrow> int \<Rightarrow> int" where
  "c_div a b = sgn a * sgn b * (\<bar>a\<bar> div \<bar>b\<bar>)"

definition c_mod :: "int \<Rightarrow> int \<Rightarrow> int" where
  "c_mod a b = a - b * c_div a b"

lemma c_div_nonneg: "0 \<le> a \<Longrightarrow> 0 < b \<Longrightarrow> c_div a b = a div b"
  by (cases "a = 0") (auto simp: c_div_def)

lemma c_mod_nonneg: "0 \<le> a \<Longrightarrow> 0 < b \<Longrightarrow> c_mod a b = a mod b"
  by (simp add: c_mod_def c_div_nonneg minus_mult_div_eq_mod)

section \<open>Vectors\<close>

text \<open>\<^verbatim>\<open>std::vector::resize\<close>: drop the elements past the new size, or append copies
  of the default element.\<close>

definition resize :: "nat \<Rightarrow> 'a \<Rightarrow> 'a list \<Rightarrow> 'a list" where
  "resize n d xs = take n xs @ replicate (n - length xs) d"

lemma length_resize [simp]: "length (resize n d xs) = n"
  by (simp add: resize_def)

lemma nth_resize: "i < n \<Longrightarrow> resize n d xs ! i = (if i < length xs then xs ! i else d)"
  by (auto simp: resize_def nth_append)

lemma resize_grow_prefix: "length xs \<le> n \<Longrightarrow> take (length xs) (resize n d xs) = xs"
  by (simp add: resize_def)

lemma resize_resize: "m \<le> n \<Longrightarrow> n \<le> length xs \<Longrightarrow> resize m d (resize n d xs) = resize m d xs"
  by (simp add: resize_def)

text \<open>Checked vector access: out of range is undefined behaviour.\<close>

definition at :: "'a list \<Rightarrow> nat \<Rightarrow> 'a option" where
  "at xs i = (if i < length xs then Some (xs ! i) else None)"

lemma at_in [simp]: "i < length xs \<Longrightarrow> at xs i = Some (xs ! i)"
  by (simp add: at_def)

lemma at_eq_Some [simp]: "at xs i = Some x \<longleftrightarrow> i < length xs \<and> xs ! i = x"
  by (auto simp: at_def)

lemma at_eq_None [simp]: "at xs i = None \<longleftrightarrow> length xs \<le> i"
  by (auto simp: at_def)

section \<open>Application memory\<close>

text \<open>
  Buffers, length/indicator cells and status arrays that the application hands to the driver
  live in a byte memory; an address is a number, the null pointer is 0. Integers are stored
  little-endian.
\<close>

type_synonym addr = nat
type_synonym memory = "addr \<Rightarrow> char"

abbreviation (input) nullptr :: addr where "nullptr \<equiv> 0"

definition write_bytes :: "memory \<Rightarrow> addr \<Rightarrow> string \<Rightarrow> memory" where
  "write_bytes m a bs = (\<lambda>x. if a \<le> x \<and> x < a + length bs then bs ! (x - a) else m x)"

definition read_bytes :: "memory \<Rightarrow> addr \<Rightarrow> nat \<Rightarrow> string" where
  "read_bytes m a n = map m [a..<a + n]"

lemma length_read_bytes [simp]: "length (read_bytes m a n) = n"
  by (simp add: read_bytes_def)

lemma read_write_same [mem_simps]: "read_bytes (write_bytes m a bs) a (length bs) = bs"
  by (rule nth_equalityI) (auto simp: read_bytes_def write_bytes_def)

lemma read_write_prefix [mem_simps]:
  "n \<le> length bs \<Longrightarrow> read_bytes (write_bytes m a bs) a n = take n bs"
  by (rule nth_equalityI) (auto simp: read_bytes_def write_bytes_def)

lemma read_write_disjoint [mem_simps]:
  "a + length bs \<le> b \<or> b + n \<le> a \<Longrightarrow> read_bytes (write_bytes m a bs) b n = read_bytes m b n"
  by (auto simp: read_bytes_def write_bytes_def)

lemma write_bytes_outside [mem_simps]:
  "x < a \<or> a + length bs \<le> x \<Longrightarrow> write_bytes m a bs x = m x"
  by (auto simp: write_bytes_def)

lemma write_bytes_Nil [simp]: "write_bytes m a [] = m"
proof
  show "write_bytes m a [] x = m x" for x
    unfolding write_bytes_def by (cases "a \<le> x") auto
qed

fun le_bytes :: "nat \<Rightarrow> int \<Rightarrow> string" where
  "le_bytes 0 v = []"
| "le_bytes (Suc n) v = char_of (nat (v mod 256)) # le_bytes n (v div 256)"

fun le_uint :: "string \<Rightarrow> int" where
  "le_uint [] = 0"
| "le_uint (b # bs) = of_char b + 256 * le_uint bs"

definition le_sint :: "string \<Rightarrow> int" where
  "le_sint bs = signed_take_bit (8 * length bs - 1) (le_uint bs)"

lemma length_le_bytes [simp]: "length (le_bytes n v) = n"
  by (induction n v rule: le_bytes.induct) auto

lemma le_uint_le_bytes: "le_uint (le_bytes n v) = v mod 256 ^ n"
proof (induction n v rule: le_bytes.induct)
  case (1 v)
  then show ?case by simp
next
  case (2 n v)
  have "of_char (char_of (nat (v mod 256)) :: char) = (v mod 256 :: int)"
    by (metis of_char_of of_char_mod_256 of_char_eq_iff nat_of_char)
  with 2 show ?case by (simp add: zmod_zmult2_eq)
qed

section \<open>Guarded transition systems\<close>

text \<open>A system that answers calls: \<open>run call w m\<close> is the result on state \<open>w\<close> and application
  memory \<open>m\<close>, \<open>None\<close> when the behaviour is undefined; \<open>allowed\<close> tells which calls the
  environment makes. The states that sequences of allowed calls reach:\<close>

inductive reach :: "('s \<Rightarrow> 'c \<Rightarrow> bool) \<Rightarrow> ('c \<Rightarrow> 's \<Rightarrow> 'm \<Rightarrow> ('r \<times> 's \<times> 'm) option) \<Rightarrow> 's \<Rightarrow> 's \<Rightarrow> bool"
  for allowed run init where
  start: "reach allowed run init init"
| step: "reach allowed run init w \<Longrightarrow> allowed w call \<Longrightarrow> run call w m = Some (ret, w', m')
    \<Longrightarrow> reach allowed run init w'"

text \<open>The contract of such a system: an invariant that holds at the start, under which every
  allowed call is defined, and which it keeps.\<close>

locale guarded_system =
  fixes ok :: "'s \<Rightarrow> bool" and allowed :: "'s \<Rightarrow> 'c \<Rightarrow> bool"
    and run :: "'c \<Rightarrow> 's \<Rightarrow> 'm \<Rightarrow> ('r \<times> 's \<times> 'm) option" and init :: 's
  assumes init_ok: "ok init"
    and call_ok: "ok w \<Longrightarrow> allowed w call \<Longrightarrow> \<exists>ret w' m'. run call w m = Some (ret, w', m') \<and> ok w'"
begin

lemma reach_ok: "reach allowed run init w \<Longrightarrow> ok w"
proof (induction rule: reach.induct)
  case start
  show ?case by (rule init_ok)
next
  case (step w call m ret w' m')
  then show ?case using call_ok [of w call m] by auto
qed

lemma never_stuck: "reach allowed run init w \<Longrightarrow> allowed w call \<Longrightarrow> \<exists>ret w' m'. run call w m = Some (ret, w', m')"
  using reach_ok call_ok by blast

end

end
