(* ===== verification/Widechar.thy ===== *)
theory Widechar
  imports Odbc_Base
begin

text \<open>
  The UTF-8/UTF-16 conversions at the driver's wide-character entry points:
  \<^verbatim>\<open>widechar/widechar.cpp\<close>, \<^verbatim>\<open>widechar/widechar_utf16.hpp\<close> and the part of the utf8
  library (\<^verbatim>\<open>third_party/utf8\<close>) that they call. A byte is a \<open>char\<close>, so a byte buffer is a
  \<open>string\<close>; a \<^verbatim>\<open>SQLWCHAR\<close> is a 16-bit word; a code point (\<^verbatim>\<open>utfchar32_t\<close>) is a natural
  number, with the one addition that can wrap written modulo \<open>2 ^ 32\<close>. An iterator is the
  suffix of the buffer that starts at it.

  The lemmas show that decoding and encoding are inverse on scalar values, that
  \<^verbatim>\<open>find_invalid\<close> accepts exactly the well-formed UTF-8 strings, that the conversion to
  UTF-16 never reads outside the buffer and always yields well-formed UTF-16, that well-formed
  UTF-16 survives the round trip, and what the UTF-16 validation really accepts.
\<close>

unbundle bit_operations_syntax

type_synonym SQLWCHAR = "16 word"
type_synonym code_point = nat

section \<open>Code points\<close>

abbreviation (input) LEAD_SURROGATE_MIN :: nat where "LEAD_SURROGATE_MIN \<equiv> 0xd800"
abbreviation (input) LEAD_SURROGATE_MAX :: nat where "LEAD_SURROGATE_MAX \<equiv> 0xdbff"
abbreviation (input) TRAIL_SURROGATE_MIN :: nat where "TRAIL_SURROGATE_MIN \<equiv> 0xdc00"
abbreviation (input) TRAIL_SURROGATE_MAX :: nat where "TRAIL_SURROGATE_MAX \<equiv> 0xdfff"
abbreviation (input) LEAD_OFFSET :: nat where "LEAD_OFFSET \<equiv> 0xd7c0"
abbreviation (input) SURROGATE_OFFSET :: nat where "SURROGATE_OFFSET \<equiv> 0xfca02400"
abbreviation (input) CODE_POINT_MAX :: nat where "CODE_POINT_MAX \<equiv> 0x0010ffff"

definition mask8 :: "char \<Rightarrow> nat" where
  "mask8 oc = of_char oc"

definition mask16 :: "SQLWCHAR \<Rightarrow> code_point" where
  "mask16 oc = unat oc"

definition is_trail :: "char \<Rightarrow> bool" where
  "is_trail oc \<longleftrightarrow> drop_bit 6 (mask8 oc) = 0x2"

definition is_lead_surrogate :: "code_point \<Rightarrow> bool" where
  "is_lead_surrogate cp \<longleftrightarrow> cp \<ge> LEAD_SURROGATE_MIN \<and> cp \<le> LEAD_SURROGATE_MAX"

definition is_trail_surrogate :: "code_point \<Rightarrow> bool" where
  "is_trail_surrogate cp \<longleftrightarrow> cp \<ge> TRAIL_SURROGATE_MIN \<and> cp \<le> TRAIL_SURROGATE_MAX"

definition is_surrogate :: "code_point \<Rightarrow> bool" where
  "is_surrogate cp \<longleftrightarrow> cp \<ge> LEAD_SURROGATE_MIN \<and> cp \<le> TRAIL_SURROGATE_MAX"

definition is_code_point_valid :: "code_point \<Rightarrow> bool" where
  "is_code_point_valid cp \<longleftrightarrow> cp \<le> CODE_POINT_MAX \<and> \<not> is_surrogate cp"

definition is_in_bmp :: "code_point \<Rightarrow> bool" where
  "is_in_bmp cp \<longleftrightarrow> cp < 0x10000"

section \<open>UTF-8 sequences\<close>

definition sequence_length :: "char \<Rightarrow> nat" where
  "sequence_length lead_oc = (let lead = mask8 lead_oc in
     if lead < 0x80 then 1
     else if drop_bit 5 lead = 0x6 then 2
     else if drop_bit 4 lead = 0xe then 3
     else if drop_bit 3 lead = 0x1e then 4
     else 0)"

definition is_overlong_sequence :: "code_point \<Rightarrow> nat \<Rightarrow> bool" where
  "is_overlong_sequence cp len =
     (if cp < 0x80 then len \<noteq> 1
      else if cp < 0x800 then len \<noteq> 2
      else if cp < 0x10000 then len \<noteq> 3
      else False)"

text \<open>\<^verbatim>\<open>utf_error\<close>, less \<^verbatim>\<open>UTF8_OK\<close>, which is the right summand of a result.\<close>

datatype utf_error = NOT_ENOUGH_ROOM | INVALID_LEAD | INCOMPLETE_SEQUENCE
  | OVERLONG_SEQUENCE | INVALID_CODE_POINT

text \<open>\<^verbatim>\<open>increase_safely\<close> advances the iterator; the new position is returned.\<close>

fun increase_safely :: "string \<Rightarrow> utf_error + string" where
  "increase_safely [] = Inl NOT_ENOUGH_ROOM"
| "increase_safely (_ # it) =
     (if it = [] then Inl NOT_ENOUGH_ROOM
      else if \<not> is_trail (hd it) then Inl INCOMPLETE_SEQUENCE
      else Inr it)"

definition get_sequence_1 :: "string \<Rightarrow> utf_error + string \<times> code_point" where
  "get_sequence_1 it =
     (if it = [] then Inl NOT_ENOUGH_ROOM else Inr (it, mask8 (hd it)))"

definition get_sequence_2 :: "string \<Rightarrow> utf_error + string \<times> code_point" where
  "get_sequence_2 it =
     (if it = [] then Inl NOT_ENOUGH_ROOM else
      let cp = mask8 (hd it) in
      case increase_safely it of Inl e \<Rightarrow> Inl e | Inr it \<Rightarrow>
        Inr (it, (push_bit 6 cp AND 0x7ff) + (mask8 (hd it) AND 0x3f)))"

definition get_sequence_3 :: "string \<Rightarrow> utf_error + string \<times> code_point" where
  "get_sequence_3 it =
     (if it = [] then Inl NOT_ENOUGH_ROOM else
      let cp = mask8 (hd it) in
      case increase_safely it of Inl e \<Rightarrow> Inl e | Inr it \<Rightarrow>
      let cp = (push_bit 12 cp AND 0xffff) + (push_bit 6 (mask8 (hd it)) AND 0xfff) in
      case increase_safely it of Inl e \<Rightarrow> Inl e | Inr it \<Rightarrow>
        Inr (it, cp + (mask8 (hd it) AND 0x3f)))"

definition get_sequence_4 :: "string \<Rightarrow> utf_error + string \<times> code_point" where
  "get_sequence_4 it =
     (if it = [] then Inl NOT_ENOUGH_ROOM else
      let cp = mask8 (hd it) in
      case increase_safely it of Inl e \<Rightarrow> Inl e | Inr it \<Rightarrow>
      let cp = (push_bit 18 cp AND 0x1fffff) + (push_bit 12 (mask8 (hd it)) AND 0x3ffff) in
      case increase_safely it of Inl e \<Rightarrow> Inl e | Inr it \<Rightarrow>
      let cp = cp + (push_bit 6 (mask8 (hd it)) AND 0xfff) in
      case increase_safely it of Inl e \<Rightarrow> Inl e | Inr it \<Rightarrow>
        Inr (it, cp + (mask8 (hd it) AND 0x3f)))"

text \<open>On success the position after the sequence is returned with the code point; on failure
  the caller's iterator is back at the start of the sequence.\<close>

definition validate_next :: "string \<Rightarrow> utf_error + string \<times> code_point" where
  "validate_next it =
     (if it = [] then Inl NOT_ENOUGH_ROOM else
      let len = sequence_length (hd it) in
      if len = 0 then Inl INVALID_LEAD else
      case (if len = 1 then get_sequence_1 it
            else if len = 2 then get_sequence_2 it
            else if len = 3 then get_sequence_3 it
            else get_sequence_4 it) of
        Inl e \<Rightarrow> Inl e
      | Inr (it', cp) \<Rightarrow>
          if is_code_point_valid cp then
            if \<not> is_overlong_sequence cp len then Inr (tl it', cp)
            else Inl OVERLONG_SEQUENCE
          else Inl INVALID_CODE_POINT)"

text \<open>\<^verbatim>\<open>internal::append\<close>: the octets pushed to the back of the result.\<close>

definition utf8_append :: "code_point \<Rightarrow> string" where
  "utf8_append cp =
     (if cp < 0x80 then [char_of cp]
      else if cp < 0x800 then
        [char_of (drop_bit 6 cp OR 0xc0), char_of ((cp AND 0x3f) OR 0x80)]
      else if cp < 0x10000 then
        [char_of (drop_bit 12 cp OR 0xe0), char_of ((drop_bit 6 cp AND 0x3f) OR 0x80),
         char_of ((cp AND 0x3f) OR 0x80)]
      else
        [char_of (drop_bit 18 cp OR 0xf0), char_of ((drop_bit 12 cp AND 0x3f) OR 0x80),
         char_of ((drop_bit 6 cp AND 0x3f) OR 0x80), char_of ((cp AND 0x3f) OR 0x80)])"

text \<open>The body of \<^verbatim>\<open>append16\<close>, which the loop of \<^verbatim>\<open>utf8to16\<close> repeats inline.\<close>

definition append16 :: "code_point \<Rightarrow> SQLWCHAR list" where
  "append16 cp =
     (if is_in_bmp cp then [of_nat cp]
      else [of_nat (LEAD_OFFSET + drop_bit 10 cp), of_nat (TRAIL_SURROGATE_MIN + (cp AND 0x3ff))])"

text \<open>\<^verbatim>\<open>unchecked::next\<close>: reading past the end of the buffer is \<open>None\<close>.\<close>

fun utf8_next :: "string \<Rightarrow> (code_point \<times> string) option" where
  "utf8_next [] = None"
| "utf8_next (oc # it) =
     (let cp = mask8 oc; len = sequence_length oc in
      if len = 2 then
        (case it of b1 # it \<Rightarrow> Some ((push_bit 6 cp AND 0x7ff) + (mask8 b1 AND 0x3f), it)
         | _ \<Rightarrow> None)
      else if len = 3 then
        (case it of b1 # b2 # it \<Rightarrow>
           Some ((push_bit 12 cp AND 0xffff) + (push_bit 6 (mask8 b1) AND 0xfff)
                 + (mask8 b2 AND 0x3f), it)
         | _ \<Rightarrow> None)
      else if len = 4 then
        (case it of b1 # b2 # b3 # it \<Rightarrow>
           Some ((push_bit 18 cp AND 0x1fffff) + (push_bit 12 (mask8 b1) AND 0x3ffff)
                 + (push_bit 6 (mask8 b2) AND 0xfff) + (mask8 b3 AND 0x3f), it)
         | _ \<Rightarrow> None)
      else Some (cp, it))"

lemma utf8_next_shorter: "utf8_next bs = Some (cp, r) \<Longrightarrow> length r < length bs"
  by (cases bs) (auto simp: Let_def split: if_splits list.splits)

lemma increase_safely_shorter: "increase_safely it = Inr it' \<Longrightarrow> length it' < length it"
  by (cases it) (auto split: if_splits)

lemma validate_next_shorter: "validate_next bs = Inr (r, cp) \<Longrightarrow> length r < length bs"
  by (cases bs)
    (auto simp: validate_next_def Let_def get_sequence_1_def get_sequence_2_def
      get_sequence_3_def get_sequence_4_def
      dest!: increase_safely_shorter split: if_splits sum.splits)

section \<open>The library's loops\<close>

text \<open>\<^verbatim>\<open>utf8::find_invalid\<close> returns an iterator: the suffix that starts at the first
  invalid sequence, empty when it is the end of the buffer.\<close>

function find_invalid :: "string \<Rightarrow> string" where
  "find_invalid result =
     (if result = [] then []
      else case validate_next result of
        Inl _ \<Rightarrow> result
      | Inr (it, _) \<Rightarrow> find_invalid it)"
  by auto
termination
  by (relation "measure length") (auto dest: validate_next_shorter)

declare find_invalid.simps [simp del]

lemma dropWhile_tl_shorter: "xs \<noteq> [] \<Longrightarrow> length (dropWhile P (tl xs)) < length xs"
  using length_dropWhile_le [of P "tl xs"] by (cases xs) auto

text \<open>\<^verbatim>\<open>utf8::replace_invalid\<close>; the replacement is appended with the checked
  \<^verbatim>\<open>utf8::append\<close>, whose only caller passes the valid code point U+FFFD.\<close>

function replace_invalid :: "string \<Rightarrow> code_point \<Rightarrow> string" where
  "replace_invalid start replacement =
     (if start = [] then []
      else case validate_next start of
        Inr (it, _) \<Rightarrow> take (length start - length it) start @ replace_invalid it replacement
      | Inl NOT_ENOUGH_ROOM \<Rightarrow> utf8_append replacement
      | Inl INVALID_LEAD \<Rightarrow> utf8_append replacement @ replace_invalid (tl start) replacement
      | Inl _ \<Rightarrow> utf8_append replacement
          @ replace_invalid (dropWhile is_trail (tl start)) replacement)"
  by auto
termination
  by (relation "measure (\<lambda>(start, _). length start)")
    (auto dest: validate_next_shorter simp: dropWhile_tl_shorter)

declare replace_invalid.simps [simp del]

text \<open>\<^verbatim>\<open>unchecked::utf16to8\<close>.\<close>

fun utf16to8 :: "SQLWCHAR list \<Rightarrow> string" where
  "utf16to8 [] = []"
| "utf16to8 (c # start) =
     (let cp = mask16 c in
      if is_lead_surrogate cp then
        (case start of
           [] \<Rightarrow> []
         | t # start \<Rightarrow>
             utf8_append ((push_bit 10 cp + mask16 t + SURROGATE_OFFSET) mod 2 ^ 32) @ utf16to8 start)
      else utf8_append cp @ utf16to8 start)"

text \<open>\<^verbatim>\<open>unchecked::utf8to16\<close>, with \<open>None\<close> for a read past the end.\<close>

function utf8to16 :: "string \<Rightarrow> SQLWCHAR list option" where
  "utf8to16 start =
     (if start = [] then Some []
      else case utf8_next start of
        None \<Rightarrow> None
      | Some (cp, it) \<Rightarrow> map_option
          (\<lambda>rest. (if cp > 0xffff
                   then [of_nat (drop_bit 10 cp + LEAD_OFFSET), of_nat ((cp AND 0x3ff) + TRAIL_SURROGATE_MIN)]
                   else [of_nat cp]) @ rest)
          (utf8to16 it))"
  by auto
termination
  by (relation "measure length") (auto dest: utf8_next_shorter)

declare utf8to16.simps [simp del]

section \<open>The driver's conversions\<close>

text \<open>\<^verbatim>\<open>utf16_find_invalid\<close>, again the suffix at the returned iterator: for a lead
  surrogate followed by another unit \<^verbatim>\<open>start - 1\<close> is that unit, for a lead surrogate at the
  end it is the surrogate itself, and for a lone trail surrogate \<^verbatim>\<open>start\<close> is already the
  position after it.\<close>

fun utf16_find_invalid :: "SQLWCHAR list \<Rightarrow> SQLWCHAR list" where
  "utf16_find_invalid [] = []"
| "utf16_find_invalid (c # start) =
     (let cp = mask16 c in
      if is_lead_surrogate cp then
        (case start of
           t # start' \<Rightarrow> if \<not> is_trail_surrogate (mask16 t) then start else utf16_find_invalid start'
         | [] \<Rightarrow> [c])
      else if is_trail_surrogate cp then start
      else utf16_find_invalid start)"

fun utf16_replace_invalid :: "SQLWCHAR list \<Rightarrow> code_point \<Rightarrow> SQLWCHAR list" where
  "utf16_replace_invalid [] replacement = []"
| "utf16_replace_invalid (char1 # start) replacement =
     (let cp = mask16 char1 in
      if is_lead_surrogate cp then
        (case start of
           char2 # start \<Rightarrow>
             (if is_trail_surrogate (mask16 char2)
              then char1 # char2 # utf16_replace_invalid start replacement
              else of_nat replacement # char2 # utf16_replace_invalid start replacement)
         | [] \<Rightarrow> [of_nat replacement])
      else if is_trail_surrogate cp then of_nat replacement # utf16_replace_invalid start replacement
      else char1 # utf16_replace_invalid start replacement)"

abbreviation (input) invalid_char_replacement :: code_point where
  "invalid_char_replacement \<equiv> 0xfffd"

text \<open>The converted buffer, and the offset of the first invalid character that the optional
  out parameter receives (\<open>None\<close>: the null pointer).\<close>

definition utf16_to_utf8_lenient :: "SQLWCHAR list \<Rightarrow> string \<times> nat option" where
  "utf16_to_utf8_lenient in_buf =
     (let first_invalid_found = utf16_find_invalid in_buf in
      if first_invalid_found = [] then (utf16to8 in_buf, None)
      else (utf16to8 (utf16_replace_invalid in_buf invalid_char_replacement),
            Some (length in_buf - length first_invalid_found)))"

definition utf8_to_utf16_lenient :: "string \<Rightarrow> (SQLWCHAR list \<times> nat option) option" where
  "utf8_to_utf16_lenient in_buf =
     (let first_invalid_found = find_invalid in_buf in
      if first_invalid_found = [] then map_option (\<lambda>res. (res, None)) (utf8to16 in_buf)
      else map_option (\<lambda>res. (res, Some (length in_buf - length first_invalid_found)))
             (utf8to16 (replace_invalid in_buf invalid_char_replacement)))"

section \<open>Arithmetic of the encodings\<close>

lemma nat_or_add:
  fixes x :: nat
  assumes "x < 2 ^ n"
  shows "x OR (2 ^ n * k) = 2 ^ n * k + x"
proof -
  have t: "take_bit n x = x" using assms by (simp add: take_bit_nat_eq_self)
  have "take_bit n x AND push_bit n k = 0"
    by (intro bit_eqI) (auto simp: bit_and_iff bit_push_bit_iff bit_take_bit_iff) 
  then have "x OR push_bit n k = x + push_bit n k"
    unfolding t by (simp add: disjunctive_add_eq_or)
  then show ?thesis by (simp add: push_bit_eq_mult mult.commute)
qed
lemma and_masks:
  fixes x :: nat
  shows "x AND 0x3f = x mod 64" "x AND 0x3ff = x mod 1024" "x AND 0x7ff = x mod 2048"
   "x AND 0xfff = x mod 4096" "x AND 0xffff = x mod 65536" "x AND 0x3ffff = x mod 262144"
   "x AND 0x1fffff = x mod 2097152"
  using take_bit_eq_mask [of 6 x] take_bit_eq_mask [of 10 x] take_bit_eq_mask [of 11 x] take_bit_eq_mask [of 12 x]
    take_bit_eq_mask [of 16 x] take_bit_eq_mask [of 18 x] take_bit_eq_mask [of 21 x]
  by (simp_all add: mask_eq_exp_minus_1 take_bit_eq_mod)
lemma or_leads:
  fixes x :: nat
  shows "x < 32 \<Longrightarrow> x OR 0xc0 = 192 + x" "x < 64 \<Longrightarrow> x OR 0x80 = 128 + x"
    "x < 16 \<Longrightarrow> x OR 0xe0 = 224 + x" "x < 8 \<Longrightarrow> x OR 0xf0 = 240 + x"
  using nat_or_add [of x 5 6] nat_or_add [of x 6 2] nat_or_add [of x 4 14] nat_or_add [of x 3 30]
  by simp_all
lemmas bit_arith = and_masks or_leads push_bit_eq_mult drop_bit_eq_div

lemma mask8_char_of [simp]: "n < 256 \<Longrightarrow> mask8 (char_of n) = n"
  by (simp add: mask8_def)
lemma mask8_less [simp]: "mask8 c < 256"
  using nat_of_char_less_256 [of c] by (simp add: mask8_def)
lemma char_of_mask8 [simp]: "char_of (mask8 c) = c"
  by (simp add: mask8_def)

lemma utf8_append_arith:
  assumes "cp \<le> CODE_POINT_MAX"
  shows "utf8_append cp = 
     (if cp < 0x80 then [char_of cp]
      else if cp < 0x800 then [char_of (192 + cp div 64), char_of (128 + cp mod 64)]
      else if cp < 0x10000 then
        [char_of (224 + cp div 4096), char_of (128 + cp div 64 mod 64), char_of (128 + cp mod 64)]
      else
        [char_of (240 + cp div 262144), char_of (128 + cp div 4096 mod 64),
         char_of (128 + cp div 64 mod 64), char_of (128 + cp mod 64)])"
proof -
  have "cp < 2048 \<Longrightarrow> cp div 64 < 32" "cp < 65536 \<Longrightarrow> cp div 4096 < 16" "cp div 262144 < 8"
    using assms by auto
  then show ?thesis by (simp add: utf8_append_def bit_arith)
qed

lemma strip_lead: "a < m \<Longrightarrow> (m * k + a) * c mod (m * c) = a * c" for a m k c :: nat
  by (simp add: mod_mult_mult2)

lemma pow2_6_12_18: "2 ^ 6 = (64::nat)" "2 ^ 12 = (4096::nat)" "2 ^ 18 = (262144::nat)"
  by simp_all

lemma lead_strip:
  fixes a :: nat
  shows "a < 32 \<Longrightarrow> push_bit 6 (192 + a) AND 0x7ff = a * 64"
    "a < 16 \<Longrightarrow> push_bit 12 (224 + a) AND 0xffff = a * 4096"
    "a < 8 \<Longrightarrow> push_bit 18 (240 + a) AND 0x1fffff = a * 262144"
    "a < 64 \<Longrightarrow> push_bit 6 (128 + a) AND 0xfff = a * 64"
    "a < 64 \<Longrightarrow> push_bit 12 (128 + a) AND 0x3ffff = a * 4096"
    "a < 64 \<Longrightarrow> (128 + a) AND 0x3f = a"
  using strip_lead [of a 32 6 64] strip_lead [of a 16 14 4096] strip_lead [of a 8 30 262144]
    strip_lead [of a 64 2 64] strip_lead [of a 64 2 4096] strip_lead [of a 64 2 1]
  by (simp_all only: and_masks push_bit_eq_mult arith_simps pow2_6_12_18 mult_1_right)

lemma lead_div:
  fixes a :: nat
  shows "a < 32 \<Longrightarrow> (192 + a) div 32 = 6" "a < 16 \<Longrightarrow> (224 + a) div 32 = 7"
    "a < 16 \<Longrightarrow> (224 + a) div 16 = 14" "a < 8 \<Longrightarrow> (240 + a) div 32 = 7"
    "a < 8 \<Longrightarrow> (240 + a) div 16 = 15" "a < 8 \<Longrightarrow> (240 + a) div 8 = 30"
    "a < 64 \<Longrightarrow> (128 + a) div 64 = 2"
  by linarith+

lemma is_trail_char_of: "(n::nat) < 64 \<Longrightarrow> is_trail (char_of (128 + n))"
  by (simp add: is_trail_def drop_bit_eq_div lead_div)

lemma sequence_length_arith:
  fixes n :: nat
  shows "n < 128 \<Longrightarrow> sequence_length (char_of n) = 1"
    "n < 32 \<Longrightarrow> sequence_length (char_of (192 + n)) = 2"
    "n < 16 \<Longrightarrow> sequence_length (char_of (224 + n)) = 3"
    "n < 8 \<Longrightarrow> sequence_length (char_of (240 + n)) = 4"
  by (simp_all add: sequence_length_def Let_def drop_bit_eq_div lead_div)

lemmas get_sequence_defs = get_sequence_1_def get_sequence_2_def get_sequence_3_def get_sequence_4_def

text \<open>The base-64 digits of a code point.\<close>

lemma digits2: "(cp::nat) div 64 * 64 + cp mod 64 = cp"
  by simp

lemma digits3: "(cp::nat) div 4096 * 4096 + cp div 64 mod 64 * 64 + cp mod 64 = cp"
proof -
  have "cp div 4096 = cp div 64 div 64" by (simp flip: div_mult2_eq)
  then show ?thesis using div_mult_mod_eq [of cp 64] div_mult_mod_eq [of "cp div 64" 64] by linarith
qed

lemma digits4:
  "(cp::nat) div 262144 * 262144 + cp div 4096 mod 64 * 4096 + cp div 64 mod 64 * 64 + cp mod 64 = cp"
proof -
  have "cp div 262144 = cp div 4096 div 64" by (simp flip: div_mult2_eq)
  then show ?thesis using digits3 [of cp] div_mult_mod_eq [of "cp div 4096" 64] by linarith
qed

lemma validate_next_append_any:
  assumes "cp \<le> CODE_POINT_MAX"
  shows "validate_next (utf8_append cp @ r)
    = (if is_code_point_valid cp then Inr (r, cp) else Inl INVALID_CODE_POINT)"
proof -
  note defs = utf8_append_arith validate_next_def sequence_length_arith get_sequence_defs
    is_overlong_sequence_def is_trail_char_of lead_strip digits2 digits3 digits4
  consider "cp < 128" | "128 \<le> cp" "cp < 2048" "cp div 64 < 32"
    | "2048 \<le> cp" "cp < 65536" "cp div 4096 < 16" | "65536 \<le> cp" "cp div 262144 < 8"
    using assms by linarith
  then show ?thesis using assms by cases (simp_all add: defs)
qed

lemma validate_next_append:
  "is_code_point_valid cp \<Longrightarrow> validate_next (utf8_append cp @ r) = Inr (r, cp)"
  by (simp add: validate_next_append_any is_code_point_valid_def)

lemma is_trailE:
  assumes "is_trail b" obtains m where "b = char_of (128 + m)" "m < (64::nat)"
proof
  have "mask8 b div 64 = 2" using assms by (simp add: is_trail_def drop_bit_eq_div)
  then have "128 \<le> mask8 b" "mask8 b < 192" by linarith+
  then show "b = char_of (128 + (mask8 b - 128))" "mask8 b - 128 < 64" by simp_all
qed

lemma sequence_lengthE:
  assumes "sequence_length b = l" "l \<noteq> 0"
  obtains n where "l = 1" "b = char_of n" "n < (128::nat)"
  | n where "l = 2" "b = char_of (192 + n)" "n < (32::nat)"
  | n where "l = 3" "b = char_of (224 + n)" "n < (16::nat)"
  | n where "l = 4" "b = char_of (240 + n)" "n < (8::nat)"
proof -
  have split: "(mask8 b < 128 \<and> l = 1) \<or> (mask8 b div 32 = 6 \<and> l = 2) \<or> (mask8 b div 16 = 14 \<and> l = 3)
      \<or> (mask8 b div 8 = 30 \<and> l = 4)"
    using assms by (auto simp: sequence_length_def Let_def drop_bit_eq_div split: if_splits)
  have eq: "k \<le> mask8 b \<Longrightarrow> b = char_of (k + (mask8 b - k))" for k by simp
  from split show thesis
  proof (elim disjE conjE)
    assume "mask8 b < 128" "l = 1" then show thesis using that(1) [of "mask8 b"] by simp
  next
    assume *: "mask8 b div 32 = 6" "l = 2"
    then have "192 \<le> mask8 b \<and> mask8 b - 192 < 32" by linarith
    with * show thesis using that(2) [of "mask8 b - 192"] eq [of 192] by blast
  next
    assume *: "mask8 b div 16 = 14" "l = 3"
    then have "224 \<le> mask8 b \<and> mask8 b - 224 < 16" by linarith
    with * show thesis using that(3) [of "mask8 b - 224"] eq [of 224] by blast
  next
    assume *: "mask8 b div 8 = 30" "l = 4"
    then have "240 \<le> mask8 b \<and> mask8 b - 240 < 8" by linarith
    with * show thesis using that(4) [of "mask8 b - 240"] eq [of 240] by blast
  qed
qed

lemma increase_safely_Inr:
  "increase_safely it = Inr it' \<longleftrightarrow> (\<exists>b0 b r. it = b0 # b # r \<and> is_trail b \<and> it' = b # r)"
  by (cases it; cases "tl it") auto


lemma append_digits2: "n * 64 + m \<ge> 128 \<Longrightarrow> n < 32 \<Longrightarrow> m < 64 \<Longrightarrow> 
  utf8_append (n * 64 + m) = [char_of (192 + n), char_of (128 + m)]" for n m :: nat
 by (simp add: utf8_append_arith)

lemma base64:
  fixes x k :: nat
  assumes "k < 64"
  shows "(x * 64 + k) div 64 = x" "(x * 64 + k) mod 64 = k"
    "(x * 64 + k) div 4096 = x div 64" "(x * 64 + k) div 262144 = x div 64 div 64"
proof -
  show *: "(x * 64 + k) div 64 = x" and "(x * 64 + k) mod 64 = k" using assms by simp_all
  show "(x * 64 + k) div 4096 = x div 64"
    using div_mult2_eq [of "x * 64 + k" 64 64] * by simp
  show "(x * 64 + k) div 262144 = x div 64 div 64"
    using div_mult2_eq [of "x * 64 + k" 64 4096] div_mult2_eq [of x 64 64] * by simp
qed

lemma append_digits3:
  fixes n m k :: nat
  assumes "n * 4096 + m * 64 + k \<ge> 2048" "n < 16" "m < 64" "k < 64"
  shows "utf8_append (n * 4096 + m * 64 + k) = [char_of (224 + n), char_of (128 + m), char_of (128 + k)]"
proof -
  have eq: "n * 4096 + m * 64 + k = (n * 64 + m) * 64 + k" by simp
  have "n * 4096 + m * 64 + k < 65536" using assms by linarith
  with assms show ?thesis unfolding eq by (simp add: utf8_append_arith base64 del: distrib_right_numeral)
qed

lemma append_digits4:
  fixes n m k l :: nat
  assumes "n * 262144 + m * 4096 + k * 64 + l \<ge> 65536" "n * 262144 + m * 4096 + k * 64 + l \<le> CODE_POINT_MAX"
    "m < 64" "k < 64" "l < 64"
  shows "utf8_append (n * 262144 + m * 4096 + k * 64 + l)
    = [char_of (240 + n), char_of (128 + m), char_of (128 + k), char_of (128 + l)]"
proof -
  have eq: "n * 262144 + m * 4096 + k * 64 + l = ((n * 64 + m) * 64 + k) * 64 + l" by simp
  show ?thesis using assms unfolding eq by (simp add: utf8_append_arith base64 del: distrib_right_numeral)
qed

lemma validate_next_Inr:
  assumes "validate_next bs = Inr (r, cp)"
  shows "is_code_point_valid cp \<and> bs = utf8_append cp @ r"
proof -
  from assms obtain b0 bs' where bs: "bs = b0 # bs'" and nz: "sequence_length b0 \<noteq> 0"
    by (cases bs) (auto simp: validate_next_def Let_def split: if_splits)
  from assms have valid: "is_code_point_valid cp"
    by (auto simp: validate_next_def Let_def split: if_splits sum.splits)
  then have le: "cp \<le> CODE_POINT_MAX" by (simp add: is_code_point_valid_def)
  note decode = validate_next_def get_sequence_defs increase_safely_Inr is_overlong_sequence_def lead_strip
  consider (1) n where "sequence_length b0 = 1" "b0 = char_of n" "n < (128::nat)"
    | (2) n where "sequence_length b0 = 2" "b0 = char_of (192 + n)" "n < (32::nat)"
    | (3) n where "sequence_length b0 = 3" "b0 = char_of (224 + n)" "n < (16::nat)"
    | (4) n where "sequence_length b0 = 4" "b0 = char_of (240 + n)" "n < (8::nat)"
    using nz by (rule sequence_lengthE [OF refl])
  then have "bs = utf8_append cp @ r"
  proof cases
    case (1 n)
    with assms show ?thesis
      by (auto simp: bs decode utf8_append_arith split: if_splits)
  next
    case (2 n)
    with assms obtain b1 r' where "bs' = b1 # r'" "is_trail b1"
      by (auto simp: bs decode simp del: increase_safely.simps split: if_splits sum.splits)
    moreover from this(2) obtain m :: nat where "b1 = char_of (128 + m)" "m < 64" by (rule is_trailE)
    ultimately show ?thesis using assms 2
      by (auto simp: bs decode append_digits2 split: if_splits)
  next
    case (3 n)
    with assms obtain b1 b2 r' where "bs' = b1 # b2 # r'" and t: "is_trail b1" "is_trail b2"
      by (auto simp: bs decode simp del: increase_safely.simps split: if_splits sum.splits)
    moreover from t(1) obtain m :: nat where "b1 = char_of (128 + m)" "m < 64" by (rule is_trailE)
    moreover from t(2) obtain k :: nat where "b2 = char_of (128 + k)" "k < 64" by (rule is_trailE)
    ultimately show ?thesis using assms 3
      by (auto simp: bs decode append_digits3 split: if_splits)
  next
    case (4 n)
    with assms obtain b1 b2 b3 r' where "bs' = b1 # b2 # b3 # r'" and t: "is_trail b1" "is_trail b2" "is_trail b3"
      by (auto simp: bs decode simp del: increase_safely.simps split: if_splits sum.splits)
    moreover from t(1) obtain m :: nat where "b1 = char_of (128 + m)" "m < 64" by (rule is_trailE)
    moreover from t(2) obtain k :: nat where "b2 = char_of (128 + k)" "k < 64" by (rule is_trailE)
    moreover from t(3) obtain l :: nat where "b3 = char_of (128 + l)" "l < 64" by (rule is_trailE)
    ultimately show ?thesis using assms 4 le
      by (auto simp: bs decode append_digits4 split: if_splits)
  qed
  with valid show ?thesis by simp
qed

lemma utf8_next_append:
  assumes "is_code_point_valid cp"
  shows "utf8_next (utf8_append cp @ r) = Some (cp, r)"
proof -
  have le: "cp \<le> CODE_POINT_MAX" using assms by (simp add: is_code_point_valid_def)
  note defs = utf8_append_arith sequence_length_arith lead_strip digits2 digits3 digits4
  consider "cp < 128" | "128 \<le> cp" "cp < 2048" "cp div 64 < 32"
    | "2048 \<le> cp" "cp < 65536" "cp div 4096 < 16" | "65536 \<le> cp" "cp div 262144 < 8"
    using le by linarith
  then show ?thesis using le by cases (simp_all add: defs)
qed

section \<open>Texts and their encodings\<close>

text \<open>Specification: a text is a list of scalar values, and each encoding is the concatenation
  of the encodings of its elements.\<close>

definition scalars :: "code_point list \<Rightarrow> bool" where
  "scalars cps = list_all is_code_point_valid cps"

definition encode_utf8 :: "code_point list \<Rightarrow> string" where
  "encode_utf8 cps = concat (map utf8_append cps)"

definition encode_utf16 :: "code_point list \<Rightarrow> SQLWCHAR list" where
  "encode_utf16 cps = concat (map append16 cps)"

lemma encode_simps [simp]:
  "scalars []" "scalars (cp # cps) \<longleftrightarrow> is_code_point_valid cp \<and> scalars cps"
  "encode_utf8 [] = []" "encode_utf8 (cp # cps) = utf8_append cp @ encode_utf8 cps"
  "encode_utf16 [] = []" "encode_utf16 (cp # cps) = append16 cp @ encode_utf16 cps"
  by (simp_all add: scalars_def encode_utf8_def encode_utf16_def)

lemma utf8_append_not_Nil [simp]: "utf8_append cp \<noteq> []"
  by (simp add: utf8_append_def)

lemma utf8_append_length: "length (utf8_append cp) \<le> (if cp < 0x10000 then 3 else 4)"
  by (simp add: utf8_append_def)

lemma find_invalid_encode: "scalars cps \<Longrightarrow> find_invalid (encode_utf8 cps) = []"
  by (induction cps) (simp_all add: find_invalid.simps validate_next_append)

lemma find_invalid_Nil:
  "find_invalid bs = [] \<Longrightarrow> \<exists>cps. scalars cps \<and> bs = encode_utf8 cps"
proof (induction bs rule: find_invalid.induct)
  case (1 bs)
  show ?case
  proof (cases "bs = []")
    case True
    then show ?thesis by (intro exI [of _ "[]"]) simp
  next
    case False
    with "1.prems" obtain it cp where v: "validate_next bs = Inr (it, cp)" and "find_invalid it = []"
      by (subst (asm) find_invalid.simps) (auto split: sum.splits)
    with "1.IH" [OF False v refl] obtain cps where "scalars cps" "it = encode_utf8 cps" by blast
    with validate_next_Inr [OF v] show ?thesis by (intro exI [of _ "cp # cps"]) simp
  qed
qed

lemma replace_invalid_encode:
  "is_code_point_valid r \<Longrightarrow> \<exists>cps. scalars cps \<and> replace_invalid bs r = encode_utf8 cps"
proof (induction bs r rule: replace_invalid.induct)
  case (1 bs r)
  have step: "\<exists>cps'. scalars cps' \<and> utf8_append cp @ rest = encode_utf8 cps'"
    if "is_code_point_valid cp" "\<exists>cps. scalars cps \<and> rest = encode_utf8 cps" for cp rest
    using that by (metis encode_simps(2,4))
  have base: "\<exists>cps. scalars cps \<and> [] = encode_utf8 cps" by (intro exI [of _ "[]"]) simp
  show ?case
  proof (cases "bs = []")
    case True
    then show ?thesis using base by (simp add: replace_invalid.simps)
  next
    case False
    show ?thesis
    proof (cases "validate_next bs")
      case (Inr p)
      obtain it cp where p: "p = (it, cp)" by fastforce
      with Inr validate_next_Inr have "is_code_point_valid cp" "bs = utf8_append cp @ it" by blast+
      with step "1.IH"(5) [OF False Inr p [symmetric] "1.prems"] show ?thesis
        using False Inr p by (subst replace_invalid.simps) simp
    next
      case (Inl e)
      then show ?thesis
        using False base step [OF "1.prems"] "1.IH"(1-4) [OF False Inl] "1.prems"
        by (subst replace_invalid.simps) (cases e; simp; fastforce)
    qed
  qed
qed

lemma utf8to16_encode: "scalars cps \<Longrightarrow> utf8to16 (encode_utf8 cps) = Some (encode_utf16 cps)"
  by (induction cps) (simp_all add: utf8to16.simps utf8_next_append append16_def is_in_bmp_def add.commute)

lemma utf8_to_utf16_lenient_encode:
  "scalars cps \<Longrightarrow> utf8_to_utf16_lenient (encode_utf8 cps) = Some (encode_utf16 cps, None)"
  by (simp add: utf8_to_utf16_lenient_def find_invalid_encode utf8to16_encode)

lemma replacement_valid [simp]: "is_code_point_valid invalid_char_replacement"
  by (simp add: is_code_point_valid_def is_surrogate_def)

lemma utf8_to_utf16_lenient_safe:
  "\<exists>cps inv. scalars cps \<and> utf8_to_utf16_lenient bs = Some (encode_utf16 cps, inv)"
proof (cases "find_invalid bs = []")
  case True
  then show ?thesis using find_invalid_Nil utf8_to_utf16_lenient_encode by blast
next
  case False
  moreover obtain cps where "scalars cps" "replace_invalid bs invalid_char_replacement = encode_utf8 cps"
    using replace_invalid_encode [OF replacement_valid] by blast
  ultimately show ?thesis by (auto simp: utf8_to_utf16_lenient_def utf8to16_encode)
qed

section \<open>UTF-16 units and surrogate pairs\<close>

lemma mask16_of_nat [simp]: "n < 65536 \<Longrightarrow> mask16 (of_nat n) = n"
  by (simp add: mask16_def unsigned_of_nat take_bit_nat_eq_self)

lemma of_nat_mask16 [simp]: "of_nat (mask16 c) = c"
  by (simp add: mask16_def)

lemma mask16_less [simp]: "mask16 c < 65536"
  using unsigned_less [of c] by (simp add: mask16_def)

lemmas surrogate_defs = is_lead_surrogate_def is_trail_surrogate_def is_surrogate_def

lemma append16_bmp:
  assumes "is_code_point_valid cp" "cp < 65536"
  shows "append16 cp = [of_nat cp]" "\<not> is_lead_surrogate cp" "\<not> is_trail_surrogate cp"
  using assms by (auto simp: append16_def is_in_bmp_def is_code_point_valid_def surrogate_defs)

lemma append16_supplementary:
  assumes "is_code_point_valid cp" "65536 \<le> cp"
  obtains lead trail where "append16 cp = [of_nat lead, of_nat trail]"
    "is_lead_surrogate lead" "is_trail_surrogate trail" "lead < 65536" "trail < 65536"
    "(push_bit 10 lead + trail + SURROGATE_OFFSET) mod 2 ^ 32 = cp"
proof
  let ?lead = "LEAD_OFFSET + cp div 1024" and ?trail = "TRAIL_SURROGATE_MIN + cp mod 1024"
  have le: "cp \<le> CODE_POINT_MAX" using assms by (simp add: is_code_point_valid_def)
  have d: "cp div 1024 \<le> 1087" "64 \<le> cp div 1024" using le assms(2) by linarith+
  show "append16 cp = [of_nat ?lead, of_nat ?trail]"
    using assms by (simp add: append16_def is_in_bmp_def drop_bit_eq_div and_masks)
  show "is_lead_surrogate ?lead" "?lead < 65536" using d by (simp_all add: is_lead_surrogate_def)
  have "cp mod 1024 < 1024" by simp
  then show "is_trail_surrogate ?trail" "?trail < 65536" by (simp_all add: is_trail_surrogate_def)
  have "push_bit 10 ?lead + ?trail + SURROGATE_OFFSET = cp + 2 ^ 32"
    using div_mult_mod_eq [of cp 1024] by (simp add: push_bit_eq_mult)
  then show "(push_bit 10 ?lead + ?trail + SURROGATE_OFFSET) mod 2 ^ 32 = cp" using le by simp
qed

lemma utf16_append16:
  assumes "is_code_point_valid cp"
  shows "utf16to8 (append16 cp @ w) = utf8_append cp @ utf16to8 w"
    and "utf16_find_invalid (append16 cp @ w) = utf16_find_invalid w"
    and "utf16_replace_invalid (append16 cp @ w) r = append16 cp @ utf16_replace_invalid w r"
proof -
  have "utf16to8 (append16 cp @ w) = utf8_append cp @ utf16to8 w
      \<and> utf16_find_invalid (append16 cp @ w) = utf16_find_invalid w
      \<and> utf16_replace_invalid (append16 cp @ w) r = append16 cp @ utf16_replace_invalid w r"
  proof (cases "cp < 65536")
    case True
    then show ?thesis using append16_bmp [OF assms] by simp
  next
    case False
    then have "65536 \<le> cp" by simp
    with assms obtain lead trail where "append16 cp = [of_nat lead, of_nat trail]"
      "is_lead_surrogate lead" "is_trail_surrogate trail" "lead < 65536" "trail < 65536"
      "(push_bit 10 lead + trail + SURROGATE_OFFSET) mod 2 ^ 32 = cp"
      by (rule append16_supplementary)
    then show ?thesis by simp
  qed
  then show "utf16to8 (append16 cp @ w) = utf8_append cp @ utf16to8 w"
    "utf16_find_invalid (append16 cp @ w) = utf16_find_invalid w"
    "utf16_replace_invalid (append16 cp @ w) r = append16 cp @ utf16_replace_invalid w r" by blast+
qed

lemma utf16to8_encode: "scalars cps \<Longrightarrow> utf16to8 (encode_utf16 cps) = encode_utf8 cps"
  by (induction cps) (simp_all add: utf16_append16)

lemma utf16_find_invalid_encode:
  "scalars cps \<Longrightarrow> utf16_find_invalid (encode_utf16 cps @ w) = utf16_find_invalid w"
  by (induction cps) (simp_all add: utf16_append16)

lemma utf16_unit:
  assumes "\<not> is_lead_surrogate (mask16 c)" "\<not> is_trail_surrogate (mask16 c)"
  shows "is_code_point_valid (mask16 c) \<and> append16 (mask16 c) = [c]"
  using assms mask16_less [of c]
  by (auto simp: is_code_point_valid_def surrogate_defs append16_def is_in_bmp_def simp del: mask16_less)

lemma utf16_pair:
  assumes "is_lead_surrogate (mask16 c)" "is_trail_surrogate (mask16 t)"
  shows "\<exists>cp. is_code_point_valid cp \<and> append16 cp = [c, t]"
proof -
  define a b where "a = mask16 c - LEAD_OFFSET" and "b = mask16 t - TRAIL_SURROGATE_MIN"
  have ab: "mask16 c = LEAD_OFFSET + a" "mask16 t = TRAIL_SURROGATE_MIN + b" "a \<le> 1087" "64 \<le> a" "b < 1024"
    using assms by (auto simp: a_def b_def surrogate_defs)
  have dm: "(a * 1024 + b) div 1024 = a" "(a * 1024 + b) mod 1024 = b" using ab(5) by simp_all
  have "is_code_point_valid (a * 1024 + b)" "\<not> a * 1024 + b < 65536"
    using ab(3-) by (auto simp: is_code_point_valid_def is_surrogate_def)
  moreover have "append16 (a * 1024 + b) = [of_nat (mask16 c), of_nat (mask16 t)]"
    unfolding ab(1,2) using calculation(2)
    by (simp only: append16_def is_in_bmp_def drop_bit_eq_div and_masks if_False arith_simps) (use ab(5) in \<open>simp add: dm\<close>)
  ultimately show ?thesis by (intro exI [of _ "a * 1024 + b"]) simp
qed

lemma utf16_find_invalid_Nil:
  "utf16_find_invalid w = [] \<longleftrightarrow>
    (\<exists>cps. scalars cps \<and> (w = encode_utf16 cps
       \<or> (\<exists>t. is_trail_surrogate (mask16 t) \<and> w = encode_utf16 cps @ [t])))" (is "_ \<longleftrightarrow> ?ok w")
proof
  have step: "?ok (append16 cp @ w)" if "is_code_point_valid cp" "?ok w" for cp w
    using that by (metis encode_simps(2,6) append_assoc)
  show "utf16_find_invalid w = [] \<Longrightarrow> ?ok w"
  proof (induction w rule: utf16_find_invalid.induct)
    case 1
    show ?case by (intro exI [of _ "[]"]) simp
  next
    case (2 c w)
    consider "\<not> is_lead_surrogate (mask16 c)" "\<not> is_trail_surrogate (mask16 c)"
      | "is_trail_surrogate (mask16 c)" "\<not> is_lead_surrogate (mask16 c)"
      | "is_lead_surrogate (mask16 c)" by blast
    then show ?case
    proof cases
      case 1
      with 2 have "?ok w" by auto
      with step [OF _ this, of "mask16 c"] utf16_unit [OF 1] show ?thesis by simp
    next
      case 2
      with "2.prems" have "w = []" by simp
      with 2 show ?thesis by (intro exI [of _ "[]"]) simp
    next
      case 3
      with "2.prems" obtain t w' where "w = t # w'" "is_trail_surrogate (mask16 t)" "utf16_find_invalid w' = []"
        by (auto split: list.splits if_splits)
      moreover from this have "?ok w'" using "2.IH"(1) [OF refl 3] by simp
      moreover obtain cp where "is_code_point_valid cp" "append16 cp = [c, t]"
        using utf16_pair [OF 3] calculation(2) by blast
      ultimately show ?thesis using step [of cp w'] by simp
    qed
  qed
  show "?ok w \<Longrightarrow> utf16_find_invalid w = []"
    using utf16_find_invalid_encode [of _ "[]"]
    by (auto simp: utf16_find_invalid_encode surrogate_defs)
qed

section \<open>Buffers at the wide-character entry points\<close>

text \<open>A null-terminated wide string: \<open>None\<close> when no terminator lies in the readable units.\<close>

fun utf16_length :: "SQLWCHAR list option \<Rightarrow> nat option" where
  "utf16_length None = Some 0"
| "utf16_length (Some buf) =
     (if 0 \<in> set buf then Some (length (takeWhile (\<lambda>c. c \<noteq> 0) buf)) else None)"

definition utf16_length_utf8 :: "string \<Rightarrow> nat option" where
  "utf16_length_utf8 utf8_str =
     (if length utf8_str = 0 then Some 0
      else map_option (\<lambda>(wstr, _). length wstr) (utf8_to_utf16_lenient utf8_str))"

abbreviation (input) utf8_byte_len_coef :: int where "utf8_byte_len_coef \<equiv> 3"

definition utf8_alloc_out_vec :: "SQLSMALLINT \<Rightarrow> string" where
  "utf8_alloc_out_vec utf16_len =
     (let utf8_len_sizet = to_uint64 (to_uint64 utf16_len * utf8_byte_len_coef);
          utf8_len_max = 32767
      in replicate (nat (min utf8_len_sizet utf8_len_max)) (CHR 0x00))"

text \<open>\<^verbatim>\<open>std::strlen\<close>: \<open>None\<close> when the terminator is missing.\<close>

definition c_strlen :: "string \<Rightarrow> nat option" where
  "c_strlen s = (if CHR 0x00 \<in> set s then Some (length (takeWhile (\<lambda>c. c \<noteq> CHR 0x00) s)) else None)"

text \<open>Storing units at the start of the application's array; past its end is undefined.\<close>

definition store_units :: "SQLWCHAR list \<Rightarrow> SQLWCHAR list \<Rightarrow> SQLWCHAR list option" where
  "store_units out ws =
     (if length ws \<le> length out then Some (ws @ drop (length ws) out) else None)"

text \<open>\<^verbatim>\<open>utf16_write_str\<close>: the number of units reported and the application's array, \<open>None\<close>
  for a null pointer.\<close>

definition utf16_write_str ::
  "SQLRETURN \<Rightarrow> string \<Rightarrow> SQLWCHAR list option \<Rightarrow> SQLLEN \<Rightarrow> (nat \<times> SQLWCHAR list option) option" where
  "utf16_write_str ret utf8_vec utf16_str_out buffer_len_chars =
     (if \<not> SQL_SUCCEEDED ret then Some (0, utf16_str_out)
      else if length utf8_vec = 0 \<or> buffer_len_chars \<le> 0 then Some (0, utf16_str_out)
      else case c_strlen utf8_vec of
        None \<Rightarrow> None
      | Some len_utf8 \<Rightarrow>
          if len_utf8 = 0 \<or> buffer_len_chars = 1 then
            (case utf16_str_out of
               None \<Rightarrow> Some (0, None)
             | Some out \<Rightarrow> map_option (\<lambda>out. (0, Some out)) (store_units out [0]))
          else
            case utf8_to_utf16_lenient (take len_utf8 utf8_vec) of
              None \<Rightarrow> None
            | Some (utf16_vec, _) \<Rightarrow>
                let len_chars = min (length utf16_vec) (nat (buffer_len_chars - 1)) in
                case utf16_str_out of
                  None \<Rightarrow> Some (len_chars, None)
                | Some out \<Rightarrow> map_option (\<lambda>out. (len_chars, Some out))
                    (store_units out (take len_chars utf16_vec @ [0])))"

text \<open>\<^verbatim>\<open>struct utf16_conv\<close>. The member \<^verbatim>\<open>utf8_str\<close> is null or points to the data of
  \<^verbatim>\<open>utf8_vec\<close>; the flag says which.\<close>

record utf16_conv =
  conv_utf16_str :: "SQLWCHAR list option"
  conv_utf16_len :: nat
  conv_utf8_vec :: string
  conv_utf8_str :: bool

definition make_utf16_conv :: "SQLWCHAR list option \<Rightarrow> SQLLEN \<Rightarrow> utf16_conv option" where
  "make_utf16_conv utf16_str utf16_str_len =
     (case (if utf16_str_len = SQL_NTS then utf16_length utf16_str
            else Some (nat (to_uint64 utf16_str_len))) of
        None \<Rightarrow> None
      | Some utf16_len \<Rightarrow>
          (case utf16_str of
             None \<Rightarrow> Some \<lparr>conv_utf16_str = None, conv_utf16_len = utf16_len,
                            conv_utf8_vec = [CHR 0x00], conv_utf8_str = False\<rparr>
           | Some buf \<Rightarrow>
               if utf16_len \<le> length buf then
                 Some \<lparr>conv_utf16_str = Some buf, conv_utf16_len = utf16_len,
                       conv_utf8_vec = fst (utf16_to_utf8_lenient (take utf16_len buf)) @ [CHR 0x00],
                       conv_utf8_str = True\<rparr>
               else None))"

definition utf8_len :: "utf16_conv \<Rightarrow> nat" where
  "utf8_len conv = length (conv_utf8_vec conv) - 1"

definition utf16_conv_utf8_len_internal :: "int \<Rightarrow> utf16_conv \<Rightarrow> int" where
  "utf16_conv_utf8_len_internal max_val conv =
     (let len = int (utf8_len conv) in if len > max_val then max_val else len)"

definition utf8_len_smallint :: "utf16_conv \<Rightarrow> SQLSMALLINT" where
  "utf8_len_smallint conv = utf16_conv_utf8_len_internal 32767 conv"

definition utf8_len_int :: "utf16_conv \<Rightarrow> SQLINTEGER" where
  "utf8_len_int conv = utf16_conv_utf8_len_internal 2147483647 conv"

definition to_utf8_str :: "utf16_conv \<Rightarrow> string" where
  "to_utf8_str conv = take (length (conv_utf8_vec conv) - 1) (conv_utf8_vec conv)"

section \<open>Properties of the conversions\<close>

lemma utf16_to_utf8_lenient_encode:
  "scalars cps \<Longrightarrow> utf16_to_utf8_lenient (encode_utf16 cps) = (encode_utf8 cps, None)"
  using utf16_find_invalid_encode [of cps "[]"]
  by (simp add: utf16_to_utf8_lenient_def utf16to8_encode)

lemma utf8_append_length4: "length (utf8_append cp) \<le> 4"
  by (simp add: utf8_append_def)

lemma utf16to8_length: "length (utf16to8 w) \<le> 3 * length w"
proof (induction w rule: utf16to8.induct)
  case (2 c w)
  have one: "length (utf8_append (mask16 c)) \<le> 3"
    using utf8_append_length [of "mask16 c"] by simp
  show ?case
  proof (cases "is_lead_surrogate (mask16 c)")
    case False
    with 2 one show ?thesis by simp
  next
    case True
    show ?thesis
    proof (cases w)
      case (Cons t w')
      have "length (utf8_append cp) + length (utf16to8 w') \<le> 3 * length (c # w)" for cp
        using 2(1) [OF refl True Cons] utf8_append_length4 [of cp] Cons by simp
      then show ?thesis using True Cons by simp
    qed (use True in simp)
  qed
qed simp

lemma utf16_replace_invalid_length: "length (utf16_replace_invalid w r) = length w"
  by (induction w r rule: utf16_replace_invalid.induct) (auto simp: Let_def split: list.splits)

lemma utf16_lenient_length: "length (fst (utf16_to_utf8_lenient w)) \<le> 3 * length w"
  using utf16to8_length [of w] utf16to8_length [of "utf16_replace_invalid w invalid_char_replacement"]
  by (simp add: utf16_to_utf8_lenient_def Let_def utf16_replace_invalid_length)

lemma find_invalid_append:
  "scalars cps \<Longrightarrow> find_invalid (encode_utf8 cps @ bs) = find_invalid bs"
proof (induction cps)
  case (Cons cp cps)
  then show ?case
    by (subst find_invalid.simps) (simp add: validate_next_append)
qed simp

lemma store_units_prefix:
  "store_units out ws = Some out' \<Longrightarrow> take (length ws) out' = ws \<and> drop (length ws) out' = drop (length ws) out
    \<and> length out' = length out"
  by (auto simp: store_units_def split: if_splits)

text \<open>C40: \<^verbatim>\<open>utf8::find_invalid\<close> accepts a buffer exactly when it is the UTF-8 encoding of a
  list of Unicode scalar values: overlong forms, surrogates, values above U+10FFFF and
  truncated sequences are all rejected, and nothing else is.\<close>

theorem utf8_find_invalid_iff:
  "find_invalid bs = [] \<longleftrightarrow> (\<exists>cps. scalars cps \<and> bs = encode_utf8 cps)"
  using find_invalid_Nil find_invalid_encode by blast

text \<open>C35: the conversion to UTF-16 never reads outside its input buffer, whatever the bytes
  are, and always produces the UTF-16 encoding of a list of scalar values.\<close>

theorem utf8_to_utf16_lenient_total:
  "\<exists>cps inv. scalars cps \<and> utf8_to_utf16_lenient bs = Some (encode_utf16 cps, inv)"
  by (rule utf8_to_utf16_lenient_safe)

text \<open>C34: on well-formed text the two conversions are inverse to each other and report no
  invalid character.\<close>

theorem utf16_utf8_round_trip:
  assumes "scalars cps"
  shows "utf16_to_utf8_lenient (encode_utf16 cps) = (encode_utf8 cps, None)
    \<and> utf8_to_utf16_lenient (encode_utf8 cps) = Some (encode_utf16 cps, None)"
  using assms by (simp add: utf16_to_utf8_lenient_encode utf8_to_utf16_lenient_encode)

theorem utf16_utf8_round_trip_witness:
  "utf16_to_utf8_lenient (encode_utf16 [0x41, 0xe9, 0x20ac, 0x1f986])
     = (encode_utf8 [0x41, 0xe9, 0x20ac, 0x1f986], None)
   \<and> utf8_to_utf16_lenient (encode_utf8 [0x41, 0xe9, 0x20ac, 0x1f986])
     = Some (encode_utf16 [0x41, 0xe9, 0x20ac, 0x1f986], None)"
  by (rule utf16_utf8_round_trip) (simp add: is_code_point_valid_def is_surrogate_def)

text \<open>What \<^verbatim>\<open>utf16_find_invalid\<close> really accepts: well-formed UTF-16, but also
  well-formed UTF-16 followed by one lone trail surrogate, because the loop returns the
  position after such a unit.\<close>

theorem utf16_find_invalid_iff:
  "utf16_find_invalid w = [] \<longleftrightarrow>
    (\<exists>cps. scalars cps \<and> (w = encode_utf16 cps
       \<or> (\<exists>t. is_trail_surrogate (mask16 t) \<and> w = encode_utf16 cps @ [t])))"
  by (rule utf16_find_invalid_Nil)

text \<open>Consequently a lone trail surrogate at the end of an otherwise well-formed wide
  string is reported as valid and reaches the UTF-8 output as bytes that are not valid UTF-8.\<close>

theorem utf16_lone_trail_emits_invalid_utf8:
  assumes "scalars cps" "is_trail_surrogate (mask16 t)"
  shows "\<exists>bs. utf16_to_utf8_lenient (encode_utf16 cps @ [t]) = (bs, None) \<and> find_invalid bs \<noteq> []"
proof -
  let ?n = "mask16 t"
  have "utf16to8 (encode_utf16 cps @ [t]) = encode_utf8 cps @ utf16to8 [t]"
    using assms(1) by (induction cps) (simp_all add: utf16_append16)
  also have "utf16to8 [t] = utf8_append ?n"
    using assms(2) by (simp add: surrogate_defs)
  finally have "utf16_to_utf8_lenient (encode_utf16 cps @ [t]) = (encode_utf8 cps @ utf8_append ?n, None)"
    using assms by (simp add: utf16_to_utf8_lenient_def utf16_find_invalid_encode surrogate_defs)
  moreover have "find_invalid (utf8_append ?n) \<noteq> []"
    using validate_next_append_any [of ?n "[]"] mask16_less [of t] assms(2)
    by (subst find_invalid.simps) (auto simp: is_code_point_valid_def surrogate_defs simp del: mask16_less)
  ultimately show ?thesis using assms(1) by (simp add: find_invalid_append)
qed

theorem utf16_lone_trail_emits_invalid_utf8_witness:
  "\<exists>bs. utf16_to_utf8_lenient (encode_utf16 [0x41] @ [0xdc00]) = (bs, None) \<and> find_invalid bs \<noteq> []"
  by (rule utf16_lone_trail_emits_invalid_utf8)
    (simp_all add: is_code_point_valid_def is_surrogate_def is_trail_surrogate_def mask16_def)

text \<open>The UTF-8 form of a wide string of \<open>n\<close> units, valid or not, has at most \<open>3 * n\<close>
  bytes, the factor with which \<^verbatim>\<open>utf8_alloc_out_vec\<close> sizes its buffers.\<close>

theorem utf16_to_utf8_lenient_length:
  "length (fst (utf16_to_utf8_lenient w)) \<le> 3 * length w"
  by (rule utf16_lenient_length)

text \<open>\<^verbatim>\<open>utf16_write_str\<close> stays inside an output array that has the announced number of
  units: it stores the longest prefix of the converted text that leaves room for the
  terminator, terminates it, returns its length and leaves the rest of the array alone.\<close>

theorem utf16_write_str_spec:
  assumes "SQL_SUCCEEDED ret" "CHR 0x00 \<in> set utf8_vec"
    and "0 < buffer_len_chars" "buffer_len_chars \<le> int (length out)"
  shows "\<exists>cps inv n out'. scalars cps
    \<and> utf8_to_utf16_lenient (takeWhile (\<lambda>c. c \<noteq> CHR 0x00) utf8_vec) = Some (encode_utf16 cps, inv)
    \<and> n = min (length (encode_utf16 cps)) (nat (buffer_len_chars - 1))
    \<and> utf16_write_str ret utf8_vec (Some out) buffer_len_chars = Some (n, Some out')
    \<and> take (n + 1) out' = take n (encode_utf16 cps) @ [0] \<and> drop (n + 1) out' = drop (n + 1) out"
proof -
  let ?text = "takeWhile (\<lambda>c. c \<noteq> CHR 0x00) utf8_vec"
  obtain cps inv where conv: "scalars cps" "utf8_to_utf16_lenient ?text = Some (encode_utf16 cps, inv)"
    using utf8_to_utf16_lenient_safe by blast
  define n where "n = min (length (encode_utf16 cps)) (nat (buffer_len_chars - 1))"
  have empty: "encode_utf16 cps = []" if "?text = []"
    using that conv utf8_to_utf16_lenient_encode [of "[]"] by simp
  have "n + 1 \<le> length out" using assms(3,4) by (simp add: n_def)
  then obtain out' where out': "store_units out (take n (encode_utf16 cps) @ [0]) = Some out'"
    by (simp add: store_units_def n_def)
  have len: "length (take n (encode_utf16 cps) @ [0 :: SQLWCHAR]) = n + 1" by (simp add: n_def)
  have "take (length ?text) utf8_vec = ?text" by (metis takeWhile_eq_take)
  then have "utf16_write_str ret utf8_vec (Some out) buffer_len_chars = Some (n, Some out')"
    using assms conv(2) empty out' unfolding n_def
    by (auto simp: utf16_write_str_def c_strlen_def Let_def)
  with conv n_def store_units_prefix [OF out'] show ?thesis unfolding len
    by (intro exI [of _ cps] exI [of _ inv] exI [of _ n] exI [of _ out'] conjI) (elim conjE, assumption)+
qed

theorem utf16_write_str_spec_witness:
  "\<exists>cps inv n out'. scalars cps
    \<and> utf8_to_utf16_lenient (takeWhile (\<lambda>c. c \<noteq> CHR 0x00) (''duck'' @ [CHR 0x00])) = Some (encode_utf16 cps, inv)
    \<and> n = min (length (encode_utf16 cps)) (nat (3 - 1))
    \<and> utf16_write_str SQL_SUCCESS (''duck'' @ [CHR 0x00]) (Some [7, 7, 7, 7]) 3 = Some (n, Some out')
    \<and> take (n + 1) out' = take n (encode_utf16 cps) @ [0] \<and> drop (n + 1) out' = drop (n + 1) [7, 7, 7, 7]"
  by (rule utf16_write_str_spec) simp_all

end
