(* ===== verification/Odbc_Utils.thy ===== *)
theory Odbc_Utils
  imports Widechar
begin

text \<open>
  \<^verbatim>\<open>common/odbc_utils.cpp\<close>: string arguments, string results and the small helpers of the
  API. Input strings are the bytes readable at the pointer (\<open>None\<close>: the null pointer); output
  buffers are addresses in the application's memory.

  Every API function that returns a string does it with the same few statements around one of
  the two writers \<^verbatim>\<open>WriteStringUtf8\<close> and \<^verbatim>\<open>WriteStringUtf16\<close>. What those functions rely
  on is the locale \<open>string_writer\<close>, interpreted below for both writers; its lemmas give the
  contract of the shared statements: no write outside the buffer, a terminated prefix inside
  it, and truncation reported exactly when something is missing.
\<close>

section \<open>Small helpers\<close>

abbreviation (input) SQL_CHAR :: int where "SQL_CHAR \<equiv> 1"
abbreviation (input) SQL_NUMERIC :: int where "SQL_NUMERIC \<equiv> 2"
abbreviation (input) SQL_DECIMAL :: int where "SQL_DECIMAL \<equiv> 3"
abbreviation (input) SQL_INTEGER :: int where "SQL_INTEGER \<equiv> 4"
abbreviation (input) SQL_SMALLINT :: int where "SQL_SMALLINT \<equiv> 5"
abbreviation (input) SQL_FLOAT :: int where "SQL_FLOAT \<equiv> 6"
abbreviation (input) SQL_REAL :: int where "SQL_REAL \<equiv> 7"
abbreviation (input) SQL_DOUBLE :: int where "SQL_DOUBLE \<equiv> 8"
abbreviation (input) SQL_DATETIME :: int where "SQL_DATETIME \<equiv> 9"
abbreviation (input) SQL_INTERVAL :: int where "SQL_INTERVAL \<equiv> 10"
abbreviation (input) SQL_VARCHAR :: int where "SQL_VARCHAR \<equiv> 12"
abbreviation (input) SQL_TYPE_DATE :: int where "SQL_TYPE_DATE \<equiv> 91"
abbreviation (input) SQL_TYPE_TIME :: int where "SQL_TYPE_TIME \<equiv> 92"
abbreviation (input) SQL_TYPE_TIMESTAMP :: int where "SQL_TYPE_TIMESTAMP \<equiv> 93"
abbreviation (input) SQL_LONGVARCHAR :: int where "SQL_LONGVARCHAR \<equiv> - 1"
abbreviation (input) SQL_BINARY :: int where "SQL_BINARY \<equiv> - 2"
abbreviation (input) SQL_VARBINARY :: int where "SQL_VARBINARY \<equiv> - 3"
abbreviation (input) SQL_LONGVARBINARY :: int where "SQL_LONGVARBINARY \<equiv> - 4"
abbreviation (input) SQL_BIGINT :: int where "SQL_BIGINT \<equiv> - 5"
abbreviation (input) SQL_TINYINT :: int where "SQL_TINYINT \<equiv> - 6"
abbreviation (input) SQL_BIT :: int where "SQL_BIT \<equiv> - 7"
abbreviation (input) SQL_WCHAR :: int where "SQL_WCHAR \<equiv> - 8"
abbreviation (input) SQL_WVARCHAR :: int where "SQL_WVARCHAR \<equiv> - 9"
abbreviation (input) SQL_WLONGVARCHAR :: int where "SQL_WLONGVARCHAR \<equiv> - 10"
abbreviation (input) SQL_GUID :: int where "SQL_GUID \<equiv> - 11"
abbreviation (input) SQL_UNKNOWN_TYPE :: int where "SQL_UNKNOWN_TYPE \<equiv> 0"

text \<open>A wr through a pointer that may be null is skipped: the helper for every
  \<^verbatim>\<open>if (ptr) { *ptr = v; }\<close> of the API, with the width of the target type in bytes.\<close>

definition store_int :: "nat \<Rightarrow> memory \<Rightarrow> addr \<Rightarrow> int \<Rightarrow> memory" where
  "store_int w m p v = (if p = nullptr then m else write_bytes m p (le_bytes w v))"

definition SetStringValueLength :: "memory \<Rightarrow> string \<Rightarrow> addr \<Rightarrow> SQLRETURN \<times> memory" where
  "SetStringValueLength m val_str str_len_or_ind_ptr =
     (if str_len_or_ind_ptr \<noteq> nullptr
      then (SQL_SUCCESS, store_int 8 m str_len_or_ind_ptr (int (length val_str)))
      else (SQL_ERROR, m))"

definition IsCharType :: "SQLSMALLINT \<Rightarrow> bool" where
  "IsCharType type \<longleftrightarrow> type = SQL_CHAR \<or> type = SQL_WCHAR \<or> type = SQL_VARCHAR
     \<or> type = SQL_WVARCHAR \<or> type = SQL_LONGVARCHAR \<or> type = SQL_WLONGVARCHAR
     \<or> type = SQL_BINARY"

definition StoreWithLength :: "nat \<Rightarrow> nat \<Rightarrow> memory \<Rightarrow> int \<Rightarrow> addr \<Rightarrow> addr \<Rightarrow> memory" where
  "StoreWithLength val_size len_size m val ptr length_ptr =
     store_int len_size (store_int val_size m ptr val) length_ptr (int val_size)"

definition SQLPointerToSQLUInteger :: "int \<Rightarrow> SQLUINTEGER" where
  "SQLPointerToSQLUInteger value = to_uint32 value"

definition ConvertSQLCHARToString :: "string option \<Rightarrow> SQLINTEGER \<Rightarrow> string option" where
  "ConvertSQLCHARToString str str_len =
     (case str of
        None \<Rightarrow> Some []
      | Some buf \<Rightarrow>
          if str_len = SQL_NTS then map_option (\<lambda>n. take n buf) (c_strlen buf)
          else let len = (if str_len > 0 then nat str_len else 0) in
            if len \<le> length buf then Some (take len buf) else None)"

definition IsSpace :: "char \<Rightarrow> bool" where
  "IsSpace c \<longleftrightarrow> c = CHR '' '' \<or> c = CHR 0x09 \<or> c = CHR 0x0A \<or> c = CHR 0x0D \<or> c = CHR 0x0C
     \<or> c = CHR 0x0B"

text \<open>\<^verbatim>\<open>TrimString\<close>: the indices \<open>front\<close> of the first character that is not a space and
  \<open>back\<close> one past the last.\<close>

definition TrimString :: "string \<Rightarrow> string" where
  "TrimString str =
     (let front = length (takeWhile IsSpace str);
          back = length str - length (takeWhile IsSpace (rev str))
      in if back \<le> front then [] else take (back - front) (drop front str))"

section \<open>Catalog filters\<close>

text \<open>\<^verbatim>\<open>regex_match(str, "^(\".*\"|'.*')$")\<close>; the dot does not match a line end.\<close>

definition regex_quoted :: "string \<Rightarrow> bool" where
  "regex_quoted str \<longleftrightarrow> length str \<ge> 2 \<and> hd str = last str \<and> (hd str = CHR 0x22 \<or> hd str = CHR 0x27)
     \<and> CHR 0x0A \<notin> set str \<and> CHR 0x0D \<notin> set str"

text \<open>\<^verbatim>\<open>regex_replace(str, " +$|( ) +", "$1")\<close>: blanks at the end go, other runs of at
  least two blanks become one.\<close>

function regex_squeeze_blanks :: "string \<Rightarrow> string" where
  "regex_squeeze_blanks [] = []"
| "regex_squeeze_blanks (c # cs) =
     (if c = CHR '' '' then
        (let rest = dropWhile (\<lambda>d. d = CHR '' '') cs in
         if rest = [] then [] else CHR '' '' # regex_squeeze_blanks rest)
      else c # regex_squeeze_blanks cs)"
  by pat_completeness auto
termination
  by (relation "measure length") (auto simp: le_imp_less_Suc length_dropWhile_le)

definition ascii_upper :: "string \<Rightarrow> string" where
  "ascii_upper = map (\<lambda>c. let n = of_char c :: nat in
     if 97 \<le> n \<and> n \<le> 122 then char_of (n - 32) else c)"

text \<open>The quoted branch takes \<^verbatim>\<open>substr(1, ...)\<close> of the still empty result, which throws
  \<^verbatim>\<open>std::out_of_range\<close>: the value \<open>None\<close>.\<close>

definition GetStringAsIdentifier :: "string \<Rightarrow> string option" where
  "GetStringAsIdentifier str =
     (if regex_quoted str then None
      else Some (ascii_upper (regex_squeeze_blanks str)))"

definition ParseStringFilter ::
  "string \<Rightarrow> string \<Rightarrow> SQLUINTEGER \<Rightarrow> string \<Rightarrow> string option" where
  "ParseStringFilter filter_name filter_value sql_attr_metadata_id coalesce_str =
     (let q = [CHR 0x27]; escape = '' ESCAPE '' @ q @ [CHR 0x5C] @ q in
      if filter_value = [] then
        Some ((if coalesce_str = [] then ''COALESCE('' @ filter_name @ '','' @ q @ q @ '') LIKE  '' @ q @ ''%'' @ q
               else ''COALESCE('' @ filter_name @ '','' @ q @ coalesce_str @ q @ '') LIKE ''
                      @ q @ coalesce_str @ q) @ escape)
      else if sql_attr_metadata_id = SQL_TRUE then
        map_option (\<lambda>ident. filter_name @ ''='' @ ident @ escape) (GetStringAsIdentifier filter_value)
      else Some (filter_name @ '' LIKE '' @ q @ filter_value @ q @ escape))"

section \<open>The string writers\<close>

text \<open>\<^verbatim>\<open>static_cast<size_t>(buf_len) - 1\<close> wraps around for an empty buffer.\<close>

definition WriteStringUtf8 :: "string \<Rightarrow> memory \<Rightarrow> addr \<Rightarrow> int \<Rightarrow> nat \<times> memory" where
  "WriteStringUtf8 str m out_buf buf_len =
     (if out_buf \<noteq> nullptr then
        let len_bytes = min (length str) (nat (to_uint64 (buf_len - 1)))
        in (len_bytes, write_bytes m out_buf (take len_bytes str @ [CHR 0x00]))
      else (0, m))"

definition units_bytes :: "SQLWCHAR list \<Rightarrow> string" where
  "units_bytes ws = concat (map (\<lambda>c. le_bytes 2 (uint c)) ws)"

definition WriteStringUtf16 ::
  "string \<Rightarrow> memory \<Rightarrow> addr \<Rightarrow> int \<Rightarrow> (nat \<times> SQLWCHAR list \<times> memory) option" where
  "WriteStringUtf16 utf8_str m out_buf buf_len_bytes =
     (case utf8_to_utf16_lenient utf8_str of
        None \<Rightarrow> None
      | Some (utf16_vec, _) \<Rightarrow> Some
          (if out_buf \<noteq> nullptr then
             let buf_len_even = (if buf_len_bytes mod 2 \<noteq> 0 then buf_len_bytes - 1 else buf_len_bytes) in
             if buf_len_even \<le> 2 then
               (0, utf16_vec, if buf_len_even = 2 then write_bytes m out_buf (units_bytes [0]) else m)
             else
               let len_bytes = min (int (length utf16_vec) * 2) (buf_len_even - 2);
                   len_chars = nat (len_bytes div 2)
               in (len_chars, utf16_vec,
                   write_bytes m out_buf (units_bytes (take len_chars utf16_vec @ [0])))
           else (0, utf16_vec, m)))"


text \<open>Both writers as one type: the number of units written, the number of units of the whole
  string, and the memory.\<close>

type_synonym writer = "string \<Rightarrow> memory \<Rightarrow> addr \<Rightarrow> int \<Rightarrow> (nat \<times> nat \<times> memory) option"

definition utf8_writer :: writer where
  "utf8_writer str m out_buf buf_len =
     (let (written, m') = WriteStringUtf8 str m out_buf buf_len in Some (written, length str, m'))"

definition utf16_writer :: writer where
  "utf16_writer str m out_buf buf_len =
     map_option (\<lambda>(written, utf16_vec, m'). (written, length utf16_vec, m'))
       (WriteStringUtf16 str m out_buf buf_len)"

text \<open>The statements shared by \<^verbatim>\<open>WriteStringConnAttr\<close>, \<^verbatim>\<open>WriteStringDesc\<close>,
  \<^verbatim>\<open>WriteStringCol\<close>, \<^verbatim>\<open>WriteStringDiag\<close> and \<^verbatim>\<open>WriteStringInfo\<close>; each of them turns
  the outcome into a return code and a diagnostic record. \<open>len_size\<close> is the width of the
  integer behind the length pointer.\<close>

datatype write_outcome = WBadLength | WTruncated | WStored

definition WriteStringWith ::
  "writer \<Rightarrow> nat \<Rightarrow> string \<Rightarrow> memory \<Rightarrow> addr \<Rightarrow> int \<Rightarrow> addr \<Rightarrow> (write_outcome \<times> memory) option" where
  "WriteStringWith wr len_size str m character_attribute_ptr buffer_length string_length =
     (if buffer_length < 0 then Some (WBadLength, m)
      else case wr str m character_attribute_ptr buffer_length of
        None \<Rightarrow> None
      | Some (written, str_units, m') \<Rightarrow>
          Some (if character_attribute_ptr \<noteq> nullptr \<and> written < str_units then WTruncated else WStored,
                store_int len_size m' string_length (int str_units)))"

section \<open>The contract of a string writer\<close>

lemma store_int_null [simp]: "store_int w m nullptr v = m"
  by (simp add: store_int_def)

lemma store_int_outside [mem_simps]:
  "x < p \<or> p + w \<le> x \<Longrightarrow> store_int w m p v x = m x"
  by (simp add: store_int_def write_bytes_outside)

lemma read_store_int [mem_simps]:
  "p \<noteq> nullptr \<Longrightarrow> read_bytes (store_int w m p v) p w = le_bytes w v"
  using read_write_same [of m p "le_bytes w v"] by (simp add: store_int_def)

lemma read_store_int_disjoint [mem_simps]:
  "p + w \<le> a \<or> a + n \<le> p \<Longrightarrow> read_bytes (store_int w m p v) a n = read_bytes m a n"
  by (simp add: store_int_def read_write_disjoint)

locale string_writer =
  fixes wr :: writer
    and str_units :: "string \<Rightarrow> nat"
    and render :: "string \<Rightarrow> nat \<Rightarrow> string"
    and unit_size :: nat
  assumes write_null: "wr str m nullptr n = Some (0, str_units str, m)"
    and write_store: "\<lbrakk>p \<noteq> nullptr; int unit_size \<le> n; n < 2 ^ 63\<rbrakk> \<Longrightarrow>
      wr str m p n = Some (min (str_units str) (nat n div unit_size - 1), str_units str,
        write_bytes m p (render str (min (str_units str) (nat n div unit_size - 1))))"
    and render_length: "w \<le> str_units str \<Longrightarrow> length (render str w) = unit_size * (w + 1)"
    and unit_pos: "0 < unit_size"
begin

abbreviation fitting :: "string \<Rightarrow> int \<Rightarrow> nat" where
  "fitting str n \<equiv> min (str_units str) (nat n div unit_size - 1)"

lemma render_fits:
  assumes "int unit_size \<le> n"
  shows "int (length (render str (fitting str n))) \<le> n"
proof -
  have "1 \<le> nat n div unit_size"
    using assms unit_pos by (simp add: Suc_le_eq div_greater_zero_iff nat_le_iff le_nat_iff)
  then have "unit_size * (fitting str n + 1) \<le> unit_size * (nat n div unit_size)"
    by (intro mult_le_mono2) auto
  also have "\<dots> \<le> nat n" by simp
  finally have "length (render str (fitting str n)) \<le> nat n"
    using render_length [of "fitting str n" str] by simp
  then show ?thesis using assms by linarith
qed

lemma write_string_result:
  assumes "p \<noteq> nullptr" "int unit_size \<le> n" "n < 2 ^ 63"
  shows "WriteStringWith wr len_size str m p n lp
    = Some (if fitting str n < str_units str then WTruncated else WStored,
        store_int len_size (write_bytes m p (render str (fitting str n))) lp (int (str_units str)))"
  using assms by (auto simp: WriteStringWith_def write_store)

lemma write_string_inside:
  assumes "p \<noteq> nullptr" "int unit_size \<le> n" "n < 2 ^ 63"
    and "WriteStringWith wr len_size str m p n lp = Some (oc, m')"
    and "x < p \<or> p + nat n \<le> x" "x < lp \<or> lp + len_size \<le> x"
  shows "m' x = m x"
proof -
  have "p + length (render str (fitting str n)) \<le> p + nat n"
    using render_fits [OF assms(2), of str] assms(2) by linarith
  then have "x < p \<or> p + length (render str (fitting str n)) \<le> x" using assms(5) by linarith
  moreover have "m' = store_int len_size (write_bytes m p (render str (fitting str n))) lp (int (str_units str))"
    using assms(4) write_string_result [OF assms(1-3)] by simp
  ultimately show ?thesis using assms(6) by (simp add: mem_simps)
qed

lemma write_string_content:
  assumes "p \<noteq> nullptr" "int unit_size \<le> n" "n < 2 ^ 63"
    and "WriteStringWith wr len_size str m p n lp = Some (oc, m')"
    and "lp + len_size \<le> p \<or> p + nat n \<le> lp"
  shows "read_bytes m' p (unit_size * (fitting str n + 1)) = render str (fitting str n)"
proof -
  let ?r = "render str (fitting str n)"
  have len: "length ?r = unit_size * (fitting str n + 1)" by (rule render_length) simp
  have "length ?r \<le> nat n" using render_fits [OF assms(2), of str] by linarith
  moreover have "m' = store_int len_size (write_bytes m p ?r) lp (int (str_units str))"
    using assms(4) write_string_result [OF assms(1-3)] by simp
  ultimately have "read_bytes m' p (length ?r) = read_bytes (write_bytes m p ?r) p (length ?r)"
    using assms(5) by (auto intro: read_store_int_disjoint)
  then show ?thesis unfolding len [symmetric] by (simp only: read_write_same)
qed

end

section \<open>The two writers meet the contract\<close>

definition utf8_render :: "string \<Rightarrow> nat \<Rightarrow> string" where
  "utf8_render str w = take w str @ [CHR 0x00]"

definition utf16_text :: "string \<Rightarrow> SQLWCHAR list" where
  "utf16_text str = (case utf8_to_utf16_lenient str of Some (ws, _) \<Rightarrow> ws | None \<Rightarrow> [])"

definition utf16_render :: "string \<Rightarrow> nat \<Rightarrow> string" where
  "utf16_render str w = units_bytes (take w (utf16_text str) @ [0])"

lemma length_units_bytes [simp]: "length (units_bytes ws) = 2 * length ws"
  by (induction ws) (simp_all add: units_bytes_def)

lemma utf8_to_utf16_lenient_text: "\<exists>inv. utf8_to_utf16_lenient str = Some (utf16_text str, inv)"
  using utf8_to_utf16_lenient_safe [of str] by (auto simp: utf16_text_def)

interpretation utf8: string_writer utf8_writer length utf8_render 1
proof
  fix p :: addr and n :: int and str m
  assume "p \<noteq> nullptr" "int 1 \<le> n" "n < 2 ^ 63"
  moreover from this have "nat (to_uint64 (n - 1)) = nat n div 1 - 1"
    by (simp add: to_uint64_id nat_diff_distrib)
  ultimately show "utf8_writer str m p n = Some (min (length str) (nat n div 1 - 1), length str,
      write_bytes m p (utf8_render str (min (length str) (nat n div 1 - 1))))"
    by (simp add: utf8_writer_def WriteStringUtf8_def utf8_render_def Let_def)
qed (simp_all add: utf8_writer_def WriteStringUtf8_def utf8_render_def)

interpretation utf16: string_writer utf16_writer "length \<circ> utf16_text" utf16_render 2
proof
  fix p :: addr and n :: int and str m
  assume p: "p \<noteq> nullptr" and n: "int 2 \<le> n" "n < 2 ^ 63"
  obtain inv where conv: "utf8_to_utf16_lenient str = Some (utf16_text str, inv)"
    using utf8_to_utf16_lenient_text by blast
  define e where "e = (if n mod 2 \<noteq> 0 then n - 1 else n)"
  note writer = utf16_writer_def WriteStringUtf16_def conv Let_def option.case prod.case
    e_def [symmetric]
  have e: "e = 2 * (n div 2)" "2 \<le> e" unfolding e_def using n(1) by presburger+
  have half: "nat n div 2 = nat (n div 2)" using n(1) by (simp add: nat_div_distrib)
  have chars: "nat (min (int (length (utf16_text str)) * 2) (e - 2) div 2)
      = min (length (utf16_text str)) (nat n div 2 - 1)"
    unfolding e(1) half using n(1) by (simp add: min_def; linarith)
  show "utf16_writer str m p n = Some (min ((length \<circ> utf16_text) str) (nat n div 2 - 1),
      (length \<circ> utf16_text) str,
      write_bytes m p (utf16_render str (min ((length \<circ> utf16_text) str) (nat n div 2 - 1))))"
  proof (cases "e = 2")
    case True
    then have "nat n div 2 - 1 = 0" unfolding half e(1) by simp
    with True p show ?thesis
      unfolding writer by (simp add: utf16_render_def)
  next
    case False
    with e(2) have "\<not> e \<le> 2" by simp
    with p show ?thesis
      unfolding writer by (simp add: utf16_render_def chars [simplified])
  qed
next
  show "utf16_writer str m nullptr n = Some (0, (length \<circ> utf16_text) str, m)" for str m n
    using utf8_to_utf16_lenient_text [of str] by (auto simp: utf16_writer_def WriteStringUtf16_def)
qed (simp_all add: utf16_render_def)

section \<open>Properties\<close>

text \<open>C37: an API function that returns a string in UTF-8 stores in a non-empty buffer of \<open>n\<close>
  bytes the longest prefix that fits with its terminator, touches nothing outside the buffer
  and the length cell, and reports truncation exactly when the string and its terminator do
  not fit.\<close>

theorem WriteString_utf8_spec:
  assumes "p \<noteq> nullptr" "1 \<le> n" "n < 2 ^ 63"
    and "lp + len_size \<le> p \<or> p + nat n \<le> lp"
  shows "\<exists>m' w. WriteStringWith utf8_writer len_size str m p n lp
      = Some (if nat n \<le> length str then WTruncated else WStored, m')
    \<and> w = min (length str) (nat n - 1) \<and> read_bytes m' p (w + 1) = take w str @ [CHR 0x00]
    \<and> (\<forall>x. (x < p \<or> p + nat n \<le> x) \<and> (x < lp \<or> lp + len_size \<le> x) \<longrightarrow> m' x = m x)"
proof -
  have n: "int 1 \<le> n" using assms by simp
  note result = utf8.write_string_result [OF assms(1) n assms(3), of len_size str m lp]
  have report: "utf8.fitting str n < length str \<longleftrightarrow> nat n \<le> length str"
    using n by auto
  from result obtain m' where m': "WriteStringWith utf8_writer len_size str m p n lp
      = Some (if nat n \<le> length str then WTruncated else WStored, m')"
    unfolding report by blast
  with utf8.write_string_content [OF assms(1) n assms(3) m' assms(4)]
    utf8.write_string_inside [OF assms(1) n assms(3) m']
  show ?thesis by (intro exI [of _ m'] exI [of _ "utf8.fitting str n"]) (simp add: utf8_render_def)
qed

theorem WriteString_utf8_spec_witness:
  "\<exists>m' w. WriteStringWith utf8_writer 4 ''catalog'' (\<lambda>_. CHR 0x00) 100 5 200
      = Some (if nat 5 \<le> length ''catalog'' then WTruncated else WStored, m')
    \<and> w = min (length ''catalog'') (nat 5 - 1) \<and> read_bytes m' 100 (w + 1) = take w ''catalog'' @ [CHR 0x00]
    \<and> (\<forall>x. (x < 100 \<or> 100 + nat 5 \<le> x) \<and> (x < 200 \<or> 200 + 4 \<le> x) \<longrightarrow> m' x = CHR 0x00)"
  by (rule WriteString_utf8_spec) simp_all

text \<open>C38: the same contract for the wide results, whose buffer length is given in bytes and
  may be odd; the text is the UTF-16 conversion of the driver's UTF-8 string.\<close>

theorem WriteString_utf16_spec:
  assumes "p \<noteq> nullptr" "2 \<le> n" "n < 2 ^ 63"
    and "lp + len_size \<le> p \<or> p + nat n \<le> lp"
  shows "\<exists>m' w. WriteStringWith utf16_writer len_size str m p n lp
      = Some (if nat n div 2 \<le> length (utf16_text str) then WTruncated else WStored, m')
    \<and> w = min (length (utf16_text str)) (nat n div 2 - 1)
    \<and> read_bytes m' p (2 * (w + 1)) = units_bytes (take w (utf16_text str) @ [0])
    \<and> (\<forall>x. (x < p \<or> p + nat n \<le> x) \<and> (x < lp \<or> lp + len_size \<le> x) \<longrightarrow> m' x = m x)"
proof -
  have n: "int 2 \<le> n" using assms by simp
  note result = utf16.write_string_result [OF assms(1) n assms(3), of len_size str m lp]
  have report: "utf16.fitting str n < (length \<circ> utf16_text) str \<longleftrightarrow> nat n div 2 \<le> length (utf16_text str)"
    using n by auto
  from result obtain m' where m': "WriteStringWith utf16_writer len_size str m p n lp
      = Some (if nat n div 2 \<le> length (utf16_text str) then WTruncated else WStored, m')"
    unfolding report by blast
  with utf16.write_string_content [OF assms(1) n assms(3) m' assms(4)]
    utf16.write_string_inside [OF assms(1) n assms(3) m']
  show ?thesis by (intro exI [of _ m'] exI [of _ "utf16.fitting str n"]) (simp add: utf16_render_def)
qed

theorem WriteString_utf16_spec_witness:
  "\<exists>m' w. WriteStringWith utf16_writer 2 ''duck'' (\<lambda>_. CHR 0x00) 100 7 0
      = Some (if nat 7 div 2 \<le> length (utf16_text ''duck'') then WTruncated else WStored, m')
    \<and> w = min (length (utf16_text ''duck'')) (nat 7 div 2 - 1)
    \<and> read_bytes m' 100 (2 * (w + 1)) = units_bytes (take w (utf16_text ''duck'') @ [0])
    \<and> (\<forall>x. (x < 100 \<or> 100 + nat 7 \<le> x) \<and> (x < 0 \<or> 0 + 2 \<le> x) \<longrightarrow> m' x = CHR 0x00)"
  by (rule WriteString_utf16_spec) simp_all

text \<open>With a buffer length of zero the UTF-8 writer computes \<^verbatim>\<open>buf_len - 1\<close> in
  \<^verbatim>\<open>size_t\<close>, so it writes the whole string and its terminator into a buffer that was
  announced to have no room, and reports success.\<close>

theorem WriteString_utf8_zero_overruns:
  assumes "p \<noteq> nullptr" "int (length str) < 2 ^ 64"
  shows "WriteStringWith utf8_writer len_size str m p 0 lp
    = Some (WStored, store_int len_size (write_bytes m p (str @ [CHR 0x00])) lp (int (length str)))"
proof -
  have "to_uint64 (0 - 1) = 2 ^ 64 - 1" by (simp add: to_uint64_def mask_eq_exp_minus_1)
  then have "min (length str) (nat (to_uint64 (0 - 1))) = length str"
    using assms(2) by (simp add: min_absorb1 nat_le_iff le_nat_iff)
  then show ?thesis
    using assms(1) by (simp add: WriteStringWith_def utf8_writer_def WriteStringUtf8_def del: diff_0)
qed

theorem WriteString_utf8_zero_overruns_witness:
  "WriteStringWith utf8_writer 4 ''SELECT'' (\<lambda>_. CHR 0x2A) 100 0 0
    = Some (WStored, store_int 4 (write_bytes (\<lambda>_. CHR 0x2A) 100 (''SELECT'' @ [CHR 0x00])) 0 (int (length ''SELECT'')))"
  by (rule WriteString_utf8_zero_overruns) simp_all

lemma TrimString_dropWhile:
  "TrimString str = rev (dropWhile IsSpace (rev (dropWhile IsSpace str)))"
proof (cases "list_all IsSpace str")
  case True
  then have all: "takeWhile IsSpace (rev str) = rev str" "dropWhile IsSpace str = []"
    by (auto simp: list_all_iff)
  show ?thesis unfolding TrimString_def Let_def all by simp
next
  case False
  define rest where "rest = dropWhile IsSpace str"
  have str: "str = takeWhile IsSpace str @ rest" by (simp add: rest_def)
  have "rest \<noteq> []" using False by (auto simp: rest_def list_all_iff)
  then obtain x where x: "x \<in> set rest" "\<not> IsSpace x"
    unfolding rest_def by (metis hd_dropWhile hd_in_set)
  define k where "k = length (takeWhile IsSpace (rev rest))"
  have "takeWhile IsSpace (rev str) = takeWhile IsSpace (rev rest)"
    using x by (subst str) (simp add: takeWhile_append1)
  then have "length (takeWhile IsSpace (rev str)) = k" by (simp add: k_def)
  moreover have k: "k < length rest"
    unfolding k_def using x takeWhile_eq_take [of IsSpace "rev rest"] length_takeWhile_le [of IsSpace "rev rest"]
    by (metis le_neq_implies_less length_rev set_rev take_all_iff order_refl set_takeWhileD)
  moreover have "length str = length (takeWhile IsSpace str) + length rest" by (metis str length_append)
  moreover have "drop (length (takeWhile IsSpace str)) str = rest"
    unfolding rest_def by (simp add: dropWhile_eq_drop)
  moreover have "take (length rest - k) rest = rev (dropWhile IsSpace (rev rest))"
    by (simp add: k_def dropWhile_eq_drop rev_drop)
  moreover have "\<not> length (takeWhile IsSpace str) + length rest - k \<le> length (takeWhile IsSpace str)"
    using k by linarith
  ultimately show ?thesis
    unfolding TrimString_def Let_def rest_def [symmetric] by (simp only: if_False) simp
qed

text \<open>C31: \<^verbatim>\<open>TrimString\<close> removes exactly the white space around a string.\<close>

theorem TrimString_spec:
  "\<exists>pre post. str = pre @ TrimString str @ post \<and> list_all IsSpace pre \<and> list_all IsSpace post
    \<and> (TrimString str = [] \<or> \<not> IsSpace (hd (TrimString str)) \<and> \<not> IsSpace (last (TrimString str)))"
proof -
  let ?rest = "dropWhile IsSpace str" and ?tail = "takeWhile IsSpace (rev (dropWhile IsSpace str))"
  have "?rest = TrimString str @ rev ?tail"
    unfolding TrimString_dropWhile by (metis rev_append rev_rev_ident takeWhile_dropWhile_id)
  then have "str = takeWhile IsSpace str @ TrimString str @ rev ?tail"
    by (metis takeWhile_dropWhile_id)
  moreover have "list_all IsSpace (takeWhile IsSpace str)" "list_all IsSpace (rev ?tail)"
    by (auto simp: list_all_iff dest: set_takeWhileD)
  moreover have "\<not> IsSpace (hd (TrimString str)) \<and> \<not> IsSpace (last (TrimString str))" if "TrimString str \<noteq> []"
  proof
    from that have "hd (TrimString str) = hd ?rest" "?rest \<noteq> []"
      using \<open>?rest = TrimString str @ rev ?tail\<close> by (metis hd_append2, force)
    then show "\<not> IsSpace (hd (TrimString str))" by (metis hd_dropWhile)
    show "\<not> IsSpace (last (TrimString str))"
      using that unfolding TrimString_dropWhile by (metis last_rev rev.simps(1) hd_dropWhile)
  qed
  ultimately show ?thesis by blast
qed

end
