(* ===== verification/Odbc_Diagnostic.thy ===== *)
theory Odbc_Diagnostic
  imports Odbc_Utils
begin

text \<open>
  \<^verbatim>\<open>common/odbc_diagnostic.cpp\<close>, \<^verbatim>\<open>SetDiagnosticRecord\<close> of
  \<^verbatim>\<open>common/handle_functions.cpp\<close> and \<^verbatim>\<open>odbc_api/diagnostic_api.cpp\<close>: the diagnostic
  area of a handle, and the functions by which the application reads it.

  A diagnostic area keeps the records in the order they were added and a vector of record
  indexes, in which a record appears again each time a part of its message remains to be
  delivered; each record keeps a stack of offsets into its message. The invariant \<open>diag_ok\<close>
  says that every index names a record and every offset stack is non-empty with 0 at its
  bottom; all operations keep it, and under it no operation indexes out of range.

  The enumeration \<^verbatim>\<open>enum class SQLStateType : uint8_t\<close> is represented by its underlying
  numbers, in the order of the declaration.
\<close>

section \<open>SQLSTATE values\<close>

type_synonym SQLStateType = nat

abbreviation (input) ST_01000 :: SQLStateType where "ST_01000 \<equiv> 0"
abbreviation (input) ST_01001 :: SQLStateType where "ST_01001 \<equiv> 1"
abbreviation (input) ST_01002 :: SQLStateType where "ST_01002 \<equiv> 2"
abbreviation (input) ST_01003 :: SQLStateType where "ST_01003 \<equiv> 3"
abbreviation (input) ST_01004 :: SQLStateType where "ST_01004 \<equiv> 4"
abbreviation (input) ST_01006 :: SQLStateType where "ST_01006 \<equiv> 5"
abbreviation (input) ST_01007 :: SQLStateType where "ST_01007 \<equiv> 6"
abbreviation (input) ST_01S00 :: SQLStateType where "ST_01S00 \<equiv> 7"
abbreviation (input) ST_01S01 :: SQLStateType where "ST_01S01 \<equiv> 8"
abbreviation (input) ST_01S02 :: SQLStateType where "ST_01S02 \<equiv> 9"
abbreviation (input) ST_01S06 :: SQLStateType where "ST_01S06 \<equiv> 10"
abbreviation (input) ST_01S07 :: SQLStateType where "ST_01S07 \<equiv> 11"
abbreviation (input) ST_01S08 :: SQLStateType where "ST_01S08 \<equiv> 12"
abbreviation (input) ST_01S09 :: SQLStateType where "ST_01S09 \<equiv> 13"
abbreviation (input) ST_07002 :: SQLStateType where "ST_07002 \<equiv> 14"
abbreviation (input) ST_07005 :: SQLStateType where "ST_07005 \<equiv> 15"
abbreviation (input) ST_07006 :: SQLStateType where "ST_07006 \<equiv> 16"
abbreviation (input) ST_07007 :: SQLStateType where "ST_07007 \<equiv> 17"
abbreviation (input) ST_07009 :: SQLStateType where "ST_07009 \<equiv> 18"
abbreviation (input) ST_07S01 :: SQLStateType where "ST_07S01 \<equiv> 19"
abbreviation (input) ST_08001 :: SQLStateType where "ST_08001 \<equiv> 20"
abbreviation (input) ST_08002 :: SQLStateType where "ST_08002 \<equiv> 21"
abbreviation (input) ST_08003 :: SQLStateType where "ST_08003 \<equiv> 22"
abbreviation (input) ST_08004 :: SQLStateType where "ST_08004 \<equiv> 23"
abbreviation (input) ST_08007 :: SQLStateType where "ST_08007 \<equiv> 24"
abbreviation (input) ST_08S01 :: SQLStateType where "ST_08S01 \<equiv> 25"
abbreviation (input) ST_0A000 :: SQLStateType where "ST_0A000 \<equiv> 26"
abbreviation (input) ST_21S01 :: SQLStateType where "ST_21S01 \<equiv> 27"
abbreviation (input) ST_21S02 :: SQLStateType where "ST_21S02 \<equiv> 28"
abbreviation (input) ST_22001 :: SQLStateType where "ST_22001 \<equiv> 29"
abbreviation (input) ST_22002 :: SQLStateType where "ST_22002 \<equiv> 30"
abbreviation (input) ST_22003 :: SQLStateType where "ST_22003 \<equiv> 31"
abbreviation (input) ST_22007 :: SQLStateType where "ST_22007 \<equiv> 32"
abbreviation (input) ST_22008 :: SQLStateType where "ST_22008 \<equiv> 33"
abbreviation (input) ST_22012 :: SQLStateType where "ST_22012 \<equiv> 34"
abbreviation (input) ST_22015 :: SQLStateType where "ST_22015 \<equiv> 35"
abbreviation (input) ST_22018 :: SQLStateType where "ST_22018 \<equiv> 36"
abbreviation (input) ST_22019 :: SQLStateType where "ST_22019 \<equiv> 37"
abbreviation (input) ST_22025 :: SQLStateType where "ST_22025 \<equiv> 38"
abbreviation (input) ST_22026 :: SQLStateType where "ST_22026 \<equiv> 39"
abbreviation (input) ST_23000 :: SQLStateType where "ST_23000 \<equiv> 40"
abbreviation (input) ST_24000 :: SQLStateType where "ST_24000 \<equiv> 41"
abbreviation (input) ST_25000 :: SQLStateType where "ST_25000 \<equiv> 42"
abbreviation (input) ST_25S01 :: SQLStateType where "ST_25S01 \<equiv> 43"
abbreviation (input) ST_25S02 :: SQLStateType where "ST_25S02 \<equiv> 44"
abbreviation (input) ST_25S03 :: SQLStateType where "ST_25S03 \<equiv> 45"
abbreviation (input) ST_28000 :: SQLStateType where "ST_28000 \<equiv> 46"
abbreviation (input) ST_34000 :: SQLStateType where "ST_34000 \<equiv> 47"
abbreviation (input) ST_3C000 :: SQLStateType where "ST_3C000 \<equiv> 48"
abbreviation (input) ST_3D000 :: SQLStateType where "ST_3D000 \<equiv> 49"
abbreviation (input) ST_3F000 :: SQLStateType where "ST_3F000 \<equiv> 50"
abbreviation (input) ST_40001 :: SQLStateType where "ST_40001 \<equiv> 51"
abbreviation (input) ST_40002 :: SQLStateType where "ST_40002 \<equiv> 52"
abbreviation (input) ST_40003 :: SQLStateType where "ST_40003 \<equiv> 53"
abbreviation (input) ST_42000 :: SQLStateType where "ST_42000 \<equiv> 54"
abbreviation (input) ST_42S01 :: SQLStateType where "ST_42S01 \<equiv> 55"
abbreviation (input) ST_42S02 :: SQLStateType where "ST_42S02 \<equiv> 56"
abbreviation (input) ST_42S11 :: SQLStateType where "ST_42S11 \<equiv> 57"
abbreviation (input) ST_42S12 :: SQLStateType where "ST_42S12 \<equiv> 58"
abbreviation (input) ST_42S21 :: SQLStateType where "ST_42S21 \<equiv> 59"
abbreviation (input) ST_42S22 :: SQLStateType where "ST_42S22 \<equiv> 60"
abbreviation (input) ST_44000 :: SQLStateType where "ST_44000 \<equiv> 61"
abbreviation (input) ST_HY000 :: SQLStateType where "ST_HY000 \<equiv> 62"
abbreviation (input) ST_HY001 :: SQLStateType where "ST_HY001 \<equiv> 63"
abbreviation (input) ST_HY003 :: SQLStateType where "ST_HY003 \<equiv> 64"
abbreviation (input) ST_HY004 :: SQLStateType where "ST_HY004 \<equiv> 65"
abbreviation (input) ST_HY007 :: SQLStateType where "ST_HY007 \<equiv> 66"
abbreviation (input) ST_HY008 :: SQLStateType where "ST_HY008 \<equiv> 67"
abbreviation (input) ST_HY009 :: SQLStateType where "ST_HY009 \<equiv> 68"
abbreviation (input) ST_HY010 :: SQLStateType where "ST_HY010 \<equiv> 69"
abbreviation (input) ST_HY011 :: SQLStateType where "ST_HY011 \<equiv> 70"
abbreviation (input) ST_HY012 :: SQLStateType where "ST_HY012 \<equiv> 71"
abbreviation (input) ST_HY013 :: SQLStateType where "ST_HY013 \<equiv> 72"
abbreviation (input) ST_HY014 :: SQLStateType where "ST_HY014 \<equiv> 73"
abbreviation (input) ST_HY015 :: SQLStateType where "ST_HY015 \<equiv> 74"
abbreviation (input) ST_HY016 :: SQLStateType where "ST_HY016 \<equiv> 75"
abbreviation (input) ST_HY017 :: SQLStateType where "ST_HY017 \<equiv> 76"
abbreviation (input) ST_HY018 :: SQLStateType where "ST_HY018 \<equiv> 77"
abbreviation (input) ST_HY019 :: SQLStateType where "ST_HY019 \<equiv> 78"
abbreviation (input) ST_HY020 :: SQLStateType where "ST_HY020 \<equiv> 79"
abbreviation (input) ST_HY021 :: SQLStateType where "ST_HY021 \<equiv> 80"
abbreviation (input) ST_HY024 :: SQLStateType where "ST_HY024 \<equiv> 81"
abbreviation (input) ST_HY090 :: SQLStateType where "ST_HY090 \<equiv> 82"
abbreviation (input) ST_HY091 :: SQLStateType where "ST_HY091 \<equiv> 83"
abbreviation (input) ST_HY092 :: SQLStateType where "ST_HY092 \<equiv> 84"
abbreviation (input) ST_HY095 :: SQLStateType where "ST_HY095 \<equiv> 85"
abbreviation (input) ST_HY096 :: SQLStateType where "ST_HY096 \<equiv> 86"
abbreviation (input) ST_HY097 :: SQLStateType where "ST_HY097 \<equiv> 87"
abbreviation (input) ST_HY098 :: SQLStateType where "ST_HY098 \<equiv> 88"
abbreviation (input) ST_HY099 :: SQLStateType where "ST_HY099 \<equiv> 89"
abbreviation (input) ST_HY100 :: SQLStateType where "ST_HY100 \<equiv> 90"
abbreviation (input) ST_HY101 :: SQLStateType where "ST_HY101 \<equiv> 91"
abbreviation (input) ST_HY103 :: SQLStateType where "ST_HY103 \<equiv> 92"
abbreviation (input) ST_HY104 :: SQLStateType where "ST_HY104 \<equiv> 93"
abbreviation (input) ST_HY105 :: SQLStateType where "ST_HY105 \<equiv> 94"
abbreviation (input) ST_HY106 :: SQLStateType where "ST_HY106 \<equiv> 95"
abbreviation (input) ST_HY107 :: SQLStateType where "ST_HY107 \<equiv> 96"
abbreviation (input) ST_HY109 :: SQLStateType where "ST_HY109 \<equiv> 97"
abbreviation (input) ST_HY110 :: SQLStateType where "ST_HY110 \<equiv> 98"
abbreviation (input) ST_HY111 :: SQLStateType where "ST_HY111 \<equiv> 99"
abbreviation (input) ST_HY114 :: SQLStateType where "ST_HY114 \<equiv> 100"
abbreviation (input) ST_HY115 :: SQLStateType where "ST_HY115 \<equiv> 101"
abbreviation (input) ST_HY117 :: SQLStateType where "ST_HY117 \<equiv> 102"
abbreviation (input) ST_HY121 :: SQLStateType where "ST_HY121 \<equiv> 103"
abbreviation (input) ST_HYC00 :: SQLStateType where "ST_HYC00 \<equiv> 104"
abbreviation (input) ST_HYT00 :: SQLStateType where "ST_HYT00 \<equiv> 105"
abbreviation (input) ST_HYT01 :: SQLStateType where "ST_HYT01 \<equiv> 106"
abbreviation (input) ST_IM001 :: SQLStateType where "ST_IM001 \<equiv> 107"
abbreviation (input) ST_IM002 :: SQLStateType where "ST_IM002 \<equiv> 108"
abbreviation (input) ST_IM003 :: SQLStateType where "ST_IM003 \<equiv> 109"
abbreviation (input) ST_IM004 :: SQLStateType where "ST_IM004 \<equiv> 110"
abbreviation (input) ST_IM005 :: SQLStateType where "ST_IM005 \<equiv> 111"
abbreviation (input) ST_IM006 :: SQLStateType where "ST_IM006 \<equiv> 112"
abbreviation (input) ST_IM007 :: SQLStateType where "ST_IM007 \<equiv> 113"
abbreviation (input) ST_IM008 :: SQLStateType where "ST_IM008 \<equiv> 114"
abbreviation (input) ST_IM009 :: SQLStateType where "ST_IM009 \<equiv> 115"
abbreviation (input) ST_IM010 :: SQLStateType where "ST_IM010 \<equiv> 116"
abbreviation (input) ST_IM011 :: SQLStateType where "ST_IM011 \<equiv> 117"
abbreviation (input) ST_IM012 :: SQLStateType where "ST_IM012 \<equiv> 118"
abbreviation (input) ST_IM014 :: SQLStateType where "ST_IM014 \<equiv> 119"
abbreviation (input) ST_IM015 :: SQLStateType where "ST_IM015 \<equiv> 120"
abbreviation (input) ST_IM017 :: SQLStateType where "ST_IM017 \<equiv> 121"
abbreviation (input) ST_IM018 :: SQLStateType where "ST_IM018 \<equiv> 122"
abbreviation (input) ST_S1118 :: SQLStateType where "ST_S1118 \<equiv> 123"

definition MAP_ODBC_SQL_STATES :: "(SQLStateType \<times> (string \<times> string)) list" where
  "MAP_ODBC_SQL_STATES =
    [(ST_01000, (''01000'', ''General warning'')),
     (ST_01001, (''01001'', ''Cursor operation conflict'')),
     (ST_01002, (''01002'', ''Disconnect error'')),
     (ST_01003, (''01003'', ''NULL value eliminated in set function'')),
     (ST_01004, (''01004'', ''String data, right truncated'')),
     (ST_01006, (''01006'', ''Privilege not revoked'')),
     (ST_01007, (''01007'', ''Privilege not granted'')),
     (ST_01S00, (''01S00'', ''Invalid connection string attribute'')),
     (ST_01S01, (''01S01'', ''Error in row'')),
     (ST_01S02, (''01S02'', ''Option value changed'')),
     (ST_01S06, (''01S06'', ''Attempt to fetch before the result set returned the first rowset'')),
     (ST_01S07, (''01S07'', ''Fractional truncation'')),
     (ST_01S08, (''01S08'', ''Error saving file DSN'')),
     (ST_01S09, (''01S09'', ''Invalid keyword'')),
     (ST_07002, (''07002'', ''COUNT field incorrect'')),
     (ST_07005, (''07005'', ''Prepared statement not a cursor-specification'')),
     (ST_07006, (''07006'', ''Restricted data type attribute violation'')),
     (ST_07007, (''07007'', ''Restricted parameter value violation'')),
     (ST_07009, (''07009'', ''Invalid descriptor index'')),
     (ST_07S01, (''07S01'', ''Invalid use of default parameter'')),
     (ST_08001, (''08001'', ''Client unable to establish connection'')),
     (ST_08002, (''08002'', ''Connection name in use'')),
     (ST_08003, (''08003'', ''Connection not open'')),
     (ST_08004, (''08004'', ''Server rejected the connection'')),
     (ST_08007, (''08007'', ''Connection failure during transaction'')),
     (ST_08S01, (''08S01'', ''Communication link failure'')),
     (ST_0A000, (''0A000'', ''Feature not supported'')),
     (ST_21S01, (''21S01'', ''Insert value list does not match column list'')),
     (ST_21S02, (''21S02'', ''Degree of derived table does not match column list'')),
     (ST_22001, (''22001'', ''String data, right truncated'')),
     (ST_22002, (''22002'', ''Indicator variable required but not supplied'')),
     (ST_22003, (''22003'', ''Numeric value out of range'')),
     (ST_22007, (''22007'', ''Invalid datetime format'')),
     (ST_22008, (''22008'', ''Datetime field overflow'')),
     (ST_22012, (''22012'', ''Division by zero'')),
     (ST_22015, (''22015'', ''Interval field overflow'')),
     (ST_22018, (''22018'', ''Invalid character value for cast specification'')),
     (ST_22019, (''22019'', ''Invalid escape character'')),
     (ST_22025, (''22025'', ''Invalid escape sequence'')),
     (ST_22026, (''22026'', ''String data, length mismatch'')),
     (ST_23000, (''23000'', ''Integrity constraint violation'')),
     (ST_24000, (''24000'', ''Invalid cursor state'')),
     (ST_25000, (''25000'', ''Invalid transaction state'')),
     (ST_25S01, (''25S01'', ''Transaction state unknown'')),
     (ST_25S02, (''25S02'', ''Transaction is still active'')),
     (ST_25S03, (''25S03'', ''Transaction is rolled back'')),
     (ST_28000, (''28000'', ''Invalid authorization specification'')),
     (ST_34000, (''34000'', ''Invalid cursor name'')),
     (ST_3C000, (''3C000'', ''Duplicate cursor name'')),
     (ST_3D000, (''3D000'', ''Invalid catalog name'')),
     (ST_3F000, (''3F000'', ''Invalid schema name'')),
     (ST_40001, (''40001'', ''Serialization failure'')),
     (ST_40002, (''40002'', ''Integrity constraint violation'')),
     (ST_40003, (''40003'', ''Statement completion unknown'')),
     (ST_42000, (''42000'', ''Syntax error or access violation'')),
     (ST_42S01, (''42S01'', ''Base table or view already exists'')),
     (ST_42S02, (''42S02'', ''Base table or view not found'')),
     (ST_42S11, (''42S11'', ''Index already exists'')),
     (ST_42S12, (''42S12'', ''Index not found'')),
     (ST_42S21, (''42S21'', ''Column already exists'')),
     (ST_42S22, (''42S22'', ''Column not found'')),
     (ST_44000, (''44000'', ''WITH CHECK OPTION violation'')),
     (ST_HY000, (''HY000'', ''General error'')),
     (ST_HY001, (''HY001'', ''Memory allocation error'')),
     (ST_HY003, (''HY003'', ''Invalid application buffer type'')),
     (ST_HY004, (''HY004'', ''Invalid SQL data type'')),
     (ST_HY007, (''HY007'', ''Associated statement is not prepared'')),
     (ST_HY008, (''HY008'', ''Operation canceled'')),
     (ST_HY009, (''HY009'', ''Invalid argument value'')),
     (ST_HY010, (''HY010'', ''Function sequence error'')),
     (ST_HY011, (''HY011'', ''Attribute cannot be set now'')),
     (ST_HY012, (''HY012'', ''Invalid transaction operation code'')),
     (ST_HY013, (''HY013'', ''Memory management error'')),
     (ST_HY014, (''HY014'', ''Limit on the number of handles exceeded'')),
     (ST_HY015, (''HY015'', ''No cursor name available'')),
     (ST_HY016, (''HY016'', ''Cannot modify an implementation row descriptor'')),
     (ST_HY017, (''HY017'', ''Invalid use of an automatically allocated descriptor handle'')),
     (ST_HY018, (''HY018'', ''Server declined cancel request'')),
     (ST_HY019, (''HY019'', ''Non-character and non-binary data sent in pieces'')),
     (ST_HY020, (''HY020'', ''Attempt to concatenate a null value'')),
     (ST_HY021, (''HY021'', ''Inconsistent descriptor information'')),
     (ST_HY024, (''HY024'', ''Invalid attribute value'')),
     (ST_HY090, (''HY090'', ''Invalid string or buffer length'')),
     (ST_HY091, (''HY091'', ''Invalid descriptor field identifier'')),
     (ST_HY092, (''HY092'', ''Invalid attribute/option identifier'')),
     (ST_HY095, (''HY095'', ''Function type out of range'')),
     (ST_HY096, (''HY096'', ''Information type out of range'')),
     (ST_HY097, (''HY097'', ''Column type out of range'')),
     (ST_HY098, (''HY098'', ''Scope type out of range'')),
     (ST_HY099, (''HY099'', ''Nullable type out of range'')),
     (ST_HY100, (''HY100'', ''Uniqueness option type out of range'')),
     (ST_HY101, (''HY101'', ''Accuracy option type out of range'')),
     (ST_HY103, (''HY103'', ''Invalid retrieval code'')),
     (ST_HY104, (''HY104'', ''Invalid precision or scale value'')),
     (ST_HY105, (''HY105'', ''Invalid parameter type'')),
     (ST_HY106, (''HY106'', ''Fetch type out of range'')),
     (ST_HY107, (''HY107'', ''Row value out of range'')),
     (ST_HY109, (''HY109'', ''Invalid cursor position'')),
     (ST_HY110, (''HY110'', ''Invalid driver completion'')),
     (ST_HY111, (''HY111'', ''Invalid bookmark value'')),
     (ST_HY114, (''HY114'', ''Driver does not support connection-level asynchronous function execution'')),
     (ST_HY115, (''HY115'', ''SQLEndTran is not allowed for an environment that contains a connection with asynchronous function execution enabled'')),
     (ST_HY117, (''HY117'', ''Connection is suspended due to unknown transaction state. Only disconnect and read-only functions are allowed.'')),
     (ST_HY121, (''HY121'', ''Cursor Library and Driver-Aware Pooling cannot be enabled at the same time'')),
     (ST_HYC00, (''HYC00'', ''Optional feature not implemented'')),
     (ST_HYT00, (''HYT00'', ''Timeout expired'')),
     (ST_HYT01, (''HYT01'', ''Connection timeout expired'')),
     (ST_IM001, (''IM001'', ''Driver does not support this function'')),
     (ST_IM002, (''IM002'', ''Data source not found and no default driver specified'')),
     (ST_IM003, (''IM003'', ''Specified driver could not be connected to'')),
     (ST_IM004, (''IM004'', ''Driver'' @ [CHR 0x27] @ ''s SQLAllocHandle on SQL_HANDLE_ENV failed'')),
     (ST_IM005, (''IM005'', ''Driver'' @ [CHR 0x27] @ ''s SQLAllocHandle on SQL_HANDLE_DBC failed'')),
     (ST_IM006, (''IM006'', ''Driver'' @ [CHR 0x27] @ ''s SQLSetConnectAttr failed'')),
     (ST_IM007, (''IM007'', ''No data source or driver specified; dialog prohibited'')),
     (ST_IM008, (''IM008'', ''Dialog failed'')),
     (ST_IM009, (''IM009'', ''Unable to connect to translation DLL'')),
     (ST_IM010, (''IM010'', ''Data source name too long'')),
     (ST_IM011, (''IM011'', ''Driver name too long'')),
     (ST_IM012, (''IM012'', ''DRIVER keyword syntax error'')),
     (ST_IM014, (''IM014'', ''The specified DSN contains an architecture mismatch between the Driver and Application'')),
     (ST_IM015, (''IM015'', ''Driver'' @ [CHR 0x27] @ ''s SQLConnect on SQL_HANDLE_DBC_INFO_HANDLE failed'')),
     (ST_IM017, (''IM017'', ''Polling is disabled in asynchronous notification mode'')),
     (ST_IM018, (''IM018'', ''SQLCompleteAsync has not been called to complete the previous asynchronous operation on this handle.'')),
     (ST_S1118, (''S1118'', ''Driver does not support asynchronous notification''))]"

definition MAP_DYNAMIC_FUNCTION :: "(SQLINTEGER \<times> string) list" where
  "MAP_DYNAMIC_FUNCTION =
    [(3, ''ALTER DOMAIN''),
     (4, ''ALTER TABLE''),
     (6, ''CREATE ASSERTION''),
     (8, ''CREATE CHARACTER SET''),
     (10, ''CREATE COLLATION''),
     (23, ''CREATE DOMAIN''),
     (- 1, ''CREATE INDEX''),
     (77, ''CREATE TABLE''),
     (84, ''CREATE VIEW''),
     (85, ''SELECT CURSOR''),
     (38, ''DYNAMIC DELETE CURSOR''),
     (19, ''DELETE WHERE''),
     (24, ''DROP ASSERTION''),
     (25, ''DROP CHARACTER SET''),
     (26, ''DROP COLLATION''),
     (27, ''DROP DOMAIN''),
     (- 2, ''DROP INDEX''),
     (31, ''DROP SCHEMA''),
     (32, ''DROP TABLE''),
     (33, ''DROP TRANSLATION''),
     (36, ''DROP VIEW''),
     (48, ''GRANT''),
     (50, ''INSERT''),
     (7, ''CALL''),
     (59, ''REVOKE''),
     (64, ''CREATE SCHEMA''),
     (79, ''CREATE TRANSLATION''),
     (81, ''DYNAMIC UPDATE CURSOR''),
     (82, ''UPDATE WHERE''),
     (0, '''')]"

definition SET_ODBC3_SUBCLASS_ORIGIN :: "string list" where
  "SET_ODBC3_SUBCLASS_ORIGIN =
    [''01S00'', ''01S01'', ''01S02'', ''01S06'', ''01S07'', ''07S01'', ''08S01'', ''21S01'', ''21S02'',
     ''25S01'', ''25S02'', ''25S03'', ''42S01'', ''42S02'', ''42S11'', ''42S12'', ''42S21'', ''42S22'',
     ''HY095'', ''HY097'', ''HY098'', ''HY099'', ''HY100'', ''HY101'', ''HY105'', ''HY107'', ''HY109'',
     ''HY110'', ''HY111'', ''HYT00'', ''HYT01'', ''IM001'', ''IM002'', ''IM003'', ''IM004'', ''IM005'',
     ''IM006'', ''IM007'', ''IM008'', ''IM010'', ''IM011'', ''IM012'']"

section \<open>Field identifiers\<close>

abbreviation (input) SQL_DIAG_CURSOR_ROW_COUNT :: int where "SQL_DIAG_CURSOR_ROW_COUNT \<equiv> - 1249"
abbreviation (input) SQL_DIAG_ROW_NUMBER :: int where "SQL_DIAG_ROW_NUMBER \<equiv> - 1248"
abbreviation (input) SQL_DIAG_COLUMN_NUMBER :: int where "SQL_DIAG_COLUMN_NUMBER \<equiv> - 1247"
abbreviation (input) SQL_DIAG_RETURNCODE :: int where "SQL_DIAG_RETURNCODE \<equiv> 1"
abbreviation (input) SQL_DIAG_NUMBER :: int where "SQL_DIAG_NUMBER \<equiv> 2"
abbreviation (input) SQL_DIAG_ROW_COUNT :: int where "SQL_DIAG_ROW_COUNT \<equiv> 3"
abbreviation (input) SQL_DIAG_SQLSTATE :: int where "SQL_DIAG_SQLSTATE \<equiv> 4"
abbreviation (input) SQL_DIAG_NATIVE :: int where "SQL_DIAG_NATIVE \<equiv> 5"
abbreviation (input) SQL_DIAG_MESSAGE_TEXT :: int where "SQL_DIAG_MESSAGE_TEXT \<equiv> 6"
abbreviation (input) SQL_DIAG_DYNAMIC_FUNCTION :: int where "SQL_DIAG_DYNAMIC_FUNCTION \<equiv> 7"
abbreviation (input) SQL_DIAG_CLASS_ORIGIN :: int where "SQL_DIAG_CLASS_ORIGIN \<equiv> 8"
abbreviation (input) SQL_DIAG_SUBCLASS_ORIGIN :: int where "SQL_DIAG_SUBCLASS_ORIGIN \<equiv> 9"
abbreviation (input) SQL_DIAG_CONNECTION_NAME :: int where "SQL_DIAG_CONNECTION_NAME \<equiv> 10"
abbreviation (input) SQL_DIAG_SERVER_NAME :: int where "SQL_DIAG_SERVER_NAME \<equiv> 11"
abbreviation (input) SQL_DIAG_DYNAMIC_FUNCTION_CODE :: int where "SQL_DIAG_DYNAMIC_FUNCTION_CODE \<equiv> 12"
abbreviation (input) SQL_DIAG_UNKNOWN_STATEMENT :: int where "SQL_DIAG_UNKNOWN_STATEMENT \<equiv> 0"
abbreviation (input) SQL_NO_COLUMN_NUMBER :: int where "SQL_NO_COLUMN_NUMBER \<equiv> - 1"
abbreviation (input) SQL_NO_ROW_NUMBER :: int where "SQL_NO_ROW_NUMBER \<equiv> - 1"

section \<open>Records and the diagnostic area\<close>

text \<open>\<^verbatim>\<open>stack_msg_offset\<close> is a list with its top first.\<close>

record DiagRecord =
  sql_diag_column_number :: SQLINTEGER
  sql_diag_native :: SQLINTEGER
  sql_diag_row_number :: SQLLEN
  sql_diag_server_name :: string
  sql_diag_sqlstate :: string
  sql_diag_message_text :: string
  stack_msg_offset :: "nat list"

record DiagHeader =
  sql_diag_cursor_row_count :: SQLLEN
  sql_diag_dynamic_function_code :: SQLINTEGER
  sql_diag_number :: SQLINTEGER
  sql_diag_return_code :: SQLRETURN
  sql_diag_row_count :: SQLLEN

record OdbcDiagnostic =
  diag_header :: DiagHeader
  diag_records :: "DiagRecord list"
  vec_record_idx :: "SQLSMALLINT list"

definition make_DiagHeader :: DiagHeader where
  "make_DiagHeader = \<lparr>sql_diag_cursor_row_count = 0,
     sql_diag_dynamic_function_code = SQL_DIAG_UNKNOWN_STATEMENT, sql_diag_number = 0,
     sql_diag_return_code = 0, sql_diag_row_count = 0\<rparr>"

definition make_OdbcDiagnostic :: OdbcDiagnostic where
  "make_OdbcDiagnostic = \<lparr>diag_header = make_DiagHeader, diag_records = [], vec_record_idx = []\<rparr>"

definition make_DiagRecord ::
  "string \<Rightarrow> SQLStateType \<Rightarrow> string \<Rightarrow> SQLINTEGER \<Rightarrow> SQLINTEGER \<Rightarrow> SQLLEN \<Rightarrow> DiagRecord" where
  "make_DiagRecord msg sqlstate_type server_name col_number sql_native row_number =
     \<lparr>sql_diag_column_number = col_number, sql_diag_native = sql_native,
      sql_diag_row_number = row_number, sql_diag_server_name = server_name,
      sql_diag_sqlstate = (case map_of MAP_ODBC_SQL_STATES sqlstate_type of
                             Some (code, _) \<Rightarrow> code | None \<Rightarrow> []),
      sql_diag_message_text = msg, stack_msg_offset = [0]\<rparr>"

definition ClearStackMsgOffset :: "DiagRecord \<Rightarrow> DiagRecord" where
  "ClearStackMsgOffset r = r\<lparr>stack_msg_offset := dropWhile (\<lambda>k. k \<noteq> 0) (stack_msg_offset r)\<rparr>"

definition SetMessage :: "DiagRecord \<Rightarrow> string \<Rightarrow> DiagRecord" where
  "SetMessage r new_msg = ClearStackMsgOffset (r\<lparr>sql_diag_message_text := new_msg\<rparr>)"

text \<open>\<^verbatim>\<open>stack_msg_offset.top()\<close> of an empty stack is undefined, and \<^verbatim>\<open>substr\<close> throws
  past the end of the text: both are \<open>None\<close>. The sum is computed in \<^verbatim>\<open>idx_t\<close>.\<close>

definition GetMessage :: "DiagRecord \<Rightarrow> SQLSMALLINT \<Rightarrow> (string \<times> DiagRecord) option" where
  "GetMessage r buff_length =
     (case stack_msg_offset r of
        [] \<Rightarrow> None
      | last_offset # _ \<Rightarrow>
          let new_offset = nat (to_uint64 (int last_offset + buff_length));
              r' = (if new_offset \<ge> length (sql_diag_message_text r) then ClearStackMsgOffset r
                    else r\<lparr>stack_msg_offset := new_offset # stack_msg_offset r\<rparr>)
          in if last_offset \<le> length (sql_diag_message_text r)
             then Some (drop last_offset (sql_diag_message_text r), r') else None)"

definition IsDiagRecordField :: "SQLSMALLINT \<Rightarrow> bool" where
  "IsDiagRecordField rec_field \<longleftrightarrow> rec_field = SQL_DIAG_CLASS_ORIGIN
     \<or> rec_field = SQL_DIAG_COLUMN_NUMBER \<or> rec_field = SQL_DIAG_CONNECTION_NAME
     \<or> rec_field = SQL_DIAG_MESSAGE_TEXT \<or> rec_field = SQL_DIAG_NATIVE
     \<or> rec_field = SQL_DIAG_ROW_NUMBER \<or> rec_field = SQL_DIAG_SERVER_NAME
     \<or> rec_field = SQL_DIAG_SQLSTATE \<or> rec_field = SQL_DIAG_SUBCLASS_ORIGIN"

definition FormatDiagnosticMessage :: "DiagRecord \<Rightarrow> string \<Rightarrow> string \<Rightarrow> DiagRecord" where
  "FormatDiagnosticMessage diag_record data_source component =
     SetMessage diag_record
       (''ODBC_Haybarn'' @ (if data_source \<noteq> [] then ''->'' @ data_source else [])
        @ (if component \<noteq> [] then ''->'' @ component else [])
        @ [CHR 0x0A] @ sql_diag_message_text diag_record)"

definition AddDiagRecord :: "OdbcDiagnostic \<Rightarrow> DiagRecord \<Rightarrow> OdbcDiagnostic" where
  "AddDiagRecord d diag_record =
     (let rec_idx = to_int16 (int (length (diag_records d))) in
      d\<lparr>diag_records := diag_records d @ [diag_record],
        vec_record_idx := vec_record_idx d @ [rec_idx]\<rparr>)"

definition AddNewRecIdx :: "OdbcDiagnostic \<Rightarrow> SQLSMALLINT \<Rightarrow> OdbcDiagnostic option" where
  "AddNewRecIdx d rec_idx =
     (if 0 \<le> rec_idx \<and> rec_idx < int (length (vec_record_idx d)) then
        let i = nat rec_idx; v = vec_record_idx d in
        Some (d\<lparr>vec_record_idx := take (i + 1) v @ [v ! i] @ drop (i + 1) v\<rparr>)
      else None)"

definition GetTotalRecords :: "OdbcDiagnostic \<Rightarrow> nat" where
  "GetTotalRecords d = length (vec_record_idx d)"

definition Clean :: "OdbcDiagnostic \<Rightarrow> OdbcDiagnostic" where
  "Clean d = d\<lparr>diag_header := make_DiagHeader, diag_records := [], vec_record_idx := []\<rparr>"

definition GetDiagDynamicFunction :: "OdbcDiagnostic \<Rightarrow> string" where
  "GetDiagDynamicFunction d =
     (case map_of MAP_DYNAMIC_FUNCTION (sql_diag_dynamic_function_code (diag_header d)) of
        None \<Rightarrow> [] | Some name \<Rightarrow> name)"

definition VerifyRecordIndex :: "OdbcDiagnostic \<Rightarrow> SQLINTEGER \<Rightarrow> bool" where
  "VerifyRecordIndex d rec_idx \<longleftrightarrow> rec_idx < int (length (diag_records d)) \<and> rec_idx \<ge> 0"

text \<open>The reference returned is the index of the record in \<^verbatim>\<open>diag_records\<close>.\<close>

definition GetDiagRecord :: "OdbcDiagnostic \<Rightarrow> SQLINTEGER \<Rightarrow> (nat \<times> OdbcDiagnostic) option" where
  "GetDiagRecord d rec_idx =
     (if 0 \<le> rec_idx \<and> rec_idx < int (length (vec_record_idx d)) then
        let origin_idx = vec_record_idx d ! nat rec_idx in
        if 0 \<le> origin_idx \<and> origin_idx < int (length (diag_records d)) then
          Some (nat origin_idx,
            if rec_idx = 0 then
              d\<lparr>vec_record_idx := map (\<lambda>i. to_int16 (int i)) [0..<length (diag_records d)],
                diag_records := map ClearStackMsgOffset (diag_records d)\<rparr>
            else d)
        else None
      else None)"

text \<open>\<^verbatim>\<open>sqlstate_str.find("IM") != npos\<close>\<close>

fun find_IM :: "string \<Rightarrow> bool" where
  "find_IM (a # b # cs) = (a = CHR ''I'' \<and> b = CHR ''M'' \<or> find_IM (b # cs))"
| "find_IM _ = False"

definition GetDiagClassOrigin :: "OdbcDiagnostic \<Rightarrow> SQLINTEGER \<Rightarrow> string option" where
  "GetDiagClassOrigin d rec_idx =
     (if VerifyRecordIndex d rec_idx then
        Some (if find_IM (sql_diag_sqlstate (diag_records d ! nat rec_idx)) then ''ODBC 3.0''
              else ''ISO 9075'')
      else None)"

definition GetDiagSubclassOrigin :: "OdbcDiagnostic \<Rightarrow> SQLINTEGER \<Rightarrow> string option" where
  "GetDiagSubclassOrigin d rec_idx =
     (if VerifyRecordIndex d rec_idx then
        Some (if sql_diag_sqlstate (diag_records d ! nat rec_idx) \<in> set SET_ODBC3_SUBCLASS_ORIGIN
              then ''ODBC 3.0'' else ''ISO 9075'')
      else None)"

text \<open>\<^verbatim>\<open>SetDiagnosticRecord\<close> on the diagnostic area of the handle.\<close>

definition SetDiagnosticRecord ::
  "OdbcDiagnostic \<Rightarrow> SQLRETURN \<Rightarrow> string \<Rightarrow> string \<Rightarrow> SQLStateType \<Rightarrow> string \<Rightarrow> SQLRETURN \<times> OdbcDiagnostic" where
  "SetDiagnosticRecord d ret component msg sqlstate_type server_name =
     (let diag_rec = make_DiagRecord msg sqlstate_type server_name SQL_NO_COLUMN_NUMBER 0 SQL_NO_ROW_NUMBER;
          diag_rec = FormatDiagnosticMessage diag_rec server_name component
      in (ret, AddDiagRecord d diag_rec))"

section \<open>Invariant\<close>

definition offsets_ok :: "DiagRecord \<Rightarrow> bool" where
  "offsets_ok r \<longleftrightarrow> stack_msg_offset r \<noteq> [] \<and> last (stack_msg_offset r) = 0
     \<and> list_all (\<lambda>k. k \<le> length (sql_diag_message_text r)) (stack_msg_offset r)"

definition diag_ok :: "OdbcDiagnostic \<Rightarrow> bool" where
  "diag_ok d \<longleftrightarrow> length (diag_records d) \<le> length (vec_record_idx d)
     \<and> length (diag_records d) \<le> 32768
     \<and> list_all (\<lambda>i. 0 \<le> i \<and> i < int (length (diag_records d))) (vec_record_idx d)
     \<and> list_all offsets_ok (diag_records d)"

lemma offsets_ok_make [simp]: "offsets_ok (make_DiagRecord msg st server c n r)"
  by (simp add: offsets_ok_def make_DiagRecord_def)

lemma dropWhile_nonzero_last:
  "xs \<noteq> [] \<Longrightarrow> last xs = (0::nat) \<Longrightarrow> dropWhile (\<lambda>k. k \<noteq> 0) xs \<noteq> [] \<and> last (dropWhile (\<lambda>k. k \<noteq> 0) xs) = 0
     \<and> hd (dropWhile (\<lambda>k. k \<noteq> 0) xs) = 0"
  by (induction xs) (auto split: if_splits)

lemma ClearStack_ok:
  assumes "offsets_ok r"
  shows "offsets_ok (ClearStackMsgOffset r)" "hd (stack_msg_offset (ClearStackMsgOffset r)) = 0"
  using assms dropWhile_nonzero_last [of "stack_msg_offset r"]
  by (auto simp: offsets_ok_def ClearStackMsgOffset_def list_all_iff dest: set_dropWhileD)

lemma SetMessage_new_ok [simp]:
  "offsets_ok (SetMessage (make_DiagRecord msg st server c n r) text)"
  by (simp add: SetMessage_def ClearStackMsgOffset_def make_DiagRecord_def offsets_ok_def)

lemma GetMessage_ok:
  assumes "offsets_ok r"
  shows "\<exists>k r'. GetMessage r b = Some (drop k (sql_diag_message_text r), r') \<and> k = hd (stack_msg_offset r)
    \<and> offsets_ok r' \<and> r'\<lparr>stack_msg_offset := stack_msg_offset r\<rparr> = r"
  using assms ClearStack_ok(1) [OF assms]
  by (cases "stack_msg_offset r")
    (auto simp: GetMessage_def Let_def offsets_ok_def ClearStackMsgOffset_def)

lemma Clean_ok [simp]: "diag_ok (Clean d)"
  by (simp add: diag_ok_def Clean_def)

lemma make_OdbcDiagnostic_ok [simp]: "diag_ok make_OdbcDiagnostic"
  by (simp add: diag_ok_def make_OdbcDiagnostic_def)

lemma AddDiagRecord_ok:
  assumes "diag_ok d" "length (diag_records d) < 32768" "offsets_ok r"
  shows "diag_ok (AddDiagRecord d r)"
  using assms by (auto simp: diag_ok_def AddDiagRecord_def Let_def to_int16_id list_all_iff)

lemma SetDiagnosticRecord_ok:
  assumes "diag_ok d" "length (diag_records d) < 32768"
  shows "diag_ok (snd (SetDiagnosticRecord d ret caller msg st server))"
  using assms by (simp add: SetDiagnosticRecord_def Let_def FormatDiagnosticMessage_def AddDiagRecord_ok)

lemma AddNewRecIdx_ok:
  assumes "diag_ok d" "0 \<le> i" "i < int (GetTotalRecords d)"
  shows "\<exists>d'. AddNewRecIdx d i = Some d' \<and> diag_ok d' \<and> diag_records d' = diag_records d
    \<and> GetTotalRecords d' = GetTotalRecords d + 1"
proof -
  have "0 \<le> vec_record_idx d ! nat i \<and> vec_record_idx d ! nat i < int (length (diag_records d))"
    using assms by (auto simp: diag_ok_def GetTotalRecords_def list_all_length)
  then show ?thesis using assms
    by (auto simp: AddNewRecIdx_def GetTotalRecords_def diag_ok_def Let_def list_all_iff
        dest: in_set_takeD in_set_dropD)
qed

lemma GetDiagRecord_ok:
  assumes "diag_ok d" "0 \<le> i" "i < int (GetTotalRecords d)"
  shows "\<exists>n d'. GetDiagRecord d i = Some (n, d') \<and> n < length (diag_records d') \<and> diag_ok d'
    \<and> length (diag_records d') = length (diag_records d)
    \<and> int n = vec_record_idx d ! nat i
    \<and> diag_records d' ! n = (if i = 0 then ClearStackMsgOffset (diag_records d ! n) else diag_records d ! n)"
proof -
  have n: "0 \<le> vec_record_idx d ! nat i \<and> vec_record_idx d ! nat i < int (length (diag_records d))"
    using assms by (auto simp: diag_ok_def GetTotalRecords_def list_all_length)
  have "diag_ok (d\<lparr>vec_record_idx := map (\<lambda>i. to_int16 (int i)) [0..<length (diag_records d)],
      diag_records := map ClearStackMsgOffset (diag_records d)\<rparr>)"
    using assms(1) by (auto simp: diag_ok_def list_all_iff to_int16_id ClearStack_ok)
  with n assms show ?thesis by (auto simp: GetDiagRecord_def GetTotalRecords_def)
qed

section \<open>Reading the diagnostic area\<close>

datatype OdbcHandleType = ENV | DBC | STMT | DESC

fun OdbcHandleTypeToString :: "OdbcHandleType \<Rightarrow> string" where
  "OdbcHandleTypeToString ENV = ''ENV''"
| "OdbcHandleTypeToString DBC = ''DBC''"
| "OdbcHandleTypeToString STMT = ''STMT''"
| "OdbcHandleTypeToString DESC = ''DESC''"

abbreviation (input) SQL_HANDLE_ENV :: int where "SQL_HANDLE_ENV \<equiv> 1"
abbreviation (input) SQL_HANDLE_DBC :: int where "SQL_HANDLE_DBC \<equiv> 2"
abbreviation (input) SQL_HANDLE_STMT :: int where "SQL_HANDLE_STMT \<equiv> 3"
abbreviation (input) SQL_HANDLE_DESC :: int where "SQL_HANDLE_DESC \<equiv> 4"

text \<open>What these functions see of a handle: its type and its diagnostic area, which a handle
  made by the copy constructor does not have; a null handle is \<open>None\<close>.\<close>

type_synonym diag_handle = "(OdbcHandleType \<times> OdbcDiagnostic option) option"

definition ConvertHandle :: "diag_handle \<Rightarrow> SQLRETURN + OdbcHandleType \<times> OdbcDiagnostic" where
  "ConvertHandle handle =
     (case handle of
        None \<Rightarrow> Inl SQL_INVALID_HANDLE
      | Some (type, None) \<Rightarrow> Inl SQL_INVALID_HANDLE
      | Some (type, Some d) \<Rightarrow> Inr (type, d))"

definition char_writer :: "bool \<Rightarrow> writer" where
  "char_writer wide = (if wide then utf16_writer else utf8_writer)"

fun diag_outcome :: "write_outcome \<Rightarrow> SQLRETURN" where
  "diag_outcome WBadLength = SQL_ERROR"
| "diag_outcome WTruncated = SQL_SUCCESS_WITH_INFO"
| "diag_outcome WStored = SQL_SUCCESS"

definition WriteStringDiag ::
  "bool \<Rightarrow> string \<Rightarrow> memory \<Rightarrow> addr \<Rightarrow> SQLSMALLINT \<Rightarrow> addr \<Rightarrow> (SQLRETURN \<times> memory) option" where
  "WriteStringDiag wide str m character_attribute_ptr buffer_length string_length =
     map_option (\<lambda>(oc, m'). (diag_outcome oc, m'))
       (WriteStringWith (char_writer wide) 2 str m character_attribute_ptr buffer_length string_length)"

text \<open>\<^verbatim>\<open>duckdb::Store<T>\<close> writes without a null check.\<close>

definition Store :: "nat \<Rightarrow> memory \<Rightarrow> int \<Rightarrow> addr \<Rightarrow> memory option" where
  "Store sz m v p = (if p = nullptr then None else Some (write_bytes m p (le_bytes sz v)))"

text \<open>The header fields; \<^verbatim>\<open>SQL_DIAG_ROW_COUNT\<close> stores the return code. The outer option is
  \<open>None\<close> for an identifier that is not a header field.\<close>

definition GetDiagHeaderField ::
  "bool \<Rightarrow> OdbcHandleType \<Rightarrow> OdbcDiagnostic \<Rightarrow> SQLSMALLINT \<Rightarrow> memory \<Rightarrow> addr \<Rightarrow> SQLSMALLINT \<Rightarrow> addr
    \<Rightarrow> (SQLRETURN \<times> memory) option option" where
  "GetDiagHeaderField wide type d diag_identifier m diag_info_ptr buffer_length string_length_ptr =
     (let h = diag_header d;
          put = (\<lambda>sz v. map_option (\<lambda>m'. (SQL_SUCCESS, m')) (Store sz m v diag_info_ptr));
          stmt_only = (\<lambda>r. if type \<noteq> STMT then Some (SQL_ERROR, m) else r) in
      if diag_identifier = SQL_DIAG_CURSOR_ROW_COUNT then
        Some (stmt_only (put 8 (sql_diag_cursor_row_count h)))
      else if diag_identifier = SQL_DIAG_DYNAMIC_FUNCTION then
        Some (stmt_only (WriteStringDiag wide (GetDiagDynamicFunction d) m diag_info_ptr buffer_length string_length_ptr))
      else if diag_identifier = SQL_DIAG_DYNAMIC_FUNCTION_CODE then
        Some (stmt_only (put 4 (sql_diag_dynamic_function_code h)))
      else if diag_identifier = SQL_DIAG_NUMBER then Some (put 4 (sql_diag_number h))
      else if diag_identifier = SQL_DIAG_RETURNCODE then Some (put 2 (sql_diag_return_code h))
      else if diag_identifier = SQL_DIAG_ROW_COUNT then Some (stmt_only (put 8 (sql_diag_return_code h)))
      else None)"

text \<open>The record fields. \<^verbatim>\<open>diag_record\<close> is a copy, so the offset that \<^verbatim>\<open>GetMessage\<close>
  advances is lost.\<close>

definition GetDiagRecordField ::
  "bool \<Rightarrow> OdbcHandleType \<Rightarrow> OdbcDiagnostic \<Rightarrow> DiagRecord \<Rightarrow> SQLINTEGER \<Rightarrow> SQLSMALLINT \<Rightarrow> memory \<Rightarrow> addr
    \<Rightarrow> SQLSMALLINT \<Rightarrow> addr \<Rightarrow> (SQLRETURN \<times> memory) option" where
  "GetDiagRecordField wide type d diag_record rec_idx diag_identifier m diag_info_ptr buffer_length string_length_ptr =
     (let put = (\<lambda>sz v. map_option (\<lambda>m'. (SQL_SUCCESS, m')) (Store sz m v diag_info_ptr));
          str = (\<lambda>s. WriteStringDiag wide s m diag_info_ptr buffer_length string_length_ptr);
          stmt_only = (\<lambda>r. if type \<noteq> STMT then Some (SQL_ERROR, m) else r) in
      if diag_identifier = SQL_DIAG_CLASS_ORIGIN then
        (case GetDiagClassOrigin d rec_idx of None \<Rightarrow> None | Some s \<Rightarrow> str s)
      else if diag_identifier = SQL_DIAG_COLUMN_NUMBER then stmt_only (put 4 (sql_diag_column_number diag_record))
      else if diag_identifier = SQL_DIAG_CONNECTION_NAME then str []
      else if diag_identifier = SQL_DIAG_MESSAGE_TEXT then
        (case GetMessage diag_record buffer_length of None \<Rightarrow> None | Some (msg, _) \<Rightarrow> str msg)
      else if diag_identifier = SQL_DIAG_NATIVE then put 4 (sql_diag_native diag_record)
      else if diag_identifier = SQL_DIAG_ROW_NUMBER then stmt_only (put 8 (sql_diag_row_number diag_record))
      else if diag_identifier = SQL_DIAG_SERVER_NAME then str (sql_diag_server_name diag_record)
      else if diag_identifier = SQL_DIAG_SQLSTATE then str (sql_diag_sqlstate diag_record)
      else if diag_identifier = SQL_DIAG_SUBCLASS_ORIGIN then
        (case GetDiagSubclassOrigin d rec_idx of None \<Rightarrow> None | Some s \<Rightarrow> str s)
      else Some (SQL_ERROR, m))"

definition GetDiagFieldInternal ::
  "bool \<Rightarrow> SQLSMALLINT \<Rightarrow> diag_handle \<Rightarrow> SQLSMALLINT \<Rightarrow> SQLSMALLINT \<Rightarrow> memory \<Rightarrow> addr \<Rightarrow> SQLSMALLINT \<Rightarrow> addr
    \<Rightarrow> (SQLRETURN \<times> diag_handle \<times> memory) option" where
  "GetDiagFieldInternal wide handle_type handle rec_number diag_identifier m diag_info_ptr buffer_length string_length_ptr =
     (if handle_type \<notin> {SQL_HANDLE_ENV, SQL_HANDLE_DBC, SQL_HANDLE_STMT, SQL_HANDLE_DESC}
      then Some (SQL_ERROR, handle, m)
      else case ConvertHandle handle of
        Inl ret \<Rightarrow> Some (ret, handle, m)
      | Inr (type, d) \<Rightarrow>
          (case GetDiagHeaderField wide type d diag_identifier m diag_info_ptr buffer_length string_length_ptr of
             Some r \<Rightarrow> map_option (\<lambda>(ret, m'). (ret, handle, m')) r
           | None \<Rightarrow>
               if \<not> IsDiagRecordField diag_identifier then Some (SQL_ERROR, handle, m)
               else if rec_number \<le> 0 then Some (SQL_ERROR, handle, m)
               else let rec_idx = rec_number - 1 in
                 if \<not> VerifyRecordIndex d rec_idx then Some (SQL_ERROR, handle, m)
                 else case GetDiagRecord d rec_idx of
                   None \<Rightarrow> None
                 | Some (n, d') \<Rightarrow>
                     map_option (\<lambda>(ret, m'). (ret, Some (type, Some d'), m'))
                       (GetDiagRecordField wide type d' (diag_records d' ! n) rec_idx diag_identifier m
                          diag_info_ptr buffer_length string_length_ptr)))"

text \<open>\<^verbatim>\<open>SQLGetDiagFieldW\<close> converts the length from units to bytes afterwards.\<close>

definition SQLGetDiagFieldW ::
  "SQLSMALLINT \<Rightarrow> diag_handle \<Rightarrow> SQLSMALLINT \<Rightarrow> SQLSMALLINT \<Rightarrow> memory \<Rightarrow> addr \<Rightarrow> SQLSMALLINT \<Rightarrow> addr
    \<Rightarrow> (SQLRETURN \<times> diag_handle \<times> memory) option" where
  "SQLGetDiagFieldW handle_type handle rec_number diag_identifier m diag_info_ptr buffer_length string_length_ptr =
     map_option (\<lambda>(ret, hdl, m').
        (ret, hdl, if SQL_SUCCEEDED ret \<and> string_length_ptr \<noteq> nullptr
                   then store_int 2 m' string_length_ptr (2 * le_sint (read_bytes m' string_length_ptr 2))
                   else m'))
       (GetDiagFieldInternal True handle_type handle rec_number diag_identifier m diag_info_ptr buffer_length string_length_ptr)"

text \<open>The two overloads of \<^verbatim>\<open>WriteStringWithLenInChars\<close>.\<close>

definition WriteStringWithLenInChars ::
  "bool \<Rightarrow> string \<Rightarrow> memory \<Rightarrow> addr \<Rightarrow> SQLSMALLINT \<Rightarrow> addr \<Rightarrow> memory option" where
  "WriteStringWithLenInChars wide msg_str m message_text buffer_length_chars text_length_chars_ptr =
     (if \<not> wide then
        Some (store_int 2 (snd (WriteStringUtf8 msg_str m message_text (to_uint64 buffer_length_chars)))
                text_length_chars_ptr (int (length msg_str)))
      else case utf8_to_utf16_lenient msg_str of
        None \<Rightarrow> None
      | Some (utf16_vec, _) \<Rightarrow>
          let short = buffer_length_chars \<le> 1;
              m1 = (if short \<and> message_text \<noteq> nullptr \<and> buffer_length_chars = 1
                    then write_bytes m message_text (units_bytes [0]) else m) in
          if short \<and> text_length_chars_ptr \<noteq> nullptr then Some (store_int 2 m1 text_length_chars_ptr 0)
          else let len_chars = min (length utf16_vec) (nat (to_uint64 (buffer_length_chars - 1)));
                   m2 = (if message_text \<noteq> nullptr
                         then write_bytes m1 message_text (units_bytes (take len_chars utf16_vec @ [0]))
                         else m1)
            in Some (store_int 2 m2 text_length_chars_ptr (int len_chars)))"

fun handle_type_of :: "int \<Rightarrow> OdbcHandleType option" where
  "handle_type_of n = (if n = SQL_HANDLE_ENV then Some ENV else if n = SQL_HANDLE_DBC then Some DBC
     else if n = SQL_HANDLE_STMT then Some STMT else if n = SQL_HANDLE_DESC then Some DESC else None)"

text \<open>The part of \<^verbatim>\<open>GetDiagRecInternal\<close> after the argument checks.\<close>

definition GetDiagRecFields ::
  "bool \<Rightarrow> OdbcDiagnostic \<Rightarrow> SQLINTEGER \<Rightarrow> memory \<Rightarrow> addr \<Rightarrow> addr \<Rightarrow> addr \<Rightarrow> SQLSMALLINT \<Rightarrow> addr
    \<Rightarrow> (SQLRETURN \<times> OdbcDiagnostic \<times> memory) option" where
  "GetDiagRecFields wide d rec_idx m sql_state native_error_ptr message_text buffer_length text_length_ptr =
     do { (n, d) \<leftarrow> GetDiagRecord d rec_idx;
          let diag_record = diag_records d ! n;
          m \<leftarrow> (if sql_state \<noteq> nullptr
               then WriteStringWithLenInChars wide (sql_diag_sqlstate diag_record) m sql_state 6 nullptr
               else Some m);
          let m = store_int 4 m native_error_ptr (sql_diag_native diag_record);
          (msg, diag_record) \<leftarrow> GetMessage diag_record buffer_length;
          let d = d\<lparr>diag_records := (diag_records d)[n := diag_record]\<rparr>;
          if message_text = nullptr then
            Some (SQL_SUCCESS_WITH_INFO, d, store_int 2 m text_length_ptr (min (int (length msg)) 32767))
          else do {
            m \<leftarrow> WriteStringWithLenInChars wide msg m message_text buffer_length text_length_ptr;
            if text_length_ptr \<noteq> nullptr then do {
              msg_len \<leftarrow> (if msg = [] then Some 0
                         else if wide then map_option (\<lambda>(ws, _). to_int16 (int (length ws))) (utf8_to_utf16_lenient msg)
                         else Some (to_int16 (int (length msg))));
              if to_int16 (msg_len - buffer_length) > 0 then do {
                d \<leftarrow> AddNewRecIdx d rec_idx;
                Some (SQL_SUCCESS_WITH_INFO, d, m) }
              else Some (SQL_SUCCESS, d, m) }
            else Some (SQL_SUCCESS, d, m) } }"

definition GetDiagRecInternal ::
  "bool \<Rightarrow> SQLSMALLINT \<Rightarrow> diag_handle \<Rightarrow> SQLSMALLINT \<Rightarrow> memory \<Rightarrow> addr \<Rightarrow> addr \<Rightarrow> addr \<Rightarrow> SQLSMALLINT \<Rightarrow> addr
    \<Rightarrow> (SQLRETURN \<times> diag_handle \<times> memory) option" where
  "GetDiagRecInternal wide handle_type handle rec_number m sql_state native_error_ptr message_text buffer_length text_length_ptr =
     (case ConvertHandle handle of
        Inl ret \<Rightarrow> Some (ret, handle, m)
      | Inr (type, d) \<Rightarrow>
          (let say = (\<lambda>s. map_option (\<lambda>m'. (SQL_SUCCESS, handle, m'))
                 (WriteStringWithLenInChars wide s m message_text buffer_length text_length_ptr)) in
           case handle_type_of handle_type of
             None \<Rightarrow> Some (SQL_INVALID_HANDLE, handle, m)
           | Some target_type \<Rightarrow>
               if type \<noteq> target_type then
                 say (''Handle type '' @ OdbcHandleTypeToString type @ '' mismatch with ''
                      @ OdbcHandleTypeToString target_type)
               else if rec_number \<le> 0 then say ''Record number is less than 1''
               else if buffer_length < 0 then say ''Buffer length is negative''
               else if rec_number > int (GetTotalRecords d) then Some (SQL_NO_DATA, handle, m)
               else map_option (\<lambda>(ret, d', m'). (ret, Some (type, Some d'), m'))
                 (GetDiagRecFields wide d (rec_number - 1) m sql_state native_error_ptr message_text
                    buffer_length text_length_ptr)))"

section \<open>Properties\<close>

lemma WriteStringWithLenInChars_total: "\<exists>m'. WriteStringWithLenInChars wide s m p b lp = Some m'"
  using utf8_to_utf16_lenient_text [of s] by (auto simp: WriteStringWithLenInChars_def Let_def)

lemma diag_ok_update:
  "diag_ok d \<Longrightarrow> n < length (diag_records d) \<Longrightarrow> offsets_ok r \<Longrightarrow>
    diag_ok (d\<lparr>diag_records := (diag_records d)[n := r]\<rparr>)"
  by (auto simp: diag_ok_def list_all_iff dest!: set_update_subset_insert [THEN subsetD])

lemma diag_ok_records_pos: "diag_ok d \<Longrightarrow> 0 < GetTotalRecords d \<Longrightarrow> diag_records d \<noteq> []"
  by (cases "vec_record_idx d") (auto simp: diag_ok_def GetTotalRecords_def)

lemma GetDiagRecord_total:
  assumes "diag_ok d" "0 \<le> i" "i < int (GetTotalRecords d)" "GetDiagRecord d i = Some (n, d')"
  shows "i < int (GetTotalRecords d')"
  using assms diag_ok_records_pos [of d]
  by (auto simp: GetDiagRecord_def GetTotalRecords_def Let_def split: if_splits)

lemma GetDiagRecFields_safe:
  assumes "diag_ok d" "0 \<le> i" "i < int (GetTotalRecords d)"
  shows "\<exists>ret d' m'. GetDiagRecFields wide d i m s ne p b lp = Some (ret, d', m') \<and> diag_ok d'"
proof -
  obtain n d1 where d1: "GetDiagRecord d i = Some (n, d1)" "n < length (diag_records d1)" "diag_ok d1"
    using GetDiagRecord_ok [OF assms] by blast
  have "offsets_ok (diag_records d1 ! n)" using d1 by (simp add: diag_ok_def list_all_length)
  then obtain msg r where r: "GetMessage (diag_records d1 ! n) b = Some (msg, r)" "offsets_ok r"
    using GetMessage_ok by blast
  let ?d2 = "d1\<lparr>diag_records := (diag_records d1)[n := r]\<rparr>"
  have d2: "diag_ok ?d2" using d1 r by (simp add: diag_ok_update)
  have "i < int (GetTotalRecords ?d2)"
    using GetDiagRecord_total [OF assms d1(1)] by (simp add: GetTotalRecords_def)
  then obtain d3 where d3: "AddNewRecIdx ?d2 i = Some d3" "diag_ok d3"
    using AddNewRecIdx_ok [OF d2 assms(2)] by blast
  obtain ms where ms: "(if s \<noteq> nullptr
      then WriteStringWithLenInChars wide (sql_diag_sqlstate (diag_records d1 ! n)) m s 6 nullptr
      else Some m) = Some ms"
    using WriteStringWithLenInChars_total by fastforce
  obtain mt where mt: "WriteStringWithLenInChars wide msg
      (store_int 4 ms ne (sql_diag_native (diag_records d1 ! n))) p b lp = Some mt"
    using WriteStringWithLenInChars_total by blast
  obtain inv where "utf8_to_utf16_lenient msg = Some (utf16_text msg, inv)"
    using utf8_to_utf16_lenient_text by blast
  with d1(1) r(1) ms mt d2 d3 show ?thesis
    unfolding GetDiagRecFields_def by (simp split del: if_split) (auto simp: Let_def)
qed

text \<open>C32: reading the diagnostic area of a handle is memory safe: whatever arguments
  \<^verbatim>\<open>SQLGetDiagRec\<close> gets, an area in good order is never indexed out of range, and it stays
  in good order.\<close>

theorem SQLGetDiagRec_safe:
  assumes "diag_ok d"
  shows "\<exists>ret d' m'. GetDiagRecInternal wide handle_type (Some (type, Some d)) rec_number m sql_state
      native_error_ptr message_text buffer_length text_length_ptr = Some (ret, Some (type, Some d'), m')
    \<and> diag_ok d'"
proof (cases "rec_number \<le> 0 \<or> rec_number > int (GetTotalRecords d)")
  case True
  then show ?thesis
    using assms WriteStringWithLenInChars_total
    by (auto simp: GetDiagRecInternal_def ConvertHandle_def Let_def split: option.split)
next
  case False
  then have "0 \<le> rec_number - 1" "rec_number - 1 < int (GetTotalRecords d)" by auto
  from GetDiagRecFields_safe [OF assms this] obtain ret d' m' where
    "GetDiagRecFields wide d (rec_number - 1) m sql_state native_error_ptr message_text buffer_length
      text_length_ptr = Some (ret, d', m')" "diag_ok d'" by blast
  then show ?thesis
    using assms WriteStringWithLenInChars_total
    by (auto simp: GetDiagRecInternal_def ConvertHandle_def Let_def split: option.split)
qed

theorem SQLGetDiagRec_safe_witness:
  "\<exists>ret d' m'. GetDiagRecInternal True SQL_HANDLE_DBC
      (Some (DBC, Some (snd (SetDiagnosticRecord make_OdbcDiagnostic SQL_ERROR ''dbc'' ''no'' ST_08003 []))))
      1 (\<lambda>_. CHR 0x00) 100 0 200 5 300 = Some (ret, Some (DBC, Some d'), m') \<and> diag_ok d'"
  by (rule SQLGetDiagRec_safe, rule SetDiagnosticRecord_ok) (simp, simp add: make_OdbcDiagnostic_def)

lemma WriteStringWithLenInChars_narrow:
  assumes "p \<noteq> nullptr" "1 \<le> b" "b \<le> 32767"
  shows "WriteStringWithLenInChars False s m p b lp
    = Some (store_int 2 (write_bytes m p (take (nat b - 1) s @ [CHR 0x00])) lp (int (length s)))"
proof -
  have "to_uint64 b = b" "to_uint64 (b - 1) = b - 1" using assms by (simp_all add: to_uint64_id)
  moreover have "nat (b - 1) = nat b - 1" using assms by simp
  moreover have "take (min (length s) k) s = take k s" for k by (simp add: min_def)
  ultimately show ?thesis
    using assms(1) by (simp add: WriteStringWithLenInChars_def WriteStringUtf8_def Let_def)
qed

lemma narrow_text:
  assumes "lp + 2 \<le> p \<or> p + nat b \<le> lp" "k + 1 = length (take (nat b - 1) s @ [CHR 0x00])" "1 \<le> b"
  shows "read_bytes (store_int 2 (write_bytes m p (take (nat b - 1) s @ [CHR 0x00])) lp v) p (k + 1)
    = take (nat b - 1) s @ [CHR 0x00]"
proof -
  have "k + 1 \<le> nat b" using assms(2,3) by simp
  then have "read_bytes (store_int 2 (write_bytes m p (take (nat b - 1) s @ [CHR 0x00])) lp v) p (k + 1)
      = read_bytes (write_bytes m p (take (nat b - 1) s @ [CHR 0x00])) p (k + 1)"
    using assms(1) by (intro read_store_int_disjoint) auto
  then show ?thesis unfolding assms(2) by (simp only: read_write_same)
qed

text \<open>Delivery of a long message in pieces loses characters. For an area that holds one
  record and a buffer of \<open>b\<close> bytes that is too short for its text, the first
  \<^verbatim>\<open>SQLGetDiagRec\<close> call delivers the first \<open>b - 1\<close> characters and a terminator, but the
  next call continues at offset \<open>b\<close>: the character at offset \<open>b - 1\<close> is never delivered.\<close>

theorem SQLGetDiagRec_pieces_lose_a_character:
  assumes "diag_records d = [r]" "vec_record_idx d = [0]" "stack_msg_offset r = [0]"
    and "2 \<le> b" "int (length (sql_diag_message_text r)) > b" "int (length (sql_diag_message_text r)) \<le> 32767"
    and "p \<noteq> nullptr" "lp \<noteq> nullptr" "lp + 2 \<le> p \<or> p + nat b \<le> lp"
  shows "\<exists>d1 m1 ret d2 m2 text w. text = sql_diag_message_text r
    \<and> GetDiagRecInternal False SQL_HANDLE_STMT (Some (STMT, Some d)) 1 m nullptr nullptr p b lp
        = Some (SQL_SUCCESS_WITH_INFO, Some (STMT, Some d1), m1)
    \<and> read_bytes m1 p (nat b) = take (nat b - 1) text @ [CHR 0x00]
    \<and> GetDiagRecInternal False SQL_HANDLE_STMT (Some (STMT, Some d1)) 2 m1 nullptr nullptr p b lp
        = Some (ret, Some (STMT, Some d2), m2)
    \<and> w = min (length text - nat b) (nat b - 1)
    \<and> read_bytes m2 p (w + 1) = take w (drop (nat b) text) @ [CHR 0x00]"
proof -
  let ?t = "sql_diag_message_text r"
  define r1 where "r1 = r\<lparr>stack_msg_offset := [nat b, 0]\<rparr>"
  define d1 where "d1 = d\<lparr>diag_records := [r1], vec_record_idx := [0, 0]\<rparr>"
  define m1 where "m1 = store_int 2 (write_bytes m p (take (nat b - 1) ?t @ [CHR 0x00])) lp (int (length ?t))"
  have b: "1 \<le> b" "b \<le> 32767" "to_uint64 b = b" "nat b < length ?t" "?t \<noteq> []"
    using assms by (auto simp: to_uint64_id)
  have msg1: "GetMessage (ClearStackMsgOffset r) b = Some (?t, r1)"
    using assms(3) b by (simp add: GetMessage_def ClearStackMsgOffset_def r1_def)
  have len1: "to_int16 (int (length ?t)) = int (length ?t)"
    "to_int16 (int (length ?t) - b) = int (length ?t) - b"
    using assms(4-6) by (simp_all add: to_int16_id)
  have first: "GetDiagRecInternal False SQL_HANDLE_STMT (Some (STMT, Some d)) 1 m nullptr nullptr p b lp
      = Some (SQL_SUCCESS_WITH_INFO, Some (STMT, Some d1), m1)"
    using assms(1,2,5,7,8) b len1 msg1
    by (simp add: GetDiagRecInternal_def ConvertHandle_def GetTotalRecords_def GetDiagRecFields_def
        GetDiagRecord_def WriteStringWithLenInChars_narrow AddNewRecIdx_def d1_def m1_def to_int16_id)
  have read1: "read_bytes m1 p (nat b) = take (nat b - 1) ?t @ [CHR 0x00]"
    using narrow_text [OF assms(9), of "nat b - 1" ?t m "int (length ?t)"] b unfolding m1_def by simp
  have "GetMessage r1 b = Some (drop (nat b) ?t, r2)" if "r2 = snd (the (GetMessage r1 b))" for r2
    using b that by (simp add: GetMessage_def r1_def Let_def)
  then obtain r2 where msg2: "GetMessage r1 b = Some (drop (nat b) ?t, r2)" by blast
  let ?u = "drop (nat b) ?t"
  define m2 where "m2 = store_int 2 (write_bytes m1 p (take (nat b - 1) ?u @ [CHR 0x00])) lp (int (length ?u))"
  have "\<exists>ret d2. GetDiagRecInternal False SQL_HANDLE_STMT (Some (STMT, Some d1)) 2 m1 nullptr nullptr p b lp
      = Some (ret, Some (STMT, Some d2), m2)"
    using assms(7,8) b msg2
    by (auto simp: GetDiagRecInternal_def ConvertHandle_def GetTotalRecords_def GetDiagRecFields_def
        GetDiagRecord_def WriteStringWithLenInChars_narrow AddNewRecIdx_def d1_def m2_def Let_def)
  then obtain ret d2 where second: "GetDiagRecInternal False SQL_HANDLE_STMT (Some (STMT, Some d1)) 2 m1
      nullptr nullptr p b lp = Some (ret, Some (STMT, Some d2), m2)" by blast
  define w where "w = min (length ?t - nat b) (nat b - 1)"
  have "read_bytes m2 p (w + 1) = take (nat b - 1) ?u @ [CHR 0x00]"
    unfolding m2_def using assms(9) b(1) by (intro narrow_text) (auto simp: w_def)
  also have "take (nat b - 1) ?u = take w ?u" by (simp add: w_def min_def)
  finally have "read_bytes m2 p (w + 1) = take w ?u @ [CHR 0x00]" .
  with first read1 second w_def show ?thesis by blast
qed

theorem SQLGetDiagRec_pieces_lose_a_character_witness:
  "\<exists>d1 m1 ret d2 m2 text w. text = ''Binder''
    \<and> GetDiagRecInternal False SQL_HANDLE_STMT
        (Some (STMT, Some (AddDiagRecord make_OdbcDiagnostic (make_DiagRecord ''Binder'' ST_42000 [] 0 0 0))))
        1 (\<lambda>_. CHR 0x00) nullptr nullptr 100 4 200
        = Some (SQL_SUCCESS_WITH_INFO, Some (STMT, Some d1), m1)
    \<and> read_bytes m1 100 (nat 4) = take (nat 4 - 1) text @ [CHR 0x00]
    \<and> GetDiagRecInternal False SQL_HANDLE_STMT (Some (STMT, Some d1)) 2 m1 nullptr nullptr 100 4 200
        = Some (ret, Some (STMT, Some d2), m2)
    \<and> w = min (length text - nat 4) (nat 4 - 1)
    \<and> read_bytes m2 100 (w + 1) = take w (drop (nat 4) text) @ [CHR 0x00]"
proof -
  let ?r = "make_DiagRecord ''Binder'' ST_42000 [] 0 0 0"
  have "sql_diag_message_text ?r = ''Binder''" by (simp add: make_DiagRecord_def)
  then show ?thesis
    using SQLGetDiagRec_pieces_lose_a_character
      [of "AddDiagRecord make_OdbcDiagnostic ?r" ?r 4 100 200 "\<lambda>_. CHR 0x00"]
    by (simp add: AddDiagRecord_def make_OdbcDiagnostic_def make_DiagRecord_def to_int16_def)
qed

definition diagnostic_text :: "string \<Rightarrow> string \<Rightarrow> string \<Rightarrow> string" where
  "diagnostic_text server caller msg =
     ''ODBC_Haybarn'' @ (if server \<noteq> [] then ''->'' @ server else [])
       @ (if caller \<noteq> [] then ''->'' @ caller else []) @ [CHR 0x0A] @ msg"

lemma SetDiagnosticRecord_record:
  assumes "diag_ok d" "length (diag_records d) < 32768"
    and "SetDiagnosticRecord d ret caller msg st server = (ret', d1)"
  shows "\<exists>r d2. GetDiagRecord d1 (int (GetTotalRecords d)) = Some (length (diag_records d), d2)
    \<and> length (diag_records d) < length (diag_records d2)
    \<and> diag_records d2 ! length (diag_records d) = r \<and> stack_msg_offset r = [0]
    \<and> sql_diag_message_text r = diagnostic_text server caller msg \<and> sql_diag_native r = 0
    \<and> sql_diag_sqlstate r = (case map_of MAP_ODBC_SQL_STATES st of Some (code, _) \<Rightarrow> code | None \<Rightarrow> [])"
proof -
  have "to_int16 (int (length (diag_records d))) = int (length (diag_records d))"
    using assms(2) by (simp add: to_int16_id)
  moreover have "length (vec_record_idx d) = 0 \<Longrightarrow> length (diag_records d) = 0"
    using assms(1) by (simp add: diag_ok_def)
  ultimately show ?thesis
    using assms(3)
    by (auto simp: SetDiagnosticRecord_def Let_def AddDiagRecord_def FormatDiagnosticMessage_def
        make_DiagRecord_def SetMessage_def ClearStackMsgOffset_def GetDiagRecord_def GetTotalRecords_def
        nth_append diagnostic_text_def)
qed

text \<open>C31: a record that a driver function posts is what the application reads: after
  \<^verbatim>\<open>SetDiagnosticRecord\<close>, \<^verbatim>\<open>SQLGetDiagRec\<close> for the next record number returns
  \<^verbatim>\<open>SQL_SUCCESS\<close>, the SQLSTATE of the error and its whole formatted text, when the text fits
  in the buffer.\<close>

theorem diagnostic_round_trip:
  assumes "diag_ok d" "length (diag_records d) < 32768"
    and "SetDiagnosticRecord d ret caller msg st server = (ret', d1)"
    and "map_of MAP_ODBC_SQL_STATES st = Some (code, title)" "length code = 5"
    and "int (length (diagnostic_text server caller msg)) < b" "b \<le> 32767"
    and "s \<noteq> nullptr" "p \<noteq> nullptr" "s + 6 \<le> p \<or> p + nat b \<le> s"
    and "lp = nullptr \<or> lp + 2 \<le> s \<or> s + 6 \<le> lp" "lp + 2 \<le> p \<or> p + nat b \<le> lp"
    and "handle_type_of handle_type = Some type"
  shows "\<exists>d2 m'. GetDiagRecInternal False handle_type (Some (type, Some d1)) (int (GetTotalRecords d) + 1) m
      s nullptr p b lp = Some (SQL_SUCCESS, Some (type, Some d2), m')
    \<and> read_bytes m' s 6 = code @ [CHR 0x00]
    \<and> read_bytes m' p (length (diagnostic_text server caller msg) + 1)
        = diagnostic_text server caller msg @ [CHR 0x00]"
proof -
  let ?t = "diagnostic_text server caller msg"
  obtain r d2 where r: "GetDiagRecord d1 (int (GetTotalRecords d)) = Some (length (diag_records d), d2)"
    "length (diag_records d) < length (diag_records d2)"
    "diag_records d2 ! length (diag_records d) = r" "stack_msg_offset r = [0]"
    "sql_diag_message_text r = ?t" "sql_diag_native r = 0" "sql_diag_sqlstate r = code"
    using SetDiagnosticRecord_record [OF assms(1-3)] assms(4) by auto
  have b: "1 \<le> b" "nat b > length ?t" "to_uint64 b = b" using assms(6,7) by (auto simp: to_uint64_id)
  have ne: "?t \<noteq> []" by (simp add: diagnostic_text_def)
  obtain r' where msg: "GetMessage r b = Some (?t, r')"
    using r(4,5) by (auto simp: GetMessage_def Let_def)
  define m1 where "m1 = write_bytes m s (code @ [CHR 0x00])"
  define m2 where "m2 = store_int 2 (write_bytes m1 p (?t @ [CHR 0x00])) lp (int (length ?t))"
  have "to_int16 (int (length ?t)) = int (length ?t)" "to_int16 (int (length ?t) - b) \<le> 0"
    using assms(6,7) by (simp_all add: to_int16_id)
  moreover have "GetTotalRecords d1 = GetTotalRecords d + 1"
    using assms(3) by (auto simp: SetDiagnosticRecord_def Let_def AddDiagRecord_def GetTotalRecords_def)
  ultimately have "GetDiagRecInternal False handle_type (Some (type, Some d1)) (int (GetTotalRecords d) + 1) m
      s nullptr p b lp = Some (SQL_SUCCESS, Some (type,
        Some (d2\<lparr>diag_records := (diag_records d2)[length (diag_records d) := r']\<rparr>)), m2)"
    using assms(5,7,8,9,13) b r msg ne
    by (simp add: Let_def GetDiagRecInternal_def ConvertHandle_def GetDiagRecFields_def
        WriteStringWithLenInChars_narrow m1_def m2_def del: handle_type_of.simps)
  moreover have "read_bytes m2 p (length ?t + 1) = ?t @ [CHR 0x00]"
  proof -
    have "read_bytes m2 p (length (?t @ [CHR 0x00])) = read_bytes (write_bytes m1 p (?t @ [CHR 0x00])) p (length (?t @ [CHR 0x00]))"
      unfolding m2_def using assms(12) b by (intro read_store_int_disjoint) auto
    then show ?thesis by (simp add: read_write_same del: length_append) (simp add: read_write_prefix)
  qed
  moreover have "read_bytes m2 s 6 = code @ [CHR 0x00]"
  proof -
    have "read_bytes m2 s 6 = read_bytes (write_bytes m1 p (?t @ [CHR 0x00])) s 6"
      unfolding m2_def using assms(11) by (cases "lp = nullptr") (auto intro: read_store_int_disjoint)
    also have "\<dots> = read_bytes m1 s 6" using assms(10) b by (intro read_write_disjoint) auto
    also have "\<dots> = code @ [CHR 0x00]" unfolding m1_def using assms(5) by (subst read_write_prefix) auto
    finally show ?thesis .
  qed
  ultimately show ?thesis by blast
qed

theorem diagnostic_round_trip_witness:
  "\<exists>d2 m'. GetDiagRecInternal False SQL_HANDLE_DBC
      (Some (DBC, Some (snd (SetDiagnosticRecord make_OdbcDiagnostic SQL_ERROR ''dbc'' ''No database connection found'' ST_08003 []))))
      (int (GetTotalRecords make_OdbcDiagnostic) + 1) (\<lambda>_. CHR 0x2A) 100 nullptr 200 512 0
      = Some (SQL_SUCCESS, Some (DBC, Some d2), m')
    \<and> read_bytes m' 100 6 = ''08003'' @ [CHR 0x00]
    \<and> read_bytes m' 200 (length (diagnostic_text [] ''dbc'' ''No database connection found'') + 1)
        = diagnostic_text [] ''dbc'' ''No database connection found'' @ [CHR 0x00]"
  by (rule diagnostic_round_trip [where ret = SQL_ERROR and ret' = SQL_ERROR and st = ST_08003
        and title = "''Connection not open''" and caller = "''dbc''" and server = "[]"
        and msg = "''No database connection found''" and d = make_OdbcDiagnostic])
    (simp_all add: SetDiagnosticRecord_def diagnostic_text_def MAP_ODBC_SQL_STATES_def,
     simp_all add: make_OdbcDiagnostic_def diag_ok_def)

end
