(* ===== verification/Odbc_Interval.thy ===== *)
theory Odbc_Interval
  imports Odbc_Utils
begin

text \<open>
  \<^verbatim>\<open>common/odbc_interval.cpp\<close>: a DuckDB interval (months, days, microseconds) written into
  the fields of a \<^verbatim>\<open>SQL_INTERVAL_STRUCT\<close>. The fields are 32-bit unsigned, and every
  assignment is written with its truncation. The union of \<^verbatim>\<open>year_month\<close> and
  \<^verbatim>\<open>day_second\<close> is the five words it consists of, so that \<^verbatim>\<open>year\<close> is the word of
  \<^verbatim>\<open>day\<close> and \<^verbatim>\<open>month\<close> the word of \<^verbatim>\<open>hour\<close>. \<^verbatim>\<open>std::abs\<close> of the least
  integer is undefined in C++; the theorems exclude it.

  The theorems show that a day-to-second interval is an exact mixed-radix decomposition of the absolute
  values of its days and its microseconds, and that the plain second interval is not:
  it drops the seconds below the last full minute.
\<close>

section \<open>Interval type codes\<close>

abbreviation (input) SQL_INTERVAL_YEAR :: int where "SQL_INTERVAL_YEAR \<equiv> 101"
abbreviation (input) SQL_INTERVAL_MONTH :: int where "SQL_INTERVAL_MONTH \<equiv> 102"
abbreviation (input) SQL_INTERVAL_DAY :: int where "SQL_INTERVAL_DAY \<equiv> 103"
abbreviation (input) SQL_INTERVAL_HOUR :: int where "SQL_INTERVAL_HOUR \<equiv> 104"
abbreviation (input) SQL_INTERVAL_MINUTE :: int where "SQL_INTERVAL_MINUTE \<equiv> 105"
abbreviation (input) SQL_INTERVAL_SECOND :: int where "SQL_INTERVAL_SECOND \<equiv> 106"
abbreviation (input) SQL_INTERVAL_YEAR_TO_MONTH :: int where "SQL_INTERVAL_YEAR_TO_MONTH \<equiv> 107"
abbreviation (input) SQL_INTERVAL_DAY_TO_HOUR :: int where "SQL_INTERVAL_DAY_TO_HOUR \<equiv> 108"
abbreviation (input) SQL_INTERVAL_DAY_TO_MINUTE :: int where "SQL_INTERVAL_DAY_TO_MINUTE \<equiv> 109"
abbreviation (input) SQL_INTERVAL_DAY_TO_SECOND :: int where "SQL_INTERVAL_DAY_TO_SECOND \<equiv> 110"
abbreviation (input) SQL_INTERVAL_HOUR_TO_MINUTE :: int where "SQL_INTERVAL_HOUR_TO_MINUTE \<equiv> 111"
abbreviation (input) SQL_INTERVAL_HOUR_TO_SECOND :: int where "SQL_INTERVAL_HOUR_TO_SECOND \<equiv> 112"
abbreviation (input) SQL_INTERVAL_MINUTE_TO_SECOND :: int where "SQL_INTERVAL_MINUTE_TO_SECOND \<equiv> 113"

text \<open>The C type codes \<^verbatim>\<open>SQL_C_INTERVAL_*\<close> are the same numbers.\<close>

definition IsIntervalType :: "SQLSMALLINT \<Rightarrow> bool" where
  "IsIntervalType value_type \<longleftrightarrow> value_type \<in> {SQL_INTERVAL_YEAR, SQL_INTERVAL_MONTH,
     SQL_INTERVAL_DAY, SQL_INTERVAL_HOUR, SQL_INTERVAL_MINUTE, SQL_INTERVAL_SECOND,
     SQL_INTERVAL_YEAR_TO_MONTH, SQL_INTERVAL_DAY_TO_HOUR, SQL_INTERVAL_DAY_TO_MINUTE,
     SQL_INTERVAL_DAY_TO_SECOND, SQL_INTERVAL_HOUR_TO_MINUTE, SQL_INTERVAL_HOUR_TO_SECOND,
     SQL_INTERVAL_MINUTE_TO_SECOND}"

definition GetSQLIntervalType :: "SQLSMALLINT \<Rightarrow> SQLSMALLINT" where
  "GetSQLIntervalType value_type =
     (if value_type = SQL_INTERVAL_YEAR then SQL_INTERVAL_YEAR
      else if value_type = SQL_INTERVAL_MONTH then SQL_INTERVAL_MONTH
      else if value_type = SQL_INTERVAL_DAY then SQL_INTERVAL_DAY
      else if value_type = SQL_INTERVAL_HOUR then SQL_INTERVAL_HOUR
      else if value_type = SQL_INTERVAL_MINUTE then SQL_INTERVAL_MINUTE
      else if value_type = SQL_INTERVAL_SECOND then SQL_INTERVAL_SECOND
      else if value_type = SQL_INTERVAL_YEAR_TO_MONTH then SQL_INTERVAL_YEAR_TO_MONTH
      else if value_type = SQL_INTERVAL_DAY_TO_HOUR then SQL_INTERVAL_DAY_TO_HOUR
      else if value_type = SQL_INTERVAL_DAY_TO_MINUTE then SQL_INTERVAL_DAY_TO_MINUTE
      else if value_type = SQL_INTERVAL_DAY_TO_SECOND then SQL_INTERVAL_DAY_TO_SECOND
      else if value_type = SQL_INTERVAL_HOUR_TO_MINUTE then SQL_INTERVAL_HOUR_TO_MINUTE
      else if value_type = SQL_INTERVAL_HOUR_TO_SECOND then SQL_INTERVAL_HOUR_TO_SECOND
      else if value_type = SQL_INTERVAL_MINUTE_TO_SECOND then SQL_INTERVAL_MINUTE_TO_SECOND
      else SQL_ERROR)"

definition GetIntervalCode :: "SQLSMALLINT \<Rightarrow> SQLSMALLINT" where
  "GetIntervalCode value_type =
     (if value_type = SQL_INTERVAL_YEAR then 1
      else if value_type = SQL_INTERVAL_MONTH then 2
      else if value_type = SQL_INTERVAL_DAY then 3
      else if value_type = SQL_INTERVAL_HOUR then 4
      else if value_type = SQL_INTERVAL_MINUTE then 5
      else if value_type = SQL_INTERVAL_SECOND then 6
      else if value_type = SQL_INTERVAL_YEAR_TO_MONTH then 7
      else if value_type = SQL_INTERVAL_DAY_TO_HOUR then 8
      else if value_type = SQL_INTERVAL_DAY_TO_MINUTE then 9
      else if value_type = SQL_INTERVAL_DAY_TO_SECOND then 10
      else if value_type = SQL_INTERVAL_HOUR_TO_MINUTE then 11
      else if value_type = SQL_INTERVAL_HOUR_TO_SECOND then 12
      else if value_type = SQL_INTERVAL_MINUTE_TO_SECOND then 13
      else SQL_ERROR)"

lemma interval_code_simps [simp]:
  "IsIntervalType c \<Longrightarrow> GetSQLIntervalType c = c"
  "IsIntervalType c \<Longrightarrow> GetIntervalCode c = c - 100"
  "\<not> IsIntervalType c \<Longrightarrow> GetSQLIntervalType c = SQL_ERROR"
  "\<not> IsIntervalType c \<Longrightarrow> GetIntervalCode c = SQL_ERROR"
  by (auto simp: IsIntervalType_def GetSQLIntervalType_def GetIntervalCode_def)

section \<open>The interval structure\<close>

record interval_t =
  months :: int
  days :: int
  micros :: int

record SQL_INTERVAL_STRUCT =
  interval_type :: int
  interval_sign :: int
  iv_day :: SQLUINTEGER
  iv_hour :: SQLUINTEGER
  iv_minute :: SQLUINTEGER
  iv_second :: SQLUINTEGER
  iv_fraction :: SQLUINTEGER

abbreviation (input) MICROS_PER_SEC :: int where "MICROS_PER_SEC \<equiv> 1000000"
abbreviation (input) MICROS_PER_MINUTE :: int where "MICROS_PER_MINUTE \<equiv> 60000000"
abbreviation (input) MICROS_PER_HOUR :: int where "MICROS_PER_HOUR \<equiv> 3600000000"

definition SetSignal :: "interval_t \<Rightarrow> SQL_INTERVAL_STRUCT \<Rightarrow> SQL_INTERVAL_STRUCT" where
  "SetSignal i s =
     (if months i \<noteq> 0 then s\<lparr>interval_sign := if months i < 0 then SQL_TRUE else SQL_FALSE\<rparr>
      else if days i \<noteq> 0 then s\<lparr>interval_sign := if days i < 0 then SQL_TRUE else SQL_FALSE\<rparr>
      else s\<lparr>interval_sign := if micros i < 0 then SQL_TRUE else SQL_FALSE\<rparr>)"

definition SetYear :: "interval_t \<Rightarrow> SQL_INTERVAL_STRUCT \<Rightarrow> SQL_INTERVAL_STRUCT" where
  "SetYear i s = s\<lparr>interval_type := 1, iv_day := to_uint32 (\<bar>months i\<bar> div 12)\<rparr>"

definition SetMonth :: "interval_t \<Rightarrow> SQL_INTERVAL_STRUCT \<Rightarrow> SQL_INTERVAL_STRUCT" where
  "SetMonth i s = s\<lparr>interval_type := 2, iv_hour := to_uint32 \<bar>months i\<bar>\<rparr>"

definition SetDay :: "interval_t \<Rightarrow> SQL_INTERVAL_STRUCT \<Rightarrow> SQL_INTERVAL_STRUCT" where
  "SetDay i s = s\<lparr>interval_type := 3, iv_day := to_uint32 \<bar>days i + months i * 30\<bar>\<rparr>"

definition SetHour :: "interval_t \<Rightarrow> SQL_INTERVAL_STRUCT \<Rightarrow> SQL_INTERVAL_STRUCT" where
  "SetHour i s =
     (let s = SetDay i s;
          s = s\<lparr>interval_type := 4\<rparr>;
          s = s\<lparr>iv_hour := to_uint32 (iv_day s * 24)\<rparr>;
          s = s\<lparr>iv_hour := to_uint32 (iv_hour s + to_uint32 (\<bar>micros i\<bar> div MICROS_PER_HOUR))\<rparr>
      in s\<lparr>iv_fraction := to_uint32 (\<bar>micros i\<bar> mod MICROS_PER_HOUR)\<rparr>)"

definition SetMinute :: "interval_t \<Rightarrow> SQL_INTERVAL_STRUCT \<Rightarrow> SQL_INTERVAL_STRUCT" where
  "SetMinute i s =
     (let s = SetHour i s;
          s = s\<lparr>interval_type := 5\<rparr>;
          s = s\<lparr>iv_minute := to_uint32 (iv_hour s * 60)\<rparr>;
          s = s\<lparr>iv_minute := to_uint32 (iv_minute s + iv_fraction s div MICROS_PER_MINUTE)\<rparr>
      in s\<lparr>iv_fraction := to_uint32 (iv_fraction s mod MICROS_PER_MINUTE)\<rparr>)"

text \<open>The seconds below the last minute are added to the fraction, which the next statement
  overwrites.\<close>

definition SetSecond :: "interval_t \<Rightarrow> SQL_INTERVAL_STRUCT \<Rightarrow> SQL_INTERVAL_STRUCT" where
  "SetSecond i s =
     (let s = SetMinute i s;
          s = s\<lparr>interval_type := 6\<rparr>;
          s = s\<lparr>iv_second := to_uint32 (iv_minute s * 60)\<rparr>;
          s = s\<lparr>iv_fraction := to_uint32 (iv_fraction s + to_uint32 (\<bar>micros i\<bar> div MICROS_PER_SEC))\<rparr>
      in s\<lparr>iv_fraction := to_uint32 (\<bar>micros i\<bar> mod MICROS_PER_SEC)\<rparr>)"

definition SetDayToHour :: "interval_t \<Rightarrow> SQL_INTERVAL_STRUCT \<Rightarrow> SQL_INTERVAL_STRUCT" where
  "SetDayToHour i s =
     (let s = SetDay i s;
          s = s\<lparr>interval_type := 8\<rparr>;
          s = s\<lparr>iv_hour := to_uint32 (\<bar>micros i\<bar> div MICROS_PER_HOUR)\<rparr>
      in s\<lparr>iv_fraction := to_uint32 (\<bar>micros i\<bar> mod MICROS_PER_HOUR)\<rparr>)"

text \<open>The statements with which the compound setters split off minutes and seconds.\<close>

definition split_minute :: "SQL_INTERVAL_STRUCT \<Rightarrow> SQL_INTERVAL_STRUCT" where
  "split_minute s =
     (let s' = s\<lparr>iv_minute := to_uint32 (iv_fraction s div MICROS_PER_MINUTE)\<rparr>
      in s'\<lparr>iv_fraction := to_uint32 (iv_fraction s' mod MICROS_PER_MINUTE)\<rparr>)"

definition split_second :: "SQL_INTERVAL_STRUCT \<Rightarrow> SQL_INTERVAL_STRUCT" where
  "split_second s =
     (let s' = s\<lparr>iv_second := to_uint32 (iv_fraction s div MICROS_PER_SEC)\<rparr>
      in s'\<lparr>iv_fraction := to_uint32 (iv_fraction s' mod MICROS_PER_SEC)\<rparr>)"

definition SetDayToMinute :: "interval_t \<Rightarrow> SQL_INTERVAL_STRUCT \<Rightarrow> SQL_INTERVAL_STRUCT" where
  "SetDayToMinute i s = split_minute ((SetDayToHour i s)\<lparr>interval_type := 9\<rparr>)"

definition SetDayToSecond :: "interval_t \<Rightarrow> SQL_INTERVAL_STRUCT \<Rightarrow> SQL_INTERVAL_STRUCT" where
  "SetDayToSecond i s = split_second ((SetDayToMinute i s)\<lparr>interval_type := 10\<rparr>)"

definition SetHourToMinute :: "interval_t \<Rightarrow> SQL_INTERVAL_STRUCT \<Rightarrow> SQL_INTERVAL_STRUCT" where
  "SetHourToMinute i s = split_minute ((SetHour i s)\<lparr>interval_type := 11\<rparr>)"

definition SetHourToSecond :: "interval_t \<Rightarrow> SQL_INTERVAL_STRUCT \<Rightarrow> SQL_INTERVAL_STRUCT" where
  "SetHourToSecond i s = split_second ((SetHourToMinute i s)\<lparr>interval_type := 12\<rparr>)"

definition SetMinuteToSecond :: "interval_t \<Rightarrow> SQL_INTERVAL_STRUCT \<Rightarrow> SQL_INTERVAL_STRUCT" where
  "SetMinuteToSecond i s = split_second ((SetMinute i s)\<lparr>interval_type := 13\<rparr>)"

section \<open>Properties\<close>

lemma split_second_exact:
  assumes "0 \<le> iv_fraction s" "iv_fraction s < 2 ^ 32"
  shows "iv_second (split_second s) * MICROS_PER_SEC + iv_fraction (split_second s) = iv_fraction s"
    "0 \<le> iv_fraction (split_second s)" "iv_fraction (split_second s) < MICROS_PER_SEC"
    "iv_second (split_second s) = iv_fraction s div MICROS_PER_SEC"
proof -
  have "iv_fraction s div MICROS_PER_SEC < 4294967296" using assms by (simp add: div_less_iff_less_mult)
  moreover have "iv_fraction s mod MICROS_PER_SEC < 4294967296"
    using pos_mod_bound [of MICROS_PER_SEC "iv_fraction s"] by linarith
  ultimately have
    "iv_second (split_second s) = iv_fraction s div MICROS_PER_SEC"
    "iv_fraction (split_second s) = iv_fraction s mod MICROS_PER_SEC"
    using assms by (simp_all add: split_second_def to_uint32_id pos_imp_zdiv_nonneg_iff)
  then show "iv_second (split_second s) * MICROS_PER_SEC + iv_fraction (split_second s) = iv_fraction s"
    "0 \<le> iv_fraction (split_second s)" "iv_fraction (split_second s) < MICROS_PER_SEC"
    "iv_second (split_second s) = iv_fraction s div MICROS_PER_SEC" by simp_all
qed

lemma split_minute_exact:
  assumes "0 \<le> iv_fraction s" "iv_fraction s < 2 ^ 32"
  shows "iv_minute (split_minute s) = iv_fraction s div MICROS_PER_MINUTE"
    "iv_fraction (split_minute s) = iv_fraction s mod MICROS_PER_MINUTE"
proof -
  have "iv_fraction s div MICROS_PER_MINUTE < 4294967296" using assms by (simp add: div_less_iff_less_mult)
  moreover have "iv_fraction s mod MICROS_PER_MINUTE < 4294967296"
    using pos_mod_bound [of MICROS_PER_MINUTE "iv_fraction s"] by linarith
  ultimately show "iv_minute (split_minute s) = iv_fraction s div MICROS_PER_MINUTE"
    "iv_fraction (split_minute s) = iv_fraction s mod MICROS_PER_MINUTE"
    using assms by (simp_all add: split_minute_def to_uint32_id pos_imp_zdiv_nonneg_iff)
qed

lemma split_keeps [simp]:
  "iv_day (split_second s) = iv_day s" "iv_hour (split_second s) = iv_hour s"
  "iv_minute (split_second s) = iv_minute s" "iv_day (split_minute s) = iv_day s"
  "iv_hour (split_minute s) = iv_hour s"
  by (simp_all add: split_second_def split_minute_def)

text \<open>Splitting the microseconds below one hour into minutes, seconds and a fraction.\<close>

lemma split_exact:
  fixes t :: int
  assumes "0 \<le> iv_fraction s" "iv_fraction s < MICROS_PER_HOUR"
  defines "s' \<equiv> split_second ((split_minute s)\<lparr>interval_type := t\<rparr>)"
  shows "iv_minute s' * MICROS_PER_MINUTE + iv_second s' * MICROS_PER_SEC + iv_fraction s' = iv_fraction s
    \<and> 0 \<le> iv_minute s' \<and> iv_minute s' < 60 \<and> 0 \<le> iv_second s' \<and> iv_second s' < 60
    \<and> 0 \<le> iv_fraction s' \<and> iv_fraction s' < MICROS_PER_SEC"
proof -
  let ?f = "iv_fraction s"
  have m: "iv_minute (split_minute s) = ?f div MICROS_PER_MINUTE"
    "iv_fraction (split_minute s) = ?f mod MICROS_PER_MINUTE"
    using assms(1,2) split_minute_exact [of s] by simp_all
  have r: "0 \<le> ?f mod MICROS_PER_MINUTE" "?f mod MICROS_PER_MINUTE < MICROS_PER_MINUTE" by simp_all
  let ?u = "(split_minute s)\<lparr>interval_type := t\<rparr>"
  have u: "iv_fraction ?u = ?f mod MICROS_PER_MINUTE" "iv_minute ?u = ?f div MICROS_PER_MINUTE"
    using m by simp_all
  have sec: "iv_second s' * MICROS_PER_SEC + iv_fraction s' = ?f mod MICROS_PER_MINUTE"
    "0 \<le> iv_fraction s'" "iv_fraction s' < MICROS_PER_SEC"
    "iv_second s' = ?f mod MICROS_PER_MINUTE div MICROS_PER_SEC"
    using split_second_exact [of ?u] r unfolding s'_def u by simp_all
  have "iv_minute s' = ?f div MICROS_PER_MINUTE" unfolding s'_def using u by simp
  moreover have "0 \<le> ?f div MICROS_PER_MINUTE" "?f div MICROS_PER_MINUTE < 60"
    using assms(1,2) by (simp_all add: pos_imp_zdiv_nonneg_iff div_less_iff_less_mult)
  moreover have "0 \<le> iv_second s'" "iv_second s' < 60"
    unfolding sec(4) using r by (simp_all add: pos_imp_zdiv_nonneg_iff div_less_iff_less_mult)
  moreover have "?f div MICROS_PER_MINUTE * MICROS_PER_MINUTE + ?f mod MICROS_PER_MINUTE = ?f" by simp
  ultimately show ?thesis using sec(1-3) by (simp only: add.assoc)
qed

lemma micros_parts:
  assumes "\<bar>x\<bar> < 2 ^ 63"
  shows "to_uint32 (\<bar>x\<bar> div MICROS_PER_HOUR) = \<bar>x\<bar> div MICROS_PER_HOUR"
    "to_uint32 (\<bar>x\<bar> mod MICROS_PER_HOUR) = \<bar>x\<bar> mod MICROS_PER_HOUR"
proof -
  have "\<bar>x\<bar> div MICROS_PER_HOUR < 4294967296" using assms by (simp add: div_less_iff_less_mult)
  then show "to_uint32 (\<bar>x\<bar> div MICROS_PER_HOUR) = \<bar>x\<bar> div MICROS_PER_HOUR"
    by (simp add: to_uint32_id pos_imp_zdiv_nonneg_iff)
  have "\<bar>x\<bar> mod MICROS_PER_HOUR < MICROS_PER_HOUR" by simp
  then show "to_uint32 (\<bar>x\<bar> mod MICROS_PER_HOUR) = \<bar>x\<bar> mod MICROS_PER_HOUR"
    by (intro to_uint32_id) simp_all
qed

lemma pos_div_range:
  fixes u :: int
  assumes "0 \<le> u"
  shows "0 \<le> u div MICROS_PER_HOUR" "u < 24 * MICROS_PER_HOUR \<Longrightarrow> u div MICROS_PER_HOUR < 24"
  using assms by (simp_all add: pos_imp_zdiv_nonneg_iff div_less_iff_less_mult)

lemma abs_same_sign:
  fixes a b k :: int
  assumes "0 \<le> a \<and> 0 \<le> b \<or> a \<le> 0 \<and> b \<le> 0" "0 \<le> k"
  shows "\<bar>a * k + b\<bar> = \<bar>a\<bar> * k + \<bar>b\<bar>"
  using assms by (auto simp: abs_if mult_nonneg_nonneg mult_nonpos_nonneg dest: mult_nonneg_nonneg [of a k] mult_nonpos_nonneg [of a k])

text \<open>C39: a day-to-second interval is the mixed-radix decomposition of the absolute values of its two parts: the day field is the
  absolute value of the days and months (of 30 days), as long as it fits the 32 bits, and hours, minutes, seconds and fraction add up exactly to the
  absolute value of the microseconds, with minutes and seconds below 60 and the fraction below a second. Hours are not carried into
  days: they are below 24 if the microseconds are less than a day. When the two parts do not have opposite signs, all
  fields together are the absolute value of the whole interval.\<close>

theorem SetDayToSecond_exact:
  assumes "\<bar>micros i\<bar> < 2 ^ 63" "\<bar>days i + months i * 30\<bar> < 2 ^ 32"
  shows "\<exists>s'. SetDayToSecond i s = s' \<and> iv_day s' = \<bar>days i + months i * 30\<bar>
    \<and> iv_hour s' * MICROS_PER_HOUR + iv_minute s' * MICROS_PER_MINUTE + iv_second s' * MICROS_PER_SEC
        + iv_fraction s' = \<bar>micros i\<bar>
    \<and> 0 \<le> iv_minute s' \<and> iv_minute s' < 60 \<and> 0 \<le> iv_second s' \<and> iv_second s' < 60
    \<and> 0 \<le> iv_fraction s' \<and> iv_fraction s' < MICROS_PER_SEC
    \<and> 0 \<le> iv_hour s' \<and> (\<bar>micros i\<bar> < 24 * MICROS_PER_HOUR \<longrightarrow> iv_hour s' < 24)
    \<and> (0 \<le> days i + months i * 30 \<and> 0 \<le> micros i \<or> days i + months i * 30 \<le> 0 \<and> micros i \<le> 0 \<longrightarrow>
        iv_day s' * (24 * MICROS_PER_HOUR) + iv_hour s' * MICROS_PER_HOUR + iv_minute s' * MICROS_PER_MINUTE
          + iv_second s' * MICROS_PER_SEC + iv_fraction s' = \<bar>(days i + months i * 30) * (24 * MICROS_PER_HOUR) + micros i\<bar>)"
proof -
  define h where "h = (SetDayToHour i s)\<lparr>interval_type := 9\<rparr>"
  define s' where "s' = SetDayToSecond i s"
  have h: "iv_day h = \<bar>days i + months i * 30\<bar>" "iv_hour h = \<bar>micros i\<bar> div MICROS_PER_HOUR"
    "iv_fraction h = \<bar>micros i\<bar> mod MICROS_PER_HOUR"
    using assms micros_parts [OF assms(1)] by (simp_all add: h_def SetDayToHour_def SetDay_def to_uint32_id)
  have eq: "s' = split_second ((split_minute h)\<lparr>interval_type := 10\<rparr>)"
    by (simp add: s'_def SetDayToSecond_def SetDayToMinute_def h_def)
  have f: "0 \<le> iv_fraction h" "iv_fraction h < MICROS_PER_HOUR" unfolding h(3) by simp_all
  note ex = split_exact [OF f, of 10, folded eq]
  have dh: "iv_day s' = \<bar>days i + months i * 30\<bar>" "iv_hour s' = \<bar>micros i\<bar> div MICROS_PER_HOUR"
    using h by (simp_all add: eq)
  have sum: "iv_hour s' * MICROS_PER_HOUR + iv_minute s' * MICROS_PER_MINUTE + iv_second s' * MICROS_PER_SEC
        + iv_fraction s' = \<bar>micros i\<bar>"
    using ex dh(2) h(3) div_mult_mod_eq [of "\<bar>micros i\<bar>" MICROS_PER_HOUR] by linarith
  have "0 \<le> iv_hour s'" "\<bar>micros i\<bar> < 24 * MICROS_PER_HOUR \<longrightarrow> iv_hour s' < 24"
    using pos_div_range [of "\<bar>micros i\<bar>"] by (simp_all add: dh(2))
  moreover have "iv_day s' * (24 * MICROS_PER_HOUR) + iv_hour s' * MICROS_PER_HOUR + iv_minute s' * MICROS_PER_MINUTE
      + iv_second s' * MICROS_PER_SEC + iv_fraction s' = \<bar>(days i + months i * 30) * (24 * MICROS_PER_HOUR) + micros i\<bar>"
    if "0 \<le> days i + months i * 30 \<and> 0 \<le> micros i \<or> days i + months i * 30 \<le> 0 \<and> micros i \<le> 0"
    using sum dh(1) by (simp only: abs_same_sign [OF that, of "24 * MICROS_PER_HOUR"] zero_le_mult_iff zero_le_numeral simp_thms)
  ultimately show ?thesis using ex dh(1) sum s'_def by blast
qed

theorem SetDayToSecond_exact_witness:
  "\<exists>s'. SetDayToSecond \<lparr>months = 1, days = - 3, micros = 3723000005\<rparr>
      \<lparr>interval_type = 0, interval_sign = 0, iv_day = 0, iv_hour = 0, iv_minute = 0, iv_second = 0, iv_fraction = 0\<rparr> = s'
    \<and> iv_day s' = 27 \<and> 0 \<le> iv_hour s' \<and> iv_hour s' < 24
    \<and> iv_hour s' * MICROS_PER_HOUR + iv_minute s' * MICROS_PER_MINUTE + iv_second s' * MICROS_PER_SEC
        + iv_fraction s' = 3723000005
    \<and> 0 \<le> iv_minute s' \<and> iv_minute s' < 60 \<and> 0 \<le> iv_second s' \<and> iv_second s' < 60
    \<and> 0 \<le> iv_fraction s' \<and> iv_fraction s' < MICROS_PER_SEC
    \<and> iv_day s' * (24 * MICROS_PER_HOUR) + iv_hour s' * MICROS_PER_HOUR + iv_minute s' * MICROS_PER_MINUTE
        + iv_second s' * MICROS_PER_SEC + iv_fraction s' = 27 * (24 * MICROS_PER_HOUR) + 3723000005"
  using SetDayToSecond_exact [of "\<lparr>months = 1, days = - 3, micros = 3723000005\<rparr>"
      "\<lparr>interval_type = 0, interval_sign = 0, iv_day = 0, iv_hour = 0, iv_minute = 0, iv_second = 0, iv_fraction = 0\<rparr>"]
  by simp

text \<open>The plain second interval is not exact: an interval shorter than the range of the
  field loses its seconds below the last full minute, and only the microseconds below a second
  are kept in the fraction.\<close>

theorem SetSecond_drops_seconds:
  assumes "months i = 0" "days i = 0" "\<bar>micros i\<bar> < 2 ^ 32 * MICROS_PER_SEC"
  shows "iv_second (SetSecond i s) = \<bar>micros i\<bar> div MICROS_PER_MINUTE * 60
    \<and> iv_fraction (SetSecond i s) = \<bar>micros i\<bar> mod MICROS_PER_SEC"
proof -
  let ?u = "\<bar>micros i\<bar>"
  have "\<bar>micros i\<bar> < 2 ^ 63" using assms(3) by simp
  note parts = micros_parts [OF this]
  have mh: "?u mod MICROS_PER_HOUR < MICROS_PER_HOUR" "0 \<le> ?u mod MICROS_PER_HOUR" by simp_all
  have "?u div MICROS_PER_MINUTE = (?u div MICROS_PER_HOUR * MICROS_PER_HOUR + ?u mod MICROS_PER_HOUR) div MICROS_PER_MINUTE"
    by simp
  also have "?u div MICROS_PER_HOUR * MICROS_PER_HOUR = ?u div MICROS_PER_HOUR * 60 * MICROS_PER_MINUTE" by simp
  also have "(?u div MICROS_PER_HOUR * 60 * MICROS_PER_MINUTE + ?u mod MICROS_PER_HOUR) div MICROS_PER_MINUTE
      = ?u div MICROS_PER_HOUR * 60 + ?u mod MICROS_PER_HOUR div MICROS_PER_MINUTE" by (rule div_mult_self3) simp
  finally have min: "?u div MICROS_PER_HOUR * 60 + ?u mod MICROS_PER_HOUR div MICROS_PER_MINUTE = ?u div MICROS_PER_MINUTE"
    by (rule sym)
  have q: "0 \<le> ?u div MICROS_PER_HOUR" "0 \<le> ?u mod MICROS_PER_HOUR div MICROS_PER_MINUTE"
    "0 \<le> ?u div MICROS_PER_MINUTE" by (simp_all add: pos_imp_zdiv_nonneg_iff)
  have "?u div MICROS_PER_MINUTE * MICROS_PER_MINUTE \<le> ?u"
    using div_mult_mod_eq [of ?u MICROS_PER_MINUTE] pos_mod_sign [of MICROS_PER_MINUTE ?u] by linarith
  then have bound: "?u div MICROS_PER_MINUTE * 60 < 4294967296" using assms(3) by simp
  have hour: "iv_hour (SetHour i s) = ?u div MICROS_PER_HOUR"
    "iv_fraction (SetHour i s) = ?u mod MICROS_PER_HOUR"
    using assms(1,2) parts by (simp_all add: SetHour_def SetDay_def to_uint32_id)
  have "to_uint32 (?u div MICROS_PER_HOUR * 60) = ?u div MICROS_PER_HOUR * 60"
    "to_uint32 (?u div MICROS_PER_MINUTE) = ?u div MICROS_PER_MINUTE"
    using q min bound by (intro to_uint32_id; linarith)+
  then have "iv_minute (SetMinute i s) = ?u div MICROS_PER_MINUTE"
    using hour min by (simp add: SetMinute_def Let_def)
  moreover have "?u mod MICROS_PER_SEC < MICROS_PER_SEC" by simp
  ultimately show ?thesis
    using q(3) bound by (simp add: SetSecond_def Let_def to_uint32_id)
qed

theorem SetSecond_drops_seconds_witness:
  "iv_second (SetSecond \<lparr>months = 0, days = 0, micros = 45500000\<rparr>
      \<lparr>interval_type = 0, interval_sign = 0, iv_day = 0, iv_hour = 0, iv_minute = 0, iv_second = 0, iv_fraction = 0\<rparr>)
    = \<bar>45500000\<bar> div MICROS_PER_MINUTE * 60
   \<and> iv_fraction (SetSecond \<lparr>months = 0, days = 0, micros = 45500000\<rparr>
      \<lparr>interval_type = 0, interval_sign = 0, iv_day = 0, iv_hour = 0, iv_minute = 0, iv_second = 0, iv_fraction = 0\<rparr>)
    = \<bar>45500000\<bar> mod MICROS_PER_SEC"
  using SetSecond_drops_seconds [of "\<lparr>months = 0, days = 0, micros = 45500000\<rparr>"
      "\<lparr>interval_type = 0, interval_sign = 0, iv_day = 0, iv_hour = 0, iv_minute = 0, iv_second = 0, iv_fraction = 0\<rparr>"]
  by simp

end
