(* ===== verification/Api_Info.thy ===== *)
theory Api_Info
  imports Odbc_Interval
begin

text \<open>
  \<^verbatim>\<open>api_info.cpp\<close>: the tables of supported functions and types, and the type mappings the
  descriptors and the column functions use. DuckDB's \<^verbatim>\<open>LogicalTypeId\<close> is the datatype of the
  identifiers the driver names; the constructor \<open>OTHER_TYPE\<close> stands for all others. Of a
  \<^verbatim>\<open>LogicalType\<close> the driver reads the identifier and, for decimals, width and scale.
\<close>

section \<open>Supported functions\<close>

abbreviation (input) SQL_API_SQLALLOCHANDLE :: nat where "SQL_API_SQLALLOCHANDLE \<equiv> 1001"
abbreviation (input) SQL_API_SQLFREEHANDLE :: nat where "SQL_API_SQLFREEHANDLE \<equiv> 1006"
abbreviation (input) SQL_API_SQLGETCONNECTATTR :: nat where "SQL_API_SQLGETCONNECTATTR \<equiv> 1007"
abbreviation (input) SQL_API_SQLSETENVATTR :: nat where "SQL_API_SQLSETENVATTR \<equiv> 1019"
abbreviation (input) SQL_API_SQLSETCONNECTATTR :: nat where "SQL_API_SQLSETCONNECTATTR \<equiv> 1016"
abbreviation (input) SQL_API_SQLSETSTMTATTR :: nat where "SQL_API_SQLSETSTMTATTR \<equiv> 1020"
abbreviation (input) SQL_API_SQLDRIVERCONNECT :: nat where "SQL_API_SQLDRIVERCONNECT \<equiv> 41"
abbreviation (input) SQL_API_SQLCONNECT :: nat where "SQL_API_SQLCONNECT \<equiv> 7"
abbreviation (input) SQL_API_SQLGETINFO :: nat where "SQL_API_SQLGETINFO \<equiv> 45"
abbreviation (input) SQL_API_SQLENDTRAN :: nat where "SQL_API_SQLENDTRAN \<equiv> 1005"
abbreviation (input) SQL_API_SQLDISCONNECT :: nat where "SQL_API_SQLDISCONNECT \<equiv> 9"
abbreviation (input) SQL_API_SQLTABLES :: nat where "SQL_API_SQLTABLES \<equiv> 54"
abbreviation (input) SQL_API_SQLCOLUMNS :: nat where "SQL_API_SQLCOLUMNS \<equiv> 40"
abbreviation (input) SQL_API_SQLPREPARE :: nat where "SQL_API_SQLPREPARE \<equiv> 19"
abbreviation (input) SQL_API_SQLEXECDIRECT :: nat where "SQL_API_SQLEXECDIRECT \<equiv> 11"
abbreviation (input) SQL_API_SQLFREESTMT :: nat where "SQL_API_SQLFREESTMT \<equiv> 16"
abbreviation (input) SQL_API_SQLDESCRIBEPARAM :: nat where "SQL_API_SQLDESCRIBEPARAM \<equiv> 58"
abbreviation (input) SQL_API_SQLDESCRIBECOL :: nat where "SQL_API_SQLDESCRIBECOL \<equiv> 8"
abbreviation (input) SQL_API_SQLCOLATTRIBUTES :: nat where "SQL_API_SQLCOLATTRIBUTES \<equiv> 6"
abbreviation (input) SQL_API_SQLFETCHSCROLL :: nat where "SQL_API_SQLFETCHSCROLL \<equiv> 1021"
abbreviation (input) SQL_API_SQLROWCOUNT :: nat where "SQL_API_SQLROWCOUNT \<equiv> 20"
abbreviation (input) SQL_API_SQLGETDIAGFIELD :: nat where "SQL_API_SQLGETDIAGFIELD \<equiv> 1010"
abbreviation (input) SQL_API_SQLGETDIAGREC :: nat where "SQL_API_SQLGETDIAGREC \<equiv> 1011"
abbreviation (input) SQL_API_SQLGETFUNCTIONS :: nat where "SQL_API_SQLGETFUNCTIONS \<equiv> 44"
abbreviation (input) SQL_API_SQLBINDPARAMETER :: nat where "SQL_API_SQLBINDPARAMETER \<equiv> 72"
abbreviation (input) SQL_API_SQLGETDATA :: nat where "SQL_API_SQLGETDATA \<equiv> 43"
abbreviation (input) SQL_API_SQLFETCH :: nat where "SQL_API_SQLFETCH \<equiv> 13"
abbreviation (input) SQL_API_SQLEXECUTE :: nat where "SQL_API_SQLEXECUTE \<equiv> 12"
abbreviation (input) SQL_API_SQLNUMRESULTCOLS :: nat where "SQL_API_SQLNUMRESULTCOLS \<equiv> 18"
abbreviation (input) SQL_API_SQLGETTYPEINFO :: nat where "SQL_API_SQLGETTYPEINFO \<equiv> 47"
abbreviation (input) SQL_API_SQLBINDCOL :: nat where "SQL_API_SQLBINDCOL \<equiv> 4"
abbreviation (input) SQL_API_SQLCANCEL :: nat where "SQL_API_SQLCANCEL \<equiv> 5"
abbreviation (input) SQL_API_SQLNUMPARAMS :: nat where "SQL_API_SQLNUMPARAMS \<equiv> 63"
abbreviation (input) SQL_API_SQLPARAMDATA :: nat where "SQL_API_SQLPARAMDATA \<equiv> 48"
abbreviation (input) SQL_API_SQLPUTDATA :: nat where "SQL_API_SQLPUTDATA \<equiv> 49"
abbreviation (input) SQL_API_SQLMORERESULTS :: nat where "SQL_API_SQLMORERESULTS \<equiv> 61"
abbreviation (input) SQL_API_SQLGETSTMTATTR :: nat where "SQL_API_SQLGETSTMTATTR \<equiv> 1014"
abbreviation (input) SQL_API_SQLCLOSECURSOR :: nat where "SQL_API_SQLCLOSECURSOR \<equiv> 1003"
abbreviation (input) SQL_API_SQLCOPYDESC :: nat where "SQL_API_SQLCOPYDESC \<equiv> 1004"
abbreviation (input) SQL_API_SQLDATASOURCES :: nat where "SQL_API_SQLDATASOURCES \<equiv> 57"
abbreviation (input) SQL_API_SQLDRIVERS :: nat where "SQL_API_SQLDRIVERS \<equiv> 71"
abbreviation (input) SQL_API_SQLGETCURSORNAME :: nat where "SQL_API_SQLGETCURSORNAME \<equiv> 17"
abbreviation (input) SQL_API_SQLGETDESCFIELD :: nat where "SQL_API_SQLGETDESCFIELD \<equiv> 1008"
abbreviation (input) SQL_API_SQLGETENVATTR :: nat where "SQL_API_SQLGETENVATTR \<equiv> 1012"
abbreviation (input) SQL_API_SQLNATIVESQL :: nat where "SQL_API_SQLNATIVESQL \<equiv> 62"
abbreviation (input) SQL_API_SQLSETCURSORNAME :: nat where "SQL_API_SQLSETCURSORNAME \<equiv> 21"
abbreviation (input) SQL_API_SQLSETDESCFIELD :: nat where "SQL_API_SQLSETDESCFIELD \<equiv> 1017"
abbreviation (input) SQL_API_SQLSPECIALCOLUMNS :: nat where "SQL_API_SQLSPECIALCOLUMNS \<equiv> 52"
abbreviation (input) SQL_API_SQLSTATISTICS :: nat where "SQL_API_SQLSTATISTICS \<equiv> 53"
abbreviation (input) SQL_API_SQLBROWSECONNECT :: nat where "SQL_API_SQLBROWSECONNECT \<equiv> 55"
abbreviation (input) SQL_API_SQLBULKOPERATIONS :: nat where "SQL_API_SQLBULKOPERATIONS \<equiv> 24"
abbreviation (input) SQL_API_SQLCOLUMNPRIVILEGES :: nat where "SQL_API_SQLCOLUMNPRIVILEGES \<equiv> 56"
abbreviation (input) SQL_API_SQLFOREIGNKEYS :: nat where "SQL_API_SQLFOREIGNKEYS \<equiv> 60"
abbreviation (input) SQL_API_SQLGETDESCREC :: nat where "SQL_API_SQLGETDESCREC \<equiv> 1009"
abbreviation (input) SQL_API_SQLPRIMARYKEYS :: nat where "SQL_API_SQLPRIMARYKEYS \<equiv> 65"
abbreviation (input) SQL_API_SQLPROCEDURECOLUMNS :: nat where "SQL_API_SQLPROCEDURECOLUMNS \<equiv> 66"
abbreviation (input) SQL_API_SQLPROCEDURES :: nat where "SQL_API_SQLPROCEDURES \<equiv> 67"
abbreviation (input) SQL_API_SQLSETDESCREC :: nat where "SQL_API_SQLSETDESCREC \<equiv> 1018"
abbreviation (input) SQL_API_SQLSETPOS :: nat where "SQL_API_SQLSETPOS \<equiv> 68"
abbreviation (input) SQL_API_SQLTABLEPRIVILEGES :: nat where "SQL_API_SQLTABLEPRIVILEGES \<equiv> 70"

definition BASE_SUPPORTED_FUNCTIONS :: "nat list" where
  "BASE_SUPPORTED_FUNCTIONS =
    [SQL_API_SQLALLOCHANDLE, SQL_API_SQLFREEHANDLE, SQL_API_SQLGETCONNECTATTR, SQL_API_SQLSETENVATTR,
     SQL_API_SQLSETCONNECTATTR, SQL_API_SQLSETSTMTATTR, SQL_API_SQLDRIVERCONNECT, SQL_API_SQLCONNECT,
     SQL_API_SQLGETINFO, SQL_API_SQLENDTRAN, SQL_API_SQLDISCONNECT, SQL_API_SQLTABLES,
     SQL_API_SQLCOLUMNS, SQL_API_SQLPREPARE, SQL_API_SQLEXECDIRECT, SQL_API_SQLFREESTMT,
     SQL_API_SQLDESCRIBEPARAM, SQL_API_SQLDESCRIBECOL, SQL_API_SQLCOLATTRIBUTES, SQL_API_SQLFETCHSCROLL,
     SQL_API_SQLROWCOUNT, SQL_API_SQLGETDIAGFIELD, SQL_API_SQLGETDIAGREC, SQL_API_SQLGETFUNCTIONS,
     SQL_API_SQLBINDPARAMETER, SQL_API_SQLGETDATA, SQL_API_SQLFETCH, SQL_API_SQLEXECUTE,
     SQL_API_SQLNUMRESULTCOLS, SQL_API_SQLGETTYPEINFO, SQL_API_SQLBINDCOL, SQL_API_SQLCANCEL,
     SQL_API_SQLNUMPARAMS, SQL_API_SQLPARAMDATA, SQL_API_SQLPUTDATA, SQL_API_SQLMORERESULTS,
     SQL_API_SQLGETSTMTATTR]"

definition ODBC3_EXTRA_SUPPORTED_FUNCTIONS :: "nat list" where
  "ODBC3_EXTRA_SUPPORTED_FUNCTIONS =
    [SQL_API_SQLCLOSECURSOR, SQL_API_SQLCOPYDESC, SQL_API_SQLDATASOURCES, SQL_API_SQLDRIVERS,
     SQL_API_SQLGETCURSORNAME, SQL_API_SQLGETDESCFIELD, SQL_API_SQLGETENVATTR, SQL_API_SQLNATIVESQL,
     SQL_API_SQLSETCURSORNAME, SQL_API_SQLSETDESCFIELD, SQL_API_SQLSPECIALCOLUMNS, SQL_API_SQLSTATISTICS,
     SQL_API_SQLBROWSECONNECT, SQL_API_SQLBULKOPERATIONS, SQL_API_SQLCOLUMNPRIVILEGES, SQL_API_SQLFOREIGNKEYS,
     SQL_API_SQLGETDESCREC, SQL_API_SQLPRIMARYKEYS, SQL_API_SQLPROCEDURECOLUMNS, SQL_API_SQLPROCEDURES,
     SQL_API_SQLSETDESCREC, SQL_API_SQLSETPOS, SQL_API_SQLTABLEPRIVILEGES]"

text \<open>\<^verbatim>\<open>flags[function_id >> 4] |= (1 << (function_id & 0xF))\<close>\<close>

definition SetFunctionSupported :: "nat \<Rightarrow> nat list \<Rightarrow> nat list" where
  "SetFunctionSupported function_id flags =
     flags[drop_bit 4 function_id :=
       flags ! drop_bit 4 function_id OR push_bit (function_id AND 0xF) 1]"

abbreviation (input) SQL_API_ALL_FUNCTIONS :: nat where "SQL_API_ALL_FUNCTIONS \<equiv> 0"
abbreviation (input) NUM_FUNC_SUPPORTED :: nat where "NUM_FUNC_SUPPORTED \<equiv> 4000"
abbreviation (input) SQL_API_ODBC3_ALL_FUNCTIONS_SIZE :: nat where "SQL_API_ODBC3_ALL_FUNCTIONS_SIZE \<equiv> 250"

text \<open>The words written at \<^verbatim>\<open>supported_ptr\<close>.\<close>

definition GetFunctions :: "nat \<Rightarrow> nat list" where
  "GetFunctions function_id =
     (if function_id = SQL_API_ALL_FUNCTIONS then
        fold (\<lambda>func_idx supported. supported[func_idx := 1]) BASE_SUPPORTED_FUNCTIONS
          (replicate NUM_FUNC_SUPPORTED 0)
      else if function_id \<in> set BASE_SUPPORTED_FUNCTIONS then [1] else [0])"

definition GetFunctions30 :: "nat list" where
  "GetFunctions30 =
     fold SetFunctionSupported ODBC3_EXTRA_SUPPORTED_FUNCTIONS
       (fold SetFunctionSupported BASE_SUPPORTED_FUNCTIONS
          (replicate SQL_API_ODBC3_ALL_FUNCTIONS_SIZE 0))"

text \<open>The macro \<^verbatim>\<open>SQL_FUNC_EXISTS\<close> with which the application reads the bitmap.\<close>

definition SQL_FUNC_EXISTS :: "nat list \<Rightarrow> nat \<Rightarrow> bool" where
  "SQL_FUNC_EXISTS flags function_id \<longleftrightarrow>
     flags ! drop_bit 4 function_id AND push_bit (function_id AND 0xF) 1 \<noteq> 0"

section \<open>Supported types\<close>

text \<open>\<^verbatim>\<open>std::to_string\<close> of an integer, and a text between single quotes.\<close>

fun nat_to_string :: "nat \<Rightarrow> string" where
  "nat_to_string n =
     (if n < 10 then [char_of (48 + n)] else nat_to_string (n div 10) @ [char_of (48 + n mod 10)])"

declare nat_to_string.simps [simp del]

definition to_string :: "int \<Rightarrow> string" where
  "to_string v = (if v < 0 then ''-'' @ nat_to_string (nat (- v)) else nat_to_string (nat v))"

definition quoted :: "string \<Rightarrow> string" where
  "quoted s = [CHR 0x27] @ s @ [CHR 0x27]"

record OdbcTypeInfo =
  ti_type_name :: string
  ti_data_type :: int
  ti_column_size :: int
  ti_literal_prefix :: string
  ti_literal_suffix :: string
  ti_create_params :: string
  ti_nullable :: int
  ti_case_sensitive :: int
  ti_searchable :: int
  ti_unsigned_attribute :: int
  ti_fixed_prec_scale :: int
  ti_auto_unique_value :: int
  ti_local_type_name :: string
  ti_minimum_scale :: int
  ti_maximum_scale :: int
  ti_sql_data_type :: int
  ti_sql_datetime_sub :: int
  ti_num_prec_radix :: int
  ti_interval_precision :: int

definition type_info where
  "type_info x1 x2 x3 x4 x5 x6 x7 x8 x9 x10 x11 x12 x13 x14 x15 x16 x17 x18 x19 = (\<lparr>ti_type_name = x1, ti_data_type = x2, ti_column_size = x3, ti_literal_prefix = x4, ti_literal_suffix = x5, ti_create_params = x6, ti_nullable = x7, ti_case_sensitive = x8, ti_searchable = x9, ti_unsigned_attribute = x10, ti_fixed_prec_scale = x11, ti_auto_unique_value = x12, ti_local_type_name = x13, ti_minimum_scale = x14, ti_maximum_scale = x15, ti_sql_data_type = x16, ti_sql_datetime_sub = x17, ti_num_prec_radix = x18, ti_interval_precision = x19\<rparr> :: OdbcTypeInfo)"

definition ODBC_SUPPORTED_SQL_TYPES :: "OdbcTypeInfo list" where
  "ODBC_SUPPORTED_SQL_TYPES =
    [type_info (quoted ''CHAR'') SQL_CHAR 2147483647 (quoted ('''' @ [CHR 0x27] @ '''' @ [CHR 0x27] @ '''')) (quoted ('''' @ [CHR 0x27] @ '''' @ [CHR 0x27] @ '''')) (quoted ''length'') 1 SQL_TRUE 3 (- 1) SQL_FALSE SQL_FALSE (''NULL'') (- 1) (- 1) SQL_CHAR (- 1) (- 1) (- 1),
     type_info (quoted ''BOOLEAN'') SQL_BIT 1 (''NULL'') (''NULL'') (''NULL'') 1 SQL_FALSE 2 SQL_TRUE SQL_TRUE SQL_FALSE (quoted ''boolean'') (- 1) (- 1) SQL_BIT (- 1) (- 1) (- 1),
     type_info (quoted ''TINYINT'') SQL_TINYINT 3 (''NULL'') (''NULL'') (''NULL'') 1 SQL_FALSE 2 SQL_FALSE SQL_FALSE SQL_FALSE (''NULL'') 0 0 SQL_TINYINT (- 1) 2 (- 1),
     type_info (quoted ''SMALLINT'') SQL_SMALLINT 5 (''NULL'') (''NULL'') (''NULL'') 1 SQL_FALSE 2 SQL_FALSE SQL_FALSE SQL_FALSE (''NULL'') 0 0 SQL_SMALLINT (- 1) 2 (- 1),
     type_info (quoted ''INTEGER'') SQL_INTEGER 10 (''NULL'') (''NULL'') (''NULL'') 1 SQL_FALSE 2 SQL_FALSE SQL_FALSE SQL_FALSE (''NULL'') 0 0 SQL_INTEGER (- 1) 2 (- 1),
     type_info (quoted ''BIGINT'') SQL_BIGINT 19 (''NULL'') (''NULL'') (''NULL'') 1 SQL_FALSE 2 SQL_FALSE SQL_FALSE SQL_FALSE (''NULL'') 0 0 SQL_BIGINT (- 1) 2 (- 1),
     type_info (quoted ''DATE'') SQL_TYPE_DATE 10 (quoted ('''' @ [CHR 0x27] @ '''' @ [CHR 0x27] @ '''')) (quoted ('''' @ [CHR 0x27] @ '''' @ [CHR 0x27] @ '''')) (''NULL'') 1 SQL_FALSE 2 (- 1) SQL_FALSE SQL_FALSE (''NULL'') (- 1) (- 1) SQL_TYPE_DATE 1 (- 1) (- 1),
     type_info (quoted ''TIME'') SQL_TYPE_TIME 8 (quoted ('''' @ [CHR 0x27] @ '''' @ [CHR 0x27] @ '''')) (quoted ('''' @ [CHR 0x27] @ '''' @ [CHR 0x27] @ '''')) (''NULL'') 1 SQL_FALSE 2 (- 1) SQL_FALSE SQL_FALSE (''NULL'') 0 0 SQL_TYPE_TIME 2 (- 1) (- 1),
     type_info (quoted ''TIMESTAMP'') SQL_TYPE_TIMESTAMP 26 (quoted ('''' @ [CHR 0x27] @ '''' @ [CHR 0x27] @ '''')) (quoted ('''' @ [CHR 0x27] @ '''' @ [CHR 0x27] @ '''')) (''NULL'') 1 SQL_FALSE 2 (- 1) SQL_FALSE SQL_FALSE (''NULL'') 0 0 SQL_TYPE_TIMESTAMP 3 (- 1) (- 1),
     type_info (quoted ''DECIMAL'') SQL_DECIMAL 38 (quoted ('''' @ [CHR 0x27] @ '''' @ [CHR 0x27] @ '''')) (quoted ('''' @ [CHR 0x27] @ '''' @ [CHR 0x27] @ '''')) (quoted ''precision,scale'') 1 SQL_FALSE 2 (- 1) SQL_FALSE SQL_FALSE (''NULL'') 0 38 SQL_DECIMAL (- 1) 10 (- 1),
     type_info (quoted ''NUMERIC'') SQL_NUMERIC 38 (quoted ('''' @ [CHR 0x27] @ '''' @ [CHR 0x27] @ '''')) (quoted ('''' @ [CHR 0x27] @ '''' @ [CHR 0x27] @ '''')) (quoted ''precision,scale'') 1 SQL_FALSE 2 (- 1) SQL_FALSE SQL_FALSE (''NULL'') 0 38 SQL_NUMERIC (- 1) 10 (- 1),
     type_info (quoted ''FLOAT'') SQL_FLOAT 24 (''NULL'') (''NULL'') (''NULL'') 1 SQL_FALSE 2 SQL_FALSE SQL_FALSE SQL_FALSE (''NULL'') 0 0 SQL_FLOAT (- 1) 2 (- 1),
     type_info (quoted ''DOUBLE'') SQL_DOUBLE 53 (''NULL'') (''NULL'') (''NULL'') 1 SQL_FALSE 2 SQL_FALSE SQL_FALSE SQL_FALSE (''NULL'') 0 0 SQL_DOUBLE (- 1) 2 (- 1),
     type_info (quoted ''VARCHAR'') SQL_VARCHAR 2147483647 (quoted ('''' @ [CHR 0x27] @ '''' @ [CHR 0x27] @ '''')) (quoted ('''' @ [CHR 0x27] @ '''' @ [CHR 0x27] @ '''')) (quoted ''length'') 1 SQL_TRUE 3 (- 1) SQL_FALSE (- 1) (''NULL'') (- 1) (- 1) SQL_VARCHAR (- 1) (- 1) (- 1),
     type_info (quoted ''VARCHAR'') SQL_WVARCHAR 2147483647 (quoted ('''' @ [CHR 0x27] @ '''' @ [CHR 0x27] @ '''')) (quoted ('''' @ [CHR 0x27] @ '''' @ [CHR 0x27] @ '''')) (quoted ''length'') 1 SQL_TRUE 3 (- 1) SQL_FALSE (- 1) (''NULL'') (- 1) (- 1) SQL_WVARCHAR (- 1) (- 1) (- 1),
     type_info (quoted ''BLOB'') SQL_VARBINARY 2147483647 (quoted (''x'' @ [CHR 0x27] @ '''' @ [CHR 0x27] @ '''')) (quoted ('''' @ [CHR 0x27] @ '''' @ [CHR 0x27] @ '''')) (quoted ''length'') 1 SQL_TRUE 2 (- 1) SQL_FALSE SQL_FALSE (''NULL'') (- 1) (- 1) SQL_VARBINARY (- 1) (- 1) (- 1),
     type_info (quoted ''UUID'') SQL_UNKNOWN_TYPE 2147483647 (quoted ('''' @ [CHR 0x27] @ '''' @ [CHR 0x27] @ '''')) (quoted ('''' @ [CHR 0x27] @ '''' @ [CHR 0x27] @ '''')) (quoted ''length'') 1 SQL_TRUE 2 (- 1) SQL_FALSE SQL_FALSE (''NULL'') (- 1) (- 1) SQL_VARCHAR (- 1) (- 1) (- 1),
     type_info (quoted ''INTERVAL YEAR'') SQL_INTERVAL_YEAR 9 (quoted ('''' @ [CHR 0x27] @ '''' @ [CHR 0x27] @ '''')) (quoted ('''' @ [CHR 0x27] @ '''' @ [CHR 0x27] @ '''')) (''NULL'') 1 SQL_FALSE 2 (- 1) SQL_FALSE (- 1) (''NULL'') 0 0 SQL_VARCHAR 1 (- 1) (- 1),
     type_info (quoted ''INTERVAL MONTH'') SQL_INTERVAL_MONTH 10 (quoted ('''' @ [CHR 0x27] @ '''' @ [CHR 0x27] @ '''')) (quoted ('''' @ [CHR 0x27] @ '''' @ [CHR 0x27] @ '''')) (''NULL'') 1 SQL_FALSE 2 (- 1) SQL_FALSE (- 1) (''NULL'') 0 0 SQL_VARCHAR 2 (- 1) (- 1),
     type_info (quoted ''INTERVAL DAY'') SQL_INTERVAL_DAY 5 (quoted ('''' @ [CHR 0x27] @ '''' @ [CHR 0x27] @ '''')) (quoted ('''' @ [CHR 0x27] @ '''' @ [CHR 0x27] @ '''')) (''NULL'') 1 SQL_FALSE 2 (- 1) SQL_FALSE (- 1) (''NULL'') 0 0 SQL_VARCHAR 3 (- 1) (- 1),
     type_info (quoted ''INTERVAL HOUR'') SQL_INTERVAL_HOUR 6 (quoted ('''' @ [CHR 0x27] @ '''' @ [CHR 0x27] @ '''')) (quoted ('''' @ [CHR 0x27] @ '''' @ [CHR 0x27] @ '''')) (''NULL'') 1 SQL_FALSE 2 (- 1) SQL_FALSE (- 1) (''NULL'') 0 0 SQL_VARCHAR 4 (- 1) (- 1),
     type_info (quoted ''INTERVAL MINUTE'') SQL_INTERVAL_MINUTE 8 (quoted ('''' @ [CHR 0x27] @ '''' @ [CHR 0x27] @ '''')) (quoted ('''' @ [CHR 0x27] @ '''' @ [CHR 0x27] @ '''')) (''NULL'') 1 SQL_FALSE 2 (- 1) SQL_FALSE (- 1) (''NULL'') 0 0 SQL_VARCHAR 5 (- 1) (- 1),
     type_info (quoted ''INTERVAL SECOND'') SQL_INTERVAL_SECOND 10 (quoted ('''' @ [CHR 0x27] @ '''' @ [CHR 0x27] @ '''')) (quoted ('''' @ [CHR 0x27] @ '''' @ [CHR 0x27] @ '''')) (''NULL'') 1 SQL_FALSE 2 (- 1) SQL_FALSE (- 1) (''NULL'') 0 0 SQL_VARCHAR 6 (- 1) (- 1),
     type_info (quoted ''INTERVAL YEAR TO MONTH'') SQL_INTERVAL_YEAR_TO_MONTH 12 (quoted ('''' @ [CHR 0x27] @ '''' @ [CHR 0x27] @ '''')) (quoted ('''' @ [CHR 0x27] @ '''' @ [CHR 0x27] @ '''')) (''NULL'') 1 SQL_FALSE 2 (- 1) SQL_FALSE (- 1) (''NULL'') 0 0 SQL_VARCHAR 7 (- 1) (- 1),
     type_info (quoted ''INTERVAL DAY TO HOUR'') SQL_INTERVAL_DAY_TO_HOUR 8 (quoted ('''' @ [CHR 0x27] @ '''' @ [CHR 0x27] @ '''')) (quoted ('''' @ [CHR 0x27] @ '''' @ [CHR 0x27] @ '''')) (''NULL'') 1 SQL_FALSE 2 (- 1) SQL_FALSE (- 1) (''NULL'') 0 0 SQL_VARCHAR 8 (- 1) (- 1),
     type_info (quoted ''INTERVAL DAY TO MINUTE'') SQL_INTERVAL_DAY_TO_MINUTE 11 (quoted ('''' @ [CHR 0x27] @ '''' @ [CHR 0x27] @ '''')) (quoted ('''' @ [CHR 0x27] @ '''' @ [CHR 0x27] @ '''')) (''NULL'') 1 SQL_FALSE 2 (- 1) SQL_FALSE (- 1) (''NULL'') 0 0 SQL_VARCHAR 9 (- 1) (- 1),
     type_info (quoted ''INTERVAL DAY TO SECOND'') SQL_INTERVAL_DAY_TO_SECOND 14 (quoted ('''' @ [CHR 0x27] @ '''' @ [CHR 0x27] @ '''')) (quoted ('''' @ [CHR 0x27] @ '''' @ [CHR 0x27] @ '''')) (''NULL'') 1 SQL_FALSE 2 (- 1) SQL_FALSE (- 1) (''NULL'') 0 0 SQL_VARCHAR 10 (- 1) (- 1),
     type_info (quoted ''INTERVAL HOUR TO MINUTE'') SQL_INTERVAL_HOUR_TO_MINUTE 9 (quoted ('''' @ [CHR 0x27] @ '''' @ [CHR 0x27] @ '''')) (quoted ('''' @ [CHR 0x27] @ '''' @ [CHR 0x27] @ '''')) (''NULL'') 1 SQL_FALSE 2 (- 1) SQL_FALSE (- 1) (''NULL'') 0 0 SQL_VARCHAR 11 (- 1) (- 1),
     type_info (quoted ''INTERVAL HOUR TO SECOND'') SQL_INTERVAL_HOUR_TO_SECOND 12 (quoted ('''' @ [CHR 0x27] @ '''' @ [CHR 0x27] @ '''')) (quoted ('''' @ [CHR 0x27] @ '''' @ [CHR 0x27] @ '''')) (''NULL'') 1 SQL_FALSE 2 (- 1) SQL_FALSE (- 1) (''NULL'') 0 0 SQL_VARCHAR 12 (- 1) (- 1),
     type_info (quoted ''INTERVAL MINUTE TO SECOND'') SQL_INTERVAL_MINUTE_TO_SECOND 12 (quoted ('''' @ [CHR 0x27] @ '''' @ [CHR 0x27] @ '''')) (quoted ('''' @ [CHR 0x27] @ '''' @ [CHR 0x27] @ '''')) (''NULL'') 1 SQL_FALSE 2 (- 1) SQL_FALSE (- 1) (''NULL'') 0 0 SQL_VARCHAR 13 (- 1) (- 1)]"

text \<open>The entries from the first one with the type as long as the type is the same.\<close>

definition FindDataType :: "SQLSMALLINT \<Rightarrow> OdbcTypeInfo list" where
  "FindDataType data_type =
     takeWhile (\<lambda>t. ti_data_type t = data_type)
       (dropWhile (\<lambda>t. ti_data_type t \<noteq> data_type) ODBC_SUPPORTED_SQL_TYPES)"

definition WriteInfoType :: "OdbcTypeInfo \<Rightarrow> string" where
  "WriteInfoType t =
     ''('' @
        ''CAST('' @ ti_type_name t @ '' AS VARCHAR),'' @
        ''CAST('' @ to_string (ti_data_type t) @ '' AS SMALLINT),'' @
        ''CAST('' @ to_string (ti_column_size t) @ '' AS INTEGER),'' @
        ''CAST('' @ ti_literal_prefix t @ '' AS VARCHAR),'' @
        ''CAST('' @ ti_literal_suffix t @ '' AS VARCHAR),'' @
        ''CAST('' @ ti_create_params t @ '' AS VARCHAR),'' @
        ''CAST('' @ to_string (ti_nullable t) @ '' AS SMALLINT),'' @
        ''CAST('' @ to_string (ti_case_sensitive t) @ '' AS SMALLINT),'' @
        ''CAST('' @ to_string (ti_searchable t) @ '' AS SMALLINT),'' @
        ''CAST('' @ to_string (ti_unsigned_attribute t) @ '' AS SMALLINT),'' @
        ''CAST('' @ to_string (ti_fixed_prec_scale t) @ '' AS SMALLINT),'' @
        ''CAST('' @ to_string (ti_auto_unique_value t) @ '' AS SMALLINT),'' @
        ''CAST('' @ ti_local_type_name t @ '' AS VARCHAR),'' @
        ''CAST('' @ to_string (ti_minimum_scale t) @ '' AS SMALLINT),'' @
        ''CAST('' @ to_string (ti_maximum_scale t) @ '' AS SMALLINT),'' @
        ''CAST('' @ to_string (ti_sql_data_type t) @ '' AS SMALLINT),'' @
        ''CAST('' @ to_string (ti_sql_datetime_sub t) @ '' AS SMALLINT),'' @
        ''CAST('' @ to_string (ti_num_prec_radix t) @ '' AS integer),'' @
        ''CAST('' @ to_string (ti_interval_precision t) @ '' AS SMALLINT)'' @ '')''"

fun WriteInfoTypesToQueryString :: "OdbcTypeInfo list \<Rightarrow> string \<Rightarrow> string" where
  "WriteInfoTypesToQueryString [] query = query"
| "WriteInfoTypesToQueryString [t] query = query @ WriteInfoType t"
| "WriteInfoTypesToQueryString (t # ts) query =
     WriteInfoTypesToQueryString ts (query @ WriteInfoType t @ '','')"

section \<open>Logical types\<close>

datatype LogicalTypeId = BOOLEAN | TINYINT | SMALLINT | INTEGER | BIGINT | UTINYINT | USMALLINT
  | UINTEGER | UBIGINT | HUGEINT | UHUGEINT | FLOAT | DOUBLE | DATE | TIME | TIMESTAMP_SEC
  | TIMESTAMP_MS | TIMESTAMP | TIMESTAMP_NS | TIMESTAMP_TZ | DECIMAL | LT_CHAR | VARCHAR | BLOB
  | INTERVAL | BIT | GEOMETRY | LIST | OTHER_TYPE nat

record LogicalType =
  lt_id :: LogicalTypeId
  lt_width :: nat
  lt_scale :: nat

definition IsUnsigned :: "LogicalType \<Rightarrow> bool" where
  "IsUnsigned t \<longleftrightarrow> lt_id t \<in> {UTINYINT, USMALLINT, UINTEGER, UBIGINT, UHUGEINT}"

fun FindRelatedSQLType :: "LogicalTypeId \<Rightarrow> SQLSMALLINT" where
  "FindRelatedSQLType BOOLEAN = SQL_CHAR"
| "FindRelatedSQLType TINYINT = SQL_TINYINT"
| "FindRelatedSQLType UTINYINT = SQL_TINYINT"
| "FindRelatedSQLType SMALLINT = SQL_SMALLINT"
| "FindRelatedSQLType USMALLINT = SQL_SMALLINT"
| "FindRelatedSQLType INTEGER = SQL_INTEGER"
| "FindRelatedSQLType UINTEGER = SQL_INTEGER"
| "FindRelatedSQLType BIGINT = SQL_BIGINT"
| "FindRelatedSQLType UBIGINT = SQL_BIGINT"
| "FindRelatedSQLType HUGEINT = SQL_NUMERIC"
| "FindRelatedSQLType UHUGEINT = SQL_NUMERIC"
| "FindRelatedSQLType FLOAT = SQL_FLOAT"
| "FindRelatedSQLType DOUBLE = SQL_DOUBLE"
| "FindRelatedSQLType DATE = SQL_TYPE_DATE"
| "FindRelatedSQLType TIMESTAMP = SQL_TYPE_TIMESTAMP"
| "FindRelatedSQLType TIMESTAMP_MS = SQL_TYPE_TIMESTAMP"
| "FindRelatedSQLType TIMESTAMP_SEC = SQL_TYPE_TIMESTAMP"
| "FindRelatedSQLType TIMESTAMP_NS = SQL_TYPE_TIMESTAMP"
| "FindRelatedSQLType TIMESTAMP_TZ = SQL_TYPE_TIMESTAMP"
| "FindRelatedSQLType TIME = SQL_TYPE_TIME"
| "FindRelatedSQLType VARCHAR = SQL_VARCHAR"
| "FindRelatedSQLType BLOB = SQL_VARBINARY"
| "FindRelatedSQLType GEOMETRY = SQL_VARBINARY"
| "FindRelatedSQLType INTERVAL = SQL_INTERVAL"
| "FindRelatedSQLType DECIMAL = SQL_DECIMAL"
| "FindRelatedSQLType LIST = SQL_VARCHAR"
| "FindRelatedSQLType BIT = SQL_BIT"
| "FindRelatedSQLType LT_CHAR = SQL_UNKNOWN_TYPE"
| "FindRelatedSQLType (OTHER_TYPE _) = SQL_UNKNOWN_TYPE"

section \<open>Sizes\<close>

abbreviation (input) SQL_C_CHAR :: int where "SQL_C_CHAR \<equiv> 1"
abbreviation (input) SQL_C_LONG :: int where "SQL_C_LONG \<equiv> 4"
abbreviation (input) SQL_C_SHORT :: int where "SQL_C_SHORT \<equiv> 5"
abbreviation (input) SQL_C_FLOAT :: int where "SQL_C_FLOAT \<equiv> 7"
abbreviation (input) SQL_C_DOUBLE :: int where "SQL_C_DOUBLE \<equiv> 8"
abbreviation (input) SQL_C_NUMERIC :: int where "SQL_C_NUMERIC \<equiv> 2"
abbreviation (input) SQL_C_DEFAULT :: int where "SQL_C_DEFAULT \<equiv> 99"
abbreviation (input) SQL_C_SSHORT :: int where "SQL_C_SSHORT \<equiv> - 15"
abbreviation (input) SQL_C_SLONG :: int where "SQL_C_SLONG \<equiv> - 16"
abbreviation (input) SQL_C_USHORT :: int where "SQL_C_USHORT \<equiv> - 17"
abbreviation (input) SQL_C_ULONG :: int where "SQL_C_ULONG \<equiv> - 18"
abbreviation (input) SQL_C_SBIGINT :: int where "SQL_C_SBIGINT \<equiv> - 25"
abbreviation (input) SQL_C_STINYINT :: int where "SQL_C_STINYINT \<equiv> - 26"
abbreviation (input) SQL_C_UBIGINT :: int where "SQL_C_UBIGINT \<equiv> - 27"
abbreviation (input) SQL_C_UTINYINT :: int where "SQL_C_UTINYINT \<equiv> - 28"
abbreviation (input) SQL_C_TINYINT :: int where "SQL_C_TINYINT \<equiv> - 6"
abbreviation (input) SQL_C_BIT :: int where "SQL_C_BIT \<equiv> - 7"
abbreviation (input) SQL_C_WCHAR :: int where "SQL_C_WCHAR \<equiv> - 8"
abbreviation (input) SQL_C_BINARY :: int where "SQL_C_BINARY \<equiv> - 2"
abbreviation (input) SQL_C_GUID :: int where "SQL_C_GUID \<equiv> - 11"
abbreviation (input) SQL_C_TYPE_DATE :: int where "SQL_C_TYPE_DATE \<equiv> 91"
abbreviation (input) SQL_C_TYPE_TIME :: int where "SQL_C_TYPE_TIME \<equiv> 92"
abbreviation (input) SQL_C_TYPE_TIMESTAMP :: int where "SQL_C_TYPE_TIMESTAMP \<equiv> 93"

text \<open>The sizes of the C structures on the platforms of the driver: numeric 19 bytes, date and
  time 6, timestamp 16, interval 28.\<close>

definition PointerSizeOf :: "SQLSMALLINT \<Rightarrow> SQLLEN" where
  "PointerSizeOf sql_type =
     (if sql_type = SQL_C_SSHORT then 2 else if sql_type = SQL_C_USHORT then 2
      else if sql_type = SQL_C_LONG \<or> sql_type = SQL_C_SLONG then 4
      else if sql_type = SQL_C_ULONG then 4
      else if sql_type = SQL_C_FLOAT then 4 else if sql_type = SQL_C_DOUBLE then 8
      else if sql_type = SQL_C_STINYINT then 1 else if sql_type = SQL_C_UTINYINT then 1
      else if sql_type = SQL_C_SBIGINT then 8 else if sql_type = SQL_C_UBIGINT then 8
      else if sql_type = SQL_C_NUMERIC then 19
      else if sql_type = SQL_C_TYPE_DATE then 6 else if sql_type = SQL_C_TYPE_TIME then 6
      else if sql_type = SQL_C_TYPE_TIMESTAMP then 16
      else if IsIntervalType sql_type then 28
      else if sql_type = SQL_C_BIT then 1
      else - 1)"

fun GetTemporalPrecision :: "LogicalTypeId \<Rightarrow> int" where
  "GetTemporalPrecision type_id =
     (if type_id = TIME \<or> type_id = TIMESTAMP \<or> type_id = TIMESTAMP_TZ then 6
      else if type_id = TIMESTAMP_MS then 3
      else if type_id = TIMESTAMP_SEC then 0
      else if type_id = TIMESTAMP_NS then 9
      else 0)"

abbreviation (input) MAX_VARCHAR_COLUMN_SIZE :: int where "MAX_VARCHAR_COLUMN_SIZE \<equiv> 8000"
abbreviation (input) MAX_VARBINARY_COLUMN_SIZE :: int where "MAX_VARBINARY_COLUMN_SIZE \<equiv> 8000"

definition GetColumnSize :: "LogicalType \<Rightarrow> SQLINTEGER" where
  "GetColumnSize t =
     (let sql_type = FindRelatedSQLType (lt_id t); precision = GetTemporalPrecision (lt_id t) in
      if sql_type = SQL_DECIMAL \<or> sql_type = SQL_NUMERIC then
        (if lt_id t = HUGEINT \<or> lt_id t = UHUGEINT then 38 else int (lt_width t))
      else if sql_type = SQL_BIT then 1
      else if sql_type = SQL_TINYINT then 3
      else if sql_type = SQL_SMALLINT then 5
      else if sql_type = SQL_INTEGER then 10
      else if sql_type = SQL_BIGINT then (if IsUnsigned t then 20 else 19)
      else if sql_type = SQL_REAL then 7
      else if sql_type = SQL_FLOAT \<or> sql_type = SQL_DOUBLE then 15
      else if sql_type = SQL_TYPE_DATE then 10
      else if sql_type = SQL_TYPE_TIME then (if precision > 0 then 9 + precision else 8)
      else if sql_type = SQL_TYPE_TIMESTAMP then (if precision > 0 then 20 + precision else 19)
      else if sql_type = SQL_VARCHAR then MAX_VARCHAR_COLUMN_SIZE
      else if sql_type = SQL_VARBINARY then MAX_VARBINARY_COLUMN_SIZE
      else 0)"

definition GetDisplaySize :: "LogicalType \<Rightarrow> SQLINTEGER" where
  "GetDisplaySize t =
     (let sql_type = FindRelatedSQLType (lt_id t); precision = GetTemporalPrecision (lt_id t) in
      if sql_type = SQL_DECIMAL \<or> sql_type = SQL_NUMERIC then
        (if lt_id t = HUGEINT \<or> lt_id t = UHUGEINT then 40 else int (lt_width t) + 2)
      else if sql_type = SQL_BIT then 1
      else if sql_type = SQL_TINYINT then (if IsUnsigned t then 3 else 4)
      else if sql_type = SQL_SMALLINT then (if IsUnsigned t then 5 else 6)
      else if sql_type = SQL_INTEGER then (if IsUnsigned t then 10 else 11)
      else if sql_type = SQL_BIGINT then 20
      else if sql_type = SQL_REAL then 14
      else if sql_type = SQL_FLOAT \<or> sql_type = SQL_DOUBLE then 24
      else if sql_type = SQL_TYPE_DATE then 10
      else if sql_type = SQL_TYPE_TIME then (if precision > 0 then 9 + precision else 8)
      else if sql_type = SQL_TYPE_TIMESTAMP then (if precision > 0 then 20 + precision else 19)
      else if sql_type = SQL_VARCHAR then MAX_VARCHAR_COLUMN_SIZE
      else if sql_type = SQL_VARBINARY then MAX_VARBINARY_COLUMN_SIZE
      else 0)"

section \<open>Properties\<close>

lemma bitmap_position:
  "drop_bit 4 a = drop_bit 4 b \<and> (a AND 0xF) = (b AND 0xF) \<longleftrightarrow> a = b" for a b :: nat
proof -
  have m: "x AND 0xF = x mod 16" for x :: nat
    using take_bit_eq_mask [of 4 x] by (simp add: mask_eq_exp_minus_1 take_bit_eq_mod)
  have "drop_bit 4 x = x div 16" for x :: nat by (simp add: drop_bit_eq_div)
  then show ?thesis unfolding m by (metis div_mult_mod_eq)
qed

lemma and_push_bit_1: "(n AND push_bit k 1 \<noteq> 0) \<longleftrightarrow> bit n k" for n :: nat
  by (simp add: bit_iff_and_push_bit_not_eq_0)

lemma SQL_FUNC_EXISTS_bit: "SQL_FUNC_EXISTS flags f \<longleftrightarrow> bit (flags ! drop_bit 4 f) (f AND 0xF)"
  unfolding SQL_FUNC_EXISTS_def and_push_bit_1 ..

lemma SQL_FUNC_EXISTS_set:
  assumes "drop_bit 4 g < length flags"
  shows "SQL_FUNC_EXISTS (SetFunctionSupported g flags) f \<longleftrightarrow> f = g \<or> SQL_FUNC_EXISTS flags f"
  using assms bitmap_position [of f g]
  by (auto simp: SQL_FUNC_EXISTS_bit SetFunctionSupported_def bit_or_iff bit_exp_iff nth_list_update)

lemma SQL_FUNC_EXISTS_fold:
  assumes "list_all (\<lambda>g. drop_bit 4 g < length flags) gs"
  shows "length (fold SetFunctionSupported gs flags) = length flags
    \<and> (SQL_FUNC_EXISTS (fold SetFunctionSupported gs flags) f \<longleftrightarrow> f \<in> set gs \<or> SQL_FUNC_EXISTS flags f)"
  using assms
proof (induction gs arbitrary: flags)
  case (Cons g gs)
  have "length (SetFunctionSupported g flags) = length flags" by (simp add: SetFunctionSupported_def)
  with Cons.prems Cons.IH [of "SetFunctionSupported g flags"] show ?case
    by (auto simp: SQL_FUNC_EXISTS_set)
qed simp

text \<open>The bitmap that \<^verbatim>\<open>SQLGetFunctions(SQL_API_ODBC3_ALL_FUNCTIONS)\<close> fills has
  exactly the bits of the supported functions.\<close>

theorem GetFunctions30_exact:
  assumes "function_id < 4000"
  shows "SQL_FUNC_EXISTS GetFunctions30 function_id \<longleftrightarrow>
    function_id \<in> set BASE_SUPPORTED_FUNCTIONS \<union> set ODBC3_EXTRA_SUPPORTED_FUNCTIONS"
proof -
  let ?zero = "replicate 250 (0 :: nat)"
  have "list_all (\<lambda>g. drop_bit 4 g < length ?zero) BASE_SUPPORTED_FUNCTIONS"
    "list_all (\<lambda>g. drop_bit 4 g < length ?zero) ODBC3_EXTRA_SUPPORTED_FUNCTIONS"
    by (simp_all add: BASE_SUPPORTED_FUNCTIONS_def ODBC3_EXTRA_SUPPORTED_FUNCTIONS_def drop_bit_eq_div)
  moreover have "\<not> SQL_FUNC_EXISTS ?zero function_id"
    using assms by (simp add: SQL_FUNC_EXISTS_bit drop_bit_eq_div div_less_iff_less_mult)
  ultimately show ?thesis
    unfolding GetFunctions30_def
    using SQL_FUNC_EXISTS_fold [of ?zero BASE_SUPPORTED_FUNCTIONS function_id]
      SQL_FUNC_EXISTS_fold [of "fold SetFunctionSupported BASE_SUPPORTED_FUNCTIONS ?zero"
        ODBC3_EXTRA_SUPPORTED_FUNCTIONS function_id]
    by auto
qed

theorem GetFunctions30_exact_witness:
  "SQL_FUNC_EXISTS GetFunctions30 SQL_API_SQLFETCH \<longleftrightarrow>
    SQL_API_SQLFETCH \<in> set BASE_SUPPORTED_FUNCTIONS \<union> set ODBC3_EXTRA_SUPPORTED_FUNCTIONS"
  by (rule GetFunctions30_exact) simp

lemma takeWhile_dropWhile_distinct:
  assumes "distinct (map f xs)"
  shows "takeWhile (\<lambda>x. f x = k) (dropWhile (\<lambda>x. f x \<noteq> k) xs) = filter (\<lambda>x. f x = k) xs"
  using assms
proof (induction xs)
  case (Cons x xs)
  have "filter (\<lambda>y. f y = f x) xs = []" using Cons.prems by (auto simp: filter_empty_conv image_iff)
  moreover have "takeWhile (\<lambda>y. f y = f x) xs = []" using Cons.prems by (cases xs) auto
  ultimately show ?case using Cons by auto
qed simp

text \<open>C33: \<^verbatim>\<open>FindDataType\<close> returns every entry of the type table with the requested type,
  although it stops at the first entry of another type.\<close>

theorem FindDataType_complete:
  "FindDataType data_type = filter (\<lambda>t. ti_data_type t = data_type) ODBC_SUPPORTED_SQL_TYPES"
  unfolding FindDataType_def
  by (rule takeWhile_dropWhile_distinct) (simp add: ODBC_SUPPORTED_SQL_TYPES_def type_info_def)

lemma nat_to_string_length: "n < 10 ^ Suc k \<Longrightarrow> length (nat_to_string n) \<le> Suc k"
proof (induction k arbitrary: n)
  case 0
  then show ?case by (simp add: nat_to_string.simps)
next
  case (Suc k)
  then have "n div 10 < 10 ^ Suc k" by (simp add: div_less_iff_less_mult)
  with Suc.IH have "length (nat_to_string (n div 10)) \<le> Suc k" by blast
  then show ?case by (subst nat_to_string.simps) simp
qed

fun integer_range :: "LogicalTypeId \<Rightarrow> (int \<times> int) option" where
  "integer_range TINYINT = Some (- 128, 127)"
| "integer_range SMALLINT = Some (- 32768, 32767)"
| "integer_range INTEGER = Some (- 2147483648, 2147483647)"
| "integer_range BIGINT = Some (- 9223372036854775808, 9223372036854775807)"
| "integer_range UTINYINT = Some (0, 255)"
| "integer_range USMALLINT = Some (0, 65535)"
| "integer_range UINTEGER = Some (0, 4294967295)"
| "integer_range UBIGINT = Some (0, 18446744073709551615)"
| "integer_range HUGEINT = Some (- (2 ^ 127), 2 ^ 127 - 1)"
| "integer_range UHUGEINT = Some (0, 2 ^ 128 - 1)"
| "integer_range _ = None"

lemma to_string_length:
  assumes "- (10 ^ Suc k) < v" "v < 10 ^ Suc k"
  shows "length (to_string v) \<le> Suc k + (if v < 0 then 1 else 0)"
proof (cases "v < 0")
  case True
  then have "nat (- v) < 10 ^ Suc k" using assms by (simp add: nat_less_iff)
  with True show ?thesis using nat_to_string_length [of "nat (- v)" k] by (simp add: to_string_def)
next
  case False
  then have "nat v < 10 ^ Suc k" using assms by (simp add: nat_less_iff)
  with False show ?thesis using nat_to_string_length [of "nat v" k] by (simp add: to_string_def)
qed

text \<open>The display size that the driver reports for an integer column is enough for the
  decimal text of every value of the type, the sign included.\<close>

theorem GetDisplaySize_integers:
  assumes "integer_range (lt_id t) = Some (lo, hi)" "lo \<le> v" "v \<le> hi"
  shows "int (length (to_string v)) \<le> GetDisplaySize t"
proof -
  note len = to_string_length [of 2 v] to_string_length [of 4 v] to_string_length [of 9 v]
    to_string_length [of 18 v] to_string_length [of 19 v] to_string_length [of 38 v]
  show ?thesis
    using assms len
    by (cases "lt_id t") (auto simp: GetDisplaySize_def IsUnsigned_def split: if_splits)
qed

theorem GetDisplaySize_integers_witness:
  "int (length (to_string (- 128))) \<le> GetDisplaySize \<lparr>lt_id = TINYINT, lt_width = 0, lt_scale = 0\<rparr>"
  by (rule GetDisplaySize_integers [where lo = "- 128" and hi = 127]) simp_all

end
