(* ===== verification/Descriptor.thy ===== *)
theory Descriptor
  imports Odbc_Diagnostic Api_Info
begin

text \<open>
  Descriptors: \<^verbatim>\<open>include/descriptor.hpp\<close>, \<^verbatim>\<open>descriptor.cpp\<close>, the descriptor part of
  \<^verbatim>\<open>include/duckdb_odbc.hpp\<close> and \<^verbatim>\<open>odbc_api/descriptor_api.cpp\<close>.

  A descriptor handle is a record with its header, its records, its diagnostic area and what
  the driver knows of its owner: the connection, the statement pointer that marks an
  implementation descriptor, and its own address, since \<^verbatim>\<open>IsIRD\<close> and \<^verbatim>\<open>IsIPD\<close>
  compare addresses. The default constructor of a record leaves most members uninitialised;
  they keep the contents \<open>desc_fresh\<close> of the memory the record is built in, over which the
  theorems quantify. A pointer argument is an address: where the code reads through it the
  model reads the application's memory, and reading through the null pointer is \<open>None\<close>.
\<close>

section \<open>Field identifiers\<close>

abbreviation (input) SQL_DESC_ALLOC_TYPE :: int where "SQL_DESC_ALLOC_TYPE \<equiv> 1099"
abbreviation (input) SQL_DESC_ARRAY_SIZE :: int where "SQL_DESC_ARRAY_SIZE \<equiv> 20"
abbreviation (input) SQL_DESC_ARRAY_STATUS_PTR :: int where "SQL_DESC_ARRAY_STATUS_PTR \<equiv> 21"
abbreviation (input) SQL_DESC_AUTO_UNIQUE_VALUE :: int where "SQL_DESC_AUTO_UNIQUE_VALUE \<equiv> 11"
abbreviation (input) SQL_DESC_BASE_COLUMN_NAME :: int where "SQL_DESC_BASE_COLUMN_NAME \<equiv> 22"
abbreviation (input) SQL_DESC_BASE_TABLE_NAME :: int where "SQL_DESC_BASE_TABLE_NAME \<equiv> 23"
abbreviation (input) SQL_DESC_BIND_OFFSET_PTR :: int where "SQL_DESC_BIND_OFFSET_PTR \<equiv> 24"
abbreviation (input) SQL_DESC_BIND_TYPE :: int where "SQL_DESC_BIND_TYPE \<equiv> 25"
abbreviation (input) SQL_DESC_CASE_SENSITIVE :: int where "SQL_DESC_CASE_SENSITIVE \<equiv> 12"
abbreviation (input) SQL_DESC_CATALOG_NAME :: int where "SQL_DESC_CATALOG_NAME \<equiv> 17"
abbreviation (input) SQL_DESC_CONCISE_TYPE :: int where "SQL_DESC_CONCISE_TYPE \<equiv> 2"
abbreviation (input) SQL_DESC_COUNT :: int where "SQL_DESC_COUNT \<equiv> 1001"
abbreviation (input) SQL_DESC_DATA_PTR :: int where "SQL_DESC_DATA_PTR \<equiv> 1010"
abbreviation (input) SQL_DESC_DATETIME_INTERVAL_CODE :: int where "SQL_DESC_DATETIME_INTERVAL_CODE \<equiv> 1007"
abbreviation (input) SQL_DESC_DATETIME_INTERVAL_PRECISION :: int where "SQL_DESC_DATETIME_INTERVAL_PRECISION \<equiv> 26"
abbreviation (input) SQL_DESC_DISPLAY_SIZE :: int where "SQL_DESC_DISPLAY_SIZE \<equiv> 6"
abbreviation (input) SQL_DESC_FIXED_PREC_SCALE :: int where "SQL_DESC_FIXED_PREC_SCALE \<equiv> 9"
abbreviation (input) SQL_DESC_INDICATOR_PTR :: int where "SQL_DESC_INDICATOR_PTR \<equiv> 1009"
abbreviation (input) SQL_DESC_LABEL :: int where "SQL_DESC_LABEL \<equiv> 18"
abbreviation (input) SQL_DESC_LENGTH :: int where "SQL_DESC_LENGTH \<equiv> 1003"
abbreviation (input) SQL_DESC_LITERAL_PREFIX :: int where "SQL_DESC_LITERAL_PREFIX \<equiv> 27"
abbreviation (input) SQL_DESC_LITERAL_SUFFIX :: int where "SQL_DESC_LITERAL_SUFFIX \<equiv> 28"
abbreviation (input) SQL_DESC_LOCAL_TYPE_NAME :: int where "SQL_DESC_LOCAL_TYPE_NAME \<equiv> 29"
abbreviation (input) SQL_DESC_NAME :: int where "SQL_DESC_NAME \<equiv> 1011"
abbreviation (input) SQL_DESC_NULLABLE :: int where "SQL_DESC_NULLABLE \<equiv> 1008"
abbreviation (input) SQL_DESC_NUM_PREC_RADIX :: int where "SQL_DESC_NUM_PREC_RADIX \<equiv> 32"
abbreviation (input) SQL_DESC_OCTET_LENGTH :: int where "SQL_DESC_OCTET_LENGTH \<equiv> 1013"
abbreviation (input) SQL_DESC_OCTET_LENGTH_PTR :: int where "SQL_DESC_OCTET_LENGTH_PTR \<equiv> 1004"
abbreviation (input) SQL_DESC_PARAMETER_TYPE :: int where "SQL_DESC_PARAMETER_TYPE \<equiv> 33"
abbreviation (input) SQL_DESC_PRECISION :: int where "SQL_DESC_PRECISION \<equiv> 1005"
abbreviation (input) SQL_DESC_ROWS_PROCESSED_PTR :: int where "SQL_DESC_ROWS_PROCESSED_PTR \<equiv> 34"
abbreviation (input) SQL_DESC_ROWVER :: int where "SQL_DESC_ROWVER \<equiv> 35"
abbreviation (input) SQL_DESC_SCALE :: int where "SQL_DESC_SCALE \<equiv> 1006"
abbreviation (input) SQL_DESC_SCHEMA_NAME :: int where "SQL_DESC_SCHEMA_NAME \<equiv> 16"
abbreviation (input) SQL_DESC_SEARCHABLE :: int where "SQL_DESC_SEARCHABLE \<equiv> 13"
abbreviation (input) SQL_DESC_TABLE_NAME :: int where "SQL_DESC_TABLE_NAME \<equiv> 15"
abbreviation (input) SQL_DESC_TYPE :: int where "SQL_DESC_TYPE \<equiv> 1002"
abbreviation (input) SQL_DESC_TYPE_NAME :: int where "SQL_DESC_TYPE_NAME \<equiv> 14"
abbreviation (input) SQL_DESC_UNNAMED :: int where "SQL_DESC_UNNAMED \<equiv> 1012"
abbreviation (input) SQL_DESC_UNSIGNED :: int where "SQL_DESC_UNSIGNED \<equiv> 8"
abbreviation (input) SQL_DESC_UPDATABLE :: int where "SQL_DESC_UPDATABLE \<equiv> 10"

abbreviation (input) SQL_DESC_ALLOC_AUTO :: int where "SQL_DESC_ALLOC_AUTO \<equiv> 1"
abbreviation (input) SQL_DESC_ALLOC_USER :: int where "SQL_DESC_ALLOC_USER \<equiv> 2"
abbreviation (input) SQL_BIND_TYPE_DEFAULT :: int where "SQL_BIND_TYPE_DEFAULT \<equiv> 0"

definition IsNumericDescriptorField :: "SQLSMALLINT \<Rightarrow> bool" where
  "IsNumericDescriptorField f \<longleftrightarrow> f \<in> {SQL_DESC_ALLOC_TYPE, SQL_DESC_ARRAY_SIZE, SQL_DESC_BIND_TYPE,
     SQL_DESC_COUNT, SQL_DESC_AUTO_UNIQUE_VALUE, SQL_DESC_CASE_SENSITIVE, SQL_DESC_CONCISE_TYPE,
     SQL_DESC_DATETIME_INTERVAL_CODE, SQL_DESC_DATETIME_INTERVAL_PRECISION, SQL_DESC_DISPLAY_SIZE,
     SQL_DESC_FIXED_PREC_SCALE, SQL_DESC_LENGTH, SQL_DESC_NULLABLE, SQL_DESC_NUM_PREC_RADIX,
     SQL_DESC_OCTET_LENGTH, SQL_DESC_PARAMETER_TYPE, SQL_DESC_PRECISION, SQL_DESC_ROWVER,
     SQL_DESC_SCALE, SQL_DESC_SEARCHABLE, SQL_DESC_TYPE, SQL_DESC_UNNAMED, SQL_DESC_UNSIGNED,
     SQL_DESC_UPDATABLE}"

section \<open>Records and headers\<close>

record DescRecord =
  sql_desc_auto_unique_value :: SQLSMALLINT
  sql_desc_base_column_name :: string
  sql_desc_base_table_name :: string
  sql_desc_case_sensitive :: SQLINTEGER
  sql_desc_catalog_name :: string
  sql_desc_concise_type :: SQLSMALLINT
  sql_desc_data_ptr :: addr
  sql_desc_datetime_interval_code :: SQLSMALLINT
  sql_desc_datetime_interval_precision :: SQLINTEGER
  sql_desc_display_size :: SQLINTEGER
  sql_desc_fixed_prec_scale :: SQLSMALLINT
  sql_desc_indicator_ptr :: addr
  sql_desc_label :: string
  sql_desc_length :: SQLULEN
  sql_desc_literal_prefix :: string
  sql_desc_literal_suffix :: string
  sql_desc_local_type_name :: string
  sql_desc_name :: string
  sql_desc_nullable :: SQLSMALLINT
  sql_desc_num_prec_radix :: SQLINTEGER
  sql_desc_octet_length :: SQLLEN
  sql_desc_octet_length_ptr :: addr
  sql_desc_parameter_type :: SQLSMALLINT
  sql_desc_precision :: SQLSMALLINT
  sql_desc_rowver :: SQLSMALLINT
  sql_desc_scale :: SQLSMALLINT
  sql_desc_schema_name :: string
  sql_desc_searchable :: SQLSMALLINT
  sql_desc_table_name :: string
  sql_desc_type :: SQLSMALLINT
  sql_desc_type_name :: string
  sql_desc_unnamed :: SQLSMALLINT
  sql_desc_unsigned :: SQLSMALLINT
  sql_desc_updatable :: SQLSMALLINT

definition make_DescRecord :: "DescRecord \<Rightarrow> DescRecord" where
  "make_DescRecord u = u\<lparr>sql_desc_auto_unique_value := SQL_FALSE, sql_desc_base_column_name := [], sql_desc_base_table_name := [],
     sql_desc_case_sensitive := SQL_FALSE, sql_desc_catalog_name := [], sql_desc_label := [],
     sql_desc_literal_prefix := [], sql_desc_literal_suffix := [], sql_desc_local_type_name := [],
     sql_desc_name := [], sql_desc_nullable := 2, sql_desc_octet_length := 0,
     sql_desc_schema_name := [], sql_desc_table_name := [], sql_desc_type_name := [],
     sql_desc_updatable := 0\<rparr>"

record DescHeader =
  sql_desc_alloc_type :: SQLSMALLINT
  sql_desc_array_size :: SQLULEN
  sql_desc_array_status_ptr :: addr
  sql_desc_bind_offset_ptr :: addr
  sql_desc_bind_type :: SQLINTEGER
  sql_desc_count :: SQLSMALLINT
  sql_desc_rows_processed_ptr :: addr

definition DescHeader_Reset :: "DescHeader \<Rightarrow> DescHeader" where
  "DescHeader_Reset h = h\<lparr>sql_desc_array_size := 1, sql_desc_array_status_ptr := nullptr,
     sql_desc_count := 0, sql_desc_rows_processed_ptr := nullptr\<rparr>"

text \<open>The constructor of the header, with the allocation type that the descriptor's constructor
  assigns.\<close>

definition make_DescHeader :: "SQLSMALLINT \<Rightarrow> DescHeader" where
  "make_DescHeader alloc_type =
     DescHeader_Reset \<lparr>sql_desc_alloc_type = alloc_type, sql_desc_array_size = 1,
       sql_desc_array_status_ptr = nullptr, sql_desc_bind_offset_ptr = nullptr,
       sql_desc_bind_type = SQL_BIND_TYPE_DEFAULT, sql_desc_count = 0,
       sql_desc_rows_processed_ptr = nullptr\<rparr>"

definition SetSqlDataType :: "DescRecord \<Rightarrow> SQLSMALLINT \<Rightarrow> SQLRETURN \<times> DescRecord" where
  "SetSqlDataType r type =
     (let r = r\<lparr>sql_desc_type := type, sql_desc_concise_type := type\<rparr> in
      if IsIntervalType type then
        let r = r\<lparr>sql_desc_type := SQL_INTERVAL, sql_desc_concise_type := type\<rparr>;
            interval_code = GetIntervalCode type
        in if interval_code = SQL_ERROR then (SQL_ERROR, r)
           else (SQL_SUCCESS, r\<lparr>sql_desc_datetime_interval_code := interval_code\<rparr>)
      else (SQL_SUCCESS, r))"

definition SetSqlDescType :: "DescRecord \<Rightarrow> SQLSMALLINT \<Rightarrow> SQLRETURN \<times> DescRecord" where
  "SetSqlDescType r type =
     (case FindDataType type of
        [] \<Rightarrow> (SQL_ERROR, r)
      | t # _ \<Rightarrow>
          let r = snd (SetSqlDataType r (to_int16 (ti_sql_data_type t)))
          in (SQL_SUCCESS, r\<lparr>
            sql_desc_datetime_interval_code := to_int16 (ti_sql_datetime_sub t),
            sql_desc_precision := to_int16 (ti_column_size t),
            sql_desc_datetime_interval_precision := ti_interval_precision t,
            sql_desc_length := to_uint64 (ti_column_size t),
            sql_desc_literal_prefix := ti_literal_prefix t,
            sql_desc_literal_suffix := ti_literal_suffix t,
            sql_desc_local_type_name := (if ti_local_type_name t = ''NULL'' then [] else ti_local_type_name t),
            sql_desc_nullable := to_int16 (ti_nullable t),
            sql_desc_case_sensitive := ti_case_sensitive t,
            sql_desc_scale := to_int16 (ti_minimum_scale t),
            sql_desc_searchable := to_int16 (ti_searchable t),
            sql_desc_fixed_prec_scale := to_int16 (ti_fixed_prec_scale t),
            sql_desc_num_prec_radix := (if ti_num_prec_radix t = - 1 then 0 else ti_num_prec_radix t),
            sql_desc_unsigned := to_int16 (ti_unsigned_attribute t)\<rparr>))"

text \<open>The comparison of \<^verbatim>\<open>LogicalTypeId\<close> values selects the identifiers from
  \<^verbatim>\<open>UTINYINT\<close> to \<^verbatim>\<open>UBIGINT\<close>, which DuckDB numbers 28 to 31.\<close>

definition SetDescUnsignedField :: "DescRecord \<Rightarrow> LogicalType \<Rightarrow> DescRecord" where
  "SetDescUnsignedField r type =
     (if sql_desc_unsigned r = - 1 \<or> lt_id type \<in> {UTINYINT, USMALLINT, UINTEGER, UBIGINT}
      then r\<lparr>sql_desc_unsigned := SQL_TRUE\<rparr> else r)"

section \<open>Descriptor handles\<close>

text \<open>The addresses of descriptors: the four implicit ones of a statement, and the explicitly
  allocated ones.\<close>

datatype desc_ptr = ArdOf nat | IrdOf nat | ApdOf nat | IpdOf nat | ExplicitDesc nat

record OdbcHandleDesc =
  desc_diag :: OdbcDiagnostic
  desc_header :: DescHeader
  desc_records :: "DescRecord list"
  desc_dbc :: nat
  desc_stmt :: "nat option"
  desc_self :: desc_ptr
  desc_fresh :: DescRecord

definition make_OdbcHandleDesc :: "desc_ptr \<Rightarrow> DescRecord \<Rightarrow> nat \<Rightarrow> nat option \<Rightarrow> bool \<Rightarrow> OdbcHandleDesc" where
  "make_OdbcHandleDesc self fresh dbc_ptr stmt_ptr explicit_desc =
     \<lparr>desc_diag = make_OdbcDiagnostic,
      desc_header = make_DescHeader (if explicit_desc then SQL_DESC_ALLOC_USER else SQL_DESC_ALLOC_AUTO),
      desc_records = [], desc_dbc = dbc_ptr, desc_stmt = stmt_ptr, desc_self = self, desc_fresh = fresh\<rparr>"

definition IsID :: "OdbcHandleDesc \<Rightarrow> bool" where "IsID d \<longleftrightarrow> desc_stmt d \<noteq> None"
definition IsAD :: "OdbcHandleDesc \<Rightarrow> bool" where "IsAD d \<longleftrightarrow> desc_stmt d = None"
definition IsIRD :: "OdbcHandleDesc \<Rightarrow> bool" where
  "IsIRD d = (case desc_stmt d of None \<Rightarrow> False | Some s \<Rightarrow> desc_self d = IrdOf s)"
definition IsIPD :: "OdbcHandleDesc \<Rightarrow> bool" where
  "IsIPD d = (case desc_stmt d of None \<Rightarrow> False | Some s \<Rightarrow> desc_self d = IpdOf s)"

definition desc_post ::
  "OdbcHandleDesc \<Rightarrow> SQLRETURN \<Rightarrow> string \<Rightarrow> string \<Rightarrow> SQLStateType \<Rightarrow> string \<Rightarrow> SQLRETURN \<times> OdbcHandleDesc" where
  "desc_post d ret caller msg st server =
     (let (ret, dg) = SetDiagnosticRecord (desc_diag d) ret caller msg st server in (ret, d\<lparr>desc_diag := dg\<rparr>))"

definition ReturnInvalidFieldIdentifier :: "string \<Rightarrow> OdbcHandleDesc \<Rightarrow> bool \<Rightarrow> SQLRETURN \<times> OdbcHandleDesc" where
  "ReturnInvalidFieldIdentifier dsn d is_readonly =
     desc_post d SQL_ERROR ''SQLSetDescField''
       (''Invalid descriptor field identifier'' @ (if is_readonly then '' (read-only field)'' else []))
       ST_HY092 dsn"

text \<open>\<^verbatim>\<open>GetDescRecord\<close> grows the vector so that the record exists. Growing copies the existing records with the copy
  constructor, which leaves out \<^verbatim>\<open>sql_desc_auto_unique_value\<close>; since that field is \<^verbatim>\<open>SQL_FALSE\<close> in every record and never set,
  the records are kept here.\<close>

definition GetDescRecord :: "OdbcHandleDesc \<Rightarrow> nat \<Rightarrow> DescRecord \<times> OdbcHandleDesc" where
  "GetDescRecord d param_idx =
     (let d = (if param_idx \<ge> length (desc_records d) then
                 let rs = resize (param_idx + 1) (make_DescRecord (desc_fresh d)) (desc_records d)
                 in d\<lparr>desc_records := rs,
                      desc_header := (desc_header d)\<lparr>sql_desc_count := to_int16 (int (length rs))\<rparr>\<rparr>
               else d)
      in (desc_records d ! param_idx, d))"

definition SetDescRecord :: "OdbcHandleDesc \<Rightarrow> nat \<Rightarrow> DescRecord \<Rightarrow> OdbcHandleDesc" where
  "SetDescRecord d i r = d\<lparr>desc_records := (desc_records d)[i := r]\<rparr>"

definition desc_Reset :: "OdbcHandleDesc \<Rightarrow> OdbcHandleDesc" where
  "desc_Reset d = d\<lparr>desc_records := []\<rparr>"

definition desc_Clear :: "OdbcHandleDesc \<Rightarrow> OdbcHandleDesc" where
  "desc_Clear d = desc_Reset d"

text \<open>\<^verbatim>\<open>resize\<close> takes the number as \<^verbatim>\<open>size_t\<close>; its callers pass positive ones.\<close>

definition AddMoreRecords :: "OdbcHandleDesc \<Rightarrow> SQLSMALLINT \<Rightarrow> OdbcHandleDesc" where
  "AddMoreRecords d new_size =
     d\<lparr>desc_records := resize (nat (to_uint64 new_size)) (make_DescRecord (desc_fresh d)) (desc_records d),
       desc_header := (desc_header d)\<lparr>sql_desc_count := new_size\<rparr>\<rparr>"

text \<open>The copy constructor of a record leaves out \<^verbatim>\<open>sql_desc_auto_unique_value\<close>, which gets its
  default.\<close>

definition copy_DescRecord :: "DescRecord \<Rightarrow> DescRecord" where
  "copy_DescRecord other = other\<lparr>sql_desc_auto_unique_value := SQL_FALSE\<rparr>"

text \<open>The whole header is assigned, and the records of the source are appended.\<close>

definition CopyOnlyOdbcFields :: "OdbcHandleDesc \<Rightarrow> OdbcHandleDesc \<Rightarrow> OdbcHandleDesc" where
  "CopyOnlyOdbcFields d other =
     d\<lparr>desc_header := desc_header other, desc_records := desc_records d @ map copy_DescRecord (desc_records other)\<rparr>"

section \<open>SQLSetDescField\<close>

text \<open>\<^verbatim>\<open>*(T *)value_ptr\<close>: an unsigned or a signed integer of the given width.\<close>

definition load_uint :: "nat \<Rightarrow> memory \<Rightarrow> addr \<Rightarrow> int option" where
  "load_uint w m p = (if p = nullptr then None else Some (le_uint (read_bytes m p w)))"

definition load_sint :: "nat \<Rightarrow> memory \<Rightarrow> addr \<Rightarrow> int option" where
  "load_sint w m p = (if p = nullptr then None else Some (le_sint (read_bytes m p w)))"

text \<open>The header fields; the outer option is \<open>None\<close> when the identifier is not one of them.
  The test \<^verbatim>\<open>*(SQLULEN *)value_ptr < 0\<close> compares an unsigned number.\<close>

definition SetDescHeaderField ::
  "string \<Rightarrow> memory \<Rightarrow> OdbcHandleDesc \<Rightarrow> SQLSMALLINT \<Rightarrow> addr \<Rightarrow> (SQLRETURN \<times> OdbcHandleDesc) option option" where
  "SetDescHeaderField dsn m d field_identifier value_ptr =
     (let h = desc_header d;
          invalid = Some (ReturnInvalidFieldIdentifier dsn d False) in
      if field_identifier = SQL_DESC_ALLOC_TYPE then Some (Some (ReturnInvalidFieldIdentifier dsn d True))
      else if field_identifier = SQL_DESC_ARRAY_SIZE then Some
        (if IsID d then invalid
         else case load_uint 8 m value_ptr of
           None \<Rightarrow> None
         | Some sz \<Rightarrow> Some
             (if sz \<le> 0 then desc_post d SQL_ERROR ''SQLSetDescField'' ''Invalid attribute/option identifier.'' ST_HY092 dsn
              else (SQL_SUCCESS, d\<lparr>desc_header := h\<lparr>sql_desc_array_size := sz\<rparr>\<rparr>)))
      else if field_identifier = SQL_DESC_ARRAY_STATUS_PTR then
        Some (Some (SQL_SUCCESS, d\<lparr>desc_header := h\<lparr>sql_desc_array_status_ptr := value_ptr\<rparr>\<rparr>))
      else if field_identifier = SQL_DESC_BIND_OFFSET_PTR then Some
        (if IsID d then invalid
         else Some (SQL_SUCCESS, d\<lparr>desc_header := h\<lparr>sql_desc_bind_offset_ptr := value_ptr\<rparr>\<rparr>))
      else if field_identifier = SQL_DESC_BIND_TYPE then Some
        (if IsID d then invalid
         else map_option (\<lambda>v. (SQL_SUCCESS, d\<lparr>desc_header := h\<lparr>sql_desc_bind_type := v\<rparr>\<rparr>)) (load_sint 4 m value_ptr))
      else if field_identifier = SQL_DESC_COUNT then Some
        (if IsIRD d then invalid
         else map_option (\<lambda>v. (SQL_SUCCESS, d\<lparr>desc_header := h\<lparr>sql_desc_count := v\<rparr>\<rparr>)) (load_sint 2 m value_ptr))
      else if field_identifier = SQL_DESC_ROWS_PROCESSED_PTR then Some
        (if IsAD d then invalid
         else case load_uint 8 m value_ptr of
           None \<Rightarrow> None
         | Some v \<Rightarrow> Some
             (if v < 0 then desc_post d SQL_ERROR ''SQLSetDescField'' ''Invalid descriptor index.'' ST_07009 dsn
              else (SQL_SUCCESS, d\<lparr>desc_header := h\<lparr>sql_desc_rows_processed_ptr := value_ptr\<rparr>\<rparr>)))
      else None)"

text \<open>The statements that the cases of the type and of the interval code share.\<close>

definition SetTypeField :: "string \<Rightarrow> OdbcHandleDesc \<Rightarrow> nat \<Rightarrow> SQLSMALLINT \<Rightarrow> SQLRETURN \<times> OdbcHandleDesc" where
  "SetTypeField dsn d rec_idx type =
     (let (ret, r') = SetSqlDescType (desc_records d ! rec_idx) type; d' = SetDescRecord d rec_idx r' in
      if ret \<noteq> SQL_SUCCESS then
        desc_post d' SQL_ERROR ''SQLSetDescField'' ''Inconsistent descriptor information.'' ST_HY021 dsn
      else (SQL_SUCCESS, d'))"

text \<open>The record fields, for the record that \<^verbatim>\<open>GetDescRecord\<close> returned.\<close>

definition SetDescRecordField ::
  "string \<Rightarrow> memory \<Rightarrow> OdbcHandleDesc \<Rightarrow> nat \<Rightarrow> SQLSMALLINT \<Rightarrow> addr \<Rightarrow> string option \<Rightarrow> SQLINTEGER
    \<Rightarrow> (SQLRETURN \<times> OdbcHandleDesc) option" where
  "SetDescRecordField dsn m d rec_idx field_identifier value_ptr value_str buffer_length =
     (let r = desc_records d ! rec_idx;
          put = (\<lambda>r'. (SQL_SUCCESS, SetDescRecord d rec_idx r'));
          readonly = Some (ReturnInvalidFieldIdentifier dsn d True) in
      if field_identifier \<in> {SQL_DESC_AUTO_UNIQUE_VALUE, SQL_DESC_BASE_COLUMN_NAME, SQL_DESC_BASE_TABLE_NAME,
          SQL_DESC_CASE_SENSITIVE, SQL_DESC_CATALOG_NAME, SQL_DESC_DISPLAY_SIZE, SQL_DESC_FIXED_PREC_SCALE,
          SQL_DESC_LABEL, SQL_DESC_LITERAL_PREFIX, SQL_DESC_LITERAL_SUFFIX, SQL_DESC_LOCAL_TYPE_NAME,
          SQL_DESC_NULLABLE, SQL_DESC_ROWVER, SQL_DESC_SCHEMA_NAME, SQL_DESC_SEARCHABLE, SQL_DESC_TABLE_NAME,
          SQL_DESC_TYPE_NAME, SQL_DESC_UNSIGNED, SQL_DESC_UPDATABLE} then readonly
      else if field_identifier = SQL_DESC_CONCISE_TYPE then
        (if IsIRD d then readonly
         else map_option (\<lambda>v. put (r\<lparr>sql_desc_concise_type := v\<rparr>)) (load_sint 2 m value_ptr))
      else if field_identifier = SQL_DESC_DATA_PTR then
        (if IsID d then readonly else Some (put (r\<lparr>sql_desc_data_ptr := value_ptr\<rparr>)))
      else if field_identifier = SQL_DESC_DATETIME_INTERVAL_CODE then
        (if IsIRD d then readonly else Some (SetTypeField dsn d rec_idx (sql_desc_type r)))
      else if field_identifier = SQL_DESC_DATETIME_INTERVAL_PRECISION then
        (if IsIRD d then readonly
         else map_option (\<lambda>v. put (r\<lparr>sql_desc_datetime_interval_precision := v\<rparr>)) (load_sint 4 m value_ptr))
      else if field_identifier = SQL_DESC_INDICATOR_PTR then
        (if IsID d then readonly else Some (put (r\<lparr>sql_desc_indicator_ptr := value_ptr\<rparr>)))
      else if field_identifier = SQL_DESC_LENGTH then
        (if IsIRD d then readonly
         else map_option (\<lambda>v. put (r\<lparr>sql_desc_length := v\<rparr>)) (load_uint 8 m value_ptr))
      else if field_identifier = SQL_DESC_NAME then
        (if \<not> IsIPD d then readonly
         else map_option (\<lambda>s. put (r\<lparr>sql_desc_name := s\<rparr>)) (ConvertSQLCHARToString value_str buffer_length))
      else if field_identifier = SQL_DESC_NUM_PREC_RADIX then
        (if IsIRD d then readonly
         else map_option (\<lambda>v. put (r\<lparr>sql_desc_num_prec_radix := v\<rparr>)) (load_sint 4 m value_ptr))
      else if field_identifier = SQL_DESC_OCTET_LENGTH then
        (if IsIRD d then readonly
         else map_option (\<lambda>v. put (r\<lparr>sql_desc_octet_length := v\<rparr>)) (load_sint 8 m value_ptr))
      else if field_identifier = SQL_DESC_OCTET_LENGTH_PTR then
        (if IsID d then readonly else Some (put (r\<lparr>sql_desc_octet_length_ptr := value_ptr\<rparr>)))
      else if field_identifier = SQL_DESC_PARAMETER_TYPE then
        (if \<not> IsIPD d then readonly
         else map_option (\<lambda>v. put (r\<lparr>sql_desc_parameter_type := v\<rparr>)) (load_sint 2 m value_ptr))
      else if field_identifier = SQL_DESC_PRECISION then
        (if IsIRD d then readonly
         else map_option (\<lambda>v. put (r\<lparr>sql_desc_precision := v\<rparr>)) (load_sint 2 m value_ptr))
      else if field_identifier = SQL_DESC_SCALE then
        (if IsIRD d then readonly
         else map_option (\<lambda>v. put (r\<lparr>sql_desc_scale := v\<rparr>)) (load_sint 2 m value_ptr))
      else if field_identifier = SQL_DESC_TYPE then
        (if IsIRD d then readonly
         else map_option (SetTypeField dsn d rec_idx) (load_sint 2 m value_ptr))
      else if field_identifier = SQL_DESC_UNNAMED then
        (if \<not> IsIPD d then readonly
         else map_option (\<lambda>v. put (r\<lparr>sql_desc_unnamed := v\<rparr>)) (load_sint 2 m value_ptr))
      else Some (ReturnInvalidFieldIdentifier dsn d False))"

definition SetDescField ::
  "string \<Rightarrow> memory \<Rightarrow> OdbcHandleDesc \<Rightarrow> SQLSMALLINT \<Rightarrow> SQLSMALLINT \<Rightarrow> addr \<Rightarrow> string option \<Rightarrow> SQLINTEGER
    \<Rightarrow> (SQLRETURN \<times> OdbcHandleDesc) option" where
  "SetDescField dsn m d rec_number field_identifier value_ptr value_str buffer_length =
     (case SetDescHeaderField dsn m d field_identifier value_ptr of
        Some r \<Rightarrow> r
      | None \<Rightarrow>
          if rec_number \<le> 0 then
            Some (desc_post d SQL_ERROR ''SQLSetDescField'' ''Invalid descriptor index.'' ST_07009 dsn)
          else
            let rec_idx = nat (rec_number - 1); d' = snd (GetDescRecord d rec_idx)
            in SetDescRecordField dsn m d' rec_idx field_identifier value_ptr value_str buffer_length)"

section \<open>SQLGetDescField\<close>

text \<open>\<^verbatim>\<open>WriteStringDesc\<close>; the width of the length cell is the template argument.\<close>

definition WriteStringDesc ::
  "bool \<Rightarrow> nat \<Rightarrow> string \<Rightarrow> OdbcHandleDesc \<Rightarrow> string \<Rightarrow> memory \<Rightarrow> addr \<Rightarrow> int \<Rightarrow> addr
    \<Rightarrow> (SQLRETURN \<times> OdbcHandleDesc \<times> memory) option" where
  "WriteStringDesc wide len_size caller_name d str m character_attribute_ptr buffer_length string_length =
     (case WriteStringWith (char_writer wide) len_size str m character_attribute_ptr buffer_length string_length of
        None \<Rightarrow> None
      | Some (oc, m') \<Rightarrow>
          let (ret, d') = (case oc of
              WBadLength \<Rightarrow> desc_post d SQL_ERROR caller_name ''Invalid string or buffer length'' ST_HY090 []
            | WTruncated \<Rightarrow> desc_post d SQL_SUCCESS_WITH_INFO caller_name ''String data, right truncated'' ST_01004 []
            | WStored \<Rightarrow> (SQL_SUCCESS, d))
          in Some (ret, d', m'))"

text \<open>What a record field of \<^verbatim>\<open>SQLGetDescField\<close> is: an integer of a width, a string, the
  data pointer (whose value is assigned to the local parameter and so not delivered), or
  nothing.\<close>

datatype field_value = FInt nat int | FStr string | FLost | FNone

fun IsFNone :: "field_value \<Rightarrow> bool" where
  "IsFNone FNone = True"
| "IsFNone _ = False"

text \<open>The guard of each case and the value it delivers: the fields in the order of the
  \<^verbatim>\<open>switch\<close>, from the column name on in \<open>GetDescRecordFieldRest\<close>.\<close>

definition GetDescRecordFieldRest :: "OdbcHandleDesc \<Rightarrow> DescRecord \<Rightarrow> SQLSMALLINT \<Rightarrow> bool \<times> field_value" where
  "GetDescRecordFieldRest d r f =
     (if f = SQL_DESC_NAME then (\<not> IsAD d, FStr (sql_desc_name r))
      else if f = SQL_DESC_NULLABLE then (IsAD d, FInt 2 (sql_desc_nullable r))
      else if f = SQL_DESC_NUM_PREC_RADIX then (True, FInt 4 (sql_desc_num_prec_radix r))
      else if f = SQL_DESC_OCTET_LENGTH then (True, FInt 8 (sql_desc_octet_length r))
      else if f = SQL_DESC_OCTET_LENGTH_PTR then (\<not> IsID d, FInt 8 (int (sql_desc_octet_length_ptr r)))
      else if f = SQL_DESC_PARAMETER_TYPE then (IsIPD d, FInt 2 (sql_desc_parameter_type r))
      else if f = SQL_DESC_PRECISION then (True, FInt 2 (sql_desc_precision r))
      else if f = SQL_DESC_ROWVER then (IsAD d, FInt 2 (sql_desc_rowver r))
      else if f = SQL_DESC_SCALE then (True, FInt 2 (sql_desc_scale r))
      else if f = SQL_DESC_SCHEMA_NAME then (IsIRD d, FStr (sql_desc_schema_name r))
      else if f = SQL_DESC_SEARCHABLE then (IsIRD d, FInt 2 (sql_desc_searchable r))
      else if f = SQL_DESC_TABLE_NAME then (IsIRD d, FStr (sql_desc_table_name r))
      else if f = SQL_DESC_TYPE then (True, FInt 2 (sql_desc_type r))
      else if f = SQL_DESC_TYPE_NAME then (\<not> IsAD d, FStr (sql_desc_type_name r))
      else if f = SQL_DESC_UNNAMED then (IsAD d, FInt 2 (sql_desc_unnamed r))
      else if f = SQL_DESC_UNSIGNED then (IsAD d, FInt 2 (sql_desc_unsigned r))
      else if f = SQL_DESC_UPDATABLE then (IsIRD d, FInt 2 (sql_desc_updatable r))
      else (False, FNone))"

definition GetDescRecordField :: "OdbcHandleDesc \<Rightarrow> DescRecord \<Rightarrow> SQLSMALLINT \<Rightarrow> bool \<times> field_value" where
  "GetDescRecordField d r f =
     (if f = SQL_DESC_AUTO_UNIQUE_VALUE then (IsIRD d, FInt 4 SQL_FALSE)
      else if f = SQL_DESC_BASE_COLUMN_NAME then (IsIRD d, FStr (sql_desc_base_column_name r))
      else if f = SQL_DESC_BASE_TABLE_NAME then (IsIRD d, FStr (sql_desc_base_table_name r))
      else if f = SQL_DESC_CASE_SENSITIVE then (IsIRD d, FInt 4 (sql_desc_case_sensitive r))
      else if f = SQL_DESC_CATALOG_NAME then (IsIRD d, FStr (sql_desc_catalog_name r))
      else if f = SQL_DESC_CONCISE_TYPE then (True, FInt 2 (sql_desc_concise_type r))
      else if f = SQL_DESC_DATA_PTR then (\<not> IsID d, FLost)
      else if f = SQL_DESC_DATETIME_INTERVAL_CODE then (True, FInt 2 (sql_desc_datetime_interval_code r))
      else if f = SQL_DESC_DATETIME_INTERVAL_PRECISION then (True, FInt 4 (sql_desc_datetime_interval_precision r))
      else if f = SQL_DESC_DISPLAY_SIZE then (IsIRD d, FInt 8 (sql_desc_display_size r))
      else if f = SQL_DESC_FIXED_PREC_SCALE then (IsIRD d, FInt 2 (sql_desc_fixed_prec_scale r))
      else if f = SQL_DESC_INDICATOR_PTR then (\<not> IsID d, FInt 8 (int (sql_desc_indicator_ptr r)))
      else if f = SQL_DESC_LABEL then (IsIRD d, FStr (sql_desc_label r))
      else if f = SQL_DESC_LENGTH then (True, FInt 8 (sql_desc_length r))
      else if f = SQL_DESC_LITERAL_PREFIX then (IsIRD d, FStr (sql_desc_literal_prefix r))
      else if f = SQL_DESC_LITERAL_SUFFIX then (IsIRD d, FStr (sql_desc_literal_suffix r))
      else if f = SQL_DESC_LOCAL_TYPE_NAME then (\<not> IsAD d, FStr (sql_desc_local_type_name r))
      else GetDescRecordFieldRest d r f)"

definition GetDescHeaderField :: "OdbcHandleDesc \<Rightarrow> SQLSMALLINT \<Rightarrow> bool \<times> field_value" where
  "GetDescHeaderField d f =
     (let h = desc_header d in
      if f = SQL_DESC_ALLOC_TYPE then (True, FInt 2 (sql_desc_alloc_type h))
      else if f = SQL_DESC_ARRAY_SIZE then (\<not> IsID d, FInt 8 (sql_desc_array_size h))
      else if f = SQL_DESC_ARRAY_STATUS_PTR then (True, FInt 8 (int (sql_desc_array_status_ptr h)))
      else if f = SQL_DESC_BIND_OFFSET_PTR then (\<not> IsID d, FInt 8 (int (sql_desc_bind_offset_ptr h)))
      else if f = SQL_DESC_BIND_TYPE then (\<not> IsID d, FInt 4 (sql_desc_bind_type h))
      else if f = SQL_DESC_COUNT then (True, FInt 2 (sql_desc_count h))
      else if f = SQL_DESC_ROWS_PROCESSED_PTR then (\<not> IsAD d, FInt 8 (int (sql_desc_rows_processed_ptr h)))
      else (False, FNone))"

definition deliver_field ::
  "bool \<Rightarrow> string \<Rightarrow> OdbcHandleDesc \<Rightarrow> memory \<Rightarrow> addr \<Rightarrow> SQLINTEGER \<Rightarrow> addr \<Rightarrow> bool \<times> field_value
    \<Rightarrow> (SQLRETURN \<times> OdbcHandleDesc \<times> memory) option" where
  "deliver_field wide dsn d m value_ptr buffer_length string_length_ptr gv =
     (let (allowed, v) = gv in
      if \<not> allowed then (let (ret, d') = ReturnInvalidFieldIdentifier dsn d False in Some (ret, d', m))
      else case v of
        FInt w i \<Rightarrow> map_option (\<lambda>m'. (SQL_SUCCESS, d, m')) (Store w m i value_ptr)
      | FStr s \<Rightarrow> WriteStringDesc wide 4 ''SQLGetDescField'' d s m value_ptr buffer_length string_length_ptr
      | FLost \<Rightarrow> Some (SQL_SUCCESS, d, m)
      | FNone \<Rightarrow> Some (SQL_SUCCESS, d, m))"

definition GetDescFieldInternal ::
  "bool \<Rightarrow> string \<Rightarrow> OdbcHandleDesc \<Rightarrow> SQLSMALLINT \<Rightarrow> SQLSMALLINT \<Rightarrow> memory \<Rightarrow> addr \<Rightarrow> SQLINTEGER \<Rightarrow> addr
    \<Rightarrow> (SQLRETURN \<times> OdbcHandleDesc \<times> memory) option" where
  "GetDescFieldInternal wide dsn d rec_number field_identifier m value_ptr buffer_length string_length_ptr =
     (let say = (\<lambda>msg st. let (ret, d') = desc_post d SQL_ERROR ''SQLGetDescField'' msg st dsn in Some (ret, d', m)) in
      if IsNumericDescriptorField field_identifier \<and> value_ptr = nullptr then
        say ''Invalid null value pointer for descriptor numeric field'' ST_HY009
      else if \<not> IsFNone (snd (GetDescHeaderField d field_identifier)) then
        deliver_field wide dsn d m value_ptr buffer_length string_length_ptr (GetDescHeaderField d field_identifier)
      else if rec_number \<le> 0 \<or> rec_number > to_int16 (int (length (desc_records d))) then
        say ''Invalid descriptor index'' ST_07009
      else case at (desc_records d) (nat (rec_number - 1)) of
        None \<Rightarrow> None
      | Some r \<Rightarrow> deliver_field wide dsn d m value_ptr buffer_length string_length_ptr
                    (GetDescRecordField d r field_identifier))"

definition SQLGetDescFieldW ::
  "string \<Rightarrow> OdbcHandleDesc \<Rightarrow> SQLSMALLINT \<Rightarrow> SQLSMALLINT \<Rightarrow> memory \<Rightarrow> addr \<Rightarrow> SQLINTEGER \<Rightarrow> addr
    \<Rightarrow> (SQLRETURN \<times> OdbcHandleDesc \<times> memory) option" where
  "SQLGetDescFieldW dsn d rec_number field_identifier m value_ptr buffer_length string_length_ptr =
     map_option (\<lambda>(ret, d', m'). (ret, d',
        if SQL_SUCCEEDED ret \<and> string_length_ptr \<noteq> nullptr
        then store_int 4 m' string_length_ptr (2 * le_sint (read_bytes m' string_length_ptr 4)) else m'))
       (GetDescFieldInternal True dsn d rec_number field_identifier m value_ptr buffer_length string_length_ptr)"

section \<open>SQLGetDescRec, SQLSetDescRec and SQLCopyDesc\<close>

text \<open>\<open>prepared\<close> is \<^verbatim>\<open>desc->stmt->IsPrepared()\<close>.\<close>

definition GetDescRecInternal ::
  "bool \<Rightarrow> bool \<Rightarrow> OdbcHandleDesc \<Rightarrow> SQLSMALLINT \<Rightarrow> memory \<Rightarrow> addr \<Rightarrow> SQLSMALLINT \<Rightarrow> addr \<Rightarrow> addr \<Rightarrow> addr \<Rightarrow> addr
    \<Rightarrow> addr \<Rightarrow> addr \<Rightarrow> addr \<Rightarrow> (SQLRETURN \<times> OdbcHandleDesc \<times> memory) option" where
  "GetDescRecInternal wide prepared d rec_number m name buffer_length string_length_ptr type_ptr sub_type_ptr
      length_ptr precision_ptr scale_ptr nullable_ptr =
     (if rec_number < 1 then Some (SQL_ERROR, d, m)
      else if rec_number > sql_desc_count (desc_header d) then Some (SQL_NO_DATA, d, m)
      else if IsIRD d \<and> prepared then Some (SQL_NO_DATA, d, m)
      else
        let (r, d) = GetDescRecord d (nat (rec_number - 1)); sql_type = sql_desc_type r in
        case WriteStringDesc wide 2 ''SQLGetDescField'' d (sql_desc_name r) m name buffer_length string_length_ptr of
          None \<Rightarrow> None
        | Some (ret, d, m) \<Rightarrow>
            let m = store_int 2 m type_ptr sql_type;
                m = (if sql_type = SQL_DATETIME \<or> sql_type = SQL_INTERVAL
                     then store_int 2 m sub_type_ptr (sql_desc_datetime_interval_code r) else m);
                m = store_int 2 m length_ptr (sql_desc_octet_length r);
                m = store_int 2 m precision_ptr (sql_desc_precision r);
                m = store_int 2 m scale_ptr (sql_desc_scale r);
                m = store_int 2 m nullable_ptr (sql_desc_nullable r)
            in Some (ret, d, m))"

text \<open>\<^verbatim>\<open>SQLSetDescRec\<close> passes the addresses of its own parameters. They lie in its stack
  frame, at \<open>frame\<close>: type at 0, sub type at 2, length at 8, precision at 16, scale at 18,
  data pointer at 24, length pointer at 32 and indicator pointer at 40.\<close>

definition and_then ::
  "(SQLRETURN \<times> OdbcHandleDesc) option \<Rightarrow> (OdbcHandleDesc \<Rightarrow> (SQLRETURN \<times> OdbcHandleDesc) option)
    \<Rightarrow> (SQLRETURN \<times> OdbcHandleDesc) option" where
  "and_then x k = (case x of None \<Rightarrow> None
     | Some (ret, d) \<Rightarrow> if \<not> SQL_SUCCEEDED ret then Some (ret, d) else k d)"

definition SQLSetDescRec ::
  "string \<Rightarrow> memory \<Rightarrow> addr \<Rightarrow> OdbcHandleDesc \<Rightarrow> SQLSMALLINT \<Rightarrow> SQLSMALLINT \<Rightarrow> SQLSMALLINT \<Rightarrow> SQLLEN \<Rightarrow> SQLSMALLINT
    \<Rightarrow> SQLSMALLINT \<Rightarrow> addr \<Rightarrow> addr \<Rightarrow> addr \<Rightarrow> (SQLRETURN \<times> OdbcHandleDesc) option" where
  "SQLSetDescRec dsn m frame d rec_number type sub_type len precision scale data_ptr string_length_ptr indicator_ptr =
     (let m = write_bytes m frame (le_bytes 2 type @ le_bytes 2 sub_type @ le_bytes 4 0 @ le_bytes 8 len
            @ le_bytes 2 precision @ le_bytes 2 scale @ le_bytes 4 0 @ le_bytes 8 (int data_ptr)
            @ le_bytes 8 (int string_length_ptr) @ le_bytes 8 (int indicator_ptr));
          set_field = (\<lambda>d f p. SetDescField dsn m d rec_number f p None 0) in
      if IsIRD d then
        Some (desc_post d SQL_ERROR ''SQLSetDescRec'' ''Cannot modify an implementation row descriptor'' ST_HY016 dsn)
      else if rec_number \<le> 0 then
        Some (desc_post d SQL_ERROR ''SQLSetDescRec'' ''Invalid descriptor index'' ST_07009 dsn)
      else
        let d = (if rec_number > sql_desc_count (desc_header d) then AddMoreRecords d rec_number else d) in
        and_then (set_field d SQL_DESC_TYPE frame) (\<lambda>d.
        and_then (if type = SQL_DATETIME \<or> type = SQL_INTERVAL
                  then set_field d SQL_DESC_DATETIME_INTERVAL_CODE (frame + 2) else Some (SQL_SUCCESS, d)) (\<lambda>d.
        and_then (set_field d SQL_DESC_OCTET_LENGTH (frame + 8)) (\<lambda>d.
        and_then (set_field d SQL_DESC_PRECISION (frame + 16)) (\<lambda>d.
        and_then (set_field d SQL_DESC_SCALE (frame + 18)) (\<lambda>d.
        and_then (set_field d SQL_DESC_DATA_PTR (frame + 24)) (\<lambda>d.
        and_then (set_field d SQL_DESC_OCTET_LENGTH_PTR (frame + 32)) (\<lambda>d.
          set_field d SQL_DESC_INDICATOR_PTR (frame + 40)))))))))"

text \<open>\<^verbatim>\<open>SQLCopyDesc\<close> for two descriptors; \<open>stmts\<close> are the statements of the source's
  connection with whether they are prepared. For one connection the pointer variable is
  assigned; \<^verbatim>\<open>CopyFieldByField\<close> is empty.\<close>

fun copy_checks :: "(nat \<times> bool) list \<Rightarrow> desc_ptr \<Rightarrow> desc_ptr \<Rightarrow> bool option" where
  "copy_checks [] source target = None"
| "copy_checks ((s, prepared) # stmts) source target =
     (if target = IrdOf s then Some True
      else if source = IrdOf s \<and> \<not> prepared then Some False
      else copy_checks stmts source target)"

definition SQLCopyDesc ::
  "(nat \<times> bool) list \<Rightarrow> (nat \<Rightarrow> nat) \<Rightarrow> string \<Rightarrow> string \<Rightarrow> OdbcHandleDesc \<Rightarrow> OdbcHandleDesc
    \<Rightarrow> SQLRETURN \<times> OdbcHandleDesc \<times> OdbcHandleDesc" where
  "SQLCopyDesc stmts env_of source_dsn target_dsn source target =
     (case copy_checks stmts (desc_self source) (desc_self target) of
        Some True \<Rightarrow>
          (let (ret, target) = desc_post target SQL_ERROR ''SQLCopyDesc''
                 ''Cannot modify an implementation row descriptor.'' ST_HY016 target_dsn in (ret, source, target))
      | Some False \<Rightarrow>
          (let (ret, source) = desc_post source SQL_ERROR ''SQLCopyDesc''
                 ''Associated statement is not prepared.'' ST_HY007 source_dsn in (ret, source, target))
      | None \<Rightarrow>
          if desc_dbc source = desc_dbc target then (SQL_SUCCESS, source, target)
          else if env_of (desc_dbc source) = env_of (desc_dbc target)
               then (SQL_SUCCESS, source, CopyOnlyOdbcFields target source)
               else (SQL_SUCCESS, source, target))"

section \<open>Properties\<close>

lemma le_sint_le_bytes2: "- 32768 \<le> v \<Longrightarrow> v < 32768 \<Longrightarrow> le_sint (le_bytes 2 v) = v"
  using to_int16_id [of v] take_bit_eq_mod [of 16 v] signed_take_bit_take_bit [of 15 16 v]
  by (simp add: le_sint_def le_uint_le_bytes to_int16_def)

text \<open>Facts about fields that only update the record.\<close>

lemma GetDescRecord_in:
  "i < length (desc_records d) \<Longrightarrow> GetDescRecord d i = (desc_records d ! i, d)"
  by (simp add: GetDescRecord_def)

lemma GetDescRecord_result:
  assumes "GetDescRecord d i = (r, d')"
  shows "i < length (desc_records d')" "r = desc_records d' ! i"
    "take (length (desc_records d)) (desc_records d') = desc_records d"
    "desc_stmt d' = desc_stmt d" "desc_self d' = desc_self d" "desc_dbc d' = desc_dbc d"
    "desc_diag d' = desc_diag d"
  using assms by (auto simp: GetDescRecord_def Let_def resize_def split: if_splits)

lemma role_update [simp]:
  "IsIRD (SetDescRecord d i r) = IsIRD d" "IsID (SetDescRecord d i r) = IsID d"
  "IsAD (SetDescRecord d i r) = IsAD d" "IsIPD (SetDescRecord d i r) = IsIPD d"
  "IsIRD (AddMoreRecords d n) = IsIRD d" "IsID (AddMoreRecords d n) = IsID d"
  by (simp_all add: SetDescRecord_def AddMoreRecords_def IsIRD_def IsID_def IsAD_def IsIPD_def
      split: option.split)

lemma SetDescRecord_simps [simp]:
  "length (desc_records (SetDescRecord d i r)) = length (desc_records d)"
  "i < length (desc_records d) \<Longrightarrow> desc_records (SetDescRecord d i r) ! i = r"
  "j \<noteq> i \<Longrightarrow> desc_records (SetDescRecord d i r) ! j = desc_records d ! j"
  by (simp_all add: SetDescRecord_def)

lemma desc_post_simps:
  "desc_post d ret c msg st sv = (ret', d') \<Longrightarrow> ret' = ret \<and> desc_records d' = desc_records d
     \<and> desc_header d' = desc_header d \<and> desc_stmt d' = desc_stmt d \<and> desc_self d' = desc_self d"
  by (auto simp: desc_post_def SetDiagnosticRecord_def Let_def)

lemma SetSqlDescType_error: "SetSqlDescType r t = (ret, r') \<Longrightarrow> ret \<noteq> SQL_SUCCESS \<Longrightarrow> ret = SQL_ERROR \<and> r' = r"
  by (auto simp: SetSqlDescType_def Let_def split: list.splits)

lemma SetTypeField_cases:
  assumes "SetTypeField dsn d i t = (ret, d')"
  shows "desc_records d' = desc_records d \<or> (ret = SQL_SUCCESS \<and> (\<exists>r. d' = SetDescRecord d i r))"
proof -
  obtain ret' r' where r': "SetSqlDescType (desc_records d ! i) t = (ret', r')" by fastforce
  show ?thesis
  proof (cases "ret' = SQL_SUCCESS")
    case True
    then show ?thesis using assms r' by (auto simp: SetTypeField_def)
  next
    case False
    then have "r' = desc_records d ! i" using SetSqlDescType_error [OF r'] by simp
    then show ?thesis using assms r' False
      by (auto simp: SetTypeField_def SetDescRecord_def dest!: desc_post_simps)
  qed
qed

text \<open>Either all records stay as they are, or the call succeeds and one record is replaced.\<close>

lemma SetDescRecordField_cases:
  assumes "SetDescRecordField dsn m d i f p ps b = Some (ret, d')"
  shows "desc_records d' = desc_records d \<or> (ret = SQL_SUCCESS \<and> (\<exists>r. d' = SetDescRecord d i r))"
  using assms
  by (auto simp: SetDescRecordField_def Let_def ReturnInvalidFieldIdentifier_def
      dest!: desc_post_simps SetTypeField_cases split: if_splits)

lemma SetDescHeaderField_records:
  assumes "SetDescHeaderField dsn m d f p = Some (Some (ret, d'))"
  shows "desc_records d' = desc_records d"
  using assms
  by (auto simp: SetDescHeaderField_def Let_def ReturnInvalidFieldIdentifier_def
      dest!: desc_post_simps split: if_splits option.splits)

text \<open>C36: \<^verbatim>\<open>SQLSetDescField\<close> touches at most the record it is asked to set: every other
  existing record keeps its value, and when the call reports an error all existing records
  do.\<close>

theorem SetDescField_frame:
  assumes "SetDescField dsn m d rec_number field_identifier value_ptr value_str buffer_length = Some (ret, d')"
    and "j < length (desc_records d)" "int j \<noteq> rec_number - 1 \<or> ret \<noteq> SQL_SUCCESS"
  shows "desc_records d' ! j = desc_records d ! j"
proof (cases "SetDescHeaderField dsn m d field_identifier value_ptr")
  case (Some r)
  then show ?thesis using assms(1) SetDescHeaderField_records by (auto simp: SetDescField_def)
next
  case None
  show ?thesis
  proof (cases "rec_number \<le> 0")
    case True
    then show ?thesis using assms(1) None by (auto simp: SetDescField_def dest!: desc_post_simps)
  next
    case False
    define i where "i = nat (rec_number - 1)"
    obtain r d1 where d1: "GetDescRecord d i = (r, d1)" by fastforce
    have same: "desc_records d1 ! j = desc_records d ! j"
      using GetDescRecord_result(3) [OF d1] assms(2) by (metis nth_take)
    have "SetDescRecordField dsn m d1 i field_identifier value_ptr value_str buffer_length = Some (ret, d')"
      using assms(1) None False d1 by (simp add: SetDescField_def Let_def i_def)
    then have "desc_records d' = desc_records d1 \<or> (ret = SQL_SUCCESS \<and> (\<exists>r. d' = SetDescRecord d1 i r))"
      by (rule SetDescRecordField_cases)
    moreover have "j \<noteq> i" if "ret = SQL_SUCCESS" using assms(3) that False by (auto simp: i_def)
    ultimately show ?thesis using same by auto
  qed
qed

definition sample_record :: DescRecord where
  "sample_record = \<lparr>sql_desc_auto_unique_value = 0, sql_desc_base_column_name = [], sql_desc_base_table_name = [],
     sql_desc_case_sensitive = 0, sql_desc_catalog_name = [], sql_desc_concise_type = 0, sql_desc_data_ptr = 0,
     sql_desc_datetime_interval_code = 0, sql_desc_datetime_interval_precision = 0, sql_desc_display_size = 0,
     sql_desc_fixed_prec_scale = 0, sql_desc_indicator_ptr = 0, sql_desc_label = [], sql_desc_length = 0,
     sql_desc_literal_prefix = [], sql_desc_literal_suffix = [], sql_desc_local_type_name = [], sql_desc_name = [],
     sql_desc_nullable = 0, sql_desc_num_prec_radix = 0, sql_desc_octet_length = 0, sql_desc_octet_length_ptr = 0,
     sql_desc_parameter_type = 0, sql_desc_precision = 0, sql_desc_rowver = 0, sql_desc_scale = 0,
     sql_desc_schema_name = [], sql_desc_searchable = 0, sql_desc_table_name = [], sql_desc_type = 0,
     sql_desc_type_name = [], sql_desc_unnamed = 0, sql_desc_unsigned = 0, sql_desc_updatable = 0\<rparr>"

definition sample_desc :: OdbcHandleDesc where
  "sample_desc = (make_OdbcHandleDesc (ArdOf 0) sample_record 0 None False)\<lparr>desc_records := [sample_record, sample_record]\<rparr>"

theorem SetDescField_frame_witness:
  "\<exists>d'. SetDescField [] (\<lambda>_. CHR 0x05) sample_desc 2 SQL_DESC_SCALE 100 None 0 = Some (SQL_SUCCESS, d')
    \<and> desc_records d' ! 0 = desc_records sample_desc ! 0"
proof -
  obtain d' where "SetDescField [] (\<lambda>_. CHR 0x05) sample_desc 2 SQL_DESC_SCALE 100 None 0 = Some (SQL_SUCCESS, d')"
    by (simp add: SetDescField_def SetDescHeaderField_def SetDescRecordField_def GetDescRecord_def
        sample_desc_def make_OdbcHandleDesc_def IsIRD_def load_sint_def)
  moreover from this have "desc_records d' ! 0 = desc_records sample_desc ! 0"
    by (rule SetDescField_frame) (simp_all add: sample_desc_def)
  ultimately show ?thesis by blast
qed

lemma le_bytes_mod: "le_bytes n (v mod 256 ^ n) = le_bytes n v"
proof (induction n arbitrary: v)
  case 0
  show ?case by simp
next
  case (Suc n)
  have "v mod 256 ^ Suc n mod 256 = v mod 256" by (simp add: mod_mod_cancel)
  moreover have "v mod 256 ^ Suc n div 256 = v div 256 mod 256 ^ n"
    by (simp add: zmod_zmult2_eq)
  ultimately show ?case using Suc by (simp add: power_Suc del: power_Suc_le_self)
qed

lemma le_bytes_le_uint: "length bs = n \<Longrightarrow> le_bytes n (le_uint bs) = bs"
proof (induction bs arbitrary: n)
  case (Cons b bs)
  have "of_char b + 256 * le_uint bs = 256 * le_uint bs + int (of_char b)" by (simp add: of_nat_of_char)
  moreover have "(of_char b :: nat) < 256" by simp
  ultimately have "(of_char b + 256 * le_uint bs) mod 256 = int (of_char b)"
    "(of_char b + 256 * le_uint bs) div 256 = le_uint bs" by simp_all
  then show ?case using Cons by auto
qed simp

lemma le_uint_range: "0 \<le> le_uint bs" 
proof (induction bs)
  case (Cons b bs)
  have "(of_char b :: int) = int (of_char b)" by (simp add: of_nat_of_char)
  then show ?case using Cons by simp
qed simp

lemma le_bytes_le_sint: "length bs = n \<Longrightarrow> le_bytes n (le_sint bs) = bs"
proof -
  assume n: "length bs = n"
  show ?thesis
  proof (cases n)
    case 0
    then show ?thesis using n by simp
  next
    case (Suc k)
    then have *: "Suc (8 * n - 1) = 8 * n" by simp
    have "le_sint bs mod 256 ^ n = le_uint bs mod 256 ^ n"
      using signed_take_bit_eq_take_bit_minus
        take_bit_signed_take_bit [of "8 * n" "8 * n - 1" "le_uint bs"] * n
      by (simp add: le_sint_def take_bit_eq_mod power_mult)
    then show ?thesis
      using le_bytes_mod [of n "le_sint bs"] le_bytes_mod [of n "le_uint bs"] le_bytes_le_uint [OF n] by simp
  qed
qed

lemma store_read_back:
  "a \<noteq> nullptr \<Longrightarrow> Store w m v a = Some (write_bytes m a (le_bytes w v))"
  "read_bytes (write_bytes m a (le_bytes w v)) a w = le_bytes w v"
  using read_write_same [of m a "le_bytes w v"] by (simp_all add: Store_def)

text \<open>The fields of the header, and those of a record that hold text or a pointer or are not stored as they are given:
  \<^verbatim>\<open>SQL_DESC_TYPE\<close> stores the verbose type that belongs to the given one, \<^verbatim>\<open>SQL_DESC_DATETIME_INTERVAL_CODE\<close> does not
  look at the value, and \<^verbatim>\<open>SQL_DESC_UNNAMED\<close> can be set on an implementation descriptor only and read on an application
  descriptor only.\<close>

definition header_fields :: "SQLSMALLINT set" where
  "header_fields = {SQL_DESC_ALLOC_TYPE, SQL_DESC_ARRAY_SIZE, SQL_DESC_ARRAY_STATUS_PTR, SQL_DESC_BIND_OFFSET_PTR,
     SQL_DESC_BIND_TYPE, SQL_DESC_COUNT, SQL_DESC_ROWS_PROCESSED_PTR}"

definition special_fields :: "SQLSMALLINT set" where
  "special_fields = {SQL_DESC_NAME, SQL_DESC_DATA_PTR, SQL_DESC_INDICATOR_PTR, SQL_DESC_OCTET_LENGTH_PTR,
     SQL_DESC_TYPE, SQL_DESC_DATETIME_INTERVAL_CODE, SQL_DESC_UNNAMED}"

text \<open>The other fields that can be set on a descriptor, with the number of bytes of their value.\<close>

definition settable_field :: "OdbcHandleDesc \<Rightarrow> SQLSMALLINT \<Rightarrow> nat option" where
  "settable_field d f =
     (if IsIRD d then None
      else if f \<in> {SQL_DESC_CONCISE_TYPE, SQL_DESC_PRECISION, SQL_DESC_SCALE} then Some 2
      else if f \<in> {SQL_DESC_DATETIME_INTERVAL_PRECISION, SQL_DESC_NUM_PREC_RADIX} then Some 4
      else if f \<in> {SQL_DESC_LENGTH, SQL_DESC_OCTET_LENGTH} then Some 8
      else if f = SQL_DESC_PARAMETER_TYPE \<and> IsIPD d then Some 2 else None)"

lemma settable_fields:
  assumes "settable_field d f = Some w"
  shows "\<not> IsIRD d" "f \<in> {SQL_DESC_CONCISE_TYPE, SQL_DESC_DATETIME_INTERVAL_PRECISION, SQL_DESC_LENGTH,
    SQL_DESC_NUM_PREC_RADIX, SQL_DESC_OCTET_LENGTH, SQL_DESC_PRECISION, SQL_DESC_SCALE} \<or> f = SQL_DESC_PARAMETER_TYPE \<and> IsIPD d"
  using assms by (auto simp: settable_field_def split: if_splits)

lemma not_header_field:
  assumes "f \<notin> header_fields"
  shows "SetDescHeaderField dsn m d f p = None" "GetDescHeaderField d f = (False, FNone)"
  using assms by (simp_all add: header_fields_def SetDescHeaderField_def GetDescHeaderField_def Let_def)

lemma set_then_get_record_field:
  assumes "settable_field d f = Some w" "i < length (desc_records d)" "p \<noteq> nullptr"
  shows "\<exists>r v. SetDescRecordField dsn m d i f p ps b = Some (SQL_SUCCESS, SetDescRecord d i r)
    \<and> GetDescRecordField (SetDescRecord d i r) r f = (True, FInt w v) \<and> le_bytes w v = read_bytes m p w"
  using assms(1) settable_fields [OF assms(1)] assms(2,3)
  by (auto simp: settable_field_def SetDescRecordField_def GetDescRecordField_def GetDescRecordFieldRest_def
      load_uint_def load_sint_def Let_def le_bytes_le_uint le_bytes_le_sint)

lemma unsettable_record_field:
  assumes "settable_field d f = None" "f \<notin> special_fields"
  shows "\<exists>d'. SetDescRecordField dsn m d i f p ps b = Some (SQL_ERROR, d')"
proof -
  have invalid: "\<exists>d'. Some (ReturnInvalidFieldIdentifier dsn d b) = Some (SQL_ERROR, d')" for b
    by (simp add: ReturnInvalidFieldIdentifier_def desc_post_def SetDiagnosticRecord_def Let_def)
  have "IsIRD d \<Longrightarrow> \<not> IsIPD d" by (auto simp: IsIRD_def IsIPD_def split: option.splits)
  then show ?thesis
    using assms invalid
    by (auto simp: settable_field_def special_fields_def SetDescRecordField_def Let_def split: if_splits)
qed

lemma GetDescRecord_kind:
  assumes "GetDescRecord d i = (r, d')"
  shows "settable_field d' = settable_field d"
proof -
  have "IsIRD d' = IsIRD d" "IsIPD d' = IsIPD d" using GetDescRecord_result(4,5) [OF assms] by (simp_all add: IsIRD_def IsIPD_def cong: option.case_cong)
  then show ?thesis by (intro ext) (simp only: settable_field_def)
qed

text \<open>C30: what the application sets it gets back. Of the fields of a record that are neither pointers nor text nor
  \<^verbatim>\<open>SQL_DESC_TYPE\<close>, \<^verbatim>\<open>SQL_DESC_DATETIME_INTERVAL_CODE\<close> or \<^verbatim>\<open>SQL_DESC_UNNAMED\<close>, exactly eight can be
  set: \<^verbatim>\<open>CONCISE_TYPE\<close>, \<^verbatim>\<open>PRECISION\<close>, \<^verbatim>\<open>SCALE\<close>, \<^verbatim>\<open>DATETIME_INTERVAL_PRECISION\<close>, \<^verbatim>\<open>NUM_PREC_RADIX\<close>,
  \<^verbatim>\<open>LENGTH\<close> and \<^verbatim>\<open>OCTET_LENGTH\<close> on every descriptor but the implementation row descriptor, and \<^verbatim>\<open>PARAMETER_TYPE\<close> on one that
  \<^verbatim>\<open>IsIPD\<close> recognises (in the states that the driver reaches it recognises none, see \<open>Handle_Lifecycle\<close>). For these \<^verbatim>\<open>SQLSetDescField\<close> succeeds and \<^verbatim>\<open>SQLGetDescField\<close> then stores the very bytes
  that were given; for every other one, also for numbers that are no field, \<^verbatim>\<open>SQLSetDescField\<close> reports an error.\<close>

theorem descriptor_field_round_trip:
  assumes "f \<notin> header_fields" "f \<notin> special_fields" "length (desc_records d) \<le> 32767"
    and "1 \<le> rec_number" "rec_number \<le> 32767" "value_ptr \<noteq> nullptr" "target_ptr \<noteq> nullptr"
  shows "case settable_field d f of
      Some w \<Rightarrow> \<exists>d' m'. SetDescField dsn m d rec_number f value_ptr value_str b = Some (SQL_SUCCESS, d')
        \<and> GetDescFieldInternal wide dsn d' rec_number f m target_ptr b' lp = Some (SQL_SUCCESS, d', m')
        \<and> read_bytes m' target_ptr w = read_bytes m value_ptr w
    | None \<Rightarrow> \<exists>d'. SetDescField dsn m d rec_number f value_ptr value_str b = Some (SQL_ERROR, d')"
proof -
  define i where "i = nat (rec_number - 1)"
  obtain r0 d1 where d1: "GetDescRecord d i = (r0, d1)" by fastforce
  have set: "SetDescField dsn m d rec_number f value_ptr value_str b = SetDescRecordField dsn m d1 i f value_ptr value_str b"
    using d1 assms(4) not_header_field [OF assms(1)] by (simp add: SetDescField_def i_def)
  show ?thesis
  proof (cases "settable_field d f")
    case None
    then show ?thesis using unsettable_record_field [of d1 f] assms(2) set GetDescRecord_kind [OF d1] by simp
  next
    case (Some w)
    have i: "i < length (desc_records d1)" using GetDescRecord_result [OF d1] by simp
    have len: "length (desc_records d1) \<le> 32767"
      using d1 assms(3-5) by (auto simp: GetDescRecord_def Let_def i_def split: if_splits)
    obtain r v where r: "SetDescRecordField dsn m d1 i f value_ptr value_str b = Some (SQL_SUCCESS, SetDescRecord d1 i r)"
      "GetDescRecordField (SetDescRecord d1 i r) r f = (True, FInt w v)" "le_bytes w v = read_bytes m value_ptr w"
      using set_then_get_record_field [of d1, OF _ i assms(6)] Some GetDescRecord_kind [OF d1] by metis
    have "GetDescFieldInternal wide dsn (SetDescRecord d1 i r) rec_number f m target_ptr b' lp
        = Some (SQL_SUCCESS, SetDescRecord d1 i r, write_bytes m target_ptr (le_bytes w v))"
      using r i len assms(4,5,7) not_header_field [OF assms(1)]
      by (simp add: GetDescFieldInternal_def deliver_field_def Let_def to_int16_id store_read_back i_def [symmetric])
        (use i_def in linarith)
    then show ?thesis using r(1,3) store_read_back(2) [of m target_ptr w v] Some set by simp
  qed
qed

theorem descriptor_field_round_trip_witness:
  "\<exists>d' m'. SetDescField [] (\<lambda>x. CHR 0x05) sample_desc 2 SQL_DESC_LENGTH 100 None 0 = Some (SQL_SUCCESS, d')
    \<and> GetDescFieldInternal True [] d' 2 SQL_DESC_LENGTH (\<lambda>x. CHR 0x05) 500 0 0 = Some (SQL_SUCCESS, d', m')
    \<and> read_bytes m' 500 8 = read_bytes (\<lambda>x. CHR 0x05) 100 8"
  using descriptor_field_round_trip [of SQL_DESC_LENGTH sample_desc 2 100 500 "[]" "\<lambda>x. CHR 0x05" None 0 True 0 0]
  by (simp add: header_fields_def special_fields_def settable_field_def sample_desc_def make_OdbcHandleDesc_def IsIRD_def)

lemma and_then_Some:
  assumes "and_then x k = Some (SQL_SUCCESS, d')"
  obtains ret d1 where "x = Some (ret, d1)" "k d1 = Some (SQL_SUCCESS, d')"
  using assms by (auto simp: and_then_def split: option.splits if_splits)

lemma SetTypeField_stmt: "SetTypeField dsn d i t = (ret, d') \<Longrightarrow> desc_stmt d' = desc_stmt d"
  by (auto simp: SetTypeField_def SetDescRecord_def Let_def dest!: desc_post_simps
      split: if_splits prod.splits)

lemma SetDescField_stmt:
  assumes "SetDescField dsn m d i f p ps b = Some (ret, d')"
  shows "desc_stmt d' = desc_stmt d"
proof (cases "SetDescHeaderField dsn m d f p")
  case (Some r)
  then show ?thesis using assms
    by (auto simp: SetDescField_def SetDescHeaderField_def Let_def ReturnInvalidFieldIdentifier_def
      dest!: desc_post_simps split: if_splits option.splits)
next
  case None
  obtain r d1 where d1: "GetDescRecord d (nat (i - 1)) = (r, d1)" by fastforce
  show ?thesis
    using assms None GetDescRecord_result(4) [OF d1] d1
    by (auto simp: SetDescField_def SetDescRecordField_def SetDescRecord_def Let_def
        ReturnInvalidFieldIdentifier_def dest!: desc_post_simps SetTypeField_stmt split: if_splits)
qed

lemma set_pointer_field:
  assumes "IsAD d" "1 \<le> rec_number" "i = nat (rec_number - 1)"
  shows "SetDescField dsn m d rec_number SQL_DESC_DATA_PTR p ps b = Some (SQL_SUCCESS,
      SetDescRecord (snd (GetDescRecord d i)) i ((fst (GetDescRecord d i))\<lparr>sql_desc_data_ptr := p\<rparr>))"
    "SetDescField dsn m d rec_number SQL_DESC_OCTET_LENGTH_PTR p ps b = Some (SQL_SUCCESS,
      SetDescRecord (snd (GetDescRecord d i)) i ((fst (GetDescRecord d i))\<lparr>sql_desc_octet_length_ptr := p\<rparr>))"
    "SetDescField dsn m d rec_number SQL_DESC_INDICATOR_PTR p ps b = Some (SQL_SUCCESS,
      SetDescRecord (snd (GetDescRecord d i)) i ((fst (GetDescRecord d i))\<lparr>sql_desc_indicator_ptr := p\<rparr>))"
proof -
  obtain r d1 where d1: "GetDescRecord d i = (r, d1)" by fastforce
  then have "\<not> IsID d1" "r = desc_records d1 ! i"
    using assms(1) GetDescRecord_result [OF d1] by (simp_all add: IsID_def IsAD_def)
  then show "SetDescField dsn m d rec_number SQL_DESC_DATA_PTR p ps b = Some (SQL_SUCCESS,
      SetDescRecord (snd (GetDescRecord d i)) i ((fst (GetDescRecord d i))\<lparr>sql_desc_data_ptr := p\<rparr>))"
    "SetDescField dsn m d rec_number SQL_DESC_OCTET_LENGTH_PTR p ps b = Some (SQL_SUCCESS,
      SetDescRecord (snd (GetDescRecord d i)) i ((fst (GetDescRecord d i))\<lparr>sql_desc_octet_length_ptr := p\<rparr>))"
    "SetDescField dsn m d rec_number SQL_DESC_INDICATOR_PTR p ps b = Some (SQL_SUCCESS,
      SetDescRecord (snd (GetDescRecord d i)) i ((fst (GetDescRecord d i))\<lparr>sql_desc_indicator_ptr := p\<rparr>))"
    using d1 assms(2,3)
    by (simp_all add: SetDescField_def SetDescHeaderField_def SetDescRecordField_def Let_def)
qed

lemma three_pointers:
  assumes "IsAD d" "1 \<le> rec_number"
    and "SetDescField dsn m d rec_number SQL_DESC_DATA_PTR p None 0 = Some (ret1, d1)"
    and "SetDescField dsn m d1 rec_number SQL_DESC_OCTET_LENGTH_PTR q None 0 = Some (ret2, d2)"
    and "SetDescField dsn m d2 rec_number SQL_DESC_INDICATOR_PTR s None 0 = Some (ret3, d3)"
  shows "sql_desc_data_ptr (desc_records d3 ! nat (rec_number - 1)) = p
    \<and> sql_desc_octet_length_ptr (desc_records d3 ! nat (rec_number - 1)) = q
    \<and> sql_desc_indicator_ptr (desc_records d3 ! nat (rec_number - 1)) = s"
proof -
  let ?i = "nat (rec_number - 1)"
  obtain e r where e: "GetDescRecord d ?i = (r, e)" by fastforce
  have i: "?i < length (desc_records e)" using GetDescRecord_result(1) [OF e] .
  have ad: "IsAD d1" "IsAD d2"
    using assms SetDescField_stmt by (simp_all add: IsAD_def)
  have d1: "d1 = SetDescRecord e ?i (r\<lparr>sql_desc_data_ptr := p\<rparr>)"
    using set_pointer_field(1) [OF assms(1,2) refl] assms(3) e by simp
  then have "GetDescRecord d1 ?i = (r\<lparr>sql_desc_data_ptr := p\<rparr>, d1)"
    using i by (simp add: GetDescRecord_in)
  then have d2: "d2 = SetDescRecord d1 ?i (r\<lparr>sql_desc_data_ptr := p, sql_desc_octet_length_ptr := q\<rparr>)"
    using set_pointer_field(2) [OF ad(1) assms(2) refl] assms(4) by simp
  then have "GetDescRecord d2 ?i = (r\<lparr>sql_desc_data_ptr := p, sql_desc_octet_length_ptr := q\<rparr>, d2)"
    using i d1 by (simp add: GetDescRecord_in)
  then show ?thesis
    using set_pointer_field(3) [OF ad(2) assms(2) refl] assms(5) i d1 d2 by auto
qed

text \<open>\<^verbatim>\<open>SQLSetDescRec\<close> binds the wrong buffers. When it succeeds on an application
  descriptor, the record holds the addresses of
  the function's own parameters as data, length and indicator pointers, not the pointers the
  application passed.\<close>

theorem SQLSetDescRec_stores_frame_addresses:
  assumes "SQLSetDescRec dsn m frame d rec_number type sub_type len precision scale data_ptr string_length_ptr
      indicator_ptr = Some (SQL_SUCCESS, d')"
    and "IsAD d"
  shows "sql_desc_data_ptr (desc_records d' ! nat (rec_number - 1)) = frame + 24
    \<and> sql_desc_octet_length_ptr (desc_records d' ! nat (rec_number - 1)) = frame + 32
    \<and> sql_desc_indicator_ptr (desc_records d' ! nat (rec_number - 1)) = frame + 40"
proof -
  define m' where "m' = write_bytes m frame (le_bytes 2 type @ le_bytes 2 sub_type @ le_bytes 4 0 @ le_bytes 8 len
            @ le_bytes 2 precision @ le_bytes 2 scale @ le_bytes 4 0 @ le_bytes 8 (int data_ptr)
            @ le_bytes 8 (int string_length_ptr) @ le_bytes 8 (int indicator_ptr))"
  define set_field where "set_field = (\<lambda>d f p. SetDescField dsn m' d rec_number f p None 0)"
  define d0 where "d0 = (if rec_number > sql_desc_count (desc_header d) then AddMoreRecords d rec_number else d)"
  have pos: "1 \<le> rec_number"
    using assms(1) by (auto simp: SQLSetDescRec_def Let_def desc_post_def SetDiagnosticRecord_def split: if_splits)
  have keep: "desc_stmt e' = desc_stmt e" if "set_field e f p = Some (ret, e')" for e f p ret e'
    using SetDescField_stmt that by (simp add: set_field_def)
  have "\<not> IsIRD d" using assms(2) by (simp add: IsAD_def IsIRD_def)
  then have "and_then (set_field d0 SQL_DESC_TYPE frame) (\<lambda>d.
        and_then (if type = SQL_DATETIME \<or> type = SQL_INTERVAL
                  then set_field d SQL_DESC_DATETIME_INTERVAL_CODE (frame + 2) else Some (SQL_SUCCESS, d)) (\<lambda>d.
        and_then (set_field d SQL_DESC_OCTET_LENGTH (frame + 8)) (\<lambda>d.
        and_then (set_field d SQL_DESC_PRECISION (frame + 16)) (\<lambda>d.
        and_then (set_field d SQL_DESC_SCALE (frame + 18)) (\<lambda>d.
        and_then (set_field d SQL_DESC_DATA_PTR (frame + 24)) (\<lambda>d.
        and_then (set_field d SQL_DESC_OCTET_LENGTH_PTR (frame + 32)) (\<lambda>d.
          set_field d SQL_DESC_INDICATOR_PTR (frame + 40)))))))) = Some (SQL_SUCCESS, d')"
    using assms(1) pos unfolding SQLSetDescRec_def m'_def [symmetric] set_field_def d0_def by (simp add: Let_def)
  then obtain r1 d1 r2 d2 r3 d3 r4 d4 r5 d5 r6 d6 r7 d7 where
    c: "set_field d0 SQL_DESC_TYPE frame = Some (r1, d1)"
    "(if type = SQL_DATETIME \<or> type = SQL_INTERVAL then set_field d1 SQL_DESC_DATETIME_INTERVAL_CODE (frame + 2)
      else Some (SQL_SUCCESS, d1)) = Some (r2, d2)"
    "set_field d2 SQL_DESC_OCTET_LENGTH (frame + 8) = Some (r3, d3)"
    "set_field d3 SQL_DESC_PRECISION (frame + 16) = Some (r4, d4)"
    "set_field d4 SQL_DESC_SCALE (frame + 18) = Some (r5, d5)"
    and p: "set_field d5 SQL_DESC_DATA_PTR (frame + 24) = Some (r6, d6)"
    "set_field d6 SQL_DESC_OCTET_LENGTH_PTR (frame + 32) = Some (r7, d7)"
    "set_field d7 SQL_DESC_INDICATOR_PTR (frame + 40) = Some (SQL_SUCCESS, d')"
    by (elim and_then_Some) blast
  have "desc_stmt d0 = desc_stmt d" by (simp add: d0_def AddMoreRecords_def)
  then have "IsAD d5"
    using assms(2) keep [OF c(1)] c(2) keep [OF c(3)] keep [OF c(4)] keep [OF c(5)]
    by (auto simp: IsAD_def dest!: keep split: if_splits)
  then show ?thesis using three_pointers pos p unfolding set_field_def by blast
qed

lemma sample_FindDataType: "\<exists>t ts. FindDataType SQL_INTEGER = t # ts"
  by (simp add: FindDataType_def ODBC_SUPPORTED_SQL_TYPES_def type_info_def)

definition sample_memory :: memory where "sample_memory = (\<lambda>_. CHR 0x00)"

lemma first_two_bytes: "[(le_bytes 2 v @ bs) ! 0, (le_bytes 2 v @ bs) ! Suc 0] = le_bytes 2 v"
  by (simp add: numeral_2_eq_2)

lemma sample_SQLSetDescRec:
  "\<exists>d'. SQLSetDescRec [] sample_memory 4096 sample_desc 2 SQL_INTEGER 0 4 10 0 100 200 300 = Some (SQL_SUCCESS, d')"
proof -
  obtain t ts where "FindDataType SQL_INTEGER = t # ts" using sample_FindDataType by blast
  then show ?thesis
  by (simp add: first_two_bytes le_sint_le_bytes2 SQLSetDescRec_def sample_desc_def make_OdbcHandleDesc_def make_DescHeader_def DescHeader_Reset_def IsIRD_def IsID_def
     AddMoreRecords_def SetDescField_def SetDescHeaderField_def SetDescRecordField_def
     GetDescRecord_def SetTypeField_def SetDescRecord_def SetSqlDescType_def Let_def and_then_def to_uint64_def resize_def
     load_sint_def load_uint_def read_bytes_def write_bytes_def upt_rec )
qed

theorem SQLSetDescRec_stores_frame_addresses_witness:
  "\<exists>d'. SQLSetDescRec [] sample_memory 4096 sample_desc 2 SQL_INTEGER 0 4 10 0 100 200 300 = Some (SQL_SUCCESS, d')
    \<and> sql_desc_data_ptr (desc_records d' ! nat (2 - 1)) = 4096 + 24
    \<and> sql_desc_octet_length_ptr (desc_records d' ! nat (2 - 1)) = 4096 + 32
    \<and> sql_desc_indicator_ptr (desc_records d' ! nat (2 - 1)) = 4096 + 40"
proof -
  obtain d' where d': "SQLSetDescRec [] sample_memory 4096 sample_desc 2 SQL_INTEGER 0 4 10 0 100 200 300
      = Some (SQL_SUCCESS, d')" using sample_SQLSetDescRec by blast
  have "IsAD sample_desc" by (simp add: IsAD_def sample_desc_def make_OdbcHandleDesc_def)
  with d' show ?thesis using SQLSetDescRec_stores_frame_addresses [OF d'] by blast
qed

end
