(* ===== verification/Duckdb_Odbc.thy ===== *)
theory Duckdb_Odbc
  imports Descriptor
begin

text \<open>
  The handles of the driver: \<^verbatim>\<open>include/duckdb_odbc.hpp\<close>, \<^verbatim>\<open>common/duckdb_odbc.cpp\<close>,
  the state of \<^verbatim>\<open>include/odbc_fetch.hpp\<close>, \<^verbatim>\<open>row_descriptor.cpp\<close> and the parts of
  \<^verbatim>\<open>parameter_descriptor.cpp\<close> that keep the parameter descriptors.

  All handles live in one store, a record of partial maps from addresses to handles, since
  handles point to each other: a statement to its connection, a connection to its statements,
  a statement to the descriptors it currently uses, which several statements may share.
  Following a pointer to a handle that has been freed is undefined behaviour, the value
  \<open>None\<close>.

  The DuckDB engine is not modelled: a prepared statement is what its interface reports, and a
  query result is the sequence of outcomes that its \<^verbatim>\<open>Fetch\<close> calls produce.
\<close>

section \<open>What the driver sees of the engine\<close>

datatype Value = NullValue LogicalType | IntValue LogicalType int | RealValue LogicalType string
  | TextValue LogicalType string | DecimalValue nat nat int | IntervalValue interval_t
  | EngineValue LogicalType nat

text \<open>A \<^verbatim>\<open>DataChunk\<close> is the list of its rows.\<close>

type_synonym DataChunk = "Value list list"

text \<open>What one call of \<^verbatim>\<open>QueryResult::Fetch\<close> does: return a chunk, return no chunk, set the
  error of the result, or throw an exception.\<close>

datatype fetch_outcome = FetchChunk DataChunk | FetchEnd | FetchFails string | FetchThrows string

record QueryResult =
  qr_error :: "string option"
  qr_types :: "LogicalType list"
  qr_names :: "string list"
  qr_pending :: "fetch_outcome list"

record PreparedStatement =
  ps_error :: "string option"
  ps_types :: "LogicalType list"
  ps_names :: "string list"
  ps_bound_all_parameters :: bool
  ps_named_params :: nat
  ps_row_changes :: bool

text \<open>\<^verbatim>\<open>QueryResult::Fetch\<close> after which \<^verbatim>\<open>HasError\<close> and \<^verbatim>\<open>GetError\<close> are read.\<close>

definition result_Fetch :: "QueryResult \<Rightarrow> fetch_outcome \<times> QueryResult" where
  "result_Fetch res = (case qr_pending res of
      [] \<Rightarrow> (FetchEnd, res)
    | FetchFails e # rest \<Rightarrow> (FetchFails e, res\<lparr>qr_error := Some e, qr_pending := rest\<rparr>)
    | x # rest \<Rightarrow> (x, res\<lparr>qr_pending := rest\<rparr>))"

section \<open>State of a fetch\<close>

abbreviation (input) SQL_CURSOR_FORWARD_ONLY :: SQLULEN where "SQL_CURSOR_FORWARD_ONLY \<equiv> 0"
abbreviation (input) SQL_CURSOR_DYNAMIC :: SQLULEN where "SQL_CURSOR_DYNAMIC \<equiv> 2"
abbreviation (input) SQL_CURSOR_STATIC :: SQLULEN where "SQL_CURSOR_STATIC \<equiv> 3"
abbreviation (input) SQL_NONSCROLLABLE :: SQLULEN where "SQL_NONSCROLLABLE \<equiv> 0"
abbreviation (input) SQL_SCROLLABLE :: SQLULEN where "SQL_SCROLLABLE \<equiv> 1"

text \<open>A chunk has an address, from a counter, so that \<^verbatim>\<open>current_chunk\<close> may be a pointer to a
  chunk that has been destroyed.\<close>

record OdbcFetch =
  cursor_type :: SQLULEN
  cursor_scrollable :: SQLULEN
  row_count :: SQLLEN
  last_col_idx :: int
  last_row_idx :: int
  last_length :: nat
  chunks :: "(nat \<times> DataChunk) list"
  current_chunk_idx :: nat
  current_chunk :: "nat option"
  chunk_row :: int
  prior_chunk_row :: int
  resultset_end :: bool
  next_chunk :: nat

definition ResetLastFetchedVariableVal :: "OdbcFetch \<Rightarrow> OdbcFetch" where
  "ResetLastFetchedVariableVal f = f\<lparr>last_col_idx := - 1, last_row_idx := - 1, last_length := 0\<rparr>"

text \<open>The constructor; the other members keep the contents \<open>u\<close> of the memory.\<close>

definition make_OdbcFetch :: "OdbcFetch \<Rightarrow> OdbcFetch" where
  "make_OdbcFetch u = ResetLastFetchedVariableVal (u\<lparr>cursor_type := SQL_CURSOR_FORWARD_ONLY,
     cursor_scrollable := SQL_NONSCROLLABLE, row_count := 0, chunks := [], resultset_end := False\<rparr>)"

definition ClearChunks :: "OdbcFetch \<Rightarrow> OdbcFetch" where
  "ClearChunks f = f\<lparr>chunks := [], current_chunk := None, chunk_row := - 1, prior_chunk_row := - 1,
     row_count := 0, resultset_end := False\<rparr>"

section \<open>Handles\<close>

record OdbcHandleEnv =
  env_diag :: OdbcDiagnostic
  odbc_version :: SQLINTEGER
  connection_pooling :: SQLUINTEGER
  cp_match :: SQLUINTEGER
  output_nts :: SQLINTEGER

abbreviation (input) SQL_MODE_READ_WRITE :: SQLUINTEGER where "SQL_MODE_READ_WRITE \<equiv> 0"

text \<open>\<open>dbc_conn\<close> tells whether the pointer \<^verbatim>\<open>conn\<close> is set.\<close>

record OdbcHandleDbc =
  dbc_diag :: OdbcDiagnostic
  dbc_env :: nat
  dbc_conn :: bool
  autocommit :: bool
  sql_attr_metadata_id :: SQLUINTEGER
  sql_attr_access_mode :: SQLUINTEGER
  sql_attr_current_catalog :: string
  dbc_dsn :: string
  vec_stmt_ref :: "nat list"

definition make_OdbcHandleEnv :: "OdbcHandleEnv \<Rightarrow> OdbcHandleEnv" where
  "make_OdbcHandleEnv u = u\<lparr>env_diag := make_OdbcDiagnostic\<rparr>"

definition make_OdbcHandleDbc :: "SQLUINTEGER \<Rightarrow> nat \<Rightarrow> OdbcHandleDbc" where
  "make_OdbcHandleDbc metadata_id env_p =
     \<lparr>dbc_diag = make_OdbcDiagnostic, dbc_env = env_p, dbc_conn = False, autocommit = True,
      sql_attr_metadata_id = metadata_id, sql_attr_access_mode = SQL_MODE_READ_WRITE,
      sql_attr_current_catalog = [], dbc_dsn = [], vec_stmt_ref = []\<rparr>"

definition SetDatabaseName :: "OdbcHandleDbc \<Rightarrow> string \<Rightarrow> OdbcHandleDbc" where
  "SetDatabaseName c db_name = (if db_name \<noteq> [] then c\<lparr>sql_attr_current_catalog := db_name\<rparr> else c)"

definition EraseStmtRef :: "OdbcHandleDbc \<Rightarrow> nat \<Rightarrow> OdbcHandleDbc" where
  "EraseStmtRef c stmt = c\<lparr>vec_stmt_ref := remove1 stmt (vec_stmt_ref c)\<rparr>"

record OdbcBoundCol =
  bc_type :: SQLSMALLINT
  bc_ptr :: addr
  bc_len :: SQLLEN
  bc_strlen_or_ind :: addr

abbreviation (input) SQL_UNKNOWN_TYPE :: SQLSMALLINT where "SQL_UNKNOWN_TYPE \<equiv> 0"

definition make_OdbcBoundCol :: OdbcBoundCol where
  "make_OdbcBoundCol = \<lparr>bc_type = SQL_UNKNOWN_TYPE, bc_ptr = nullptr, bc_len = 0, bc_strlen_or_ind = nullptr\<rparr>"

definition IsBound :: "OdbcBoundCol \<Rightarrow> bool" where "IsBound b \<longleftrightarrow> bc_ptr b \<noteq> nullptr"

definition IsVarcharBound :: "OdbcBoundCol \<Rightarrow> bool" where
  "IsVarcharBound b = (if IsCharType (bc_type b) then bc_strlen_or_ind b \<noteq> nullptr else False)"

text \<open>The implicit row descriptors of statement \<open>s\<close> are \<open>ArdOf s\<close> and \<open>IrdOf s\<close>, the parameter
  descriptors \<open>ApdOf s\<close> and \<open>IpdOf s\<close>; the two classes hold the pointers to the current
  application descriptors.\<close>

record RowDescriptor =
  cur_ard :: desc_ptr

record ParameterDescriptor =
  cur_apd :: desc_ptr
  pool_allocated_ptr :: "addr list"
  paramset_idx :: nat
  cur_paramset_idx :: nat
  cur_param_idx :: nat
  pd_values :: "Value list"

record OdbcHandleStmt =
  stmt_diag :: OdbcDiagnostic
  stmt_dbc :: nat
  stmt_stmt :: "PreparedStatement option"
  stmt_res :: "QueryResult option"
  bound_cols :: "OdbcBoundCol list"
  stmt_open :: bool
  retrieve_data :: SQLULEN
  rows_fetched_ptr :: addr
  max_len :: SQLULEN
  odbc_fetcher :: OdbcFetch
  param_desc :: ParameterDescriptor
  row_desc :: RowDescriptor

abbreviation (input) SQL_RD_OFF :: SQLULEN where "SQL_RD_OFF \<equiv> 0"
abbreviation (input) SQL_RD_ON :: SQLULEN where "SQL_RD_ON \<equiv> 1"

text \<open>\<open>u_open\<close> and \<open>u_fetch\<close> are the contents of the members that no constructor sets.\<close>

definition make_OdbcHandleStmt :: "bool \<Rightarrow> OdbcFetch \<Rightarrow> nat \<Rightarrow> nat \<Rightarrow> OdbcHandleStmt" where
  "make_OdbcHandleStmt u_open u_fetch self dbc_p =
     \<lparr>stmt_diag = make_OdbcDiagnostic, stmt_dbc = dbc_p, stmt_stmt = None, stmt_res = None, bound_cols = [],
      stmt_open = u_open, retrieve_data = SQL_RD_ON, rows_fetched_ptr = nullptr, max_len = 0,
      odbc_fetcher = make_OdbcFetch u_fetch,
      param_desc = \<lparr>cur_apd = ApdOf self, pool_allocated_ptr = [], paramset_idx = 0, cur_paramset_idx = 0,
        cur_param_idx = 0, pd_values = []\<rparr>,
      row_desc = \<lparr>cur_ard = ArdOf self\<rparr>\<rparr>"

definition IsPrepared :: "OdbcHandleStmt \<Rightarrow> bool" where "IsPrepared st \<longleftrightarrow> stmt_stmt st \<noteq> None"

section \<open>The store\<close>

record driver =
  envs :: "nat \<Rightarrow> OdbcHandleEnv option"
  dbcs :: "nat \<Rightarrow> OdbcHandleDbc option"
  stmts :: "nat \<Rightarrow> OdbcHandleStmt option"
  descs :: "desc_ptr \<Rightarrow> OdbcHandleDesc option"
  next_handle :: nat

definition put_env :: "nat \<Rightarrow> OdbcHandleEnv \<Rightarrow> driver \<Rightarrow> driver" where
  "put_env a e w = w\<lparr>envs := (envs w)(a \<mapsto> e)\<rparr>"
definition put_dbc :: "nat \<Rightarrow> OdbcHandleDbc \<Rightarrow> driver \<Rightarrow> driver" where
  "put_dbc a c w = w\<lparr>dbcs := (dbcs w)(a \<mapsto> c)\<rparr>"
definition put_stmt :: "nat \<Rightarrow> OdbcHandleStmt \<Rightarrow> driver \<Rightarrow> driver" where
  "put_stmt a s w = w\<lparr>stmts := (stmts w)(a \<mapsto> s)\<rparr>"
definition put_desc :: "desc_ptr \<Rightarrow> OdbcHandleDesc \<Rightarrow> driver \<Rightarrow> driver" where
  "put_desc a d w = w\<lparr>descs := (descs w)(a \<mapsto> d)\<rparr>"

text \<open>Assigning to a member of the header of a descriptor, \<^verbatim>\<open>p->header.x = v\<close>.\<close>

definition set_header :: "desc_ptr \<Rightarrow> (DescHeader \<Rightarrow> DescHeader) \<Rightarrow> driver \<Rightarrow> driver option" where
  "set_header p f w = map_option (\<lambda>d. put_desc p (d\<lparr>desc_header := f (desc_header d)\<rparr>) w) (descs w p)"

definition set_records :: "desc_ptr \<Rightarrow> (OdbcHandleDesc \<Rightarrow> DescRecord list) \<Rightarrow> driver \<Rightarrow> driver option" where
  "set_records p f w = map_option (\<lambda>d. put_desc p (d\<lparr>desc_records := f d\<rparr>) w) (descs w p)"

lemma put_simps [simp]:
  "envs (put_env a e w) = (envs w)(a \<mapsto> e)" "dbcs (put_env a e w) = dbcs w"
  "stmts (put_env a e w) = stmts w" "descs (put_env a e w) = descs w" "next_handle (put_env a e w) = next_handle w"
  "envs (put_dbc a c w) = envs w" "dbcs (put_dbc a c w) = (dbcs w)(a \<mapsto> c)"
  "stmts (put_dbc a c w) = stmts w" "descs (put_dbc a c w) = descs w" "next_handle (put_dbc a c w) = next_handle w"
  "envs (put_stmt a s w) = envs w" "dbcs (put_stmt a s w) = dbcs w"
  "stmts (put_stmt a s w) = (stmts w)(a \<mapsto> s)" "descs (put_stmt a s w) = descs w"
  "next_handle (put_stmt a s w) = next_handle w"
  "envs (put_desc p d w) = envs w" "dbcs (put_desc p d w) = dbcs w"
  "stmts (put_desc p d w) = stmts w" "descs (put_desc p d w) = (descs w)(p \<mapsto> d)"
  "next_handle (put_desc p d w) = next_handle w"
  by (simp_all add: put_env_def put_dbc_def put_stmt_def put_desc_def)

section \<open>Row and parameter descriptors\<close>

text \<open>The functions below take the address \<open>s\<close> of the statement and its handle \<open>st\<close>.\<close>

definition GetARD :: "OdbcHandleStmt \<Rightarrow> desc_ptr" where "GetARD st = cur_ard (row_desc st)"
definition GetAPD :: "OdbcHandleStmt \<Rightarrow> desc_ptr" where "GetAPD st = cur_apd (param_desc st)"

definition SetCurrentARD :: "nat \<Rightarrow> OdbcHandleStmt \<Rightarrow> desc_ptr option \<Rightarrow> driver \<Rightarrow> driver option" where
  "SetCurrentARD s st new_ard w = (case new_ard of
      None \<Rightarrow> None
    | Some p \<Rightarrow> set_header p (\<lambda>h. h\<lparr>sql_desc_alloc_type := SQL_DESC_ALLOC_USER\<rparr>)
                 (put_stmt s (st\<lparr>row_desc := (row_desc st)\<lparr>cur_ard := p\<rparr>\<rparr>) w))"

definition ResetCurrentARD :: "nat \<Rightarrow> OdbcHandleStmt \<Rightarrow> OdbcHandleStmt" where
  "ResetCurrentARD s st = st\<lparr>row_desc := (row_desc st)\<lparr>cur_ard := ArdOf s\<rparr>\<rparr>"

definition RowDescriptor_Reset :: "nat \<Rightarrow> OdbcHandleStmt \<Rightarrow> driver \<Rightarrow> driver option" where
  "RowDescriptor_Reset s st w = do {
     w \<leftarrow> set_header (IrdOf s) (\<lambda>h. h\<lparr>sql_desc_count := 0\<rparr>) w;
     set_header (GetARD st) (\<lambda>h. h\<lparr>sql_desc_count := 0\<rparr>) w }"

definition RowDescriptor_Clear :: "nat \<Rightarrow> OdbcHandleStmt \<Rightarrow> driver \<Rightarrow> driver option" where
  "RowDescriptor_Clear s st w = do {
     w \<leftarrow> set_records (IrdOf s) (\<lambda>d. []) w;
     w \<leftarrow> set_records (GetARD st) (\<lambda>d. []) w;
     RowDescriptor_Reset s st w }"

definition SetCurrentAPD :: "nat \<Rightarrow> OdbcHandleStmt \<Rightarrow> desc_ptr option \<Rightarrow> driver \<Rightarrow> driver option" where
  "SetCurrentAPD s st new_apd w = (case new_apd of
      None \<Rightarrow> None
    | Some p \<Rightarrow> set_header p (\<lambda>h. h\<lparr>sql_desc_alloc_type := SQL_DESC_ALLOC_USER\<rparr>)
                 (put_stmt s (st\<lparr>param_desc := (param_desc st)\<lparr>cur_apd := p\<rparr>\<rparr>) w))"

definition ResetCurrentAPD :: "nat \<Rightarrow> OdbcHandleStmt \<Rightarrow> OdbcHandleStmt" where
  "ResetCurrentAPD s st = st\<lparr>param_desc := (param_desc st)\<lparr>cur_apd := ApdOf s\<rparr>\<rparr>"

definition ParameterDescriptor_Reset :: "nat \<Rightarrow> OdbcHandleStmt \<Rightarrow> driver \<Rightarrow> driver option" where
  "ParameterDescriptor_Reset s st w = do {
     w \<leftarrow> set_header (IpdOf s) (\<lambda>h. h\<lparr>sql_desc_count := 0\<rparr>) w;
     w \<leftarrow> set_header (GetAPD st) (\<lambda>h. h\<lparr>sql_desc_count := 0\<rparr>) w;
     Some (put_stmt s (st\<lparr>param_desc := (param_desc st)\<lparr>pool_allocated_ptr := [], paramset_idx := 0,
       cur_paramset_idx := 0, cur_param_idx := 0\<rparr>\<rparr>) w) }"

definition ParameterDescriptor_Clear :: "nat \<Rightarrow> OdbcHandleStmt \<Rightarrow> driver \<Rightarrow> driver option" where
  "ParameterDescriptor_Clear s st w = do {
     w \<leftarrow> set_records (IpdOf s) (\<lambda>d. []) w;
     w \<leftarrow> set_records (GetAPD st) (\<lambda>d. []) w;
     ParameterDescriptor_Reset s st w }"

definition ResetParams :: "nat \<Rightarrow> OdbcHandleStmt \<Rightarrow> SQLSMALLINT \<Rightarrow> driver \<Rightarrow> driver option" where
  "ResetParams s st n w =
     (let grow = (\<lambda>d. resize (nat (to_uint64 n)) (make_DescRecord (desc_fresh d)) (desc_records d)) in do {
     w \<leftarrow> set_records (IpdOf s) grow w;
     w \<leftarrow> set_header (IpdOf s) (\<lambda>h. h\<lparr>sql_desc_count := n\<rparr>) w;
     w \<leftarrow> set_records (GetAPD st) grow w;
     w \<leftarrow> set_header (GetAPD st) (\<lambda>h. h\<lparr>sql_desc_count := n\<rparr>) w;
     Some (put_stmt s (st\<lparr>param_desc := (param_desc st)\<lparr>pool_allocated_ptr := []\<rparr>\<rparr>) w) })"

section \<open>Statements\<close>

definition stmt_Close :: "nat \<Rightarrow> OdbcHandleStmt \<Rightarrow> driver \<Rightarrow> driver option" where
  "stmt_Close s st w =
     ParameterDescriptor_Reset s
       (st\<lparr>stmt_open := False, stmt_res := None, odbc_fetcher := ClearChunks (odbc_fetcher st)\<rparr>) w"

text \<open>\<^verbatim>\<open>FillIRD\<close>: \<open>u\<close> is the memory of the local record, \<open>type_name\<close> is \<^verbatim>\<open>TypeIdToString\<close>
  of the internal type of a logical type and \<open>varchar_name\<close> of \<^verbatim>\<open>VARCHAR\<close>, \<open>catalog_name\<close> is
  the name of the system catalog.\<close>

abbreviation (input) SQL_UNNAMED :: int where "SQL_UNNAMED \<equiv> 1"
abbreviation (input) SQL_NAMED :: int where "SQL_NAMED \<equiv> 0"

definition ird_record ::
  "(LogicalType \<Rightarrow> string) \<Rightarrow> string \<Rightarrow> string \<Rightarrow> DescRecord \<Rightarrow> LogicalType \<Rightarrow> string \<Rightarrow> DescRecord" where
  "ird_record type_name varchar_name catalog_name u col_type name =
     (let r = (make_DescRecord u)\<lparr>sql_desc_base_column_name := name, sql_desc_name := name, sql_desc_label := name,
            sql_desc_length := int (length name),
            sql_desc_unnamed := (if name = [] then SQL_UNNAMED else SQL_NAMED)\<rparr>;
          sql_type = FindRelatedSQLType (lt_id col_type);
          r = snd (SetSqlDescType r (if sql_type = SQL_INTERVAL then SQL_INTERVAL_DAY_TO_SECOND else sql_type));
          r = r\<lparr>sql_desc_type_name := (if sql_type = SQL_UNKNOWN_TYPE then varchar_name else type_name col_type)\<rparr>;
          r = (if sql_type = SQL_DECIMAL \<or> sql_type = SQL_NUMERIC then
                 (if lt_id col_type = DECIMAL
                  then r\<lparr>sql_desc_precision := int (lt_width col_type), sql_desc_scale := int (lt_scale col_type)\<rparr>
                  else r)
               else if sql_type = SQL_TYPE_TIME \<or> sql_type = SQL_TYPE_TIMESTAMP then
                 r\<lparr>sql_desc_precision := GetTemporalPrecision (lt_id col_type),
                   sql_desc_scale := GetTemporalPrecision (lt_id col_type)\<rparr>
               else r);
          r = SetDescUnsignedField (r\<lparr>sql_desc_display_size := GetDisplaySize col_type\<rparr>) col_type
      in r\<lparr>sql_desc_catalog_name := catalog_name, sql_desc_schema_name := []\<rparr>)"

definition FillIRD ::
  "(LogicalType \<Rightarrow> string) \<Rightarrow> string \<Rightarrow> string \<Rightarrow> DescRecord \<Rightarrow> PreparedStatement \<Rightarrow> OdbcHandleDesc \<Rightarrow> OdbcHandleDesc" where
  "FillIRD type_name varchar_name catalog_name u ps ird =
     (let ird = desc_Reset ird; ird = ird\<lparr>desc_header := (desc_header ird)\<lparr>sql_desc_count := 0\<rparr>\<rparr>
      in ird\<lparr>desc_records := map (\<lambda>(t, n). copy_DescRecord (ird_record type_name varchar_name catalog_name u t n))
                             (zip (ps_types ps) (ps_names ps))\<rparr>)"

section \<open>The implementation row descriptor\<close>

lemma SetSqlDescType_keeps:
  "sql_desc_name (snd (SetSqlDescType r t)) = sql_desc_name r" "sql_desc_label (snd (SetSqlDescType r t)) = sql_desc_label r"
  "sql_desc_base_column_name (snd (SetSqlDescType r t)) = sql_desc_base_column_name r"
  by (auto simp: SetSqlDescType_def SetSqlDataType_def Let_def split: list.split if_split)

lemma FillIRD_nth:
  assumes "i < length (ps_types ps)" "length (ps_names ps) = length (ps_types ps)"
  shows "desc_records (FillIRD tn vn cn u ps ird) ! i = copy_DescRecord (ird_record tn vn cn u (ps_types ps ! i) (ps_names ps ! i))"
  using assms by (simp add: FillIRD_def Let_def)

text \<open>\<^verbatim>\<open>FillIRD\<close> leaves the record count of the header at 0, so \<^verbatim>\<open>SQLGetDescRec\<close> reports no
  data for every column of a prepared statement although the records are there.\<close>

theorem FillIRD_hides_columns:
  assumes "1 \<le> rec_number" "d = FillIRD tn vn cn u ps ird"
  shows "GetDescRecInternal wide prepared d rec_number m name buffer_length slp tp stp lp pp sp np = Some (SQL_NO_DATA, d, m)
    \<and> length (desc_records d) = min (length (ps_types ps)) (length (ps_names ps))"
  using assms by (simp add: GetDescRecInternal_def FillIRD_def Let_def)

theorem FillIRD_hides_columns_witness:
  "let d = FillIRD (\<lambda>_. ''INT32'') ''VARCHAR'' ''system'' sample_record
       \<lparr>ps_error = None, ps_types = [\<lparr>lt_id = INTEGER, lt_width = 0, lt_scale = 0\<rparr>], ps_names = [''id''],
        ps_bound_all_parameters = True, ps_named_params = 0, ps_row_changes = False\<rparr> sample_desc
   in GetDescRecInternal False True d 1 (\<lambda>_. CHR 0x00) 0 0 0 0 0 0 0 0 0 = Some (SQL_NO_DATA, d, \<lambda>_. CHR 0x00)
    \<and> length (desc_records d) = 1"
  using FillIRD_hides_columns [of 1 _ "\<lambda>_. ''INT32''" "''VARCHAR''" "''system''" sample_record
       "\<lparr>ps_error = None, ps_types = [\<lparr>lt_id = INTEGER, lt_width = 0, lt_scale = 0\<rparr>], ps_names = [''id''],
        ps_bound_all_parameters = True, ps_named_params = 0, ps_row_changes = False\<rparr>" sample_desc False True
       "\<lambda>_. CHR 0x00" 0 0 0 0 0 0 0 0 0, OF _ refl]
  by (simp add: Let_def)

end
