(* ===== verification/Handle_Api.thy ===== *)
theory Handle_Api
  imports Duckdb_Odbc
begin

text \<open>
  Entry points that create, check and destroy handles: \<^verbatim>\<open>common/handle_functions.cpp\<close>,
  \<^verbatim>\<open>odbc_driver/driver.cpp\<close>, \<^verbatim>\<open>odbc_api/handle_api.cpp\<close>, \<^verbatim>\<open>cursor_api.cpp\<close>,
  \<^verbatim>\<open>SQLBindCol\<close> of \<^verbatim>\<open>binding_api.cpp\<close>, \<^verbatim>\<open>SQLDisconnect\<close> of \<^verbatim>\<open>connection_api.cpp\<close>, and the
  operations of a connection on its statements.

  A handle argument is \<open>None\<close> for the null handle. A conversion function returns \<open>Inl\<close> with the
  code its caller returns, or \<open>Inr\<close> with the address of the handle; \<open>None\<close> is undefined
  behaviour as everywhere.
\<close>

section \<open>Handle arguments\<close>

datatype handle_ptr = EnvPtr nat | DbcPtr nat | StmtPtr nat | DescPtr desc_ptr

type_synonym SQLHANDLE = "handle_ptr option"

fun live :: "driver \<Rightarrow> handle_ptr \<Rightarrow> bool" where
  "live w (EnvPtr e) \<longleftrightarrow> envs w e \<noteq> None"
| "live w (DbcPtr c) \<longleftrightarrow> dbcs w c \<noteq> None"
| "live w (StmtPtr s) \<longleftrightarrow> stmts w s \<noteq> None"
| "live w (DescPtr p) \<longleftrightarrow> descs w p \<noteq> None"

text \<open>\<^verbatim>\<open>SetDiagnosticRecord\<close> on a handle in the store, for a handle with a diagnostic area.\<close>

definition post_on ::
  "(('d \<Rightarrow> 'd) \<Rightarrow> 'h \<Rightarrow> 'h) \<Rightarrow> ('d \<Rightarrow> SQLRETURN \<times> 'd) \<Rightarrow> ('h \<Rightarrow> 'd) \<Rightarrow> 'h \<Rightarrow> SQLRETURN \<times> 'h" where
  "post_on upd f get h = (let (ret, d) = f (get h) in (ret, upd (\<lambda>_. d) h))"

definition stmt_post ::
  "nat \<Rightarrow> OdbcHandleStmt \<Rightarrow> driver \<Rightarrow> SQLRETURN \<Rightarrow> string \<Rightarrow> string \<Rightarrow> SQLStateType \<Rightarrow> string \<Rightarrow> SQLRETURN \<times> driver" where
  "stmt_post s st w ret caller msg state server =
     (let (ret, st') = post_on stmt_diag_update (\<lambda>d. SetDiagnosticRecord d ret caller msg state server) stmt_diag st
      in (ret, put_stmt s st' w))"

definition dbc_post ::
  "nat \<Rightarrow> OdbcHandleDbc \<Rightarrow> driver \<Rightarrow> SQLRETURN \<Rightarrow> string \<Rightarrow> string \<Rightarrow> SQLStateType \<Rightarrow> string \<Rightarrow> SQLRETURN \<times> driver" where
  "dbc_post c h w ret caller msg state server =
     (let (ret, h') = post_on dbc_diag_update (\<lambda>d. SetDiagnosticRecord d ret caller msg state server) dbc_diag h
      in (ret, put_dbc c h' w))"

definition ConvertEnvironment :: "driver \<Rightarrow> SQLHANDLE \<Rightarrow> ((SQLRETURN + nat) \<times> driver) option" where
  "ConvertEnvironment w environment_handle = (case environment_handle of
      None \<Rightarrow> Some (Inl SQL_INVALID_HANDLE, w)
    | Some h \<Rightarrow> if \<not> live w h then None
        else case h of EnvPtr e \<Rightarrow> Some (Inr e, w) | _ \<Rightarrow> Some (Inl SQL_INVALID_HANDLE, w))"

definition ConvertConnection :: "driver \<Rightarrow> SQLHANDLE \<Rightarrow> ((SQLRETURN + nat) \<times> driver) option" where
  "ConvertConnection w connection_handle = (case connection_handle of
      None \<Rightarrow> Some (Inl SQL_INVALID_HANDLE, w)
    | Some h \<Rightarrow> if \<not> live w h then None
        else case h of
          DbcPtr c \<Rightarrow>
            (case dbcs w c of
               None \<Rightarrow> None
             | Some dbc \<Rightarrow>
                 if \<not> dbc_conn dbc then
                   (let (ret, w') = dbc_post c dbc w SQL_ERROR ''dbc'' ''No database connection found'' ST_08003 []
                    in Some (Inl ret, w'))
                 else Some (Inr c, put_dbc c (dbc\<lparr>dbc_diag := Clean (dbc_diag dbc)\<rparr>) w))
        | _ \<Rightarrow> Some (Inl SQL_INVALID_HANDLE, w))"

definition ConvertHSTMT :: "driver \<Rightarrow> SQLHANDLE \<Rightarrow> ((SQLRETURN + nat) \<times> driver) option" where
  "ConvertHSTMT w statement_handle = (case statement_handle of
      None \<Rightarrow> Some (Inl SQL_INVALID_HANDLE, w)
    | Some h \<Rightarrow> if \<not> live w h then None
        else case h of
          StmtPtr s \<Rightarrow>
            (case stmts w s of
               None \<Rightarrow> None
             | Some st \<Rightarrow>
                 (case dbcs w (stmt_dbc st) of
                    None \<Rightarrow> None
                  | Some dbc \<Rightarrow>
                      if \<not> dbc_conn dbc then
                        (let (ret, w') = stmt_post s st w SQL_ERROR ''dbc'' ''No database connection found'' ST_08003 []
                         in Some (Inl ret, w'))
                      else Some (Inr s, put_stmt s (st\<lparr>stmt_diag := Clean (stmt_diag st)\<rparr>) w)))
        | _ \<Rightarrow> Some (Inl SQL_INVALID_HANDLE, w))"

text \<open>\<^verbatim>\<open>hstmt->dbc->GetDataSourceName()\<close> of a statement whose connection exists.\<close>

definition stmt_dsn :: "driver \<Rightarrow> OdbcHandleStmt \<Rightarrow> string" where
  "stmt_dsn w st = (case dbcs w (stmt_dbc st) of None \<Rightarrow> [] | Some dbc \<Rightarrow> dbc_dsn dbc)"

definition ConvertHSTMTPrepared :: "driver \<Rightarrow> SQLHANDLE \<Rightarrow> ((SQLRETURN + nat) \<times> driver) option" where
  "ConvertHSTMTPrepared w statement_handle = (case ConvertHSTMT w statement_handle of
      None \<Rightarrow> None
    | Some (Inl ret, w) \<Rightarrow> Some (Inl ret, w)
    | Some (Inr s, w) \<Rightarrow>
        (case stmts w s of None \<Rightarrow> None | Some st \<Rightarrow>
           (case stmt_stmt st of
              None \<Rightarrow> (let (ret, w') = stmt_post s st w SQL_ERROR ''stmt'' ''No statement found'' ST_HY000 []
                       in Some (Inl ret, w'))
            | Some ps \<Rightarrow>
                (case ps_error ps of
                   Some e \<Rightarrow> (let (ret, w') = stmt_post s st w SQL_ERROR ''stmt'' e ST_HY000 (stmt_dsn w st)
                              in Some (Inl ret, w'))
                 | None \<Rightarrow> Some (Inr s, w)))))"

text \<open>For a failed result the error of the prepared statement is read, which must exist.\<close>

definition ConvertHSTMTResult :: "driver \<Rightarrow> SQLHANDLE \<Rightarrow> ((SQLRETURN + nat) \<times> driver) option" where
  "ConvertHSTMTResult w statement_handle = (case ConvertHSTMT w statement_handle of
      None \<Rightarrow> None
    | Some (Inl ret, w) \<Rightarrow> Some (Inl ret, w)
    | Some (Inr s, w) \<Rightarrow>
        (case stmts w s of None \<Rightarrow> None | Some st \<Rightarrow>
           (case stmt_res st of
              None \<Rightarrow> (let (ret, w') = stmt_post s st w SQL_ERROR ''stmt'' ''No result set found'' ST_HY000 (stmt_dsn w st)
                       in Some (Inl ret, w'))
            | Some res \<Rightarrow>
                if qr_error res \<noteq> None then
                  (case stmt_stmt st of
                     None \<Rightarrow> None
                   | Some ps \<Rightarrow>
                       (let (ret, w') = stmt_post s st w SQL_ERROR ''stmt''
                              (case ps_error ps of None \<Rightarrow> [] | Some e \<Rightarrow> e) ST_HY000 (stmt_dsn w st)
                        in Some (Inl ret, w')))
                else Some (Inr s, w))))"

definition ConvertDescriptor :: "driver \<Rightarrow> SQLHANDLE \<Rightarrow> ((SQLRETURN + desc_ptr) \<times> driver) option" where
  "ConvertDescriptor w descriptor_handle = (case descriptor_handle of
      None \<Rightarrow> Some (Inl SQL_INVALID_HANDLE, w)
    | Some h \<Rightarrow> if \<not> live w h then None
        else case h of DescPtr p \<Rightarrow> Some (Inr p, w) | _ \<Rightarrow> Some (Inl SQL_INVALID_HANDLE, w))"

text \<open>A handler on a statement: convert the handle, then run the body on the statement.\<close>

definition on_stmt ::
  "driver \<Rightarrow> SQLHANDLE \<Rightarrow> (nat \<Rightarrow> OdbcHandleStmt \<Rightarrow> driver \<Rightarrow> (SQLRETURN \<times> driver) option) \<Rightarrow> (SQLRETURN \<times> driver) option" where
  "on_stmt w statement_handle body = (case ConvertHSTMT w statement_handle of
      None \<Rightarrow> None
    | Some (Inl ret, w) \<Rightarrow> Some (ret, w)
    | Some (Inr s, w) \<Rightarrow> (case stmts w s of None \<Rightarrow> None | Some st \<Rightarrow> body s st w))"

section \<open>SQLAllocHandle\<close>

text \<open>The contents of the memory that a new object is built in.\<close>

record garbage =
  g_env :: OdbcHandleEnv
  g_metadata_id :: SQLUINTEGER
  g_open :: bool
  g_fetch :: OdbcFetch
  g_record :: DescRecord

definition new_stmt :: "garbage \<Rightarrow> nat \<Rightarrow> nat \<Rightarrow> driver \<Rightarrow> driver" where
  "new_stmt g s c w =
     (let w = put_stmt s (make_OdbcHandleStmt (g_open g) (g_fetch g) s c) w;
          w = put_desc (ApdOf s) (make_OdbcHandleDesc (ApdOf s) (g_record g) c None False) w;
          w = put_desc (IpdOf s) (make_OdbcHandleDesc (IpdOf s) (g_record g) c None False) w;
          w = put_desc (ArdOf s) (make_OdbcHandleDesc (ArdOf s) (g_record g) c None False) w
      in put_desc (IrdOf s) (make_OdbcHandleDesc (IrdOf s) (g_record g) c (Some s) False) w)"

text \<open>The result is the return code and the value stored through \<^verbatim>\<open>output_handle_ptr\<close>. The input
  handle is cast without a check.\<close>

definition SQLAllocHandle ::
  "garbage \<Rightarrow> SQLSMALLINT \<Rightarrow> SQLHANDLE \<Rightarrow> driver \<Rightarrow> (SQLRETURN \<times> SQLHANDLE \<times> driver) option" where
  "SQLAllocHandle g handle_type input_handle w =
     (let a = next_handle w; w' = w\<lparr>next_handle := Suc a\<rparr> in
      if handle_type = SQL_HANDLE_DBC then
        (case input_handle of
           Some (EnvPtr e) \<Rightarrow>
             (if envs w e = None then None
              else Some (SQL_SUCCESS, Some (DbcPtr a), put_dbc a (make_OdbcHandleDbc (g_metadata_id g) e) w'))
         | _ \<Rightarrow> None)
      else if handle_type = SQL_HANDLE_DESC then
        (case input_handle of
           Some (DbcPtr c) \<Rightarrow>
             (if dbcs w c = None then None
              else Some (SQL_SUCCESS, Some (DescPtr (ExplicitDesc a)),
                     put_desc (ExplicitDesc a) (make_OdbcHandleDesc (ExplicitDesc a) (g_record g) c None False) w'))
         | _ \<Rightarrow> None)
      else if handle_type = SQL_HANDLE_ENV then
        Some (SQL_SUCCESS, Some (EnvPtr a), put_env a (make_OdbcHandleEnv (g_env g)) w')
      else if handle_type = SQL_HANDLE_STMT then
        (case input_handle of
           Some (DbcPtr c) \<Rightarrow>
             (case dbcs w c of
                None \<Rightarrow> None
              | Some dbc \<Rightarrow> Some (SQL_SUCCESS, Some (StmtPtr a),
                  new_stmt g a c (put_dbc c (dbc\<lparr>vec_stmt_ref := vec_stmt_ref dbc @ [a]\<rparr>) w')))
         | _ \<Rightarrow> None)
      else Some (SQL_INVALID_HANDLE, None, w))"

section \<open>SQLFreeHandle\<close>

text \<open>\<^verbatim>\<open>delete\<close> of a statement destroys the implicit descriptors it owns.\<close>

definition delete_stmt :: "nat \<Rightarrow> driver \<Rightarrow> driver option" where
  "delete_stmt s w =
     (if stmts w s = None then None
      else Some (w\<lparr>stmts := (stmts w)(s := None),
        descs := (descs w)(ApdOf s := None, IpdOf s := None, ArdOf s := None, IrdOf s := None)\<rparr>))"

fun delete_stmts :: "nat list \<Rightarrow> driver \<Rightarrow> driver option" where
  "delete_stmts [] w = Some w"
| "delete_stmts (s # ss) w = (case delete_stmt s w of None \<Rightarrow> None | Some w' \<Rightarrow> delete_stmts ss w')"

definition delete_dbc :: "nat \<Rightarrow> driver \<Rightarrow> driver option" where
  "delete_dbc c w = (case dbcs w c of
      None \<Rightarrow> None
    | Some dbc \<Rightarrow> map_option (\<lambda>w'. w'\<lparr>dbcs := (dbcs w')(c := None)\<rparr>) (delete_stmts (vec_stmt_ref dbc) w))"

fun ResetStmtDescriptors :: "nat list \<Rightarrow> desc_ptr \<Rightarrow> driver \<Rightarrow> driver option" where
  "ResetStmtDescriptors [] old_desc w = Some w"
| "ResetStmtDescriptors (s # ss) old_desc w = (case stmts w s of
      None \<Rightarrow> None
    | Some st \<Rightarrow>
        (let st = (if GetAPD st = old_desc then ResetCurrentAPD s st else st);
             st = (if GetARD st = old_desc then ResetCurrentARD s st else st)
         in ResetStmtDescriptors ss old_desc (put_stmt s st w)))"

text \<open>The handle is cast to the type that the application names.\<close>

definition FreeHandle :: "SQLSMALLINT \<Rightarrow> SQLHANDLE \<Rightarrow> driver \<Rightarrow> (SQLRETURN \<times> driver) option" where
  "FreeHandle handle_type handle w = (case handle of
      None \<Rightarrow> Some (SQL_INVALID_HANDLE, w)
    | Some h \<Rightarrow>
        if handle_type = SQL_HANDLE_DBC then
          (case h of DbcPtr c \<Rightarrow> map_option (\<lambda>w'. (SQL_SUCCESS, w')) (delete_dbc c w) | _ \<Rightarrow> None)
        else if handle_type = SQL_HANDLE_DESC then
          (case h of
             DescPtr p \<Rightarrow>
               (case descs w p of
                  None \<Rightarrow> None
                | Some d \<Rightarrow>
                    (case dbcs w (desc_dbc d) of
                       None \<Rightarrow> None
                     | Some dbc \<Rightarrow>
                         map_option (\<lambda>w'. (SQL_SUCCESS, w'\<lparr>descs := (descs w')(p := None)\<rparr>))
                           (ResetStmtDescriptors (vec_stmt_ref dbc) p w)))
           | _ \<Rightarrow> None)
        else if handle_type = SQL_HANDLE_ENV then
          (case h of
             EnvPtr e \<Rightarrow> if envs w e = None then None else Some (SQL_SUCCESS, w\<lparr>envs := (envs w)(e := None)\<rparr>)
           | _ \<Rightarrow> None)
        else if handle_type = SQL_HANDLE_STMT then
          (case h of
             StmtPtr s \<Rightarrow>
               (case stmts w s of
                  None \<Rightarrow> None
                | Some st \<Rightarrow>
                    (case dbcs w (stmt_dbc st) of
                       None \<Rightarrow> None
                     | Some dbc \<Rightarrow> map_option (\<lambda>w'. (SQL_SUCCESS, w'))
                                     (delete_stmt s (put_dbc (stmt_dbc st) (EraseStmtRef dbc s) w))))
           | _ \<Rightarrow> None)
        else Some (SQL_INVALID_HANDLE, w))"

section \<open>SQLFreeStmt, SQLCloseCursor, SQLBindCol and SQLDisconnect\<close>

abbreviation (input) SQL_CLOSE :: int where "SQL_CLOSE \<equiv> 0"
abbreviation (input) SQL_DROP :: int where "SQL_DROP \<equiv> 1"
abbreviation (input) SQL_UNBIND :: int where "SQL_UNBIND \<equiv> 2"
abbreviation (input) SQL_RESET_PARAMS :: int where "SQL_RESET_PARAMS \<equiv> 3"

definition CloseStmt :: "nat \<Rightarrow> OdbcHandleStmt \<Rightarrow> driver \<Rightarrow> (SQLRETURN \<times> driver) option" where
  "CloseStmt s st w = map_option (\<lambda>w'. (SQL_SUCCESS, w')) (stmt_Close s st w)"

definition SQLFreeStmt :: "SQLHANDLE \<Rightarrow> SQLUSMALLINT \<Rightarrow> driver \<Rightarrow> (SQLRETURN \<times> driver) option" where
  "SQLFreeStmt statement_handle opt w = on_stmt w statement_handle (\<lambda>s st w.
     if opt = SQL_DROP then FreeHandle SQL_HANDLE_STMT statement_handle w
     else if opt = SQL_UNBIND then Some (SQL_SUCCESS, put_stmt s (st\<lparr>bound_cols := []\<rparr>) w)
     else if opt = SQL_RESET_PARAMS then map_option (\<lambda>w'. (SQL_SUCCESS, w')) (ParameterDescriptor_Clear s st w)
     else if opt = SQL_CLOSE then CloseStmt s st w
     else Some (SQL_ERROR, w))"

definition SQLCloseCursor :: "SQLHANDLE \<Rightarrow> driver \<Rightarrow> (SQLRETURN \<times> driver) option" where
  "SQLCloseCursor statement_handle w = on_stmt w statement_handle CloseStmt"

text \<open>The column number is positive by an assertion; 0 would index the vector at the largest
  number.\<close>

definition SQLBindCol ::
  "SQLHANDLE \<Rightarrow> SQLUSMALLINT \<Rightarrow> SQLSMALLINT \<Rightarrow> addr \<Rightarrow> SQLLEN \<Rightarrow> addr \<Rightarrow> driver \<Rightarrow> (SQLRETURN \<times> driver) option" where
  "SQLBindCol statement_handle column_number target_type target_value_ptr buffer_length str_len_or_ind_ptr w =
     on_stmt w statement_handle (\<lambda>s st w.
       let cols = (if nat column_number > length (bound_cols st)
                   then resize (nat column_number) make_OdbcBoundCol (bound_cols st) else bound_cols st)
       in if column_number \<le> 0 then None
          else Some (SQL_SUCCESS, put_stmt s (st\<lparr>bound_cols := cols[nat column_number - 1 :=
            \<lparr>bc_type = target_type, bc_ptr = target_value_ptr, bc_len = buffer_length,
             bc_strlen_or_ind = str_len_or_ind_ptr\<rparr>]\<rparr>) w))"

definition SQLDisconnect :: "SQLHANDLE \<Rightarrow> driver \<Rightarrow> (SQLRETURN \<times> driver) option" where
  "SQLDisconnect connection_handle w = (case ConvertConnection w connection_handle of
      None \<Rightarrow> None
    | Some (Inl ret, w) \<Rightarrow> Some (ret, w)
    | Some (Inr c, w) \<Rightarrow> (case dbcs w c of
        None \<Rightarrow> None | Some dbc \<Rightarrow> Some (SQL_SUCCESS, put_dbc c (dbc\<lparr>dbc_conn := False\<rparr>) w)))"

text \<open>Contents of fresh memory for the examples.\<close>

definition sample_garbage :: garbage where
  "sample_garbage = \<lparr>g_env = \<lparr>env_diag = make_OdbcDiagnostic, odbc_version = 0, connection_pooling = 0, cp_match = 0, output_nts = 0\<rparr>,
     g_metadata_id = 0, g_open = False,
     g_fetch = \<lparr>cursor_type = 0, cursor_scrollable = 0, row_count = 0, last_col_idx = 0, last_row_idx = 0, last_length = 0,
       chunks = [], current_chunk_idx = 0, current_chunk = None, chunk_row = 0, prior_chunk_row = 0, resultset_end = False,
       next_chunk = 0\<rparr>,
     g_record = sample_record\<rparr>"

end
