(* ===== verification/Attribute_Api.thy ===== *)
theory Attribute_Api
  imports Handle_Api
begin

text \<open>
  \<^verbatim>\<open>odbc_api/attribute_api.cpp\<close>: attributes of environments, connections and statements.

  An attribute value is the pointer-sized number that the application passes; where the code
  takes it for a string or for a descriptor handle, the model has that reading as an argument of
  its own (\<open>value_str\<close>, \<open>value_desc\<close>). The attributes that exist only when the headers of
  ODBC 3.8 define them are included.
\<close>

section \<open>Attribute numbers\<close>

abbreviation (input) SQL_ATTR_QUERY_TIMEOUT :: int where "SQL_ATTR_QUERY_TIMEOUT \<equiv> 0"
abbreviation (input) SQL_ATTR_MAX_LENGTH :: int where "SQL_ATTR_MAX_LENGTH \<equiv> 3"
abbreviation (input) SQL_ATTR_ASYNC_ENABLE :: int where "SQL_ATTR_ASYNC_ENABLE \<equiv> 4"
abbreviation (input) SQL_ATTR_ROW_BIND_TYPE :: int where "SQL_ATTR_ROW_BIND_TYPE \<equiv> 5"
abbreviation (input) SQL_ATTR_CURSOR_TYPE :: int where "SQL_ATTR_CURSOR_TYPE \<equiv> 6"
abbreviation (input) SQL_ATTR_CONCURRENCY :: int where "SQL_ATTR_CONCURRENCY \<equiv> 7"
abbreviation (input) SQL_ATTR_RETRIEVE_DATA :: int where "SQL_ATTR_RETRIEVE_DATA \<equiv> 11"
abbreviation (input) SQL_ATTR_PARAM_BIND_OFFSET_PTR :: int where "SQL_ATTR_PARAM_BIND_OFFSET_PTR \<equiv> 17"
abbreviation (input) SQL_ATTR_PARAM_BIND_TYPE :: int where "SQL_ATTR_PARAM_BIND_TYPE \<equiv> 18"
abbreviation (input) SQL_ATTR_PARAM_STATUS_PTR :: int where "SQL_ATTR_PARAM_STATUS_PTR \<equiv> 20"
abbreviation (input) SQL_ATTR_PARAMS_PROCESSED_PTR :: int where "SQL_ATTR_PARAMS_PROCESSED_PTR \<equiv> 21"
abbreviation (input) SQL_ATTR_PARAMSET_SIZE :: int where "SQL_ATTR_PARAMSET_SIZE \<equiv> 22"
abbreviation (input) SQL_ATTR_ROW_STATUS_PTR :: int where "SQL_ATTR_ROW_STATUS_PTR \<equiv> 25"
abbreviation (input) SQL_ATTR_ROWS_FETCHED_PTR :: int where "SQL_ATTR_ROWS_FETCHED_PTR \<equiv> 26"
abbreviation (input) SQL_ATTR_ROW_ARRAY_SIZE :: int where "SQL_ATTR_ROW_ARRAY_SIZE \<equiv> 27"
abbreviation (input) SQL_ATTR_APP_ROW_DESC :: int where "SQL_ATTR_APP_ROW_DESC \<equiv> 10010"
abbreviation (input) SQL_ATTR_APP_PARAM_DESC :: int where "SQL_ATTR_APP_PARAM_DESC \<equiv> 10011"
abbreviation (input) SQL_ATTR_IMP_ROW_DESC :: int where "SQL_ATTR_IMP_ROW_DESC \<equiv> 10012"
abbreviation (input) SQL_ATTR_IMP_PARAM_DESC :: int where "SQL_ATTR_IMP_PARAM_DESC \<equiv> 10013"
abbreviation (input) SQL_ATTR_METADATA_ID :: int where "SQL_ATTR_METADATA_ID \<equiv> 10014"
abbreviation (input) SQL_ATTR_CURSOR_SCROLLABLE :: int where "SQL_ATTR_CURSOR_SCROLLABLE \<equiv> - 1"
abbreviation (input) SQL_ATTR_ACCESS_MODE :: int where "SQL_ATTR_ACCESS_MODE \<equiv> 101"
abbreviation (input) SQL_ATTR_AUTOCOMMIT :: int where "SQL_ATTR_AUTOCOMMIT \<equiv> 102"
abbreviation (input) SQL_ATTR_LOGIN_TIMEOUT :: int where "SQL_ATTR_LOGIN_TIMEOUT \<equiv> 103"
abbreviation (input) SQL_ATTR_TRACE :: int where "SQL_ATTR_TRACE \<equiv> 104"
abbreviation (input) SQL_ATTR_TRACEFILE :: int where "SQL_ATTR_TRACEFILE \<equiv> 105"
abbreviation (input) SQL_ATTR_TRANSLATE_LIB :: int where "SQL_ATTR_TRANSLATE_LIB \<equiv> 106"
abbreviation (input) SQL_ATTR_TRANSLATE_OPTION :: int where "SQL_ATTR_TRANSLATE_OPTION \<equiv> 107"
abbreviation (input) SQL_ATTR_TXN_ISOLATION :: int where "SQL_ATTR_TXN_ISOLATION \<equiv> 108"
abbreviation (input) SQL_ATTR_CURRENT_CATALOG :: int where "SQL_ATTR_CURRENT_CATALOG \<equiv> 109"
abbreviation (input) SQL_ATTR_ODBC_CURSORS :: int where "SQL_ATTR_ODBC_CURSORS \<equiv> 110"
abbreviation (input) SQL_ATTR_QUIET_MODE :: int where "SQL_ATTR_QUIET_MODE \<equiv> 111"
abbreviation (input) SQL_ATTR_PACKET_SIZE :: int where "SQL_ATTR_PACKET_SIZE \<equiv> 112"
abbreviation (input) SQL_ATTR_CONNECTION_TIMEOUT :: int where "SQL_ATTR_CONNECTION_TIMEOUT \<equiv> 113"
abbreviation (input) SQL_ATTR_ASYNC_DBC_FUNCTIONS_ENABLE :: int where "SQL_ATTR_ASYNC_DBC_FUNCTIONS_ENABLE \<equiv> 117"
abbreviation (input) SQL_ATTR_DBC_INFO_TOKEN :: int where "SQL_ATTR_DBC_INFO_TOKEN \<equiv> 118"
abbreviation (input) SQL_ATTR_ASYNC_DBC_EVENT :: int where "SQL_ATTR_ASYNC_DBC_EVENT \<equiv> 119"
abbreviation (input) SQL_ATTR_ASYNC_DBC_PCALLBACK :: int where "SQL_ATTR_ASYNC_DBC_PCALLBACK \<equiv> 120"
abbreviation (input) SQL_ATTR_ASYNC_DBC_PCONTEXT :: int where "SQL_ATTR_ASYNC_DBC_PCONTEXT \<equiv> 121"
abbreviation (input) SQL_ATTR_ENLIST_IN_DTC :: int where "SQL_ATTR_ENLIST_IN_DTC \<equiv> 1207"
abbreviation (input) SQL_ATTR_CONNECTION_DEAD :: int where "SQL_ATTR_CONNECTION_DEAD \<equiv> 1209"
abbreviation (input) SQL_ATTR_AUTO_IPD :: int where "SQL_ATTR_AUTO_IPD \<equiv> 10001"
abbreviation (input) VENDOR_MSJET :: int where "VENDOR_MSJET \<equiv> 30002"
abbreviation (input) SQL_ATTR_ODBC_VERSION :: int where "SQL_ATTR_ODBC_VERSION \<equiv> 200"
abbreviation (input) SQL_ATTR_CONNECTION_POOLING :: int where "SQL_ATTR_CONNECTION_POOLING \<equiv> 201"
abbreviation (input) SQL_ATTR_CP_MATCH :: int where "SQL_ATTR_CP_MATCH \<equiv> 202"
abbreviation (input) SQL_ATTR_OUTPUT_NTS :: int where "SQL_ATTR_OUTPUT_NTS \<equiv> 10001"
abbreviation (input) SQL_OV_ODBC2 :: int where "SQL_OV_ODBC2 \<equiv> 2"
abbreviation (input) SQL_OV_ODBC3 :: int where "SQL_OV_ODBC3 \<equiv> 3"
abbreviation (input) SQL_CP_OFF :: int where "SQL_CP_OFF \<equiv> 0"
abbreviation (input) SQL_CP_ONE_PER_DRIVER :: int where "SQL_CP_ONE_PER_DRIVER \<equiv> 1"
abbreviation (input) SQL_CP_ONE_PER_HENV :: int where "SQL_CP_ONE_PER_HENV \<equiv> 2"
abbreviation (input) SQL_AUTOCOMMIT_OFF :: int where "SQL_AUTOCOMMIT_OFF \<equiv> 0"
abbreviation (input) SQL_AUTOCOMMIT_ON :: int where "SQL_AUTOCOMMIT_ON \<equiv> 1"
abbreviation (input) SQL_MODE_READ_ONLY :: int where "SQL_MODE_READ_ONLY \<equiv> 1"
abbreviation (input) SQL_TXN_SERIALIZABLE :: int where "SQL_TXN_SERIALIZABLE \<equiv> 8"
abbreviation (input) SQL_CONCUR_LOCK :: int where "SQL_CONCUR_LOCK \<equiv> 2"
abbreviation (input) SQL_IS_POINTER :: int where "SQL_IS_POINTER \<equiv> - 4"
abbreviation (input) SQL_BIND_BY_COLUMN :: int where "SQL_BIND_BY_COLUMN \<equiv> 0"

section \<open>Environment attributes\<close>

definition env_post ::
  "nat \<Rightarrow> OdbcHandleEnv \<Rightarrow> driver \<Rightarrow> SQLRETURN \<Rightarrow> string \<Rightarrow> string \<Rightarrow> SQLStateType \<Rightarrow> string \<Rightarrow> SQLRETURN \<times> driver" where
  "env_post e h w ret caller msg state server =
     (let (ret, h') = post_on env_diag_update (\<lambda>d. SetDiagnosticRecord d ret caller msg state server) env_diag h
      in (ret, put_env e h' w))"

definition SQLGetEnvAttr ::
  "SQLHANDLE \<Rightarrow> SQLINTEGER \<Rightarrow> addr \<Rightarrow> driver \<Rightarrow> memory \<Rightarrow> (SQLRETURN \<times> driver \<times> memory) option" where
  "SQLGetEnvAttr environment_handle attribute value_ptr w m =
     (if value_ptr = nullptr then Some (SQL_SUCCESS, w, m)
      else case environment_handle of
        None \<Rightarrow> None
      | Some h \<Rightarrow>
          if \<not> live w h then None
          else case h of
            EnvPtr e \<Rightarrow>
              (case envs w e of
                 None \<Rightarrow> None
               | Some env \<Rightarrow>
                   if attribute = SQL_ATTR_ODBC_VERSION then
                     Some (SQL_SUCCESS, w, store_int 4 m value_ptr (odbc_version env))
                   else if attribute = SQL_ATTR_CONNECTION_POOLING then
                     Some (SQL_SUCCESS, w, store_int 4 m value_ptr (connection_pooling env))
                   else if attribute = SQL_ATTR_OUTPUT_NTS then
                     Some (SQL_SUCCESS, w, store_int 4 m value_ptr (output_nts env))
                   else if attribute = SQL_ATTR_CP_MATCH then
                     (let (ret, w') = env_post e env w SQL_SUCCESS_WITH_INFO ''SQLGetEnvAttr''
                            ''Optional feature not implemented.'' ST_HYC00 [] in Some (ret, w', m))
                   else Some (SQL_SUCCESS, w, m))
          | _ \<Rightarrow> Some (SQL_INVALID_HANDLE, w, m))"

definition ExtractMajorVersion :: "nat \<Rightarrow> SQLUINTEGER" where
  "ExtractMajorVersion value_ptr =
     (let full_version = to_uint32 (int value_ptr) in
      if full_version > 100 then full_version div 100
      else if full_version > 10 then full_version div 10 else full_version)"

definition SQLSetEnvAttr :: "SQLHANDLE \<Rightarrow> SQLINTEGER \<Rightarrow> nat \<Rightarrow> driver \<Rightarrow> (SQLRETURN \<times> driver) option" where
  "SQLSetEnvAttr environment_handle attribute value_ptr w = (case ConvertEnvironment w environment_handle of
      None \<Rightarrow> None
    | Some (Inl ret, w) \<Rightarrow> Some (ret, w)
    | Some (Inr e, w) \<Rightarrow> (case envs w e of
        None \<Rightarrow> None
      | Some env \<Rightarrow>
          if attribute = SQL_ATTR_ODBC_VERSION then
            (let major_version = ExtractMajorVersion value_ptr in
             if major_version = SQL_OV_ODBC3 \<or> major_version = SQL_OV_ODBC2
             then Some (SQL_SUCCESS, put_env e (env\<lparr>odbc_version := major_version\<rparr>) w)
             else Some (env_post e env w SQL_SUCCESS_WITH_INFO ''SQLSetEnvAttr''
                    (''ODBC version not supported: '' @ to_string major_version) ST_HY092 []))
          else if attribute = SQL_ATTR_CONNECTION_POOLING then
            (let pooling = to_int32 (int value_ptr) in
             if pooling \<in> {SQL_CP_OFF, SQL_CP_ONE_PER_DRIVER, SQL_CP_ONE_PER_HENV}
             then Some (SQL_SUCCESS, put_env e (env\<lparr>connection_pooling := pooling\<rparr>) w)
             else Some (env_post e env w SQL_SUCCESS_WITH_INFO ''SQLSetConnectAttr''
                    (''Connection pooling not supported: '' @ to_string attribute) ST_HY092 []))
          else if attribute = SQL_ATTR_CP_MATCH then
            Some (env_post e env w SQL_SUCCESS_WITH_INFO ''SQLSetConnectAttr''
                    ''Optional feature not implemented.'' ST_HY092 [])
          else if attribute = SQL_ATTR_OUTPUT_NTS then
            (if to_int32 (int value_ptr) = SQL_TRUE then Some (SQL_SUCCESS, put_env e (env\<lparr>output_nts := SQL_TRUE\<rparr>) w)
             else Some (env_post e env w SQL_SUCCESS_WITH_INFO ''SQLSetConnectAttr''
                    ''Optional feature not implemented.  SQL_ATTR_OUTPUT_NTS must be SQL_TRUE'' ST_HY092 []))
          else Some (env_post e env w SQL_SUCCESS_WITH_INFO ''SQLSetEnvAttr'' ''Invalid attribute value'' ST_HY024 [])))"

section \<open>Connection attributes\<close>

definition WriteStringConnAttr ::
  "bool \<Rightarrow> nat \<Rightarrow> OdbcHandleDbc \<Rightarrow> string \<Rightarrow> addr \<Rightarrow> SQLINTEGER \<Rightarrow> addr \<Rightarrow> driver \<Rightarrow> memory
    \<Rightarrow> (SQLRETURN \<times> driver \<times> memory) option" where
  "WriteStringConnAttr wide c dbc str character_attribute_ptr buffer_length string_length w m =
     (case WriteStringWith (char_writer wide) 4 str m character_attribute_ptr buffer_length string_length of
        None \<Rightarrow> None
      | Some (oc, m') \<Rightarrow>
          let (ret, w') = (case oc of
              WBadLength \<Rightarrow> dbc_post c dbc w SQL_ERROR ''SQLGetConnectAttr'' ''Invalid string or buffer length''
                ST_HY090 (dbc_dsn dbc)
            | WTruncated \<Rightarrow> dbc_post c dbc w SQL_SUCCESS_WITH_INFO ''SQLGetConnectAttr''
                ''String data, right truncated'' ST_01004 (dbc_dsn dbc)
            | WStored \<Rightarrow> (SQL_SUCCESS, w))
          in Some (ret, w', m'))"

definition GetConnectAttrInternal ::
  "bool \<Rightarrow> SQLHANDLE \<Rightarrow> SQLINTEGER \<Rightarrow> addr \<Rightarrow> SQLINTEGER \<Rightarrow> addr \<Rightarrow> driver \<Rightarrow> memory
    \<Rightarrow> (SQLRETURN \<times> driver \<times> memory) option" where
  "GetConnectAttrInternal wide connection_handle attribute value_ptr buffer_length string_length_ptr w m =
     (case ConvertConnection w connection_handle of
        None \<Rightarrow> None
      | Some (Inl ret, w) \<Rightarrow> Some (ret, w, m)
      | Some (Inr c, w) \<Rightarrow> (case dbcs w c of
          None \<Rightarrow> None
        | Some dbc \<Rightarrow>
            let put = (\<lambda>v. Some (SQL_SUCCESS, w, StoreWithLength 4 4 m v value_ptr string_length_ptr)) in
            if attribute = SQL_ATTR_AUTOCOMMIT then put (if autocommit dbc then 1 else 0)
            else if attribute = SQL_ATTR_ACCESS_MODE then put (sql_attr_access_mode dbc)
            else if attribute = SQL_ATTR_CURRENT_CATALOG then
              WriteStringConnAttr wide c dbc (sql_attr_current_catalog dbc) value_ptr buffer_length string_length_ptr w m
            else if attribute \<in> {SQL_ATTR_ASYNC_DBC_EVENT, SQL_ATTR_ASYNC_DBC_FUNCTIONS_ENABLE,
                SQL_ATTR_ASYNC_DBC_PCALLBACK, SQL_ATTR_ASYNC_DBC_PCONTEXT, SQL_ATTR_ASYNC_ENABLE, SQL_ATTR_AUTO_IPD,
                SQL_ATTR_CONNECTION_DEAD, SQL_ATTR_CONNECTION_TIMEOUT, SQL_ATTR_DBC_INFO_TOKEN,
                SQL_ATTR_ENLIST_IN_DTC, SQL_ATTR_LOGIN_TIMEOUT, SQL_ATTR_METADATA_ID, SQL_ATTR_ODBC_CURSORS,
                SQL_ATTR_PACKET_SIZE, SQL_ATTR_QUIET_MODE, SQL_ATTR_TRACE, SQL_ATTR_TRACEFILE,
                SQL_ATTR_TRANSLATE_LIB, SQL_ATTR_TRANSLATE_OPTION} then Some (SQL_NO_DATA, w, m)
            else if attribute = SQL_ATTR_QUERY_TIMEOUT then put 0
            else if attribute = SQL_ATTR_TXN_ISOLATION then put SQL_TXN_SERIALIZABLE
            else (let (ret, w') = dbc_post c dbc w SQL_ERROR ''SQLGetConnectAttr'' ''Attribute not supported.''
                        ST_HY092 (dbc_dsn dbc) in Some (ret, w', m))))"

definition SQLGetConnectAttrW ::
  "SQLHANDLE \<Rightarrow> SQLINTEGER \<Rightarrow> addr \<Rightarrow> SQLINTEGER \<Rightarrow> addr \<Rightarrow> driver \<Rightarrow> memory \<Rightarrow> (SQLRETURN \<times> driver \<times> memory) option" where
  "SQLGetConnectAttrW connection_handle attribute value_ptr buffer_length string_length_ptr w m =
     map_option (\<lambda>(ret, w', m'). (ret, w',
        if SQL_SUCCEEDED ret \<and> string_length_ptr \<noteq> nullptr
        then store_int 4 m' string_length_ptr (2 * le_sint (read_bytes m' string_length_ptr 4)) else m'))
       (GetConnectAttrInternal True connection_handle attribute value_ptr buffer_length string_length_ptr w m)"

text \<open>The case for \<^verbatim>\<open>SQL_ATTR_METADATA_ID\<close> stands inside the switch over the value of
  \<^verbatim>\<open>SQL_ATTR_AUTOCOMMIT\<close>. \<open>value_str\<close> is the database name, decoded from the characters of
  the call's width.\<close>

definition SetConnectAttrInternal ::
  "SQLHANDLE \<Rightarrow> SQLINTEGER \<Rightarrow> nat \<Rightarrow> string \<Rightarrow> driver \<Rightarrow> (SQLRETURN \<times> driver) option" where
  "SetConnectAttrInternal connection_handle attribute value_ptr value_str w =
     (if attribute \<in> {SQL_ATTR_LOGIN_TIMEOUT, SQL_ATTR_ODBC_CURSORS, SQL_ATTR_PACKET_SIZE, VENDOR_MSJET}
      then Some (SQL_SUCCESS, w)
      else case ConvertConnection w connection_handle of
        None \<Rightarrow> None
      | Some (Inl ret, w) \<Rightarrow> Some (ret, w)
      | Some (Inr c, w) \<Rightarrow> (case dbcs w c of
          None \<Rightarrow> None
        | Some dbc \<Rightarrow>
            let put = (\<lambda>dbc'. Some (SQL_SUCCESS, put_dbc c dbc' w));
                post = (\<lambda>ret msg st. Some (dbc_post c dbc w ret ''SQLSetConnectAttr'' msg st (dbc_dsn dbc))) in
            if attribute = SQL_ATTR_AUTOCOMMIT then
              (if int value_ptr = SQL_AUTOCOMMIT_ON then put (dbc\<lparr>autocommit := True\<rparr>)
               else if int value_ptr = SQL_AUTOCOMMIT_OFF then put (dbc\<lparr>autocommit := False\<rparr>)
               else if int value_ptr = SQL_ATTR_METADATA_ID
                    then put (dbc\<lparr>sql_attr_metadata_id := SQLPointerToSQLUInteger (int value_ptr)\<rparr>)
               else Some (SQL_SUCCESS, w))
            else if attribute = SQL_ATTR_ACCESS_MODE then
              (let access_mode = SQLPointerToSQLUInteger (int value_ptr) in
               if access_mode = SQL_MODE_READ_WRITE then put (dbc\<lparr>sql_attr_access_mode := SQL_MODE_READ_WRITE\<rparr>)
               else if access_mode = SQL_MODE_READ_ONLY then put (dbc\<lparr>sql_attr_access_mode := SQL_MODE_READ_ONLY\<rparr>)
               else post SQL_ERROR ''Invalid access mode.'' ST_HY024)
            else if attribute \<in> {SQL_ATTR_ASYNC_DBC_EVENT, SQL_ATTR_ASYNC_DBC_FUNCTIONS_ENABLE,
                SQL_ATTR_ASYNC_DBC_PCALLBACK, SQL_ATTR_ASYNC_DBC_PCONTEXT, SQL_ATTR_ASYNC_ENABLE} then
              post SQL_ERROR ''DuckDB does not support asynchronous events.'' ST_HY024
            else if attribute \<in> {SQL_ATTR_AUTO_IPD, SQL_ATTR_CONNECTION_DEAD} then
              post SQL_ERROR ''Read-only attribute.'' ST_HY092
            else if attribute = SQL_ATTR_CONNECTION_TIMEOUT then Some (SQL_SUCCESS, w)
            else if attribute = SQL_ATTR_CURRENT_CATALOG then
              (if dbc_conn dbc
               then post SQL_ERROR ''Connection already established, the database name could not be set.'' ST_01S00
               else put (dbc\<lparr>sql_attr_current_catalog := value_str\<rparr>))
            else if attribute \<in> {SQL_ATTR_DBC_INFO_TOKEN, SQL_ATTR_ENLIST_IN_DTC, SQL_ATTR_METADATA_ID,
                SQL_ATTR_QUIET_MODE, SQL_ATTR_TRACE, SQL_ATTR_TRACEFILE, SQL_ATTR_TRANSLATE_LIB,
                SQL_ATTR_TRANSLATE_OPTION, SQL_ATTR_TXN_ISOLATION} then Some (SQL_SUCCESS, w)
            else post SQL_SUCCESS_WITH_INFO (''Option value changed:'' @ to_string attribute) ST_01S02))"

section \<open>Statement attributes\<close>

text \<open>\<open>desc_addr\<close> gives the address of a descriptor.\<close>

definition stmt_attr ::
  "(desc_ptr \<Rightarrow> addr) \<Rightarrow> nat \<Rightarrow> OdbcHandleStmt \<Rightarrow> driver \<Rightarrow> SQLINTEGER \<Rightarrow> (nat \<times> int) option option" where
  "stmt_attr desc_addr s st w attribute =
     (let hdr = (\<lambda>p f. map_option (\<lambda>d. f (desc_header d)) (descs w p));
          val = (\<lambda>sz. map_option (\<lambda>v. (sz, v))) in
      if attribute = SQL_ATTR_APP_PARAM_DESC then Some (Some (8, int (desc_addr (GetAPD st))))
      else if attribute = SQL_ATTR_IMP_PARAM_DESC then Some (Some (8, int (desc_addr (IpdOf s))))
      else if attribute = SQL_ATTR_APP_ROW_DESC then Some (Some (8, int (desc_addr (GetARD st))))
      else if attribute = SQL_ATTR_IMP_ROW_DESC then Some (Some (8, int (desc_addr (IrdOf s))))
      else if attribute = SQL_ATTR_PARAM_BIND_OFFSET_PTR then
        Some (val 8 (hdr (ApdOf s) (\<lambda>h. int (sql_desc_bind_offset_ptr h))))
      else if attribute = SQL_ATTR_PARAM_BIND_TYPE then Some (val 4 (hdr (ApdOf s) sql_desc_bind_type))
      else if attribute = SQL_ATTR_PARAMS_PROCESSED_PTR then
        Some (val 8 (hdr (IpdOf s) (\<lambda>h. int (sql_desc_rows_processed_ptr h))))
      else if attribute = SQL_ATTR_PARAMSET_SIZE then Some (val 8 (hdr (ApdOf s) sql_desc_array_size))
      else if attribute = SQL_ATTR_ROW_ARRAY_SIZE then Some (val 8 (hdr (ArdOf s) sql_desc_array_size))
      else if attribute = SQL_ATTR_ROWS_FETCHED_PTR then Some (Some (8, int (rows_fetched_ptr st)))
      else if attribute = SQL_ATTR_ROW_BIND_TYPE then Some (val 8 (hdr (ArdOf s) sql_desc_bind_type))
      else if attribute = SQL_ATTR_ROW_STATUS_PTR then
        Some (val 8 (hdr (IrdOf s) (\<lambda>h. int (sql_desc_array_status_ptr h))))
      else if attribute = SQL_ATTR_CURSOR_TYPE then Some (Some (8, cursor_type (odbc_fetcher st)))
      else if attribute = SQL_ATTR_CONCURRENCY then Some (Some (8, SQL_CONCUR_LOCK))
      else if attribute = SQL_ATTR_QUERY_TIMEOUT then Some (Some (4, 0))
      else if attribute = SQL_ATTR_RETRIEVE_DATA then Some (Some (8, retrieve_data st))
      else if attribute = SQL_ATTR_CURSOR_SCROLLABLE then Some (Some (8, cursor_scrollable (odbc_fetcher st)))
      else if attribute = SQL_ATTR_MAX_LENGTH then Some (Some (8, max_len st))
      else None)"

text \<open>The cases that return \<^verbatim>\<open>SQL_ERROR\<close> for a null value pointer; the others write through
  it. The row bind type is always read from the descriptor, since the pointer is not null.\<close>

definition GetStmtAttrInternal ::
  "(desc_ptr \<Rightarrow> addr) \<Rightarrow> SQLHANDLE \<Rightarrow> SQLINTEGER \<Rightarrow> addr \<Rightarrow> addr \<Rightarrow> driver \<Rightarrow> memory
    \<Rightarrow> (SQLRETURN \<times> driver \<times> memory) option" where
  "GetStmtAttrInternal desc_addr statement_handle attribute value_ptr string_length_ptr w m =
     (case ConvertHSTMT w statement_handle of
        None \<Rightarrow> None
      | Some (Inl ret, w) \<Rightarrow> Some (ret, w, m)
      | Some (Inr s, w) \<Rightarrow> (case stmts w s of
          None \<Rightarrow> None
        | Some st \<Rightarrow> (case stmt_attr desc_addr s st w attribute of
            None \<Rightarrow> (let (ret, w') = stmt_post s st w SQL_ERROR ''SQLGetStmtAttr''
                          (''Unsupported attribute type:'' @ to_string attribute) ST_HY092 (stmt_dsn w st)
                     in Some (ret, w', m))
          | Some None \<Rightarrow> None
          | Some (Some (sz, v)) \<Rightarrow>
              if attribute \<in> {SQL_ATTR_PARAM_BIND_OFFSET_PTR, SQL_ATTR_PARAM_BIND_TYPE,
                  SQL_ATTR_PARAMS_PROCESSED_PTR, SQL_ATTR_PARAMSET_SIZE, SQL_ATTR_ROW_ARRAY_SIZE,
                  SQL_ATTR_ROWS_FETCHED_PTR, SQL_ATTR_ROW_BIND_TYPE, SQL_ATTR_ROW_STATUS_PTR, SQL_ATTR_CURSOR_TYPE}
                \<and> value_ptr = nullptr then Some (SQL_ERROR, w, m)
              else
                let m = (if attribute \<in> {SQL_ATTR_APP_PARAM_DESC, SQL_ATTR_IMP_PARAM_DESC, SQL_ATTR_APP_ROW_DESC,
                             SQL_ATTR_IMP_ROW_DESC} then store_int 4 m string_length_ptr SQL_IS_POINTER else m)
                in map_option (\<lambda>m'. (SQL_SUCCESS, w, m')) (Store sz m v value_ptr))))"

text \<open>Assignments that only touch the statement or a header.\<close>

definition SetStmtAttrBody ::
  "nat \<Rightarrow> OdbcHandleStmt \<Rightarrow> SQLINTEGER \<Rightarrow> nat \<Rightarrow> desc_ptr option \<Rightarrow> driver \<Rightarrow> memory
    \<Rightarrow> (SQLRETURN \<times> driver \<times> memory) option" where
  "SetStmtAttrBody s st attribute value_ptr value_desc w m =
     (let v = int value_ptr;
          ok = map_option (\<lambda>w'. (SQL_SUCCESS, w', m));
          put = (\<lambda>st'. Some (SQL_SUCCESS, put_stmt s st' w, m));
          post = (\<lambda>ret msg st'. let (ret', w') = stmt_post s st w ret ''SQLSetStmtAttr'' (msg @ to_string attribute) st'
                                   (stmt_dsn w st) in Some (ret', w', m)) in
      if attribute = SQL_ATTR_PARAMSET_SIZE then ok (set_header (ApdOf s) (\<lambda>h. h\<lparr>sql_desc_array_size := v\<rparr>) w)
      else if attribute = SQL_ATTR_PARAM_BIND_TYPE then
        (if value_ptr \<noteq> 0 then ok (set_header (ApdOf s) (\<lambda>h. h\<lparr>sql_desc_bind_type := to_int32 v\<rparr>) w)
         else Some (SQL_SUCCESS, w, m))
      else if attribute = SQL_ATTR_PARAMS_PROCESSED_PTR then
        map_option (\<lambda>w'. (SQL_SUCCESS, w', store_int 8 m value_ptr 0))
          (set_header (IpdOf s) (\<lambda>h. h\<lparr>sql_desc_rows_processed_ptr := value_ptr\<rparr>) w)
      else if attribute = SQL_ATTR_PARAM_STATUS_PTR then
        ok (set_header (IpdOf s) (\<lambda>h. h\<lparr>sql_desc_array_status_ptr := value_ptr\<rparr>) w)
      else if attribute = SQL_ATTR_ROW_ARRAY_SIZE then
        (if value_ptr \<noteq> 0 then
           (if v < 1 then Some (SQL_ERROR, w, m)
            else ok (set_header (ArdOf s) (\<lambda>h. h\<lparr>sql_desc_array_size := v\<rparr>) w))
         else Some (SQL_SUCCESS, w, m))
      else if attribute = SQL_ATTR_ROWS_FETCHED_PTR then
        ok (set_header (IrdOf s) (\<lambda>h. h\<lparr>sql_desc_rows_processed_ptr := value_ptr\<rparr>)
              (put_stmt s (st\<lparr>rows_fetched_ptr := value_ptr\<rparr>) w))
      else if attribute = SQL_ATTR_ROW_BIND_TYPE then
        (if value_ptr = 0 then Some (SQL_ERROR, w, m)
         else ok (set_header (ArdOf s) (\<lambda>h. h\<lparr>sql_desc_bind_type := to_int32 v\<rparr>) w))
      else if attribute = SQL_ATTR_ROW_STATUS_PTR then
        ok (set_header (IrdOf s) (\<lambda>h. h\<lparr>sql_desc_array_status_ptr := value_ptr\<rparr>) w)
      else if attribute = SQL_ATTR_CURSOR_TYPE then
        put (st\<lparr>odbc_fetcher := (odbc_fetcher st)\<lparr>cursor_type := v\<rparr>\<rparr>)
      else if attribute = SQL_ATTR_APP_ROW_DESC then ok (SetCurrentARD s st value_desc w)
      else if attribute = SQL_ATTR_APP_PARAM_DESC then ok (SetCurrentAPD s st value_desc w)
      else if attribute \<in> {SQL_ATTR_IMP_PARAM_DESC, SQL_ATTR_IMP_ROW_DESC} then
        post SQL_ERROR ''Option value changed:'' ST_HY017
      else if attribute = SQL_ATTR_PARAM_BIND_OFFSET_PTR then
        ok (set_header (ApdOf s) (\<lambda>h. h\<lparr>sql_desc_bind_offset_ptr := value_ptr\<rparr>) w)
      else if attribute = SQL_ATTR_CONCURRENCY then
        (if v \<noteq> SQL_CONCUR_LOCK then post SQL_SUCCESS_WITH_INFO ''Option value changed:'' ST_01S02
         else Some (SQL_SUCCESS, w, m))
      else if attribute = SQL_ATTR_QUERY_TIMEOUT then Some (SQL_SUCCESS, w, m)
      else if attribute = SQL_ATTR_RETRIEVE_DATA then
        (if v = SQL_RD_ON \<or> v = SQL_RD_OFF then put (st\<lparr>retrieve_data := v\<rparr>)
         else post SQL_ERROR ''Invalid attribute value: '' ST_HY024)
      else if attribute = SQL_ATTR_CURSOR_SCROLLABLE then
        (if v = SQL_NONSCROLLABLE then
           put (st\<lparr>odbc_fetcher := (odbc_fetcher st)\<lparr>cursor_type := SQL_CURSOR_FORWARD_ONLY, cursor_scrollable := v\<rparr>\<rparr>)
         else if v = SQL_SCROLLABLE then
           put (st\<lparr>odbc_fetcher := (odbc_fetcher st)\<lparr>cursor_type := SQL_CURSOR_STATIC, cursor_scrollable := v\<rparr>\<rparr>)
         else post SQL_ERROR ''Invalid attribute value:'' ST_HY024)
      else if attribute = SQL_ATTR_MAX_LENGTH then put (st\<lparr>max_len := v\<rparr>)
      else post SQL_SUCCESS_WITH_INFO ''Option value changed:'' ST_01S02)"

definition SetStmtAttrInternal ::
  "SQLHANDLE \<Rightarrow> SQLINTEGER \<Rightarrow> nat \<Rightarrow> desc_ptr option \<Rightarrow> driver \<Rightarrow> memory \<Rightarrow> (SQLRETURN \<times> driver \<times> memory) option" where
  "SetStmtAttrInternal statement_handle attribute value_ptr value_desc w m =
     (case ConvertHSTMT w statement_handle of
        None \<Rightarrow> None
      | Some (Inl ret, w) \<Rightarrow> Some (ret, w, m)
      | Some (Inr s, w) \<Rightarrow> (case stmts w s of
          None \<Rightarrow> None | Some st \<Rightarrow> SetStmtAttrBody s st attribute value_ptr value_desc w m))"

end
