(* ===== verification/Handle_Lifecycle.thy ===== *)
theory Handle_Lifecycle
  imports Attribute_Api
begin

text \<open>
  The life cycle of handles. \<open>world_ok\<close> is the invariant of the store: connections and
  statements refer to each other, each statement has its four implicit descriptors, the
  descriptors it currently uses exist and belong to its connection, and addresses not yet given
  out are unused. Every call that the driver manager passes on keeps it and is free of
  undefined behaviour.
\<close>

section \<open>Well-formed stores\<close>

text \<open>
  The shape of a store is which handles exist and how they point to each other: the environment
  and the statements of a connection, the connection and the current application descriptors of
  a statement, and the connection, address and statement pointer of a descriptor.
\<close>

definition env_live :: "driver \<Rightarrow> nat \<Rightarrow> bool" where
  "env_live w e \<longleftrightarrow> envs w e \<noteq> None"
definition dbc_shape :: "driver \<Rightarrow> nat \<Rightarrow> (nat \<times> nat list) option" where
  "dbc_shape w c = map_option (\<lambda>d. (dbc_env d, vec_stmt_ref d)) (dbcs w c)"
definition stmt_shape :: "driver \<Rightarrow> nat \<Rightarrow> (nat \<times> desc_ptr \<times> desc_ptr) option" where
  "stmt_shape w s = map_option (\<lambda>st. (stmt_dbc st, GetARD st, GetAPD st)) (stmts w s)"
definition desc_shape :: "driver \<Rightarrow> desc_ptr \<Rightarrow> (nat \<times> desc_ptr \<times> nat option) option" where
  "desc_shape w p = map_option (\<lambda>d. (desc_dbc d, desc_self d, desc_stmt d)) (descs w p)"

definition implicit_descs :: "nat \<Rightarrow> desc_ptr set" where
  "implicit_descs s = {ApdOf s, IpdOf s, ArdOf s, IrdOf s}"

text \<open>An application descriptor that a statement of connection \<open>c\<close> may use: its own implicit one
  or an explicit one of the same connection that exists.\<close>

definition usable :: "(desc_ptr \<Rightarrow> (nat \<times> 'a) option) \<Rightarrow> nat \<Rightarrow> desc_ptr \<Rightarrow> desc_ptr \<Rightarrow> bool" where
  "usable P c own p \<longleftrightarrow> p = own \<or> (\<exists>n x. p = ExplicitDesc n \<and> P p = Some (c, x))"

definition stmts_ok where
  "stmts_ok D S P \<longleftrightarrow> (\<forall>s c a p. S s = Some (c, a, p) \<longrightarrow>
     (\<exists>e v. D c = Some (e :: nat, v :: nat list) \<and> s \<in> set v)
     \<and> (\<forall>q \<in> implicit_descs s. \<exists>x. P q = Some (c, x)) \<and> usable P c (ArdOf s) a \<and> usable P c (ApdOf s) p)"

definition dbcs_ok where
  "dbcs_ok E D S \<longleftrightarrow> (\<forall>c e v. D c = Some (e :: nat, v :: nat list) \<longrightarrow>
     E e \<and> distinct v \<and> (\<forall>s \<in> set v. \<exists>x. S s = Some (c :: nat, x)))"

definition descs_ok where
  "descs_ok D P \<longleftrightarrow> (\<forall>q c self stm. P q = Some (c, self, stm) \<longrightarrow>
     self = q \<and> stm = (case q of IrdOf s \<Rightarrow> Some s | _ \<Rightarrow> None) \<and> (\<forall>n. q = ExplicitDesc n \<longrightarrow> D c \<noteq> None))"

definition fresh_ok where
  "fresh_ok E D S P n \<longleftrightarrow> (\<forall>a \<ge> n. \<not> E a \<and> D a = None \<and> S a = None \<and> P (ExplicitDesc a) = None
     \<and> (\<forall>q \<in> implicit_descs a. P q = None))"

definition world_ok :: "driver \<Rightarrow> bool" where
  "world_ok w \<longleftrightarrow> stmts_ok (dbc_shape w) (stmt_shape w) (desc_shape w)
     \<and> dbcs_ok (env_live w) (dbc_shape w) (stmt_shape w)
     \<and> descs_ok (dbc_shape w) (desc_shape w)
     \<and> fresh_ok (env_live w) (dbc_shape w) (stmt_shape w) (desc_shape w) (next_handle w)"

text \<open>Updates that keep all pointers keep the shape.\<close>

definition same_shape :: "driver \<Rightarrow> driver \<Rightarrow> bool" where
  "same_shape w w' \<longleftrightarrow> env_live w' = env_live w \<and> dbc_shape w' = dbc_shape w \<and> stmt_shape w' = stmt_shape w
     \<and> desc_shape w' = desc_shape w \<and> next_handle w' = next_handle w"

lemma same_shape_refl [simp, intro]: "same_shape w w"
  by (simp add: same_shape_def)

lemma same_shape_trans [trans]: "same_shape w w1 \<Longrightarrow> same_shape w1 w2 \<Longrightarrow> same_shape w w2"
  by (simp add: same_shape_def)

lemma same_shape_ok: "same_shape w w' \<Longrightarrow> world_ok w \<Longrightarrow> world_ok w'"
  by (simp add: same_shape_def world_ok_def)

lemma shape_put_stmt:
  "stmts w s = Some st \<Longrightarrow> stmt_dbc st' = stmt_dbc st \<Longrightarrow> GetARD st' = GetARD st \<Longrightarrow> GetAPD st' = GetAPD st
    \<Longrightarrow> same_shape w (put_stmt s st' w)"
  by (auto simp: same_shape_def env_live_def dbc_shape_def stmt_shape_def desc_shape_def fun_eq_iff)

lemma shape_put_desc:
  "descs w p = Some d \<Longrightarrow> desc_dbc d' = desc_dbc d \<Longrightarrow> desc_self d' = desc_self d \<Longrightarrow> desc_stmt d' = desc_stmt d
    \<Longrightarrow> same_shape w (put_desc p d' w)"
  by (auto simp: same_shape_def env_live_def dbc_shape_def stmt_shape_def desc_shape_def fun_eq_iff)

lemma shape_put_dbc:
  "dbcs w c = Some dbc \<Longrightarrow> dbc_env dbc' = dbc_env dbc \<Longrightarrow> vec_stmt_ref dbc' = vec_stmt_ref dbc
    \<Longrightarrow> same_shape w (put_dbc c dbc' w)"
  by (auto simp: same_shape_def env_live_def dbc_shape_def stmt_shape_def desc_shape_def fun_eq_iff)

lemma shape_put_env: "envs w e = Some h \<Longrightarrow> same_shape w (put_env e h' w)"
  by (auto simp: same_shape_def env_live_def dbc_shape_def stmt_shape_def desc_shape_def fun_eq_iff)

lemma set_header_shape: "set_header p f w = Some w' \<Longrightarrow> same_shape w w'"
  by (auto simp: set_header_def intro: shape_put_desc)

lemma set_records_shape: "set_records p f w = Some w' \<Longrightarrow> same_shape w w'"
  by (auto simp: set_records_def intro: shape_put_desc)

lemma set_header_live: "desc_shape w p \<noteq> None \<Longrightarrow> \<exists>w'. set_header p f w = Some w'"
  by (auto simp: set_header_def desc_shape_def)

lemma set_records_live: "desc_shape w p \<noteq> None \<Longrightarrow> \<exists>w'. set_records p f w = Some w'"
  by (auto simp: set_records_def desc_shape_def)

lemma set_header_stmts [simp]: "set_header p f w = Some w' \<Longrightarrow> stmts w' = stmts w"
  by (auto simp: set_header_def)

lemma set_records_stmts [simp]: "set_records p f w = Some w' \<Longrightarrow> stmts w' = stmts w"
  by (auto simp: set_records_def)

section \<open>Facts of a well-formed store\<close>

lemma stmt_facts:
  assumes "world_ok w" "stmts w s = Some st"
  obtains dbc where "dbcs w (stmt_dbc st) = Some dbc" "s \<in> set (vec_stmt_ref dbc)"
    "\<And>q. q \<in> implicit_descs s \<Longrightarrow> \<exists>x. desc_shape w q = Some (stmt_dbc st, x)"
    "usable (desc_shape w) (stmt_dbc st) (ArdOf s) (GetARD st)"
    "usable (desc_shape w) (stmt_dbc st) (ApdOf s) (GetAPD st)"
proof -
  have S: "stmt_shape w s = Some (stmt_dbc st, GetARD st, GetAPD st)" using assms(2) by (simp add: stmt_shape_def)
  obtain e v where "dbc_shape w (stmt_dbc st) = Some (e, v)" "s \<in> set v"
    using assms(1) S unfolding world_ok_def stmts_ok_def by blast
  then obtain dbc where "dbcs w (stmt_dbc st) = Some dbc" "s \<in> set (vec_stmt_ref dbc)"
    by (auto simp: dbc_shape_def)
  with that show ?thesis using assms(1) S unfolding world_ok_def stmts_ok_def by blast
qed

lemma usable_live:
  assumes "world_ok w" "stmts w s = Some st"
  shows "desc_shape w (ArdOf s) \<noteq> None" "desc_shape w (IrdOf s) \<noteq> None" "desc_shape w (ApdOf s) \<noteq> None"
    "desc_shape w (IpdOf s) \<noteq> None" "desc_shape w (GetARD st) \<noteq> None" "desc_shape w (GetAPD st) \<noteq> None"
  using assms stmt_facts [OF assms] unfolding usable_def implicit_descs_def by (metis insertCI option.distinct(1))+

lemma dbc_facts:
  assumes "world_ok w" "dbcs w c = Some dbc"
  shows "env_live w (dbc_env dbc)" "distinct (vec_stmt_ref dbc)"
    "\<And>s. s \<in> set (vec_stmt_ref dbc) \<Longrightarrow> \<exists>st. stmts w s = Some st \<and> stmt_dbc st = c"
proof -
  have "dbc_shape w c = Some (dbc_env dbc, vec_stmt_ref dbc)" using assms(2) by (simp add: dbc_shape_def)
  then show "env_live w (dbc_env dbc)" "distinct (vec_stmt_ref dbc)"
    "\<And>s. s \<in> set (vec_stmt_ref dbc) \<Longrightarrow> \<exists>st. stmts w s = Some st \<and> stmt_dbc st = c"
    using assms(1) unfolding world_ok_def dbcs_ok_def by (auto simp: stmt_shape_def)
qed

lemma shape_updates [simp]:
  "env_live (put_env e h w) = (env_live w)(e := True)" "dbc_shape (put_env e h w) = dbc_shape w"
  "stmt_shape (put_env e h w) = stmt_shape w" "desc_shape (put_env e h w) = desc_shape w"
  "env_live (put_dbc c d w) = env_live w" "stmt_shape (put_dbc c d w) = stmt_shape w"
  "desc_shape (put_dbc c d w) = desc_shape w"
  "dbc_shape (put_dbc c d w) = (dbc_shape w)(c \<mapsto> (dbc_env d, vec_stmt_ref d))"
  "env_live (put_stmt s st w) = env_live w" "dbc_shape (put_stmt s st w) = dbc_shape w"
  "desc_shape (put_stmt s st w) = desc_shape w"
  "stmt_shape (put_stmt s st w) = (stmt_shape w)(s \<mapsto> (stmt_dbc st, GetARD st, GetAPD st))"
  "env_live (put_desc p x w) = env_live w" "dbc_shape (put_desc p x w) = dbc_shape w"
  "stmt_shape (put_desc p x w) = stmt_shape w"
  "desc_shape (put_desc p x w) = (desc_shape w)(p \<mapsto> (desc_dbc x, desc_self x, desc_stmt x))"
  "env_live (w\<lparr>next_handle := n\<rparr>) = env_live w" "dbc_shape (w\<lparr>next_handle := n\<rparr>) = dbc_shape w"
  "stmt_shape (w\<lparr>next_handle := n\<rparr>) = stmt_shape w" "desc_shape (w\<lparr>next_handle := n\<rparr>) = desc_shape w"
  "env_live (w\<lparr>envs := E\<rparr>) = (\<lambda>e. E e \<noteq> None)" "dbc_shape (w\<lparr>envs := E\<rparr>) = dbc_shape w"
  "stmt_shape (w\<lparr>envs := E\<rparr>) = stmt_shape w" "desc_shape (w\<lparr>envs := E\<rparr>) = desc_shape w"
  "env_live (w\<lparr>descs := P\<rparr>) = env_live w" "dbc_shape (w\<lparr>descs := P\<rparr>) = dbc_shape w"
  "stmt_shape (w\<lparr>descs := P\<rparr>) = stmt_shape w"
  "env_live (w\<lparr>stmts := S\<rparr>) = env_live w" "dbc_shape (w\<lparr>stmts := S\<rparr>) = dbc_shape w"
  "desc_shape (w\<lparr>stmts := S\<rparr>) = desc_shape w"
  "env_live (w\<lparr>dbcs := D\<rparr>) = env_live w" "stmt_shape (w\<lparr>dbcs := D\<rparr>) = stmt_shape w"
  "desc_shape (w\<lparr>dbcs := D\<rparr>) = desc_shape w"
  by (auto simp: env_live_def dbc_shape_def stmt_shape_def desc_shape_def fun_eq_iff)

lemma shape_deletes [simp]:
  "desc_shape (w\<lparr>descs := (descs w)(p := None)\<rparr>) = (desc_shape w)(p := None)"
  "stmt_shape (w\<lparr>stmts := (stmts w)(s := None)\<rparr>) = (stmt_shape w)(s := None)"
  "dbc_shape (w\<lparr>dbcs := (dbcs w)(c := None)\<rparr>) = (dbc_shape w)(c := None)"
  by (auto simp: dbc_shape_def stmt_shape_def desc_shape_def fun_eq_iff)

section \<open>Conversions\<close>

definition convertible :: "driver \<Rightarrow> SQLHANDLE \<Rightarrow> bool" where
  "convertible w h \<longleftrightarrow> (case h of None \<Rightarrow> True | Some p \<Rightarrow> live w p)"

lemma stmt_post_shape: "stmts w s = Some st \<Longrightarrow> same_shape w (snd (stmt_post s st w ret c msg e sv))"
  by (auto simp: stmt_post_def post_on_def Let_def GetARD_def GetAPD_def split: prod.split
      intro!: shape_put_stmt)

lemma dbc_post_shape: "dbcs w c = Some d \<Longrightarrow> same_shape w (snd (dbc_post c d w ret caller msg e sv))"
  by (auto simp: dbc_post_def post_on_def Let_def split: prod.split intro!: shape_put_dbc)

lemma ConvertHSTMT_ok:
  assumes "world_ok w" "convertible w h"
  shows "\<exists>r w'. ConvertHSTMT w h = Some (r, w') \<and> same_shape w w'
    \<and> (\<forall>s. r = Inr s \<longrightarrow> h = Some (StmtPtr s) \<and> stmts w' s \<noteq> None)"
proof (cases "\<exists>s. h = Some (StmtPtr s)")
  case False
  then show ?thesis using assms(2)
    by (auto simp: ConvertHSTMT_def convertible_def split: option.split handle_ptr.split)
next
  case True
  then obtain s st where h: "h = Some (StmtPtr s)" "stmts w s = Some st"
    using assms(2) by (auto simp: convertible_def)
  obtain dbc where "dbcs w (stmt_dbc st) = Some dbc" using stmt_facts [OF assms(1) h(2)] by metis
  then show ?thesis
    using h stmt_post_shape [OF h(2), of SQL_ERROR "''dbc''" "''No database connection found''" ST_08003 "[]"]
    by (auto simp: ConvertHSTMT_def GetARD_def GetAPD_def split: prod.split intro!: shape_put_stmt)
qed

lemma ConvertConnection_ok:
  assumes "convertible w h"
  shows "\<exists>r w'. ConvertConnection w h = Some (r, w') \<and> same_shape w w'
    \<and> (\<forall>c. r = Inr c \<longrightarrow> h = Some (DbcPtr c) \<and> dbcs w' c \<noteq> None)"
proof (cases "\<exists>c. h = Some (DbcPtr c)")
  case False
  then show ?thesis using assms
    by (auto simp: ConvertConnection_def convertible_def split: option.split handle_ptr.split)
next
  case True
  then obtain c dbc where h: "h = Some (DbcPtr c)" "dbcs w c = Some dbc"
    using assms by (auto simp: convertible_def)
  then show ?thesis
    using dbc_post_shape [OF h(2), of SQL_ERROR "''dbc''" "''No database connection found''" ST_08003 "[]"]
    by (auto simp: ConvertConnection_def split: prod.split intro!: shape_put_dbc)
qed

text \<open>A handler whose body is safe on every well-formed store is safe.\<close>

lemma on_stmt_ok:
  assumes "world_ok w" "convertible w h"
    and "\<And>s st w'. h = Some (StmtPtr s) \<Longrightarrow> world_ok w' \<Longrightarrow> same_shape w w' \<Longrightarrow> stmts w' s = Some st
      \<Longrightarrow> \<exists>ret w''. body s st w' = Some (ret, w'') \<and> world_ok w''"
  shows "\<exists>ret w'. on_stmt w h body = Some (ret, w') \<and> world_ok w'"
proof -
  obtain r w1 where r: "ConvertHSTMT w h = Some (r, w1)" "same_shape w w1"
    "\<forall>s. r = Inr s \<longrightarrow> h = Some (StmtPtr s) \<and> stmts w1 s \<noteq> None"
    using ConvertHSTMT_ok [OF assms(1,2)] by blast
  have ok: "world_ok w1" using same_shape_ok [OF r(2) assms(1)] .
  show ?thesis
  proof (cases r)
    case (Inl ret)
    then show ?thesis using r ok by (simp add: on_stmt_def)
  next
    case (Inr s)
    then obtain st where "stmts w1 s = Some st" using r(3) by blast
    then show ?thesis using r Inr ok assms(3) [of s w1 st] by (auto simp: on_stmt_def)
  qed
qed

section \<open>Operations that keep the shape\<close>

lemma ParameterDescriptor_Reset_ok:
  assumes "world_ok w" "stmts w s = Some st0" "stmt_dbc st = stmt_dbc st0" "GetARD st = GetARD st0" "GetAPD st = GetAPD st0"
  shows "\<exists>w'. ParameterDescriptor_Reset s st w = Some w' \<and> same_shape w w'"
proof -
  note L = usable_live [OF assms(1,2)]
  obtain w1 where w1: "set_header (IpdOf s) (\<lambda>h. h\<lparr>sql_desc_count := 0\<rparr>) w = Some w1"
    using set_header_live L(4) by blast
  have "desc_shape w1 (GetAPD st) \<noteq> None"
    using set_header_shape [OF w1] L(6) assms(5) by (simp add: same_shape_def)
  then obtain w2 where w2: "set_header (GetAPD st) (\<lambda>h. h\<lparr>sql_desc_count := 0\<rparr>) w1 = Some w2"
    using set_header_live by blast
  have "same_shape w w2" using set_header_shape w1 w2 same_shape_trans by blast
  moreover have "stmts w2 s = Some st0" using w1 w2 assms(2) by simp
  ultimately show ?thesis
    using w1 w2 assms shape_put_stmt [of w2 s st0]
    by (auto simp: ParameterDescriptor_Reset_def GetARD_def GetAPD_def intro: same_shape_trans)
qed

lemma ParameterDescriptor_Clear_ok:
  assumes "world_ok w" "stmts w s = Some st"
  shows "\<exists>w'. ParameterDescriptor_Clear s st w = Some w' \<and> same_shape w w'"
proof -
  note L = usable_live [OF assms]
  obtain w1 where w1: "set_records (IpdOf s) (\<lambda>d. []) w = Some w1" using set_records_live L(4) by blast
  have "desc_shape w1 (GetAPD st) \<noteq> None" using set_records_shape [OF w1] L(6) by (simp add: same_shape_def)
  then obtain w2 where w2: "set_records (GetAPD st) (\<lambda>d. []) w1 = Some w2" using set_records_live by blast
  have ss: "same_shape w w2" using set_records_shape w1 w2 same_shape_trans by blast
  obtain w' where "ParameterDescriptor_Reset s st w2 = Some w'" "same_shape w2 w'"
    using ParameterDescriptor_Reset_ok [OF same_shape_ok [OF ss assms(1)], of s st st] w1 w2 assms(2) by auto
  then show ?thesis using w1 w2 ss same_shape_trans by (auto simp: ParameterDescriptor_Clear_def)
qed

lemma CloseStmt_ok:
  assumes "world_ok w" "stmts w s = Some st"
  shows "\<exists>ret w'. CloseStmt s st w = Some (ret, w') \<and> world_ok w'"
proof -
  obtain w' where "stmt_Close s st w = Some w'" "same_shape w w'"
    unfolding stmt_Close_def
    using ParameterDescriptor_Reset_ok [OF assms, of "st\<lparr>stmt_open := False, stmt_res := None,
      odbc_fetcher := ClearChunks (odbc_fetcher st)\<rparr>"]
    by (auto simp: GetARD_def GetAPD_def)
  then show ?thesis using same_shape_ok assms(1) by (auto simp: CloseStmt_def)
qed

section \<open>Freeing handles\<close>

text \<open>Removing statement \<open>s\<close> from its connection and from the store.\<close>

lemma delete_stmt_shape:
  assumes "delete_stmt s w = Some w'"
  shows "env_live w' = env_live w" "dbc_shape w' = dbc_shape w" "stmt_shape w' = (stmt_shape w)(s := None)"
    "desc_shape w' = (\<lambda>p. if p \<in> implicit_descs s then None else desc_shape w p)" "next_handle w' = next_handle w"
  using assms
  by (auto simp: delete_stmt_def env_live_def dbc_shape_def stmt_shape_def desc_shape_def fun_eq_iff
      implicit_descs_def split: if_splits)

lemma implicit_disjoint:
  "s \<noteq> s' \<Longrightarrow> q \<in> implicit_descs s' \<Longrightarrow> q \<notin> implicit_descs s"
  "ExplicitDesc n \<notin> implicit_descs s"
  by (auto simp: implicit_descs_def)

lemma FreeHandle_stmt_ok:
  assumes "world_ok w" "stmts w s = Some st"
  shows "\<exists>w'. FreeHandle SQL_HANDLE_STMT (Some (StmtPtr s)) w = Some (SQL_SUCCESS, w') \<and> world_ok w'
    \<and> stmts w' s = None"
proof -
  obtain dbc where dbc: "dbcs w (stmt_dbc st) = Some dbc" "s \<in> set (vec_stmt_ref dbc)"
    using stmt_facts [OF assms] by metis
  define w1 where "w1 = put_dbc (stmt_dbc st) (EraseStmtRef dbc s) w"
  obtain w' where w': "delete_stmt s w1 = Some w'"
    using assms(2) by (simp add: delete_stmt_def w1_def)
  have D: "dbc_shape w (stmt_dbc st) = Some (dbc_env dbc, vec_stmt_ref dbc)" using dbc by (simp add: dbc_shape_def)
  have S: "stmt_shape w s = Some (stmt_dbc st, GetARD st, GetAPD st)" using assms(2) by (simp add: stmt_shape_def)
  note sh = delete_stmt_shape [OF w', unfolded w1_def EraseStmtRef_def, simplified]
  have dist: "distinct (vec_stmt_ref dbc)" using dbc_facts(2) [OF assms(1) dbc(1)] .
  have "stmts_ok (dbc_shape w') (stmt_shape w') (desc_shape w')"
    unfolding stmts_ok_def
  proof (intro allI impI)
    fix s' c a p assume "stmt_shape w' s' = Some (c, a, p)"
    then have s': "s' \<noteq> s" "stmt_shape w s' = Some (c, a, p)" by (auto simp: sh split: if_splits)
    then have old: "(\<exists>e v. dbc_shape w c = Some (e, v) \<and> s' \<in> set v)"
      "\<forall>q \<in> implicit_descs s'. \<exists>x. desc_shape w q = Some (c, x)"
      "usable (desc_shape w) c (ArdOf s') a" "usable (desc_shape w) c (ApdOf s') p"
      using assms(1) unfolding world_ok_def stmts_ok_def by blast+
    show "(\<exists>e v. dbc_shape w' c = Some (e, v) \<and> s' \<in> set v)
      \<and> (\<forall>q \<in> implicit_descs s'. \<exists>x. desc_shape w' q = Some (c, x))
      \<and> usable (desc_shape w') c (ArdOf s') a \<and> usable (desc_shape w') c (ApdOf s') p"
      using old s'(1) D by (auto simp: sh usable_def implicit_disjoint)
  qed
  moreover have "dbcs_ok (env_live w') (dbc_shape w') (stmt_shape w')"
  proof -
    have "c = stmt_dbc st" if "dbc_shape w c = Some (e, v)" "s \<in> set v" for c e v
      using assms(1) S that unfolding world_ok_def dbcs_ok_def by fastforce
    then show ?thesis
      using assms(1) D dist S unfolding world_ok_def dbcs_ok_def sh by auto
  qed
  moreover have "descs_ok (dbc_shape w') (desc_shape w')"
    using assms(1) D unfolding world_ok_def descs_ok_def sh by (auto split: if_splits)
  moreover have "fresh_ok (env_live w') (dbc_shape w') (stmt_shape w') (desc_shape w') (next_handle w')"
    using assms(1) D unfolding world_ok_def fresh_ok_def sh by (auto simp: w1_def)
  ultimately have "world_ok w'" by (simp add: world_ok_def)
  then show ?thesis
    using assms(2) dbc w' delete_stmt_shape(3) [OF w']
    by (auto simp: FreeHandle_def w1_def stmt_shape_def fun_eq_iff split: if_splits)
qed

text \<open>Destroying a connection destroys its statements.\<close>

lemma delete_stmts_shape:
  assumes "distinct ss" "\<forall>s \<in> set ss. stmts w s \<noteq> None"
  shows "\<exists>w'. delete_stmts ss w = Some w' \<and> env_live w' = env_live w \<and> dbc_shape w' = dbc_shape w
    \<and> stmt_shape w' = (\<lambda>s. if s \<in> set ss then None else stmt_shape w s)
    \<and> desc_shape w' = (\<lambda>p. if \<exists>s \<in> set ss. p \<in> implicit_descs s then None else desc_shape w p)
    \<and> next_handle w' = next_handle w \<and> dbcs w' = dbcs w"
  using assms
proof (induction ss arbitrary: w)
  case Nil
  then show ?case by simp
next
  case (Cons s ss)
  obtain w1 where w1: "delete_stmt s w = Some w1" using Cons.prems by (auto simp: delete_stmt_def)
  have "stmts w1 = (stmts w)(s := None)" "dbcs w1 = dbcs w" using w1 by (auto simp: delete_stmt_def split: if_splits)
  then have "\<forall>s' \<in> set ss. stmts w1 s' \<noteq> None" using Cons.prems by auto
  from Cons.IH [OF _ this] Cons.prems obtain w' where w': "delete_stmts ss w1 = Some w'" "env_live w' = env_live w1"
    "dbc_shape w' = dbc_shape w1" "stmt_shape w' = (\<lambda>s. if s \<in> set ss then None else stmt_shape w1 s)"
    "desc_shape w' = (\<lambda>p. if \<exists>s \<in> set ss. p \<in> implicit_descs s then None else desc_shape w1 p)"
    "next_handle w' = next_handle w1" "dbcs w' = dbcs w1" by auto
  then show ?case
    using w1 delete_stmt_shape [OF w1] \<open>dbcs w1 = dbcs w\<close> by (auto simp: fun_eq_iff)
qed

lemma FreeHandle_dbc_ok:
  assumes "world_ok w" "dbcs w c = Some dbc" "\<And>n d. descs w (ExplicitDesc n) = Some d \<Longrightarrow> desc_dbc d \<noteq> c"
  shows "\<exists>w'. FreeHandle SQL_HANDLE_DBC (Some (DbcPtr c)) w = Some (SQL_SUCCESS, w') \<and> world_ok w'"
proof -
  let ?ss = "vec_stmt_ref dbc"
  have D: "dbc_shape w c = Some (dbc_env dbc, ?ss)" using assms(2) by (simp add: dbc_shape_def)
  have mem: "s \<in> set ?ss \<longleftrightarrow> (\<exists>x. stmt_shape w s = Some (c, x))" for s
    using assms(1) D unfolding world_ok_def dbcs_ok_def stmts_ok_def
    by (metis option.inject prod.inject surj_pair)
  have alive: "\<forall>s \<in> set ?ss. stmts w s \<noteq> None" using dbc_facts(3) [OF assms(1,2)] by blast
  obtain w1 where w1: "delete_stmts ?ss w = Some w1" "env_live w1 = env_live w" "dbc_shape w1 = dbc_shape w"
    "stmt_shape w1 = (\<lambda>s. if s \<in> set ?ss then None else stmt_shape w s)"
    "desc_shape w1 = (\<lambda>p. if \<exists>s \<in> set ?ss. p \<in> implicit_descs s then None else desc_shape w p)"
    "next_handle w1 = next_handle w" "dbcs w1 = dbcs w"
    using delete_stmts_shape [OF dbc_facts(2) [OF assms(1,2)] alive] by blast
  define w' where "w' = w1\<lparr>dbcs := (dbcs w1)(c := None)\<rparr>"
  have sh: "env_live w' = env_live w" "dbc_shape w' = (dbc_shape w)(c := None)"
    "stmt_shape w' = (\<lambda>s. if s \<in> set ?ss then None else stmt_shape w s)"
    "desc_shape w' = (\<lambda>p. if \<exists>s \<in> set ?ss. p \<in> implicit_descs s then None else desc_shape w p)"
    "next_handle w' = next_handle w"
    using w1(2-6) by (simp_all add: w'_def)
  have expl: "desc_shape w (ExplicitDesc n) \<noteq> Some (c, x)" for n x
    using assms(3) by (auto simp: desc_shape_def)
  have "stmts_ok (dbc_shape w') (stmt_shape w') (desc_shape w')"
    unfolding stmts_ok_def
  proof (intro allI impI)
    fix s' c' a p assume "stmt_shape w' s' = Some (c', a, p)"
    then have s': "s' \<notin> set ?ss" "stmt_shape w s' = Some (c', a, p)" by (auto simp: sh split: if_splits)
    then have "c' \<noteq> c" using mem by auto
    moreover have "(\<exists>e v. dbc_shape w c' = Some (e, v) \<and> s' \<in> set v)"
      "\<forall>q \<in> implicit_descs s'. \<exists>x. desc_shape w q = Some (c', x)"
      "usable (desc_shape w) c' (ArdOf s') a" "usable (desc_shape w) c' (ApdOf s') p"
      using assms(1) s' unfolding world_ok_def stmts_ok_def by blast+
    ultimately show "(\<exists>e v. dbc_shape w' c' = Some (e, v) \<and> s' \<in> set v)
      \<and> (\<forall>q \<in> implicit_descs s'. \<exists>x. desc_shape w' q = Some (c', x))
      \<and> usable (desc_shape w') c' (ArdOf s') a \<and> usable (desc_shape w') c' (ApdOf s') p"
      using s'(1) implicit_disjoint by (auto simp: sh usable_def) (metis implicit_disjoint(1))+
  qed
  moreover have "dbcs_ok (env_live w') (dbc_shape w') (stmt_shape w')"
    unfolding dbcs_ok_def
  proof (intro allI impI)
    fix c' e v assume "dbc_shape w' c' = Some (e, v)"
    then have "c' \<noteq> c" "dbc_shape w c' = Some (e, v)" by (auto simp: sh split: if_splits)
    then show "env_live w' e \<and> distinct v \<and> (\<forall>s \<in> set v. \<exists>x. stmt_shape w' s = Some (c', x))"
      using assms(1) mem unfolding world_ok_def dbcs_ok_def sh by fastforce
  qed
  moreover have "descs_ok (dbc_shape w') (desc_shape w')"
    using assms(1) expl unfolding world_ok_def descs_ok_def sh by (auto split: if_splits)
  moreover have "fresh_ok (env_live w') (dbc_shape w') (stmt_shape w') (desc_shape w') (next_handle w')"
    using assms(1) unfolding world_ok_def fresh_ok_def sh by auto
  ultimately have "world_ok w'" by (simp add: world_ok_def)
  then show ?thesis using assms(2) w1(1) by (simp add: FreeHandle_def delete_dbc_def w'_def)
qed

text \<open>Freeing an explicit descriptor sends the statements that use it back to their own.\<close>

definition redirect :: "desc_ptr \<Rightarrow> nat \<Rightarrow> nat \<times> desc_ptr \<times> desc_ptr \<Rightarrow> nat \<times> desc_ptr \<times> desc_ptr" where
  "redirect p s x = (case x of (c, a, q) \<Rightarrow> (c, if a = p then ArdOf s else a, if q = p then ApdOf s else q))"

lemma ResetStmtDescriptors_shape:
  assumes "\<forall>s \<in> set ss. stmts w s \<noteq> None" "distinct ss"
  shows "\<exists>w'. ResetStmtDescriptors ss p w = Some w' \<and> env_live w' = env_live w \<and> dbc_shape w' = dbc_shape w
    \<and> stmt_shape w' = (\<lambda>s. if s \<in> set ss then map_option (redirect p s) (stmt_shape w s) else stmt_shape w s)
    \<and> desc_shape w' = desc_shape w \<and> next_handle w' = next_handle w"
  using assms
proof (induction ss arbitrary: w)
  case Nil
  then show ?case by simp
next
  case (Cons s ss)
  then obtain st where st: "stmts w s = Some st" by auto
  define st1 where "st1 = (if GetAPD st = p then ResetCurrentAPD s st else st)"
  define st2 where "st2 = (if GetARD st1 = p then ResetCurrentARD s st1 else st1)"
  have sh: "stmt_shape (put_stmt s st2 w) = (stmt_shape w)(s := map_option (redirect p s) (stmt_shape w s))"
    using st by (auto simp: stmt_shape_def redirect_def st1_def st2_def GetARD_def GetAPD_def
        ResetCurrentAPD_def ResetCurrentARD_def fun_eq_iff)
  have "\<forall>s' \<in> set ss. stmts (put_stmt s st2 w) s' \<noteq> None" using Cons.prems by auto
  from Cons.IH [OF this] Cons.prems obtain w' where w': "ResetStmtDescriptors ss p (put_stmt s st2 w) = Some w'"
    "env_live w' = env_live w" "dbc_shape w' = dbc_shape w"
    "stmt_shape w' = (\<lambda>s'. if s' \<in> set ss then map_option (redirect p s') (stmt_shape (put_stmt s st2 w) s')
       else stmt_shape (put_stmt s st2 w) s')"
    "desc_shape w' = desc_shape w" "next_handle w' = next_handle w" by auto
  have "ResetStmtDescriptors (s # ss) p w = Some w'"
    using st w'(1) unfolding st2_def st1_def by (simp add: Let_def split del: if_split)
  moreover have "stmt_shape w' = (\<lambda>s'. if s' \<in> set (s # ss) then map_option (redirect p s') (stmt_shape w s')
      else stmt_shape w s')"
    unfolding w'(4) sh using Cons.prems(2) by (auto simp: fun_eq_iff)
  ultimately show ?case using w'(2,3,5,6) by blast
qed

lemma FreeHandle_desc_ok:
  assumes "world_ok w" "descs w (ExplicitDesc n) = Some d"
  shows "\<exists>w'. FreeHandle SQL_HANDLE_DESC (Some (DescPtr (ExplicitDesc n))) w = Some (SQL_SUCCESS, w') \<and> world_ok w'
    \<and> descs w' (ExplicitDesc n) = None"
proof -
  let ?p = "ExplicitDesc n"
  have P: "desc_shape w ?p = Some (desc_dbc d, desc_self d, desc_stmt d)" using assms(2) by (simp add: desc_shape_def)
  then obtain dbc where dbc: "dbcs w (desc_dbc d) = Some dbc"
    using assms(1) unfolding world_ok_def descs_ok_def by (fastforce simp: dbc_shape_def)
  have D: "dbc_shape w (desc_dbc d) = Some (dbc_env dbc, vec_stmt_ref dbc)" using dbc by (simp add: dbc_shape_def)
  have alive: "\<forall>s \<in> set (vec_stmt_ref dbc). stmts w s \<noteq> None" using dbc_facts(3) [OF assms(1) dbc] by blast
  obtain w1 where w1: "ResetStmtDescriptors (vec_stmt_ref dbc) ?p w = Some w1" "env_live w1 = env_live w"
    "dbc_shape w1 = dbc_shape w" "stmt_shape w1 = (\<lambda>s. if s \<in> set (vec_stmt_ref dbc)
       then map_option (redirect ?p s) (stmt_shape w s) else stmt_shape w s)"
    "desc_shape w1 = desc_shape w" "next_handle w1 = next_handle w"
    using ResetStmtDescriptors_shape [OF alive dbc_facts(2) [OF assms(1) dbc]] by blast
  define w' where "w' = w1\<lparr>descs := (descs w1)(?p := None)\<rparr>"
  have sh: "env_live w' = env_live w" "dbc_shape w' = dbc_shape w" "stmt_shape w' = stmt_shape w1"
    "desc_shape w' = (desc_shape w)(?p := None)" "next_handle w' = next_handle w"
    using w1 by (simp_all add: w'_def)
  have "stmts_ok (dbc_shape w') (stmt_shape w') (desc_shape w')"
    unfolding stmts_ok_def
  proof (intro allI impI)
    fix s c a q assume *: "stmt_shape w' s = Some (c, a, q)"
    then obtain a0 q0 where old: "stmt_shape w s = Some (c, a0, q0)"
      and new: "s \<in> set (vec_stmt_ref dbc) \<Longrightarrow> redirect ?p s (c, a0, q0) = (c, a, q)"
        "s \<notin> set (vec_stmt_ref dbc) \<Longrightarrow> a = a0 \<and> q = q0"
      by (auto simp: sh w1 redirect_def split: if_splits)
    have inv: "(\<exists>e v. dbc_shape w c = Some (e, v) \<and> s \<in> set v)"
      "\<forall>q \<in> implicit_descs s. \<exists>x. desc_shape w q = Some (c, x)"
      "usable (desc_shape w) c (ArdOf s) a0" "usable (desc_shape w) c (ApdOf s) q0"
      using assms(1) old unfolding world_ok_def stmts_ok_def by blast+
    have "c \<noteq> desc_dbc d" if "s \<notin> set (vec_stmt_ref dbc)" using inv(1) D that by auto
    then have "a \<noteq> ?p" "q \<noteq> ?p"
      using new inv(3,4) P by (cases "s \<in> set (vec_stmt_ref dbc)";
          auto simp: redirect_def usable_def split: if_splits)+
    moreover have "usable (desc_shape w) c (ArdOf s) a" "usable (desc_shape w) c (ApdOf s) q"
      using new inv(3,4) by (cases "s \<in> set (vec_stmt_ref dbc)";
          auto simp: redirect_def usable_def split: if_splits)+
    ultimately show "(\<exists>e v. dbc_shape w' c = Some (e, v) \<and> s \<in> set v)
      \<and> (\<forall>q \<in> implicit_descs s. \<exists>x. desc_shape w' q = Some (c, x))
      \<and> usable (desc_shape w') c (ArdOf s) a \<and> usable (desc_shape w') c (ApdOf s) q"
      using inv(1,2) implicit_disjoint(2) [of n s] by (auto simp: sh usable_def)
  qed
  moreover have "dbcs_ok (env_live w') (dbc_shape w') (stmt_shape w')"
    using assms(1) unfolding world_ok_def dbcs_ok_def sh w1 by (fastforce simp: redirect_def)
  moreover have "descs_ok (dbc_shape w') (desc_shape w')"
    using assms(1) unfolding world_ok_def descs_ok_def sh by auto
  moreover have "fresh_ok (env_live w') (dbc_shape w') (stmt_shape w') (desc_shape w') (next_handle w')"
    using assms(1) unfolding world_ok_def fresh_ok_def sh w1 by auto
  ultimately have "world_ok w'" by (simp add: world_ok_def)
  then show ?thesis using assms(2) dbc w1(1) by (simp add: FreeHandle_def w'_def)
qed

lemma FreeHandle_env_ok:
  assumes "world_ok w" "envs w e = Some h" "\<And>c dbc. dbcs w c = Some dbc \<Longrightarrow> dbc_env dbc \<noteq> e"
  shows "\<exists>w'. FreeHandle SQL_HANDLE_ENV (Some (EnvPtr e)) w = Some (SQL_SUCCESS, w') \<and> world_ok w'"
proof -
  have "dbc_shape w c \<noteq> Some (e, v)" for c v using assms(3) by (auto simp: dbc_shape_def)
  then have "world_ok (w\<lparr>envs := (envs w)(e := None)\<rparr>)"
    using assms(1) unfolding world_ok_def stmts_ok_def dbcs_ok_def descs_ok_def fresh_ok_def env_live_def by auto
  then show ?thesis using assms(2) by (simp add: FreeHandle_def)
qed

section \<open>Allocating handles\<close>

lemma fresh_facts:
  assumes "world_ok w" "next_handle w \<le> a"
  shows "\<not> env_live w a" "dbc_shape w a = None" "stmt_shape w a = None" "desc_shape w (ExplicitDesc a) = None"
    "\<And>q. q \<in> implicit_descs a \<Longrightarrow> desc_shape w q = None"
  using assms unfolding world_ok_def fresh_ok_def by auto

lemma new_stmt_shape:
  "env_live (new_stmt g s c w) = env_live w" "dbc_shape (new_stmt g s c w) = dbc_shape w"
  "stmt_shape (new_stmt g s c w) = (stmt_shape w)(s \<mapsto> (c, ArdOf s, ApdOf s))"
  "desc_shape (new_stmt g s c w) = (\<lambda>p. if p \<in> implicit_descs s
     then Some (c, p, if p = IrdOf s then Some s else None) else desc_shape w p)"
  "next_handle (new_stmt g s c w) = next_handle w"
  by (auto simp: new_stmt_def Let_def make_OdbcHandleStmt_def make_OdbcHandleDesc_def GetARD_def GetAPD_def
      implicit_descs_def fun_eq_iff)

lemma fresh_ok_Suc:
  assumes "fresh_ok E D S P n"
  shows "fresh_ok (E(n := x)) D S P (Suc n)" "fresh_ok E (D(n := y)) S P (Suc n)"
    "fresh_ok E D S (P(ExplicitDesc n := z)) (Suc n)"
  using assms implicit_disjoint(2) unfolding fresh_ok_def by (auto dest: Suc_leD)

lemma new_env_ok:
  assumes "world_ok w"
  shows "world_ok (put_env (next_handle w) h (w\<lparr>next_handle := Suc (next_handle w)\<rparr>))"
  using assms fresh_ok_Suc(1) unfolding world_ok_def dbcs_ok_def by auto

lemma new_dbc_ok:
  assumes "world_ok w" "envs w e \<noteq> None"
  shows "world_ok (put_dbc (next_handle w) (make_OdbcHandleDbc m e) (w\<lparr>next_handle := Suc (next_handle w)\<rparr>))"
proof -
  have f: "dbc_shape w (next_handle w) = None" "env_live w e" using fresh_facts assms by (auto simp: env_live_def)
  have w: "stmts_ok (dbc_shape w) (stmt_shape w) (desc_shape w)" "dbcs_ok (env_live w) (dbc_shape w) (stmt_shape w)"
    "descs_ok (dbc_shape w) (desc_shape w)" using assms(1) by (simp_all add: world_ok_def)
  let ?D = "(dbc_shape w)(next_handle w \<mapsto> (e, []))"
  have keep: "?D c = Some (e', v)" if "dbc_shape w c = Some (e', v)" for c e' v using that f(1) by auto
  have "stmts_ok ?D (stmt_shape w) (desc_shape w)"
    using w(1) keep unfolding stmts_ok_def by meson
  moreover have "dbcs_ok (env_live w) ?D (stmt_shape w)"
    using w(2) f(2) unfolding dbcs_ok_def by auto
  moreover have "descs_ok ?D (desc_shape w)"
    using w(3) keep unfolding descs_ok_def by auto
  ultimately show ?thesis
    using assms(1) unfolding world_ok_def by (simp add: make_OdbcHandleDbc_def fresh_ok_Suc)
qed

lemma new_desc_ok:
  assumes "world_ok w" "dbcs w c \<noteq> None"
  shows "world_ok (put_desc (ExplicitDesc (next_handle w))
    (make_OdbcHandleDesc (ExplicitDesc (next_handle w)) r c None False) (w\<lparr>next_handle := Suc (next_handle w)\<rparr>))"
proof -
  let ?n = "ExplicitDesc (next_handle w)"
  have f: "desc_shape w ?n = None" "dbc_shape w c \<noteq> None"
    using fresh_facts assms by (auto simp: dbc_shape_def)
  have w: "stmts_ok (dbc_shape w) (stmt_shape w) (desc_shape w)" "descs_ok (dbc_shape w) (desc_shape w)"
    using assms(1) by (simp_all add: world_ok_def)
  let ?P = "(desc_shape w)(?n \<mapsto> (c, ?n, None))"
  have keep: "?P q = Some x" if "desc_shape w q = Some x" for q x using that f(1) by auto
  have u: "usable ?P c' own p" if "usable (desc_shape w) c' own p" for c' own p
    using that f(1) unfolding usable_def by auto
  have "stmts_ok (dbc_shape w) (stmt_shape w) ?P"
    using w(1) keep u unfolding stmts_ok_def by meson
  moreover have "descs_ok (dbc_shape w) ?P"
    using w(2) f(2) unfolding descs_ok_def by auto
  ultimately show ?thesis
    using assms(1) unfolding world_ok_def by (simp add: make_OdbcHandleDesc_def fresh_ok_Suc)
qed

lemma new_stmt_ok:
  assumes "world_ok w" "dbcs w c = Some dbc" "a = next_handle w"
  shows "world_ok (new_stmt g a c (put_dbc c (dbc\<lparr>vec_stmt_ref := vec_stmt_ref dbc @ [a]\<rparr>) (w\<lparr>next_handle := Suc a\<rparr>)))"
    (is "world_ok ?w")
proof -
  note f = fresh_facts [OF assms(1), of a, unfolded assms(3), simplified, folded assms(3)]
  have D: "dbc_shape w c = Some (dbc_env dbc, vec_stmt_ref dbc)" using assms(2) by (simp add: dbc_shape_def)
  have notin: "a \<notin> set v" if "dbc_shape w c' = Some (e, v)" for c' e v
    using assms(1) f(3) that unfolding world_ok_def dbcs_ok_def by fastforce
  have "stmts_ok (dbc_shape ?w) (stmt_shape ?w) (desc_shape ?w)"
    unfolding stmts_ok_def
  proof (intro allI impI)
    fix s c' x p assume *: "stmt_shape ?w s = Some (c', x, p)"
    show "(\<exists>e v. dbc_shape ?w c' = Some (e, v) \<and> s \<in> set v)
      \<and> (\<forall>q \<in> implicit_descs s. \<exists>x. desc_shape ?w q = Some (c', x))
      \<and> usable (desc_shape ?w) c' (ArdOf s) x \<and> usable (desc_shape ?w) c' (ApdOf s) p"
    proof (cases "s = a")
      case True
      then show ?thesis using * by (auto simp: new_stmt_shape usable_def)
    next
      case False
      then have "(\<exists>e v. dbc_shape w c' = Some (e, v) \<and> s \<in> set v)"
        "\<forall>q \<in> implicit_descs s. \<exists>x. desc_shape w q = Some (c', x)"
        "usable (desc_shape w) c' (ArdOf s) x" "usable (desc_shape w) c' (ApdOf s) p"
        using * assms(1) unfolding world_ok_def stmts_ok_def by (fastforce simp: new_stmt_shape)+
      then show ?thesis
        using False D by (auto simp: new_stmt_shape usable_def implicit_disjoint)
    qed
  qed
  moreover have "dbcs_ok (env_live ?w) (dbc_shape ?w) (stmt_shape ?w)"
    unfolding dbcs_ok_def
  proof (intro allI impI)
    fix c' e v assume *: "dbc_shape ?w c' = Some (e, v)"
    then obtain v0 where v0: "dbc_shape w c' = Some (e, v0)" "v = (if c' = c then v0 @ [a] else v0)"
      using D by (auto simp: new_stmt_shape split: if_splits)
    then have "env_live w e" "distinct v0" "\<forall>s \<in> set v0. \<exists>x. stmt_shape w s = Some (c', x)"
      using assms(1) unfolding world_ok_def dbcs_ok_def by blast+
    then show "env_live ?w e \<and> distinct v \<and> (\<forall>s \<in> set v. \<exists>x. stmt_shape ?w s = Some (c', x))"
      using v0 notin [OF v0(1)] by (auto simp: new_stmt_shape)
  qed
  moreover have "descs_ok (dbc_shape ?w) (desc_shape ?w)"
    using assms(1) unfolding world_ok_def descs_ok_def
    by (auto simp: new_stmt_shape implicit_descs_def split: if_splits)
  moreover have "fresh_ok (env_live ?w) (dbc_shape ?w) (stmt_shape ?w) (desc_shape ?w) (next_handle ?w)"
    unfolding fresh_ok_def
  proof (intro allI impI)
    fix x assume "next_handle ?w \<le> x"
    then have x: "next_handle w \<le> x" "x \<noteq> a" using assms(3) by (auto simp: new_stmt_shape)
    note fx = fresh_facts [OF assms(1) x(1)]
    have "x \<noteq> c" using fx(2) D by auto
    then show "\<not> env_live ?w x \<and> dbc_shape ?w x = None \<and> stmt_shape ?w x = None
      \<and> desc_shape ?w (ExplicitDesc x) = None \<and> (\<forall>q \<in> implicit_descs x. desc_shape ?w q = None)"
      using fx x(2) implicit_disjoint by (auto simp: new_stmt_shape)
  qed
  ultimately show ?thesis by (simp add: world_ok_def)
qed

section \<open>Statement attributes\<close>

lemma use_explicit_ard:
  assumes "world_ok w" "stmts w s = Some st" "usable (desc_shape w) (stmt_dbc st) (ArdOf s) p"
    and "stmt_dbc st' = stmt_dbc st" "GetARD st' = p" "GetAPD st' = GetAPD st"
  shows "world_ok (put_stmt s st' w)"
proof -
  have S: "stmt_shape w s = Some (stmt_dbc st, GetARD st, GetAPD st)" using assms(2) by (simp add: stmt_shape_def)
  have w: "stmts_ok (dbc_shape w) (stmt_shape w) (desc_shape w)" "dbcs_ok (env_live w) (dbc_shape w) (stmt_shape w)"
    "fresh_ok (env_live w) (dbc_shape w) (stmt_shape w) (desc_shape w) (next_handle w)"
    using assms(1) by (simp_all add: world_ok_def)
  let ?S = "(stmt_shape w)(s \<mapsto> (stmt_dbc st, p, GetAPD st))"
  have "stmts_ok (dbc_shape w) ?S (desc_shape w)"
    using w(1) S assms(3) unfolding stmts_ok_def by simp
  moreover have "dbcs_ok (env_live w) (dbc_shape w) ?S"
    using w(2) S unfolding dbcs_ok_def by fastforce
  moreover have "fresh_ok (env_live w) (dbc_shape w) ?S (desc_shape w) (next_handle w)"
    using w(3) S unfolding fresh_ok_def by auto
  ultimately show ?thesis using assms(1,4-6) by (simp add: world_ok_def)
qed

lemma use_explicit_apd:
  assumes "world_ok w" "stmts w s = Some st" "usable (desc_shape w) (stmt_dbc st) (ApdOf s) p"
    and "stmt_dbc st' = stmt_dbc st" "GetAPD st' = p" "GetARD st' = GetARD st"
  shows "world_ok (put_stmt s st' w)"
proof -
  have S: "stmt_shape w s = Some (stmt_dbc st, GetARD st, GetAPD st)" using assms(2) by (simp add: stmt_shape_def)
  have w: "stmts_ok (dbc_shape w) (stmt_shape w) (desc_shape w)" "dbcs_ok (env_live w) (dbc_shape w) (stmt_shape w)"
    "fresh_ok (env_live w) (dbc_shape w) (stmt_shape w) (desc_shape w) (next_handle w)"
    using assms(1) by (simp_all add: world_ok_def)
  let ?S = "(stmt_shape w)(s \<mapsto> (stmt_dbc st, GetARD st, p))"
  have "stmts_ok (dbc_shape w) ?S (desc_shape w)"
    using w(1) S assms(3) unfolding stmts_ok_def by simp
  moreover have "dbcs_ok (env_live w) (dbc_shape w) ?S"
    using w(2) S unfolding dbcs_ok_def by fastforce
  moreover have "fresh_ok (env_live w) (dbc_shape w) ?S (desc_shape w) (next_handle w)"
    using w(3) S unfolding fresh_ok_def by auto
  ultimately show ?thesis using assms(1,4-6) by (simp add: world_ok_def)
qed

lemma set_header_ok:
  assumes "world_ok w" "desc_shape w p \<noteq> None"
  shows "\<exists>w'. set_header p f w = Some w' \<and> world_ok w'"
  using set_header_live [OF assms(2)] set_header_shape same_shape_ok assms(1) by blast

lemma SetCurrent_ok:
  assumes "world_ok w" "stmts w s = Some st"
  shows "usable (desc_shape w) (stmt_dbc st) (ArdOf s) p \<Longrightarrow> \<exists>w'. SetCurrentARD s st (Some p) w = Some w' \<and> world_ok w'"
    "usable (desc_shape w) (stmt_dbc st) (ApdOf s) p \<Longrightarrow> \<exists>w'. SetCurrentAPD s st (Some p) w = Some w' \<and> world_ok w'"
proof -
  note L = usable_live [OF assms]
  show "\<exists>w'. SetCurrentARD s st (Some p) w = Some w' \<and> world_ok w'"
    if u: "usable (desc_shape w) (stmt_dbc st) (ArdOf s) p"
  proof -
    have "desc_shape w p \<noteq> None" using u L by (auto simp: usable_def)
    then show ?thesis
      unfolding SetCurrentARD_def
      using set_header_ok [OF use_explicit_ard [OF assms u]] by (simp add: GetARD_def GetAPD_def)
  qed
  show "\<exists>w'. SetCurrentAPD s st (Some p) w = Some w' \<and> world_ok w'"
    if u: "usable (desc_shape w) (stmt_dbc st) (ApdOf s) p"
  proof -
    have "desc_shape w p \<noteq> None" using u L by (auto simp: usable_def)
    then show ?thesis
      unfolding SetCurrentAPD_def
      using set_header_ok [OF use_explicit_apd [OF assms u]] by (simp add: GetARD_def GetAPD_def)
  qed
qed

lemma stmt_post_ok: "world_ok w \<Longrightarrow> stmts w s = Some st \<Longrightarrow> world_ok (snd (stmt_post s st w ret c msg e sv))"
  using stmt_post_shape same_shape_ok by blast

text \<open>The descriptor argument of the two attributes that take one.\<close>

definition attr_desc_ok :: "driver \<Rightarrow> nat \<Rightarrow> OdbcHandleStmt \<Rightarrow> SQLINTEGER \<Rightarrow> desc_ptr option \<Rightarrow> bool" where
  "attr_desc_ok w s st attribute value_desc \<longleftrightarrow>
     (attribute = SQL_ATTR_APP_ROW_DESC \<longrightarrow> (\<exists>p. value_desc = Some p \<and> usable (desc_shape w) (stmt_dbc st) (ArdOf s) p))
     \<and> (attribute = SQL_ATTR_APP_PARAM_DESC \<longrightarrow> (\<exists>p. value_desc = Some p \<and> usable (desc_shape w) (stmt_dbc st) (ApdOf s) p))"

text \<open>A call that returns, with a well-formed store.\<close>

definition good :: "(SQLRETURN \<times> driver \<times> memory) option \<Rightarrow> bool" where
  "good x \<longleftrightarrow> (\<exists>ret w m. x = Some (ret, w, m) \<and> world_ok w)"

lemma goodI:
  "(b \<Longrightarrow> good x) \<Longrightarrow> (\<not> b \<Longrightarrow> good y) \<Longrightarrow> good (if b then x else y)"
  "world_ok w \<Longrightarrow> good (Some (ret, w, m))"
  "\<exists>w'. X = Some w' \<and> world_ok w' \<Longrightarrow> good (map_option (\<lambda>w'. (ret, w', m)) X)"
  "\<exists>ret w'. Y = (ret, w') \<and> world_ok w' \<Longrightarrow> good (case Y of (ret, w') \<Rightarrow> Some (ret, w', m))"
  by (auto simp: good_def)

lemma SetStmtAttrBody_ok:
  assumes "world_ok w" "stmts w s = Some st" "attr_desc_ok w s st attribute value_desc"
  shows "good (SetStmtAttrBody s st attribute value_ptr value_desc w m)"
proof -
  note L = usable_live [OF assms(1,2)]
  have put: "world_ok (put_stmt s st' w)"
    if "stmt_dbc st' = stmt_dbc st" "row_desc st' = row_desc st" "param_desc st' = param_desc st" for st'
    using same_shape_ok [OF shape_put_stmt assms(1)] assms(2) that by (simp add: GetARD_def GetAPD_def)
  have post: "\<exists>ret' w'. stmt_post s st w ret c msg e sv = (ret', w') \<and> world_ok w'" for ret c msg e sv
    using stmt_post_ok [OF assms(1,2)] by (metis prod.collapse)
  have hdr: "\<exists>w'. set_header (IrdOf s) f w = Some w' \<and> world_ok w'" "\<exists>w'. set_header (ArdOf s) f w = Some w' \<and> world_ok w'"
    "\<exists>w'. set_header (ApdOf s) f w = Some w' \<and> world_ok w'" "\<exists>w'. set_header (IpdOf s) f w = Some w' \<and> world_ok w'"
    "\<exists>w'. set_header (IrdOf s) f (put_stmt s (st\<lparr>rows_fetched_ptr := v\<rparr>) w) = Some w' \<and> world_ok w'" for f v
    using set_header_ok [OF assms(1)] set_header_ok [OF put] L by simp_all
  have cur: "attribute = SQL_ATTR_APP_ROW_DESC \<Longrightarrow> \<exists>w'. SetCurrentARD s st value_desc w = Some w' \<and> world_ok w'"
    "attribute = SQL_ATTR_APP_PARAM_DESC \<Longrightarrow> \<exists>w'. SetCurrentAPD s st value_desc w = Some w' \<and> world_ok w'"
    using assms(3) SetCurrent_ok [OF assms(1,2)] by (auto simp: attr_desc_ok_def)
  show ?thesis
    unfolding SetStmtAttrBody_def Let_def
    by (intro goodI hdr post cur put assms(1); simp)
qed

section \<open>Calls of an application\<close>

text \<open>Of connecting, this system of calls has only what concerns the handles: \<^verbatim>\<open>Connect::SetConnection\<close>, modelled in
  \<open>Connection_Api\<close>, establishes the connection by setting \<^verbatim>\<open>dbc->conn\<close>. The calls are those that make, free and
  link handles; execution and fetching leave these links as they are and have their own theories.\<close>

definition open_connection :: "nat \<Rightarrow> driver \<Rightarrow> driver option" where
  "open_connection c w = map_option (\<lambda>dbc. put_dbc c (dbc\<lparr>dbc_conn := True\<rparr>) w) (dbcs w c)"

datatype api_call = CallAllocHandle garbage SQLSMALLINT SQLHANDLE | CallFreeHandle SQLSMALLINT SQLHANDLE
  | CallConnect nat | CallDisconnect SQLHANDLE | CallFreeStmt SQLHANDLE SQLUSMALLINT | CallCloseCursor SQLHANDLE
  | CallBindCol SQLHANDLE SQLUSMALLINT SQLSMALLINT addr SQLLEN addr
  | CallSetStmtAttr SQLHANDLE SQLINTEGER nat "desc_ptr option"

definition with_memory :: "memory \<Rightarrow> (SQLRETURN \<times> driver) option \<Rightarrow> (SQLRETURN \<times> driver \<times> memory) option" where
  "with_memory m = map_option (\<lambda>(ret, w). (ret, w, m))"

fun run :: "api_call \<Rightarrow> driver \<Rightarrow> memory \<Rightarrow> (SQLRETURN \<times> driver \<times> memory) option" where
  "run (CallAllocHandle g handle_type h) w m =
     map_option (\<lambda>(ret, out, w'). (ret, w', m)) (SQLAllocHandle g handle_type h w)"
| "run (CallFreeHandle handle_type h) w m = with_memory m (FreeHandle handle_type h w)"
| "run (CallConnect c) w m = map_option (\<lambda>w'. (SQL_SUCCESS, w', m)) (open_connection c w)"
| "run (CallDisconnect h) w m = with_memory m (SQLDisconnect h w)"
| "run (CallFreeStmt h opt) w m = with_memory m (SQLFreeStmt h opt w)"
| "run (CallCloseCursor h) w m = with_memory m (SQLCloseCursor h w)"
| "run (CallBindCol h n t p l q) w m = with_memory m (SQLBindCol h n t p l q w)"
| "run (CallSetStmtAttr h a v d) w m = SetStmtAttrInternal h a v d w m"

text \<open>The calls that the ODBC driver manager passes on: handles exist and have the type that the
  function expects, a handle is freed after the handles allocated on it, descriptors that the
  application frees or associates with a statement are explicit ones of the same connection, and
  column numbers start at 1.\<close>

fun allowed :: "driver \<Rightarrow> api_call \<Rightarrow> bool" where
  "allowed w (CallAllocHandle g t h) \<longleftrightarrow>
     (t = SQL_HANDLE_DBC \<longrightarrow> (\<exists>e. h = Some (EnvPtr e) \<and> envs w e \<noteq> None))
     \<and> (t = SQL_HANDLE_DESC \<or> t = SQL_HANDLE_STMT \<longrightarrow> (\<exists>c. h = Some (DbcPtr c) \<and> dbcs w c \<noteq> None))"
| "allowed w (CallFreeHandle t h) \<longleftrightarrow> (case h of
      None \<Rightarrow> True
    | Some (EnvPtr e) \<Rightarrow> t = SQL_HANDLE_ENV \<and> envs w e \<noteq> None \<and> (\<forall>c dbc. dbcs w c = Some dbc \<longrightarrow> dbc_env dbc \<noteq> e)
    | Some (DbcPtr c) \<Rightarrow> t = SQL_HANDLE_DBC \<and> dbcs w c \<noteq> None
        \<and> (\<forall>n d. descs w (ExplicitDesc n) = Some d \<longrightarrow> desc_dbc d \<noteq> c)
    | Some (StmtPtr s) \<Rightarrow> t = SQL_HANDLE_STMT \<and> stmts w s \<noteq> None
    | Some (DescPtr p) \<Rightarrow> t = SQL_HANDLE_DESC \<and> (\<exists>n. p = ExplicitDesc n) \<and> descs w p \<noteq> None)"
| "allowed w (CallConnect c) \<longleftrightarrow> dbcs w c \<noteq> None"
| "allowed w (CallDisconnect h) \<longleftrightarrow> convertible w h"
| "allowed w (CallFreeStmt h opt) \<longleftrightarrow> convertible w h"
| "allowed w (CallCloseCursor h) \<longleftrightarrow> convertible w h"
| "allowed w (CallBindCol h n t p l q) \<longleftrightarrow> convertible w h \<and> 0 < n"
| "allowed w (CallSetStmtAttr h a v d) \<longleftrightarrow> convertible w h
     \<and> (\<forall>s st. h = Some (StmtPtr s) \<longrightarrow> stmts w s = Some st \<longrightarrow> attr_desc_ok w s st a d)"

definition empty_driver :: driver where
  "empty_driver = \<lparr>envs = (\<lambda>_. None), dbcs = (\<lambda>_. None), stmts = (\<lambda>_. None), descs = (\<lambda>_. None), next_handle = 0\<rparr>"

definition reachable :: "driver \<Rightarrow> bool" where
  "reachable = reach allowed run empty_driver"

section \<open>Every allowed call is safe\<close>

lemma with_memory_good: "\<exists>ret w'. x = Some (ret, w') \<and> world_ok w' \<Longrightarrow> good (with_memory m x)"
  by (auto simp: with_memory_def good_def)

lemma SQLAllocHandle_ok:
  assumes "world_ok w" "allowed w (CallAllocHandle g t h)"
  shows "good (run (CallAllocHandle g t h) w m)"
proof -
  consider "t = SQL_HANDLE_DBC" | "t = SQL_HANDLE_DESC" | "t = SQL_HANDLE_ENV" | "t = SQL_HANDLE_STMT"
    | "t \<notin> {SQL_HANDLE_DBC, SQL_HANDLE_DESC, SQL_HANDLE_ENV, SQL_HANDLE_STMT}" by blast
  then show ?thesis
  proof cases
    case 1
    then obtain e where "h = Some (EnvPtr e)" "envs w e \<noteq> None" using assms(2) by auto
    then show ?thesis using 1 new_dbc_ok [OF assms(1)] by (auto simp: SQLAllocHandle_def good_def Let_def)
  next
    case 2
    then obtain c where "h = Some (DbcPtr c)" "dbcs w c \<noteq> None" using assms(2) by auto
    then show ?thesis using 2 new_desc_ok [OF assms(1)] by (auto simp: SQLAllocHandle_def good_def Let_def)
  next
    case 3
    then show ?thesis using new_env_ok [OF assms(1)] by (auto simp: SQLAllocHandle_def good_def Let_def)
  next
    case 4
    then obtain c dbc where "h = Some (DbcPtr c)" "dbcs w c = Some dbc" using assms(2) by auto
    then show ?thesis using 4 new_stmt_ok [OF assms(1) _ refl] by (auto simp: SQLAllocHandle_def good_def Let_def)
  next
    case 5
    then show ?thesis using assms(1) by (auto simp: SQLAllocHandle_def good_def Let_def)
  qed
qed

lemma FreeHandle_ok:
  assumes "world_ok w" "allowed w (CallFreeHandle t h)"
  shows "good (run (CallFreeHandle t h) w m)"
proof (cases h)
  case None
  then show ?thesis using assms(1) by (simp add: FreeHandle_def good_def with_memory_def)
next
  case (Some p)
  have "\<exists>w'. FreeHandle t h w = Some (SQL_SUCCESS, w') \<and> world_ok w'"
  proof (cases p)
    case (EnvPtr e)
    with Some assms(2) have "t = SQL_HANDLE_ENV" "\<And>c dbc. dbcs w c = Some dbc \<Longrightarrow> dbc_env dbc \<noteq> e"
      "\<exists>x. envs w e = Some x" by auto
    with FreeHandle_env_ok [OF assms(1)] EnvPtr Some show ?thesis by blast
  next
    case (DbcPtr c)
    with Some assms(2) have "t = SQL_HANDLE_DBC" "\<And>n d. descs w (ExplicitDesc n) = Some d \<Longrightarrow> desc_dbc d \<noteq> c"
      "\<exists>x. dbcs w c = Some x" by auto
    with FreeHandle_dbc_ok [OF assms(1)] DbcPtr Some show ?thesis by blast
  next
    case (StmtPtr s)
    with Some assms(2) have "t = SQL_HANDLE_STMT" "\<exists>x. stmts w s = Some x" by auto
    with FreeHandle_stmt_ok [OF assms(1)] StmtPtr Some show ?thesis by blast
  next
    case (DescPtr q)
    with Some assms(2) obtain n d where "t = SQL_HANDLE_DESC" "q = ExplicitDesc n" "descs w q = Some d" by auto
    with FreeHandle_desc_ok [OF assms(1)] DescPtr Some show ?thesis by blast
  qed
  then show ?thesis using with_memory_good by (simp only: run.simps) blast
qed

lemma SQLFreeStmt_ok:
  assumes "world_ok w" "convertible w h"
  shows "good (run (CallFreeStmt h opt) w m)"
proof -
  have "\<exists>ret w'. SQLFreeStmt h opt w = Some (ret, w') \<and> world_ok w'"
    unfolding SQLFreeStmt_def
  proof (rule on_stmt_ok [OF assms])
    fix s st w' assume h: "h = Some (StmtPtr s)" and w': "world_ok w'" "stmts w' s = Some st"
    have "\<exists>ret w''. FreeHandle SQL_HANDLE_STMT h w' = Some (ret, w'') \<and> world_ok w''"
      using FreeHandle_stmt_ok [OF w'] h by blast
    moreover have "\<exists>w''. ParameterDescriptor_Clear s st w' = Some w'' \<and> world_ok w''"
      using ParameterDescriptor_Clear_ok [OF w'] same_shape_ok w'(1) by blast
    moreover have "world_ok (put_stmt s (st\<lparr>bound_cols := []\<rparr>) w')"
      using same_shape_ok [OF shape_put_stmt w'(1)] w'(2) by (simp add: GetARD_def GetAPD_def)
    ultimately show "\<exists>ret w''. (if opt = SQL_DROP then FreeHandle SQL_HANDLE_STMT h w'
        else if opt = SQL_UNBIND then Some (SQL_SUCCESS, put_stmt s (st\<lparr>bound_cols := []\<rparr>) w')
        else if opt = SQL_RESET_PARAMS then map_option (\<lambda>w'. (SQL_SUCCESS, w')) (ParameterDescriptor_Clear s st w')
        else if opt = SQL_CLOSE then CloseStmt s st w' else Some (SQL_ERROR, w')) = Some (ret, w'') \<and> world_ok w''"
      using CloseStmt_ok [OF w'] w'(1) by auto
  qed
  then show ?thesis using with_memory_good by simp
qed

lemma SQLBindCol_ok:
  assumes "world_ok w" "convertible w h" "0 < n"
  shows "\<exists>ret w'. SQLBindCol h n t p l q w = Some (ret, w') \<and> world_ok w'"
  unfolding SQLBindCol_def
proof (rule on_stmt_ok [OF assms(1,2)])
  fix s st w' assume w': "world_ok w'" "stmts w' s = Some st"
  have "world_ok (put_stmt s (st\<lparr>bound_cols := x\<rparr>) w')" for x
    using same_shape_ok [OF shape_put_stmt w'(1)] w'(2) by (simp add: GetARD_def GetAPD_def)
  with assms(3) show "\<exists>ret w''. (let cols = (if nat n > length (bound_cols st)
                   then resize (nat n) make_OdbcBoundCol (bound_cols st) else bound_cols st)
       in if n \<le> 0 then None
          else Some (SQL_SUCCESS, put_stmt s (st\<lparr>bound_cols := cols[nat n - 1 :=
            \<lparr>bc_type = t, bc_ptr = p, bc_len = l, bc_strlen_or_ind = q\<rparr>]\<rparr>) w')) = Some (ret, w'') \<and> world_ok w''"
    by (simp add: Let_def)
qed

lemma SQLDisconnect_ok:
  assumes "world_ok w" "convertible w h"
  shows "\<exists>ret w'. SQLDisconnect h w = Some (ret, w') \<and> world_ok w'"
proof -
  obtain r w1 where r: "ConvertConnection w h = Some (r, w1)" "same_shape w w1"
    "\<forall>c. r = Inr c \<longrightarrow> h = Some (DbcPtr c) \<and> dbcs w1 c \<noteq> None"
    using ConvertConnection_ok [OF assms(2)] by blast
  have ok: "world_ok w1" using same_shape_ok [OF r(2) assms(1)] .
  show ?thesis
  proof (cases r)
    case (Inl ret)
    then show ?thesis using r ok by (simp add: SQLDisconnect_def)
  next
    case (Inr c)
    then obtain dbc where dbc: "dbcs w1 c = Some dbc" using r(3) by blast
    have "world_ok (put_dbc c (dbc\<lparr>dbc_conn := False\<rparr>) w1)" using same_shape_ok [OF shape_put_dbc ok] dbc by simp
    then show ?thesis using r Inr dbc by (simp add: SQLDisconnect_def)
  qed
qed

lemma SetStmtAttrInternal_ok:
  assumes "world_ok w" "allowed w (CallSetStmtAttr h a v d)"
  shows "good (run (CallSetStmtAttr h a v d) w m)"
proof -
  have conv: "convertible w h" using assms(2) by simp
  obtain r w1 where r: "ConvertHSTMT w h = Some (r, w1)" "same_shape w w1"
    "\<forall>s. r = Inr s \<longrightarrow> h = Some (StmtPtr s) \<and> stmts w1 s \<noteq> None"
    using ConvertHSTMT_ok [OF assms(1) conv] by blast
  have ok: "world_ok w1" using same_shape_ok [OF r(2) assms(1)] .
  show ?thesis
  proof (cases r)
    case (Inl ret)
    then show ?thesis using r ok by (simp add: SetStmtAttrInternal_def good_def)
  next
    case (Inr s)
    then obtain st where st: "stmts w1 s = Some st" "h = Some (StmtPtr s)" using r(3) by blast
    then obtain st0 where st0: "stmts w s = Some st0" using conv by (auto simp: convertible_def)
    have "stmt_dbc st = stmt_dbc st0"
      using r(2) st(1) st0 by (auto simp: same_shape_def stmt_shape_def fun_eq_iff dest!: spec [of _ s])
    then have "attr_desc_ok w1 s st a d"
      using assms(2) st(2) st0 r(2) by (simp add: attr_desc_ok_def same_shape_def)
    from SetStmtAttrBody_ok [OF ok st(1) this] show ?thesis using r Inr st by (simp add: SetStmtAttrInternal_def)
  qed
qed

lemma run_ok:
  assumes "world_ok w" "allowed w call"
  shows "good (run call w m)"
proof (cases call)
  case (CallAllocHandle g t h)
  then show ?thesis using SQLAllocHandle_ok assms by blast
next
  case (CallFreeHandle t h)
  then show ?thesis using FreeHandle_ok assms by blast
next
  case (CallConnect c)
  then obtain dbc where "dbcs w c = Some dbc" using assms(2) by auto
  then show ?thesis
    using CallConnect same_shape_ok [OF shape_put_dbc assms(1)] by (simp add: open_connection_def good_def)
next
  case (CallDisconnect h)
  then show ?thesis using SQLDisconnect_ok [OF assms(1)] assms(2) with_memory_good by simp
next
  case (CallFreeStmt h opt)
  then show ?thesis using SQLFreeStmt_ok [OF assms(1)] assms(2) by simp
next
  case (CallCloseCursor h)
  then show ?thesis
    using on_stmt_ok [OF assms(1), of h CloseStmt] CloseStmt_ok assms(2) with_memory_good
    by (simp add: SQLCloseCursor_def)
next
  case (CallBindCol h n t p l q)
  then show ?thesis using SQLBindCol_ok [OF assms(1)] assms(2) with_memory_good by simp
next
  case (CallSetStmtAttr h a v d)
  then show ?thesis using SetStmtAttrInternal_ok assms by blast
qed

lemma empty_driver_ok: "world_ok empty_driver"
  by (simp add: world_ok_def stmts_ok_def dbcs_ok_def descs_ok_def fresh_ok_def empty_driver_def env_live_def
      dbc_shape_def stmt_shape_def desc_shape_def)

interpretation lc: guarded_system world_ok allowed run empty_driver
  using empty_driver_ok run_ok by unfold_locales (auto simp: good_def)

lemma reachable_ok: "reachable w \<Longrightarrow> world_ok w"
  unfolding reachable_def by (rule lc.reach_ok)

section \<open>Properties\<close>

text \<open>C6: no use of a freed handle. In every state that \<^verbatim>\<open>SQLAllocHandle\<close>, \<^verbatim>\<open>SQLFreeHandle\<close>, the opening of a connection,
  \<^verbatim>\<open>SQLDisconnect\<close>, \<^verbatim>\<open>SQLFreeStmt\<close>, \<^verbatim>\<open>SQLCloseCursor\<close>, \<^verbatim>\<open>SQLBindCol\<close> and \<^verbatim>\<open>SQLSetStmtAttr\<close> reach, a further
  one of these calls returns: it follows no pointer to a freed connection, statement or descriptor; and the store it leaves is
  well-formed again. The calls are the \<open>allowed\<close> ones: their handles are live and of the right type, an environment is freed after its
  connections, a connection when no explicit descriptor of it is left, a statement is given explicit descriptors of its own
  connection only, and columns are numbered from 1.\<close>

theorem lifecycle_safe:
  assumes "reachable w" "allowed w call"
  shows "\<exists>ret w' m'. run call w m = Some (ret, w', m') \<and> world_ok w'"
  using run_ok [OF reachable_ok [OF assms(1)] assms(2), of m] by (auto simp: good_def)

text \<open>A store with an environment, a connected connection, a statement and an explicit descriptor
  that the statement uses.\<close>

fun runs :: "api_call list \<Rightarrow> driver \<Rightarrow> memory \<Rightarrow> driver option" where
  "runs [] w m = Some w"
| "runs (c # cs) w m = (case run c w m of None \<Rightarrow> None | Some (ret, w', m') \<Rightarrow> runs cs w' m')"

lemma runs_reachable:
  assumes "reachable w" "runs [c] w m = Some w'" "allowed w c"
  shows "reachable w'"
  using assms reach.step [of allowed run empty_driver w c m] by (auto simp: reachable_def split: option.splits)

definition sample_env :: driver where
  "sample_env = put_env 0 (make_OdbcHandleEnv (g_env sample_garbage)) (empty_driver\<lparr>next_handle := 1\<rparr>)"

lemma sample_env_reachable: "reachable sample_env"
  by (rule runs_reachable [OF reach.start [of allowed run empty_driver, folded reachable_def], of "CallAllocHandle sample_garbage SQL_HANDLE_ENV None" "\<lambda>_. CHR 0x00"])
    (simp_all add: SQLAllocHandle_def sample_env_def empty_driver_def)

theorem lifecycle_safe_witness:
  "\<exists>ret w' m'. run (CallAllocHandle sample_garbage SQL_HANDLE_DBC (Some (EnvPtr 0))) sample_env (\<lambda>_. CHR 0x00)
     = Some (ret, w', m') \<and> world_ok w'"
  by (rule lifecycle_safe [OF sample_env_reachable]) (simp add: sample_env_def)

text \<open>C12: no dangling pointers. In every reachable state a statement's connection exists and lists
  the statement, and the descriptors it currently uses exist and belong to that connection.\<close>

theorem reachable_no_dangling:
  assumes "reachable w" "stmts w s = Some st"
  shows "\<exists>dbc ard apd. dbcs w (stmt_dbc st) = Some dbc \<and> s \<in> set (vec_stmt_ref dbc) \<and> distinct (vec_stmt_ref dbc)
    \<and> descs w (GetARD st) = Some ard \<and> desc_dbc ard = stmt_dbc st
    \<and> descs w (GetAPD st) = Some apd \<and> desc_dbc apd = stmt_dbc st"
proof -
  note ok = reachable_ok [OF assms(1)]
  obtain dbc where dbc: "dbcs w (stmt_dbc st) = Some dbc" "s \<in> set (vec_stmt_ref dbc)"
    "\<And>q. q \<in> implicit_descs s \<Longrightarrow> \<exists>x. desc_shape w q = Some (stmt_dbc st, x)"
    "usable (desc_shape w) (stmt_dbc st) (ArdOf s) (GetARD st)"
    "usable (desc_shape w) (stmt_dbc st) (ApdOf s) (GetAPD st)"
    using stmt_facts [OF ok assms(2)] by metis
  have "\<exists>x. desc_shape w (GetARD st) = Some (stmt_dbc st, x)" "\<exists>x. desc_shape w (GetAPD st) = Some (stmt_dbc st, x)"
    using dbc(3-5) unfolding usable_def implicit_descs_def by blast+
  with dbc(1,2) dbc_facts(2) [OF ok dbc(1)] show ?thesis by (auto simp: desc_shape_def)
qed

definition sample_dbc :: driver where
  "sample_dbc = put_dbc 1 (make_OdbcHandleDbc 0 0) (sample_env\<lparr>next_handle := 2\<rparr>)"

lemma sample_dbc_reachable: "reachable sample_dbc"
  by (rule runs_reachable [OF sample_env_reachable, of "CallAllocHandle sample_garbage SQL_HANDLE_DBC (Some (EnvPtr 0))" "\<lambda>_. CHR 0x00"])
    (simp_all add: SQLAllocHandle_def sample_dbc_def sample_env_def sample_garbage_def)

definition sample_stmt :: driver where
  "sample_stmt = new_stmt sample_garbage 2 1 (put_dbc 1 ((make_OdbcHandleDbc 0 0)\<lparr>vec_stmt_ref := [2]\<rparr>)
     (sample_dbc\<lparr>next_handle := 3\<rparr>))"

lemma sample_stmt_reachable: "reachable sample_stmt"
  by (rule runs_reachable [OF sample_dbc_reachable, of "CallAllocHandle sample_garbage SQL_HANDLE_STMT (Some (DbcPtr 1))" "\<lambda>_. CHR 0x00"])
    (simp_all add: SQLAllocHandle_def sample_stmt_def sample_dbc_def make_OdbcHandleDbc_def)

theorem reachable_no_dangling_witness:
  "\<exists>st dbc ard apd. stmts sample_stmt 2 = Some st \<and> dbcs sample_stmt (stmt_dbc st) = Some dbc
    \<and> 2 \<in> set (vec_stmt_ref dbc) \<and> distinct (vec_stmt_ref dbc)
    \<and> descs sample_stmt (GetARD st) = Some ard \<and> desc_dbc ard = stmt_dbc st
    \<and> descs sample_stmt (GetAPD st) = Some apd \<and> desc_dbc apd = stmt_dbc st"
proof -
  obtain st where st: "stmts sample_stmt 2 = Some st" by (simp add: sample_stmt_def new_stmt_def Let_def)
  from reachable_no_dangling [OF sample_stmt_reachable st] st show ?thesis by blast
qed

text \<open>The implementation parameter descriptor is not recognised: in every reachable state
  \<^verbatim>\<open>IsIPD\<close> is false for every descriptor, since the constructor of the parameter
  descriptors does not pass the statement on. Hence \<^verbatim>\<open>SQLSetDescField\<close> rejects the parameter
  type, the parameter name and the unnamed flag on every descriptor.\<close>

theorem reachable_no_IPD:
  assumes "reachable w" "descs w p = Some d" "f \<in> {SQL_DESC_NAME, SQL_DESC_PARAMETER_TYPE, SQL_DESC_UNNAMED}"
    and "1 \<le> rec_number"
  shows "\<not> IsIPD d \<and> (\<exists>d'. SetDescField dsn m d rec_number f value_ptr value_str b = Some (SQL_ERROR, d'))"
proof -
  have shape: "desc_shape w p = Some (desc_dbc d, desc_self d, desc_stmt d)" using assms(2) by (simp add: desc_shape_def)
  then have "desc_self d = p" "desc_stmt d = (case p of IrdOf s \<Rightarrow> Some s | _ \<Rightarrow> None)"
    using reachable_ok [OF assms(1)] unfolding world_ok_def descs_ok_def by blast+
  then have no: "\<not> IsIPD d" by (cases p) (auto simp: IsIPD_def)
  obtain r d1 where d1: "GetDescRecord d (nat (rec_number - 1)) = (r, d1)" by fastforce
  have "\<not> IsIPD d1" using no GetDescRecord_result(4,5) [OF d1] by (auto simp: IsIPD_def split: option.splits)
  then show ?thesis
    using assms(3) no assms(4) d1
    by (elim insertE emptyE; simp add: SetDescField_def SetDescHeaderField_def SetDescRecordField_def Let_def
        ReturnInvalidFieldIdentifier_def desc_post_def SetDiagnosticRecord_def)
qed

theorem reachable_no_IPD_witness:
  "\<exists>d. descs sample_stmt (IpdOf 2) = Some d \<and> \<not> IsIPD d
    \<and> (\<exists>d'. SetDescField [] (\<lambda>_. CHR 0x01) d 1 SQL_DESC_PARAMETER_TYPE 100 None 0 = Some (SQL_ERROR, d'))"
proof -
  obtain d where d: "descs sample_stmt (IpdOf 2) = Some d" by (simp add: sample_stmt_def new_stmt_def Let_def)
  from reachable_no_IPD [OF sample_stmt_reachable d, of SQL_DESC_PARAMETER_TYPE 1 "[]" "\<lambda>_. CHR 0x01" 100 None 0] d
  show ?thesis by simp
qed

text \<open>A connection that is freed while the application still has an explicit descriptor on it
  leaves that descriptor with a pointer to the freed connection: \<^verbatim>\<open>SQLFreeHandle\<close> on the
  descriptor then dereferences it.\<close>

theorem free_connection_strands_descriptors:
  assumes "reachable w" "descs w (ExplicitDesc n) = Some d" "dbcs w (desc_dbc d) = Some dbc"
  shows "\<exists>w'. FreeHandle SQL_HANDLE_DBC (Some (DbcPtr (desc_dbc d))) w = Some (SQL_SUCCESS, w')
    \<and> FreeHandle SQL_HANDLE_DESC (Some (DescPtr (ExplicitDesc n))) w' = None"
proof -
  note ok = reachable_ok [OF assms(1)]
  have alive: "\<forall>s \<in> set (vec_stmt_ref dbc). stmts w s \<noteq> None" using dbc_facts(3) [OF ok assms(3)] by blast
  obtain w1 where w1: "delete_stmts (vec_stmt_ref dbc) w = Some w1"
    "desc_shape w1 = (\<lambda>p. if \<exists>s \<in> set (vec_stmt_ref dbc). p \<in> implicit_descs s then None else desc_shape w p)"
    using delete_stmts_shape [OF dbc_facts(2) [OF ok assms(3)] alive] by blast
  have "desc_shape w1 (ExplicitDesc n) = desc_shape w (ExplicitDesc n)"
    using w1(2) implicit_disjoint(2) by simp
  then obtain d1 where "descs w1 (ExplicitDesc n) = Some d1" "desc_dbc d1 = desc_dbc d"
    using assms(2) by (auto simp: desc_shape_def)
  then show ?thesis using w1(1) assms(3) by (simp add: FreeHandle_def delete_dbc_def)
qed

definition sample_explicit :: driver where
  "sample_explicit = put_desc (ExplicitDesc 3) (make_OdbcHandleDesc (ExplicitDesc 3) sample_record 1 None False)
     (sample_stmt\<lparr>next_handle := 4\<rparr>)"

lemma sample_explicit_reachable: "reachable sample_explicit"
  by (rule runs_reachable [OF sample_stmt_reachable, of "CallAllocHandle sample_garbage SQL_HANDLE_DESC (Some (DbcPtr 1))" "\<lambda>_. CHR 0x00"])
    (simp_all add: SQLAllocHandle_def sample_explicit_def sample_stmt_def new_stmt_def Let_def sample_garbage_def)

theorem free_connection_strands_descriptors_witness:
  "\<exists>w'. FreeHandle SQL_HANDLE_DBC (Some (DbcPtr 1)) sample_explicit = Some (SQL_SUCCESS, w')
    \<and> FreeHandle SQL_HANDLE_DESC (Some (DescPtr (ExplicitDesc 3))) w' = None"
  using free_connection_strands_descriptors [OF sample_explicit_reachable,
      of 3 "make_OdbcHandleDesc (ExplicitDesc 3) sample_record 1 None False"
        "(make_OdbcHandleDbc 0 0)\<lparr>vec_stmt_ref := [2]\<rparr>"]
  by (simp add: sample_explicit_def make_OdbcHandleDesc_def sample_stmt_def new_stmt_def Let_def)

text \<open>The attributes whose value is stored and can be read, and the values they accept: ten that hold a value of the size of a
  pointer, and the two bind types, which are stored in 32 bits (0 is not set for them) and of which the one of parameters is
  also read as 32 bits. Not among them are \<^verbatim>\<open>SQL_ATTR_PARAM_STATUS_PTR\<close>, which \<^verbatim>\<open>SQLGetStmtAttr\<close> does not know,
  \<^verbatim>\<open>SQL_ATTR_CONCURRENCY\<close> and \<^verbatim>\<open>SQL_ATTR_QUERY_TIMEOUT\<close>, which have fixed values, and the descriptor handles.\<close>

definition attr_value_ok :: "SQLINTEGER \<Rightarrow> nat \<Rightarrow> bool" where
  "attr_value_ok attribute v \<longleftrightarrow> int v < 18446744073709551616 \<and>
     (attribute \<in> {SQL_ATTR_PARAMSET_SIZE, SQL_ATTR_PARAMS_PROCESSED_PTR, SQL_ATTR_ROWS_FETCHED_PTR,
        SQL_ATTR_ROW_STATUS_PTR, SQL_ATTR_CURSOR_TYPE, SQL_ATTR_PARAM_BIND_OFFSET_PTR, SQL_ATTR_MAX_LENGTH}
      \<or> attribute = SQL_ATTR_ROW_ARRAY_SIZE \<and> 1 \<le> v
      \<or> attribute \<in> {SQL_ATTR_RETRIEVE_DATA, SQL_ATTR_CURSOR_SCROLLABLE} \<and> v \<le> 1
      \<or> attribute \<in> {SQL_ATTR_PARAM_BIND_TYPE, SQL_ATTR_ROW_BIND_TYPE} \<and> 1 \<le> v \<and> int v < 2147483648)"

definition attr_width :: "SQLINTEGER \<Rightarrow> nat" where
  "attr_width attribute = (if attribute = SQL_ATTR_PARAM_BIND_TYPE then 4 else 8)"

lemma ConvertHSTMT_connected:
  assumes "stmts w s = Some st" "dbcs w (stmt_dbc st) = Some dbc" "dbc_conn dbc"
  shows "ConvertHSTMT w (Some (StmtPtr s)) = Some (Inr s, put_stmt s (st\<lparr>stmt_diag := Clean (stmt_diag st)\<rparr>) w)"
  using assms by (simp add: ConvertHSTMT_def)

lemma set_header_Some: "descs w p = Some d \<Longrightarrow> set_header p f w = Some (put_desc p (d\<lparr>desc_header := f (desc_header d)\<rparr>) w)"
  by (simp add: set_header_def)

lemma attribute_set:
  assumes "stmts w s = Some st" "attr_value_ok attribute v"
    and "descs w (ApdOf s) = Some apd" "descs w (IpdOf s) = Some ipd" "descs w (ArdOf s) = Some ard" "descs w (IrdOf s) = Some ird"
  shows "\<exists>w' st' m'. SetStmtAttrBody s st attribute v d w m = Some (SQL_SUCCESS, w', m')
    \<and> stmts w' s = Some st' \<and> stmt_dbc st' = stmt_dbc st \<and> dbcs w' = dbcs w
    \<and> stmt_attr desc_addr s (st'\<lparr>stmt_diag := x\<rparr>) w' attribute = Some (Some (attr_width attribute, int v))"
proof -
  consider (stored) "attribute \<in> {SQL_ATTR_PARAMSET_SIZE, SQL_ATTR_PARAMS_PROCESSED_PTR, SQL_ATTR_ROWS_FETCHED_PTR,
      SQL_ATTR_ROW_STATUS_PTR, SQL_ATTR_CURSOR_TYPE, SQL_ATTR_PARAM_BIND_OFFSET_PTR, SQL_ATTR_MAX_LENGTH}"
    | (size) "attribute = SQL_ATTR_ROW_ARRAY_SIZE" "1 \<le> v"
    | (flag) "attribute \<in> {SQL_ATTR_RETRIEVE_DATA, SQL_ATTR_CURSOR_SCROLLABLE}" "v = 0 \<or> v = 1"
    | (bind) "attribute \<in> {SQL_ATTR_PARAM_BIND_TYPE, SQL_ATTR_ROW_BIND_TYPE}" "1 \<le> v" "to_int32 (int v) = int v"
    using assms(2) by (auto simp: attr_value_ok_def to_int32_id le_Suc_eq)
  then show ?thesis
  proof cases
    case stored
    then show ?thesis
      using assms(1,3-6) by (elim insertE emptyE; simp add: SetStmtAttrBody_def stmt_attr_def set_header_Some attr_width_def)
  next
    case size
    then show ?thesis using assms(1,3-6) by (simp add: SetStmtAttrBody_def stmt_attr_def set_header_Some attr_width_def)
  next
    case flag
    then show ?thesis
      using assms(1,3-6) by (elim insertE emptyE disjE; simp add: SetStmtAttrBody_def stmt_attr_def attr_width_def)
  next
    case bind
    then show ?thesis
      using assms(1,3-6) by (elim insertE emptyE; simp add: SetStmtAttrBody_def stmt_attr_def set_header_Some attr_width_def)
  qed
qed

text \<open>C29: what \<^verbatim>\<open>SQLSetStmtAttr\<close> sets \<^verbatim>\<open>SQLGetStmtAttr\<close> returns, on a connected statement of any reachable state, for the
  twelve attributes \<^verbatim>\<open>PARAMSET_SIZE\<close>, \<^verbatim>\<open>PARAMS_PROCESSED_PTR\<close>, \<^verbatim>\<open>PARAM_BIND_OFFSET_PTR\<close>, \<^verbatim>\<open>PARAM_BIND_TYPE\<close>,
  \<^verbatim>\<open>ROW_ARRAY_SIZE\<close>, \<^verbatim>\<open>ROWS_FETCHED_PTR\<close>, \<^verbatim>\<open>ROW_STATUS_PTR\<close>, \<^verbatim>\<open>ROW_BIND_TYPE\<close>, \<^verbatim>\<open>CURSOR_TYPE\<close>,
  \<^verbatim>\<open>CURSOR_SCROLLABLE\<close>, \<^verbatim>\<open>RETRIEVE_DATA\<close> and \<^verbatim>\<open>MAX_LENGTH\<close> (\<open>attr_value_ok\<close>) and the values they accept.\<close>

theorem stmt_attr_round_trip:
  assumes "reachable w" "stmts w s = Some st" "dbcs w (stmt_dbc st) = Some dbc" "dbc_conn dbc"
    and "attr_value_ok attribute v" "value_ptr \<noteq> nullptr"
  shows "\<exists>w' m' w'' m''. SetStmtAttrInternal (Some (StmtPtr s)) attribute v value_desc w m = Some (SQL_SUCCESS, w', m')
    \<and> GetStmtAttrInternal desc_addr (Some (StmtPtr s)) attribute value_ptr lp w' m' = Some (SQL_SUCCESS, w'', m'')
    \<and> le_uint (read_bytes m'' value_ptr (attr_width attribute)) = int v"
proof -
  let ?st = "st\<lparr>stmt_diag := Clean (stmt_diag st)\<rparr>"
  let ?w = "put_stmt s ?st w"
  obtain apd ipd ard ird where d: "descs ?w (ApdOf s) = Some apd" "descs ?w (IpdOf s) = Some ipd"
    "descs ?w (ArdOf s) = Some ard" "descs ?w (IrdOf s) = Some ird"
    using usable_live [OF reachable_ok [OF assms(1)] assms(2)] by (auto simp: desc_shape_def)
  have "stmts ?w s = Some ?st" by simp
  from attribute_set [OF this assms(5) d, of value_desc m desc_addr "Clean (stmt_diag st)"] obtain w' st' m' where
    set: "SetStmtAttrBody s ?st attribute v value_desc ?w m = Some (SQL_SUCCESS, w', m')" "stmts w' s = Some st'"
    "stmt_dbc st' = stmt_dbc st" "dbcs w' = dbcs w"
    by auto
  define w'' where "w'' = put_stmt s (st'\<lparr>stmt_diag := Clean (stmt_diag st')\<rparr>) w'"
  have attr: "stmt_attr desc_addr s (st'\<lparr>stmt_diag := Clean (stmt_diag st')\<rparr>) w'' attribute = Some (Some (attr_width attribute, int v))"
    using attribute_set [OF \<open>stmts ?w s = Some ?st\<close> assms(5) d, of value_desc m desc_addr "Clean (stmt_diag st')"] set
    by (simp add: w''_def stmt_attr_def)
  have "attribute \<notin> {SQL_ATTR_APP_PARAM_DESC, SQL_ATTR_IMP_PARAM_DESC, SQL_ATTR_APP_ROW_DESC, SQL_ATTR_IMP_ROW_DESC}"
    using assms(5) by (auto simp: attr_value_ok_def)
  then have get: "GetStmtAttrInternal desc_addr (Some (StmtPtr s)) attribute value_ptr lp w' m'
      = Some (SQL_SUCCESS, w'', write_bytes m' value_ptr (le_bytes (attr_width attribute) (int v)))"
    using attr assms(3,4,6) set(2-4) ConvertHSTMT_connected [of w' s st' dbc]
    by (simp add: GetStmtAttrInternal_def w''_def store_read_back)
  have "SetStmtAttrInternal (Some (StmtPtr s)) attribute v value_desc w m = Some (SQL_SUCCESS, w', m')"
    using set(1) ConvertHSTMT_connected [OF assms(2-4)] by (simp add: SetStmtAttrInternal_def)
  moreover have "int v mod 256 ^ attr_width attribute = int v" using assms(5) by (auto simp: attr_value_ok_def attr_width_def)
  ultimately show ?thesis using get store_read_back(2) [of m' value_ptr "attr_width attribute" "int v"] by (auto simp: le_uint_le_bytes)
qed

definition sample_connected :: driver where
  "sample_connected = put_dbc 1 ((make_OdbcHandleDbc 0 0)\<lparr>vec_stmt_ref := [2], dbc_conn := True\<rparr>) sample_stmt"

lemma sample_connected_reachable: "reachable sample_connected"
  by (rule runs_reachable [OF sample_stmt_reachable, of "CallConnect 1" "\<lambda>_. CHR 0x00"])
    (simp_all add: open_connection_def sample_connected_def sample_stmt_def new_stmt_def Let_def)

lemma sample_connected_stmt:
  "\<exists>st. stmts sample_connected 2 = Some st \<and> stmt_dbc st = 1"
  "dbcs sample_connected 1 = Some ((make_OdbcHandleDbc 0 0)\<lparr>vec_stmt_ref := [2], dbc_conn := True\<rparr>)"
  by (simp_all add: sample_connected_def sample_stmt_def new_stmt_def Let_def make_OdbcHandleStmt_def)

theorem stmt_attr_round_trip_witness:
  "\<exists>w' m' w'' m''. SetStmtAttrInternal (Some (StmtPtr 2)) SQL_ATTR_ROW_ARRAY_SIZE 10 None sample_connected (\<lambda>_. CHR 0x00)
      = Some (SQL_SUCCESS, w', m')
    \<and> GetStmtAttrInternal (\<lambda>_. 0) (Some (StmtPtr 2)) SQL_ATTR_ROW_ARRAY_SIZE 100 0 w' m' = Some (SQL_SUCCESS, w'', m'')
    \<and> le_uint (read_bytes m'' 100 8) = int 10"
proof -
  obtain st where st: "stmts sample_connected 2 = Some st" "stmt_dbc st = 1" using sample_connected_stmt(1) by blast
  have "attr_value_ok SQL_ATTR_ROW_ARRAY_SIZE 10" by (simp add: attr_value_ok_def)
  from stmt_attr_round_trip [OF sample_connected_reachable st(1) _ _ this, of _ 100 None "\<lambda>_. CHR 0x00" "\<lambda>_. 0" 0]
  show ?thesis using st(2) sample_connected_stmt(2) by (simp add: attr_width_def)
qed

text \<open>The row bind type of statement \<open>s\<close> is not column-wise after the call, if it returns.\<close>

definition row_wise :: "nat \<Rightarrow> driver \<Rightarrow> bool" where
  "row_wise s w \<longleftrightarrow> (\<exists>ard. descs w (ArdOf s) = Some ard \<and> sql_desc_bind_type (desc_header ard) \<noteq> SQL_BIND_BY_COLUMN)"

definition stays_row_wise :: "nat \<Rightarrow> (SQLRETURN \<times> driver \<times> memory) option \<Rightarrow> bool" where
  "stays_row_wise s x \<longleftrightarrow> (\<forall>ret w m. x = Some (ret, w, m) \<longrightarrow> row_wise s w)"

lemma row_wiseI:
  "(b \<Longrightarrow> stays_row_wise s x) \<Longrightarrow> (\<not> b \<Longrightarrow> stays_row_wise s y) \<Longrightarrow> stays_row_wise s (if b then x else y)"
  "row_wise s w \<Longrightarrow> stays_row_wise s (Some (ret, w, m))"
  "(\<And>w'. X = Some w' \<Longrightarrow> row_wise s w') \<Longrightarrow> stays_row_wise s (map_option (\<lambda>w'. (ret, w', m)) X)"
  "row_wise s (snd Y) \<Longrightarrow> stays_row_wise s (case Y of (ret, w') \<Rightarrow> Some (ret, w', m))"
  by (auto simp: stays_row_wise_def split: prod.splits)

lemma row_wise_set_header:
  assumes "row_wise s w" "set_header p f w = Some w'"
    and "\<And>h. p = ArdOf s \<Longrightarrow> sql_desc_bind_type h \<noteq> 0 \<Longrightarrow> sql_desc_bind_type (f h) \<noteq> 0"
  shows "row_wise s w'"
  using assms by (auto simp: set_header_def row_wise_def)

lemma row_wise_put_stmt [simp]: "row_wise s (put_stmt s' st w) = row_wise s w"
  by (simp add: row_wise_def)

lemma row_wise_SetCurrent:
  "row_wise s w \<Longrightarrow> SetCurrentARD s' st d w = Some w' \<Longrightarrow> row_wise s w'"
  "row_wise s w \<Longrightarrow> SetCurrentAPD s' st d w = Some w' \<Longrightarrow> row_wise s w'"
  by (auto simp: SetCurrentARD_def SetCurrentAPD_def split: option.splits
      intro: row_wise_set_header [where s = s, rotated])

lemma SetStmtAttrBody_row_wise:
  assumes "row_wise s w" "v < 2147483648"
  shows "stays_row_wise s (SetStmtAttrBody s st attribute v value_desc w m)"
proof -
  have v: "v \<noteq> 0 \<Longrightarrow> to_int32 (int v) \<noteq> 0" using assms(2) by (simp add: to_int32_id)
  have post: "row_wise s (snd (stmt_post s st w r c msg e sv))" for r c msg e sv
    using assms(1) by (auto simp: stmt_post_def post_on_def Let_def split: prod.split)
  have put: "row_wise s (put_stmt s st' w)" for st' using assms(1) by simp
  have hdr: "set_header (IrdOf s) f w = Some w' \<Longrightarrow> row_wise s w'" "set_header (ApdOf s) f w = Some w' \<Longrightarrow> row_wise s w'"
    "set_header (IpdOf s) f w = Some w' \<Longrightarrow> row_wise s w'" "set_header (IrdOf s) f (put_stmt s st' w) = Some w' \<Longrightarrow> row_wise s w'"
    "set_header (ArdOf s) (\<lambda>h. h\<lparr>sql_desc_array_size := x\<rparr>) w = Some w' \<Longrightarrow> row_wise s w'" for f w' st' x
    by (erule row_wise_set_header [rotated]; use assms(1) in simp)+
  have bind: "set_header (ArdOf s) (\<lambda>h. h\<lparr>sql_desc_bind_type := to_int32 (int v)\<rparr>) w = Some w' \<Longrightarrow> v \<noteq> 0
      \<Longrightarrow> row_wise s w'" for w'
    using row_wise_set_header [OF assms(1)] v by simp
  note cur = row_wise_SetCurrent [OF assms(1)]
  show ?thesis
    unfolding SetStmtAttrBody_def Let_def
    by (intro row_wiseI; (rule assms(1) | rule post | rule put | erule hdr | erule cur | erule (1) bind))
qed

text \<open>Row-wise binding cannot be undone. Once the row bind type of a statement is set, no
  \<^verbatim>\<open>SQLSetStmtAttr\<close> call with a 31-bit value, \<^verbatim>\<open>SQL_BIND_BY_COLUMN\<close> among them, restores
  column-wise binding, although the ODBC interface defines that value for it.\<close>

theorem row_bind_type_sticks:
  assumes "SetStmtAttrInternal (Some (StmtPtr s)) attribute v value_desc w m = Some (ret, w', m')" "v < 2147483648"
    and "descs w (ArdOf s) = Some ard" "sql_desc_bind_type (desc_header ard) \<noteq> SQL_BIND_BY_COLUMN"
  shows "\<exists>ard'. descs w' (ArdOf s) = Some ard' \<and> sql_desc_bind_type (desc_header ard') \<noteq> SQL_BIND_BY_COLUMN"
proof -
  have rw: "row_wise s w" using assms(3,4) by (simp add: row_wise_def)
  have conv: "row_wise s w1" if "ConvertHSTMT w (Some (StmtPtr s)) = Some (r, w1)" for r w1
    using that rw by (auto simp: ConvertHSTMT_def stmt_post_def post_on_def Let_def split: option.splits if_splits prod.splits)
  have same: "s' = s" if "ConvertHSTMT w (Some (StmtPtr s)) = Some (Inr s', w1)" for s' w1
    using that by (auto simp: ConvertHSTMT_def Let_def split: option.splits if_splits prod.splits)
  have "row_wise s w'"
    using assms(1) conv SetStmtAttrBody_row_wise [OF _ assms(2)] same
    by (auto simp: SetStmtAttrInternal_def stays_row_wise_def split: option.splits sum.splits prod.splits)
      blast
  then show ?thesis by (simp add: row_wise_def)
qed

definition sample_row_wise :: driver where
  "sample_row_wise = put_desc (ArdOf 2) ((make_OdbcHandleDesc (ArdOf 2) sample_record 1 None False)
     \<lparr>desc_header := (make_DescHeader SQL_DESC_ALLOC_AUTO)\<lparr>sql_desc_bind_type := 24\<rparr>\<rparr>) sample_connected"

theorem row_bind_type_sticks_witness:
  "\<exists>w' m' ard'. SetStmtAttrInternal (Some (StmtPtr 2)) SQL_ATTR_ROW_BIND_TYPE 0 None sample_row_wise (\<lambda>_. CHR 0x00)
      = Some (SQL_ERROR, w', m')
    \<and> descs w' (ArdOf 2) = Some ard' \<and> sql_desc_bind_type (desc_header ard') \<noteq> SQL_BIND_BY_COLUMN"
proof -
  obtain st where st: "stmts sample_row_wise 2 = Some st" "stmt_dbc st = 1"
    using sample_connected_stmt(1) by (auto simp: sample_row_wise_def)
  obtain w' m' where set: "SetStmtAttrInternal (Some (StmtPtr 2)) SQL_ATTR_ROW_BIND_TYPE 0 None sample_row_wise (\<lambda>_. CHR 0x00)
      = Some (SQL_ERROR, w', m')"
    using ConvertHSTMT_connected [OF st(1)] st(2) sample_connected_stmt(2)
    by (simp add: SetStmtAttrInternal_def SetStmtAttrBody_def sample_row_wise_def)
  from row_bind_type_sticks [OF set] show ?thesis using set by (simp add: sample_row_wise_def)
qed

end
