(* ===== verification/Odbc_Fetch.thy ===== *)
theory Odbc_Fetch
  imports Handle_Api
begin

text \<open>
  \<^verbatim>\<open>common/odbc_fetch.cpp\<close>: the chunks of a result set and the position in them. The
  functions that copy rows into bound buffers are in the theory \<open>Fetch_Rows\<close>.

  The functions work on the statement handle, which owns the fetcher and the result. \<open>array_size\<close>
  is \<^verbatim>\<open>row_desc->ard->header.sql_desc_array_size\<close>, a field of the implicit application row
  descriptor, and \<open>dsn\<close> the data source name for diagnostics. Dereferencing \<^verbatim>\<open>current_chunk\<close>
  is defined when it points to a chunk that the fetcher still owns.
\<close>

section \<open>Chunks\<close>

definition deref_chunk :: "OdbcFetch \<Rightarrow> DataChunk option" where
  "deref_chunk f = (case current_chunk f of None \<Rightarrow> None | Some a \<Rightarrow> map_of (chunks f) a)"

definition fetch_post :: "string \<Rightarrow> OdbcHandleStmt \<Rightarrow> string \<Rightarrow> string \<Rightarrow> SQLStateType \<Rightarrow> SQLRETURN \<times> OdbcHandleStmt" where
  "fetch_post dsn st caller msg state =
     post_on stmt_diag_update (\<lambda>d. SetDiagnosticRecord d SQL_ERROR caller msg state dsn) stmt_diag st"

definition set_fetcher :: "OdbcHandleStmt \<Rightarrow> OdbcFetch \<Rightarrow> OdbcHandleStmt" where
  "set_fetcher st f = st\<lparr>odbc_fetcher := f\<rparr>"

definition RequireFetch :: "OdbcFetch \<Rightarrow> bool" where
  "RequireFetch f \<longleftrightarrow> chunks f = [] \<or> chunk_row f \<ge> int (length (snd (last (chunks f)))) - 1"

definition IncreaseRowCount :: "SQLULEN \<Rightarrow> OdbcFetch \<Rightarrow> OdbcFetch option" where
  "IncreaseRowCount array_size f = (case deref_chunk f of
      None \<Rightarrow> None
    | Some c \<Rightarrow> Some
        (if to_uint64 (chunk_row f + array_size) < int (length c)
         then f\<lparr>row_count := to_int64 (row_count f + array_size)\<rparr>
         else f\<lparr>row_count := to_int64 (row_count f + (int (length c) - chunk_row f))\<rparr>))"

definition SetCurrentChunk :: "OdbcFetch \<Rightarrow> SQLRETURN \<times> OdbcFetch" where
  "SetCurrentChunk f =
     (if chunks f = [] then (SQL_NO_DATA, f)
      else if cursor_type f \<noteq> SQL_CURSOR_FORWARD_ONLY \<and> current_chunk_idx f < length (chunks f) - 1 then
        (SQL_SUCCESS, f\<lparr>current_chunk_idx := Suc (current_chunk_idx f),
           current_chunk := Some (fst (chunks f ! Suc (current_chunk_idx f))), chunk_row := - 1, prior_chunk_row := - 1\<rparr>)
      else
        (SQL_SUCCESS, f\<lparr>current_chunk := Some (fst (last (chunks f))), current_chunk_idx := length (chunks f) - 1,
           chunk_row := - 1, prior_chunk_row := - 1\<rparr>))"

text \<open>A chunk that the engine returns is appended, or replaces the others when the cursor is
  forward-only.\<close>

definition add_chunk :: "OdbcFetch \<Rightarrow> DataChunk \<Rightarrow> OdbcFetch" where
  "add_chunk f c =
     f\<lparr>chunks := (if cursor_type f = SQL_CURSOR_FORWARD_ONLY then [(next_chunk f, c)]
                  else chunks f @ [(next_chunk f, c)]),
       next_chunk := Suc (next_chunk f)\<rparr>"

definition FetchNext :: "string \<Rightarrow> OdbcHandleStmt \<Rightarrow> (SQLRETURN \<times> OdbcHandleStmt) option" where
  "FetchNext dsn st =
     (let f = odbc_fetcher st in
      if resultset_end f then (let (ret, f') = SetCurrentChunk f in Some (ret, set_fetcher st f'))
      else case stmt_res st of
        None \<Rightarrow> None
      | Some res \<Rightarrow>
          let f = ResetLastFetchedVariableVal f; (outcome, res) = result_Fetch res;
              st = (set_fetcher st f)\<lparr>stmt_res := Some res\<rparr> in
          case outcome of
            FetchThrows e \<Rightarrow>
              Some (fetch_post dsn (st\<lparr>stmt_res := Some (res\<lparr>qr_error := Some e\<rparr>), stmt_open := False\<rparr>) ''FetchNext'' e ST_HY000)
          | _ \<Rightarrow>
              (case qr_error res of
                 Some e \<Rightarrow> Some (fetch_post dsn (st\<lparr>stmt_open := False\<rparr>) ''FetchNext'' e ST_HY000)
               | None \<Rightarrow>
                   (case outcome of
                      FetchChunk (r # rs) \<Rightarrow>
                        (let (ret, f') = SetCurrentChunk (add_chunk f (r # rs)) in Some (ret, set_fetcher st f'))
                    | _ \<Rightarrow> Some (SQL_NO_DATA, set_fetcher st (f\<lparr>resultset_end := True\<rparr>)))))"

text \<open>The loop of \<^verbatim>\<open>Materialize\<close>. The outer option is \<open>None\<close> when the fuel does not suffice.\<close>

fun fetch_all :: "string \<Rightarrow> nat \<Rightarrow> OdbcHandleStmt \<Rightarrow> (SQLRETURN \<times> OdbcHandleStmt) option option" where
  "fetch_all dsn 0 st = None"
| "fetch_all dsn (Suc n) st = (case FetchNext dsn st of
      None \<Rightarrow> Some None
    | Some (ret, st') \<Rightarrow> if SQL_SUCCEEDED ret then fetch_all dsn n st' else Some (Some (ret, st')))"

definition restore_position :: "OdbcFetch \<Rightarrow> OdbcFetch \<Rightarrow> OdbcFetch" where
  "restore_position before f =
     (if current_chunk before \<noteq> None
      then f\<lparr>current_chunk := current_chunk before, current_chunk_idx := current_chunk_idx before,
             chunk_row := chunk_row before, prior_chunk_row := prior_chunk_row before\<rparr>
      else f\<lparr>current_chunk := (if chunks f \<noteq> [] then Some (fst (hd (chunks f))) else current_chunk f),
             current_chunk_idx := 0, chunk_row := - 1, prior_chunk_row := - 1\<rparr>)"

definition Materialize :: "string \<Rightarrow> nat \<Rightarrow> OdbcHandleStmt \<Rightarrow> (SQLRETURN \<times> OdbcHandleStmt) option option" where
  "Materialize dsn fuel st = (case fetch_all dsn fuel st of
      None \<Rightarrow> None
    | Some None \<Rightarrow> Some None
    | Some (Some (ret, st')) \<Rightarrow>
        Some (Some (if ret = SQL_NO_DATA \<or> ret = SQL_SUCCESS then SQL_SUCCESS else ret,
                    set_fetcher st' (restore_position (odbc_fetcher st) (odbc_fetcher st')))))"

text \<open>\<^verbatim>\<open>OdbcHandleStmt::MaterializeResult\<close>.\<close>

definition stmt_MaterializeResult :: "string \<Rightarrow> nat \<Rightarrow> OdbcHandleStmt \<Rightarrow> (SQLRETURN \<times> OdbcHandleStmt) option option" where
  "stmt_MaterializeResult dsn fuel st =
     (case stmt_stmt st of
        None \<Rightarrow> Some (Some (SQL_SUCCESS, st))
      | Some ps \<Rightarrow>
          if ps_error ps \<noteq> None then Some (Some (SQL_SUCCESS, st))
          else case stmt_res st of
            None \<Rightarrow> Some (Some (SQL_SUCCESS, st))
          | Some res \<Rightarrow> if qr_error res \<noteq> None then Some (Some (SQL_SUCCESS, st)) else Materialize dsn fuel st)"

section \<open>Positioning\<close>

abbreviation (input) SQL_FETCH_NEXT :: int where "SQL_FETCH_NEXT \<equiv> 1"
abbreviation (input) SQL_FETCH_FIRST :: int where "SQL_FETCH_FIRST \<equiv> 2"
abbreviation (input) SQL_FETCH_PRIOR :: int where "SQL_FETCH_PRIOR \<equiv> 4"
abbreviation (input) SQL_FETCH_ABSOLUTE :: int where "SQL_FETCH_ABSOLUTE \<equiv> 5"
abbreviation (input) RETURN_FETCH_BEFORE_START :: SQLRETURN where "RETURN_FETCH_BEFORE_START \<equiv> 999"

definition SetPriorCurrentChunk :: "SQLULEN \<Rightarrow> OdbcFetch \<Rightarrow> (SQLRETURN \<times> OdbcFetch) option" where
  "SetPriorCurrentChunk array_size f =
     (let f = f\<lparr>prior_chunk_row := to_int64 (prior_chunk_row f - array_size)\<rparr> in
      if current_chunk_idx f = 0 \<and> prior_chunk_row f < - 1 then Some (SQL_NO_DATA, f\<lparr>chunk_row := - 1\<rparr>)
      else if prior_chunk_row f < - 1 then
        (case at (chunks f) (current_chunk_idx f - 1) of
           None \<Rightarrow> None
         | Some (a, c) \<Rightarrow>
             let p = to_int64 (int (length c) - array_size - 1); p = (if p < 0 then - 1 else p)
             in Some (SQL_SUCCESS, f\<lparr>current_chunk_idx := current_chunk_idx f - 1, current_chunk := Some a,
                  prior_chunk_row := p, chunk_row := p\<rparr>))
      else Some (SQL_SUCCESS, f\<lparr>chunk_row := prior_chunk_row f\<rparr>))"

definition BeforeStart :: "OdbcFetch \<Rightarrow> SQLRETURN \<times> OdbcFetch" where
  "BeforeStart f = (RETURN_FETCH_BEFORE_START,
     f\<lparr>current_chunk := (if chunks f \<noteq> [] then Some (fst (hd (chunks f))) else current_chunk f),
       current_chunk_idx := 0, chunk_row := - 1, prior_chunk_row := - 1\<rparr>)"

fun SetAbsoluteCurrentChunk ::
  "string \<Rightarrow> SQLULEN \<Rightarrow> nat \<Rightarrow> OdbcHandleStmt \<Rightarrow> SQLLEN \<Rightarrow> (SQLRETURN \<times> OdbcHandleStmt) option option" where
  "SetAbsoluteCurrentChunk dsn array_size 0 st fetch_offset = None"
| "SetAbsoluteCurrentChunk dsn array_size (Suc n) st fetch_offset =
     (case (if current_chunk (odbc_fetcher st) = None \<or> chunks (odbc_fetcher st) = []
            then map_option snd (FetchNext dsn st) else Some st) of
        None \<Rightarrow> Some None
      | Some st \<Rightarrow>
          let f = odbc_fetcher st in
          (case deref_chunk f of
             None \<Rightarrow> Some None
           | Some c \<Rightarrow>
               let sz = int (length c) in
               if fetch_offset > sz \<and> resultset_end f then Some (Some (SQL_NO_DATA, st))
               else if fetch_offset < 0 \<and> \<bar>fetch_offset\<bar> \<le> sz then
                 (let r = to_int64 (chunk_row f + fetch_offset + 1); r = (if r < - 1 then - 1 else r)
                  in Some (Some (SQL_SUCCESS, set_fetcher st (f\<lparr>chunk_row := r, prior_chunk_row := r\<rparr>))))
               else if fetch_offset < 0 \<and> \<bar>fetch_offset\<bar> > chunk_row f \<and> \<bar>fetch_offset\<bar> > array_size then
                 (let (ret, f') = BeforeStart f in Some (Some (ret, set_fetcher st f')))
               else if fetch_offset < 0 \<and> \<bar>fetch_offset\<bar> > chunk_row f \<and> \<bar>fetch_offset\<bar> \<le> array_size then
                 Some (Some (SQL_SUCCESS, set_fetcher st (f\<lparr>chunk_row := 0, prior_chunk_row := 0\<rparr>)))
               else if fetch_offset = 0 then
                 (let (ret, f') = BeforeStart f in Some (Some (ret, set_fetcher st f')))
               else if 0 \<le> fetch_offset \<and> fetch_offset < sz then
                 Some (Some (SQL_SUCCESS,
                   set_fetcher st (f\<lparr>chunk_row := fetch_offset - 1, prior_chunk_row := fetch_offset - 1\<rparr>)))
               else if fetch_offset \<ge> sz then
                 (case FetchNext dsn st of
                    None \<Rightarrow> Some None
                  | Some (ret, st) \<Rightarrow>
                      if ret \<noteq> SQL_SUCCESS then
                        Some (Some (ret, set_fetcher st ((odbc_fetcher st)\<lparr>current_chunk_idx := 0\<rparr>)))
                      else case deref_chunk (odbc_fetcher st) of
                        None \<Rightarrow> Some None
                      | Some c \<Rightarrow> SetAbsoluteCurrentChunk dsn array_size n st (fetch_offset - int (length c)))
               else Some (Some (SQL_ERROR, st))))"

definition SetFirstCurrentChunk :: "string \<Rightarrow> OdbcHandleStmt \<Rightarrow> (SQLRETURN \<times> OdbcHandleStmt) option" where
  "SetFirstCurrentChunk dsn st =
     (let st = set_fetcher st (snd (BeforeStart (odbc_fetcher st))) in
      if current_chunk (odbc_fetcher st) = None then FetchNext dsn st else Some (SQL_SUCCESS, st))"

definition FetchNextChunk ::
  "string \<Rightarrow> SQLULEN \<Rightarrow> nat \<Rightarrow> SQLULEN \<Rightarrow> OdbcHandleStmt \<Rightarrow> SQLLEN \<Rightarrow> (SQLRETURN \<times> OdbcHandleStmt) option option" where
  "FetchNextChunk dsn array_size fuel fetch_orientation st fetch_offset =
     (let f = odbc_fetcher st in
      if cursor_type f = SQL_CURSOR_FORWARD_ONLY \<and> fetch_orientation \<noteq> SQL_FETCH_NEXT then
        Some (Some (fetch_post dsn st ''FetchNextChunk''
          ''Incorrect fetch orientation for cursor type: SQL_CURSOR_FORWARD_ONLY.'' ST_24000))
      else if fetch_orientation = SQL_FETCH_NEXT then
        (let f = f\<lparr>prior_chunk_row := chunk_row f\<rparr>; st = set_fetcher st f in
         if RequireFetch f then
           (if resultset_end f \<and> int (current_chunk_idx f) = to_uint64 (int (length (chunks f)) - 1)
            then Some (Some (SQL_NO_DATA, st)) else Some (FetchNext dsn st))
         else Some (Some (SQL_SUCCESS, st)))
      else if fetch_orientation = SQL_FETCH_PRIOR then
        Some (map_option (\<lambda>(ret, f'). (ret, set_fetcher st f')) (SetPriorCurrentChunk array_size f))
      else if fetch_orientation = SQL_FETCH_ABSOLUTE then SetAbsoluteCurrentChunk dsn array_size fuel st fetch_offset
      else if fetch_orientation = SQL_FETCH_FIRST then Some (SetFirstCurrentChunk dsn st)
      else Some (Some (SQL_SUCCESS, st)))"

definition FetchFirst :: "string \<Rightarrow> SQLULEN \<Rightarrow> OdbcHandleStmt \<Rightarrow> (SQLRETURN \<times> OdbcHandleStmt) option" where
  "FetchFirst dsn array_size st =
     (let cursor_type_before = cursor_type (odbc_fetcher st);
          st = set_fetcher st ((odbc_fetcher st)\<lparr>cursor_type := SQL_CURSOR_DYNAMIC\<rparr>) in
      case FetchNextChunk dsn array_size 0 SQL_FETCH_FIRST st 0 of
        None \<Rightarrow> None
      | Some None \<Rightarrow> None
      | Some (Some (ret, st)) \<Rightarrow>
          Some (ret, set_fetcher st ((odbc_fetcher st)\<lparr>cursor_type := cursor_type_before\<rparr>)))"

definition GetValue :: "OdbcFetch \<Rightarrow> nat \<Rightarrow> (SQLRETURN \<times> Value option) option" where
  "GetValue f col_idx =
     (if current_chunk f = None then Some (SQL_ERROR, None)
      else case deref_chunk f of
        None \<Rightarrow> None
      | Some c \<Rightarrow>
          if chunk_row f < 0 then None
          else case at c (nat (chunk_row f)) of
            None \<Rightarrow> None
          | Some row \<Rightarrow> map_option (\<lambda>v. (SQL_SUCCESS, Some v)) (at row col_idx))"

definition SetLastFetchedVariableVal :: "OdbcFetch \<Rightarrow> int \<Rightarrow> OdbcFetch" where
  "SetLastFetchedVariableVal f col_idx =
     (let f = (if last_col_idx f \<noteq> col_idx \<or> last_row_idx f \<noteq> chunk_row f then f\<lparr>last_length := 0\<rparr> else f)
      in f\<lparr>last_col_idx := col_idx, last_row_idx := chunk_row f\<rparr>)"

definition SetLastFetchedLength :: "OdbcFetch \<Rightarrow> nat \<Rightarrow> OdbcFetch" where
  "SetLastFetchedLength f new_len = f\<lparr>last_length := new_len\<rparr>"

definition IsInExecutionState :: "OdbcFetch \<Rightarrow> bool" where
  "IsInExecutionState f \<longleftrightarrow> chunks f \<noteq> [] \<and> current_chunk f \<noteq> None"

definition GetRowCount :: "OdbcFetch \<Rightarrow> SQLLEN option" where
  "GetRowCount f = (case current_chunk f of
      None \<Rightarrow> Some (row_count f)
    | Some _ \<Rightarrow> map_option (\<lambda>c. max (row_count f) (int (length c))) (deref_chunk f))"

section \<open>Materialising a result\<close>

text \<open>The chunks of the fetcher after the engine has returned \<open>cs\<close>.\<close>

fun add_chunks :: "OdbcFetch \<Rightarrow> DataChunk list \<Rightarrow> (nat \<times> DataChunk) list" where
  "add_chunks f [] = chunks f"
| "add_chunks f (c # cs) = add_chunks (add_chunk f c) cs"

lemma SetCurrentChunk_keeps:
  "chunks (snd (SetCurrentChunk f)) = chunks f" "cursor_type (snd (SetCurrentChunk f)) = cursor_type f"
  "next_chunk (snd (SetCurrentChunk f)) = next_chunk f" "resultset_end (snd (SetCurrentChunk f)) = resultset_end f"
  "chunks f \<noteq> [] \<Longrightarrow> fst (SetCurrentChunk f) = SQL_SUCCESS"
  by (simp_all add: SetCurrentChunk_def)

lemma add_chunk_simps [simp]:
  "chunks (add_chunk f c) \<noteq> []" "cursor_type (add_chunk f c) = cursor_type f"
  "next_chunk (add_chunk f c) = Suc (next_chunk f)" "resultset_end (add_chunk f c) = resultset_end f"
  by (simp_all add: add_chunk_def)

lemma add_chunks_cong:
  "chunks f = chunks g \<Longrightarrow> cursor_type f = cursor_type g \<Longrightarrow> next_chunk f = next_chunk g
    \<Longrightarrow> add_chunks f cs = add_chunks g cs"
proof (induction cs arbitrary: f g)
  case Nil
  then show ?case by simp
next
  case (Cons c cs)
  then show ?case using Cons.IH [of "add_chunk f c" "add_chunk g c"] by (simp add: add_chunk_def)
qed

lemma FetchNext_chunk:
  assumes "\<not> resultset_end (odbc_fetcher st)" "stmt_res st = Some res" "qr_error res = None"
    and "qr_pending res = FetchChunk c # rest" "c \<noteq> []"
  shows "\<exists>st'. FetchNext dsn st = Some (SQL_SUCCESS, st')
    \<and> odbc_fetcher st' = snd (SetCurrentChunk (add_chunk (ResetLastFetchedVariableVal (odbc_fetcher st)) c))
    \<and> stmt_res st' = Some (res\<lparr>qr_pending := rest\<rparr>) \<and> stmt_open st' = stmt_open st \<and> bound_cols st' = bound_cols st
    \<and> stmt_stmt st' = stmt_stmt st \<and> stmt_dbc st' = stmt_dbc st \<and> retrieve_data st' = retrieve_data st
    \<and> param_desc st' = param_desc st \<and> rows_fetched_ptr st' = rows_fetched_ptr st"
proof -
  obtain r rs where c: "c = r # rs" using assms(5) by (cases c) auto
  show ?thesis
    using assms(1-4) SetCurrentChunk_keeps(5) [of "add_chunk (ResetLastFetchedVariableVal (odbc_fetcher st)) c"]
    by (auto simp: FetchNext_def result_Fetch_def set_fetcher_def c Let_def split: prod.split)
qed

lemma FetchNext_end:
  assumes "\<not> resultset_end (odbc_fetcher st)" "stmt_res st = Some res" "qr_error res = None" "qr_pending res = []"
  shows "FetchNext dsn st = Some (SQL_NO_DATA, set_fetcher st ((ResetLastFetchedVariableVal (odbc_fetcher st))\<lparr>resultset_end := True\<rparr>))"
  using assms by (simp add: FetchNext_def result_Fetch_def set_fetcher_def Let_def)

lemma Reset_simps [simp]:
  "chunks (ResetLastFetchedVariableVal f) = chunks f" "cursor_type (ResetLastFetchedVariableVal f) = cursor_type f"
  "next_chunk (ResetLastFetchedVariableVal f) = next_chunk f" "resultset_end (ResetLastFetchedVariableVal f) = resultset_end f"
  "current_chunk (ResetLastFetchedVariableVal f) = current_chunk f" "chunk_row (ResetLastFetchedVariableVal f) = chunk_row f"
  "current_chunk_idx (ResetLastFetchedVariableVal f) = current_chunk_idx f"
  "prior_chunk_row (ResetLastFetchedVariableVal f) = prior_chunk_row f" "row_count (ResetLastFetchedVariableVal f) = row_count f"
  by (simp_all add: ResetLastFetchedVariableVal_def)

lemma set_fetcher_simps [simp]:
  "odbc_fetcher (set_fetcher st f) = f" "stmt_res (set_fetcher st f) = stmt_res st" "stmt_open (set_fetcher st f) = stmt_open st"
  "bound_cols (set_fetcher st f) = bound_cols st" "stmt_stmt (set_fetcher st f) = stmt_stmt st"
  "rows_fetched_ptr (set_fetcher st f) = rows_fetched_ptr st" "stmt_dbc (set_fetcher st f) = stmt_dbc st"
  "retrieve_data (set_fetcher st f) = retrieve_data st" "param_desc (set_fetcher st f) = param_desc st"
  by (simp_all add: set_fetcher_def)

lemma fetch_all_chunks:
  assumes "\<not> resultset_end (odbc_fetcher st)" "stmt_res st = Some res" "qr_error res = None"
    and "qr_pending res = map FetchChunk cs" "\<forall>c \<in> set cs. c \<noteq> []"
  shows "\<exists>st'. fetch_all dsn (Suc (length cs)) st = Some (Some (SQL_NO_DATA, st'))
    \<and> resultset_end (odbc_fetcher st') \<and> chunks (odbc_fetcher st') = add_chunks (odbc_fetcher st) cs
    \<and> cursor_type (odbc_fetcher st') = cursor_type (odbc_fetcher st)"
  using assms
proof (induction cs arbitrary: st res)
  case Nil
  then show ?case using FetchNext_end [of st res dsn] by simp
next
  case (Cons c cs)
  let ?f = "add_chunk (ResetLastFetchedVariableVal (odbc_fetcher st)) c"
  obtain st1 where st1: "FetchNext dsn st = Some (SQL_SUCCESS, st1)" "odbc_fetcher st1 = snd (SetCurrentChunk ?f)"
    "stmt_res st1 = Some (res\<lparr>qr_pending := map FetchChunk cs\<rparr>)"
    using FetchNext_chunk [OF Cons.prems(1-3), of c "map FetchChunk cs" dsn] Cons.prems(4,5) by auto
  have "add_chunks (odbc_fetcher st1) cs = add_chunks (add_chunk (odbc_fetcher st) c) cs"
    by (rule add_chunks_cong) (simp_all add: st1(2) SetCurrentChunk_keeps, simp add: add_chunk_def)
  moreover have "\<exists>st'. fetch_all dsn (Suc (length cs)) st1 = Some (Some (SQL_NO_DATA, st'))
    \<and> resultset_end (odbc_fetcher st') \<and> chunks (odbc_fetcher st') = add_chunks (odbc_fetcher st1) cs
    \<and> cursor_type (odbc_fetcher st') = cursor_type (odbc_fetcher st1)"
    using Cons.IH [of st1 "res\<lparr>qr_pending := map FetchChunk cs\<rparr>"] Cons.prems st1(2,3)
    by (simp add: SetCurrentChunk_keeps)
  moreover have "fetch_all dsn (Suc (length (c # cs))) st = fetch_all dsn (Suc (length cs)) st1"
    using st1(1) by simp
  ultimately show ?case using st1(2) by (simp add: SetCurrentChunk_keeps del: fetch_all.simps)
qed

lemma add_chunks_scrollable:
  "cursor_type f \<noteq> SQL_CURSOR_FORWARD_ONLY \<Longrightarrow>
    add_chunks f cs = chunks f @ zip [next_chunk f..<next_chunk f + length cs] cs"
proof (induction cs arbitrary: f)
  case (Cons c cs)
  have "[next_chunk f..<next_chunk f + length (c # cs)]
      = next_chunk f # [Suc (next_chunk f)..<Suc (next_chunk f) + length cs]"
    by (simp add: upt_rec)
  with Cons show ?case by (simp add: add_chunk_def)
qed simp

lemma add_chunks_forward:
  "cursor_type f = SQL_CURSOR_FORWARD_ONLY \<Longrightarrow> cs \<noteq> [] \<Longrightarrow>
    add_chunks f cs = [(next_chunk f + length cs - 1, last cs)]"
proof (induction cs arbitrary: f)
  case (Cons c cs)
  show ?case
  proof (cases "cs = []")
    case True
    then show ?thesis using Cons.prems by (simp add: add_chunk_def)
  next
    case False
    then show ?thesis using Cons.IH [of "add_chunk f c"] Cons.prems by (cases cs) simp_all
  qed
qed simp

text \<open>Committing with a scrollable cursor keeps the application's position: for a result whose
  remaining chunks are \<open>cs\<close>, \<^verbatim>\<open>Materialize\<close> returns, all of them are appended to the fetched
  chunks in order, and the current chunk and row are the ones from before.\<close>

lemma Materialize_scrollable:
  assumes "cursor_type (odbc_fetcher st) \<noteq> SQL_CURSOR_FORWARD_ONLY" "\<not> resultset_end (odbc_fetcher st)"
    and "stmt_res st = Some res" "qr_error res = None" "qr_pending res = map FetchChunk cs" "\<forall>c \<in> set cs. c \<noteq> []"
    and "deref_chunk (odbc_fetcher st) = Some c"
  shows "\<exists>st'. Materialize dsn (Suc (length cs)) st = Some (Some (SQL_SUCCESS, st'))
    \<and> map snd (chunks (odbc_fetcher st')) = map snd (chunks (odbc_fetcher st)) @ cs
    \<and> deref_chunk (odbc_fetcher st') = Some c \<and> chunk_row (odbc_fetcher st') = chunk_row (odbc_fetcher st)
    \<and> resultset_end (odbc_fetcher st')"
proof -
  obtain st1 where st1: "fetch_all dsn (Suc (length cs)) st = Some (Some (SQL_NO_DATA, st1))"
    "chunks (odbc_fetcher st1) = chunks (odbc_fetcher st) @ zip [next_chunk (odbc_fetcher st)..<next_chunk (odbc_fetcher st) + length cs] cs"
    "resultset_end (odbc_fetcher st1)"
    using fetch_all_chunks [OF assms(2-6)] add_chunks_scrollable [OF assms(1)] by metis
  obtain a where a: "current_chunk (odbc_fetcher st) = Some a" "map_of (chunks (odbc_fetcher st)) a = Some c"
    using assms(7) by (auto simp: deref_chunk_def split: option.splits)
  have "map_of (chunks (odbc_fetcher st1)) a = Some c"
    using a(2) st1(2) by (auto simp: map_of_append map_add_def dom_def split: option.splits)
  then show ?thesis using st1 a by (simp add: Materialize_def restore_position_def deref_chunk_def)
qed

text \<open>Committing with a forward-only cursor, the default, in the middle of a result leaves the
  fetcher with a pointer to a destroyed chunk: when the engine has at least one more chunk,
  \<^verbatim>\<open>Materialize\<close> succeeds and restores \<^verbatim>\<open>current_chunk\<close>, but the chunk it points to has been
  freed, so that reading the current row is undefined; only the last chunk of the result is
  kept.\<close>

theorem Materialize_forward_only_dangles:
  assumes "cursor_type (odbc_fetcher st) = SQL_CURSOR_FORWARD_ONLY" "\<not> resultset_end (odbc_fetcher st)"
    and "stmt_res st = Some res" "qr_error res = None" "qr_pending res = map FetchChunk cs" "\<forall>c \<in> set cs. c \<noteq> []" "cs \<noteq> []"
    and "current_chunk (odbc_fetcher st) = Some a" "a < next_chunk (odbc_fetcher st)"
  shows "\<exists>st'. Materialize dsn (Suc (length cs)) st = Some (Some (SQL_SUCCESS, st'))
    \<and> map snd (chunks (odbc_fetcher st')) = [last cs] \<and> IsInExecutionState (odbc_fetcher st')
    \<and> GetValue (odbc_fetcher st') col_idx = None"
proof -
  obtain st1 where st1: "fetch_all dsn (Suc (length cs)) st = Some (Some (SQL_NO_DATA, st1))"
    "chunks (odbc_fetcher st1) = [(next_chunk (odbc_fetcher st) + length cs - 1, last cs)]"
    using fetch_all_chunks [OF assms(2-6)] add_chunks_forward [OF assms(1,7)] by metis
  moreover have "a \<noteq> next_chunk (odbc_fetcher st) + length cs - 1" using assms(7,9) by (cases cs) auto
  ultimately show ?thesis
    using assms(8)
    by (auto simp: Materialize_def restore_position_def deref_chunk_def GetValue_def IsInExecutionState_def)
qed

text \<open>Committing after the whole result has been read never returns: when the end of the result
  has been reached and a chunk is still held, the loop of \<^verbatim>\<open>Materialize\<close> runs forever, whatever
  number of iterations it is given.\<close>

theorem Materialize_after_end_diverges:
  assumes "resultset_end (odbc_fetcher st)" "chunks (odbc_fetcher st) \<noteq> []"
  shows "Materialize dsn fuel st = None"
proof -
  have "fetch_all dsn fuel st = None"
    using assms
  proof (induction fuel arbitrary: st)
    case 0
    show ?case by simp
  next
    case (Suc n)
    obtain f' where f': "SetCurrentChunk (odbc_fetcher st) = (SQL_SUCCESS, f')"
      using SetCurrentChunk_keeps(5) [OF Suc.prems(2)] by (metis prod.collapse)
    then have "resultset_end f'" "chunks f' \<noteq> []"
      using Suc.prems SetCurrentChunk_keeps(1,4) [of "odbc_fetcher st"] by auto
    then show ?case using Suc.IH [of "set_fetcher st f'"] Suc.prems f' by (simp add: FetchNext_def)
  qed
  then show ?thesis by (simp add: Materialize_def)
qed

definition sample_rows :: "nat \<Rightarrow> DataChunk" where
  "sample_rows n = map (\<lambda>i. [IntValue \<lparr>lt_id = INTEGER, lt_width = 0, lt_scale = 0\<rparr> (int i)]) [0..<n]"

text \<open>A statement in the middle of a result: one chunk of three rows is fetched, the position is on
  its second row, and the engine has the chunks \<open>cs\<close> to deliver.\<close>

definition sample_fetch :: "SQLULEN \<Rightarrow> bool \<Rightarrow> DataChunk list \<Rightarrow> OdbcHandleStmt" where
  "sample_fetch ct at_end cs =
     \<lparr>stmt_diag = make_OdbcDiagnostic, stmt_dbc = 1, stmt_stmt = None,
      stmt_res = Some \<lparr>qr_error = None, qr_types = [], qr_names = [], qr_pending = map FetchChunk cs\<rparr>,
      bound_cols = [make_OdbcBoundCol], stmt_open = True, retrieve_data = SQL_RD_ON, rows_fetched_ptr = nullptr, max_len = 0,
      odbc_fetcher = \<lparr>cursor_type = ct, cursor_scrollable = 0, row_count = 2, last_col_idx = - 1, last_row_idx = - 1,
        last_length = 0, chunks = [(0, sample_rows 3)], current_chunk_idx = 0, current_chunk = Some 0, chunk_row = 1,
        prior_chunk_row = 0, resultset_end = at_end, next_chunk = 1\<rparr>,
      param_desc = \<lparr>cur_apd = ApdOf 2, pool_allocated_ptr = [], paramset_idx = 0, cur_paramset_idx = 0,
        cur_param_idx = 0, pd_values = []\<rparr>,
      row_desc = \<lparr>cur_ard = ArdOf 2\<rparr>\<rparr>"

theorem Materialize_forward_only_dangles_witness:
  "\<exists>st'. Materialize [] 2 (sample_fetch SQL_CURSOR_FORWARD_ONLY False [sample_rows 2]) = Some (Some (SQL_SUCCESS, st'))
    \<and> map snd (chunks (odbc_fetcher st')) = [sample_rows 2] \<and> IsInExecutionState (odbc_fetcher st')
    \<and> GetValue (odbc_fetcher st') 0 = None"
  using Materialize_forward_only_dangles [of "sample_fetch SQL_CURSOR_FORWARD_ONLY False [sample_rows 2]" _ "[sample_rows 2]" 0 "[]" 0]
  by (simp add: sample_fetch_def, simp add: sample_rows_def upt_rec numeral_2_eq_2)

theorem Materialize_after_end_diverges_witness:
  "Materialize [] 1000 (sample_fetch SQL_CURSOR_FORWARD_ONLY True []) = None"
  by (rule Materialize_after_end_diverges) (simp_all add: sample_fetch_def)

end
