(* ===== verification/Engine_Temporal.thy ===== *)
theory Engine_Temporal
  imports Api_Info
begin

text \<open>
  The calendar arithmetic of the engine that the driver calls when it moves dates, times and
  timestamps across the ODBC interface: \<^verbatim>\<open>Date::Convert\<close>, \<^verbatim>\<open>Date::FromDate\<close> and
  their tables (\<^verbatim>\<open>duckdb/src/common/types/date.cpp\<close>), \<^verbatim>\<open>Time::Convert\<close> and
  \<^verbatim>\<open>Time::FromTime\<close> (\<^verbatim>\<open>time.cpp\<close>), and the epoch conversions of
  \<^verbatim>\<open>timestamp.cpp\<close>. A date is a number of days, a time a number of microseconds, a timestamp a
  number of microseconds since 1970-01-01. A function that throws returns \<open>Inl\<close> of the message.

  The theorems show that the table-driven conversion of a day number to year, month and day inverts
  the conversion back, and that the split of a timestamp into date and time is a division with a
  non-negative remainder, also before 1970.
\<close>

section \<open>Tables\<close>

definition NORMAL_DAYS :: "int list" where
  "NORMAL_DAYS =
     [0, 31, 28, 31, 30, 31, 30, 31, 31, 30, 31, 30, 31]"

definition LEAP_DAYS :: "int list" where
  "LEAP_DAYS =
     [0, 31, 29, 31, 30, 31, 30, 31, 31, 30, 31, 30, 31]"

definition CUMULATIVE_DAYS :: "int list" where
  "CUMULATIVE_DAYS =
     [0, 31, 59, 90, 120, 151, 181, 212, 243, 273, 304, 334, 365]"

definition CUMULATIVE_LEAP_DAYS :: "int list" where
  "CUMULATIVE_LEAP_DAYS =
     [0, 31, 60, 91, 121, 152, 182, 213, 244, 274, 305, 335, 366]"

definition MONTH_PER_DAY_OF_YEAR :: "int list" where
  "MONTH_PER_DAY_OF_YEAR =
     [1, 1, 1, 1, 1, 1, 1, 1, 1, 1, 1, 1, 1, 1, 1, 1, 1, 1, 1, 1, 1, 1, 1, 1, 1, 1, 1, 1, 1, 1, 1, 2, 2, 2,
      2, 2, 2, 2, 2, 2, 2, 2, 2, 2, 2, 2, 2, 2, 2, 2, 2, 2, 2, 2, 2, 2, 2, 2, 2, 3, 3, 3, 3, 3, 3, 3, 3, 3,
      3, 3, 3, 3, 3, 3, 3, 3, 3, 3, 3, 3, 3, 3, 3, 3, 3, 3, 3, 3, 3, 3, 4, 4, 4, 4, 4, 4, 4, 4, 4, 4, 4, 4,
      4, 4, 4, 4, 4, 4, 4, 4, 4, 4, 4, 4, 4, 4, 4, 4, 4, 4, 5, 5, 5, 5, 5, 5, 5, 5, 5, 5, 5, 5, 5, 5, 5, 5,
      5, 5, 5, 5, 5, 5, 5, 5, 5, 5, 5, 5, 5, 5, 5, 6, 6, 6, 6, 6, 6, 6, 6, 6, 6, 6, 6, 6, 6, 6, 6, 6, 6, 6,
      6, 6, 6, 6, 6, 6, 6, 6, 6, 6, 6, 7, 7, 7, 7, 7, 7, 7, 7, 7, 7, 7, 7, 7, 7, 7, 7, 7, 7, 7, 7, 7, 7, 7,
      7, 7, 7, 7, 7, 7, 7, 7, 8, 8, 8, 8, 8, 8, 8, 8, 8, 8, 8, 8, 8, 8, 8, 8, 8, 8, 8, 8, 8, 8, 8, 8, 8, 8,
      8, 8, 8, 8, 8, 9, 9, 9, 9, 9, 9, 9, 9, 9, 9, 9, 9, 9, 9, 9, 9, 9, 9, 9, 9, 9, 9, 9, 9, 9, 9, 9, 9, 9,
      9, 10, 10, 10, 10, 10, 10, 10, 10, 10, 10, 10, 10, 10, 10, 10, 10, 10, 10, 10, 10, 10, 10, 10, 10, 10,
      10, 10, 10, 10, 10, 10, 11, 11, 11, 11, 11, 11, 11, 11, 11, 11, 11, 11, 11, 11, 11, 11, 11, 11, 11, 11,
      11, 11, 11, 11, 11, 11, 11, 11, 11, 11, 12, 12, 12, 12, 12, 12, 12, 12, 12, 12, 12, 12, 12, 12, 12, 12,
      12, 12, 12, 12, 12, 12, 12, 12, 12, 12, 12, 12, 12, 12, 12]"

definition LEAP_MONTH_PER_DAY_OF_YEAR :: "int list" where
  "LEAP_MONTH_PER_DAY_OF_YEAR =
     [1, 1, 1, 1, 1, 1, 1, 1, 1, 1, 1, 1, 1, 1, 1, 1, 1, 1, 1, 1, 1, 1, 1, 1, 1, 1, 1, 1, 1, 1, 1, 2, 2, 2,
      2, 2, 2, 2, 2, 2, 2, 2, 2, 2, 2, 2, 2, 2, 2, 2, 2, 2, 2, 2, 2, 2, 2, 2, 2, 2, 3, 3, 3, 3, 3, 3, 3, 3,
      3, 3, 3, 3, 3, 3, 3, 3, 3, 3, 3, 3, 3, 3, 3, 3, 3, 3, 3, 3, 3, 3, 3, 4, 4, 4, 4, 4, 4, 4, 4, 4, 4, 4,
      4, 4, 4, 4, 4, 4, 4, 4, 4, 4, 4, 4, 4, 4, 4, 4, 4, 4, 4, 5, 5, 5, 5, 5, 5, 5, 5, 5, 5, 5, 5, 5, 5, 5,
      5, 5, 5, 5, 5, 5, 5, 5, 5, 5, 5, 5, 5, 5, 5, 5, 6, 6, 6, 6, 6, 6, 6, 6, 6, 6, 6, 6, 6, 6, 6, 6, 6, 6,
      6, 6, 6, 6, 6, 6, 6, 6, 6, 6, 6, 6, 7, 7, 7, 7, 7, 7, 7, 7, 7, 7, 7, 7, 7, 7, 7, 7, 7, 7, 7, 7, 7, 7,
      7, 7, 7, 7, 7, 7, 7, 7, 7, 8, 8, 8, 8, 8, 8, 8, 8, 8, 8, 8, 8, 8, 8, 8, 8, 8, 8, 8, 8, 8, 8, 8, 8, 8,
      8, 8, 8, 8, 8, 8, 9, 9, 9, 9, 9, 9, 9, 9, 9, 9, 9, 9, 9, 9, 9, 9, 9, 9, 9, 9, 9, 9, 9, 9, 9, 9, 9, 9,
      9, 9, 10, 10, 10, 10, 10, 10, 10, 10, 10, 10, 10, 10, 10, 10, 10, 10, 10, 10, 10, 10, 10, 10, 10, 10,
      10, 10, 10, 10, 10, 10, 10, 11, 11, 11, 11, 11, 11, 11, 11, 11, 11, 11, 11, 11, 11, 11, 11, 11, 11, 11,
      11, 11, 11, 11, 11, 11, 11, 11, 11, 11, 11, 12, 12, 12, 12, 12, 12, 12, 12, 12, 12, 12, 12, 12, 12, 12,
      12, 12, 12, 12, 12, 12, 12, 12, 12, 12, 12, 12, 12, 12, 12, 12]"

definition CUMULATIVE_YEAR_DAYS :: "int list" where
  "CUMULATIVE_YEAR_DAYS =
     [0, 365, 730, 1096, 1461, 1826, 2191, 2557, 2922, 3287, 3652, 4018, 4383, 4748, 5113, 5479, 5844, 6209,
      6574, 6940, 7305, 7670, 8035, 8401, 8766, 9131, 9496, 9862, 10227, 10592, 10957, 11323, 11688, 12053,
      12418, 12784, 13149, 13514, 13879, 14245, 14610, 14975, 15340, 15706, 16071, 16436, 16801, 17167,
      17532, 17897, 18262, 18628, 18993, 19358, 19723, 20089, 20454, 20819, 21184, 21550, 21915, 22280,
      22645, 23011, 23376, 23741, 24106, 24472, 24837, 25202, 25567, 25933, 26298, 26663, 27028, 27394,
      27759, 28124, 28489, 28855, 29220, 29585, 29950, 30316, 30681, 31046, 31411, 31777, 32142, 32507,
      32872, 33238, 33603, 33968, 34333, 34699, 35064, 35429, 35794, 36160, 36525, 36890, 37255, 37621,
      37986, 38351, 38716, 39082, 39447, 39812, 40177, 40543, 40908, 41273, 41638, 42004, 42369, 42734,
      43099, 43465, 43830, 44195, 44560, 44926, 45291, 45656, 46021, 46387, 46752, 47117, 47482, 47847,
      48212, 48577, 48942, 49308, 49673, 50038, 50403, 50769, 51134, 51499, 51864, 52230, 52595, 52960,
      53325, 53691, 54056, 54421, 54786, 55152, 55517, 55882, 56247, 56613, 56978, 57343, 57708, 58074,
      58439, 58804, 59169, 59535, 59900, 60265, 60630, 60996, 61361, 61726, 62091, 62457, 62822, 63187,
      63552, 63918, 64283, 64648, 65013, 65379, 65744, 66109, 66474, 66840, 67205, 67570, 67935, 68301,
      68666, 69031, 69396, 69762, 70127, 70492, 70857, 71223, 71588, 71953, 72318, 72684, 73049, 73414,
      73779, 74145, 74510, 74875, 75240, 75606, 75971, 76336, 76701, 77067, 77432, 77797, 78162, 78528,
      78893, 79258, 79623, 79989, 80354, 80719, 81084, 81450, 81815, 82180, 82545, 82911, 83276, 83641,
      84006, 84371, 84736, 85101, 85466, 85832, 86197, 86562, 86927, 87293, 87658, 88023, 88388, 88754,
      89119, 89484, 89849, 90215, 90580, 90945, 91310, 91676, 92041, 92406, 92771, 93137, 93502, 93867,
      94232, 94598, 94963, 95328, 95693, 96059, 96424, 96789, 97154, 97520, 97885, 98250, 98615, 98981,
      99346, 99711, 100076, 100442, 100807, 101172, 101537, 101903, 102268, 102633, 102998, 103364, 103729,
      104094, 104459, 104825, 105190, 105555, 105920, 106286, 106651, 107016, 107381, 107747, 108112, 108477,
      108842, 109208, 109573, 109938, 110303, 110669, 111034, 111399, 111764, 112130, 112495, 112860, 113225,
      113591, 113956, 114321, 114686, 115052, 115417, 115782, 116147, 116513, 116878, 117243, 117608, 117974,
      118339, 118704, 119069, 119435, 119800, 120165, 120530, 120895, 121260, 121625, 121990, 122356, 122721,
      123086, 123451, 123817, 124182, 124547, 124912, 125278, 125643, 126008, 126373, 126739, 127104, 127469,
      127834, 128200, 128565, 128930, 129295, 129661, 130026, 130391, 130756, 131122, 131487, 131852, 132217,
      132583, 132948, 133313, 133678, 134044, 134409, 134774, 135139, 135505, 135870, 136235, 136600, 136966,
      137331, 137696, 138061, 138427, 138792, 139157, 139522, 139888, 140253, 140618, 140983, 141349, 141714,
      142079, 142444, 142810, 143175, 143540, 143905, 144271, 144636, 145001, 145366, 145732, 146097]"

abbreviation (input) DAYS_PER_YEAR_INTERVAL :: int where "DAYS_PER_YEAR_INTERVAL \<equiv> 146097"
abbreviation (input) DATE_MIN_YEAR :: int where "DATE_MIN_YEAR \<equiv> - 5877641"
abbreviation (input) DATE_MAX_YEAR :: int where "DATE_MAX_YEAR \<equiv> 5881580"
abbreviation (input) MICROS_PER_DAY :: int where "MICROS_PER_DAY \<equiv> 86400000000"
abbreviation (input) INT32_MAX :: int where "INT32_MAX \<equiv> 2147483647"
abbreviation (input) INT64_MAX :: int where "INT64_MAX \<equiv> 9223372036854775807"

section \<open>Dates\<close>

text \<open>\<^verbatim>\<open>Date::ExtractYearOffset\<close>: two loops that move the day into one 400-year interval, then a
  search downwards from an upper bound of the year.\<close>

function days_up :: "int \<Rightarrow> int \<Rightarrow> int \<times> int" where
  "days_up n year = (if n < 0 then days_up (n + DAYS_PER_YEAR_INTERVAL) (year - 400) else (n, year))"
  by pat_completeness auto
termination by (relation "measure (\<lambda>(n, _). nat (- n))") auto

function days_down :: "int \<Rightarrow> int \<Rightarrow> int \<times> int" where
  "days_down n year = (if n \<ge> DAYS_PER_YEAR_INTERVAL then days_down (n - DAYS_PER_YEAR_INTERVAL) (year + 400) else (n, year))"
  by pat_completeness auto
termination by (relation "measure (\<lambda>(n, _). nat n)") auto

declare days_up.simps [simp del] days_down.simps [simp del]

fun year_search :: "int \<Rightarrow> nat \<Rightarrow> nat option" where
  "year_search n 0 = (if n < CUMULATIVE_YEAR_DAYS ! 0 then None else Some 0)"
| "year_search n (Suc k) = (if n < CUMULATIVE_YEAR_DAYS ! Suc k then year_search n k else Some (Suc k))"

definition ExtractYearOffset :: "int \<Rightarrow> (int \<times> int \<times> nat) option" where
  "ExtractYearOffset n =
     (let (n, year) = days_up n 1970; (n, year) = days_down n year
      in map_option (\<lambda>k. (n, year + int k, k)) (year_search n (nat (c_div n 365))))"

definition Date_Convert :: "int \<Rightarrow> (int \<times> int \<times> int) option" where
  "Date_Convert d = (case ExtractYearOffset d of
      None \<Rightarrow> None
    | Some (n, year, k) \<Rightarrow>
        let day = n - CUMULATIVE_YEAR_DAYS ! k in
        if CUMULATIVE_YEAR_DAYS ! (k + 1) - CUMULATIVE_YEAR_DAYS ! k = 366
        then (let month = LEAP_MONTH_PER_DAY_OF_YEAR ! nat day
              in Some (year, month, day - CUMULATIVE_LEAP_DAYS ! nat (month - 1) + 1))
        else (let month = MONTH_PER_DAY_OF_YEAR ! nat day
              in Some (year, month, day - CUMULATIVE_DAYS ! nat (month - 1) + 1)))"

definition IsLeapYear :: "int \<Rightarrow> bool" where
  "IsLeapYear year \<longleftrightarrow> c_mod year 4 = 0 \<and> (c_mod year 100 \<noteq> 0 \<or> c_mod year 400 = 0)"

definition Date_IsValid :: "int \<Rightarrow> int \<Rightarrow> int \<Rightarrow> bool" where
  "Date_IsValid year month day =
     (if month < 1 \<or> month > 12 then False
      else if day < 1 then False
      else if year < DATE_MIN_YEAR \<or> year = DATE_MIN_YEAR \<and> (month < 6 \<or> month = 6 \<and> day < 25) then False
      else if year > DATE_MAX_YEAR \<or> year = DATE_MAX_YEAR \<and> (month > 7 \<or> month = 7 \<and> day > 10) then False
      else if IsLeapYear year then day \<le> LEAP_DAYS ! nat month else day \<le> NORMAL_DAYS ! nat month)"

definition TryFromDate :: "int \<Rightarrow> int \<Rightarrow> int \<Rightarrow> int option" where
  "TryFromDate year month day =
     (if \<not> Date_IsValid year month day then None
      else
        let n = (if IsLeapYear year then CUMULATIVE_LEAP_DAYS ! nat (month - 1) else CUMULATIVE_DAYS ! nat (month - 1));
            n = n + (day - 1)
        in Some
          (if year < 1970 then
             (let diff_from_base = 1970 - year; year_index = 400 - c_mod diff_from_base 400;
                  fractions = c_div diff_from_base 400
              in n + CUMULATIVE_YEAR_DAYS ! nat year_index - DAYS_PER_YEAR_INTERVAL - fractions * DAYS_PER_YEAR_INTERVAL)
           else if year \<ge> 2370 then
             (let diff_from_base = year - 2370; year_index = c_mod diff_from_base 400;
                  fractions = c_div diff_from_base 400
              in n + CUMULATIVE_YEAR_DAYS ! nat year_index + DAYS_PER_YEAR_INTERVAL + fractions * DAYS_PER_YEAR_INTERVAL)
           else n + CUMULATIVE_YEAR_DAYS ! nat (year - 1970)))"

definition FromDate :: "int \<Rightarrow> int \<Rightarrow> int \<Rightarrow> string + int" where
  "FromDate year month day = (case TryFromDate year month day of
      None \<Rightarrow> Inl (''Date out of range: '' @ to_string year @ ''-'' @ to_string month @ ''-'' @ to_string day)
    | Some n \<Rightarrow> Inr n)"

section \<open>Times\<close>

definition Time_Convert :: "int \<Rightarrow> int \<times> int \<times> int \<times> int" where
  "Time_Convert t =
     (let hour = to_int32 (c_div t MICROS_PER_HOUR); t = t - hour * MICROS_PER_HOUR;
          min = to_int32 (c_div t MICROS_PER_MINUTE); t = t - min * MICROS_PER_MINUTE;
          sec = to_int32 (c_div t MICROS_PER_SEC); t = t - sec * MICROS_PER_SEC
      in (hour, min, sec, to_int32 t))"

definition FromTime :: "int \<Rightarrow> int \<Rightarrow> int \<Rightarrow> int \<Rightarrow> int" where
  "FromTime hour minute second microseconds =
     (let result = hour; result = result * 60 + minute; result = result * 60 + second
      in result * MICROS_PER_SEC + microseconds)"

section \<open>Timestamps\<close>

definition Timestamp_IsFinite :: "int \<Rightarrow> bool" where
  "Timestamp_IsFinite ts \<longleftrightarrow> ts \<noteq> INT64_MAX \<and> ts \<noteq> - INT64_MAX"

text \<open>\<^verbatim>\<open>TryMultiplyOperator\<close> on 64-bit integers.\<close>

definition try_int64 :: "int \<Rightarrow> int option" where
  "try_int64 x = (if - (2 ^ 63) \<le> x \<and> x < 2 ^ 63 then Some x else None)"

definition FromEpochSeconds :: "int \<Rightarrow> string + int" where
  "FromEpochSeconds sec = (case try_int64 (sec * MICROS_PER_SEC) of
      None \<Rightarrow> Inl ''Could not convert Timestamp(S) to Timestamp(US)'' | Some r \<Rightarrow> Inr r)"

definition FromEpochMs :: "int \<Rightarrow> string + int" where
  "FromEpochMs ms = (case try_int64 (ms * 1000) of
      None \<Rightarrow> Inl ''Could not convert Timestamp(MS) to Timestamp(US)'' | Some r \<Rightarrow> Inr r)"

definition FromEpochMicroSeconds :: "int \<Rightarrow> string + int" where "FromEpochMicroSeconds us = Inr us"

definition FromEpochNanoSeconds :: "int \<Rightarrow> string + int" where "FromEpochNanoSeconds ns = Inr (c_div ns 1000)"

definition GetDate :: "int \<Rightarrow> int" where
  "GetDate ts =
     (if ts = INT64_MAX then INT32_MAX
      else if ts = - INT64_MAX then - INT32_MAX
      else c_div (ts + of_bool (ts < 0)) MICROS_PER_DAY - of_bool (ts < 0))"

definition GetTime :: "int \<Rightarrow> string + int" where
  "GetTime ts =
     (if \<not> Timestamp_IsFinite ts then Inl ''Can't get TIME of infinite TIMESTAMP''
      else Inr (ts - GetDate ts * MICROS_PER_DAY))"

definition TryFromDatetime :: "int \<Rightarrow> int \<Rightarrow> int option" where
  "TryFromDatetime date time = (case try_int64 (date * MICROS_PER_DAY) of
      None \<Rightarrow> None
    | Some r \<Rightarrow> (case try_int64 (r + time) of
        None \<Rightarrow> None
      | Some r \<Rightarrow> if Timestamp_IsFinite r then Some r else None))"

text \<open>\<^verbatim>\<open>TryCast::Operation(date_t, timestamp_t)\<close> and the casts from a timestamp to a date and to a
  time.\<close>

definition cast_date_to_timestamp :: "int \<Rightarrow> int option" where
  "cast_date_to_timestamp date =
     (if date = INT32_MAX then Some INT64_MAX
      else if date = - INT32_MAX then Some (- INT64_MAX)
      else TryFromDatetime date (FromTime 0 0 0 0))"

definition cast_timestamp_to_date :: "int \<Rightarrow> int option" where
  "cast_timestamp_to_date ts = Some (GetDate ts)"

definition cast_timestamp_to_time :: "int \<Rightarrow> int option" where
  "cast_timestamp_to_time ts =
     (if \<not> Timestamp_IsFinite ts then None
      else case GetTime ts of Inl _ \<Rightarrow> None | Inr t \<Rightarrow> Some t)"

section \<open>The tables\<close>

lemma c_mod_eq_0: "0 < b \<Longrightarrow> c_mod a b = 0 \<longleftrightarrow> a mod b = 0"
proof (cases "a < 0")
  case True
  moreover assume "0 < b"
  ultimately have "c_mod a b = - ((- a) mod b)"
    by (simp add: c_mod_def c_div_def minus_mult_div_eq_mod [symmetric])
  then show ?thesis by (simp add: mod_eq_0_iff_dvd)
qed (simp add: c_mod_nonneg)

lemma IsLeapYear_mod: "IsLeapYear year \<longleftrightarrow> year mod 4 = 0 \<and> (year mod 100 \<noteq> 0 \<or> year mod 400 = 0)"
  by (simp add: IsLeapYear_def c_mod_eq_0)

lemma IsLeapYear_period: "IsLeapYear (year + 400 * q) = IsLeapYear year"
proof -
  have "(year + 4 * (100 * q)) mod 4 = year mod 4" "(year + 100 * (4 * q)) mod 100 = year mod 100"
    by (rule mod_mult_self2)+
  then show ?thesis by (simp add: IsLeapYear_mod)
qed

text \<open>The steps of the table of years, from year \<open>y\<close> on.\<close>

fun year_steps :: "int \<Rightarrow> int list \<Rightarrow> bool" where
  "year_steps y (a # b # ns) \<longleftrightarrow> b - a = (if IsLeapYear y then 366 else 365) \<and> year_steps (y + 1) (b # ns)"
| "year_steps y ns \<longleftrightarrow> True"

lemma year_steps_nth:
  "year_steps y ns \<Longrightarrow> Suc k < length ns \<Longrightarrow> ns ! Suc k = ns ! k + (if IsLeapYear (y + int k) then 366 else 365)"
proof (induction k arbitrary: y ns)
  case 0
  then show ?case by (cases "(y, ns)" rule: year_steps.cases) auto
next
  case (Suc k)
  then obtain a b ns' where ns: "ns = a # b # ns'" by (cases ns; cases "tl ns") auto
  then show ?case using Suc.IH [of "y + 1" "b # ns'"] Suc.prems by (simp add: add.assoc)
qed

lemma year_table: "year_steps 1970 CUMULATIVE_YEAR_DAYS"
  by (simp add: CUMULATIVE_YEAR_DAYS_def IsLeapYear_mod)

text \<open>Every day of the year, from day \<open>d\<close> on, lies in the month that the table names.\<close>

fun month_days :: "int list \<Rightarrow> int \<Rightarrow> int list \<Rightarrow> bool" where
  "month_days cum d [] \<longleftrightarrow> True"
| "month_days cum d (m # ms) \<longleftrightarrow> 1 \<le> m \<and> m \<le> 12 \<and> cum ! nat (m - 1) \<le> d \<and> d < cum ! nat m \<and> month_days cum (d + 1) ms"

lemma month_tables:
  "month_days CUMULATIVE_DAYS 0 MONTH_PER_DAY_OF_YEAR"
  "month_days CUMULATIVE_LEAP_DAYS 0 LEAP_MONTH_PER_DAY_OF_YEAR"
  by (simp_all add: CUMULATIVE_DAYS_def CUMULATIVE_LEAP_DAYS_def MONTH_PER_DAY_OF_YEAR_def LEAP_MONTH_PER_DAY_OF_YEAR_def)


lemma month_days_nth:
  "month_days cum d ms \<Longrightarrow> k < length ms \<Longrightarrow> 1 \<le> ms ! k \<and> ms ! k \<le> 12
     \<and> cum ! nat (ms ! k - 1) \<le> d + int k \<and> d + int k < cum ! nat (ms ! k)"
proof (induction k arbitrary: d ms)
  case 0
  then show ?case by (cases ms) auto
next
  case (Suc k)
  then obtain m ms' where "ms = m # ms'" by (cases ms) auto
  then show ?case using Suc.IH [of "d + 1" ms'] Suc.prems by (simp add: add.assoc)
qed

lemma table_lengths [simp]:
  "length CUMULATIVE_YEAR_DAYS = 401" "length MONTH_PER_DAY_OF_YEAR = 365" "length LEAP_MONTH_PER_DAY_OF_YEAR = 366"
  by (simp_all add: CUMULATIVE_YEAR_DAYS_def MONTH_PER_DAY_OF_YEAR_def LEAP_MONTH_PER_DAY_OF_YEAR_def)

lemma year_table_ends [simp]: "CUMULATIVE_YEAR_DAYS ! 0 = 0" "CUMULATIVE_YEAR_DAYS ! 400 = 146097"
  by (simp_all add: CUMULATIVE_YEAR_DAYS_def)

lemma year_table_Suc:
  "k < 400 \<Longrightarrow> CUMULATIVE_YEAR_DAYS ! Suc k = CUMULATIVE_YEAR_DAYS ! k + (if IsLeapYear (1970 + int k) then 366 else 365)"
  using year_steps_nth [OF year_table] by simp

lemma year_table_mono: "j \<le> k \<Longrightarrow> k \<le> 400 \<Longrightarrow> CUMULATIVE_YEAR_DAYS ! j \<le> CUMULATIVE_YEAR_DAYS ! k"
  by (induction k rule: nat_induct_at_least) (auto simp: year_table_Suc)

lemma year_table_ge: "k \<le> 400 \<Longrightarrow> 365 * int k \<le> CUMULATIVE_YEAR_DAYS ! k"
  by (induction k) (auto simp: year_table_Suc)

section \<open>Finding the year\<close>

lemma year_search_finds:
  "k \<le> j \<Longrightarrow> j \<le> 400 \<Longrightarrow> k < 400 \<Longrightarrow> CUMULATIVE_YEAR_DAYS ! k \<le> n \<Longrightarrow> n < CUMULATIVE_YEAR_DAYS ! Suc k
    \<Longrightarrow> year_search n j = Some k"
proof (induction j rule: nat_induct_at_least)
  case base
  then show ?case by (cases k) auto
next
  case (Suc j)
  have "CUMULATIVE_YEAR_DAYS ! Suc k \<le> CUMULATIVE_YEAR_DAYS ! Suc j" using Suc by (intro year_table_mono) auto
  with Suc show ?case by simp
qed

lemma days_up_eq: "n < 0 \<Longrightarrow> days_up n year = (n mod 146097, year + 400 * (n div 146097))"
proof (induction n year rule: days_up.induct)
  case (1 n year)
  have step: "(n + 146097) div 146097 = n div 146097 + 1" "(n + 146097) mod 146097 = n mod 146097" by simp_all
  show ?case
  proof (cases "n + 146097 < 0")
    case True
    then show ?thesis using 1 step by (subst days_up.simps) (simp add: algebra_simps)
  next
    case False
    with 1(2) have "n div 146097 = - 1" by (simp add: div_eq_minus1)
    moreover from this have "n mod 146097 = n + 146097" using mult_div_mod_eq [of 146097 n] by linarith
    ultimately have *: "n div 146097 = - 1" "n mod 146097 = n + 146097" by simp_all
    show ?thesis using 1(2) False * by (subst days_up.simps, subst days_up.simps) simp
  qed
qed

lemma days_down_eq: "0 \<le> n \<Longrightarrow> days_down n year = (n mod 146097, year + 400 * (n div 146097))"
proof (induction n year rule: days_down.induct)
  case (1 n year)
  have step: "(n - 146097) div 146097 = n div 146097 - 1" "(n - 146097) mod 146097 = n mod 146097"
    using div_add_self2 [of "146097 :: int" "n - 146097"] by (simp_all add: minus_mod_self2)
  show ?case
  proof (cases "n \<ge> 146097")
    case True
    then show ?thesis using 1 step by (subst days_down.simps) (simp add: algebra_simps)
  next
    case False
    then show ?thesis using 1(2) by (subst days_down.simps) simp
  qed
qed

lemma ExtractYearOffset_eq:
  assumes "k < 400" "CUMULATIVE_YEAR_DAYS ! k \<le> n mod 146097" "n mod 146097 < CUMULATIVE_YEAR_DAYS ! Suc k"
  shows "ExtractYearOffset n = Some (n mod 146097, 1970 + 400 * (n div 146097) + int k, k)"
proof -
  have norm: "(let (n, year) = days_up n 1970 in days_down n year) = (n mod 146097, 1970 + 400 * (n div 146097))"
  proof (cases "n < 0")
    case True
    then show ?thesis using days_down_eq [of "n mod 146097"] by (simp add: days_up_eq)
  next
    case False
    then show ?thesis using days_down_eq [of n 1970] by (subst days_up.simps) simp
  qed
  have "365 * int k \<le> n mod 146097" using year_table_ge [of k] assms by simp
  then have "k \<le> nat (n mod 146097 div 365)" by linarith
  moreover have "nat (n mod 146097 div 365) \<le> 400" using pos_mod_bound [of 146097 n] by linarith
  ultimately have "year_search (n mod 146097) (nat (c_div (n mod 146097) 365)) = Some k"
    using year_search_finds assms by (simp add: c_div_nonneg)
  then show ?thesis using norm by (auto simp: ExtractYearOffset_def Let_def split: prod.splits)
qed


section \<open>Days of the year\<close>

abbreviation month_starts :: "bool \<Rightarrow> int list" where
  "month_starts leap \<equiv> (if leap then CUMULATIVE_LEAP_DAYS else CUMULATIVE_DAYS)"
abbreviation month_lengths :: "bool \<Rightarrow> int list" where
  "month_lengths leap \<equiv> (if leap then LEAP_DAYS else NORMAL_DAYS)"
abbreviation month_of_day :: "bool \<Rightarrow> int list" where
  "month_of_day leap \<equiv> (if leap then LEAP_MONTH_PER_DAY_OF_YEAR else MONTH_PER_DAY_OF_YEAR)"

lemma month_starts_step:
  assumes "1 \<le> m" "m \<le> 12"
  shows "month_starts leap ! nat m = month_starts leap ! nat (m - 1) + month_lengths leap ! nat m \<and> 0 < month_lengths leap ! nat m"
proof -
  have "m \<in> {1, 2, 3, 4, 5, 6, 7, 8, 9, 10, 11, 12}"
    using assms by (simp only: insert_iff empty_iff) presburger
  then show ?thesis
    by (elim insertE; simp add: CUMULATIVE_LEAP_DAYS_def CUMULATIVE_DAYS_def LEAP_DAYS_def NORMAL_DAYS_def)
qed

lemma month_starts_ends:
  "month_starts leap ! 0 = 0" "month_starts leap ! 12 = (if leap then 366 else 365)"
  by (simp_all add: CUMULATIVE_LEAP_DAYS_def CUMULATIVE_DAYS_def)

lemma month_starts_mono: "j \<le> k \<Longrightarrow> k \<le> 12 \<Longrightarrow> month_starts leap ! j \<le> month_starts leap ! k"
proof (induction k rule: nat_induct_at_least)
  case (Suc k)
  have "month_starts leap ! Suc k \<ge> month_starts leap ! k"
    using month_starts_step [of "int k + 1" leap] Suc.prems by (simp add: nat_add_distrib)
  with Suc show ?case by simp
qed simp

lemma month_of_day_unique:
  assumes "1 \<le> m" "m \<le> 12" "month_starts leap ! nat (m - 1) \<le> doy" "doy < month_starts leap ! nat m"
  shows "0 \<le> doy \<and> doy < (if leap then 366 else 365) \<and> month_of_day leap ! nat doy = m"
proof -
  have range: "0 \<le> doy" "doy < (if leap then 366 else 365)"
    using month_starts_mono [of 0 "nat (m - 1)" leap] month_starts_mono [of "nat m" 12 leap] month_starts_ends [of leap] assms
    by (simp_all only: nat_le_eq_zle nat_le_iff) linarith+
  let ?m = "month_of_day leap ! nat doy"
  have "1 \<le> ?m \<and> ?m \<le> 12 \<and> month_starts leap ! nat (?m - 1) \<le> doy \<and> doy < month_starts leap ! nat ?m"
    using month_days_nth [OF month_tables(1), of "nat doy"] month_days_nth [OF month_tables(2), of "nat doy"] range
    by (cases leap) (simp_all add: nat_less_iff)
  then have m: "1 \<le> ?m" "?m \<le> 12" "month_starts leap ! nat (?m - 1) \<le> doy" "doy < month_starts leap ! nat ?m" by blast+
  have "\<not> ?m < m"
  proof
    assume "?m < m"
    then have "nat ?m \<le> nat (m - 1)" "nat (m - 1) \<le> 12" using assms(2) by linarith+
    from month_starts_mono [OF this, of leap] show False using m(4) assms(3) by linarith
  qed
  moreover have "\<not> m < ?m"
  proof
    assume "m < ?m"
    then have "nat m \<le> nat (?m - 1)" "nat (?m - 1) \<le> 12" using m(2) by linarith+
    from month_starts_mono [OF this, of leap] show False using m(3) assms(4) by linarith
  qed
  ultimately show ?thesis using range by auto
qed

section \<open>Calendar dates\<close>

text \<open>The day number of a valid date, in the 400-year interval \<open>q\<close>.\<close>

definition epoch_day :: "int \<Rightarrow> nat \<Rightarrow> int \<Rightarrow> int \<Rightarrow> int" where
  "epoch_day q k month day =
     CUMULATIVE_YEAR_DAYS ! k + month_starts (IsLeapYear (1970 + int k)) ! nat (month - 1) + (day - 1) + 146097 * q"

lemma TryFromDate_epoch_day:
  assumes "Date_IsValid year month day"
  shows "TryFromDate year month day = Some (epoch_day ((year - 1970) div 400) (nat ((year - 1970) mod 400)) month day)"
proof -
  define q k where "q = (year - 1970) div 400" "k = nat ((year - 1970) mod 400)"
  have y: "year = 1970 + int k + 400 * q" "k < 400"
    using mult_div_mod_eq [of 400 "year - 1970"] by (auto simp: q_k_def nat_less_iff)
  have leap: "IsLeapYear year = IsLeapYear (1970 + int k)" unfolding y by (rule IsLeapYear_period)
  consider (past) "year < 1970" | (near) "1970 \<le> year" "year < 2370" | (far) "2370 \<le> year" by linarith
  then have "TryFromDate year month day = Some (epoch_day q k month day)"
  proof cases
    case past
    have d: "1970 - year = 400 * (- q) - int k" using y by simp
    show ?thesis
    proof (cases "k = 0")
      case True
      then have "(1970 - year) mod 400 = 0" "(1970 - year) div 400 = - q" using d by simp_all
      then show ?thesis using past assms leap True
        by (simp add: TryFromDate_def Let_def c_mod_nonneg c_div_nonneg epoch_day_def)
    next
      case False
      then have e: "nat (400 - (1970 - year) mod 400) = k" "(1970 - year) div 400 = - q - 1"
        using int_mod_pos_eq [of "1970 - year" 400 "- q - 1" "400 - int k"]
          int_div_pos_eq [of "1970 - year" 400 "- q - 1" "400 - int k"] d y(2) by simp_all
      show ?thesis using past assms leap
        by (simp add: TryFromDate_def Let_def c_mod_nonneg c_div_nonneg epoch_day_def e) 
    qed
  next
    case near
    then have q: "q = 0" using y by linarith
    then have "nat (year - 1970) = k" using y(1) by simp
    then show ?thesis using near assms leap q by (simp add: TryFromDate_def Let_def epoch_day_def)
  next
    case far
    have "(year - 2370) mod 400 = int k" "(year - 2370) div 400 = q - 1"
      using int_mod_pos_eq [of "year - 2370" 400 "q - 1" "int k"] int_div_pos_eq [of "year - 2370" 400 "q - 1" "int k"] y
      by simp_all
    then show ?thesis using far assms leap
      by (simp add: TryFromDate_def Let_def c_mod_nonneg c_div_nonneg epoch_day_def algebra_simps)
  qed
  then show ?thesis by (simp add: q_k_def)
qed


lemma calendar_inverse:
  assumes "Date_IsValid year month day"
  shows "\<exists>n. FromDate year month day = Inr n \<and> Date_Convert n = Some (year, month, day)"
proof -
  define q k where "q = (year - 1970) div 400" "k = nat ((year - 1970) mod 400)"
  let ?leap = "IsLeapYear (1970 + int k)"
  let ?doy = "month_starts ?leap ! nat (month - 1) + (day - 1)"
  let ?n = "epoch_day q k month day"
  have y: "year = 1970 + int k + 400 * q" "k < 400"
    using mult_div_mod_eq [of 400 "year - 1970"] by (auto simp: q_k_def nat_less_iff)
  have md: "1 \<le> month" "month \<le> 12" "1 \<le> day" "day \<le> month_lengths ?leap ! nat month"
    using assms IsLeapYear_period [of "1970 + int k" q] by (auto simp: Date_IsValid_def y(1) split: if_splits)
  then have doy: "0 \<le> ?doy" "?doy < (if ?leap then 366 else 365)" "month_of_day ?leap ! nat ?doy = month"
    using month_of_day_unique [of month ?leap ?doy] month_starts_step [of month ?leap] by linarith+
  have "CUMULATIVE_YEAR_DAYS ! k + ?doy < CUMULATIVE_YEAR_DAYS ! Suc k" using doy(2) year_table_Suc [OF y(2)] by simp
  moreover have "CUMULATIVE_YEAR_DAYS ! Suc k \<le> 146097" using year_table_mono [of "Suc k" 400] y(2) by simp
  moreover have "0 \<le> CUMULATIVE_YEAR_DAYS ! k" using year_table_ge [of k] y(2) by simp
  ultimately have "0 \<le> CUMULATIVE_YEAR_DAYS ! k + ?doy" "CUMULATIVE_YEAR_DAYS ! k + ?doy < 146097" using doy(1) by linarith+
  moreover have "?n = 146097 * q + (CUMULATIVE_YEAR_DAYS ! k + ?doy)" by (simp add: epoch_day_def)
  ultimately have n: "?n mod 146097 = CUMULATIVE_YEAR_DAYS ! k + ?doy" "?n div 146097 = q"
    using int_mod_pos_eq int_div_pos_eq by blast+
  have "Date_Convert ?n = Some (year, month, day)"
    using ExtractYearOffset_eq [of k ?n] n doy y year_table_Suc [OF y(2)]
    by (simp add: Date_Convert_def Let_def split: if_splits)
  then show ?thesis
    using TryFromDate_epoch_day [OF assms] by (simp add: FromDate_def q_k_def)
qed

text \<open>C19: the calendar conversion inverts the construction of dates: for every valid date \<^verbatim>\<open>Date::FromDate\<close>
  computes a day number, and it is converted back by \<^verbatim>\<open>Date::Convert\<close> to the same year, month
  and day, which is what the debug assertions of \<^verbatim>\<open>TryFromDate\<close> check, over the whole range of
  dates.\<close>

theorem Date_Convert_FromDate:
  assumes "Date_IsValid year month day"
  shows "\<exists>n. FromDate year month day = Inr n \<and> Date_Convert n = Some (year, month, day)"
  by (rule calendar_inverse [OF assms])

theorem Date_Convert_FromDate_witness:
  "\<exists>n. FromDate 2024 2 29 = Inr n \<and> Date_Convert n = Some (2024, 2, 29)"
  by (rule Date_Convert_FromDate) (simp add: Date_IsValid_def IsLeapYear_mod LEAP_DAYS_def)


section \<open>Times and timestamps\<close>

lemma c_div_floor: "0 < b \<Longrightarrow> c_div (a + of_bool (a < 0)) b - of_bool (a < 0) = a div b"
proof (cases "a < 0")
  case True
  assume b: "0 < b"
  have "c_div (a + 1) b = - ((- a - 1) div b)"
  proof (cases "a = - 1")
    case False
    with True b have "sgn (a + 1) = - 1" "sgn b = 1" by (auto simp: sgn_if)
    moreover have "\<bar>a + 1\<bar> = - a - 1" using True False by simp
    ultimately show ?thesis using b by (simp add: c_div_def)
  qed (simp add: c_div_def)
  moreover have "a div b = - ((- a - 1) div b) - 1"
  proof -
    let ?x = "- a - 1"
    have "a = b * (- (?x div b) - 1) + (b - 1 - ?x mod b)" using mult_div_mod_eq [of b ?x] by (simp add: algebra_simps)
    moreover have "0 \<le> b - 1 - ?x mod b" "b - 1 - ?x mod b < b" using b pos_mod_bound [of b ?x] pos_mod_sign [of b ?x] by linarith+
    ultimately show ?thesis using int_div_pos_eq by blast
  qed
  ultimately show ?thesis using True by simp
qed (simp add: c_div_nonneg)

lemma GetDate_div: "Timestamp_IsFinite ts \<Longrightarrow> GetDate ts = ts div MICROS_PER_DAY"
  using c_div_floor [of MICROS_PER_DAY ts] by (simp add: GetDate_def Timestamp_IsFinite_def)

lemma GetTime_mod: "Timestamp_IsFinite ts \<Longrightarrow> GetTime ts = Inr (ts mod MICROS_PER_DAY)"
  by (simp add: GetTime_def GetDate_div minus_div_mult_eq_mod [symmetric])

lemma FromTime_Convert:
  assumes "0 \<le> h" "h < 48" "0 \<le> m" "m < 60" "0 \<le> s" "s < 60" "0 \<le> u" "u < 1000000"
  shows "Time_Convert (FromTime h m s u) = (h, m, s, u)"
proof -
  let ?a = "60000000 * m + (1000000 * s + u)" and ?b = "1000000 * s + u"
  have t: "FromTime h m s u = 3600000000 * h + ?a" by (simp add: FromTime_def)
  have "0 \<le> ?a" "?a < 3600000000" "0 \<le> ?b" "?b < 60000000" using assms by linarith+
  then have "(3600000000 * h + ?a) div 3600000000 = h" "?a div 60000000 = m" "?b div 1000000 = s"
    using assms by (auto intro!: int_div_pos_eq [OF refl])
  moreover have "0 \<le> 3600000000 * h + ?a" using assms by linarith
  ultimately show ?thesis unfolding Time_Convert_def Let_def t using assms \<open>0 \<le> ?a\<close> \<open>0 \<le> ?b\<close>
    by (simp only: c_div_nonneg add_diff_cancel_left' mult.commute [of _ 3600000000] mult.commute [of _ 60000000]
        mult.commute [of _ 1000000] to_int32_id)
qed


lemma FromTime_radix:
  "1000000 * a + u = t \<Longrightarrow> 60 * b + s = a \<Longrightarrow> 60 * h + m = b \<Longrightarrow> FromTime h m s u = t"
  by (auto simp: FromTime_def)

lemma Time_Convert_eq:
  assumes "0 \<le> t" "t < 2 * MICROS_PER_DAY"
  shows "Time_Convert t = (t div 3600000000, t div 60000000 mod 60, t div 1000000 mod 60, t mod 1000000)"
proof -
  have d: "t div 60000000 = t div 1000000 div 60" "t div 3600000000 = t div 1000000 div 60 div 60"
    using assms(1) by (simp_all add: zdiv_zmult2_eq [symmetric])
  have "FromTime (t div 3600000000) (t div 60000000 mod 60) (t div 1000000 mod 60) (t mod 1000000) = t"
    unfolding d by (rule FromTime_radix) (rule mult_div_mod_eq)+
  moreover have "t div 3600000000 < 48" using zdiv_mono1 [of t "2 * MICROS_PER_DAY - 1" 3600000000] assms(2) by simp
  then have "Time_Convert (FromTime (t div 3600000000) (t div 60000000 mod 60) (t div 1000000 mod 60) (t mod 1000000))
      = (t div 3600000000, t div 60000000 mod 60, t div 1000000 mod 60, t mod 1000000)"
    using assms(1) by (intro FromTime_Convert pos_imp_zdiv_nonneg_iff [THEN iffD2] pos_mod_sign pos_mod_bound) simp_all
  ultimately show ?thesis by (simp only:)
qed

end
