(* ===== verification/Blob_Text.thy ===== *)
theory Blob_Text
  imports Odbc_Base
begin

text \<open>
  \<^verbatim>\<open>duckdb/src/common/types/blob.cpp\<close>: the text form of bytes. \<^verbatim>\<open>GetValue<std::string>()\<close> of a value of the type \<^verbatim>\<open>BLOB\<close> is
  \<^verbatim>\<open>Blob::ToString\<close> of its bytes, and the driver turns every value that is read as \<^verbatim>\<open>SQL_C_BINARY\<close> into bytes with
  \<^verbatim>\<open>Blob::ToBlob\<close> of that text, passed as a C string. \<^verbatim>\<open>ToBlob\<close> throws for an invalid text, which is \<open>None\<close>; the sizes that
  the engine computes first are the lengths of the results.

  The theorems show that the two functions are inverse on all bytes and that the text contains no null character, so that the way
  through a C string loses nothing, and which texts are refused.
\<close>

section \<open>Definitions\<close>

definition IsRegularCharacter :: "char \<Rightarrow> bool" where
  "IsRegularCharacter c \<longleftrightarrow> 32 \<le> (of_char c :: nat) \<and> (of_char c :: nat) \<le> 126 \<and> c \<noteq> CHR 0x5C \<and> c \<noteq> CHR 0x27 \<and> c \<noteq> CHR 0x22"

definition HEX_TABLE :: string where "HEX_TABLE = ''0123456789ABCDEF''"

text \<open>The table of 256 entries, by its ranges; \<open>None\<close> is -1.\<close>

definition HEX_MAP :: "char \<Rightarrow> nat option" where
  "HEX_MAP c = (let n = of_char c in
     if 48 \<le> n \<and> n \<le> 57 then Some (n - 48) else if 65 \<le> n \<and> n \<le> 70 then Some (n - 55)
     else if 97 \<le> n \<and> n \<le> 102 then Some (n - 87) else None)"

fun Blob_ToString :: "string \<Rightarrow> string" where
  "Blob_ToString [] = []"
| "Blob_ToString (c # blob) =
     (if IsRegularCharacter c then c # Blob_ToString blob
      else CHR 0x5C # CHR ''x'' # HEX_TABLE ! (of_char c div 16) # HEX_TABLE ! (of_char c mod 16) # Blob_ToString blob)"

fun Blob_ToBlob :: "string \<Rightarrow> string option" where
  "Blob_ToBlob [] = Some []"
| "Blob_ToBlob (c # str) =
     (if c = CHR 0x5C then
        (case str of
           x # a # b # rest \<Rightarrow>
             (if x \<noteq> CHR ''x'' then None
              else case (HEX_MAP a, HEX_MAP b) of
                  (Some byte_a, Some byte_b) \<Rightarrow> map_option ((#) (char_of (16 * byte_a + byte_b))) (Blob_ToBlob rest)
                | _ \<Rightarrow> None)
         | _ \<Rightarrow> None)
      else if (of_char c :: nat) \<le> 127 then map_option ((#) c) (Blob_ToBlob str)
      else None)"

section \<open>Bytes come back\<close>

lemma hex_digit: "i < 16 \<Longrightarrow> HEX_MAP (HEX_TABLE ! i) = Some i \<and> HEX_TABLE ! i \<noteq> CHR 0x00"
proof -
  have "list_all (\<lambda>i. HEX_MAP (HEX_TABLE ! i) = Some i \<and> HEX_TABLE ! i \<noteq> CHR 0x00) [0..<16]" by code_simp
  moreover assume "i < 16"
  ultimately show ?thesis by (simp add: list_all_iff)
qed

lemma nibbles: "(of_char c :: nat) div 16 < 16" "(of_char c :: nat) mod 16 < 16"
proof -
  have "(of_char c :: nat) < 256" by simp
  then show "(of_char c :: nat) div 16 < 16" by (simp add: div_less_iff_less_mult)
qed simp

lemma ToBlob_ToString: "Blob_ToBlob (Blob_ToString blob) = Some blob"
proof (induction blob)
  case (Cons c blob)
  show ?case
  proof (cases "IsRegularCharacter c")
    case True
    then show ?thesis using Cons by (simp add: IsRegularCharacter_def)
  next
    case False
    have "char_of (16 * (of_char c div 16) + of_char c mod 16 :: nat) = c" by (simp only: mult_div_mod_eq char_of_char)
    then show ?thesis using False Cons hex_digit [OF nibbles(1)] hex_digit [OF nibbles(2)] by simp
  qed
qed simp

lemma ToString_no_null: "CHR 0x00 \<notin> set (Blob_ToString blob)"
proof (induction blob)
  case (Cons c blob)
  have "IsRegularCharacter c \<Longrightarrow> c \<noteq> CHR 0x00" by (auto simp: IsRegularCharacter_def)
  then show ?case using Cons hex_digit [OF nibbles(1), of c] hex_digit [OF nibbles(2), of c] by auto
qed simp

lemma ToString_c_str [simp]: "takeWhile (\<lambda>c. c \<noteq> CHR 0x00) (Blob_ToString blob) = Blob_ToString blob"
  using ToString_no_null [of blob] by (simp add: takeWhile_eq_all_conv) metis

text \<open>Text without backslashes is a text of bytes exactly if it is ASCII.\<close>

lemma ToBlob_plain:
  "CHR 0x5C \<notin> set s \<Longrightarrow> Blob_ToBlob s = (if list_all (\<lambda>c. (of_char c :: nat) \<le> 127) s then Some s else None)"
  by (induction s) auto

end
