(* ===== verification/Get_Data.thy ===== *)
theory Get_Data
  imports Odbc_Fetch Engine_Temporal Blob_Text
begin

text \<open>
  Delivery of a column value into a buffer of the application:
  \<^verbatim>\<open>GetDataStmtResult\<close> of \<^verbatim>\<open>statement/statement_functions.cpp\<close> with its helpers, and
  \<^verbatim>\<open>OdbcInterval::GetInterval\<close> of \<^verbatim>\<open>common/odbc_interval.cpp\<close>. \<^verbatim>\<open>SQLGetData\<close> and every
  fetch into bound columns go through it.

  The casts and the text rendering of values are the engine's; they are fields of the record
  \<open>engine\<close>, an argument of every function here. A text value renders as itself, bytes in the escaped form of
  \<open>Blob_Text\<close>, a decimal as the engine's \<^verbatim>\<open>DecimalToString\<close> prints it, and calendar arithmetic is that of
  \<open>Engine_Temporal\<close>. Addresses are byte addresses, structures are written field by field with the
  layout of the C ABI on 64-bit Linux. An exception that leaves the function is \<open>None\<close>.

  The theorems show that a character or binary column read in pieces through a buffer of any size
  arrives complete and in order and ends with \<^verbatim>\<open>SQL_NO_DATA\<close>, that nothing is written beyond the
  buffer, and what the date, time, timestamp and numeric structures contain.
\<close>

section \<open>Values of the engine\<close>

record engine =
  eng_cast :: "Value \<Rightarrow> LogicalTypeId \<Rightarrow> string + int"
  eng_to_string :: "Value \<Rightarrow> string"
  eng_to_int64 :: "Value \<Rightarrow> int"
  eng_parse_int64 :: "string \<Rightarrow> int option"
  eng_parse_hugeint :: "string \<Rightarrow> int option"
  eng_parse_date :: "string \<Rightarrow> int option"
  eng_parse_time :: "string \<Rightarrow> int option"
  eng_parse_timestamp :: "string \<Rightarrow> int option"
  eng_parse_interval :: "string \<Rightarrow> interval_t option"
  eng_cast_text :: "LogicalTypeId \<Rightarrow> LogicalTypeId \<Rightarrow> string \<Rightarrow> string"
  eng_type_name :: "LogicalType \<Rightarrow> string"
  eng_id_name :: "LogicalTypeId \<Rightarrow> string"
  eng_utc_offset :: "int \<Rightarrow> string + int"

fun value_type :: "Value \<Rightarrow> LogicalType" where
  "value_type (NullValue t) = t"
| "value_type (IntValue t _) = t"
| "value_type (RealValue t _) = t"
| "value_type (TextValue t _) = t"
| "value_type (DecimalValue w s _) = \<lparr>lt_id = DECIMAL, lt_width = w, lt_scale = s\<rparr>"
| "value_type (IntervalValue _) = \<lparr>lt_id = INTERVAL, lt_width = 0, lt_scale = 0\<rparr>"
| "value_type (EngineValue t _) = t"

fun IsNull :: "Value \<Rightarrow> bool" where
  "IsNull (NullValue _) = True"
| "IsNull _ = False"

text \<open>\<^verbatim>\<open>DecimalToString::FormatDecimal\<close>.\<close>

definition pad_zeros :: "nat \<Rightarrow> string \<Rightarrow> string" where
  "pad_zeros n ds = replicate (n - length ds) (CHR ''0'') @ ds"

definition decimal_to_string :: "nat \<Rightarrow> nat \<Rightarrow> int \<Rightarrow> string" where
  "decimal_to_string width scale value =
     (let v = nat \<bar>value\<bar> in
      (if value < 0 then ''-'' else [])
      @ (if scale = 0 then nat_to_string v
         else (if width > scale then nat_to_string (v div 10 ^ scale) else [])
              @ ''.'' @ pad_zeros scale (nat_to_string (v mod 10 ^ scale))))"

definition GetValue_string :: "engine \<Rightarrow> Value \<Rightarrow> string" where
  "GetValue_string eng val = (case val of
      TextValue t s \<Rightarrow> (if lt_id t = VARCHAR then s else if lt_id t = BLOB then Blob_ToString s else eng_to_string eng val)
    | DecimalValue w s v \<Rightarrow> decimal_to_string w s v
    | _ \<Rightarrow> eng_to_string eng val)"

definition GetValue_int64 :: "engine \<Rightarrow> Value \<Rightarrow> int" where
  "GetValue_int64 eng val = (case val of IntValue _ i \<Rightarrow> i | _ \<Rightarrow> eng_to_int64 eng val)"

section \<open>Helpers\<close>

type_synonym data_result = "(SQLRETURN \<times> OdbcHandleStmt \<times> memory) option"

text \<open>\<^verbatim>\<open>SetDiagnosticRecord\<close> on the statement, whose result the caller returns.\<close>

definition post_diag ::
  "string \<Rightarrow> OdbcHandleStmt \<Rightarrow> SQLRETURN \<Rightarrow> string \<Rightarrow> string \<Rightarrow> SQLStateType \<Rightarrow> OdbcHandleStmt" where
  "post_diag dsn st ret caller msg state =
     st\<lparr>stmt_diag := snd (SetDiagnosticRecord (stmt_diag st) ret caller msg state dsn)\<rparr>"

definition data_error ::
  "string \<Rightarrow> OdbcHandleStmt \<Rightarrow> memory \<Rightarrow> string \<Rightarrow> string \<Rightarrow> SQLStateType \<Rightarrow> data_result" where
  "data_error dsn st m caller msg state = Some (SQL_ERROR, post_diag dsn st SQL_ERROR caller msg state, m)"

definition ValidateType :: "engine \<Rightarrow> string \<Rightarrow> LogicalTypeId \<Rightarrow> LogicalTypeId \<Rightarrow> OdbcHandleStmt \<Rightarrow> SQLRETURN \<times> OdbcHandleStmt" where
  "ValidateType eng dsn input expected st =
     (if input \<noteq> expected
      then (SQL_ERROR, post_diag dsn st SQL_ERROR ''ValidateType''
             (''Type mismatch error: received '' @ eng_id_name eng input @ '', but expected '' @ eng_id_name eng expected) ST_07006)
      else (SQL_SUCCESS, st))"

definition ThrowInvalidCast ::
  "engine \<Rightarrow> string \<Rightarrow> string \<Rightarrow> LogicalType \<Rightarrow> LogicalTypeId \<Rightarrow> OdbcHandleStmt \<Rightarrow> memory \<Rightarrow> data_result" where
  "ThrowInvalidCast eng dsn caller from_type to_type st m =
     data_error dsn st m caller
       (''Not implemented Error: Unimplemented type for cast ('' @ eng_type_name eng from_type @ '' -> ''
        @ eng_type_name eng \<lparr>lt_id = to_type, lt_width = 0, lt_scale = 0\<rparr> @ '')'') ST_22007"

text \<open>\<open>width\<close> is the size of the C types \<^verbatim>\<open>SRC\<close> and \<^verbatim>\<open>DEST\<close>, which agree in every use; the cast
  yields the bit pattern of the value. The caller makes sure that \<open>target\<close> is not null.\<close>

definition GetInternalValue ::
  "engine \<Rightarrow> string \<Rightarrow> nat \<Rightarrow> LogicalTypeId \<Rightarrow> OdbcHandleStmt \<Rightarrow> memory \<Rightarrow> Value \<Rightarrow> addr \<Rightarrow> addr \<Rightarrow> data_result" where
  "GetInternalValue eng dsn width type st m val target str_len_or_ind = (case eng_cast eng val type of
      Inl msg \<Rightarrow> data_error dsn st m ''GetInternalValue'' msg ST_07006
    | Inr v \<Rightarrow> Some (SQL_SUCCESS, st,
        store_int 8 (write_bytes m target (le_bytes width v)) str_len_or_ind (int width)))"

text \<open>\<^verbatim>\<open>CastTimestampValue\<close>: the exception handler returns the code \<^verbatim>\<open>SQL_ERROR\<close> as a boolean,
  which is \<open>True\<close>, and leaves the target with the contents \<open>u\<close> it had.\<close>

definition CastTimestampValue ::
  "engine \<Rightarrow> string \<Rightarrow> OdbcHandleStmt \<Rightarrow> Value \<Rightarrow> int \<Rightarrow> LogicalTypeId \<Rightarrow> (int \<Rightarrow> int option) \<Rightarrow> (int \<Rightarrow> string + int)
    \<Rightarrow> bool \<times> int \<times> OdbcHandleStmt" where
  "CastTimestampValue eng dsn st val u target_type cast_op cast_timestamp_fun =
     (let input = GetValue_int64 eng val in
      case (if Timestamp_IsFinite input then cast_timestamp_fun input else Inr input) of
        Inl msg \<Rightarrow> (True, u, post_diag dsn st SQL_ERROR ''CastTimestampValue'' msg ST_22007)
      | Inr timestamp \<Rightarrow>
          (case cast_op timestamp of
             None \<Rightarrow> (True, u, post_diag dsn st SQL_ERROR ''CastTimestampValue''
                        (eng_cast_text eng TIMESTAMP target_type (to_string timestamp)) ST_22007)
           | Some target \<Rightarrow> (True, target, st)))"

section \<open>Character and binary data\<close>

text \<open>\<open>char_size\<close> is \<^verbatim>\<open>sizeof(CHAR_TYPE)\<close>. Comparisons of \<^verbatim>\<open>buffer_length\<close> with a size are
  unsigned.\<close>

definition GetVariableValue ::
  "string \<Rightarrow> nat \<Rightarrow> nat \<Rightarrow> OdbcHandleStmt \<Rightarrow> memory \<Rightarrow> addr \<Rightarrow> SQLLEN \<Rightarrow> addr \<Rightarrow> string \<Rightarrow> bool \<Rightarrow> data_result" where
  "GetVariableValue dsn char_size col_idx st m target buffer_length str_len_or_ind val_buf null_terminate =
     (let st = set_fetcher st (SetLastFetchedVariableVal (odbc_fetcher st) (int col_idx));
          last_len = last_length (odbc_fetcher st);
          val_buf_len = length val_buf in
      if val_buf_len > 0 \<and> last_len \<ge> val_buf_len then Some (SQL_NO_DATA, st, m)
      else if null_terminate \<and> to_uint64 buffer_length < int char_size then
        data_error dsn st m ''SQLGetData'' ''TargetValuePtr size is insufficient'' ST_HY090
      else
        let buffer_effective_size = to_uint64 buffer_length - (if null_terminate then int char_size else 0);
            remaining_len = to_uint64 (int val_buf_len - int last_len) in
        if target = nullptr then
          (if str_len_or_ind \<noteq> nullptr then Some (SQL_SUCCESS, st, store_int 8 m str_len_or_ind remaining_len)
           else data_error dsn st m ''SQLGetData'' ''Could not set StrLen_or_IndPtr'' ST_HY090)
        else
          let (ret, out_len, st) =
                (if remaining_len > buffer_effective_size
                 then (SQL_SUCCESS_WITH_INFO, buffer_effective_size,
                       post_diag dsn st SQL_SUCCESS_WITH_INFO ''SQLGetData''
                         (''Not all the data for the specified column could be retrieved, the length of the data remaining in the ''
                          @ ''specific column prior to the current call to SQLGetData is returned in *StrLen_or_IndPtr.'') ST_01004)
                 else (SQL_SUCCESS, remaining_len, st)) in
          if int last_len + out_len > int val_buf_len then None
          else
            let m = write_bytes m target (take (nat out_len) (drop last_len val_buf)
                      @ (if null_terminate then replicate char_size (CHR 0x00) else []));
                m = store_int 8 m str_len_or_ind remaining_len;
                st = set_fetcher st (SetLastFetchedLength (odbc_fetcher st) (last_len + nat out_len))
            in Some (ret, st, m))"

definition resolve_default_type :: "LogicalTypeId \<Rightarrow> SQLLEN \<Rightarrow> SQLSMALLINT" where
  "resolve_default_type type_id buf_len = (case type_id of
      BOOLEAN \<Rightarrow> SQL_C_BIT
    | TINYINT \<Rightarrow> SQL_C_TINYINT
    | UTINYINT \<Rightarrow> SQL_C_UTINYINT
    | SMALLINT \<Rightarrow> (if buf_len < 2 then SQL_C_TINYINT else SQL_C_SHORT)
    | USMALLINT \<Rightarrow> (if buf_len < 2 then SQL_C_UTINYINT else SQL_C_USHORT)
    | INTEGER \<Rightarrow> (if buf_len < 2 then SQL_C_TINYINT else if buf_len < 4 then SQL_C_SHORT else SQL_C_LONG)
    | UINTEGER \<Rightarrow> (if buf_len < 2 then SQL_C_UTINYINT else if buf_len < 4 then SQL_C_USHORT else SQL_C_ULONG)
    | BIGINT \<Rightarrow> (if buf_len < 2 then SQL_C_TINYINT else if buf_len < 4 then SQL_C_SHORT
                 else if buf_len < 8 then SQL_C_LONG else SQL_C_SBIGINT)
    | UBIGINT \<Rightarrow> (if buf_len < 2 then SQL_C_UTINYINT else if buf_len < 4 then SQL_C_USHORT
                  else if buf_len < 8 then SQL_C_ULONG else SQL_C_UBIGINT)
    | FLOAT \<Rightarrow> SQL_C_FLOAT
    | DOUBLE \<Rightarrow> (if buf_len < 8 then SQL_C_FLOAT else SQL_C_DOUBLE)
    | _ \<Rightarrow> SQL_C_CHAR)"

section \<open>Numeric values\<close>

abbreviation (input) SQL_MAX_NUMERIC_LEN :: nat where "SQL_MAX_NUMERIC_LEN \<equiv> 16"
abbreviation (input) MAX_WIDTH_INT64 :: int where "MAX_WIDTH_INT64 \<equiv> 18"

text \<open>\<^verbatim>\<open>SQL_NUMERIC_STRUCT\<close>: one byte each for precision, scale and sign, then the digits as a 16-byte
  integer. The text of the decimal is split into its sign, its scale and its digits.\<close>

definition numeric_parts :: "string \<Rightarrow> int \<times> int \<times> string" where
  "numeric_parts str_val =
     (let neg = (str_val \<noteq> [] \<and> hd str_val = CHR ''-'');
          sign = (if neg then 0 else 1);
          str_val = (if neg then filter (\<lambda>c. c \<noteq> CHR ''-'') str_val else str_val);
          pos_dot = length (takeWhile (\<lambda>c. c \<noteq> CHR ''.'') str_val) in
      if pos_dot < length str_val then
        (let str_val = filter (\<lambda>c. c \<noteq> CHR ''.'') str_val;
             str_fraction = drop pos_dot str_val
         in (sign, int (length str_val) - int pos_dot,
             if str_fraction \<noteq> [] \<and> list_all (\<lambda>c. c = CHR ''0'') str_fraction then take pos_dot str_val else str_val))
      else (sign, 0, str_val))"

definition write_numeric :: "memory \<Rightarrow> addr \<Rightarrow> int \<Rightarrow> int \<Rightarrow> int \<Rightarrow> string \<Rightarrow> memory" where
  "write_numeric m target precision scale sign digits =
     write_bytes m target (le_bytes 1 precision @ le_bytes 1 scale @ le_bytes 1 sign @ digits)"

definition GetNumericValue :: "engine \<Rightarrow> string \<Rightarrow> OdbcHandleStmt \<Rightarrow> memory \<Rightarrow> Value \<Rightarrow> addr \<Rightarrow> addr \<Rightarrow> data_result" where
  "GetNumericValue eng dsn st m val target str_len_or_ind =
     (case ValidateType eng dsn (lt_id (value_type val)) DECIMAL st of (ret, st) \<Rightarrow>
      if ret \<noteq> SQL_SUCCESS then Some (SQL_ERROR, st, m)
      else
        let (sign, scale, digits) = numeric_parts (GetValue_string eng val);
            precision = to_uint8 (int (length digits));
            m = write_numeric m target precision scale sign (replicate SQL_MAX_NUMERIC_LEN (CHR 0x00)) in
        case (if precision \<le> MAX_WIDTH_INT64
              then map_option (\<lambda>v. le_bytes 8 v @ replicate 8 (CHR 0x00)) (eng_parse_int64 eng digits)
              else map_option (le_bytes 16) (eng_parse_hugeint eng digits)) of
          None \<Rightarrow> Some (SQL_ERROR, st, m)
        | Some bytes \<Rightarrow> Some (SQL_SUCCESS, st,
            store_int 8 (write_numeric m target precision scale sign bytes) str_len_or_ind 19))"

section \<open>Dates, times and timestamps\<close>

definition epoch_conversion :: "LogicalTypeId \<Rightarrow> (int \<Rightarrow> string + int) option" where
  "epoch_conversion type_id = (case type_id of
      TIMESTAMP_SEC \<Rightarrow> Some FromEpochSeconds
    | TIMESTAMP_MS \<Rightarrow> Some FromEpochMs
    | TIMESTAMP \<Rightarrow> Some FromEpochMicroSeconds
    | TIMESTAMP_NS \<Rightarrow> Some FromEpochNanoSeconds
    | _ \<Rightarrow> None)"

text \<open>The inner switch for a date or time target: \<open>own\<close> is the type that is taken as it is, \<open>parse\<close>
  the cast from text.\<close>

definition resolve_temporal ::
  "engine \<Rightarrow> string \<Rightarrow> OdbcHandleStmt \<Rightarrow> memory \<Rightarrow> Value \<Rightarrow> int \<Rightarrow> LogicalTypeId \<Rightarrow> (int \<Rightarrow> int option) \<Rightarrow> (string \<Rightarrow> int option)
    \<Rightarrow> data_result + int \<times> OdbcHandleStmt" where
  "resolve_temporal eng dsn st m val u own cast_op parse =
     (let type_id = lt_id (value_type val) in
      if type_id = own then Inr (GetValue_int64 eng val, st)
      else case epoch_conversion type_id of
        Some conv \<Rightarrow>
          (case CastTimestampValue eng dsn st val u own cast_op conv of (ok, target, st) \<Rightarrow>
             if \<not> ok then Inl (Some (SQL_ERROR, st, m)) else Inr (target, st))
      | None \<Rightarrow>
          if type_id = VARCHAR then
            (case parse (GetValue_string eng val) of
               Some target \<Rightarrow> Inr (target, st)
             | None \<Rightarrow> Inl (data_error dsn st m ''GetDataStmtResult''
                 (eng_cast_text eng VARCHAR own (GetValue_string eng val)) ST_07006))
          else Inl (ThrowInvalidCast eng dsn ''GetDataStmtResult'' (value_type val) own st m))"

definition GetDateValue :: "engine \<Rightarrow> int \<Rightarrow> string \<Rightarrow> OdbcHandleStmt \<Rightarrow> memory \<Rightarrow> Value \<Rightarrow> addr \<Rightarrow> addr \<Rightarrow> data_result" where
  "GetDateValue eng u dsn st m val target str_len_or_ind =
     (case resolve_temporal eng dsn st m val u DATE cast_timestamp_to_date (eng_parse_date eng) of
        Inl res \<Rightarrow> res
      | Inr (date, st) \<Rightarrow>
          (case Date_Convert date of
             None \<Rightarrow> None
           | Some (year, month, day) \<Rightarrow>
               Some (SQL_SUCCESS, st,
                 store_int 8 (write_bytes m target (le_bytes 2 year @ le_bytes 2 month @ le_bytes 2 day)) str_len_or_ind 6)))"

definition GetTimeValue :: "engine \<Rightarrow> int \<Rightarrow> string \<Rightarrow> OdbcHandleStmt \<Rightarrow> memory \<Rightarrow> Value \<Rightarrow> addr \<Rightarrow> addr \<Rightarrow> data_result" where
  "GetTimeValue eng u dsn st m val target str_len_or_ind =
     (case resolve_temporal eng dsn st m val u TIME cast_timestamp_to_time (eng_parse_time eng) of
        Inl res \<Rightarrow> res
      | Inr (time, st) \<Rightarrow>
          (case Time_Convert time of (hour, minute, second, _) \<Rightarrow>
             Some (SQL_SUCCESS, st,
               store_int 8 (write_bytes m target (le_bytes 2 hour @ le_bytes 2 minute @ le_bytes 2 second)) str_len_or_ind 6)))"

text \<open>The timestamp of a value; \<open>Inl None\<close> is an exception that is not caught.\<close>

definition resolve_timestamp ::
  "engine \<Rightarrow> string \<Rightarrow> OdbcHandleStmt \<Rightarrow> memory \<Rightarrow> Value \<Rightarrow> data_result + int" where
  "resolve_timestamp eng dsn st m val =
     (let type_id = lt_id (value_type val); input = GetValue_int64 eng val in
      case epoch_conversion type_id of
        Some conv \<Rightarrow>
          if type_id \<noteq> TIMESTAMP \<and> \<not> Timestamp_IsFinite input then Inr input
          else (case conv input of Inl _ \<Rightarrow> Inl None | Inr ts \<Rightarrow> Inr ts)
      | None \<Rightarrow>
          if type_id = DATE then
            (case cast_date_to_timestamp input of
               Some ts \<Rightarrow> Inr ts
             | None \<Rightarrow> Inl (data_error dsn st m ''GetDataStmtResult'' (eng_cast_text eng DATE TIMESTAMP (to_string input)) ST_07006))
          else if type_id = TIME then Inr input
          else if type_id = VARCHAR then
            (case eng_parse_timestamp eng (GetValue_string eng val) of
               Some ts \<Rightarrow> Inr ts
             | None \<Rightarrow> Inl (data_error dsn st m ''GetDataStmtResult''
                 (eng_cast_text eng VARCHAR TIMESTAMP (GetValue_string eng val)) ST_07006))
          else Inl (ThrowInvalidCast eng dsn ''GetDataStmtResult'' (value_type val) TIMESTAMP st m))"

definition GetTimestampValue :: "engine \<Rightarrow> string \<Rightarrow> OdbcHandleStmt \<Rightarrow> memory \<Rightarrow> Value \<Rightarrow> addr \<Rightarrow> addr \<Rightarrow> data_result" where
  "GetTimestampValue eng dsn st m val target str_len_or_ind =
     (case resolve_timestamp eng dsn st m val of
        Inl res \<Rightarrow> res
      | Inr timestamp \<Rightarrow>
          (case (Date_Convert (GetDate timestamp), GetTime timestamp) of
             (Some (year, month, day), Inr time) \<Rightarrow>
               (case Time_Convert time of (hour, minute, second, us) \<Rightarrow>
                  Some (SQL_SUCCESS, st,
                    store_int 8
                      (write_bytes m target (le_bytes 2 year @ le_bytes 2 month @ le_bytes 2 day @ le_bytes 2 hour
                         @ le_bytes 2 minute @ le_bytes 2 second @ le_bytes 4 (us * 1000)))
                      str_len_or_ind 16))
           | _ \<Rightarrow> None))"

section \<open>Intervals\<close>

definition GetInterval :: "engine \<Rightarrow> string \<Rightarrow> OdbcHandleStmt \<Rightarrow> Value \<Rightarrow> interval_t option \<times> OdbcHandleStmt" where
  "GetInterval eng dsn st val = (case val of
      IntervalValue i \<Rightarrow> (Some i, st)
    | _ \<Rightarrow>
        if lt_id (value_type val) = VARCHAR then
          (case eng_parse_interval eng (GetValue_string eng val) of
             Some i \<Rightarrow> (Some i, st)
           | None \<Rightarrow> (None, post_diag dsn st SQL_ERROR ''OdbcInterval::GetInterval''
               (eng_cast_text eng VARCHAR INTERVAL (GetValue_string eng val)) ST_22007))
        else (None, st))"

definition load_interval :: "memory \<Rightarrow> addr \<Rightarrow> SQL_INTERVAL_STRUCT" where
  "load_interval m a =
     \<lparr>interval_type = le_uint (read_bytes m a 4), interval_sign = le_sint (read_bytes m (a + 4) 2),
      iv_day = le_uint (read_bytes m (a + 8) 4), iv_hour = le_uint (read_bytes m (a + 12) 4),
      iv_minute = le_uint (read_bytes m (a + 16) 4), iv_second = le_uint (read_bytes m (a + 20) 4),
      iv_fraction = le_uint (read_bytes m (a + 24) 4)\<rparr>"

definition store_interval :: "memory \<Rightarrow> addr \<Rightarrow> SQL_INTERVAL_STRUCT \<Rightarrow> memory" where
  "store_interval m a i =
     write_bytes (write_bytes m a (le_bytes 4 (interval_type i) @ le_bytes 2 (interval_sign i)))
       (a + 8) (le_bytes 4 (iv_day i) @ le_bytes 4 (iv_hour i) @ le_bytes 4 (iv_minute i) @ le_bytes 4 (iv_second i)
                @ le_bytes 4 (iv_fraction i))"

definition SetYearToMonth :: "interval_t \<Rightarrow> SQL_INTERVAL_STRUCT \<Rightarrow> SQL_INTERVAL_STRUCT" where
  "SetYearToMonth i s = (SetYear i s)\<lparr>iv_hour := to_uint32 (\<bar>months i\<bar> mod 12), interval_type := 7\<rparr>"

definition interval_setter :: "SQLSMALLINT \<Rightarrow> (interval_t \<Rightarrow> SQL_INTERVAL_STRUCT \<Rightarrow> SQL_INTERVAL_STRUCT) option" where
  "interval_setter target_type =
     (if target_type = SQL_INTERVAL_YEAR then Some SetYear
      else if target_type = SQL_INTERVAL_MONTH then Some SetMonth
      else if target_type = SQL_INTERVAL_DAY then Some SetDay
      else if target_type = SQL_INTERVAL_HOUR then Some SetHour
      else if target_type = SQL_INTERVAL_MINUTE then Some SetMinute
      else if target_type = SQL_INTERVAL_SECOND then Some SetSecond
      else if target_type = SQL_INTERVAL_YEAR_TO_MONTH then Some SetYearToMonth
      else if target_type = SQL_INTERVAL_DAY_TO_HOUR then Some SetDayToHour
      else if target_type = SQL_INTERVAL_DAY_TO_MINUTE then Some SetDayToMinute
      else if target_type = SQL_INTERVAL_DAY_TO_SECOND then Some SetDayToSecond
      else if target_type = SQL_INTERVAL_HOUR_TO_MINUTE then Some SetHourToMinute
      else if target_type = SQL_INTERVAL_HOUR_TO_SECOND then Some SetHourToSecond
      else if target_type = SQL_INTERVAL_MINUTE_TO_SECOND then Some SetMinuteToSecond
      else None)"

definition GetIntervalValue ::
  "engine \<Rightarrow> string \<Rightarrow> OdbcHandleStmt \<Rightarrow> memory \<Rightarrow> Value \<Rightarrow> addr \<Rightarrow> addr
    \<Rightarrow> (interval_t \<Rightarrow> SQL_INTERVAL_STRUCT \<Rightarrow> SQL_INTERVAL_STRUCT) \<Rightarrow> data_result" where
  "GetIntervalValue eng dsn st m val target str_len_or_ind setter =
     (case GetInterval eng dsn st val of
        (None, st) \<Rightarrow> ThrowInvalidCast eng dsn ''GetDataStmtResult'' (value_type val) INTERVAL st m
      | (Some i, st) \<Rightarrow> Some (SQL_SUCCESS, st,
          store_int 8 (store_interval m target (SetSignal i (setter i (load_interval m target)))) str_len_or_ind 28))"

section \<open>GetDataStmtResult\<close>

text \<open>\<^verbatim>\<open>GetUTCOffsetMicrosFromOS\<close> asks the operating system; when that fails a diagnostic is posted
  and the offset is 0. A timestamp that leaves the range of 64 bits is undefined.\<close>

definition GetUTCOffsetMicrosFromOS :: "engine \<Rightarrow> string \<Rightarrow> OdbcHandleStmt \<Rightarrow> int \<Rightarrow> int \<times> OdbcHandleStmt" where
  "GetUTCOffsetMicrosFromOS eng dsn st utc_micros = (case eng_utc_offset eng utc_micros of
      Inl msg \<Rightarrow> (0, post_diag dsn st SQL_ERROR ''timezone'' msg ST_HY000)
    | Inr off \<Rightarrow> (off, st))"

definition localize :: "engine \<Rightarrow> string \<Rightarrow> OdbcHandleStmt \<Rightarrow> Value \<Rightarrow> (Value \<times> OdbcHandleStmt) option" where
  "localize eng dsn st val =
     (if lt_id (value_type val) = TIMESTAMP_TZ then
        (let utc_micros = GetValue_int64 eng val;
             (off, st) = GetUTCOffsetMicrosFromOS eng dsn st utc_micros
         in map_option (\<lambda>ts. (IntValue \<lparr>lt_id = TIMESTAMP, lt_width = 0, lt_scale = 0\<rparr> ts, st)) (try_int64 (utc_micros + off)))
      else Some (val, st))"

definition deliver_value ::
  "engine \<Rightarrow> int \<Rightarrow> string \<Rightarrow> OdbcHandleStmt \<Rightarrow> memory \<Rightarrow> nat \<Rightarrow> SQLSMALLINT \<Rightarrow> addr \<Rightarrow> SQLLEN \<Rightarrow> addr \<Rightarrow> Value \<Rightarrow> data_result" where
  "deliver_value eng u dsn st m col target_type target buffer_length str_len_or_ind val =
     (let fixed = (\<lambda>width type. GetInternalValue eng dsn width type st m val target str_len_or_ind) in
      if target_type = SQL_C_SHORT \<or> target_type = SQL_C_SSHORT then fixed 2 SMALLINT
      else if target_type = SQL_C_USHORT then fixed 2 USMALLINT
      else if target_type = SQL_C_LONG \<or> target_type = SQL_C_SLONG then fixed 4 INTEGER
      else if target_type = SQL_C_ULONG then fixed 4 UINTEGER
      else if target_type = SQL_C_FLOAT then fixed 4 FLOAT
      else if target_type = SQL_C_DOUBLE then fixed 8 DOUBLE
      else if target_type = SQL_C_BIT then fixed 1 LT_CHAR
      else if target_type = SQL_C_TINYINT \<or> target_type = SQL_C_STINYINT then fixed 1 TINYINT
      else if target_type = SQL_C_UTINYINT then fixed 1 UTINYINT
      else if target_type = SQL_C_SBIGINT then fixed 8 BIGINT
      else if target_type = SQL_C_UBIGINT then fixed 8 UBIGINT
      else if target_type = SQL_C_WCHAR then
        (case utf8_to_utf16_lenient (GetValue_string eng val) of
           None \<Rightarrow> None
         | Some (utf16_vec, _) \<Rightarrow>
             GetVariableValue dsn 2 col st m target buffer_length str_len_or_ind (units_bytes utf16_vec) True)
      else if target_type = SQL_C_BINARY then
        (case Blob_ToBlob (takeWhile (\<lambda>c. c \<noteq> CHR 0x00) (GetValue_string eng val)) of
           None \<Rightarrow> None
         | Some blob \<Rightarrow> GetVariableValue dsn 1 col st m target buffer_length str_len_or_ind blob False)
      else if target_type = SQL_C_CHAR then
        GetVariableValue dsn 1 col st m target buffer_length str_len_or_ind (GetValue_string eng val) True
      else if target_type = SQL_C_NUMERIC then GetNumericValue eng dsn st m val target str_len_or_ind
      else if target_type = SQL_C_TYPE_DATE then GetDateValue eng u dsn st m val target str_len_or_ind
      else if target_type = SQL_C_TYPE_TIME then GetTimeValue eng u dsn st m val target str_len_or_ind
      else if target_type = SQL_C_TYPE_TIMESTAMP then GetTimestampValue eng dsn st m val target str_len_or_ind
      else case interval_setter target_type of
        Some setter \<Rightarrow> GetIntervalValue eng dsn st m val target str_len_or_ind setter
      | None \<Rightarrow> data_error dsn st m ''GetDataStmtResult'' ''Data type not supported'' ST_HY004)"

text \<open>\<open>u\<close> is the content of the uninitialised local date or time. A value that is not found stays the
  null value it was constructed as.\<close>

definition GetDataStmtResult ::
  "engine \<Rightarrow> int \<Rightarrow> string \<Rightarrow> OdbcHandleStmt \<Rightarrow> memory \<Rightarrow> SQLUSMALLINT \<Rightarrow> SQLSMALLINT \<Rightarrow> addr \<Rightarrow> SQLLEN \<Rightarrow> addr \<Rightarrow> data_result" where
  "GetDataStmtResult eng u dsn st m col_or_param_num target_type target buffer_length str_len_or_ind =
     (if target = nullptr \<and> \<not> IsCharType target_type then Some (SQL_ERROR, st, m)
      else
        let col = nat (if col_or_param_num > 0 then col_or_param_num - 1 else col_or_param_num) in
        case GetValue (odbc_fetcher st) col of
          None \<Rightarrow> None
        | Some (_, found) \<Rightarrow>
            let val = (case found of Some v \<Rightarrow> v | None \<Rightarrow> NullValue \<lparr>lt_id = OTHER_TYPE 1, lt_width = 0, lt_scale = 0\<rparr>) in
            if IsNull val then
              (if str_len_or_ind = nullptr then Some (SQL_ERROR, st, m)
               else Some (SQL_SUCCESS, st, store_int 8 m str_len_or_ind SQL_NULL_DATA))
            else case localize eng dsn st val of
              None \<Rightarrow> None
            | Some (val, st) \<Rightarrow>
                deliver_value eng u dsn st m col
                  (if target_type = SQL_C_DEFAULT then resolve_default_type (lt_id (value_type val)) buffer_length else target_type)
                  target buffer_length str_len_or_ind val)"

section \<open>Reading a column in pieces\<close>

text \<open>The bytes of a value for a character or binary target, with the size of a unit and whether a
  terminator is written.\<close>

definition variable_form :: "engine \<Rightarrow> SQLSMALLINT \<Rightarrow> Value \<Rightarrow> (nat \<times> bool \<times> string) option" where
  "variable_form eng target_type val =
     (if target_type = SQL_C_WCHAR then
        map_option (\<lambda>(ws, _). (2, True, units_bytes ws)) (utf8_to_utf16_lenient (GetValue_string eng val))
      else if target_type = SQL_C_BINARY then
        map_option (\<lambda>blob. (1, False, blob)) (Blob_ToBlob (takeWhile (\<lambda>c. c \<noteq> CHR 0x00) (GetValue_string eng val)))
      else if target_type = SQL_C_CHAR then Some (1, True, GetValue_string eng val)
      else None)"

definition unit_pad :: "nat \<Rightarrow> bool \<Rightarrow> nat" where
  "unit_pad cs nt = (if nt then cs else 0)"

lemma variable_form_type:
  "variable_form eng tt val = Some x \<Longrightarrow> tt = SQL_C_WCHAR \<or> tt = SQL_C_BINARY \<or> tt = SQL_C_CHAR"
  by (simp add: variable_form_def split: if_splits)

lemma deliver_variable:
  assumes "variable_form eng tt val = Some (cs, nt, bytes)"
  shows "deliver_value eng u dsn st m col tt target blen ind val = GetVariableValue dsn cs col st m target blen ind bytes nt"
  using variable_form_type [OF assms]
proof (elim disjE)
  assume t: "tt = SQL_C_WCHAR"
  show ?thesis using assms unfolding t by (auto simp: variable_form_def deliver_value_def)
next
  assume t: "tt = SQL_C_BINARY"
  show ?thesis using assms unfolding t by (auto simp: variable_form_def deliver_value_def)
next
  assume t: "tt = SQL_C_CHAR"
  show ?thesis using assms unfolding t by (auto simp: variable_form_def deliver_value_def)
qed

text \<open>How much of column \<open>col\<close> of the current row has been returned.\<close>

definition read_offset :: "OdbcFetch \<Rightarrow> nat \<Rightarrow> nat" where
  "read_offset f col = (if last_col_idx f = int col \<and> last_row_idx f = chunk_row f then last_length f else 0)"

lemma SetLastFetchedVariableVal_offset:
  "last_length (SetLastFetchedVariableVal f (int col)) = read_offset f col"
  "(SetLastFetchedVariableVal f (int col))\<lparr>last_length := n\<rparr>
     = f\<lparr>last_col_idx := int col, last_row_idx := chunk_row f, last_length := n\<rparr>"
  by (simp_all add: SetLastFetchedVariableVal_def read_offset_def Let_def)

lemma GetVariableValue_done:
  "bytes \<noteq> [] \<Longrightarrow> length bytes \<le> read_offset (odbc_fetcher st) col \<Longrightarrow>
    GetVariableValue dsn cs col st m target blen ind bytes nt
      = Some (SQL_NO_DATA, set_fetcher st (SetLastFetchedVariableVal (odbc_fetcher st) (int col)), m)"
  by (simp add: GetVariableValue_def Let_def SetLastFetchedVariableVal_offset)

lemma GetVariableValue_piece:
  assumes off: "off = read_offset (odbc_fetcher st) col" "off < length bytes" "length bytes < 2 ^ 63"
    and out: "out = min (length bytes - off) (nat blen - unit_pad cs nt)"
    and buf: "int (unit_pad cs nt) \<le> blen" "blen < 2 ^ 63" "target \<noteq> nullptr"
  shows "\<exists>diag. GetVariableValue dsn cs col st m target blen ind bytes nt =
      Some (if length bytes - off > nat blen - unit_pad cs nt then SQL_SUCCESS_WITH_INFO else SQL_SUCCESS,
        st\<lparr>stmt_diag := diag, odbc_fetcher := (odbc_fetcher st)\<lparr>last_col_idx := int col,
          last_row_idx := chunk_row (odbc_fetcher st), last_length := off + out\<rparr>\<rparr>,
        store_int 8 (write_bytes m target (take out (drop off bytes) @ replicate (unit_pad cs nt) (CHR 0x00))) ind
          (int (length bytes - off)))"
proof -
  have u: "to_uint64 blen = blen" using buf by (simp add: to_uint64_id)
  have r: "to_uint64 (int (length bytes) - int off) = int (length bytes - off)"
    using off by (simp add: to_uint64_id of_nat_diff)
  note f = SetLastFetchedVariableVal_offset [where f = "odbc_fetcher st" and col = col, folded off(1)]
  show ?thesis
  proof (cases "length bytes - off > nat blen - unit_pad cs nt")
    case True
    then have "int (length bytes - off) > blen - int (unit_pad cs nt)" "out = nat (blen - int (unit_pad cs nt))"
      using buf out by auto
    moreover have "\<not> (nt \<and> blen < int cs)" "blen - (if nt then int cs else 0) = blen - int (unit_pad cs nt)"
      using buf by (auto simp: unit_pad_def)
    moreover have "(if nt then replicate cs c else []) = replicate (unit_pad cs nt) c" for c :: char
      by (simp add: unit_pad_def)
    ultimately show ?thesis using off(2) buf(1,3) True u r f
      by (simp add: GetVariableValue_def Let_def set_fetcher_def SetLastFetchedLength_def post_diag_def) blast
  next
    case False
    then have "\<not> int (length bytes - off) > blen - int (unit_pad cs nt)" "out = length bytes - off"
      using buf out by auto
    moreover have "\<not> (nt \<and> blen < int cs)" "blen - (if nt then int cs else 0) = blen - int (unit_pad cs nt)"
      using buf by (auto simp: unit_pad_def)
    moreover have "(if nt then replicate cs c else []) = replicate (unit_pad cs nt) c" for c :: char
      by (simp add: unit_pad_def)
    ultimately show ?thesis using off(2) buf(1,3) False u r f
      by (simp add: GetVariableValue_def Let_def set_fetcher_def SetLastFetchedLength_def exI [of _ "stmt_diag st"]) blast
  qed
qed


lemma le_sint_le_bytes8: "- (2 ^ 63) \<le> v \<Longrightarrow> v < 2 ^ 63 \<Longrightarrow> le_sint (le_bytes 8 v) = v"
  using to_int64_id [of v] signed_take_bit_take_bit [of 63 64 v]
  by (simp add: le_sint_def le_uint_le_bytes to_int64_def take_bit_eq_mod)

text \<open>The application reads a column by repeating the same call until it answers
  \<^verbatim>\<open>SQL_NO_DATA\<close>; \<open>piece\<close> is what it takes from its buffer after each call.\<close>

fun read_until_no_data ::
  "(OdbcHandleStmt \<Rightarrow> memory \<Rightarrow> data_result) \<Rightarrow> (memory \<Rightarrow> string) \<Rightarrow> nat \<Rightarrow> OdbcHandleStmt \<Rightarrow> memory
    \<Rightarrow> (string list \<times> OdbcHandleStmt \<times> memory) option" where
  "read_until_no_data call piece 0 st m = None"
| "read_until_no_data call piece (Suc n) st m = (case call st m of
      None \<Rightarrow> None
    | Some (ret, st', m') \<Rightarrow>
        if ret = SQL_NO_DATA then Some ([], st', m')
        else if SQL_SUCCEEDED ret
        then map_option (\<lambda>(ps, s). (piece m' # ps, s)) (read_until_no_data call piece n st' m')
        else None)"

text \<open>What the indicator says is left, but at most what the buffer holds without the terminator.\<close>

definition buffer_piece :: "addr \<Rightarrow> addr \<Rightarrow> nat \<Rightarrow> memory \<Rightarrow> string" where
  "buffer_piece target ind room m = read_bytes m target (nat (min (le_sint (read_bytes m ind 8)) (int room)))"

definition outside :: "addr \<Rightarrow> nat \<Rightarrow> addr \<Rightarrow> nat \<Rightarrow> memory \<Rightarrow> memory \<Rightarrow> bool" where
  "outside a n b k m m' \<longleftrightarrow> (\<forall>x. (x < a \<or> a + n \<le> x) \<longrightarrow> (x < b \<or> b + k \<le> x) \<longrightarrow> m' x = m x)"

lemma outside_trans: "outside a n b k m m1 \<Longrightarrow> outside a n b k m1 m2 \<Longrightarrow> outside a n b k m m2"
  by (simp add: outside_def)

lemma outside_write: "length bs \<le> n \<Longrightarrow> ind \<noteq> nullptr \<Longrightarrow> outside a n ind 8 m (store_int 8 (write_bytes m a bs) ind v)"
  by (auto simp: outside_def store_int_def mem_simps)

lemma GetVariableValue_all:
  assumes "bytes \<noteq> []" "length bytes < 2 ^ 63" "unit_pad cs nt < nat blen" "blen < 2 ^ 63" "target \<noteq> nullptr" "ind \<noteq> nullptr"
    and "target + nat blen \<le> ind \<or> ind + 8 \<le> target"
    and "\<And>st m. P st \<Longrightarrow> call st m = GetVariableValue dsn cs col st m target blen ind bytes nt"
    and "\<And>st d g. P st \<Longrightarrow> P (st\<lparr>stmt_diag := d, odbc_fetcher := (odbc_fetcher st)\<lparr>last_col_idx := int col,
          last_row_idx := chunk_row (odbc_fetcher st), last_length := g\<rparr>\<rparr>)"
    and "P st" "read_offset (odbc_fetcher st) col \<le> length bytes" "length bytes - read_offset (odbc_fetcher st) col < n"
  shows "\<exists>ps st' m'. read_until_no_data call (buffer_piece target ind (nat blen - unit_pad cs nt)) n st m = Some (ps, st', m')
    \<and> concat ps = drop (read_offset (odbc_fetcher st) col) bytes \<and> (\<forall>p \<in> set ps. length p \<le> nat blen - unit_pad cs nt)
    \<and> outside target (nat blen) ind 8 m m'"
  using assms(10-12)
proof (induction n arbitrary: st m)
  case (Suc n)
  let ?off = "read_offset (odbc_fetcher st) col" and ?room = "nat blen - unit_pad cs nt"
  show ?case
  proof (cases "?off = length bytes")
    case True
    then show ?thesis
      using GetVariableValue_done [OF assms(1), of st col dsn cs m target blen ind nt] assms(8) [OF Suc.prems(1)]
      by (simp add: outside_def)
  next
    case False
    let ?out = "min (length bytes - ?off) ?room"
    let ?bs = "take ?out (drop ?off bytes) @ replicate (unit_pad cs nt) (CHR 0x00)"
    let ?m = "store_int 8 (write_bytes m target ?bs) ind (int (length bytes - ?off))"
    let ?ret = "if length bytes - ?off > ?room then SQL_SUCCESS_WITH_INFO else SQL_SUCCESS"
    have out: "0 < ?out" "?off + ?out \<le> length bytes" using False Suc.prems(2) assms(3) by auto
    have "\<exists>diag. GetVariableValue dsn cs col st m target blen ind bytes nt = Some (?ret,
        st\<lparr>stmt_diag := diag, odbc_fetcher := (odbc_fetcher st)\<lparr>last_col_idx := int col,
          last_row_idx := chunk_row (odbc_fetcher st), last_length := ?off + ?out\<rparr>\<rparr>, ?m)"
      by (rule GetVariableValue_piece [OF refl _ assms(2) refl _ assms(4,5)]) (use False Suc.prems(2) assms(3) in linarith)+
    then obtain diag where "GetVariableValue dsn cs col st m target blen ind bytes nt = Some (?ret,
        st\<lparr>stmt_diag := diag, odbc_fetcher := (odbc_fetcher st)\<lparr>last_col_idx := int col,
          last_row_idx := chunk_row (odbc_fetcher st), last_length := ?off + ?out\<rparr>\<rparr>, ?m)"
      by (rule exE)
    note call = assms(8) [OF Suc.prems(1), THEN trans, OF this]
    define st1 where "st1 = st\<lparr>stmt_diag := diag, odbc_fetcher := (odbc_fetcher st)\<lparr>last_col_idx := int col,
          last_row_idx := chunk_row (odbc_fetcher st), last_length := ?off + ?out\<rparr>\<rparr>"
    define m1 where "m1 = ?m"
    have call: "call st m = Some (?ret, st1, m1)" unfolding st1_def m1_def by (rule call)
    have len: "length ?bs \<le> nat blen" using assms(3) by simp
    have off1: "read_offset (odbc_fetcher st1) col = ?off + ?out" by (simp add: st1_def read_offset_def)
    have "P st1" unfolding st1_def by (rule assms(9) [OF Suc.prems(1)])
    moreover have "read_offset (odbc_fetcher st1) col \<le> length bytes"
      "length bytes - read_offset (odbc_fetcher st1) col < n" using off1 out Suc.prems(3) by linarith+
    ultimately obtain ps st2 m2 where rest:
      "read_until_no_data call (buffer_piece target ind ?room) n st1 m1 = Some (ps, st2, m2)"
      "concat ps = drop (?off + ?out) bytes" "\<forall>p \<in> set ps. length p \<le> ?room" "outside target (nat blen) ind 8 m1 m2"
      using Suc.IH [of st1 m1] unfolding off1 by blast
    have "read_bytes m1 ind 8 = le_bytes 8 (int (length bytes - ?off))"
      using assms(6) read_write_same [of _ ind "le_bytes 8 (int (length bytes - ?off))"] by (simp add: store_int_def m1_def)
    then have "le_sint (read_bytes m1 ind 8) = int (length bytes - ?off)" using assms(2) by (simp add: le_sint_le_bytes8)
    then have "buffer_piece target ind ?room m1 = read_bytes m1 target ?out"
      unfolding buffer_piece_def by (simp only: of_nat_min [symmetric] nat_int)
    also have "\<dots> = read_bytes (write_bytes m target ?bs) target ?out"
    proof -
      have "ind + length (le_bytes 8 (int (length bytes - ?off))) \<le> target \<or> target + ?out \<le> ind" using assms(7) by auto
      then show ?thesis unfolding m1_def store_int_def using assms(6) by (simp add: read_write_disjoint)
    qed
    also have "\<dots> = take ?out (drop ?off bytes)" using out by (subst read_write_prefix) simp_all
    finally have piece: "buffer_piece target ind ?room m1 = take ?out (drop ?off bytes)" .
    have "concat (take ?out (drop ?off bytes) # ps) = drop ?off bytes"
      using rest(2) append_take_drop_id [of ?out "drop ?off bytes"] by (simp add: add.commute del: append_take_drop_id)
    moreover have "outside target (nat blen) ind 8 m m2"
      using outside_write [OF len assms(6)] rest(4) unfolding m1_def by (rule outside_trans)
    moreover have "read_until_no_data call (buffer_piece target ind ?room) (Suc n) st m
        = Some (take ?out (drop ?off bytes) # ps, st2, m2)" using call rest(1) piece by simp
    moreover have "\<forall>p \<in> set (take ?out (drop ?off bytes) # ps). length p \<le> ?room" using rest(3) by simp
    ultimately show ?thesis by blast
  qed
qed simp


text \<open>The current row has \<open>val\<close> in column \<open>col\<close>.\<close>

definition positioned :: "OdbcHandleStmt \<Rightarrow> nat \<Rightarrow> Value \<Rightarrow> bool" where
  "positioned st col val \<longleftrightarrow> GetValue (odbc_fetcher st) col = Some (SQL_SUCCESS, Some val)"

lemma deref_chunk_last [simp]:
  "deref_chunk (f\<lparr>last_col_idx := i, last_row_idx := j, last_length := g\<rparr>) = deref_chunk f"
  by (auto simp: deref_chunk_def split: option.split)

lemma GetValue_last [simp]:
  "GetValue (f\<lparr>last_col_idx := i, last_row_idx := j, last_length := g\<rparr>) col = GetValue f col"
  by (auto simp: GetValue_def split: option.split)

lemma positioned_last:
  "positioned st col val \<Longrightarrow> positioned (st\<lparr>stmt_diag := d, odbc_fetcher := (odbc_fetcher st)\<lparr>last_col_idx := i,
      last_row_idx := j, last_length := g\<rparr>\<rparr>) col val"
  by (simp add: positioned_def)

lemma GetDataStmtResult_variable:
  assumes "positioned st col val" "\<not> IsNull val" "lt_id (value_type val) \<noteq> TIMESTAMP_TZ"
    and "variable_form eng tt val = Some (cs, nt, bytes)"
  shows "GetDataStmtResult eng u dsn st m (int col + 1) tt target blen ind
    = GetVariableValue dsn cs col st m target blen ind bytes nt"
proof -
  have "tt \<noteq> SQL_C_DEFAULT" "IsCharType tt" using variable_form_type [OF assms(4)] by (auto simp: IsCharType_def)
  then show ?thesis
    using assms deliver_variable [OF assms(4)] by (simp add: GetDataStmtResult_def positioned_def localize_def)
qed

lemma variable_pieces:
  assumes "positioned st col val" "\<not> IsNull val" "lt_id (value_type val) \<noteq> TIMESTAMP_TZ"
    and "variable_form eng tt val = Some (cs, nt, bytes)" "bytes \<noteq> []" "length bytes < 2 ^ 63"
    and "read_offset (odbc_fetcher st) col = 0"
    and "unit_pad cs nt < nat blen" "blen < 2 ^ 63" "target \<noteq> nullptr" "ind \<noteq> nullptr"
    and "target + nat blen \<le> ind \<or> ind + 8 \<le> target"
  shows "\<exists>ps st' m'. read_until_no_data (\<lambda>st m. GetDataStmtResult eng u dsn st m (int col + 1) tt target blen ind)
      (buffer_piece target ind (nat blen - unit_pad cs nt)) (Suc (length bytes)) st m = Some (ps, st', m')
    \<and> concat ps = bytes \<and> (\<forall>p \<in> set ps. length p \<le> nat blen - unit_pad cs nt) \<and> outside target (nat blen) ind 8 m m'"
  using GetVariableValue_all [OF assms(5,6,8,9,10,11,12), where P = "\<lambda>st. positioned st col val"
      and call = "\<lambda>st m. GetDataStmtResult eng u dsn st m (int col + 1) tt target blen ind" and st = st and m = m
      and n = "Suc (length bytes)" and dsn = dsn and col = col, OF GetDataStmtResult_variable [OF _ assms(2,3,4)] positioned_last]
    assms(1,7) by simp

text \<open>C4: a character or binary column that is read in pieces arrives complete: for every buffer that
  has room for at least one byte besides the terminator, an application that repeats
  \<^verbatim>\<open>SQLGetData\<close> on a non-empty value, as \<^verbatim>\<open>SQL_C_CHAR\<close>, \<^verbatim>\<open>SQL_C_WCHAR\<close> or \<^verbatim>\<open>SQL_C_BINARY\<close>,
  gets \<^verbatim>\<open>SQL_NO_DATA\<close> after at most one call more than the value has bytes; the pieces it took
  concatenate to the value, each fits the buffer, and no byte of memory outside the buffer and the
  indicator changes.\<close>

theorem SQLGetData_pieces:
  assumes "positioned st col val" "\<not> IsNull val" "lt_id (value_type val) \<noteq> TIMESTAMP_TZ"
    and "variable_form eng tt val = Some (cs, nt, bytes)" "bytes \<noteq> []" "length bytes < 2 ^ 63"
    and "read_offset (odbc_fetcher st) col = 0"
    and "unit_pad cs nt < nat blen" "blen < 2 ^ 63" "target \<noteq> nullptr" "ind \<noteq> nullptr"
    and "target + nat blen \<le> ind \<or> ind + 8 \<le> target"
  shows "\<exists>ps st' m'. read_until_no_data (\<lambda>st m. GetDataStmtResult eng u dsn st m (int col + 1) tt target blen ind)
      (buffer_piece target ind (nat blen - unit_pad cs nt)) (Suc (length bytes)) st m = Some (ps, st', m')
    \<and> concat ps = bytes \<and> (\<forall>p \<in> set ps. length p \<le> nat blen - unit_pad cs nt) \<and> outside target (nat blen) ind 8 m m'"
  using variable_pieces [OF assms] by blast

text \<open>C5: bytes arrive as they are: a non-empty \<^verbatim>\<open>BLOB\<close> of any bytes, null characters, quotes and bytes above 127
  included, that is read as \<^verbatim>\<open>SQL_C_BINARY\<close> with repeated calls of \<^verbatim>\<open>SQLGetData\<close> through a buffer of at least one byte is
  the concatenation of the pieces, although the driver takes it through the escaped text of the engine and a C string.\<close>

theorem blob_delivered_exactly:
  assumes "positioned st col (TextValue t bytes)" "lt_id t = BLOB" "bytes \<noteq> []" "length bytes < 2 ^ 63"
    and "read_offset (odbc_fetcher st) col = 0" "0 < blen" "blen < 2 ^ 63" "target \<noteq> nullptr" "ind \<noteq> nullptr"
    and "target + nat blen \<le> ind \<or> ind + 8 \<le> target"
  shows "\<exists>ps st' m'. read_until_no_data (\<lambda>st m. GetDataStmtResult eng u dsn st m (int col + 1) SQL_C_BINARY target blen ind)
      (buffer_piece target ind (nat blen)) (Suc (length bytes)) st m = Some (ps, st', m')
    \<and> concat ps = bytes \<and> (\<forall>p \<in> set ps. length p \<le> nat blen) \<and> outside target (nat blen) ind 8 m m'"
proof -
  have "variable_form eng SQL_C_BINARY (TextValue t bytes) = Some (1, False, bytes)"
    using assms(2) by (simp add: variable_form_def GetValue_string_def ToBlob_ToString)
  from variable_pieces [OF assms(1) _ _ this assms(3-5) _ assms(7-10)] show ?thesis
    using assms(2,6) by (simp add: unit_pad_def)
qed

text \<open>Text read as \<^verbatim>\<open>SQL_C_BINARY\<close> is taken for the escaped form of bytes: text with a character outside of ASCII, which is valid
  in the engine, makes the call leave by an exception of the engine, which nothing catches.\<close>

theorem text_as_binary_throws:
  assumes "positioned st col (TextValue t s)" "lt_id t = VARCHAR" "CHR 0x00 \<notin> set s" "CHR 0x5C \<notin> set s" "\<exists>c \<in> set s. 127 < (of_char c :: nat)"
  shows "GetDataStmtResult eng u dsn st m (int col + 1) SQL_C_BINARY target blen ind = None"
proof -
  have c_str: "takeWhile (\<lambda>c. c \<noteq> CHR 0x00) s = s" using assms(3) by (simp add: takeWhile_eq_all_conv) metis
  have "\<not> list_all (\<lambda>c. (of_char c :: nat) \<le> 127) s" using assms(5) by (auto simp: list_all_iff not_le)
  then have "Blob_ToBlob s = None" using ToBlob_plain [OF assms(4)] by simp
  moreover have "GetValue_string eng (TextValue t s) = s" using assms(2) by (simp add: GetValue_string_def)
  ultimately have "Blob_ToBlob (takeWhile (\<lambda>c. c \<noteq> CHR 0x00) (GetValue_string eng (TextValue t s))) = None" by (simp only: c_str)
  then show ?thesis
    using assms(1,2) by (simp add: GetDataStmtResult_def positioned_def localize_def deliver_value_def IsCharType_def)
qed

text \<open>An empty column never ends: repeating \<^verbatim>\<open>SQLGetData\<close> on an empty text answers
  \<^verbatim>\<open>SQL_SUCCESS\<close> every time, so an application that reads until \<^verbatim>\<open>SQL_NO_DATA\<close>, as the
  interface prescribes, loops forever.\<close>

theorem SQLGetData_empty_never_ends:
  assumes "positioned st col (TextValue t [])" "lt_id t = VARCHAR" "read_offset (odbc_fetcher st) col = 0"
    and "1 \<le> blen" "blen < 2 ^ 63" "target \<noteq> nullptr"
  shows "read_until_no_data (\<lambda>st m. GetDataStmtResult eng u dsn st m (int col + 1) SQL_C_CHAR target blen ind) piece n st m = None"
  using assms(1,3)
proof (induction n arbitrary: st m)
  case (Suc n)
  let ?f = "(odbc_fetcher st)\<lparr>last_col_idx := int col, last_row_idx := chunk_row (odbc_fetcher st), last_length := 0\<rparr>"
  have off: "last_length (SetLastFetchedVariableVal (odbc_fetcher st) (int col)) = 0"
    using Suc.prems(2) by (simp add: SetLastFetchedVariableVal_offset)
  have "variable_form eng SQL_C_CHAR (TextValue t []) = Some (1, True, [])"
    using assms(2) by (simp add: variable_form_def GetValue_string_def)
  from GetDataStmtResult_variable [OF Suc.prems(1) _ _ this] assms(2)
  have "GetDataStmtResult eng u dsn st m (int col + 1) SQL_C_CHAR target blen ind
      = GetVariableValue dsn 1 col st m target blen ind [] True" by simp
  also have "\<dots> = Some (SQL_SUCCESS, set_fetcher st ?f, store_int 8 (write_bytes m target [CHR 0x00]) ind 0)"
    using assms(4-6) off by (simp add: GetVariableValue_def Let_def to_uint64_id SetLastFetchedLength_def set_fetcher_def
        SetLastFetchedVariableVal_offset)
  finally show ?case
    using Suc.IH [of "set_fetcher st ?f" "store_int 8 (write_bytes m target [CHR 0x00]) ind 0"]
      positioned_last [OF Suc.prems(1), where d = "stmt_diag st" and i = "int col" and j = "chunk_row (odbc_fetcher st)" and g = 0]
    by (simp add: set_fetcher_def read_offset_def)
qed simp

section \<open>Decimals as numeric structures\<close>

definition digit :: "char \<Rightarrow> bool" where "digit c \<longleftrightarrow> 48 \<le> (of_char c :: nat) \<and> (of_char c :: nat) \<le> 57"

fun digits_value :: "string \<Rightarrow> nat" where
  "digits_value [] = 0"
| "digits_value (c # cs) = (of_char c - 48) * 10 ^ length cs + digits_value cs"

lemma digits_value_append: "digits_value (a @ b) = digits_value a * 10 ^ length b + digits_value b"
  by (induction a) (simp_all add: algebra_simps power_add)

lemma digits_value_zeros: "digits_value (replicate n (CHR ''0'') @ ds) = digits_value ds"
  by (induction n) simp_all

lemma digit_char: "(d :: nat) < 10 \<Longrightarrow> digit (char_of (48 + d)) \<and> of_char (char_of (48 + d) :: char) = 48 + d"
  by (simp add: digit_def)

lemma nat_to_string_digits: "list_all digit (nat_to_string n) \<and> digits_value (nat_to_string n) = n \<and> nat_to_string n \<noteq> []"
proof (induction n rule: nat_to_string.induct)
  case (1 n)
  show ?case
  proof (cases "n < 10")
    case True
    then show ?thesis using digit_char [of n] by (subst nat_to_string.simps, subst nat_to_string.simps, subst nat_to_string.simps) simp
  next
    case False
    then have e: "nat_to_string n = nat_to_string (n div 10) @ [char_of (48 + n mod 10)]" by (subst nat_to_string.simps) simp
    show ?thesis unfolding e using 1 [OF False] digit_char [of "n mod 10"] by (simp add: digits_value_append)
  qed
qed

lemma length_nat_to_string: "n < 10 ^ k \<Longrightarrow> 0 < k \<Longrightarrow> length (nat_to_string n) \<le> k"
  using nat_to_string_length [of n "k - 1"] by simp

lemma digits_value_less: "list_all digit ds \<Longrightarrow> digits_value ds < 10 ^ length ds"
proof (induction ds)
  case (Cons c ds)
  then have "(of_char c :: nat) \<le> 57" by (simp add: digit_def)
  then have "of_char c - 48 \<le> (9 :: nat)" by linarith
  then have "(of_char c - 48) * 10 ^ length ds \<le> 9 * (10 :: nat) ^ length ds" by (rule mult_le_mono1)
  moreover have "digits_value ds < 10 ^ length ds" using Cons by simp
  ultimately show ?case by (simp only: digits_value.simps length_Cons power_Suc)
qed simp

lemma pad_zeros_props:
  assumes "v < 10 ^ s" "0 < s"
  shows "length (pad_zeros s (nat_to_string v)) = s" "digits_value (pad_zeros s (nat_to_string v)) = v"
    "list_all digit (pad_zeros s (nat_to_string v))"
  using length_nat_to_string [OF assms] nat_to_string_digits [of v]
  by (simp_all add: pad_zeros_def digits_value_zeros list_all_iff, auto simp: digit_def)

text \<open>The digits of a decimal without its sign and point.\<close>

definition decimal_digits :: "nat \<Rightarrow> nat \<Rightarrow> nat \<Rightarrow> string" where
  "decimal_digits width scale v =
     (if scale = 0 then nat_to_string v
      else (if width > scale then nat_to_string (v div 10 ^ scale) else []) @ pad_zeros scale (nat_to_string (v mod 10 ^ scale)))"

lemma decimal_digits_props:
  assumes "v < 10 ^ w" "s \<le> w" "0 < w"
  shows "digits_value (decimal_digits w s v) = v" "list_all digit (decimal_digits w s v)"
    "decimal_digits w s v \<noteq> []" "length (decimal_digits w s v) \<le> w"
proof -
  have pad: "0 < s \<Longrightarrow> length (pad_zeros s (nat_to_string (v mod 10 ^ s))) = s"
    "0 < s \<Longrightarrow> digits_value (pad_zeros s (nat_to_string (v mod 10 ^ s))) = v mod 10 ^ s"
    "0 < s \<Longrightarrow> list_all digit (pad_zeros s (nat_to_string (v mod 10 ^ s)))"
    using pad_zeros_props [of "v mod 10 ^ s" s] by simp_all
  have major: "s < w \<Longrightarrow> v div 10 ^ s < 10 ^ (w - s)"
    using assms(1) by (simp add: div_less_iff_less_mult power_add [symmetric])
  show "digits_value (decimal_digits w s v) = v"
    using pad assms nat_to_string_digits [of v] nat_to_string_digits [of "v div 10 ^ s"]
    by (auto simp: decimal_digits_def digits_value_append div_mult_mod_eq)
  show "list_all digit (decimal_digits w s v)"
    using pad nat_to_string_digits [of v] nat_to_string_digits [of "v div 10 ^ s"]
    by (auto simp: decimal_digits_def)
  show "length (decimal_digits w s v) \<le> w"
    using pad(1) major length_nat_to_string [of v w] length_nat_to_string [of "v div 10 ^ s" "w - s"] assms
    by (auto simp: decimal_digits_def)
  show "decimal_digits w s v \<noteq> []" using pad(1) nat_to_string_digits [of v] by (auto simp: decimal_digits_def)
qed


lemma digit_not_sign: "digit c \<Longrightarrow> c \<noteq> CHR ''-'' \<and> c \<noteq> CHR ''.''"
  by (auto simp: digit_def)

lemma takeWhile_digits: "list_all digit ds \<Longrightarrow> takeWhile (\<lambda>c. c \<noteq> CHR ''.'') (ds @ CHR ''.'' # r) = ds"
  by (induction ds) (auto dest: digit_not_sign)

lemma filter_digits: "list_all digit ds \<Longrightarrow> filter (\<lambda>c. c \<noteq> CHR ''.'') ds = ds \<and> filter (\<lambda>c. c \<noteq> CHR ''-'') ds = ds
    \<and> length (takeWhile (\<lambda>c. c \<noteq> CHR ''.'') ds) = length ds"
  by (induction ds) (auto dest: digit_not_sign)

lemma hd_digits: "list_all digit ds \<Longrightarrow> ds \<noteq> [] \<Longrightarrow> hd ds \<noteq> CHR ''-''"
  by (cases ds) (auto dest: digit_not_sign)

lemma numeric_parts_point:
  assumes "list_all digit major" "list_all digit minor"
  shows "numeric_parts ((if neg then ''-'' else []) @ major @ ''.'' @ minor)
    = (if neg then 0 else 1, int (length minor),
       if minor \<noteq> [] \<and> list_all (\<lambda>c. c = CHR ''0'') minor then major else major @ minor)"
proof -
  have "(major @ CHR ''.'' # minor) \<noteq> [] \<and> hd (major @ CHR ''.'' # minor) \<noteq> CHR ''-''"
    using hd_digits [OF assms(1)] by (cases "major = []") auto
  then show ?thesis using filter_digits [OF assms(1)] filter_digits [OF assms(2)] takeWhile_digits [OF assms(1)]
    by (cases neg) (simp_all add: numeric_parts_def Let_def)
qed

lemma numeric_parts_integer:
  assumes "list_all digit ds" "ds \<noteq> []"
  shows "numeric_parts ((if neg then ''-'' else []) @ ds) = (if neg then 0 else 1, 0, ds)"
  using filter_digits [OF assms(1)] hd_digits [OF assms] assms(2) by (cases neg) (simp_all add: numeric_parts_def Let_def)

text \<open>The sign of a decimal, its scale and its digits as the driver extracts them.\<close>

lemma of_char_zero: "of_char c = (48 :: nat) \<longleftrightarrow> c = CHR ''0''"
  using of_char_eq_iff [of c "CHR ''0''", where ?'a = nat] by simp

lemma zero_digits: "list_all digit ds \<Longrightarrow> list_all (\<lambda>c. c = CHR ''0'') ds \<longleftrightarrow> digits_value ds = 0"
proof (induction ds)
  case (Cons c ds)
  have "of_char c - 48 = (0 :: nat) \<longleftrightarrow> c = CHR ''0''" using Cons.prems of_char_zero [of c] by (auto simp: digit_def)
  with Cons show ?case by simp
qed simp

lemma numeric_parts_decimal:
  assumes "nat \<bar>v\<bar> < 10 ^ w" "s \<le> w" "0 < w"
  shows "numeric_parts (decimal_to_string w s v) = (if v < 0 then 0 else 1, int s,
    if 0 < s \<and> nat \<bar>v\<bar> mod 10 ^ s = 0 then (if s < w then nat_to_string (nat \<bar>v\<bar> div 10 ^ s) else [])
    else decimal_digits w s (nat \<bar>v\<bar>))"
proof (cases "s = 0")
  case True
  then show ?thesis
    using numeric_parts_integer [of "nat_to_string (nat \<bar>v\<bar>)" "v < 0"] nat_to_string_digits [of "nat \<bar>v\<bar>"]
    by (simp add: decimal_to_string_def decimal_digits_def Let_def)
next
  case False
  let ?minor = "pad_zeros s (nat_to_string (nat \<bar>v\<bar> mod 10 ^ s))"
  let ?major = "if s < w then nat_to_string (nat \<bar>v\<bar> div 10 ^ s) else []"
  have minor: "length ?minor = s" "digits_value ?minor = nat \<bar>v\<bar> mod 10 ^ s" "list_all digit ?minor"
    using pad_zeros_props [of "nat \<bar>v\<bar> mod 10 ^ s" s] False by simp_all
  have "list_all digit ?major" using nat_to_string_digits by simp
  moreover have "decimal_to_string w s v = (if v < 0 then ''-'' else []) @ ?major @ ''.'' @ ?minor"
    using False by (simp add: decimal_to_string_def Let_def)
  moreover have "decimal_digits w s (nat \<bar>v\<bar>) = ?major @ ?minor" using False by (simp add: decimal_digits_def)
  ultimately show ?thesis
    using numeric_parts_point [of ?major ?minor "v < 0"] minor zero_digits [OF minor(3)] False by (simp del: nat_to_string.simps)
qed


text \<open>The engine reads a string of digits as the number it denotes, when it fits.\<close>

definition parses_digits :: "(string \<Rightarrow> int option) \<Rightarrow> nat \<Rightarrow> bool" where
  "parses_digits parse limit \<longleftrightarrow>
     (\<forall>ds. ds \<noteq> [] \<and> list_all digit ds \<and> digits_value ds < limit \<longrightarrow> parse ds = Some (int (digits_value ds)))"

lemma le_bytes_zero: "le_bytes n 0 = replicate n (CHR 0x00)"
  by (induction n) (simp_all add: char_of_def)

lemma le_bytes_split: "0 \<le> v \<Longrightarrow> v < 256 ^ n \<Longrightarrow> le_bytes (n + k) v = le_bytes n v @ replicate k (CHR 0x00)"
proof (induction n arbitrary: v)
  case (Suc n)
  then have "v div 256 < 256 ^ n" by (simp add: div_less_iff_less_mult mult.commute)
  with Suc show ?case by simp
next
  case 0
  then have "v = 0" by simp
  then show ?case by (simp add: le_bytes_zero)
qed

lemma numeric_bytes:
  assumes "parses_digits (eng_parse_int64 eng) (2 ^ 63)" "parses_digits (eng_parse_hugeint eng) (2 ^ 127)"
    and "list_all digit ds" "ds \<noteq> []" "length ds \<le> 38"
  shows "(if to_uint8 (int (length ds)) \<le> MAX_WIDTH_INT64
      then map_option (\<lambda>v. le_bytes 8 v @ replicate 8 (CHR 0x00)) (eng_parse_int64 eng ds)
      else map_option (le_bytes 16) (eng_parse_hugeint eng ds)) = Some (le_bytes 16 (int (digits_value ds)))"
proof -
  have l: "to_uint8 (int (length ds)) = int (length ds)"
    using assms(5) unfolding to_uint8_def by (intro take_bit_int_eq_self) simp_all
  have "digits_value ds < 10 ^ length ds" by (rule digits_value_less [OF assms(3)])
  show ?thesis
  proof (cases "length ds \<le> 18")
    case True
    then have "(10 :: nat) ^ length ds \<le> 10 ^ 18" by (intro power_increasing) simp_all
    then have v: "digits_value ds < 10 ^ 18" using \<open>digits_value ds < 10 ^ length ds\<close> by linarith
    have "le_bytes 16 (int (digits_value ds)) = le_bytes 8 (int (digits_value ds)) @ replicate 8 (CHR 0x00)"
      using le_bytes_split [of "int (digits_value ds)" 8 8] v by simp
    moreover have "eng_parse_int64 eng ds = Some (int (digits_value ds))"
      using assms(1,3,4) v by (simp add: parses_digits_def)
    ultimately show ?thesis using True l by simp
  next
    case False
    have "(10 :: nat) ^ length ds \<le> 10 ^ 38" using assms(5) by (intro power_increasing) simp_all
    then have "digits_value ds < 2 ^ 127" using \<open>digits_value ds < 10 ^ length ds\<close> by simp
    then have "eng_parse_hugeint eng ds = Some (int (digits_value ds))"
      using assms(2-4) by (simp add: parses_digits_def)
    then show ?thesis using False l by simp
  qed
qed

text \<open>Scale, sign and digits of a \<^verbatim>\<open>SQL_NUMERIC_STRUCT\<close>; the number it denotes is the digits divided by
  ten to the scale.\<close>

definition load_numeric :: "memory \<Rightarrow> addr \<Rightarrow> int \<times> int \<times> int" where
  "load_numeric m a = (le_uint (read_bytes m (a + 1) 1), le_uint (read_bytes m (a + 2) 1), le_uint (read_bytes m (a + 3) 16))"

lemma read_write_within:
  "k + n \<le> length bs \<Longrightarrow> read_bytes (write_bytes m a bs) (a + k) n = take n (drop k bs)"
  by (rule nth_equalityI) (auto simp: read_bytes_def write_bytes_def)

lemma read_store_disjoint:
  "p = nullptr \<or> a + n \<le> p \<or> p + w \<le> a \<Longrightarrow> read_bytes (store_int w m p v) a n = read_bytes m a n"
  by (auto simp: store_int_def mem_simps)

lemma le_sint_le_bytes_int64: "le_sint (le_bytes 8 v) = to_int64 v"
  using take_bit_eq_mod [of 64 v] signed_take_bit_take_bit [of 63 64 v]
  by (simp add: le_sint_def le_uint_le_bytes to_int64_def)

lemma load_store_int: "p \<noteq> nullptr \<Longrightarrow> load_sint 8 (store_int 8 m p v) p = Some (to_int64 v)"
  using read_write_same [of m p "le_bytes 8 v"]
  by (simp add: load_sint_def store_int_def le_sint_le_bytes_int64 del: le_bytes.simps)

lemma GetNumericValue_decimal:
  assumes "numeric_parts (decimal_to_string w s v) = (sign, scale, ds)"
    and "parses_digits (eng_parse_int64 eng) (2 ^ 63)" "parses_digits (eng_parse_hugeint eng) (2 ^ 127)"
    and "list_all digit ds" "ds \<noteq> []" "length ds \<le> 38" "0 \<le> scale" "scale < 128" "sign \<in> {0, 1}"
    and "ind = nullptr \<or> target + 19 \<le> ind \<or> ind + 8 \<le> target"
  shows "\<exists>m'. GetNumericValue eng dsn st m (DecimalValue w s v) target ind = Some (SQL_SUCCESS, st, m')
    \<and> load_numeric m' target = (scale, sign, int (digits_value ds)) \<and> (ind \<noteq> nullptr \<longrightarrow> load_sint 8 m' ind = Some 19)"
proof -
  let ?bs = "le_bytes 1 (to_uint8 (int (length ds))) @ le_bytes 1 scale @ le_bytes 1 sign @ le_bytes 16 (int (digits_value ds))"
  let ?p = "to_uint8 (int (length ds))"
  let ?m0 = "write_numeric m target ?p scale sign (replicate SQL_MAX_NUMERIC_LEN (CHR 0x00))"
  let ?m = "store_int 8 (write_bytes ?m0 target ?bs) ind 19"
  have "GetNumericValue eng dsn st m (DecimalValue w s v) target ind = Some (SQL_SUCCESS, st, ?m)"
    using numeric_bytes [OF assms(2-6)] assms(1)
    by (simp add: GetNumericValue_def ValidateType_def GetValue_string_def Let_def write_numeric_def)
  moreover have "load_numeric ?m target = (scale, sign, int (digits_value ds))"
  proof -
    have "(10 :: nat) ^ length ds \<le> 10 ^ 38" using assms(6) by (intro power_increasing) simp_all
    then have "digits_value ds < 256 ^ 16" using digits_value_less [OF assms(4)] by simp
    then have "le_uint (le_bytes 16 (int (digits_value ds))) = int (digits_value ds)" by (simp add: le_uint_le_bytes)
    moreover have "le_uint (le_bytes 1 scale) = scale" "le_uint (le_bytes 1 sign) = sign"
      using assms(7-9) unfolding le_uint_le_bytes by auto
    moreover have r: "read_bytes ?m (target + k) n = take n (drop k ?bs)" if "k + n \<le> 19" for k n
      using that assms(10) read_store_disjoint [of ind "target + k" n 8] read_write_within [of k n ?bs]
      by auto
    have "read_bytes ?m (target + 1) 1 = le_bytes 1 scale" "read_bytes ?m (target + 2) 1 = le_bytes 1 sign"
      "read_bytes ?m (target + 3) 16 = le_bytes 16 (int (digits_value ds))"
      using r [of 1 1] r [of 2 1] r [of 3 16] by (simp_all del: le_bytes.simps One_nat_def)
    ultimately show ?thesis unfolding load_numeric_def by simp
  qed
  moreover have "ind \<noteq> nullptr \<longrightarrow> load_sint 8 ?m ind = Some 19" by (simp add: load_store_int to_int64_id)
  ultimately show ?thesis by blast
qed


lemma GetDataStmtResult_numeric:
  "positioned st col (DecimalValue w s v) \<Longrightarrow> target \<noteq> nullptr \<Longrightarrow>
    GetDataStmtResult eng u dsn st m (int col + 1) SQL_C_NUMERIC target blen ind
      = GetNumericValue eng dsn st m (DecimalValue w s v) target ind"
  by (simp add: GetDataStmtResult_def positioned_def localize_def deliver_value_def)

lemma numeric_delivered:
  assumes "parses_digits (eng_parse_int64 eng) (2 ^ 63)" "parses_digits (eng_parse_hugeint eng) (2 ^ 127)"
    and "positioned st col (DecimalValue w s v)" "nat \<bar>v\<bar> < 10 ^ w" "s \<le> w" "0 < w" "w \<le> 38"
    and "s = 0 \<or> nat \<bar>v\<bar> mod 10 ^ s \<noteq> 0"
    and "target \<noteq> nullptr" "ind = nullptr \<or> target + 19 \<le> ind \<or> ind + 8 \<le> target"
  shows "\<exists>m'. GetDataStmtResult eng u dsn st m (int col + 1) SQL_C_NUMERIC target blen ind = Some (SQL_SUCCESS, st, m')
    \<and> load_numeric m' target = (int s, if v < 0 then 0 else 1, \<bar>v\<bar>) \<and> (ind \<noteq> nullptr \<longrightarrow> load_sint 8 m' ind = Some 19)"
proof -
  have parts: "numeric_parts (decimal_to_string w s v) = (if v < 0 then 0 else 1, int s, decimal_digits w s (nat \<bar>v\<bar>))"
    using numeric_parts_decimal [OF assms(4-6)] assms(8) by auto
  note ds = decimal_digits_props [OF assms(4-6)]
  show ?thesis
    using GetNumericValue_decimal [OF parts assms(1,2) ds(2,3), of ind target dsn st m] ds(1,4) assms(5,7,10)
    by (simp add: GetDataStmtResult_numeric [OF assms(3,9)])
qed

lemma numeric_zero_fraction:
  assumes "parses_digits (eng_parse_int64 eng) (2 ^ 63)" "parses_digits (eng_parse_hugeint eng) (2 ^ 127)"
    and "positioned st col (DecimalValue w s v)" "nat \<bar>v\<bar> < 10 ^ w" "s < w" "w \<le> 38"
    and "0 < s" "nat \<bar>v\<bar> mod 10 ^ s = 0"
    and "target \<noteq> nullptr" "ind = nullptr \<or> target + 19 \<le> ind \<or> ind + 8 \<le> target"
  shows "\<exists>m'. GetDataStmtResult eng u dsn st m (int col + 1) SQL_C_NUMERIC target blen ind = Some (SQL_SUCCESS, st, m')
    \<and> load_numeric m' target = (int s, if v < 0 then 0 else 1, \<bar>v\<bar> div 10 ^ s)"
proof -
  let ?ds = "nat_to_string (nat \<bar>v\<bar> div 10 ^ s)"
  have parts: "numeric_parts (decimal_to_string w s v) = (if v < 0 then 0 else 1, int s, ?ds)"
    using numeric_parts_decimal [of v w s] assms(4,5,7,8) by simp
  have "nat \<bar>v\<bar> div 10 ^ s < 10 ^ w" using assms(4) div_le_dividend [of "nat \<bar>v\<bar>" "10 ^ s"] by linarith
  then have len: "length ?ds \<le> 38" using length_nat_to_string [of "nat \<bar>v\<bar> div 10 ^ s" w] assms(5,6) by linarith
  have ds: "list_all digit ?ds" "?ds \<noteq> []" "digits_value ?ds = nat \<bar>v\<bar> div 10 ^ s" using nat_to_string_digits by blast+
  have range: "0 \<le> int s" "int s < 128" "(if v < 0 then 0 else 1) \<in> {0, 1 :: int}" using assms(5,6) by auto
  obtain m' where "GetNumericValue eng dsn st m (DecimalValue w s v) target ind = Some (SQL_SUCCESS, st, m')"
    "load_numeric m' target = (int s, if v < 0 then 0 else 1, int (nat \<bar>v\<bar> div 10 ^ s))"
    using GetNumericValue_decimal [OF parts assms(1,2) ds(1,2) len range assms(10), of dsn st m] unfolding ds(3) by blast
  then show ?thesis by (simp add: GetDataStmtResult_numeric [OF assms(3,9)] zdiv_int)
qed

text \<open>C18: the decimal that is delivered as a \<^verbatim>\<open>SQL_NUMERIC_STRUCT\<close>, for every decimal of up to 38 digits but a zero without
  integer digits (\<^verbatim>\<open>DECIMAL(n,n)\<close>), provided the engine parses a string of digits as the number it denotes: the call
  succeeds, scale and sign are those of the value, and the 16-byte integer is its unscaled absolute value if the scale is 0 or the
  fraction is not zero, so that the struct denotes the value exactly. Otherwise (5.00) the integer lacks the zeros of the
  fraction, a defect of the code: the scale is kept while the digits are erased.\<close>

theorem numeric_delivered_exactly:
  assumes "parses_digits (eng_parse_int64 eng) (2 ^ 63)" "parses_digits (eng_parse_hugeint eng) (2 ^ 127)"
    and "positioned st col (DecimalValue w s v)" "nat \<bar>v\<bar> < 10 ^ w" "s \<le> w" "0 < w" "w \<le> 38"
    and "s < w \<or> v \<noteq> 0"
    and "target \<noteq> nullptr" "ind = nullptr \<or> target + 19 \<le> ind \<or> ind + 8 \<le> target"
  shows "\<exists>m'. GetDataStmtResult eng u dsn st m (int col + 1) SQL_C_NUMERIC target blen ind = Some (SQL_SUCCESS, st, m')
    \<and> load_numeric m' target = (int s, if v < 0 then 0 else 1, if s = 0 \<or> nat \<bar>v\<bar> mod 10 ^ s \<noteq> 0 then \<bar>v\<bar> else \<bar>v\<bar> div 10 ^ s)"
proof (cases "s = 0 \<or> nat \<bar>v\<bar> mod 10 ^ s \<noteq> 0")
  case True
  then show ?thesis using numeric_delivered [OF assms(1-7) True assms(9,10), of u dsn m blen] by auto
next
  case False
  moreover have "s < w"
    using assms(4,5,8) False by (cases "s = w") auto
  ultimately show ?thesis
    using numeric_zero_fraction [OF assms(1-4) _ assms(7) _ _ assms(9,10), of u dsn m blen] by auto
qed

text \<open>A decimal whose fraction is zero is delivered wrong by a factor of ten to its scale: the driver
  strips the zero digits of the fraction but keeps the scale, so that 42.00 arrives as the digits 42
  with scale 2, the number 0.42.\<close>

theorem numeric_zero_fraction_loses_scale:
  assumes "parses_digits (eng_parse_int64 eng) (2 ^ 63)" "parses_digits (eng_parse_hugeint eng) (2 ^ 127)"
    and "positioned st col (DecimalValue w s v)" "nat \<bar>v\<bar> < 10 ^ w" "s < w" "w \<le> 38"
    and "0 < s" "nat \<bar>v\<bar> mod 10 ^ s = 0"
    and "target \<noteq> nullptr" "ind = nullptr \<or> target + 19 \<le> ind \<or> ind + 8 \<le> target"
  shows "\<exists>m'. GetDataStmtResult eng u dsn st m (int col + 1) SQL_C_NUMERIC target blen ind = Some (SQL_SUCCESS, st, m')
    \<and> load_numeric m' target = (int s, if v < 0 then 0 else 1, \<bar>v\<bar> div 10 ^ s)"
  using numeric_zero_fraction [OF assms, of u dsn m blen] by blast

section \<open>Timestamps as structures\<close>

definition load_timestamp :: "memory \<Rightarrow> addr \<Rightarrow> int list" where
  "load_timestamp m a = [le_sint (read_bytes m a 2), le_uint (read_bytes m (a + 2) 2), le_uint (read_bytes m (a + 4) 2),
     le_uint (read_bytes m (a + 6) 2), le_uint (read_bytes m (a + 8) 2), le_uint (read_bytes m (a + 10) 2),
     le_uint (read_bytes m (a + 12) 4)]"

lemma le_uint_id: "0 \<le> v \<Longrightarrow> v < 256 ^ n \<Longrightarrow> le_uint (le_bytes n v) = v"
  by (simp add: le_uint_le_bytes)

lemma load_timestamp_stored:
  assumes "ind = nullptr \<or> target + 16 \<le> ind \<or> ind + 8 \<le> target"
    and "- 32768 \<le> y" "y < 32768" "0 \<le> mo" "mo < 65536" "0 \<le> d" "d < 65536" "0 \<le> h" "h < 65536" "0 \<le> mi" "mi < 65536"
      "0 \<le> s" "s < 65536" "0 \<le> fr" "fr < 4294967296"
  shows "load_timestamp (store_int 8 (write_bytes m target (le_bytes 2 y @ le_bytes 2 mo @ le_bytes 2 d @ le_bytes 2 h
      @ le_bytes 2 mi @ le_bytes 2 s @ le_bytes 4 fr)) ind v) target = [y, mo, d, h, mi, s, fr]"
proof -
  let ?bs = "le_bytes 2 y @ le_bytes 2 mo @ le_bytes 2 d @ le_bytes 2 h @ le_bytes 2 mi @ le_bytes 2 s @ le_bytes 4 fr"
  let ?m = "store_int 8 (write_bytes m target ?bs) ind v"
  have r: "read_bytes ?m (target + k) n = take n (drop k ?bs)" if "k + n \<le> 16" for k n
    using that assms(1) read_store_disjoint [of ind "target + k" n 8] read_write_within [of k n ?bs] by auto
  have "read_bytes ?m target 2 = le_bytes 2 y" "read_bytes ?m (target + 2) 2 = le_bytes 2 mo"
    "read_bytes ?m (target + 4) 2 = le_bytes 2 d" "read_bytes ?m (target + 6) 2 = le_bytes 2 h"
    "read_bytes ?m (target + 8) 2 = le_bytes 2 mi" "read_bytes ?m (target + 10) 2 = le_bytes 2 s"
    "read_bytes ?m (target + 12) 4 = le_bytes 4 fr"
    using r [of 0 2] r [of 2 2] r [of 4 2] r [of 6 2] r [of 8 2] r [of 10 2] r [of 12 4]
    by (simp_all del: le_bytes.simps)
  then show ?thesis using assms(2-15) by (simp add: load_timestamp_def le_sint_le_bytes2 le_uint_id)
qed

text \<open>The timestamp of a calendar date and a time of day, and its parts.\<close>

lemma timestamp_parts:
  assumes "FromDate year month day = Inr n" "0 \<le> h" "h < 24" "0 \<le> mi" "mi < 60" "0 \<le> s" "s < 60" "0 \<le> us" "us < 1000000"
    and "Timestamp_IsFinite ts" "ts = n * MICROS_PER_DAY + FromTime h mi s us"
  shows "GetDate ts = n" "GetTime ts = Inr (FromTime h mi s us)"
proof -
  have "0 \<le> FromTime h mi s us" "FromTime h mi s us < MICROS_PER_DAY"
    using assms(2-9) by (simp_all add: FromTime_def)
  then have "ts div MICROS_PER_DAY = n" "ts mod MICROS_PER_DAY = FromTime h mi s us"
    using int_div_pos_eq [of ts MICROS_PER_DAY n] int_mod_pos_eq [of ts MICROS_PER_DAY n] assms(11) by simp_all
  then show "GetDate ts = n" "GetTime ts = Inr (FromTime h mi s us)"
    using GetDate_div [OF assms(10)] GetTime_mod [OF assms(10)] by simp_all
qed

lemma Date_IsValid_ranges: "Date_IsValid year month day \<Longrightarrow> 1 \<le> month \<and> month \<le> 12 \<and> 1 \<le> day \<and> day \<le> 31"
proof -
  assume v: "Date_IsValid year month day"
  then have m: "1 \<le> month" "month \<le> 12" "1 \<le> day" "day \<le> month_lengths (IsLeapYear year) ! nat month"
    by (auto simp: Date_IsValid_def split: if_splits)
  have "month \<in> {1, 2, 3, 4, 5, 6, 7, 8, 9, 10, 11, 12}"
    using m(1,2) by (simp only: insert_iff empty_iff) presburger
  then have "month_lengths (IsLeapYear year) ! nat month \<le> 31" by (elim insertE; simp add: LEAP_DAYS_def NORMAL_DAYS_def)
  with m show ?thesis by linarith
qed

text \<open>A timestamp arrives with the fields it was built from: for every valid date whose year fits the
  16-bit field of the structure and every time of day, the \<^verbatim>\<open>SQL_TIMESTAMP_STRUCT\<close> that is delivered
  for the timestamp composed of them, also before 1970, holds that year, month, day, hour, minute and second, and
  the microseconds as nanoseconds.\<close>

lemma timestamp_delivered:
  assumes "FromDate year month day = Inr n" "- 32768 \<le> year" "year < 32768"
    and "0 \<le> h" "h < 24" "0 \<le> mi" "mi < 60" "0 \<le> s" "s < 60" "0 \<le> us" "us < 1000000"
    and "ts = n * MICROS_PER_DAY + FromTime h mi s us" "Timestamp_IsFinite ts"
    and "positioned st col (IntValue t ts)" "lt_id t = TIMESTAMP"
    and "target \<noteq> nullptr" "ind = nullptr \<or> target + 16 \<le> ind \<or> ind + 8 \<le> target"
  shows "\<exists>m'. GetDataStmtResult eng u dsn st m (int col + 1) SQL_C_TYPE_TIMESTAMP target blen ind = Some (SQL_SUCCESS, st, m')
    \<and> load_timestamp m' target = [year, month, day, h, mi, s, us * 1000] \<and> (ind \<noteq> nullptr \<longrightarrow> load_sint 8 m' ind = Some 16)"
proof -
  have v: "Date_IsValid year month day" using assms(1) by (auto simp: FromDate_def TryFromDate_def split: if_splits)
  then have "Date_Convert n = Some (year, month, day)" using calendar_inverse [OF v] assms(1) by auto
  moreover note timestamp_parts [OF assms(1,4-11,13,12)]
  moreover have "Time_Convert (FromTime h mi s us) = (h, mi, s, us)" using assms(4-11) by (intro FromTime_Convert) auto
  ultimately have "GetDataStmtResult eng u dsn st m (int col + 1) SQL_C_TYPE_TIMESTAMP target blen ind
      = Some (SQL_SUCCESS, st, store_int 8 (write_bytes m target (le_bytes 2 year @ le_bytes 2 month @ le_bytes 2 day @ le_bytes 2 h
                         @ le_bytes 2 mi @ le_bytes 2 s @ le_bytes 4 (us * 1000))) ind 16)"
    using assms(14-16)
    by (simp add: GetDataStmtResult_def positioned_def localize_def deliver_value_def GetTimestampValue_def resolve_timestamp_def
        epoch_conversion_def GetValue_int64_def FromEpochMicroSeconds_def del: le_bytes.simps)
  then show ?thesis
    using load_timestamp_stored [OF assms(17,2,3), of month day h mi s "us * 1000"] assms(4-11) Date_IsValid_ranges [OF v]
    by (simp add: load_store_int to_int64_id del: le_bytes.simps)
qed

text \<open>An infinite timestamp takes the driver down: requesting it as a \<^verbatim>\<open>SQL_C_TYPE_TIMESTAMP\<close> makes the
  engine throw in the extraction of the time, and the exception leaves the C interface.\<close>

theorem infinite_timestamp_throws:
  assumes "positioned st col (IntValue t ts)" "lt_id t \<in> {TIMESTAMP, TIMESTAMP_SEC, TIMESTAMP_MS, TIMESTAMP_NS}" "\<not> Timestamp_IsFinite ts"
    and "target \<noteq> nullptr"
  shows "GetDataStmtResult eng u dsn st m (int col + 1) SQL_C_TYPE_TIMESTAMP target blen ind = None"
proof -
  have "resolve_timestamp eng dsn st m (IntValue t ts) = Inr ts"
    using assms(2,3) by (auto simp: resolve_timestamp_def epoch_conversion_def GetValue_int64_def FromEpochMicroSeconds_def)
  moreover have "lt_id t \<noteq> TIMESTAMP_TZ" using assms(2) by auto
  ultimately show ?thesis using assms(1,3,4)
    by (simp add: GetDataStmtResult_def positioned_def localize_def deliver_value_def GetTimestampValue_def GetTime_def split: option.split)
qed

text \<open>A failed conversion of a timestamp is reported as a success: when a \<^verbatim>\<open>TIMESTAMP_S\<close> value does not fit
  the microsecond range and is requested as a date, the call answers \<^verbatim>\<open>SQL_SUCCESS\<close> and the date
  that is delivered is that of an uninitialised variable, whatever day number \<open>u\<close> it happens to hold.\<close>

theorem failed_timestamp_cast_succeeds:
  assumes "positioned st col (IntValue t ts)" "lt_id t = TIMESTAMP_SEC" "Timestamp_IsFinite ts" "try_int64 (ts * MICROS_PER_SEC) = None"
    and "Date_Convert u = Some (year, month, day)" "target \<noteq> nullptr"
  shows "\<exists>st'. GetDataStmtResult eng u dsn st m (int col + 1) SQL_C_TYPE_DATE target blen ind =
    Some (SQL_SUCCESS, st', store_int 8 (write_bytes m target (le_bytes 2 year @ le_bytes 2 month @ le_bytes 2 day)) ind 6)"
  using assms by (simp add: GetDataStmtResult_def positioned_def localize_def deliver_value_def GetDateValue_def resolve_temporal_def
      epoch_conversion_def CastTimestampValue_def GetValue_int64_def FromEpochSeconds_def Let_def del: le_bytes.simps)

section \<open>Samples\<close>

definition digits_parser :: "nat \<Rightarrow> string \<Rightarrow> int option" where
  "digits_parser limit ds =
     (if ds \<noteq> [] \<and> list_all digit ds \<and> digits_value ds < limit then Some (int (digits_value ds)) else None)"

definition sample_engine :: engine where
  "sample_engine = \<lparr>eng_cast = \<lambda>v t. (case v of IntValue _ i \<Rightarrow> Inr i | _ \<Rightarrow> Inl ''Conversion Error''), eng_to_string = \<lambda>v. [],
     eng_to_int64 = \<lambda>v. 0, eng_parse_int64 = digits_parser (2 ^ 63), eng_parse_hugeint = digits_parser (2 ^ 127),
     eng_parse_date = \<lambda>s. None, eng_parse_time = \<lambda>s. None, eng_parse_timestamp = \<lambda>s. None, eng_parse_interval = \<lambda>s. None,
     eng_cast_text = \<lambda>a b s. ''Conversion Error'', eng_type_name = \<lambda>t. [], eng_id_name = \<lambda>t. [], eng_utc_offset = \<lambda>t. Inr 0\<rparr>"

text \<open>A statement positioned on a row with one column.\<close>

definition sample_row :: "Value \<Rightarrow> OdbcHandleStmt" where
  "sample_row v = set_fetcher (sample_fetch SQL_CURSOR_FORWARD_ONLY True [])
     ((odbc_fetcher (sample_fetch SQL_CURSOR_FORWARD_ONLY True []))\<lparr>chunks := [(0, [[v]])], chunk_row := 0\<rparr>)"

abbreviation sample_varchar :: LogicalType where "sample_varchar \<equiv> \<lparr>lt_id = VARCHAR, lt_width = 0, lt_scale = 0\<rparr>"

lemma sample_row_positioned: "positioned (sample_row v) 0 v" "read_offset (odbc_fetcher (sample_row v)) 0 = 0"
  by (simp_all add: positioned_def sample_row_def GetValue_def deref_chunk_def sample_fetch_def read_offset_def)

lemma sample_engine_parses:
  "parses_digits (eng_parse_int64 sample_engine) (2 ^ 63)" "parses_digits (eng_parse_hugeint sample_engine) (2 ^ 127)"
  by (simp_all add: parses_digits_def sample_engine_def digits_parser_def)

theorem SQLGetData_pieces_witness:
  "\<exists>ps st' m'. read_until_no_data (\<lambda>st m. GetDataStmtResult sample_engine 0 [] st m (int 0 + 1) SQL_C_CHAR 1000 4 2000)
      (buffer_piece 1000 2000 (nat 4 - unit_pad 1 True)) (Suc (length ''Hello'')) (sample_row (TextValue sample_varchar ''Hello''))
      (\<lambda>_. CHR 0x00) = Some (ps, st', m')
    \<and> concat ps = ''Hello'' \<and> (\<forall>p \<in> set ps. length p \<le> nat 4 - unit_pad 1 True) \<and> outside 1000 (nat 4) 2000 8 (\<lambda>_. CHR 0x00) m'"
  by (rule SQLGetData_pieces [OF sample_row_positioned(1)])
    (simp_all add: sample_row_positioned variable_form_def GetValue_string_def unit_pad_def)

abbreviation sample_blob :: LogicalType where "sample_blob \<equiv> \<lparr>lt_id = BLOB, lt_width = 0, lt_scale = 0\<rparr>"

theorem blob_delivered_exactly_witness:
  "\<exists>ps st' m'. read_until_no_data (\<lambda>st m. GetDataStmtResult sample_engine 0 [] st m (int 0 + 1) SQL_C_BINARY 1000 2 2000)
      (buffer_piece 1000 2000 (nat 2)) (Suc (length [CHR 0x00, CHR 0xFF, CHR 0x27])) (sample_row (TextValue sample_blob [CHR 0x00, CHR 0xFF, CHR 0x27]))
      (\<lambda>_. CHR 0x00) = Some (ps, st', m')
    \<and> concat ps = [CHR 0x00, CHR 0xFF, CHR 0x27] \<and> (\<forall>p \<in> set ps. length p \<le> nat 2) \<and> outside 1000 (nat 2) 2000 8 (\<lambda>_. CHR 0x00) m'"
  by (rule blob_delivered_exactly [OF sample_row_positioned(1)]) (simp_all add: sample_row_positioned)

theorem text_as_binary_throws_witness:
  "GetDataStmtResult sample_engine 0 [] (sample_row (TextValue sample_varchar [CHR 0xC3, CHR 0xA9])) (\<lambda>_. CHR 0x00) (int 0 + 1) SQL_C_BINARY 1000 20 2000 = None"
  by (rule text_as_binary_throws [OF sample_row_positioned(1)]) simp_all

theorem SQLGetData_empty_never_ends_witness:
  "read_until_no_data (\<lambda>st m. GetDataStmtResult sample_engine 0 [] st m (int 0 + 1) SQL_C_CHAR 1000 4 2000)
     (buffer_piece 1000 2000 3) 100 (sample_row (TextValue sample_varchar [])) (\<lambda>_. CHR 0x00) = None"
  by (rule SQLGetData_empty_never_ends [OF sample_row_positioned(1)]) (simp_all add: sample_row_positioned)

theorem numeric_delivered_exactly_witness:
  "\<exists>m'. GetDataStmtResult sample_engine 0 [] (sample_row (DecimalValue 5 2 (- 4205))) (\<lambda>_. CHR 0x00) (int 0 + 1) SQL_C_NUMERIC 1000 0 2000
      = Some (SQL_SUCCESS, sample_row (DecimalValue 5 2 (- 4205)), m')
    \<and> load_numeric m' 1000 = (2, 0, 4205)"
proof -
  have "\<exists>m'. GetDataStmtResult sample_engine 0 [] (sample_row (DecimalValue 5 2 (- 4205))) (\<lambda>_. CHR 0x00) (int 0 + 1) SQL_C_NUMERIC 1000 0 2000
      = Some (SQL_SUCCESS, sample_row (DecimalValue 5 2 (- 4205)), m')
    \<and> load_numeric m' 1000 = (int 2, if - 4205 < (0 :: int) then 0 else 1,
        if (2 :: nat) = 0 \<or> nat \<bar>- 4205\<bar> mod 10 ^ 2 \<noteq> 0 then \<bar>- 4205\<bar> else \<bar>- 4205\<bar> div 10 ^ 2)"
    by (rule numeric_delivered_exactly [OF sample_engine_parses sample_row_positioned(1)]) simp_all
  then show ?thesis by simp
qed

theorem numeric_zero_fraction_loses_scale_witness:
  "\<exists>m'. GetDataStmtResult sample_engine 0 [] (sample_row (DecimalValue 5 2 4200)) (\<lambda>_. CHR 0x00) (int 0 + 1) SQL_C_NUMERIC 1000 0 2000
      = Some (SQL_SUCCESS, sample_row (DecimalValue 5 2 4200), m')
    \<and> load_numeric m' 1000 = (int 2, if 4200 < (0 :: int) then 0 else 1, \<bar>4200\<bar> div 10 ^ 2)"
  by (rule numeric_zero_fraction_loses_scale [OF sample_engine_parses sample_row_positioned(1)]) simp_all

abbreviation sample_timestamp :: "LogicalTypeId \<Rightarrow> int \<Rightarrow> Value" where
  "sample_timestamp k ts \<equiv> IntValue \<lparr>lt_id = k, lt_width = 0, lt_scale = 0\<rparr> ts"

lemma sample_date: "FromDate 1969 12 31 = Inr (- 1)"
  by (simp add: FromDate_def TryFromDate_def Date_IsValid_def IsLeapYear_mod NORMAL_DAYS_def CUMULATIVE_DAYS_def c_mod_nonneg c_div_nonneg
      CUMULATIVE_YEAR_DAYS_def)

theorem infinite_timestamp_throws_witness:
  "GetDataStmtResult sample_engine 0 [] (sample_row (sample_timestamp TIMESTAMP INT64_MAX)) (\<lambda>_. CHR 0x00) (int 0 + 1)
      SQL_C_TYPE_TIMESTAMP 1000 0 2000 = None"
  by (rule infinite_timestamp_throws [OF sample_row_positioned(1)]) (simp_all add: Timestamp_IsFinite_def)

theorem failed_timestamp_cast_succeeds_witness:
  "\<exists>st'. GetDataStmtResult sample_engine 0 [] (sample_row (sample_timestamp TIMESTAMP_SEC (2 ^ 60))) (\<lambda>_. CHR 0x00) (int 0 + 1)
      SQL_C_TYPE_DATE 1000 0 2000
    = Some (SQL_SUCCESS, st', store_int 8 (write_bytes (\<lambda>_. CHR 0x00) 1000 (le_bytes 2 1970 @ le_bytes 2 1 @ le_bytes 2 1)) 2000 6)"
proof (rule failed_timestamp_cast_succeeds [OF sample_row_positioned(1)])
  show "Date_Convert 0 = Some (1970, 1, 1)"
    by (simp add: Date_Convert_def ExtractYearOffset_def days_up.simps days_down.simps c_div_def CUMULATIVE_YEAR_DAYS_def
        MONTH_PER_DAY_OF_YEAR_def CUMULATIVE_DAYS_def)
qed (simp_all add: Timestamp_IsFinite_def try_int64_def)

end
