(* ===== verification/Fetch_Rows.thy ===== *)
theory Fetch_Rows
  imports Get_Data
begin

text \<open>
  Fetching rows into bound columns: \<^verbatim>\<open>DummyFetch\<close>, \<^verbatim>\<open>Fetch\<close>, \<^verbatim>\<open>ColumnWise\<close>, \<^verbatim>\<open>RowWise\<close>
  and \<^verbatim>\<open>SetRowStatus\<close> of \<^verbatim>\<open>common/odbc_fetch.cpp\<close>, \<^verbatim>\<open>FetchStmtResult\<close> of
  \<^verbatim>\<open>statement_functions.cpp\<close> and the entry points \<^verbatim>\<open>SQLFetchScroll\<close>, \<^verbatim>\<open>SQLGetData\<close> and
  \<^verbatim>\<open>SQLRowCount\<close> of \<^verbatim>\<open>result_api.cpp\<close>.

  A fetch reads three fields of the implicit row descriptors and does not change them; they are the
  record \<open>row_binding\<close>. Adding a non-zero offset to a null pointer is undefined.

  A forward-only cursor is specified as a stream of rows (locale \<open>row_stream\<close>): the model's fetch is
  shown to implement it, so that an application that fetches until \<^verbatim>\<open>SQL_NO_DATA\<close> sees every row of
  the result once and in order. With a row status array or a rowset of more than one row the driver
  writes outside of the arrays of the application.
\<close>

section \<open>One row\<close>

record row_binding =
  rb_array_size :: SQLULEN
  rb_bind_type :: SQLINTEGER
  rb_status_ptr :: addr

abbreviation (input) SQL_BIND_BY_COLUMN :: int where "SQL_BIND_BY_COLUMN \<equiv> 0"
abbreviation (input) SQL_ROW_SUCCESS :: int where "SQL_ROW_SUCCESS \<equiv> 0"
abbreviation (input) SQL_ROW_NOROW :: int where "SQL_ROW_NOROW \<equiv> 3"
abbreviation (input) SQL_ROW_ERROR :: int where "SQL_ROW_ERROR \<equiv> 5"
abbreviation (input) SINGLE_VALUE_FETCH :: int where "SINGLE_VALUE_FETCH \<equiv> 1"

definition ptr_add :: "addr \<Rightarrow> int \<Rightarrow> addr option" where
  "ptr_add p off =
     (if off = 0 then Some p
      else if p = nullptr \<or> int p + off \<le> 0 then None
      else Some (nat (int p + off)))"

definition SetRowStatus :: "row_binding \<Rightarrow> nat \<Rightarrow> int \<Rightarrow> memory \<Rightarrow> memory" where
  "SetRowStatus rb row_idx status m =
     (if rb_status_ptr rb \<noteq> nullptr then write_bytes m (rb_status_ptr rb + 2 * row_idx) (le_bytes 2 status) else m)"

fun loop_opt :: "('a \<Rightarrow> 's \<Rightarrow> 's option) \<Rightarrow> 'a list \<Rightarrow> 's \<Rightarrow> 's option" where
  "loop_opt f [] s = Some s"
| "loop_opt f (x # xs) s = (case f x s of None \<Rightarrow> None | Some s' \<Rightarrow> loop_opt f xs s')"

text \<open>The body of the inner loops, with the addresses that the two binding orders compute.\<close>

definition fetch_cell ::
  "engine \<Rightarrow> int \<Rightarrow> string \<Rightarrow> row_binding \<Rightarrow> nat \<Rightarrow> nat \<Rightarrow> OdbcBoundCol \<Rightarrow> addr option \<Rightarrow> addr option
    \<Rightarrow> OdbcHandleStmt \<times> memory \<Rightarrow> data_result" where
  "fetch_cell eng u dsn rb row_idx col_idx b val_addr len_addr s = (case (val_addr, len_addr) of
      (Some val_addr, Some len_addr) \<Rightarrow>
        (case GetDataStmtResult eng u dsn (fst s) (snd s) (to_uint16 (int col_idx + 1)) (bc_type b) val_addr (bc_len b) len_addr of
           None \<Rightarrow> None
         | Some (ret, st, m) \<Rightarrow>
             Some (ret, st, if SQL_SUCCEEDED ret then m else SetRowStatus rb row_idx SQL_ROW_ERROR m))
    | _ \<Rightarrow> None)"

definition ColumnWise_cell ::
  "engine \<Rightarrow> int \<Rightarrow> string \<Rightarrow> row_binding \<Rightarrow> nat \<Rightarrow> nat \<Rightarrow> SQLRETURN \<times> OdbcHandleStmt \<times> memory \<Rightarrow> data_result" where
  "ColumnWise_cell eng u dsn rb row_idx col_idx s = (case at (bound_cols (fst (snd s))) col_idx of
      None \<Rightarrow> None
    | Some b \<Rightarrow>
        if \<not> IsBound b \<and> \<not> IsVarcharBound b then Some s
        else if rb_array_size rb \<noteq> SINGLE_VALUE_FETCH then
          (let pointer_size = PointerSizeOf (bc_type b);
               pointer_size = (if pointer_size < 0 then bc_len b else pointer_size)
           in fetch_cell eng u dsn rb row_idx col_idx b (ptr_add (bc_ptr b) (int row_idx * pointer_size))
                (ptr_add (bc_strlen_or_ind b) (8 * int row_idx)) (snd s))
        else fetch_cell eng u dsn rb row_idx col_idx b (Some (bc_ptr b)) (Some (bc_strlen_or_ind b)) (snd s))"

definition RowWise_cell ::
  "engine \<Rightarrow> int \<Rightarrow> string \<Rightarrow> row_binding \<Rightarrow> nat \<Rightarrow> nat \<Rightarrow> SQLRETURN \<times> OdbcHandleStmt \<times> memory \<Rightarrow> data_result" where
  "RowWise_cell eng u dsn rb row_idx col_idx s = (case at (bound_cols (fst (snd s))) col_idx of
      None \<Rightarrow> None
    | Some b \<Rightarrow>
        if \<not> IsBound b then Some s
        else
          let row_offset = rb_bind_type rb * int row_idx
          in fetch_cell eng u dsn rb row_idx col_idx b (ptr_add (bc_ptr b) row_offset)
               (ptr_add (bc_strlen_or_ind b) row_offset) (snd s))"

text \<open>A row: advance the position, set its status, and fill the columns.\<close>

definition ColumnCount :: "OdbcHandleStmt \<Rightarrow> nat option" where
  "ColumnCount st = map_option (\<lambda>ps. length (ps_types ps)) (stmt_stmt st)"

definition fetch_row ::
  "(nat \<Rightarrow> nat \<Rightarrow> SQLRETURN \<times> OdbcHandleStmt \<times> memory \<Rightarrow> data_result) \<Rightarrow> row_binding \<Rightarrow> nat
    \<Rightarrow> SQLRETURN \<times> OdbcHandleStmt \<times> memory \<Rightarrow> data_result" where
  "fetch_row cell rb row_idx s = (case s of (ret, st, m) \<Rightarrow>
      let f = odbc_fetcher st; st = set_fetcher st (f\<lparr>chunk_row := chunk_row f + 1\<rparr>);
          m = SetRowStatus rb row_idx SQL_SUCCESS m in
      case ColumnCount st of
        None \<Rightarrow> None
      | Some n \<Rightarrow> loop_opt (cell row_idx) [0..<n] (ret, st, m))"

definition fetch_rowset ::
  "(nat \<Rightarrow> nat \<Rightarrow> SQLRETURN \<times> OdbcHandleStmt \<times> memory \<Rightarrow> data_result) \<Rightarrow> row_binding \<Rightarrow> OdbcHandleStmt \<Rightarrow> memory \<Rightarrow> data_result" where
  "fetch_rowset cell rb st m =
     (let first_row_to_fetch = chunk_row (odbc_fetcher st) + 1;
          last_row_to_fetch = to_uint64 (first_row_to_fetch + rb_array_size rb) in
      case deref_chunk (odbc_fetcher st) of
        None \<Rightarrow> None
      | Some c \<Rightarrow>
          let last_row_to_fetch = min last_row_to_fetch (int (length c)) in
          (case loop_opt (fetch_row cell rb) [nat first_row_to_fetch..<nat last_row_to_fetch] (SQL_SUCCESS, st, m) of
             None \<Rightarrow> None
           | Some (ret, st', m') \<Rightarrow>
               Some (ret, st', store_int 8 m' (rows_fetched_ptr st) (last_row_to_fetch - first_row_to_fetch))))"

definition ColumnWise :: "engine \<Rightarrow> int \<Rightarrow> string \<Rightarrow> row_binding \<Rightarrow> OdbcHandleStmt \<Rightarrow> memory \<Rightarrow> data_result" where
  "ColumnWise eng u dsn rb st m = fetch_rowset (ColumnWise_cell eng u dsn rb) rb st m"

text \<open>\<^verbatim>\<open>RowWise\<close> counts the rows that its loop visits, which is the same number.\<close>

definition RowWise :: "engine \<Rightarrow> int \<Rightarrow> string \<Rightarrow> row_binding \<Rightarrow> OdbcHandleStmt \<Rightarrow> memory \<Rightarrow> data_result" where
  "RowWise eng u dsn rb st m =
     (let first_row_to_fetch = chunk_row (odbc_fetcher st) + 1;
          last_row_to_fetch = to_uint64 (first_row_to_fetch + rb_array_size rb) in
      case deref_chunk (odbc_fetcher st) of
        None \<Rightarrow> None
      | Some c \<Rightarrow>
          let rows = [nat first_row_to_fetch..<nat (min last_row_to_fetch (int (length c)))] in
          (case loop_opt (fetch_row (RowWise_cell eng u dsn rb) rb) rows (SQL_SUCCESS, st, m) of
             None \<Rightarrow> None
           | Some (ret, st', m') \<Rightarrow> Some (ret, st', store_int 8 m' (rows_fetched_ptr st) (int (length rows)))))"

section \<open>Fetch\<close>

text \<open>The outer option is \<open>None\<close> when the fuel of an absolute positioning does not suffice.\<close>

definition count_rows :: "row_binding \<Rightarrow> SQLRETURN \<Rightarrow> OdbcHandleStmt \<Rightarrow> memory \<Rightarrow> data_result" where
  "count_rows rb ret st m =
     map_option (\<lambda>f. (ret, set_fetcher st f, m)) (IncreaseRowCount (rb_array_size rb) (odbc_fetcher st))"

definition Fetch ::
  "engine \<Rightarrow> int \<Rightarrow> string \<Rightarrow> row_binding \<Rightarrow> nat \<Rightarrow> OdbcHandleStmt \<Rightarrow> memory \<Rightarrow> SQLULEN \<Rightarrow> SQLLEN \<Rightarrow> data_result option" where
  "Fetch eng u dsn rb fuel st m fetch_orientation fetch_offset =
     (case FetchNextChunk dsn (rb_array_size rb) fuel fetch_orientation st fetch_offset of
        None \<Rightarrow> None
      | Some None \<Rightarrow> Some None
      | Some (Some (ret, st)) \<Rightarrow> Some
          (if ret \<noteq> SQL_SUCCESS then Some (if ret = RETURN_FETCH_BEFORE_START then SQL_SUCCESS else ret, st, m)
           else if bound_cols st = [] then
             (let f = odbc_fetcher st; st = set_fetcher st (f\<lparr>chunk_row := to_int64 (chunk_row f + rb_array_size rb)\<rparr>)
              in count_rows rb SQL_SUCCESS st (store_int 8 m (rows_fetched_ptr st) 1))
           else
             (case (if rb_bind_type rb = SQL_BIND_BY_COLUMN then ColumnWise eng u dsn rb st m else RowWise eng u dsn rb st m) of
                None \<Rightarrow> None
              | Some (ret, st, m) \<Rightarrow> if SQL_SUCCEEDED ret then count_rows rb ret st m else Some (ret, st, m))))"

definition FetchStmtResult ::
  "engine \<Rightarrow> int \<Rightarrow> string \<Rightarrow> row_binding \<Rightarrow> nat \<Rightarrow> OdbcHandleStmt \<Rightarrow> memory \<Rightarrow> SQLSMALLINT \<Rightarrow> SQLLEN \<Rightarrow> data_result option" where
  "FetchStmtResult eng u dsn rb fuel st m fetch_orientation fetch_offset =
     (if \<not> stmt_open st then Some (Some (SQL_NO_DATA, st, m))
      else Fetch eng u dsn rb fuel st m fetch_orientation fetch_offset)"

definition DummyFetch :: "row_binding \<Rightarrow> OdbcHandleStmt \<Rightarrow> memory \<Rightarrow> SQLRETURN \<times> memory" where
  "DummyFetch rb st m =
     (if retrieve_data st = SQL_RD_OFF then
        (let f = odbc_fetcher st; row_set_size = to_int64 (rb_array_size rb);
             row_set_size = (if chunk_row f + row_set_size > row_count f then row_count f - chunk_row f else row_set_size) in
         if row_set_size \<le> 0 then (SQL_NO_DATA, m)
         else
           (SQL_SUCCESS,
            if rb_status_ptr rb \<noteq> nullptr
            then write_bytes m (rb_status_ptr rb)
                   (concat (replicate (nat row_set_size) (le_bytes 2 SQL_ROW_SUCCESS))
                    @ concat (replicate (nat (rb_array_size rb) - nat row_set_size) (le_bytes 2 SQL_ROW_NOROW)))
            else m))
      else (SQL_NEED_DATA, m))"

section \<open>Entry points\<close>

text \<open>The fields of the implicit descriptors of a statement that a fetch reads.\<close>

definition row_binding_of :: "driver \<Rightarrow> nat \<Rightarrow> row_binding option" where
  "row_binding_of w s = (case (descs w (ArdOf s), descs w (IrdOf s)) of
      (Some ard, Some ird) \<Rightarrow> Some \<lparr>rb_array_size = sql_desc_array_size (desc_header ard),
        rb_bind_type = sql_desc_bind_type (desc_header ard), rb_status_ptr = sql_desc_array_status_ptr (desc_header ird)\<rparr>
    | _ \<Rightarrow> None)"

definition back_to_store :: "driver \<Rightarrow> nat \<Rightarrow> data_result \<Rightarrow> (SQLRETURN \<times> driver \<times> memory) option" where
  "back_to_store w s = map_option (\<lambda>(ret, st, m). (ret, put_stmt s st w, m))"

definition SQLFetchScroll ::
  "engine \<Rightarrow> int \<Rightarrow> nat \<Rightarrow> SQLHANDLE \<Rightarrow> SQLSMALLINT \<Rightarrow> SQLLEN \<Rightarrow> driver \<Rightarrow> memory \<Rightarrow> (SQLRETURN \<times> driver \<times> memory) option option" where
  "SQLFetchScroll eng u fuel statement_handle fetch_orientation fetch_offset w m =
     (if fetch_orientation \<notin> {SQL_FETCH_FIRST, SQL_FETCH_ABSOLUTE, SQL_FETCH_PRIOR, SQL_FETCH_NEXT}
      then Some (Some (SQL_ERROR, w, m))
      else case ConvertHSTMTResult w statement_handle of
        None \<Rightarrow> Some None
      | Some (Inl ret, w) \<Rightarrow> Some (Some (ret, w, m))
      | Some (Inr s, w) \<Rightarrow>
          (case (stmts w s, row_binding_of w s) of
             (Some st, Some rb) \<Rightarrow>
               map_option (back_to_store w s)
                 (FetchStmtResult eng u (stmt_dsn w st) rb fuel st m fetch_orientation (fetch_offset - 1))
           | _ \<Rightarrow> Some None))"

definition SQLGetData ::
  "engine \<Rightarrow> int \<Rightarrow> SQLHANDLE \<Rightarrow> SQLUSMALLINT \<Rightarrow> SQLSMALLINT \<Rightarrow> addr \<Rightarrow> SQLLEN \<Rightarrow> addr \<Rightarrow> driver \<Rightarrow> memory
    \<Rightarrow> (SQLRETURN \<times> driver \<times> memory) option" where
  "SQLGetData eng u statement_handle col_or_param_num target_type target buffer_length str_len_or_ind w m =
     (case ConvertHSTMTResult w statement_handle of
        None \<Rightarrow> None
      | Some (Inl ret, w) \<Rightarrow> Some (ret, w, m)
      | Some (Inr s, w) \<Rightarrow>
          (case stmts w s of
             None \<Rightarrow> None
           | Some st \<Rightarrow> back_to_store w s
               (GetDataStmtResult eng u (stmt_dsn w st) st m col_or_param_num target_type target buffer_length str_len_or_ind)))"

definition SQLRowCount :: "SQLHANDLE \<Rightarrow> addr \<Rightarrow> driver \<Rightarrow> memory \<Rightarrow> (SQLRETURN \<times> driver \<times> memory) option" where
  "SQLRowCount statement_handle row_count_ptr w m =
     (case ConvertHSTMTResult w statement_handle of
        None \<Rightarrow> None
      | Some (Inl ret, w) \<Rightarrow> Some (ret, w, m)
      | Some (Inr s, w) \<Rightarrow>
          if row_count_ptr = nullptr then Some (SQL_ERROR, w, m)
          else (case stmts w s of
             None \<Rightarrow> None
           | Some st \<Rightarrow>
               (case (GetRowCount (odbc_fetcher st), stmt_stmt st) of
                  (Some n, Some ps) \<Rightarrow> Some (SQL_SUCCESS, w, store_int 8 m row_count_ptr (if ps_row_changes ps then n else - 1))
                | _ \<Rightarrow> None)))"

section \<open>A cursor as a stream of rows\<close>

text \<open>An application that fetches until there is no more data, and takes the current row after every
  successful fetch.\<close>

fun drain :: "('s \<Rightarrow> (SQLRETURN \<times> 's) option) \<Rightarrow> ('s \<Rightarrow> 'r option) \<Rightarrow> nat \<Rightarrow> 's \<Rightarrow> ('r list \<times> 's) option" where
  "drain fetch current 0 s = None"
| "drain fetch current (Suc n) s = (case fetch s of
      None \<Rightarrow> None
    | Some (ret, s') \<Rightarrow>
        if ret = SQL_NO_DATA then Some ([], s')
        else case current s' of None \<Rightarrow> None | Some r \<Rightarrow> map_option (\<lambda>(rs, t). (r # rs, t)) (drain fetch current n s'))"

locale row_stream =
  fixes ok :: "'s \<Rightarrow> bool" and rows :: "'s \<Rightarrow> 'r list" and current :: "'s \<Rightarrow> 'r option"
    and fetch :: "'s \<Rightarrow> (SQLRETURN \<times> 's) option"
  assumes fetch_row: "ok s \<Longrightarrow> rows s = r # rs \<Longrightarrow>
      \<exists>s'. fetch s = Some (SQL_SUCCESS, s') \<and> ok s' \<and> rows s' = rs \<and> current s' = Some r"
    and fetch_end: "ok s \<Longrightarrow> rows s = [] \<Longrightarrow> \<exists>s'. fetch s = Some (SQL_NO_DATA, s') \<and> ok s' \<and> rows s' = []"
begin

lemma drain_all: "ok s \<Longrightarrow> length (rows s) < n \<Longrightarrow> \<exists>s'. drain fetch current n s = Some (rows s, s') \<and> ok s' \<and> rows s' = []"
proof (induction n arbitrary: s)
  case (Suc n)
  show ?case
  proof (cases "rows s")
    case Nil
    then show ?thesis using fetch_end [OF Suc.prems(1)] by auto
  next
    case (Cons r rs)
    obtain s' where s': "fetch s = Some (SQL_SUCCESS, s')" "ok s'" "rows s' = rs" "current s' = Some r"
      using fetch_row [OF Suc.prems(1) Cons] by blast
    then show ?thesis using Suc.IH [of s'] Suc.prems(2) Cons by auto
  qed
qed simp

end

section \<open>The forward-only cursor\<close>

fun chunk_of :: "fetch_outcome \<Rightarrow> DataChunk" where
  "chunk_of (FetchChunk c) = c"
| "chunk_of _ = []"

definition remaining_rows :: "OdbcHandleStmt \<Rightarrow> Value list list" where
  "remaining_rows st =
     (case deref_chunk (odbc_fetcher st) of None \<Rightarrow> [] | Some c \<Rightarrow> drop (nat (chunk_row (odbc_fetcher st) + 1)) c)
     @ (case stmt_res st of None \<Rightarrow> [] | Some res \<Rightarrow> concat (map chunk_of (qr_pending res)))"

definition current_row :: "OdbcHandleStmt \<Rightarrow> Value list option" where
  "current_row st = (case deref_chunk (odbc_fetcher st) of
      None \<Rightarrow> None
    | Some c \<Rightarrow> if chunk_row (odbc_fetcher st) < 0 then None else at c (nat (chunk_row (odbc_fetcher st))))"

definition unbound :: "OdbcBoundCol \<Rightarrow> bool" where
  "unbound b \<longleftrightarrow> \<not> IsBound b \<and> \<not> IsVarcharBound b"

text \<open>The fetcher holds no chunk yet, or one chunk with the position in it.\<close>

definition chunk_ok :: "OdbcFetch \<Rightarrow> bool" where
  "chunk_ok f \<longleftrightarrow> (case chunks f of
      [] \<Rightarrow> current_chunk f = None \<and> chunk_row f = - 1
    | [(a, c)] \<Rightarrow> current_chunk f = Some a \<and> current_chunk_idx f = 0 \<and> - 1 \<le> chunk_row f \<and> chunk_row f < int (length c) \<and> length c < 2 ^ 62
    | _ \<Rightarrow> False)"

definition stream_ok :: "OdbcHandleStmt \<Rightarrow> bool" where
  "stream_ok st \<longleftrightarrow> stmt_open st \<and> cursor_type (odbc_fetcher st) = SQL_CURSOR_FORWARD_ONLY \<and> chunk_ok (odbc_fetcher st)
     \<and> bound_cols st \<noteq> [] \<and> list_all unbound (bound_cols st)
     \<and> (\<exists>n. ColumnCount st = Some n \<and> n \<le> length (bound_cols st))
     \<and> (\<exists>res cs. stmt_res st = Some res \<and> qr_error res = None \<and> qr_pending res = map FetchChunk cs \<and> (\<forall>c \<in> set cs. c \<noteq> [] \<and> length c < 2 ^ 62)
          \<and> (resultset_end (odbc_fetcher st) \<longrightarrow> cs = []))"

lemma loop_opt_id: "(\<And>x. x \<in> set xs \<Longrightarrow> f x s = Some s) \<Longrightarrow> loop_opt f xs s = Some s"
  by (induction xs) auto

lemma cells_unbound:
  assumes "list_all unbound (bound_cols st)" "n \<le> length (bound_cols st)"
  shows "loop_opt (ColumnWise_cell eng u dsn rb i) [k..<n] (ret, st, m) = Some (ret, st, m)"
    "loop_opt (RowWise_cell eng u dsn rb i) [k..<n] (ret, st, m) = Some (ret, st, m)"
  using assms
  by (auto intro!: loop_opt_id simp: ColumnWise_cell_def RowWise_cell_def list_all_length unbound_def)

text \<open>A rowset of one row whose columns are not bound: the position advances, and only the status array and
  the row counter of the application are written.\<close>

lemma fetch_one_row:
  assumes "rb_array_size rb = 1" "list_all unbound (bound_cols st)" "ColumnCount st = Some n" "n \<le> length (bound_cols st)"
    and "deref_chunk (odbc_fetcher st) = Some c" "chunk_row (odbc_fetcher st) = int k - 1" "k < length c" "length c < 2 ^ 62"
  shows "(if rb_bind_type rb = SQL_BIND_BY_COLUMN then ColumnWise eng u dsn rb st m else RowWise eng u dsn rb st m)
    = Some (SQL_SUCCESS, set_fetcher st ((odbc_fetcher st)\<lparr>chunk_row := int k\<rparr>),
        store_int 8 (SetRowStatus rb k SQL_SUCCESS m) (rows_fetched_ptr st) 1)"
proof -
  have last: "min (to_uint64 (int k + 1)) (int (length c)) = int k + 1" using assms by (simp add: to_uint64_id)
  have rows: "[k..<nat (int k + 1)] = [k]" by (simp add: nat_add_distrib)
  have cc: "ColumnCount (set_fetcher st f) = Some n" "bound_cols (set_fetcher st f) = bound_cols st" for f
    using assms(3) by (simp_all add: ColumnCount_def)
  have cells: "loop_opt (ColumnWise_cell eng u dsn rb k) [0..<n] (SQL_SUCCESS, set_fetcher st f, m) = Some (SQL_SUCCESS, set_fetcher st f, m)"
    "loop_opt (RowWise_cell eng u dsn rb k) [0..<n] (SQL_SUCCESS, set_fetcher st f, m) = Some (SQL_SUCCESS, set_fetcher st f, m)"
    for f m using cells_unbound [of "set_fetcher st f" n] assms(2,4) cc(2) by simp_all
  show ?thesis
    using assms(1,5,6) cells
    by (simp add: ColumnWise_def RowWise_def fetch_rowset_def last rows Let_def fetch_row_def cc)
qed

text \<open>The parts of the invariant that a step does not touch.\<close>

definition same_stream :: "OdbcHandleStmt \<Rightarrow> OdbcHandleStmt \<Rightarrow> bool" where
  "same_stream st st' \<longleftrightarrow> stmt_open st' = stmt_open st \<and> bound_cols st' = bound_cols st \<and> stmt_stmt st' = stmt_stmt st
     \<and> cursor_type (odbc_fetcher st') = cursor_type (odbc_fetcher st) \<and> stmt_dbc st' = stmt_dbc st \<and> retrieve_data st' = retrieve_data st
     \<and> param_desc st' = param_desc st \<and> rows_fetched_ptr st' = rows_fetched_ptr st"

lemma stream_okI:
  assumes "stream_ok st" "same_stream st st'" "chunk_ok (odbc_fetcher st')"
    and "stmt_res st' = Some res" "qr_error res = None" "qr_pending res = map FetchChunk cs" "\<forall>c \<in> set cs. c \<noteq> [] \<and> length c < 2 ^ 62"
    and "resultset_end (odbc_fetcher st') \<Longrightarrow> cs = []"
  shows "stream_ok st'"
proof -
  have "\<exists>res cs. stmt_res st' = Some res \<and> qr_error res = None \<and> qr_pending res = map FetchChunk cs
      \<and> (\<forall>c \<in> set cs. c \<noteq> [] \<and> length c < 2 ^ 62) \<and> (resultset_end (odbc_fetcher st') \<longrightarrow> cs = [])"
    using assms(4-8) by (intro exI [of _ res] exI [of _ cs]) blast
  with assms(1-3) show ?thesis unfolding stream_ok_def same_stream_def ColumnCount_def by simp
qed

lemma chunk_okE:
  assumes "chunk_ok f"
  obtains "chunks f = []" "current_chunk f = None" "chunk_row f = - 1"
  | a c k where "chunks f = [(a, c)]" "current_chunk f = Some a" "current_chunk_idx f = 0" "chunk_row f = int k - 1" "k \<le> length c"
      "length c < 2 ^ 62"
proof (cases "chunks f")
  case Nil
  then show thesis using assms that(1) by (simp add: chunk_ok_def)
next
  case (Cons ac r)
  then obtain a c where ac: "chunks f = [(a, c)]" using assms by (cases ac; cases r) (simp_all add: chunk_ok_def)
  then have "- 1 \<le> chunk_row f" "chunk_row f < int (length c)" "current_chunk f = Some a" "current_chunk_idx f = 0" "length c < 2 ^ 62"
    using assms by (simp_all add: chunk_ok_def)
  moreover from this obtain k where "chunk_row f + 1 = int k" using zero_le_imp_eq_int [of "chunk_row f + 1"] by auto
  ultimately show thesis using that(2) [OF ac, of k] by simp
qed

lemma deref_single: "chunks f = [(a, c)] \<Longrightarrow> current_chunk f = Some a \<Longrightarrow> deref_chunk f = Some c"
  by (simp add: deref_chunk_def)

lemma chunk_ok_at: "chunks f = [(a, c)] \<Longrightarrow> current_chunk f = Some a \<Longrightarrow> current_chunk_idx f = 0 \<Longrightarrow> chunk_row f = int k - 1
    \<Longrightarrow> k \<le> length c \<Longrightarrow> length c < 2 ^ 62 \<Longrightarrow> chunk_ok f"
  by (simp add: chunk_ok_def)

lemma remaining_at:
  "chunks (odbc_fetcher st) = [(a, c)] \<Longrightarrow> current_chunk (odbc_fetcher st) = Some a \<Longrightarrow> chunk_row (odbc_fetcher st) = int k - 1
    \<Longrightarrow> stmt_res st = Some res \<Longrightarrow> qr_pending res = map FetchChunk cs \<Longrightarrow> remaining_rows st = drop k c @ concat cs"
  by (simp add: remaining_rows_def deref_single comp_def)

text \<open>The position before the next row: the chunk that is held has it, or the next chunk is fetched.\<close>

definition at_row :: "OdbcHandleStmt \<Rightarrow> nat \<Rightarrow> DataChunk \<Rightarrow> nat \<Rightarrow> bool" where
  "at_row st a c k \<longleftrightarrow> chunks (odbc_fetcher st) = [(a, c)] \<and> current_chunk (odbc_fetcher st) = Some a
     \<and> current_chunk_idx (odbc_fetcher st) = 0 \<and> chunk_row (odbc_fetcher st) = int k - 1 \<and> k < length c \<and> length c < 2 ^ 62"

lemma next_in_chunk:
  assumes "cursor_type (odbc_fetcher st) = SQL_CURSOR_FORWARD_ONLY" "at_row st a c k"
  shows "FetchNextChunk dsn n fuel SQL_FETCH_NEXT st off
    = Some (Some (SQL_SUCCESS, set_fetcher st ((odbc_fetcher st)\<lparr>prior_chunk_row := int k - 1\<rparr>)))"
  using assms by (simp add: FetchNextChunk_def at_row_def RequireFetch_def Let_def)

lemma next_chunk_forward:
  assumes "cursor_type (odbc_fetcher st) = SQL_CURSOR_FORWARD_ONLY" "RequireFetch (odbc_fetcher st)"
    and "\<not> resultset_end (odbc_fetcher st)" "stmt_res st = Some res" "qr_error res = None"
    and "qr_pending res = FetchChunk c # rest" "c \<noteq> []" "length c < 2 ^ 62"
  shows "\<exists>st'. FetchNextChunk dsn n fuel SQL_FETCH_NEXT st off = Some (Some (SQL_SUCCESS, st')) \<and> at_row st' (next_chunk (odbc_fetcher st)) c 0
    \<and> same_stream st st' \<and> stmt_res st' = Some (res\<lparr>qr_pending := rest\<rparr>) \<and> \<not> resultset_end (odbc_fetcher st')"
proof -
  let ?f = "(odbc_fetcher st)\<lparr>prior_chunk_row := chunk_row (odbc_fetcher st)\<rparr>"
  let ?g = "add_chunk (ResetLastFetchedVariableVal ?f) c"
  have "RequireFetch ?f" using assms(2) by (simp add: RequireFetch_def)
  then have "FetchNextChunk dsn n fuel SQL_FETCH_NEXT st off = Some (FetchNext dsn (set_fetcher st ?f))"
    using assms(1,3) by (simp add: FetchNextChunk_def Let_def)
  moreover obtain st' where st': "FetchNext dsn (set_fetcher st ?f) = Some (SQL_SUCCESS, st')"
    "odbc_fetcher st' = snd (SetCurrentChunk ?g)" "stmt_res st' = Some (res\<lparr>qr_pending := rest\<rparr>)"
    "stmt_open st' = stmt_open st" "bound_cols st' = bound_cols st" "stmt_stmt st' = stmt_stmt st"
    "stmt_dbc st' = stmt_dbc st" "retrieve_data st' = retrieve_data st" "param_desc st' = param_desc st" "rows_fetched_ptr st' = rows_fetched_ptr st"
    using FetchNext_chunk [of "set_fetcher st ?f" res c rest dsn] assms(3-7) by auto
  moreover have "at_row st' (next_chunk (odbc_fetcher st)) c 0"
    using assms(1,7,8) st'(2) by (simp add: at_row_def SetCurrentChunk_def add_chunk_def)
  moreover have "cursor_type (odbc_fetcher st') = cursor_type (odbc_fetcher st)" "\<not> resultset_end (odbc_fetcher st')"
    using assms(3) by (simp_all add: st'(2) SetCurrentChunk_keeps)
  ultimately show ?thesis by (simp add: same_stream_def)
qed


lemma same_position:
  assumes "chunks g = chunks f" "current_chunk g = current_chunk f" "chunk_row g = chunk_row f" "current_chunk_idx g = current_chunk_idx f"
  shows "chunk_ok g = chunk_ok f" "deref_chunk g = deref_chunk f"
  unfolding chunk_ok_def deref_chunk_def by (simp_all only: assms)

definition fetch_next :: "engine \<Rightarrow> int \<Rightarrow> string \<Rightarrow> row_binding \<Rightarrow> nat \<Rightarrow> OdbcHandleStmt \<times> memory \<Rightarrow> (SQLRETURN \<times> OdbcHandleStmt \<times> memory) option" where
  "fetch_next eng u dsn rb fuel s = (case FetchStmtResult eng u dsn rb fuel (fst s) (snd s) SQL_FETCH_NEXT 0 of Some (Some r) \<Rightarrow> Some r | _ \<Rightarrow> None)"

lemma IncreaseRowCount_some: "deref_chunk f = Some c \<Longrightarrow> \<exists>n. IncreaseRowCount a f = Some (f\<lparr>row_count := n\<rparr>)"
  by (cases "to_uint64 (chunk_row f + a) < int (length c)") (auto simp: IncreaseRowCount_def)

lemma row_delivered:
  assumes "rb_array_size rb = 1" "list_all unbound (bound_cols st)" "bound_cols st \<noteq> []"
    and "ColumnCount st = Some n" "n \<le> length (bound_cols st)" "stmt_open st0"
    and "FetchNextChunk dsn 1 fuel SQL_FETCH_NEXT st0 0 = Some (Some (SQL_SUCCESS, st))" "at_row st a c k"
  shows "\<exists>f. fetch_next eng u dsn rb fuel (st0, m) = Some (SQL_SUCCESS, set_fetcher st f,
        store_int 8 (SetRowStatus rb k SQL_SUCCESS m) (rows_fetched_ptr st) 1)
    \<and> chunks f = chunks (odbc_fetcher st) \<and> current_chunk f = current_chunk (odbc_fetcher st)
    \<and> current_chunk_idx f = 0 \<and> chunk_row f = int k \<and> cursor_type f = cursor_type (odbc_fetcher st)
    \<and> resultset_end f = resultset_end (odbc_fetcher st)"
proof -
  let ?f = "(odbc_fetcher st)\<lparr>chunk_row := int k\<rparr>"
  have c: "deref_chunk (odbc_fetcher st) = Some c" "chunk_row (odbc_fetcher st) = int k - 1" "k < length c" "length c < 2 ^ 62"
    "current_chunk_idx (odbc_fetcher st) = 0"
    using assms(8) by (auto simp: at_row_def deref_single)
  have "deref_chunk ?f = Some c" using c(1) by (simp add: deref_chunk_def cong: option.case_cong)
  then obtain r where r: "IncreaseRowCount 1 ?f = Some (?f\<lparr>row_count := r\<rparr>)" using IncreaseRowCount_some by blast
  then have "fetch_next eng u dsn rb fuel (st0, m) = Some (SQL_SUCCESS, set_fetcher st (?f\<lparr>row_count := r\<rparr>),
      store_int 8 (SetRowStatus rb k SQL_SUCCESS m) (rows_fetched_ptr st) 1)"
    using fetch_one_row [OF assms(1,2,4,5) c(1-4), of eng u dsn m] assms(1,3,6,7)
    by (simp add: fetch_next_def FetchStmtResult_def Fetch_def count_rows_def, simp add: set_fetcher_def)
  then show ?thesis using c(5) by (intro exI [of _ "?f\<lparr>row_count := r\<rparr>"] exI conjI) simp_all
qed

lemma current_at: "at_row st a c k \<Longrightarrow> odbc_fetcher st' = f \<Longrightarrow> chunks f = chunks (odbc_fetcher st) \<Longrightarrow> current_chunk f = current_chunk (odbc_fetcher st)
   \<Longrightarrow> chunk_row f = int k \<Longrightarrow> current_row st' = Some (c ! k)"
  by (auto simp: current_row_def at_row_def deref_single at_def)


lemma stream_step:
  assumes "stream_ok st0" "rb_array_size rb = 1" "same_stream st0 st"
    and "FetchNextChunk dsn 1 fuel SQL_FETCH_NEXT st0 0 = Some (Some (SQL_SUCCESS, st))" "at_row st a c k"
    and "stmt_res st = Some res" "qr_error res = None" "qr_pending res = map FetchChunk cs" "\<forall>c \<in> set cs. c \<noteq> [] \<and> length c < 2 ^ 62"
    and "resultset_end (odbc_fetcher st) \<Longrightarrow> cs = []"
  shows "\<exists>s'. fetch_next eng u dsn rb fuel (st0, m) = Some (SQL_SUCCESS, s') \<and> stream_ok (fst s')
    \<and> remaining_rows (fst s') = drop (Suc k) c @ concat cs \<and> current_row (fst s') = Some (c ! k) \<and> same_stream st0 (fst s')"
proof -
  obtain n where n: "list_all unbound (bound_cols st)" "bound_cols st \<noteq> []" "ColumnCount st = Some n" "n \<le> length (bound_cols st)" "stmt_open st0"
    using assms(1,3) by (auto simp: stream_ok_def same_stream_def ColumnCount_def)
  obtain f where f: "fetch_next eng u dsn rb fuel (st0, m) = Some (SQL_SUCCESS, set_fetcher st f,
        store_int 8 (SetRowStatus rb k SQL_SUCCESS m) (rows_fetched_ptr st) 1)"
    "chunks f = chunks (odbc_fetcher st)" "current_chunk f = current_chunk (odbc_fetcher st)"
    "current_chunk_idx f = 0" "chunk_row f = int k" "cursor_type f = cursor_type (odbc_fetcher st)" "resultset_end f = resultset_end (odbc_fetcher st)"
    using row_delivered [OF assms(2) n assms(4,5)] by metis
  let ?st = "set_fetcher st f"
  have a: "chunks f = [(a, c)]" "current_chunk f = Some a" "chunk_row f = int (Suc k) - 1" "Suc k \<le> length c" "length c < 2 ^ 62"
    using assms(5) f by (auto simp: at_row_def)
  have "stream_ok ?st"
    using assms(3,6-10) f(6,7) chunk_ok_at [OF a(1,2) f(4) a(3-5)]
    by (intro stream_okI [OF assms(1), of ?st res cs]) (simp_all add: same_stream_def)
  moreover have "remaining_rows ?st = drop (Suc k) c @ concat cs"
    using remaining_at [of ?st a c "Suc k" res cs] a assms(6,8) by simp
  moreover have "current_row ?st = Some (c ! k)" by (rule current_at [OF assms(5) _ f(2,3,5)]) simp
  moreover have "same_stream st0 ?st" using assms(3) f(6) by (simp add: same_stream_def)
  ultimately show ?thesis using f(1) by auto
qed

lemma stream_row:
  assumes ok: "stream_ok st" and rows: "remaining_rows st = r # rs" and size: "rb_array_size rb = 1"
  shows "\<exists>s'. fetch_next eng u dsn rb fuel (st, m) = Some (SQL_SUCCESS, s') \<and> stream_ok (fst s')
    \<and> remaining_rows (fst s') = rs \<and> current_row (fst s') = Some r \<and> same_stream st (fst s')"
proof -
  obtain res cs where res: "stmt_res st = Some res" "qr_error res = None" "qr_pending res = map FetchChunk cs"
    "\<forall>c \<in> set cs. c \<noteq> [] \<and> length c < 2 ^ 62" "resultset_end (odbc_fetcher st) \<Longrightarrow> cs = []"
    and fwd: "cursor_type (odbc_fetcher st) = SQL_CURSOR_FORWARD_ONLY" and ch: "chunk_ok (odbc_fetcher st)"
    using ok by (auto simp: stream_ok_def)
  have same: "same_stream st (set_fetcher st ((odbc_fetcher st)\<lparr>prior_chunk_row := x\<rparr>))" for x by (simp add: same_stream_def)
  have advance: ?thesis if req: "RequireFetch (odbc_fetcher st)" and tail: "concat cs = r # rs"
  proof -
    from tail obtain c cs' where cs: "cs = c # cs'" by (cases cs) auto
    then have c: "c \<noteq> []" "length c < 2 ^ 62" "\<forall>c \<in> set cs'. c \<noteq> [] \<and> length c < 2 ^ 62" "\<not> resultset_end (odbc_fetcher st)" using res(4,5) by auto
    obtain st' where st': "FetchNextChunk dsn 1 fuel SQL_FETCH_NEXT st 0 = Some (Some (SQL_SUCCESS, st'))"
      "at_row st' (next_chunk (odbc_fetcher st)) c 0" "same_stream st st'" "stmt_res st' = Some (res\<lparr>qr_pending := map FetchChunk cs'\<rparr>)"
      "\<not> resultset_end (odbc_fetcher st')"
      using next_chunk_forward [OF fwd req c(4) res(1,2) _ c(1,2), of "map FetchChunk cs'" dsn 1 fuel 0] res(3) cs by auto
    have "drop (Suc 0) c @ concat cs' = rs" "c ! 0 = r" using tail cs c(1) by (cases c; simp)+
    then show ?thesis
      using stream_step [OF ok size st'(3,1,2,4), where m = m and eng = eng and u = u and cs = cs'] res(2) c(3) st'(5) by simp
  qed
  from ch show ?thesis
  proof (cases rule: chunk_okE)
    case 1
    then show ?thesis using rows res by (intro advance) (simp_all add: RequireFetch_def remaining_rows_def deref_chunk_def comp_def)
  next
    case (2 a c k)
    have rem: "drop k c @ concat cs = r # rs" using remaining_at [OF 2(1,2,4) res(1,3)] rows by simp
    show ?thesis
    proof (cases "k = length c")
      case True
      then show ?thesis using 2 rem by (intro advance) (simp_all add: RequireFetch_def)
    next
      case False
      then have at: "at_row st a c k" using 2 by (simp add: at_row_def)
      have at': "at_row (set_fetcher st ((odbc_fetcher st)\<lparr>prior_chunk_row := int k - 1\<rparr>)) a c k" using at by (simp add: at_row_def)
      have "drop (Suc k) c @ concat cs = rs" "c ! k = r" using rem False 2(5) by (simp_all add: Cons_nth_drop_Suc [symmetric])
      then show ?thesis
        using stream_step [OF ok size same next_in_chunk [OF fwd at] at', where m = m and eng = eng and u = u and cs = cs and res = res] res by simp
    qed
  qed
qed

lemma stream_end:
  assumes ok: "stream_ok st" and rows: "remaining_rows st = []"
  shows "\<exists>s'. fetch_next eng u dsn rb fuel (st, m) = Some (SQL_NO_DATA, s') \<and> stream_ok (fst s') \<and> remaining_rows (fst s') = []
    \<and> same_stream st (fst s')"
proof -
  obtain res cs where res: "stmt_res st = Some res" "qr_error res = None" "qr_pending res = map FetchChunk cs"
    "\<forall>c \<in> set cs. c \<noteq> [] \<and> length c < 2 ^ 62" "resultset_end (odbc_fetcher st) \<Longrightarrow> cs = []"
    and fwd: "cursor_type (odbc_fetcher st) = SQL_CURSOR_FORWARD_ONLY" and ch: "chunk_ok (odbc_fetcher st)" and op: "stmt_open st"
    using ok by (auto simp: stream_ok_def)
  have nil: "cs = []" "RequireFetch (odbc_fetcher st)"
    "resultset_end (odbc_fetcher st) \<Longrightarrow> int (current_chunk_idx (odbc_fetcher st)) = to_uint64 (int (length (chunks (odbc_fetcher st))) - 1) \<or> chunks (odbc_fetcher st) = []"
    using ch
  proof (atomize (full), cases rule: chunk_okE)
    case 1
    then show "cs = [] \<and> RequireFetch (odbc_fetcher st) \<and> (resultset_end (odbc_fetcher st) \<longrightarrow> int (current_chunk_idx (odbc_fetcher st)) = to_uint64 (int (length (chunks (odbc_fetcher st))) - 1) \<or> chunks (odbc_fetcher st) = [])"
      using rows res(1,3,4) by (cases cs) (auto simp: RequireFetch_def remaining_rows_def deref_chunk_def comp_def)
  next
    case (2 a c k)
    then show "cs = [] \<and> RequireFetch (odbc_fetcher st) \<and> (resultset_end (odbc_fetcher st) \<longrightarrow> int (current_chunk_idx (odbc_fetcher st)) = to_uint64 (int (length (chunks (odbc_fetcher st))) - 1) \<or> chunks (odbc_fetcher st) = [])"
      using rows remaining_at [OF 2(1,2,4) res(1,3)] res(4) by (cases cs) (auto simp: RequireFetch_def to_uint64_id)
  qed
  let ?f = "(odbc_fetcher st)\<lparr>prior_chunk_row := chunk_row (odbc_fetcher st)\<rparr>"
  have req: "RequireFetch ?f" using nil(2) by (simp add: RequireFetch_def)
  have "\<exists>f. FetchNextChunk dsn (rb_array_size rb) fuel SQL_FETCH_NEXT st 0 = Some (Some (SQL_NO_DATA, set_fetcher st f)) \<and> chunk_ok f
     \<and> deref_chunk f = deref_chunk (odbc_fetcher st) \<and> chunk_row f = chunk_row (odbc_fetcher st) \<and> cursor_type f = SQL_CURSOR_FORWARD_ONLY"
  proof (cases "resultset_end (odbc_fetcher st)")
    case True
    then have "FetchNextChunk dsn (rb_array_size rb) fuel SQL_FETCH_NEXT st 0 = Some (Some (SQL_NO_DATA, set_fetcher st ?f))"
      using nil(3) fwd req by (auto simp: FetchNextChunk_def FetchNext_def SetCurrentChunk_def Let_def set_fetcher_def)
    then show ?thesis using fwd ch by (intro exI [of _ ?f]) (simp add: same_position [of ?f "odbc_fetcher st"])
  next
    case False
    let ?g = "(ResetLastFetchedVariableVal ?f)\<lparr>resultset_end := True\<rparr>"
    have "FetchNextChunk dsn (rb_array_size rb) fuel SQL_FETCH_NEXT st 0 = Some (Some (SQL_NO_DATA, set_fetcher st ?g))"
      using FetchNext_end [of "set_fetcher st ?f" res dsn] False fwd req res nil(1)
      by (simp add: FetchNextChunk_def Let_def, simp add: set_fetcher_def)
    then show ?thesis using fwd ch by (intro exI [of _ ?g]) (simp add: same_position [of ?g "odbc_fetcher st"])
  qed
  then obtain f where f: "FetchNextChunk dsn (rb_array_size rb) fuel SQL_FETCH_NEXT st 0 = Some (Some (SQL_NO_DATA, set_fetcher st f))" "chunk_ok f"
     "deref_chunk f = deref_chunk (odbc_fetcher st)" "chunk_row f = chunk_row (odbc_fetcher st)" "cursor_type f = SQL_CURSOR_FORWARD_ONLY"
    by blast
  then have "stream_ok (set_fetcher st f)" "remaining_rows (set_fetcher st f) = []"
    using res nil(1) fwd rows stream_okI [OF ok, of "set_fetcher st f" res cs] by (simp_all add: same_stream_def remaining_rows_def cong: option.case_cong)
  moreover have "same_stream st (set_fetcher st f)" using f(5) fwd by (simp add: same_stream_def)
  ultimately show ?thesis using f(1) op by (simp add: fetch_next_def FetchStmtResult_def Fetch_def)
qed

interpretation forward: row_stream "\<lambda>s. stream_ok (fst s)" "\<lambda>s. remaining_rows (fst s)" "\<lambda>s. current_row (fst s)" "fetch_next eng u dsn (rb\<lparr>rb_array_size := 1\<rparr>) fuel"
proof
  fix s :: "OdbcHandleStmt \<times> memory" and r rs
  assume "stream_ok (fst s)" "remaining_rows (fst s) = r # rs"
  then show "\<exists>s'. fetch_next eng u dsn (rb\<lparr>rb_array_size := 1\<rparr>) fuel s = Some (SQL_SUCCESS, s') \<and> stream_ok (fst s')
      \<and> remaining_rows (fst s') = rs \<and> current_row (fst s') = Some r"
    using stream_row [of "fst s" r rs "rb\<lparr>rb_array_size := 1\<rparr>" eng u dsn fuel "snd s"] by auto
next
  fix s :: "OdbcHandleStmt \<times> memory"
  assume "stream_ok (fst s)" "remaining_rows (fst s) = []"
  then show "\<exists>s'. fetch_next eng u dsn (rb\<lparr>rb_array_size := 1\<rparr>) fuel s = Some (SQL_NO_DATA, s') \<and> stream_ok (fst s') \<and> remaining_rows (fst s') = []"
    using stream_end [of "fst s" eng u dsn "rb\<lparr>rb_array_size := 1\<rparr>" fuel "snd s"] by auto
qed


text \<open>C3: fetching through a forward-only cursor delivers the result: from a statement with an open result,
  one row per fetch and columns that are read with \<^verbatim>\<open>SQLGetData\<close>, an application that fetches until
  \<^verbatim>\<open>SQL_NO_DATA\<close> gets after finitely many fetches exactly the rows of the chunk that is held after the
  position and of the chunks that the engine has still to deliver, each once and in order, however the
  engine has cut them into chunks; afterwards nothing remains.\<close>

theorem fetch_delivers_all_rows:
  assumes "stream_ok st" "length (remaining_rows st) < n"
  shows "\<exists>s'. drain (fetch_next eng u dsn (rb\<lparr>rb_array_size := 1\<rparr>) fuel) (\<lambda>s. current_row (fst s)) n (st, m) = Some (remaining_rows st, s')
    \<and> stream_ok (fst s') \<and> remaining_rows (fst s') = []"
  using forward.drain_all [of "(st, m)" n eng u dsn rb fuel] assms by simp

definition sample_stream :: "DataChunk list \<Rightarrow> OdbcHandleStmt" where
  "sample_stream cs = (sample_fetch SQL_CURSOR_FORWARD_ONLY False cs)
     \<lparr>stmt_stmt := Some \<lparr>ps_error = None, ps_types = [\<lparr>lt_id = INTEGER, lt_width = 0, lt_scale = 0\<rparr>], ps_names = [''i''],
        ps_bound_all_parameters = True, ps_named_params = 0, ps_row_changes = False\<rparr>\<rparr>"

lemma sample_stream_ok: "stream_ok (sample_stream [sample_rows 2, sample_rows 1])"
  by (auto simp: stream_ok_def sample_stream_def sample_fetch_def chunk_ok_def sample_rows_def unbound_def make_OdbcBoundCol_def ColumnCount_def
      IsBound_def IsVarcharBound_def upt_rec intro!: exI [of _ "[sample_rows 2, sample_rows 1]"])

lemma sample_stream_remaining:
  "remaining_rows (sample_stream [sample_rows 2, sample_rows 1]) = map (\<lambda>i. [IntValue \<lparr>lt_id = INTEGER, lt_width = 0, lt_scale = 0\<rparr> i]) [2, 0, 1, 0]"
  by (simp add: remaining_rows_def sample_stream_def sample_fetch_def deref_chunk_def sample_rows_def upt_rec)

theorem fetch_delivers_all_rows_witness:
  "\<exists>s'. drain (fetch_next sample_engine 0 [] \<lparr>rb_array_size = 1, rb_bind_type = 0, rb_status_ptr = 0\<rparr> 0) (\<lambda>s. current_row (fst s)) 5
      (sample_stream [sample_rows 2, sample_rows 1], \<lambda>_. CHR 0x00)
    = Some (map (\<lambda>i. [IntValue \<lparr>lt_id = INTEGER, lt_width = 0, lt_scale = 0\<rparr> i]) [2, 0, 1, 0], s') \<and> stream_ok (fst s') \<and> remaining_rows (fst s') = []"
  using fetch_delivers_all_rows [OF sample_stream_ok, of 5 sample_engine 0 "[]" "\<lparr>rb_array_size = 1, rb_bind_type = 0, rb_status_ptr = 0\<rparr>" 0 "\<lambda>_. CHR 0x00"]
  by (simp add: sample_stream_remaining del: drain.simps One_nat_def)

text \<open>The row status goes to the wrong place: with a rowset of one row and a status array \<open>p\<close> of one element
  (\<^verbatim>\<open>SQL_ATTR_ROW_STATUS_PTR\<close>), fetching the row with index \<open>k > 0\<close> of a chunk succeeds, leaves the element of the
  array as it was, and writes the status to the \<open>k\<close>-th element, which is outside of the array.\<close>

theorem row_status_outside_array:
  assumes "rb_array_size rb = 1" "rb_status_ptr rb = p" "0 < p" "rows_fetched_ptr st = nullptr"
    and "cursor_type (odbc_fetcher st) = SQL_CURSOR_FORWARD_ONLY" "at_row st a c k" "0 < k"
    and "list_all unbound (bound_cols st)" "bound_cols st \<noteq> []" "ColumnCount st = Some n" "n \<le> length (bound_cols st)" "stmt_open st"
  shows "\<exists>st' m'. FetchStmtResult eng u dsn rb fuel st m SQL_FETCH_NEXT 0 = Some (Some (SQL_SUCCESS, st', m'))
    \<and> (\<forall>x < p + 2. m' x = m x) \<and> m' (p + 2 * k) = CHR 0x00 \<and> m' (p + 2 * k + 1) = CHR 0x00"
proof -
  let ?st = "set_fetcher st ((odbc_fetcher st)\<lparr>prior_chunk_row := int k - 1\<rparr>)"
  have "at_row ?st a c k" using assms(6) by (simp add: at_row_def)
  moreover have "ColumnCount ?st = Some n" using assms(10) by (simp add: ColumnCount_def)
  ultimately obtain f where "fetch_next eng u dsn rb fuel (st, m) = Some (SQL_SUCCESS, f, store_int 8 (SetRowStatus rb k SQL_SUCCESS m) nullptr 1)"
    using row_delivered [where st = ?st and ?st0.0 = st, OF assms(1) _ _ _ _ assms(12) next_in_chunk [OF assms(5,6)]] assms(4,8,9,11) by fastforce
  then have ret: "FetchStmtResult eng u dsn rb fuel st m SQL_FETCH_NEXT 0 = Some (Some (SQL_SUCCESS, f, SetRowStatus rb k SQL_SUCCESS m))"
    by (auto simp: fetch_next_def store_int_def split: option.splits)
  show ?thesis
    by (rule exI [of _ f], rule exI [of _ "SetRowStatus rb k SQL_SUCCESS m"])
      (use ret assms(2,3,7) in \<open>simp add: SetRowStatus_def write_bytes_def numeral_2_eq_2 char_of_def\<close>)
qed


theorem row_status_outside_array_witness:
  "\<exists>st' m'. FetchStmtResult sample_engine 0 [] \<lparr>rb_array_size = 1, rb_bind_type = 0, rb_status_ptr = 100\<rparr> 0 (sample_stream []) (\<lambda>_. CHR ''x'') SQL_FETCH_NEXT 0
      = Some (Some (SQL_SUCCESS, st', m'))
    \<and> (\<forall>x < 102. m' x = CHR ''x'') \<and> m' 104 = CHR 0x00 \<and> m' 105 = CHR 0x00"
proof -
  have "at_row (sample_stream []) 0 (sample_rows 3) 2" by (simp add: at_row_def sample_stream_def sample_fetch_def sample_rows_def)
  then show ?thesis
    using row_status_outside_array [of "\<lparr>rb_array_size = 1, rb_bind_type = 0, rb_status_ptr = 100\<rparr>" 100 "sample_stream []" 0 "sample_rows 3" 2 1
        sample_engine 0 "[]" 0 "\<lambda>_. CHR ''x''"]
    by (simp add: sample_stream_def sample_fetch_def unbound_def make_OdbcBoundCol_def IsBound_def IsVarcharBound_def ColumnCount_def)
qed

end
