(* ===== verification/Parameter_Values.thy ===== *)
theory Parameter_Values
  imports Fetch_Rows
begin

text \<open>
  Parameter values: \<^verbatim>\<open>GetParamValues\<close>, \<^verbatim>\<open>SetValue\<close>, \<^verbatim>\<open>GetNextParam\<close>, \<^verbatim>\<open>PutData\<close> and their
  helpers in \<^verbatim>\<open>parameter_descriptor.cpp\<close>, and the entry points \<^verbatim>\<open>SQLDescribeParam\<close>,
  \<^verbatim>\<open>SQLNumParams\<close>, \<^verbatim>\<open>SQLParamData\<close> and \<^verbatim>\<open>SQLPutData\<close> of \<^verbatim>\<open>parameter_api.cpp\<close>.

  The functions read the buffers that the application has bound from the byte memory. They take the
  implicit application descriptor, the current one and the implicit implementation descriptor of the
  statement, and the state \<open>ParameterDescriptor\<close>. An exception that leaves the C interface, and an
  access through a null pointer or outside of a vector, is \<open>None\<close>. The test for valid UTF-8 of the
  engine, \<^verbatim>\<open>Value::StringIsValid\<close>, is the argument \<open>valid\<close>.

  The theorems show that data sent in pieces arrives whole, that decimals and timestamps survive the way
  through \<^verbatim>\<open>SQLGetData\<close> and back as a parameter, and two defects of the handling of indicators.
\<close>


section \<open>Pointers of a parameter\<close>

abbreviation (input) SQL_DATA_AT_EXEC :: int where "SQL_DATA_AT_EXEC \<equiv> - 2"
abbreviation (input) SQL_LEN_DATA_AT_EXEC_OFFSET :: int where "SQL_LEN_DATA_AT_EXEC_OFFSET \<equiv> - 100"
abbreviation (input) SQL_PARAM_SUCCESS :: int where "SQL_PARAM_SUCCESS \<equiv> 0"
abbreviation (input) SQL_PARAM_ERROR :: int where "SQL_PARAM_ERROR \<equiv> 5"

text \<open>The value behind \<^verbatim>\<open>sql_desc_bind_offset_ptr\<close>, 0 when there is none. It is added to the data pointer in
  bytes, and to the indicator pointer in elements of eight bytes.\<close>

definition bind_offset :: "DescHeader \<Rightarrow> memory \<Rightarrow> int" where
  "bind_offset h m = (case load_sint 8 m (sql_desc_bind_offset_ptr h) of None \<Rightarrow> 0 | Some off \<Rightarrow> off)"

definition GetSQLDescDataPtr :: "DescHeader \<Rightarrow> memory \<Rightarrow> DescRecord \<Rightarrow> addr option" where
  "GetSQLDescDataPtr h m r = ptr_add (sql_desc_data_ptr r) (bind_offset h m)"

text \<open>The pointer to the member \<^verbatim>\<open>sql_desc_data_ptr\<close> is itself advanced by the offset, so that the assignment goes
  outside of the record unless the offset is 0.\<close>

definition SetSQLDescDataPtr :: "DescHeader \<Rightarrow> memory \<Rightarrow> DescRecord \<Rightarrow> addr \<Rightarrow> DescRecord option" where
  "SetSQLDescDataPtr h m r data_ptr = (if bind_offset h m = 0 then Some (r\<lparr>sql_desc_data_ptr := data_ptr\<rparr>) else None)"

definition GetSQLDescIndicatorPtr :: "DescHeader \<Rightarrow> memory \<Rightarrow> DescRecord \<Rightarrow> nat \<Rightarrow> addr option" where
  "GetSQLDescIndicatorPtr h m r set_idx = ptr_add (sql_desc_indicator_ptr r) (8 * (int set_idx + bind_offset h m))"

definition SetSQLDescIndicatorPtr :: "DescHeader \<Rightarrow> memory \<Rightarrow> DescRecord \<Rightarrow> SQLLEN \<Rightarrow> memory option" where
  "SetSQLDescIndicatorPtr h m r v = (case ptr_add (sql_desc_indicator_ptr r) (8 * bind_offset h m) of
      None \<Rightarrow> None
    | Some p \<Rightarrow> if p = nullptr then None else Some (store_int 8 m p v))"

definition GetSQLDescOctetLengthPtr :: "DescHeader \<Rightarrow> memory \<Rightarrow> DescRecord \<Rightarrow> nat \<Rightarrow> addr option" where
  "GetSQLDescOctetLengthPtr h m r set_idx = ptr_add (sql_desc_octet_length_ptr r) (8 * (int set_idx + bind_offset h m))"

section \<open>Reading a parameter value\<close>

text \<open>\<^verbatim>\<open>strlen\<close> and \<^verbatim>\<open>utf16_length\<close> on the memory; they do not return when there is no terminator.\<close>

partial_function (option) strlen_at :: "memory \<Rightarrow> addr \<Rightarrow> nat option" where
  "strlen_at m a = (if m a = CHR 0x00 then Some 0 else Option.bind (strlen_at m (a + 1)) (\<lambda>n. Some (Suc n)))"

definition wchar_at :: "memory \<Rightarrow> addr \<Rightarrow> SQLWCHAR" where
  "wchar_at m a = of_int (le_uint (read_bytes m a 2))"

partial_function (option) utf16_length_at :: "memory \<Rightarrow> addr \<Rightarrow> nat option" where
  "utf16_length_at m a = (if wchar_at m a = 0 then Some 0 else Option.bind (utf16_length_at m (a + 2)) (\<lambda>n. Some (Suc n)))"

definition wchars_at :: "memory \<Rightarrow> addr \<Rightarrow> nat \<Rightarrow> SQLWCHAR list" where
  "wchars_at m a n = map (\<lambda>i. wchar_at m (a + 2 * i)) [0..<n]"

definition simple_type :: "LogicalTypeId \<Rightarrow> LogicalType" where
  "simple_type t = \<lparr>lt_id = t, lt_width = 0, lt_scale = 0\<rparr>"

text \<open>\<^verbatim>\<open>Value(std::string)\<close> throws for text that is not valid UTF-8, which \<open>valid\<close> decides.\<close>

definition text_value :: "(string \<Rightarrow> bool) \<Rightarrow> string \<Rightarrow> Value option" where
  "text_value valid s = (if valid s then Some (TextValue (simple_type VARCHAR) s) else None)"

text \<open>The two decodings of a character buffer: the address of the set's value, the indicator, which is overwritten with the
  length when it is \<^verbatim>\<open>SQL_NTS\<close>, and the text. Lengths are narrowed to \<^verbatim>\<open>SQLINTEGER\<close> by the callee in the first.\<close>

definition decode_char :: "(string \<Rightarrow> bool) \<Rightarrow> memory \<Rightarrow> addr \<Rightarrow> addr \<Rightarrow> SQLLEN \<Rightarrow> (Value \<times> memory) option" where
  "decode_char valid m str_data ind indv = do {
     (len, m) \<leftarrow> (if indv = SQL_NTS then map_option (\<lambda>n. (int n, store_int 8 m ind (int n))) (strlen_at m str_data) else Some (indv, m));
     n \<leftarrow> (if to_int32 len = SQL_NTS then strlen_at m str_data else Some (nat (to_int32 len)));
     v \<leftarrow> text_value valid (read_bytes m str_data n);
     Some (v, m) }"

definition decode_wchar :: "(string \<Rightarrow> bool) \<Rightarrow> memory \<Rightarrow> addr \<Rightarrow> addr \<Rightarrow> SQLLEN \<Rightarrow> (Value \<times> memory) option" where
  "decode_wchar valid m utf16_data ind indv = do {
     (len, m) \<leftarrow> (if indv = SQL_NTS then map_option (\<lambda>n. (2 * int n, store_int 8 m ind (2 * int n))) (utf16_length_at m utf16_data)
                   else Some (indv, m));
     _ \<leftarrow> (if len < 0 then None else Some ());
     v \<leftarrow> text_value valid (fst (utf16_to_utf8_lenient (wchars_at m utf16_data (nat (len div 2)))));
     Some (v, m) }"

definition LoadFromSet :: "nat \<Rightarrow> memory \<Rightarrow> addr \<Rightarrow> nat \<Rightarrow> string" where
  "LoadFromSet width m dataptr set_idx = read_bytes m (dataptr + set_idx * width) width"

definition ValidateNumeric :: "int \<Rightarrow> int \<Rightarrow> SQLRETURN" where
  "ValidateNumeric precision scale =
     (if precision < 1 \<or> precision > 38 \<or> scale < 0 \<or> scale > 38 \<or> scale > precision then SQL_ERROR else SQL_SUCCESS)"

text \<open>\<^verbatim>\<open>Value::DECIMAL(int64_t, width, scale)\<close>: a checked cast to the storage type of the width.\<close>

definition Value_DECIMAL :: "int \<Rightarrow> nat \<Rightarrow> nat \<Rightarrow> Value option" where
  "Value_DECIMAL v width scale =
     (if width \<le> 4 \<and> (v < - 32768 \<or> v > 32767) \<or> 4 < width \<and> width \<le> 9 \<and> (v < - 2147483648 \<or> v > 2147483647) then None
      else Some (DecimalValue width scale v))"

text \<open>A \<^verbatim>\<open>SQL_NUMERIC_STRUCT\<close>: precision, scale, sign and sixteen bytes. Negating the smallest number overflows.\<close>

definition numeric_value :: "memory \<Rightarrow> addr \<Rightarrow> int \<Rightarrow> int \<Rightarrow> Value option" where
  "numeric_value m numeric precision scale =
     (let sign = le_uint (read_bytes m (numeric + 2) 1) in
      if precision \<le> 18 then
        (let dec_val = le_sint (read_bytes m (numeric + 3) 8) in
         if sign = 0 \<and> dec_val = - (2 ^ 63) then None
         else Value_DECIMAL (if sign = 0 then - dec_val else dec_val) (nat precision) (nat scale))
      else
        (let dec_value = le_sint (read_bytes m (numeric + 3) 16) in
         if sign = 0 \<and> dec_value = - (2 ^ 127) then None
         else Some (DecimalValue (nat precision) (nat scale) (if sign = 0 then - dec_value else dec_value))))"

definition Value_TIMESTAMP :: "int \<Rightarrow> int \<Rightarrow> int \<Rightarrow> int \<Rightarrow> int \<Rightarrow> int \<Rightarrow> int \<Rightarrow> Value option" where
  "Value_TIMESTAMP year month day hour minute second us = (case FromDate year month day of
      Inl _ \<Rightarrow> None
    | Inr date \<Rightarrow> map_option (IntValue (simple_type TIMESTAMP)) (TryFromDatetime date (FromTime hour minute second us)))"

text \<open>The switch over the SQL type: \<open>Inl\<close> is an early return. \<open>buff_size\<close> is the larger of the length in the
  implementation descriptor and the octet length in the implicit application descriptor.\<close>

definition switch_value ::
  "(string \<Rightarrow> bool) \<Rightarrow> memory \<Rightarrow> DescRecord \<Rightarrow> SQLSMALLINT \<Rightarrow> addr \<Rightarrow> addr \<Rightarrow> SQLLEN \<Rightarrow> nat \<Rightarrow> int \<Rightarrow> (SQLRETURN + Value \<times> memory) option" where
  "switch_value valid m ipd_record c_type dataptr ind indv val_idx buff_size =
     (let sql_type = sql_desc_type ipd_record; uint = (\<lambda>n. le_uint (LoadFromSet n m dataptr val_idx));
          sint = (\<lambda>n. le_sint (LoadFromSet n m dataptr val_idx));
          int_value = (\<lambda>t v. Some (Inr (IntValue (simple_type t) v, m))) in
      if sql_type \<in> {SQL_CHAR, SQL_VARCHAR, SQL_LONGVARCHAR} then
        Option.bind (ptr_add dataptr (int val_idx * buff_size)) (\<lambda>a. map_option Inr (decode_char valid m a ind indv))
      else if sql_type \<in> {SQL_WCHAR, SQL_WVARCHAR, SQL_WLONGVARCHAR} then
        Option.bind (ptr_add dataptr (2 * (int val_idx * buff_size))) (\<lambda>a. map_option Inr (decode_wchar valid m a ind indv))
      else if sql_type \<in> {SQL_BINARY, SQL_VARBINARY, SQL_LONGVARBINARY} then
        Option.bind (ptr_add dataptr (int val_idx * buff_size)) (\<lambda>a.
          if indv < 0 then None else Some (Inr (TextValue (simple_type BLOB) (read_bytes m a (nat indv)), m)))
      else if sql_type = SQL_TINYINT then (if c_type = SQL_C_UTINYINT then int_value UTINYINT (uint 1) else int_value TINYINT (sint 1))
      else if sql_type = SQL_SMALLINT then (if c_type = SQL_C_USHORT then int_value USMALLINT (uint 2) else int_value SMALLINT (sint 2))
      else if sql_type = SQL_INTEGER then (if c_type = SQL_C_ULONG then int_value UINTEGER (uint 4) else int_value INTEGER (sint 4))
      else if sql_type = SQL_BIGINT then (if c_type = SQL_C_UBIGINT then int_value UBIGINT (uint 8) else int_value BIGINT (sint 8))
      else if sql_type = SQL_FLOAT then Some (Inr (RealValue (simple_type FLOAT) (LoadFromSet 4 m dataptr val_idx), m))
      else if sql_type = SQL_DOUBLE then Some (Inr (RealValue (simple_type DOUBLE) (LoadFromSet 8 m dataptr val_idx), m))
      else if sql_type = SQL_NUMERIC then
        (if ValidateNumeric (sql_desc_precision ipd_record) (sql_desc_scale ipd_record) = SQL_ERROR then Some (Inl SQL_ERROR)
         else map_option (\<lambda>v. Inr (v, m))
           (numeric_value m (dataptr + val_idx * 19) (sql_desc_precision ipd_record) (sql_desc_scale ipd_record)))
      else if sql_type = SQL_TYPE_TIMESTAMP then
        (case load_timestamp m (dataptr + val_idx * 16) of
           [year, month, day, hour, minute, second, fraction] \<Rightarrow>
             map_option (\<lambda>v. Inr (v, m)) (Value_TIMESTAMP year month day hour minute second (fraction div 1000))
         | _ \<Rightarrow> None)
      else if sql_type = SQL_TYPE_DATE then
        (let a = dataptr + val_idx * 6 in
         case FromDate (le_sint (read_bytes m a 2)) (le_uint (read_bytes m (a + 2) 2)) (le_uint (read_bytes m (a + 4) 2)) of
           Inl _ \<Rightarrow> None | Inr d \<Rightarrow> int_value DATE d)
      else if sql_type = SQL_TYPE_TIME then
        (let a = dataptr + val_idx * 6 in
         int_value TIME (FromTime (le_uint (read_bytes m a 2)) (le_uint (read_bytes m (a + 2) 2)) (le_uint (read_bytes m (a + 4) 2)) 0))
      else Some (Inl SQL_PARAM_ERROR))"

text \<open>\<^verbatim>\<open>SetValue(Value &, idx_t)\<close> and \<^verbatim>\<open>GetNextValue\<close>.\<close>

definition store_value :: "Value list \<Rightarrow> Value \<Rightarrow> nat \<Rightarrow> Value list" where
  "store_value vs v val_idx = (if val_idx \<ge> length vs then vs @ [v] else vs[val_idx := v])"

definition GetNextValue :: "ParameterDescriptor \<Rightarrow> nat \<Rightarrow> Value option" where
  "GetNextValue pd val_idx = at (pd_values pd) val_idx"

type_synonym param_result = "(SQLRETURN \<times> ParameterDescriptor \<times> memory) option"

text \<open>The descriptors are \<open>own\<close>, the implicit application descriptor, \<open>apd\<close>, the current one, and \<open>ipd\<close>.\<close>

definition is_char_param :: "SQLSMALLINT \<Rightarrow> SQLSMALLINT \<Rightarrow> bool" where
  "is_char_param sql_type c_type \<longleftrightarrow> sql_type \<notin> {SQL_BINARY, SQL_VARBINARY, SQL_LONGVARBINARY} \<and> (c_type = SQL_C_CHAR \<or> c_type = SQL_C_WCHAR)"

definition param_buff_size :: "OdbcHandleDesc \<Rightarrow> DescRecord \<Rightarrow> nat \<Rightarrow> int option" where
  "param_buff_size own ipd_record rec_idx =
     map_option (\<lambda>r. max (to_int64 (sql_desc_length ipd_record)) (sql_desc_octet_length r)) (at (desc_records own) rec_idx)"

definition read_value ::
  "(string \<Rightarrow> bool) \<Rightarrow> OdbcHandleDesc \<Rightarrow> DescRecord \<Rightarrow> DescRecord \<Rightarrow> memory \<Rightarrow> nat \<Rightarrow> nat \<Rightarrow> addr \<Rightarrow> addr \<Rightarrow> SQLLEN
    \<Rightarrow> (SQLRETURN + Value \<times> memory) option" where
  "read_value valid own apd_record ipd_record m rec_idx val_idx data ind indv =
     (let sql_type = sql_desc_type ipd_record; c_type = sql_desc_type apd_record in
      if is_char_param sql_type c_type then
        (case param_buff_size own ipd_record rec_idx of
           None \<Rightarrow> None
         | Some buff_size \<Rightarrow>
             if c_type = SQL_C_WCHAR then
               Option.bind (ptr_add data (2 * (int val_idx * buff_size))) (\<lambda>a. map_option Inr (decode_wchar valid m a ind indv))
             else Option.bind (ptr_add data (int val_idx * buff_size)) (\<lambda>a. map_option Inr (decode_char valid m a ind indv)))
      else if sql_type \<in> {SQL_CHAR, SQL_VARCHAR, SQL_LONGVARCHAR, SQL_WCHAR, SQL_WVARCHAR, SQL_WLONGVARCHAR, SQL_BINARY, SQL_VARBINARY, SQL_LONGVARBINARY} then
        (case param_buff_size own ipd_record rec_idx of
           None \<Rightarrow> None
         | Some buff_size \<Rightarrow> switch_value valid m ipd_record c_type data ind indv val_idx buff_size)
      else switch_value valid m ipd_record c_type data ind indv val_idx 0)"

definition SetValue ::
  "(string \<Rightarrow> bool) \<Rightarrow> OdbcHandleDesc \<Rightarrow> OdbcHandleDesc \<Rightarrow> OdbcHandleDesc \<Rightarrow> ParameterDescriptor \<Rightarrow> memory \<Rightarrow> nat \<Rightarrow> param_result" where
  "SetValue valid own apd ipd pd m rec_idx =
     (let val_idx = paramset_idx pd; h = desc_header apd in do {
     apd_record \<leftarrow> at (desc_records apd) rec_idx;
     sql_data_ptr \<leftarrow> GetSQLDescDataPtr h m apd_record;
     sql_ind_ptr \<leftarrow> GetSQLDescIndicatorPtr h m apd_record 0;
     if sql_data_ptr = nullptr \<and> sql_ind_ptr = nullptr then Some (SQL_ERROR, pd, m)
     else do {
       ind \<leftarrow> GetSQLDescIndicatorPtr h m apd_record val_idx;
       let null = Some (SQL_SUCCESS, pd\<lparr>pd_values := store_value (pd_values pd) (NullValue (simple_type VARCHAR)) rec_idx\<rparr>, m);
       if sql_data_ptr = nullptr \<or> sql_ind_ptr = nullptr then null
       else do {
         indv \<leftarrow> load_sint 8 m ind;
         if indv = SQL_NULL_DATA then null
         else do {
           ipd_record \<leftarrow> at (desc_records ipd) rec_idx;
           if indv = SQL_DATA_AT_EXEC \<or> to_uint64 indv = to_uint64 (SQL_LEN_DATA_AT_EXEC_OFFSET - sql_desc_length ipd_record)
           then Some (SQL_NEED_DATA, pd, m)
           else (case read_value valid own apd_record ipd_record m rec_idx val_idx sql_data_ptr ind indv of
               None \<Rightarrow> None
             | Some (Inl ret) \<Rightarrow> Some (ret, pd, m)
             | Some (Inr (v, m)) \<Rightarrow> Some (SQL_PARAM_SUCCESS, pd\<lparr>pd_values := store_value (pd_values pd) v rec_idx\<rparr>, m)) } } } })"

section \<open>The values of a parameter set\<close>

definition SetParamIndex :: "OdbcHandleDesc \<Rightarrow> OdbcHandleDesc \<Rightarrow> ParameterDescriptor \<Rightarrow> memory \<Rightarrow> SQLRETURN \<times> ParameterDescriptor \<times> memory" where
  "SetParamIndex apd ipd pd m =
     (let idx = nat (to_uint64 (int (paramset_idx pd) + 1))
      in (if int idx = sql_desc_array_size (desc_header apd) then SQL_SUCCESS else SQL_STILL_EXECUTING,
          pd\<lparr>paramset_idx := idx\<rparr>, store_int 8 m (sql_desc_rows_processed_ptr (desc_header ipd)) (int idx)))"

definition HasParamSetToProcess :: "OdbcHandleDesc \<Rightarrow> OdbcHandleDesc \<Rightarrow> ParameterDescriptor \<Rightarrow> bool" where
  "HasParamSetToProcess apd ipd pd \<longleftrightarrow> int (paramset_idx pd) < sql_desc_array_size (desc_header apd) \<and> desc_records ipd \<noteq> []"

text \<open>The loop of \<^verbatim>\<open>GetParamValues\<close> over the records from \<open>rec_idx\<close> on: \<open>Inl\<close> is an early return.\<close>

definition set_status :: "OdbcHandleDesc \<Rightarrow> nat \<Rightarrow> int \<Rightarrow> memory \<Rightarrow> memory" where
  "set_status ipd i ret m =
     (let p = sql_desc_array_status_ptr (desc_header ipd) in if p \<noteq> nullptr then write_bytes m (p + 2 * i) (le_bytes 2 ret) else m)"

definition param_step ::
  "(string \<Rightarrow> bool) \<Rightarrow> string \<Rightarrow> OdbcHandleDesc \<Rightarrow> OdbcHandleDesc \<Rightarrow> OdbcHandleDesc \<Rightarrow> nat
    \<Rightarrow> Value list \<times> OdbcHandleStmt \<times> memory \<Rightarrow> (SQLRETURN option \<times> Value list \<times> OdbcHandleStmt \<times> memory) option" where
  "param_step valid dsn own apd ipd rec_idx s = (case s of (values, st, m) \<Rightarrow>
     (case SetValue valid own apd ipd (param_desc st) m rec_idx of
        None \<Rightarrow> None
      | Some (ret, pd, m) \<Rightarrow>
          let st = st\<lparr>param_desc := pd\<rparr>; m = set_status ipd (paramset_idx pd) ret m in
          if ret = SQL_NEED_DATA then Some (Some SQL_NEED_DATA, values, st, m)
          else
            let st = (if ret \<noteq> SQL_PARAM_SUCCESS
                      then snd (post_on stmt_diag_update (\<lambda>d. SetDiagnosticRecord d SQL_SUCCESS_WITH_INFO ''GetParamValues''
                             ''Failed to set parameter value'' ST_01000 dsn) stmt_diag st) else st) in
            if ret \<noteq> SQL_PARAM_SUCCESS \<and> sql_desc_array_status_ptr (desc_header ipd) = nullptr then Some (Some SQL_ERROR, values, st, m)
            else map_option (\<lambda>v. (None, values @ [v], st, m)) (GetNextValue pd rec_idx)))"

fun param_loop ::
  "(nat \<Rightarrow> Value list \<times> OdbcHandleStmt \<times> memory \<Rightarrow> (SQLRETURN option \<times> Value list \<times> OdbcHandleStmt \<times> memory) option)
    \<Rightarrow> nat list \<Rightarrow> Value list \<times> OdbcHandleStmt \<times> memory \<Rightarrow> (SQLRETURN option \<times> Value list \<times> OdbcHandleStmt \<times> memory) option" where
  "param_loop step [] s = Some (None, s)"
| "param_loop step (i # is) s = (case step i s of
      None \<Rightarrow> None
    | Some (Some ret, s) \<Rightarrow> Some (Some ret, s)
    | Some (None, s) \<Rightarrow> param_loop step is s)"

definition GetParamValues ::
  "(string \<Rightarrow> bool) \<Rightarrow> string \<Rightarrow> OdbcHandleDesc \<Rightarrow> OdbcHandleDesc \<Rightarrow> OdbcHandleDesc \<Rightarrow> OdbcHandleStmt \<Rightarrow> memory
    \<Rightarrow> (SQLRETURN \<times> Value list \<times> OdbcHandleStmt \<times> memory) option" where
  "GetParamValues valid dsn own apd ipd st m =
     (if desc_records ipd = [] then Some (SQL_SUCCESS, [], st, m)
      else case param_loop (param_step valid dsn own apd ipd) [0..<length (desc_records ipd)] ([], st, m) of
        None \<Rightarrow> None
      | Some (Some ret, values, st, m) \<Rightarrow> Some (ret, values, st, m)
      | Some (None, values, st, m) \<Rightarrow>
          (let (ret, pd, m) = SetParamIndex apd ipd (param_desc st) m in Some (ret, values, st\<lparr>param_desc := pd\<rparr>, m)))"

section \<open>Data at execution\<close>

definition GetNextParam :: "OdbcHandleDesc \<Rightarrow> OdbcHandleDesc \<Rightarrow> ParameterDescriptor \<Rightarrow> memory \<Rightarrow> addr \<Rightarrow> (SQLRETURN \<times> memory) option" where
  "GetNextParam apd ipd pd m param =
     (if to_int16 (int (cur_param_idx pd)) \<ge> sql_desc_count (desc_header apd) then Some (SQL_NO_DATA, m)
      else do {
        apd_record \<leftarrow> at (desc_records apd) (cur_param_idx pd);
        data \<leftarrow> GetSQLDescDataPtr (desc_header apd) m apd_record;
        m \<leftarrow> (if param = nullptr then None else Some (store_int 8 m param (int data)));
        let p = sql_desc_rows_processed_ptr (desc_header ipd);
        let m = (case load_uint 8 m p of None \<Rightarrow> m | Some n \<Rightarrow> store_int 8 m p (n + 1));
        ind \<leftarrow> GetSQLDescIndicatorPtr (desc_header apd) m apd_record (cur_paramset_idx pd);
        indv \<leftarrow> load_sint 8 m ind;
        Some (if indv = SQL_DATA_AT_EXEC then SQL_NEED_DATA else SQL_SUCCESS, m) })"

text \<open>\<^verbatim>\<open>memcpy\<close>; \<open>alloc\<close> below is the address that \<^verbatim>\<open>make_unsafe_uniq_array\<close> returns.\<close>

definition mem_copy :: "memory \<Rightarrow> addr \<Rightarrow> addr \<Rightarrow> nat \<Rightarrow> memory option" where
  "mem_copy m dst src n =
     (if n > 0 \<and> (dst = nullptr \<or> src = nullptr) then None else Some (write_bytes m dst (read_bytes m src n)))"

type_synonym put_result = "(SQLRETURN \<times> ParameterDescriptor \<times> OdbcHandleDesc \<times> memory) option"

definition FillParamCharDataBuffer ::
  "addr \<Rightarrow> OdbcHandleDesc \<Rightarrow> OdbcHandleDesc \<Rightarrow> ParameterDescriptor \<Rightarrow> memory \<Rightarrow> DescRecord \<Rightarrow> DescRecord \<Rightarrow> addr \<Rightarrow> SQLLEN \<Rightarrow> put_result" where
  "FillParamCharDataBuffer alloc apd ipd pd m apd_record ipd_record data_ptr str_len =
     (let h = desc_header apd; i = cur_param_idx pd in do {
     sql_ind_ptr \<leftarrow> GetSQLDescIndicatorPtr h m apd_record 0;
     indv \<leftarrow> load_sint 8 m sql_ind_ptr;
     (pd, apd_record, m, offset) \<leftarrow>
       (if indv = SQL_DATA_AT_EXEC
        then map_option (\<lambda>r. (pd\<lparr>pool_allocated_ptr := pool_allocated_ptr pd @ [alloc]\<rparr>, r, store_int 8 m sql_ind_ptr 0, 0))
               (SetSQLDescDataPtr h m apd_record alloc)
        else Some (pd, apd_record, m, to_uint64 indv));
     let room = to_uint64 (sql_desc_length ipd_record - offset);
     let filled = to_uint64 str_len \<ge> room;
     let n = nat (if filled then room else to_uint64 str_len);
     let pd = (if filled then pd\<lparr>cur_param_idx := Suc i\<rparr> else pd);
     data \<leftarrow> GetSQLDescDataPtr h m apd_record;
     dst \<leftarrow> ptr_add data (to_int64 offset);
     m \<leftarrow> mem_copy m dst data_ptr n;
     indv \<leftarrow> load_sint 8 m sql_ind_ptr;
     let m = store_int 8 m sql_ind_ptr (to_int64 (indv + int n));
     Some (SQL_PARAM_SUCCESS, pd, SetDescRecord apd i apd_record, set_status ipd (cur_param_idx pd) SQL_PARAM_SUCCESS m) })"

definition FillCurParamCharSet ::
  "addr \<Rightarrow> OdbcHandleDesc \<Rightarrow> OdbcHandleDesc \<Rightarrow> ParameterDescriptor \<Rightarrow> memory \<Rightarrow> DescRecord \<Rightarrow> DescRecord \<Rightarrow> addr \<Rightarrow> SQLLEN \<Rightarrow> put_result" where
  "FillCurParamCharSet alloc apd ipd pd m apd_record ipd_record data_ptr str_len =
     (let h = desc_header apd; i = cur_param_idx pd; k = cur_paramset_idx pd; col_size = sql_desc_length ipd_record in do {
     len_ptr \<leftarrow> GetSQLDescIndicatorPtr h m apd_record k;
     indv \<leftarrow> load_sint 8 m len_ptr;
     (pd, apd_record) \<leftarrow>
       (if indv = SQL_DATA_AT_EXEC \<and> pool_allocated_ptr pd = []
        then map_option (Pair (pd\<lparr>pool_allocated_ptr := [alloc]\<rparr>)) (SetSQLDescDataPtr h m apd_record alloc)
        else Some (pd, apd_record));
     data \<leftarrow> GetSQLDescDataPtr h m apd_record;
     value_ptr \<leftarrow> ptr_add data (int k * col_size);
     let n = nat (min (to_uint64 str_len) col_size);
     m \<leftarrow> mem_copy m value_ptr data_ptr n;
     let m = set_status ipd k SQL_PARAM_SUCCESS (store_int 8 m len_ptr (int n));
     let pd = (if int (Suc k) \<ge> sql_desc_array_size h then pd\<lparr>cur_paramset_idx := 0, cur_param_idx := Suc i\<rparr>
               else pd\<lparr>cur_paramset_idx := Suc k\<rparr>);
     Some (SQL_PARAM_SUCCESS, pd, SetDescRecord apd i apd_record, m) })"

definition PutCharData ::
  "addr \<Rightarrow> OdbcHandleDesc \<Rightarrow> OdbcHandleDesc \<Rightarrow> ParameterDescriptor \<Rightarrow> memory \<Rightarrow> DescRecord \<Rightarrow> DescRecord \<Rightarrow> addr \<Rightarrow> SQLLEN \<Rightarrow> put_result" where
  "PutCharData alloc apd ipd pd m apd_record ipd_record data_ptr str_len =
     (if sql_desc_array_size (desc_header apd) = 1
      then FillParamCharDataBuffer alloc apd ipd pd m apd_record ipd_record data_ptr str_len
      else FillCurParamCharSet alloc apd ipd pd m apd_record ipd_record data_ptr str_len)"

definition PutData ::
  "addr \<Rightarrow> OdbcHandleDesc \<Rightarrow> OdbcHandleDesc \<Rightarrow> ParameterDescriptor \<Rightarrow> memory \<Rightarrow> addr \<Rightarrow> SQLLEN \<Rightarrow> put_result" where
  "PutData alloc apd ipd pd m data_ptr str_len =
     (let i = cur_param_idx pd; h = desc_header apd in
      if to_int16 (int i) \<ge> sql_desc_count h then Some (SQL_ERROR, pd, apd, m)
      else do {
        apd_record \<leftarrow> at (desc_records apd) i;
        if sql_desc_type apd_record = SQL_C_CHAR \<or> sql_desc_type apd_record = SQL_C_BINARY then do {
          ipd_record \<leftarrow> at (desc_records ipd) i;
          PutCharData alloc apd ipd pd m apd_record ipd_record data_ptr str_len }
        else
          let pd = pd\<lparr>cur_param_idx := Suc i\<rparr> in
          if str_len = SQL_NULL_DATA
          then map_option (\<lambda>m. (SQL_SUCCESS, pd, apd, m)) (SetSQLDescIndicatorPtr h m apd_record SQL_NULL_DATA)
          else map_option (\<lambda>r. (SQL_SUCCESS, pd, SetDescRecord apd i r, m)) (SetSQLDescDataPtr h m apd_record data_ptr) })"

section \<open>Entry points\<close>

text \<open>The application and the implementation parameter descriptor that a statement uses.\<close>

definition param_descs :: "driver \<Rightarrow> nat \<Rightarrow> OdbcHandleStmt \<Rightarrow> (OdbcHandleDesc \<times> OdbcHandleDesc \<times> OdbcHandleDesc) option" where
  "param_descs w s st = (case (descs w (ApdOf s), descs w (GetAPD st), descs w (IpdOf s)) of
      (Some own, Some apd, Some ipd) \<Rightarrow> Some (own, apd, ipd) | _ \<Rightarrow> None)"

definition on_prepared ::
  "driver \<Rightarrow> memory \<Rightarrow> SQLHANDLE \<Rightarrow> (nat \<Rightarrow> OdbcHandleStmt \<Rightarrow> PreparedStatement \<Rightarrow> driver \<Rightarrow> (SQLRETURN \<times> driver \<times> memory) option)
    \<Rightarrow> (SQLRETURN \<times> driver \<times> memory) option" where
  "on_prepared w m statement_handle body = (case ConvertHSTMTPrepared w statement_handle of
      None \<Rightarrow> None
    | Some (Inl ret, w) \<Rightarrow> Some (ret, w, m)
    | Some (Inr s, w) \<Rightarrow> Option.bind (stmts w s) (\<lambda>st. Option.bind (stmt_stmt st) (\<lambda>ps. body s st ps w)))"

text \<open>\<open>type_of\<close> is \<^verbatim>\<open>PreparedStatementData::GetType\<close>, which throws for a parameter whose type is not known.\<close>

definition param_type_info :: "LogicalTypeId \<Rightarrow> (int \<times> int) option" where
  "param_type_info t = (case t of
      VARCHAR \<Rightarrow> Some (SQL_VARCHAR, - 4) | FLOAT \<Rightarrow> Some (SQL_FLOAT, 4) | DOUBLE \<Rightarrow> Some (SQL_DOUBLE, 8)
    | SMALLINT \<Rightarrow> Some (SQL_SMALLINT, 2) | INTEGER \<Rightarrow> Some (SQL_INTEGER, 4) | _ \<Rightarrow> None)"

definition SQLDescribeParam ::
  "(nat \<Rightarrow> LogicalTypeId option) \<Rightarrow> SQLHANDLE \<Rightarrow> SQLUSMALLINT \<Rightarrow> addr \<Rightarrow> addr \<Rightarrow> addr \<Rightarrow> driver \<Rightarrow> memory \<Rightarrow> (SQLRETURN \<times> driver \<times> memory) option" where
  "SQLDescribeParam type_of statement_handle parameter_number data_type_ptr parameter_size_ptr nullable_ptr w m =
     on_prepared w m statement_handle (\<lambda>s st ps w.
       if parameter_number \<le> 0 \<or> parameter_number > int (ps_named_params ps) then Some (SQL_ERROR, w, m)
       else case type_of (nat parameter_number) of
         None \<Rightarrow> None
       | Some t \<Rightarrow> (case param_type_info t of
           None \<Rightarrow> Some (SQL_ERROR, w, m)
         | Some (odbc_type, odbc_size) \<Rightarrow>
             Some (SQL_SUCCESS, w, store_int 2 (store_int 8 (store_int 2 m data_type_ptr odbc_type) parameter_size_ptr odbc_size) nullable_ptr 2)))"

definition SQLNumParams :: "SQLHANDLE \<Rightarrow> addr \<Rightarrow> driver \<Rightarrow> memory \<Rightarrow> (SQLRETURN \<times> driver \<times> memory) option" where
  "SQLNumParams statement_handle parameter_count_ptr w m = on_prepared w m statement_handle (\<lambda>s st ps w.
     if parameter_count_ptr = nullptr then Some (SQL_ERROR, w, m)
     else Some (SQL_SUCCESS, w, store_int 2 m parameter_count_ptr (to_int16 (int (ps_named_params ps)))))"

definition SQLParamData :: "SQLHANDLE \<Rightarrow> addr \<Rightarrow> driver \<Rightarrow> memory \<Rightarrow> (SQLRETURN \<times> driver \<times> memory) option" where
  "SQLParamData statement_handle value_ptr_ptr w m = on_prepared w m statement_handle (\<lambda>s st ps w. do {
     (own, apd, ipd) \<leftarrow> param_descs w s st;
     (ret, m) \<leftarrow> GetNextParam apd ipd (param_desc st) m value_ptr_ptr;
     Some (if ret \<noteq> SQL_NO_DATA then ret else SQL_SUCCESS, w, m) })"

definition SQLPutData :: "addr \<Rightarrow> SQLHANDLE \<Rightarrow> addr \<Rightarrow> SQLLEN \<Rightarrow> driver \<Rightarrow> memory \<Rightarrow> (SQLRETURN \<times> driver \<times> memory) option" where
  "SQLPutData alloc statement_handle data_ptr str_len w m = on_prepared w m statement_handle (\<lambda>s st ps w. do {
     (own, apd, ipd) \<leftarrow> param_descs w s st;
     (ret, pd, apd, m) \<leftarrow> PutData alloc apd ipd (param_desc st) m data_ptr str_len;
     Some (SQL_SUCCESS, put_desc (GetAPD st) apd (put_stmt s (st\<lparr>param_desc := pd\<rparr>) w), m) })"

section \<open>Values come back\<close>

text \<open>The records \<open>ar\<close> and \<open>ir\<close> describe a parameter that is bound to a buffer and an indicator, without a bind
  offset.\<close>

definition bound_param :: "OdbcHandleDesc \<Rightarrow> OdbcHandleDesc \<Rightarrow> nat \<Rightarrow> DescRecord \<Rightarrow> DescRecord \<Rightarrow> bool" where
  "bound_param apd ipd i ar ir \<longleftrightarrow> at (desc_records apd) i = Some ar \<and> at (desc_records ipd) i = Some ir
     \<and> sql_desc_bind_offset_ptr (desc_header apd) = nullptr \<and> sql_desc_data_ptr ar \<noteq> nullptr \<and> sql_desc_indicator_ptr ar \<noteq> nullptr
     \<and> 0 \<le> sql_desc_length ir \<and> sql_desc_length ir < 2 ^ 62"

lemma ptr_add_simps [simp]: "ptr_add p 0 = Some p" "p \<noteq> nullptr \<Longrightarrow> ptr_add p (int n) = Some (p + n)"
  by (auto simp: ptr_add_def)

lemma ptr_add_8 [simp]: "p \<noteq> nullptr \<Longrightarrow> ptr_add p (8 * int n) = Some (p + 8 * n)"
  using ptr_add_simps(2) [of p "8 * n"] by simp

lemma SetValue_read:
  assumes "bound_param apd ipd i ar ir" "load_sint 8 m (sql_desc_indicator_ptr ar + 8 * paramset_idx pd) = Some indv" "0 \<le> indv \<or> indv = SQL_NTS"
    and "indv < 2 ^ 62"
  shows "SetValue valid own apd ipd pd m i =
    (case read_value valid own ar ir m i (paramset_idx pd) (sql_desc_data_ptr ar) (sql_desc_indicator_ptr ar + 8 * paramset_idx pd) indv of
       None \<Rightarrow> None
     | Some (Inl ret) \<Rightarrow> Some (ret, pd, m)
     | Some (Inr (v, m)) \<Rightarrow> Some (SQL_PARAM_SUCCESS, pd\<lparr>pd_values := store_value (pd_values pd) v i\<rparr>, m))"
proof -
  have "to_uint64 (SQL_LEN_DATA_AT_EXEC_OFFSET - sql_desc_length ir) = 2 ^ 64 - 100 - sql_desc_length ir"
    using assms(1) by (simp add: bound_param_def to_uint64_def take_bit_eq_mod int_mod_pos_eq [of _ _ "- 1"])
  moreover have "to_uint64 indv = indv \<or> to_uint64 indv = 2 ^ 64 - 3"
    using assms(3,4) by (auto simp: to_uint64_id) (simp add: to_uint64_def)
  ultimately have "to_uint64 indv \<noteq> to_uint64 (SQL_LEN_DATA_AT_EXEC_OFFSET - sql_desc_length ir)"
    using assms(1,3,4) by (auto simp: bound_param_def)
  then show ?thesis
    using assms(1-3)
    by (auto simp: SetValue_def bound_param_def GetSQLDescDataPtr_def GetSQLDescIndicatorPtr_def bind_offset_def load_sint_def [of 8 m 0] Let_def)
qed

lemma SetValue_null:
  assumes "bound_param apd ipd i ar ir" "load_sint 8 m (sql_desc_indicator_ptr ar + 8 * paramset_idx pd) = Some SQL_NULL_DATA"
  shows "SetValue valid own apd ipd pd m i
    = Some (SQL_SUCCESS, pd\<lparr>pd_values := store_value (pd_values pd) (NullValue (simple_type VARCHAR)) i\<rparr>, m)"
  using assms
  by (auto simp: SetValue_def bound_param_def GetSQLDescDataPtr_def GetSQLDescIndicatorPtr_def bind_offset_def load_sint_def [of 8 m 0] Let_def)

lemma store_value_at: "i \<le> length vs \<Longrightarrow> at (store_value vs v i) i = Some v"
  by (auto simp: store_value_def nth_append)

text \<open>C13: a timestamp survives the way through the application: it is read with \<^verbatim>\<open>SQLGetData\<close> into a
  \<^verbatim>\<open>SQL_TIMESTAMP_STRUCT\<close>, and the same buffer is bound as a \<^verbatim>\<open>SQL_TYPE_TIMESTAMP\<close> parameter; both
  calls succeed and the parameter has the value of the column, for every timestamp composed of a valid date whose year
  fits the 16-bit field and a time of day, also before 1970.\<close>

theorem timestamp_parameter_round_trip:
  assumes "FromDate year month day = Inr n" "- 32768 \<le> year" "year < 32768"
    and "0 \<le> h" "h < 24" "0 \<le> mi" "mi < 60" "0 \<le> s" "s < 60" "0 \<le> us" "us < 1000000"
    and "TryFromDatetime n (FromTime h mi s us) = Some ts"
    and "positioned st col (IntValue (simple_type TIMESTAMP) ts)"
    and "bound_param apd ipd i ar ir" "sql_desc_type ir = SQL_TYPE_TIMESTAMP" "sql_desc_type ar = SQL_C_TYPE_TIMESTAMP"
    and "target = sql_desc_data_ptr ar" "ind = sql_desc_indicator_ptr ar" "target + 16 \<le> ind \<or> ind + 8 \<le> target"
    and "paramset_idx pd = 0" "i \<le> length (pd_values pd)"
  shows "\<exists>m' pd'. GetDataStmtResult eng u dsn st m (int col + 1) SQL_C_TYPE_TIMESTAMP target blen ind = Some (SQL_SUCCESS, st, m')
    \<and> SetValue valid own apd ipd pd m' i = Some (SQL_PARAM_SUCCESS, pd', m')
    \<and> GetNextValue pd' i = Some (IntValue (simple_type TIMESTAMP) ts)"
proof -
  have ptrs: "target \<noteq> nullptr" "ind \<noteq> nullptr" using assms(14,17,18) by (simp_all add: bound_param_def)
  have ts: "ts = n * MICROS_PER_DAY + FromTime h mi s us" "Timestamp_IsFinite ts"
    using assms(12) by (auto simp: TryFromDatetime_def try_int64_def split: if_splits)
  obtain m' where m': "GetDataStmtResult eng u dsn st m (int col + 1) SQL_C_TYPE_TIMESTAMP target blen ind = Some (SQL_SUCCESS, st, m')"
    "load_timestamp m' target = [year, month, day, h, mi, s, us * 1000]" "load_sint 8 m' ind = Some 16"
    using timestamp_delivered [OF assms(1-11) ts assms(13), of target ind eng u dsn m blen] ptrs assms(19) by (auto simp: simple_type_def)
  have "Value_TIMESTAMP year month day h mi s us = Some (IntValue (simple_type TIMESTAMP) ts)"
    using assms(1,12) by (simp add: Value_TIMESTAMP_def)
  then have "read_value valid own ar ir m' i 0 target ind 16 = Some (Inr (IntValue (simple_type TIMESTAMP) ts, m'))"
    using m'(2) assms(15,16) by (simp add: read_value_def is_char_param_def switch_value_def Let_def)
  then show ?thesis
    using SetValue_read [OF assms(14), of m' pd 16] m'(1,3) assms(17,18,20,21) store_value_at [OF assms(21)]
    by (simp add: GetNextValue_def del: at_eq_Some)
qed

lemma le_uint_append: "le_uint (xs @ ys) = le_uint xs + 256 ^ length xs * le_uint ys"
  by (induction xs) (simp_all add: algebra_simps)

lemma of_char_range: "0 \<le> (of_char b :: int)" "of_char b < (256 :: int)"
proof -
  have "(of_char b :: int) = of_char b mod 256" by (simp only: of_char_mod_256)
  then show "0 \<le> (of_char b :: int)" "of_char b < (256 :: int)"
    using pos_mod_bound [of 256 "of_char b :: int"] pos_mod_sign [of 256 "of_char b :: int"] by presburger+
qed

lemma le_uint_bounds: "0 \<le> le_uint bs" "le_uint bs < 256 ^ length bs"
proof -
  show "0 \<le> le_uint bs" using of_char_range by (induction bs) simp_all
  show "le_uint bs < 256 ^ length bs"
  proof (induction bs)
    case (Cons b bs)
    then show ?case using of_char_range(2) [of b] by simp
  qed simp
qed

lemma read_bytes_split: "read_bytes m a (n + k) = read_bytes m a n @ read_bytes m (a + n) k"
  unfolding read_bytes_def map_append [symmetric] add.assoc [symmetric] by (subst upt_add_eq_append) simp_all

text \<open>A number that fits the low bytes is read from them, and as itself when the sign bit is clear.\<close>

lemma le_uint_low: "le_uint (read_bytes m a (n + k)) = v \<Longrightarrow> v < 256 ^ n \<Longrightarrow> le_uint (read_bytes m a n) = v"
proof -
  let ?lo = "le_uint (read_bytes m a n)" and ?hi = "le_uint (read_bytes m (a + n) k)"
  assume "le_uint (read_bytes m a (n + k)) = v" "v < 256 ^ n"
  then have v: "?lo + 256 ^ n * ?hi = v" by (simp add: read_bytes_split le_uint_append)
  have "?lo = v mod 256 ^ n"
    using le_uint_bounds [of "read_bytes m a n"] by (simp add: v [symmetric])
  moreover have "0 \<le> v" using v le_uint_bounds(1) by (metis add_nonneg_nonneg mult_nonneg_nonneg zero_le_power zero_le_numeral)
  ultimately show ?thesis using \<open>v < 256 ^ n\<close> by simp
qed

lemma le_sint_small: "le_uint bs = v \<Longrightarrow> 0 < length bs \<Longrightarrow> v < 2 ^ (8 * length bs - 1) \<Longrightarrow> le_sint bs = v"
  using le_uint_bounds(1) [of bs] by (auto simp: le_sint_def intro!: signed_take_bit_int_eq_self)

lemma numeric_value_loaded:
  assumes "load_numeric m a = (int s, if v < 0 then 0 else 1, \<bar>v\<bar>)" "nat \<bar>v\<bar> < 10 ^ w" "w \<le> 38"
  shows "numeric_value m a (int w) (int s) = Some (DecimalValue w s v)"
proof -
  have sign: "le_uint (read_bytes m (a + 2) 1) = (if v < 0 then 0 else 1)" and all: "le_uint (read_bytes m (a + 3) 16) = \<bar>v\<bar>"
    using assms(1) by (simp_all add: load_numeric_def)
  have bound: "\<bar>v\<bar> < 10 ^ k" if "w \<le> k" for k
  proof -
    have "(10 :: int) ^ w \<le> 10 ^ k" using that by (intro power_increasing) simp_all
    moreover have "\<bar>v\<bar> < 10 ^ w" using assms(2) by (simp add: nat_less_iff)
    ultimately show ?thesis by linarith
  qed
  show ?thesis
  proof (cases "w \<le> 18")
    case True
    have "\<bar>v\<bar> < 10 ^ 18" using bound [OF True] .
    then have "le_sint (read_bytes m (a + 3) 8) = \<bar>v\<bar>"
      using le_uint_low [of m "a + 3" 8 8 "\<bar>v\<bar>"] all by (intro le_sint_small) simp_all
    moreover have "w \<le> 4 \<Longrightarrow> \<bar>v\<bar> < 10 ^ 4" by (rule bound)
    moreover have "w \<le> 9 \<Longrightarrow> \<bar>v\<bar> < 10 ^ 9" by (rule bound)
    ultimately show ?thesis
      using True sign \<open>\<bar>v\<bar> < 10 ^ 18\<close> by (auto simp: numeric_value_def Value_DECIMAL_def Let_def)
  next
    case False
    have "\<bar>v\<bar> < 10 ^ 38" using bound [OF assms(3)] .
    then have "le_sint (read_bytes m (a + 3) 16) = \<bar>v\<bar>" using all by (intro le_sint_small) simp_all
    then show ?thesis using False sign \<open>\<bar>v\<bar> < 10 ^ 38\<close> by (auto simp: numeric_value_def Let_def)
  qed
qed

text \<open>C15: a decimal survives the way through the application, if its scale is 0 or its fraction is not zero (other decimals, such as
  5.00, do not, since they are delivered without the zeros of their fraction): such a value of up to 38 digits that is read with \<^verbatim>\<open>SQLGetData\<close> into a \<^verbatim>\<open>SQL_NUMERIC_STRUCT\<close>, and bound in the same
  buffer as a \<^verbatim>\<open>SQL_NUMERIC\<close> parameter of the same precision and scale, is the value of the parameter, negative
  ones included.\<close>

theorem numeric_parameter_round_trip:
  assumes "parses_digits (eng_parse_int64 eng) (2 ^ 63)" "parses_digits (eng_parse_hugeint eng) (2 ^ 127)"
    and "positioned st col (DecimalValue w s v)" "nat \<bar>v\<bar> < 10 ^ w" "s \<le> w" "0 < w" "w \<le> 38" "s = 0 \<or> nat \<bar>v\<bar> mod 10 ^ s \<noteq> 0"
    and "bound_param apd ipd i ar ir" "sql_desc_type ir = SQL_NUMERIC" "sql_desc_precision ir = int w" "sql_desc_scale ir = int s"
    and "sql_desc_type ar = SQL_C_NUMERIC"
    and "target = sql_desc_data_ptr ar" "ind = sql_desc_indicator_ptr ar" "target + 19 \<le> ind \<or> ind + 8 \<le> target"
    and "paramset_idx pd = 0" "i \<le> length (pd_values pd)"
  shows "\<exists>m' pd'. GetDataStmtResult eng u dsn st m (int col + 1) SQL_C_NUMERIC target blen ind = Some (SQL_SUCCESS, st, m')
    \<and> SetValue valid own apd ipd pd m' i = Some (SQL_PARAM_SUCCESS, pd', m') \<and> GetNextValue pd' i = Some (DecimalValue w s v)"
proof -
  have ptrs: "target \<noteq> nullptr" "ind \<noteq> nullptr" using assms(9,14,15) by (simp_all add: bound_param_def)
  obtain m' where m': "GetDataStmtResult eng u dsn st m (int col + 1) SQL_C_NUMERIC target blen ind = Some (SQL_SUCCESS, st, m')"
    "load_numeric m' target = (int s, if v < 0 then 0 else 1, \<bar>v\<bar>)" "load_sint 8 m' ind = Some 19"
    using numeric_delivered [OF assms(1-8), of target ind u dsn m blen] ptrs assms(16) by auto
  have "numeric_value m' target (int w) (int s) = Some (DecimalValue w s v)"
    by (rule numeric_value_loaded [OF m'(2) assms(4,7)])
  then have "read_value valid own ar ir m' i 0 target ind 19 = Some (Inr (DecimalValue w s v, m'))"
    using assms(5-7,10-13) by (simp add: read_value_def is_char_param_def switch_value_def ValidateNumeric_def Let_def)
  then show ?thesis
    using SetValue_read [OF assms(9), of m' pd 19] m'(1,3) assms(14,15,17,18) store_value_at [OF assms(18)]
    by (simp add: GetNextValue_def del: at_eq_Some)
qed

section \<open>Data in pieces\<close>

text \<open>The application writes each piece into its buffer \<open>src\<close> and sends it.\<close>

fun put_pieces ::
  "addr \<Rightarrow> addr \<Rightarrow> OdbcHandleDesc \<Rightarrow> string list \<Rightarrow> ParameterDescriptor \<times> OdbcHandleDesc \<times> memory
    \<Rightarrow> (ParameterDescriptor \<times> OdbcHandleDesc \<times> memory) option" where
  "put_pieces alloc src ipd [] s = Some s"
| "put_pieces alloc src ipd (p # ps) (pd, apd, m) = (case PutData alloc apd ipd pd (write_bytes m src p) src (int (length p)) of
      None \<Rightarrow> None
    | Some (ret, s) \<Rightarrow> put_pieces alloc src ipd ps s)"

text \<open>Parameter \<open>i\<close> is the current one, a character or binary parameter of \<open>L\<close> bytes without arrays and offsets; the
  allocated buffer, the indicator and the buffer of the application do not overlap.\<close>

definition piecewise :: "OdbcHandleDesc \<Rightarrow> OdbcHandleDesc \<Rightarrow> ParameterDescriptor \<Rightarrow> nat \<Rightarrow> nat \<Rightarrow> addr \<Rightarrow> addr \<Rightarrow> addr \<Rightarrow> nat \<Rightarrow> bool" where
  "piecewise apd ipd pd i L alloc src ind room \<longleftrightarrow> cur_param_idx pd = i \<and> i < length (desc_records apd) \<and> i < length (desc_records ipd)
     \<and> sql_desc_bind_offset_ptr (desc_header apd) = nullptr \<and> sql_desc_array_size (desc_header apd) = 1
     \<and> to_int16 (int i) < sql_desc_count (desc_header apd) \<and> sql_desc_array_status_ptr (desc_header ipd) = nullptr
     \<and> sql_desc_type (desc_records apd ! i) \<in> {SQL_C_CHAR, SQL_C_BINARY} \<and> sql_desc_indicator_ptr (desc_records apd ! i) = ind
     \<and> sql_desc_length (desc_records ipd ! i) = int L \<and> L < 2 ^ 31
     \<and> alloc \<noteq> nullptr \<and> src \<noteq> nullptr \<and> ind \<noteq> nullptr
     \<and> (alloc + L \<le> ind \<or> ind + 8 \<le> alloc) \<and> (alloc + L \<le> src \<or> src + room \<le> alloc) \<and> (ind + 8 \<le> src \<or> src + room \<le> ind)"

text \<open>What has arrived: nothing yet, or the bytes \<open>got\<close>.\<close>

definition arrived :: "OdbcHandleDesc \<Rightarrow> nat \<Rightarrow> addr \<Rightarrow> addr \<Rightarrow> memory \<Rightarrow> string \<Rightarrow> bool" where
  "arrived apd i alloc ind m got \<longleftrightarrow> sql_desc_data_ptr (desc_records apd ! i) = alloc \<and> load_sint 8 m ind = Some (int (length got))
     \<and> read_bytes m alloc (length got) = got"

lemma store_int_bytes: "p \<noteq> nullptr \<Longrightarrow> store_int 8 m p v = write_bytes m p (le_bytes 8 v)"
  by (simp add: store_int_def)

lemma load_sint_disjoint: "b + 8 \<le> a \<or> a + length bs \<le> b \<Longrightarrow> load_sint 8 (write_bytes m a bs) b = load_sint 8 m b"
  by (auto simp: load_sint_def read_write_disjoint)

lemma bind_offset_null: "sql_desc_bind_offset_ptr h = nullptr \<Longrightarrow> bind_offset h m = 0"
  by (simp add: bind_offset_def load_sint_def)

lemma put_piece:
  assumes pw: "piecewise apd ipd pd i L alloc src ind room"
    and got: "load_sint 8 m ind = Some SQL_DATA_AT_EXEC \<and> got = [] \<or> arrived apd i alloc ind m got"
    and p: "p \<noteq> []" "length p \<le> room" "length got + length p \<le> L"
  shows "\<exists>pd' m'. PutData alloc apd ipd pd (write_bytes m src p) src (int (length p))
      = Some (SQL_SUCCESS, pd', SetDescRecord apd i ((desc_records apd ! i)\<lparr>sql_desc_data_ptr := alloc\<rparr>), m')
    \<and> arrived (SetDescRecord apd i ((desc_records apd ! i)\<lparr>sql_desc_data_ptr := alloc\<rparr>)) i alloc ind m' (got @ p)
    \<and> cur_param_idx pd' = (if length got + length p = L then Suc i else i) \<and> pd_values pd' = pd_values pd \<and> paramset_idx pd' = paramset_idx pd"
proof -
  define ar where "ar = desc_records apd ! i"
  define ir where "ir = desc_records ipd ! i"
  define m1 where "m1 = write_bytes m src p"
  define m2 where "m2 = (if load_sint 8 m ind = Some SQL_DATA_AT_EXEC then store_int 8 m1 ind 0 else m1)"
  define m3 where "m3 = write_bytes m2 (alloc + length got) p"
  define m4 where "m4 = store_int 8 m3 ind (int (length got + length p))"
  define n where "n = length got"
  define k where "k = L - n"
  define filled where "filled \<longleftrightarrow> length got + length p = L"
  note pw' = pw [unfolded piecewise_def, folded ar_def ir_def]
  have gotE: "load_sint 8 m ind = Some SQL_DATA_AT_EXEC \<and> n = 0
    \<or> load_sint 8 m ind = Some (int n) \<and> sql_desc_data_ptr ar = alloc \<and> read_bytes m alloc n = got"
    using got by (auto simp: arrived_def ar_def n_def)
  have l1: "load_sint 8 m1 ind = load_sint 8 m ind" using pw' p(2) by (auto simp: m1_def intro!: load_sint_disjoint)
  have l2: "load_sint 8 m2 ind = Some (int n)" using gotE l1 pw' by (auto simp: m2_def load_store_int to_int64_id)
  have l3: "load_sint 8 m3 ind = Some (int n)" using l2 pw' p(3) by (auto simp: m3_def n_def load_sint_disjoint)
  have room: "to_uint64 (int L - int n) = int k" "to_uint64 (int (length p)) = int (length p)" "to_int64 (int n + int (length p)) = int (length got + length p)"
    "to_int64 (int n) = int n" "to_uint64 (int n) = int n"
    using pw' p(3) by (auto simp: n_def k_def to_uint64_id to_int64_id)
  have src: "read_bytes m2 src (length p) = p" using pw' p(2) by (auto simp: m2_def m1_def store_int_bytes mem_simps)
  have "PutData alloc apd ipd pd m1 src (int (length p))
      = Some (SQL_SUCCESS, (if load_sint 8 m ind = Some SQL_DATA_AT_EXEC then pd\<lparr>pool_allocated_ptr := pool_allocated_ptr pd @ [alloc]\<rparr> else pd)
          \<lparr>cur_param_idx := (if filled then Suc i else i)\<rparr>, SetDescRecord apd i (ar\<lparr>sql_desc_data_ptr := alloc\<rparr>), m4)"
    (is "_ = ?put")
  proof -
    have copy: "mem_copy m2 (alloc + n) src (length p) = Some m3" using pw' src by (simp add: mem_copy_def m3_def n_def)
    have fits: "k \<le> length p \<longleftrightarrow> filled" "filled \<Longrightarrow> k = length p"
      using p(3) by (auto simp: filled_def n_def k_def)
    have "PutData alloc apd ipd pd m1 src (int (length p)) = FillParamCharDataBuffer alloc apd ipd pd m1 ar ir src (int (length p))"
      using pw' by (auto simp: PutData_def PutCharData_def ar_def ir_def Let_def)
    also have "\<dots> = ?put"
    proof (cases "load_sint 8 m ind = Some SQL_DATA_AT_EXEC")
      case True
      then have "n = 0" "m2 = store_int 8 m1 ind 0" using gotE by (auto simp: m2_def)
      then show ?thesis
        using True pw' l1 l3 room copy fits
        by (cases filled) (simp_all add: FillParamCharDataBuffer_def GetSQLDescIndicatorPtr_def GetSQLDescDataPtr_def SetSQLDescDataPtr_def bind_offset_null
            set_status_def m4_def Let_def)
    next
      case False
      then have "m2 = m1" "load_sint 8 m ind = Some (int n)" "sql_desc_data_ptr ar = alloc" using gotE by (auto simp: m2_def)
      moreover from this(3) have same: "ar\<lparr>sql_desc_data_ptr := alloc\<rparr> = ar" by (cases ar) simp
      ultimately show ?thesis
        unfolding same using False pw' l1 l3 room copy fits
        by (cases filled) (simp_all add: FillParamCharDataBuffer_def GetSQLDescIndicatorPtr_def GetSQLDescDataPtr_def SetSQLDescDataPtr_def bind_offset_null
            set_status_def m4_def Let_def)
    qed
    finally show ?thesis .
  qed
  moreover have "arrived (SetDescRecord apd i (ar\<lparr>sql_desc_data_ptr := alloc\<rparr>)) i alloc ind m4 (got @ p)"
  proof -
    have "read_bytes m4 alloc (n + length p) = read_bytes m3 alloc (n + length p)"
      using pw' p(3) by (auto simp: m4_def n_def store_int_bytes mem_simps)
    moreover have "read_bytes m3 alloc n = read_bytes m2 alloc n" by (simp add: m3_def n_def mem_simps)
    moreover have "read_bytes m2 alloc n = read_bytes m alloc n"
      using pw' p by (auto simp: m2_def m1_def n_def store_int_bytes mem_simps)
    moreover have "read_bytes m alloc n = got" using gotE by (auto simp: n_def read_bytes_def)
    moreover have "read_bytes m3 (alloc + n) (length p) = p" by (simp add: m3_def n_def mem_simps)
    ultimately have "read_bytes m4 alloc (n + length p) = got @ p" by (simp add: read_bytes_split)
    moreover have "load_sint 8 m4 ind = Some (int (length got + length p))"
      using pw' p(3) by (simp add: m4_def load_store_int to_int64_id)
    ultimately show ?thesis using pw' by (simp add: arrived_def SetDescRecord_def n_def)
  qed
  ultimately show ?thesis unfolding m1_def ar_def filled_def by (auto intro!: exI)
qed

lemma put_all:
  assumes "ps \<noteq> []" "list_all (\<lambda>p. p \<noteq> [] \<and> length p \<le> room) ps" "piecewise apd ipd pd i L alloc src ind room"
    and "load_sint 8 m ind = Some SQL_DATA_AT_EXEC \<and> got = [] \<or> arrived apd i alloc ind m got" "length got + length (concat ps) \<le> L"
    and "apd' = SetDescRecord apd i ((desc_records apd ! i)\<lparr>sql_desc_data_ptr := alloc\<rparr>)"
  shows "\<exists>pd' m'. put_pieces alloc src ipd ps (pd, apd, m) = Some (pd', apd', m') \<and> arrived apd' i alloc ind m' (got @ concat ps)
    \<and> cur_param_idx pd' = (if length got + length (concat ps) = L then Suc i else i) \<and> pd_values pd' = pd_values pd \<and> paramset_idx pd' = paramset_idx pd"
  using assms
proof (induction ps arbitrary: apd pd m got)
  case (Cons p ps)
  obtain pd1 m1 where 1: "PutData alloc apd ipd pd (write_bytes m src p) src (int (length p)) = Some (SQL_SUCCESS, pd1, apd', m1)"
    "arrived apd' i alloc ind m1 (got @ p)" "cur_param_idx pd1 = (if length got + length p = L then Suc i else i)"
    "pd_values pd1 = pd_values pd" "paramset_idx pd1 = paramset_idx pd"
    using put_piece [OF Cons.prems(3,4), of p] Cons.prems(2,5,6) by auto
  show ?case
  proof (cases "ps = []")
    case True
    then show ?thesis using 1 by simp
  next
    case False
    then have "0 < length (concat ps)" using Cons.prems(2) by (cases ps) auto
    then have less: "length got + length p < L" using Cons.prems(5) unfolding concat.simps length_append by linarith
    have i: "i < length (desc_records apd)" using Cons.prems(3) by (simp add: piecewise_def)
    then have pw: "piecewise apd' ipd pd1 i L alloc src ind room"
      using Cons.prems(3,6) 1(3) less by (simp add: piecewise_def SetDescRecord_def)
    have apd': "apd' = SetDescRecord apd' i ((desc_records apd' ! i)\<lparr>sql_desc_data_ptr := alloc\<rparr>)"
      using Cons.prems(6) i by (simp add: SetDescRecord_def)
    show ?thesis
      using Cons.IH [OF False _ pw _ _ apd', of m1 "got @ p"] Cons.prems(2,5) 1 by (auto simp: add.assoc)
  qed
qed simp

text \<open>C17: data at execution arrives whole: an application that answers \<^verbatim>\<open>SQL_NEED_DATA\<close> for the current parameter, of the types
  \<^verbatim>\<open>SQL_C_CHAR\<close> and \<^verbatim>\<open>SQL_VARCHAR\<close> and without arrays and offset (\<open>piecewise\<close>), by sending it with \<^verbatim>\<open>SQLPutData\<close> in non-empty pieces of any sizes, reusing its buffer,
  has the concatenation of the pieces as the value of the parameter, provided that it is valid text and not longer than the
  declared length; the next parameter becomes current exactly when the declared length is reached, and not with the last piece
  of a shorter text.\<close>

theorem put_pieces_whole:
  assumes "piecewise apd ipd pd i L alloc src ind room" "load_sint 8 m ind = Some SQL_DATA_AT_EXEC"
    and "ps \<noteq> []" "list_all (\<lambda>p. p \<noteq> [] \<and> length p \<le> room) ps" "length (concat ps) \<le> L"
    and "sql_desc_type (desc_records apd ! i) = SQL_C_CHAR" "sql_desc_type (desc_records ipd ! i) = SQL_VARCHAR"
    and "paramset_idx pd = 0" "i \<le> length (pd_values pd)" "i < length (desc_records own)" "valid (concat ps)"
  shows "\<exists>pd' apd' m' pd''. put_pieces alloc src ipd ps (pd, apd, m) = Some (pd', apd', m')
    \<and> cur_param_idx pd' = (if length (concat ps) = L then Suc i else i)
    \<and> SetValue valid own apd' ipd pd' m' i = Some (SQL_PARAM_SUCCESS, pd'', m')
    \<and> GetNextValue pd'' i = Some (TextValue (simple_type VARCHAR) (concat ps))"
proof -
  define apd' where "apd' = SetDescRecord apd i ((desc_records apd ! i)\<lparr>sql_desc_data_ptr := alloc\<rparr>)"
  obtain pd' m' where put: "put_pieces alloc src ipd ps (pd, apd, m) = Some (pd', apd', m')" "arrived apd' i alloc ind m' (concat ps)"
    "cur_param_idx pd' = (if length (concat ps) = L then Suc i else i)" "pd_values pd' = pd_values pd" "paramset_idx pd' = 0"
    using put_all [OF assms(3,4,1) _ _ apd'_def, of m "[]"] assms(2,5,8) by auto
  note pw = assms(1) [unfolded piecewise_def]
  let ?ar = "(desc_records apd ! i)\<lparr>sql_desc_data_ptr := alloc\<rparr>" and ?n = "length (concat ps)"
  have "bound_param apd' ipd i ?ar (desc_records ipd ! i)" using pw by (simp add: bound_param_def apd'_def SetDescRecord_def)
  moreover have "decode_char valid m' alloc ind (int ?n) = Some (TextValue (simple_type VARCHAR) (concat ps), m')"
    using put(2) assms(5,11) pw by (simp add: decode_char_def arrived_def to_int32_id text_value_def)
  then have "read_value valid own ?ar (desc_records ipd ! i) m' i 0 alloc ind (int ?n) = Some (Inr (TextValue (simple_type VARCHAR) (concat ps), m'))"
    using assms(6,7,10) by (simp add: read_value_def is_char_param_def param_buff_size_def)
  moreover have "load_sint 8 m' ind = Some (int ?n)" "int ?n < 2 ^ 62" using put(2) assms(5) pw by (simp_all add: arrived_def)
  ultimately have "SetValue valid own apd' ipd pd' m' i = Some (SQL_PARAM_SUCCESS,
      pd'\<lparr>pd_values := store_value (pd_values pd') (TextValue (simple_type VARCHAR) (concat ps)) i\<rparr>, m')"
    using SetValue_read [of apd' ipd i ?ar "desc_records ipd ! i" m' pd' "int ?n" valid own] pw put(5) by simp
  then show ?thesis using put(1,3,4) store_value_at [OF assms(9)] by (auto simp: GetNextValue_def simp del: at_eq_Some)
qed

section \<open>Indicators\<close>

text \<open>A terminated string in memory.\<close>

definition cstring_at :: "memory \<Rightarrow> addr \<Rightarrow> string \<Rightarrow> bool" where
  "cstring_at m d a \<longleftrightarrow> read_bytes m d (Suc (length a)) = a @ [CHR 0x00] \<and> CHR 0x00 \<notin> set a"

lemma strlen_cstring: "cstring_at m d a \<Longrightarrow> strlen_at m d = Some (length a)"
proof (induction a arbitrary: d)
  case Nil
  then show ?case by (subst strlen_at.simps) (simp add: cstring_at_def read_bytes_def)
next
  case (Cons c a)
  have "read_bytes m d (Suc (length (c # a))) = m d # read_bytes m (d + 1) (Suc (length a))"
    using read_bytes_split [of m d 1 "Suc (length a)"] by (simp add: read_bytes_def)
  then have "m d = c" "cstring_at m (d + 1) a" using Cons.prems by (auto simp: cstring_at_def)
  moreover have "c \<noteq> CHR 0x00" using Cons.prems by (auto simp: cstring_at_def)
  ultimately show ?case using Cons.IH [of "d + 1"] by (subst strlen_at.simps) simp
qed

lemma SetValue_char:
  assumes "bound_param apd ipd i ar ir" "sql_desc_type ar = SQL_C_CHAR" "sql_desc_type ir = SQL_VARCHAR" "paramset_idx pd = 0"
    and "i < length (desc_records own)" "load_sint 8 m (sql_desc_indicator_ptr ar) = Some indv" "0 \<le> indv \<or> indv = SQL_NTS" "indv < 2 ^ 62"
    and "decode_char valid m (sql_desc_data_ptr ar) (sql_desc_indicator_ptr ar) indv = Some (v, m')"
  shows "SetValue valid own apd ipd pd m i = Some (SQL_PARAM_SUCCESS, pd\<lparr>pd_values := store_value (pd_values pd) v i\<rparr>, m')"
  using SetValue_read [OF assms(1), of m pd indv valid own] assms(2-9) by (simp add: read_value_def is_char_param_def param_buff_size_def)

text \<open>A null-terminated parameter is cut off when it is reused: the driver overwrites the application's indicator
  \<^verbatim>\<open>SQL_NTS\<close> with the length of the first text \<open>a\<close>; when the application then writes a longer text \<open>b\<close> into the buffer and
  executes again, the parameter is only the first bytes of \<open>b\<close>, as many as \<open>a\<close> had.\<close>

theorem nts_indicator_overwritten:
  assumes "bound_param apd ipd i ar ir" "sql_desc_type ar = SQL_C_CHAR" "sql_desc_type ir = SQL_VARCHAR" "paramset_idx pd = 0"
    and "i < length (desc_records own)" "i \<le> length (pd_values pd)"
    and "d = sql_desc_data_ptr ar" "ind = sql_desc_indicator_ptr ar" "d + length b + 1 \<le> ind \<or> ind + 8 \<le> d"
    and "load_sint 8 m ind = Some SQL_NTS" "cstring_at m d a" "length a \<le> length b" "length a < 2 ^ 31" "valid a" "valid (take (length a) b)"
  shows "\<exists>pd' m' pd'' m''. SetValue valid own apd ipd pd m i = Some (SQL_PARAM_SUCCESS, pd', m')
    \<and> GetNextValue pd' i = Some (TextValue (simple_type VARCHAR) a)
    \<and> SetValue valid own apd ipd pd' (write_bytes m' d (b @ [CHR 0x00])) i = Some (SQL_PARAM_SUCCESS, pd'', m'')
    \<and> GetNextValue pd'' i = Some (TextValue (simple_type VARCHAR) (take (length a) b))"
proof -
  define m' where "m' = store_int 8 m ind (int (length a))"
  define m'' where "m'' = write_bytes m' d (b @ [CHR 0x00])"
  define pd' where "pd' = pd\<lparr>pd_values := store_value (pd_values pd) (TextValue (simple_type VARCHAR) a) i\<rparr>"
  have ind: "ind \<noteq> nullptr" using assms(1,8) by (simp add: bound_param_def)
  have "read_bytes m d (length a) = a"
    using assms(11) read_bytes_split [of m d "length a" 1] by (simp add: cstring_at_def)
  then have "read_bytes m' d (length a) = a" using assms(9,12) ind by (auto simp: m'_def store_int_bytes mem_simps)
  then have "decode_char valid m d ind SQL_NTS = Some (TextValue (simple_type VARCHAR) a, m')"
    using strlen_cstring [OF assms(11)] assms(13,14) by (simp add: decode_char_def m'_def to_int32_id text_value_def)
  then have 1: "SetValue valid own apd ipd pd m i = Some (SQL_PARAM_SUCCESS, pd', m')"
    using SetValue_char [OF assms(1-5), of m SQL_NTS] assms(7,8,10) by (simp add: pd'_def)
  have "load_sint 8 m'' ind = load_sint 8 m' ind" using assms(9) by (auto simp: m''_def intro!: load_sint_disjoint)
  then have len: "load_sint 8 m'' ind = Some (int (length a))" using ind assms(13) by (simp add: m'_def load_store_int to_int64_id)
  have "read_bytes m'' d (length a) = take (length a) b" using assms(12) by (simp add: m''_def mem_simps)
  then have "decode_char valid m'' d ind (int (length a)) = Some (TextValue (simple_type VARCHAR) (take (length a) b), m'')"
    using assms(13,15) by (simp add: decode_char_def to_int32_id text_value_def)
  then have 2: "SetValue valid own apd ipd pd' m'' i = Some (SQL_PARAM_SUCCESS,
      pd'\<lparr>pd_values := store_value (pd_values pd') (TextValue (simple_type VARCHAR) (take (length a) b)) i\<rparr>, m'')"
    using SetValue_char [OF assms(1-3) _ assms(5), of pd' m'' "int (length a)"] assms(4,7,8,13) len by (simp add: pd'_def)
  have "i \<le> length (pd_values pd')" using assms(6) by (simp add: pd'_def store_value_def)
  then have "GetNextValue (pd'\<lparr>pd_values := store_value (pd_values pd') v i\<rparr>) i = Some v" for v
    using store_value_at by (simp add: GetNextValue_def del: at_eq_Some)
  moreover have "GetNextValue pd' i = Some (TextValue (simple_type VARCHAR) a)"
    using store_value_at [OF assms(6)] by (simp add: GetNextValue_def pd'_def del: at_eq_Some)
  ultimately show ?thesis using 1 2 unfolding m''_def by blast
qed

text \<open>Without an indicator every value is NULL: a parameter that is bound to a buffer with a null pointer for the
  length, which ODBC defines as a value that is not NULL, is sent as NULL, whatever the buffer contains.\<close>

theorem null_indicator_binds_null:
  assumes "at (desc_records apd) i = Some ar" "sql_desc_bind_offset_ptr (desc_header apd) = nullptr"
    and "sql_desc_data_ptr ar \<noteq> nullptr" "sql_desc_indicator_ptr ar = nullptr" "paramset_idx pd = 0" "i \<le> length (pd_values pd)"
  shows "\<exists>pd'. SetValue valid own apd ipd pd m i = Some (SQL_SUCCESS, pd', m) \<and> GetNextValue pd' i = Some (NullValue (simple_type VARCHAR))"
proof -
  have "SetValue valid own apd ipd pd m i
      = Some (SQL_SUCCESS, pd\<lparr>pd_values := store_value (pd_values pd) (NullValue (simple_type VARCHAR)) i\<rparr>, m)"
    using assms(1-5) by (auto simp: SetValue_def GetSQLDescDataPtr_def GetSQLDescIndicatorPtr_def bind_offset_null Let_def)
  then show ?thesis using store_value_at [OF assms(6)] by (simp add: GetNextValue_def del: at_eq_Some)
qed

section \<open>Witnesses\<close>

definition sample_apd :: "SQLSMALLINT \<Rightarrow> addr \<Rightarrow> OdbcHandleDesc" where
  "sample_apd c_type ind = (let d = make_OdbcHandleDesc (ApdOf 0) sample_record 0 None False in
     d\<lparr>desc_records := [sample_record\<lparr>sql_desc_type := c_type, sql_desc_data_ptr := 1000, sql_desc_indicator_ptr := ind\<rparr>],
       desc_header := (desc_header d)\<lparr>sql_desc_count := 1\<rparr>\<rparr>)"

definition sample_ipd :: "SQLSMALLINT \<Rightarrow> SQLULEN \<Rightarrow> SQLSMALLINT \<Rightarrow> SQLSMALLINT \<Rightarrow> OdbcHandleDesc" where
  "sample_ipd sql_type len precision scale = (let d = make_OdbcHandleDesc (IpdOf 0) sample_record 0 None False in
     d\<lparr>desc_records := [sample_record\<lparr>sql_desc_type := sql_type, sql_desc_length := len, sql_desc_precision := precision, sql_desc_scale := scale\<rparr>],
       desc_header := (desc_header d)\<lparr>sql_desc_count := 1\<rparr>\<rparr>)"

abbreviation sample_pd :: ParameterDescriptor where
  "sample_pd \<equiv> \<lparr>cur_apd = ApdOf 0, pool_allocated_ptr = [], paramset_idx = 0, cur_paramset_idx = 0, cur_param_idx = 0, pd_values = []\<rparr>"

lemma sample_bound:
  assumes "0 \<le> len" "len < 2 ^ 62"
  shows "bound_param (sample_apd c 2000) (sample_ipd t len p sc) 0
    (sample_record\<lparr>sql_desc_type := c, sql_desc_data_ptr := 1000, sql_desc_indicator_ptr := 2000\<rparr>)
    (sample_record\<lparr>sql_desc_type := t, sql_desc_length := len, sql_desc_precision := p, sql_desc_scale := sc\<rparr>)"
  using assms by (simp add: bound_param_def sample_apd_def sample_ipd_def make_OdbcHandleDesc_def make_DescHeader_def DescHeader_Reset_def Let_def)

theorem timestamp_parameter_round_trip_witness:
  "\<exists>m' pd'. GetDataStmtResult sample_engine 0 [] (sample_row (IntValue (simple_type TIMESTAMP) (- 86399000000))) (\<lambda>_. CHR 0x00) (int 0 + 1)
      SQL_C_TYPE_TIMESTAMP 1000 0 2000 = Some (SQL_SUCCESS, sample_row (IntValue (simple_type TIMESTAMP) (- 86399000000)), m')
    \<and> SetValue (\<lambda>_. True) sample_desc (sample_apd SQL_C_TYPE_TIMESTAMP 2000) (sample_ipd SQL_TYPE_TIMESTAMP 26 0 6) sample_pd m' 0
        = Some (SQL_PARAM_SUCCESS, pd', m')
    \<and> GetNextValue pd' 0 = Some (IntValue (simple_type TIMESTAMP) (- 86399000000))"
  by (rule timestamp_parameter_round_trip [OF sample_date, where h = 0 and mi = 0 and s = 1 and us = 0, OF _ _ _ _ _ _ _ _ _ _ _
        sample_row_positioned(1) sample_bound])
    (simp_all add: FromTime_def Timestamp_IsFinite_def TryFromDatetime_def try_int64_def)

theorem numeric_parameter_round_trip_witness:
  "\<exists>m' pd'. GetDataStmtResult sample_engine 0 [] (sample_row (DecimalValue 5 2 (- 4205))) (\<lambda>_. CHR 0x00) (int 0 + 1) SQL_C_NUMERIC 1000 0 2000
      = Some (SQL_SUCCESS, sample_row (DecimalValue 5 2 (- 4205)), m')
    \<and> SetValue (\<lambda>_. True) sample_desc (sample_apd SQL_C_NUMERIC 2000) (sample_ipd SQL_NUMERIC 5 5 2) sample_pd m' 0
        = Some (SQL_PARAM_SUCCESS, pd', m')
    \<and> GetNextValue pd' 0 = Some (DecimalValue 5 2 (- 4205))"
  by (rule numeric_parameter_round_trip [OF sample_engine_parses sample_row_positioned(1) _ _ _ _ _ sample_bound]) simp_all

definition at_exec_memory :: memory where
  "at_exec_memory = write_bytes (\<lambda>_. CHR 0x00) 2000 (le_bytes 8 SQL_DATA_AT_EXEC)"

theorem put_pieces_whole_witness:
  "\<exists>pd' apd' m' pd''. put_pieces 5000 3000 (sample_ipd SQL_VARCHAR 7 0 0) [''Hay'', ''ba'', ''rn''] (sample_pd, sample_apd SQL_C_CHAR 2000, at_exec_memory)
      = Some (pd', apd', m')
    \<and> cur_param_idx pd' = 1
    \<and> SetValue (\<lambda>_. True) sample_desc apd' (sample_ipd SQL_VARCHAR 7 0 0) pd' m' 0 = Some (SQL_PARAM_SUCCESS, pd'', m')
    \<and> GetNextValue pd'' 0 = Some (TextValue (simple_type VARCHAR) ''Haybarn'')"
proof -
  have "piecewise (sample_apd SQL_C_CHAR 2000) (sample_ipd SQL_VARCHAR 7 0 0) sample_pd 0 7 5000 3000 2000 3"
    by (simp add: piecewise_def sample_apd_def sample_ipd_def make_OdbcHandleDesc_def make_DescHeader_def DescHeader_Reset_def to_int16_id Let_def)
  moreover have "load_sint 8 at_exec_memory 2000 = Some SQL_DATA_AT_EXEC"
    using load_store_int [of 2000 "\<lambda>_. CHR 0x00" "SQL_DATA_AT_EXEC"] by (simp add: at_exec_memory_def store_int_bytes to_int64_id del: le_bytes.simps)
  ultimately show ?thesis
    using put_pieces_whole [of "sample_apd SQL_C_CHAR 2000" "sample_ipd SQL_VARCHAR 7 0 0" sample_pd 0 7 5000 3000 2000 3 at_exec_memory
        "[''Hay'', ''ba'', ''rn'']" sample_desc "\<lambda>_. True"]
    by (simp add: sample_apd_def sample_ipd_def sample_desc_def Let_def)
qed

definition nts_memory :: memory where
  "nts_memory = write_bytes (store_int 8 (\<lambda>_. CHR 0x00) 2000 SQL_NTS) 1000 ''hay''"

theorem nts_indicator_overwritten_witness:
  "\<exists>pd' m' pd'' m''. SetValue (\<lambda>_. True) sample_desc (sample_apd SQL_C_CHAR 2000) (sample_ipd SQL_VARCHAR 20 0 0) sample_pd nts_memory 0
      = Some (SQL_PARAM_SUCCESS, pd', m')
    \<and> GetNextValue pd' 0 = Some (TextValue (simple_type VARCHAR) ''hay'')
    \<and> SetValue (\<lambda>_. True) sample_desc (sample_apd SQL_C_CHAR 2000) (sample_ipd SQL_VARCHAR 20 0 0) pd' (write_bytes m' 1000 (''haybarn'' @ [CHR 0x00])) 0
      = Some (SQL_PARAM_SUCCESS, pd'', m'')
    \<and> GetNextValue pd'' 0 = Some (TextValue (simple_type VARCHAR) (take (length ''hay'') ''haybarn''))"
proof (rule nts_indicator_overwritten [OF sample_bound, where d = 1000 and ind = 2000])
  show "load_sint 8 nts_memory 2000 = Some SQL_NTS"
    using load_store_int [of 2000 "\<lambda>_. CHR 0x00" "SQL_NTS"] by (simp add: nts_memory_def load_sint_disjoint to_int64_id)
  show "cstring_at nts_memory 1000 ''hay''" by (simp add: cstring_at_def nts_memory_def read_bytes_def write_bytes_def store_int_def upt_rec)
qed (simp_all add: sample_desc_def)

theorem null_indicator_binds_null_witness:
  "\<exists>pd'. SetValue (\<lambda>_. True) sample_desc (sample_apd SQL_C_SLONG 0) (sample_ipd SQL_INTEGER 4 0 0) sample_pd (\<lambda>_. CHR 0x01) 0 = Some (SQL_SUCCESS, pd', \<lambda>_. CHR 0x01)
    \<and> GetNextValue pd' 0 = Some (NullValue (simple_type VARCHAR))"
  by (rule null_indicator_binds_null
      [where ar = "sample_record\<lparr>sql_desc_type := SQL_C_SLONG, sql_desc_data_ptr := 1000, sql_desc_indicator_ptr := 0\<rparr>"])
    (simp_all add: sample_apd_def make_OdbcHandleDesc_def make_DescHeader_def DescHeader_Reset_def Let_def)

end
