(* ===== verification/Statement_Exec.thy ===== *)
theory Statement_Exec
  imports Parameter_Values
begin

text \<open>
  Binding parameters, preparing and executing statements: \<^verbatim>\<open>BindParameterStmt\<close>, \<^verbatim>\<open>PrepareQuery\<close>,
  \<^verbatim>\<open>FinalizeStmt\<close>, \<^verbatim>\<open>SingleExecuteStmt\<close>, \<^verbatim>\<open>BatchExecuteStmt\<close> and \<^verbatim>\<open>ExecDirectStmt\<close> of
  \<^verbatim>\<open>statement_functions.cpp\<close>, the entry points of \<^verbatim>\<open>statement_api.cpp\<close> and \<^verbatim>\<open>binding_api.cpp\<close>, and
  \<^verbatim>\<open>SQLFetch\<close> and \<^verbatim>\<open>SQLMoreResults\<close> of \<^verbatim>\<open>result_api.cpp\<close>.

  The state is the store of handles, the memory of the application and the state of the engine, an arbitrary
  type with the operations of the record \<open>database\<close>. An exception that leaves the C interface, and a null or dangling
  pointer that is followed, is \<open>None\<close>; the loops that need not end have fuel and an outer option.

  The theorems follow a statement through the interface: what \<^verbatim>\<open>SQLExecute\<close> and repeated \<^verbatim>\<open>SQLFetch\<close> deliver
  are the rows of the result, an array of parameter sets is executed once per set and in order, and a second
  execution with parameters does not end.
\<close>


section \<open>The engine\<close>

text \<open>The database behind a connection has the state \<open>'e\<close>: preparing a query text, splitting it into statements or
  failing, preparing one of these, and executing a prepared statement with parameter values. The remaining fields are the
  texts that \<^verbatim>\<open>FillIRD\<close> takes from it.\<close>

record 'e database =
  db_prepare :: "'e \<Rightarrow> string \<Rightarrow> PreparedStatement \<times> 'e"
  db_extract :: "'e \<Rightarrow> string \<Rightarrow> string + string list"
  db_execute :: "'e \<Rightarrow> PreparedStatement \<Rightarrow> Value list \<Rightarrow> QueryResult \<times> 'e"
  db_type_name :: "LogicalType \<Rightarrow> string"
  db_varchar_name :: string
  db_catalog_name :: string
  db_valid :: "string \<Rightarrow> bool"

type_synonym 'e exec_result = "(SQLRETURN \<times> driver \<times> memory \<times> 'e) option"

section \<open>SQLBindParameter\<close>

abbreviation (input) SQL_PARAM_INPUT :: int where "SQL_PARAM_INPUT \<equiv> 1"

text \<open>The records of the implicit descriptors are assigned, also when the statement uses an explicit one.\<close>

definition BindParameterStmt ::
  "nat \<Rightarrow> OdbcHandleStmt \<Rightarrow> driver \<Rightarrow> SQLUSMALLINT \<Rightarrow> SQLSMALLINT \<Rightarrow> SQLSMALLINT \<Rightarrow> SQLSMALLINT \<Rightarrow> SQLULEN \<Rightarrow> SQLSMALLINT
    \<Rightarrow> addr \<Rightarrow> SQLLEN \<Rightarrow> addr \<Rightarrow> (SQLRETURN \<times> driver) option" where
  "BindParameterStmt s st w parameter_number input_output_type c_value_type parameter_type column_size digits
     parameter_value_ptr buffer_length str_len_or_ind_ptr =
     (if input_output_type \<noteq> SQL_PARAM_INPUT then
        Some (stmt_post s st w SQL_ERROR ''SQLBindParameter'' ''Only SQL_PARAM_INPUT is supported.'' ST_HYC00 (stmt_dsn w st))
      else if parameter_number < 1 then
        Some (stmt_post s st w SQL_ERROR ''SQLBindParameter'' ''Invalid descriptor index.'' ST_07009 (stmt_dsn w st))
      else
        let i = nat (parameter_number - 1) in
        (case (descs w (IpdOf s), descs w (ApdOf s)) of
           (Some ipd, Some apd) \<Rightarrow>
             let (ir, ipd) = GetDescRecord ipd i; (ar, apd) = GetDescRecord apd i;
                 ir = ir\<lparr>sql_desc_parameter_type := input_output_type, sql_desc_length := column_size,
                         sql_desc_precision := to_int16 column_size, sql_desc_scale := digits\<rparr>;
                 (ret1, ir) = SetSqlDataType ir parameter_type;
                 (ret2, ar) = (if ret1 = SQL_ERROR then (SQL_SUCCESS, ar) else SetSqlDataType ar c_value_type);
                 w1 = put_desc (ApdOf s) (SetDescRecord apd i ar) (put_desc (IpdOf s) (SetDescRecord ipd i ir) w) in
             if ret1 = SQL_ERROR \<or> ret2 = SQL_ERROR then
               Some (stmt_post s st w1 SQL_ERROR ''SQLBindParameter'' ''Invalid data type.'' ST_HY004 (stmt_dsn w st))
             else
               Some (SQL_SUCCESS, put_desc (ApdOf s) (SetDescRecord apd i (ar\<lparr>sql_desc_data_ptr := parameter_value_ptr,
                 sql_desc_octet_length := buffer_length, sql_desc_indicator_ptr := str_len_or_ind_ptr,
                 sql_desc_octet_length_ptr := str_len_or_ind_ptr\<rparr>)) w1)
         | _ \<Rightarrow> None))"

definition SQLBindParameter ::
  "SQLHANDLE \<Rightarrow> SQLUSMALLINT \<Rightarrow> SQLSMALLINT \<Rightarrow> SQLSMALLINT \<Rightarrow> SQLSMALLINT \<Rightarrow> SQLULEN \<Rightarrow> SQLSMALLINT
    \<Rightarrow> addr \<Rightarrow> SQLLEN \<Rightarrow> addr \<Rightarrow> driver \<Rightarrow> (SQLRETURN \<times> driver) option" where
  "SQLBindParameter statement_handle parameter_number input_output_type c_value_type parameter_type column_size digits
     parameter_value_ptr buffer_length str_len_or_ind_ptr w =
     on_stmt w statement_handle (\<lambda>s st w. BindParameterStmt s st w parameter_number input_output_type c_value_type parameter_type
       column_size digits parameter_value_ptr buffer_length str_len_or_ind_ptr)"

section \<open>Preparing\<close>

definition PrepareQuery :: "OdbcHandleStmt \<Rightarrow> OdbcHandleStmt" where
  "PrepareQuery st = st\<lparr>stmt_stmt := None, stmt_res := None, odbc_fetcher := ClearChunks (odbc_fetcher st)\<rparr>"

definition fill_ird :: "'e database \<Rightarrow> DescRecord \<Rightarrow> nat \<Rightarrow> PreparedStatement \<Rightarrow> driver \<Rightarrow> driver option" where
  "fill_ird db u s ps w =
     map_option (\<lambda>ird. put_desc (IrdOf s) (FillIRD (db_type_name db) (db_varchar_name db) (db_catalog_name db) u ps ird) w) (descs w (IrdOf s))"

text \<open>The columns that a prepared statement describes; \<open>ps\<close> has been stored in the handle.\<close>

definition FinalizeStmt :: "'e database \<Rightarrow> DescRecord \<Rightarrow> nat \<Rightarrow> PreparedStatement \<Rightarrow> driver \<Rightarrow> (SQLRETURN \<times> driver) option" where
  "FinalizeStmt db u s ps w = do {
     st \<leftarrow> stmts w s;
     (case ps_error ps of
        Some e \<Rightarrow> Some (stmt_post s st w SQL_ERROR ''PrepareStmt'' e ST_42000 (stmt_dsn w st))
      | None \<Rightarrow> do {
          let ps = (if ps_bound_all_parameters ps then ps else ps\<lparr>ps_types := [], ps_names := []\<rparr>);
          let (ret, w) = (if ps_bound_all_parameters ps then (SQL_SUCCESS, put_stmt s (st\<lparr>stmt_stmt := Some ps\<rparr>) w)
                          else stmt_post s (st\<lparr>stmt_stmt := Some ps\<rparr>) w SQL_SUCCESS_WITH_INFO ''PrepareStmt'' ''Not all parameters are bound''
                                 ST_01000 (stmt_dsn w st));
          st \<leftarrow> stmts w s;
          w \<leftarrow> ResetParams s st (to_int16 (int (ps_named_params ps))) w;
          st \<leftarrow> stmts w s;
          let w = put_stmt s (st\<lparr>bound_cols := resize (length (ps_types ps)) make_OdbcBoundCol (bound_cols st)\<rparr>) w;
          w \<leftarrow> fill_ird db u s ps w;
          Some (ret, w) }) }"

section \<open>Executing\<close>

definition SingleExecuteStmt :: "'e database \<Rightarrow> nat \<Rightarrow> driver \<Rightarrow> memory \<Rightarrow> 'e \<Rightarrow> 'e exec_result" where
  "SingleExecuteStmt db s w m e = do {
     st \<leftarrow> stmts w s;
     let st = st\<lparr>stmt_res := None, odbc_fetcher := ClearChunks (odbc_fetcher st), stmt_open := False\<rparr>;
     let m = store_int 8 m (rows_fetched_ptr st) 0;
     (own, apd, ipd) \<leftarrow> param_descs w s st;
     (ret, values, st, m) \<leftarrow> GetParamValues (db_valid db) (stmt_dsn w st) own apd ipd st m;
     if ret = SQL_NEED_DATA \<or> ret = SQL_ERROR then Some (ret, put_stmt s st w, m, e)
     else do {
       ps \<leftarrow> stmt_stmt st;
       let (res, e) = db_execute db e ps values;
       let st = st\<lparr>stmt_res := Some res\<rparr>;
       (case qr_error res of
          Some msg \<Rightarrow>
            (let (ret, w) = stmt_post s st w SQL_ERROR ''SingleExecuteStmt'' msg ST_HY000 (stmt_dsn w st) in Some (ret, w, m, e))
        | None \<Rightarrow>
            Some (if ret = SQL_STILL_EXECUTING then SQL_STILL_EXECUTING else SQL_SUCCESS, put_stmt s (st\<lparr>stmt_open := True\<rparr>) w, m, e)) } }"

text \<open>The loop of \<^verbatim>\<open>BatchExecuteStmt\<close>; the outer option is \<open>None\<close> when the fuel does not suffice.\<close>

fun execute_sets :: "'e database \<Rightarrow> nat \<Rightarrow> nat \<Rightarrow> driver \<Rightarrow> memory \<Rightarrow> 'e \<Rightarrow> 'e exec_result option" where
  "execute_sets db 0 s w m e = None"
| "execute_sets db (Suc n) s w m e = (case SingleExecuteStmt db s w m e of
      None \<Rightarrow> Some None
    | Some (ret, w, m, e) \<Rightarrow> if ret = SQL_STILL_EXECUTING then execute_sets db n s w m e else Some (Some (ret, w, m, e)))"

definition fetch_first_chunk :: "nat \<Rightarrow> driver \<Rightarrow> (SQLRETURN \<times> driver) option" where
  "fetch_first_chunk s w = do {
     st \<leftarrow> stmts w s;
     rb \<leftarrow> row_binding_of w s;
     (ret, st) \<leftarrow> FetchFirst (stmt_dsn w st) (rb_array_size rb) st;
     Some (ret, put_stmt s st w) }"

text \<open>After an execution that bound the parameters the columns are those of the result.\<close>

definition refresh_columns :: "'e database \<Rightarrow> DescRecord \<Rightarrow> nat \<Rightarrow> driver \<Rightarrow> driver option" where
  "refresh_columns db u s w = do {
     st \<leftarrow> stmts w s;
     ps \<leftarrow> stmt_stmt st;
     if ps_bound_all_parameters ps then Some w
     else do {
       res \<leftarrow> stmt_res st;
       let ps = ps\<lparr>ps_types := qr_types res, ps_names := qr_names res\<rparr>;
       fill_ird db u s ps (put_stmt s (st\<lparr>stmt_stmt := Some ps,
         bound_cols := resize (length (ps_types ps)) make_OdbcBoundCol (bound_cols st)\<rparr>) w) } }"

definition BatchExecuteStmt :: "'e database \<Rightarrow> DescRecord \<Rightarrow> nat \<Rightarrow> nat \<Rightarrow> driver \<Rightarrow> memory \<Rightarrow> 'e \<Rightarrow> 'e exec_result option" where
  "BatchExecuteStmt db u fuel s w m e = (case execute_sets db fuel s w m e of
      None \<Rightarrow> None
    | Some None \<Rightarrow> Some None
    | Some (Some (ret, w, m, e)) \<Rightarrow> Some
        (if \<not> SQL_SUCCEEDED ret then Some (ret, w, m, e)
         else case fetch_first_chunk s w of
           None \<Rightarrow> None
         | Some (fetch_ret, w) \<Rightarrow>
             if fetch_ret = SQL_ERROR then Some (fetch_ret, w, m, e)
             else map_option (\<lambda>w. (ret, w, m, e)) (refresh_columns db u s w)))"

text \<open>The loop over the statements of \<^verbatim>\<open>ExecDirectStmt\<close>, with the flag \<^verbatim>\<open>success_with_info\<close>.\<close>

fun exec_statements ::
  "'e database \<Rightarrow> DescRecord \<Rightarrow> nat \<Rightarrow> nat \<Rightarrow> string list \<Rightarrow> SQLRETURN \<Rightarrow> bool \<Rightarrow> driver \<Rightarrow> memory \<Rightarrow> 'e \<Rightarrow> 'e exec_result option" where
  "exec_statements db u fuel s [] ret info w m e = Some (Some (if info then SQL_SUCCESS_WITH_INFO else ret, w, m, e))"
| "exec_statements db u fuel s (q # qs) ret info w m e =
     (let (ps, e) = db_prepare db e q in
      case stmts w s of
        None \<Rightarrow> Some None
      | Some st \<Rightarrow>
          (case FinalizeStmt db u s ps (put_stmt s (st\<lparr>stmt_stmt := Some ps\<rparr>) w) of
             None \<Rightarrow> Some None
           | Some (ret, w) \<Rightarrow>
               if ps_error ps \<noteq> None \<or> \<not> SQL_SUCCEEDED ret then Some (Some (ret, w, m, e))
               else
                 let info = (info \<or> ret = SQL_SUCCESS_WITH_INFO) in
                 (case BatchExecuteStmt db u fuel s w m e of
                    None \<Rightarrow> None
                  | Some None \<Rightarrow> Some None
                  | Some (Some (ret, w, m, e)) \<Rightarrow>
                      if \<not> SQL_SUCCEEDED ret then Some (Some (ret, w, m, e))
                      else exec_statements db u fuel s qs ret (info \<or> ret = SQL_SUCCESS_WITH_INFO) w m e)))"

definition ExecDirectStmt :: "'e database \<Rightarrow> DescRecord \<Rightarrow> nat \<Rightarrow> nat \<Rightarrow> string \<Rightarrow> driver \<Rightarrow> memory \<Rightarrow> 'e \<Rightarrow> 'e exec_result option" where
  "ExecDirectStmt db u fuel s query w m e = (case stmts w s of
      None \<Rightarrow> Some None
    | Some st \<Rightarrow>
        let st = PrepareQuery st in
        (case db_extract db e query of
           Inl msg \<Rightarrow> (let (ret, w) = stmt_post s st w SQL_ERROR ''SQLExecDirect'' msg ST_42000 (stmt_dsn w st) in Some (Some (ret, w, m, e)))
         | Inr statements \<Rightarrow> exec_statements db u fuel s statements SQL_SUCCESS False (put_stmt s st w) m e))"

section \<open>Entry points\<close>

definition on_stmt_exec ::
  "driver \<Rightarrow> memory \<Rightarrow> 'e \<Rightarrow> SQLHANDLE \<Rightarrow> (nat \<Rightarrow> OdbcHandleStmt \<Rightarrow> driver \<Rightarrow> 'e exec_result option) \<Rightarrow> 'e exec_result option" where
  "on_stmt_exec w m e statement_handle body = (case ConvertHSTMT w statement_handle of
      None \<Rightarrow> Some None
    | Some (Inl ret, w) \<Rightarrow> Some (Some (ret, w, m, e))
    | Some (Inr s, w) \<Rightarrow> (case stmts w s of None \<Rightarrow> Some None | Some st \<Rightarrow> body s st w))"

text \<open>\<open>text\<close> is the application's buffer.\<close>

definition PrepareInternal ::
  "'e database \<Rightarrow> DescRecord \<Rightarrow> SQLHANDLE \<Rightarrow> string option \<Rightarrow> SQLINTEGER \<Rightarrow> driver \<Rightarrow> memory \<Rightarrow> 'e \<Rightarrow> 'e exec_result option" where
  "PrepareInternal db u statement_handle text text_length w m e = on_stmt_exec w m e statement_handle (\<lambda>s st w.
     case ConvertSQLCHARToString text text_length of
       None \<Rightarrow> Some None
     | Some query \<Rightarrow>
         let (ps, e) = db_prepare db e query in
         Some (map_option (\<lambda>(ret, w). (ret, w, m, e))
           (FinalizeStmt db u s ps (put_stmt s ((PrepareQuery st)\<lparr>stmt_stmt := Some ps\<rparr>) w))))"

definition SQLExecute :: "'e database \<Rightarrow> DescRecord \<Rightarrow> nat \<Rightarrow> SQLHANDLE \<Rightarrow> driver \<Rightarrow> memory \<Rightarrow> 'e \<Rightarrow> 'e exec_result option" where
  "SQLExecute db u fuel statement_handle w m e =
     on_stmt_exec w m e statement_handle (\<lambda>s st w. BatchExecuteStmt db u fuel s w m e)"

definition ExecDirectInternal ::
  "'e database \<Rightarrow> DescRecord \<Rightarrow> nat \<Rightarrow> SQLHANDLE \<Rightarrow> string option \<Rightarrow> SQLINTEGER \<Rightarrow> driver \<Rightarrow> memory \<Rightarrow> 'e \<Rightarrow> 'e exec_result option" where
  "ExecDirectInternal db u fuel statement_handle text text_length w m e = on_stmt_exec w m e statement_handle (\<lambda>s st w.
     case ConvertSQLCHARToString text text_length of
       None \<Rightarrow> Some None
     | Some query \<Rightarrow> ExecDirectStmt db u fuel s query w m e)"

text \<open>The wide versions convert the text first.\<close>

definition wide_text :: "SQLWCHAR list option \<Rightarrow> SQLINTEGER \<Rightarrow> (string option \<times> SQLINTEGER) option" where
  "wide_text text len =
     map_option (\<lambda>conv. (if conv_utf8_str conv then Some (conv_utf8_vec conv) else None, utf8_len_int conv)) (make_utf16_conv text len)"

definition SQLPrepareW ::
  "'e database \<Rightarrow> DescRecord \<Rightarrow> SQLHANDLE \<Rightarrow> SQLWCHAR list option \<Rightarrow> SQLINTEGER \<Rightarrow> driver \<Rightarrow> memory \<Rightarrow> 'e \<Rightarrow> 'e exec_result option" where
  "SQLPrepareW db u statement_handle text text_length w m e = (case wide_text text text_length of
      None \<Rightarrow> Some None
    | Some (utf8_str, n) \<Rightarrow> PrepareInternal db u statement_handle utf8_str n w m e)"

definition SQLExecDirectW ::
  "'e database \<Rightarrow> DescRecord \<Rightarrow> nat \<Rightarrow> SQLHANDLE \<Rightarrow> SQLWCHAR list option \<Rightarrow> SQLINTEGER \<Rightarrow> driver \<Rightarrow> memory \<Rightarrow> 'e \<Rightarrow> 'e exec_result option" where
  "SQLExecDirectW db u fuel statement_handle text text_length w m e = (case wide_text text text_length of
      None \<Rightarrow> Some None
    | Some (utf8_str, n) \<Rightarrow> ExecDirectInternal db u fuel statement_handle utf8_str n w m e)"

definition ExecuteBeforeFetch :: "'e database \<Rightarrow> SQLHANDLE \<Rightarrow> driver \<Rightarrow> memory \<Rightarrow> 'e \<Rightarrow> 'e exec_result" where
  "ExecuteBeforeFetch db statement_handle w m e = (case ConvertHSTMTPrepared w statement_handle of
      None \<Rightarrow> None
    | Some (Inl ret, w) \<Rightarrow> Some (ret, w, m, e)
    | Some (Inr s, w) \<Rightarrow> do {
        st \<leftarrow> stmts w s;
        if (case stmt_res st of None \<Rightarrow> False | Some res \<Rightarrow> qr_error res = None) then Some (SQL_SUCCESS, w, m, e)
        else do {
          (own, apd, ipd) \<leftarrow> param_descs w s st;
          if HasParamSetToProcess apd ipd (param_desc st) then
            map_option (\<lambda>(ret, s). (if ret = SQL_SUCCESS \<or> ret = SQL_STILL_EXECUTING then SQL_SUCCESS else ret, s))
              (SingleExecuteStmt db s w m e)
          else Some (SQL_SUCCESS, w, m, e) } })"

definition SQLFetch ::
  "engine \<Rightarrow> int \<Rightarrow> 'e database \<Rightarrow> nat \<Rightarrow> SQLHANDLE \<Rightarrow> driver \<Rightarrow> memory \<Rightarrow> 'e \<Rightarrow> 'e exec_result option" where
  "SQLFetch eng u db fuel statement_handle w m e = (case ConvertHSTMTPrepared w statement_handle of
      None \<Rightarrow> Some None
    | Some (Inl ret, w) \<Rightarrow> Some (Some (ret, w, m, e))
    | Some (Inr s, w) \<Rightarrow>
        (case (stmts w s, row_binding_of w s) of
           (Some st, Some rb) \<Rightarrow>
             let (ret, m) = DummyFetch rb st m in
             if ret \<noteq> SQL_NEED_DATA then Some (Some (ret, w, m, e))
             else
               (case ExecuteBeforeFetch db statement_handle w m e of
                  None \<Rightarrow> Some None
                | Some (ret, w, m, e) \<Rightarrow>
                    if ret \<noteq> SQL_SUCCESS then Some (Some (ret, w, m, e))
                    else
                      (case (stmts w s, row_binding_of w s) of
                         (Some st, Some rb) \<Rightarrow>
                           map_option (\<lambda>r. map_option (\<lambda>(ret, w, m). (ret, w, m, e)) (back_to_store w s r))
                             (FetchStmtResult eng u (stmt_dsn w st) rb fuel st m SQL_FETCH_NEXT 0)
                       | _ \<Rightarrow> Some None))
         | _ \<Rightarrow> Some None))"

text \<open>\<open>interrupt\<close> is what \<^verbatim>\<open>Connection::Interrupt\<close> does to the engine.\<close>

definition SQLCancel :: "('e \<Rightarrow> 'e) \<Rightarrow> SQLHANDLE \<Rightarrow> driver \<Rightarrow> 'e \<Rightarrow> (SQLRETURN \<times> driver \<times> 'e) option" where
  "SQLCancel interrupt statement_handle w e = (case ConvertHSTMT w statement_handle of
      None \<Rightarrow> None
    | Some (Inl ret, w) \<Rightarrow> Some (ret, w, e)
    | Some (Inr s, w) \<Rightarrow> do {
        st \<leftarrow> stmts w s;
        dbc \<leftarrow> dbcs w (stmt_dbc st);
        if dbc_conn dbc then Some (SQL_SUCCESS, w, interrupt e) else None })"

definition SQLMoreResults :: "'e database \<Rightarrow> SQLHANDLE \<Rightarrow> driver \<Rightarrow> memory \<Rightarrow> 'e \<Rightarrow> 'e exec_result option" where
  "SQLMoreResults db statement_handle w m e = on_stmt_exec w m e statement_handle (\<lambda>s st w.
     case param_descs w s st of
       None \<Rightarrow> Some None
     | Some (own, apd, ipd) \<Rightarrow>
         if \<not> HasParamSetToProcess apd ipd (param_desc st) then Some (Some (SQL_NO_DATA, w, m, e))
         else Some (SingleExecuteStmt db s w m e))"

section \<open>Fetching through the interface\<close>

text \<open>A statement whose result is being fetched row by row.\<close>

definition fetching :: "nat \<Rightarrow> driver \<Rightarrow> bool" where
  "fetching s w \<longleftrightarrow> (\<exists>st dbc ps rb. stmts w s = Some st \<and> stream_ok st \<and> retrieve_data st \<noteq> SQL_RD_OFF
     \<and> dbcs w (stmt_dbc st) = Some dbc \<and> dbc_conn dbc \<and> stmt_stmt st = Some ps \<and> ps_error ps = None
     \<and> row_binding_of w s = Some rb \<and> rb_array_size rb = 1)"

definition rows_of :: "nat \<Rightarrow> driver \<Rightarrow> Value list list" where
  "rows_of s w = (case stmts w s of None \<Rightarrow> [] | Some st \<Rightarrow> remaining_rows st)"

definition row_of :: "nat \<Rightarrow> driver \<Rightarrow> Value list option" where
  "row_of s w = (case stmts w s of None \<Rightarrow> None | Some st \<Rightarrow> current_row st)"

definition api_fetch ::
  "engine \<Rightarrow> int \<Rightarrow> 'e database \<Rightarrow> nat \<Rightarrow> driver \<times> memory \<times> 'e \<Rightarrow> (SQLRETURN \<times> driver \<times> memory \<times> 'e) option" where
  "api_fetch eng u db s x = (case x of (w, m, e) \<Rightarrow>
     (case SQLFetch eng u db 0 (Some (StmtPtr s)) w m e of Some (Some r) \<Rightarrow> Some r | _ \<Rightarrow> None))"

lemma diag_irrelevant:
  "stream_ok (st\<lparr>stmt_diag := d\<rparr>) = stream_ok st" "remaining_rows (st\<lparr>stmt_diag := d\<rparr>) = remaining_rows st"
  unfolding stream_ok_def remaining_rows_def ColumnCount_def by (simp_all cong: option.case_cong)

lemma Prepared_live:
  assumes "stmts w s = Some st" "dbcs w (stmt_dbc st) = Some dbc" "dbc_conn dbc" "stmt_stmt st = Some ps" "ps_error ps = None"
  shows "ConvertHSTMTPrepared w (Some (StmtPtr s)) = Some (Inr s, put_stmt s (st\<lparr>stmt_diag := Clean (stmt_diag st)\<rparr>) w)"
  using assms by (simp add: ConvertHSTMTPrepared_def ConvertHSTMT_def)

lemma put_stmt_put_stmt [simp]: "put_stmt s a (put_stmt s b w) = put_stmt s a w"
  by (simp add: put_stmt_def)

lemma row_binding_put_stmt [simp]: "row_binding_of (put_stmt s st w) s' = row_binding_of w s'"
  by (simp add: row_binding_of_def)

text \<open>\<^verbatim>\<open>SQLFetch\<close> on such a statement is the fetch of the cursor.\<close>

lemma SQLFetch_fetching:
  assumes "stmts w s = Some st" "stream_ok st" "retrieve_data st \<noteq> SQL_RD_OFF" "dbcs w (stmt_dbc st) = Some dbc" "dbc_conn dbc"
    and "stmt_stmt st = Some ps" "ps_error ps = None" "row_binding_of w s = Some rb"
  shows "\<exists>d. api_fetch eng u db s (w, m, e) = map_option (\<lambda>(ret, st', m'). (ret, put_stmt s st' w, m', e))
    (fetch_next eng u (dbc_dsn dbc) rb 0 (st\<lparr>stmt_diag := d\<rparr>, m))"
proof -
  let ?d = "Clean (Clean (stmt_diag st))" and ?w = "put_stmt s (st\<lparr>stmt_diag := Clean (stmt_diag st)\<rparr>) w"
  obtain res where "stmt_res st = Some res" "qr_error res = None" using assms(2) by (auto simp: stream_ok_def)
  then have "ExecuteBeforeFetch db (Some (StmtPtr s)) ?w m e = Some (SQL_SUCCESS, put_stmt s (st\<lparr>stmt_diag := ?d\<rparr>) ?w, m, e)"
    using assms Prepared_live [of ?w s "st\<lparr>stmt_diag := Clean (stmt_diag st)\<rparr>" dbc ps]
    by (simp add: ExecuteBeforeFetch_def)
  then have "SQLFetch eng u db 0 (Some (StmtPtr s)) w m e = map_option (map_option (\<lambda>x. (fst x, put_stmt s (fst (snd x)) w, snd (snd x), e)))
      (FetchStmtResult eng u (dbc_dsn dbc) rb 0 (st\<lparr>stmt_diag := ?d\<rparr>) m SQL_FETCH_NEXT 0)"
    using assms Prepared_live [OF assms(1,4-7)]
    by (simp add: SQLFetch_def DummyFetch_def stmt_dsn_def back_to_store_def option.map_comp comp_def case_prod_beta)
  then show ?thesis
    by (intro exI [of _ ?d]) (auto simp: api_fetch_def fetch_next_def split: option.splits)
qed

lemma same_stream_fetching:
  assumes "same_stream st st'" "stream_ok st'" "retrieve_data st \<noteq> SQL_RD_OFF" "dbcs w (stmt_dbc st) = Some dbc" "dbc_conn dbc"
    and "stmt_stmt st = Some ps" "ps_error ps = None" "row_binding_of w s = Some rb" "rb_array_size rb = 1"
  shows "fetching s (put_stmt s st' w)"
  using assms by (auto simp: fetching_def same_stream_def)

lemma api_row:
  assumes "fetching s w" "rows_of s w = r # rs"
  shows "\<exists>w' m'. api_fetch eng u db s (w, m, e) = Some (SQL_SUCCESS, w', m', e) \<and> fetching s w' \<and> rows_of s w' = rs \<and> row_of s w' = Some r"
proof -
  obtain st dbc ps rb where st: "stmts w s = Some st" "stream_ok st" "retrieve_data st \<noteq> SQL_RD_OFF" "dbcs w (stmt_dbc st) = Some dbc" "dbc_conn dbc"
    "stmt_stmt st = Some ps" "ps_error ps = None" "row_binding_of w s = Some rb" "rb_array_size rb = 1"
    using assms(1) by (auto simp: fetching_def)
  obtain d where d: "api_fetch eng u db s (w, m, e) = map_option (\<lambda>(ret, st', m'). (ret, put_stmt s st' w, m', e))
      (fetch_next eng u (dbc_dsn dbc) rb 0 (st\<lparr>stmt_diag := d\<rparr>, m))" using SQLFetch_fetching [OF st(1-8), of eng u db m e] by blast
  obtain s' where s': "fetch_next eng u (dbc_dsn dbc) rb 0 (st\<lparr>stmt_diag := d\<rparr>, m) = Some (SQL_SUCCESS, s')" "stream_ok (fst s')"
      "remaining_rows (fst s') = rs" "current_row (fst s') = Some r" "same_stream (st\<lparr>stmt_diag := d\<rparr>) (fst s')"
    using stream_row [of "st\<lparr>stmt_diag := d\<rparr>" r rs rb eng u "dbc_dsn dbc" 0 m] assms(2) st by (auto simp: diag_irrelevant rows_of_def)
  have "same_stream st (fst s')" using s'(5) by (simp add: same_stream_def)
  then show ?thesis
    using d s' same_stream_fetching [OF _ s'(2) st(3-9)] by (auto simp: rows_of_def row_of_def split: prod.splits)
qed

lemma api_end:
  assumes "fetching s w" "rows_of s w = []"
  shows "\<exists>w' m'. api_fetch eng u db s (w, m, e) = Some (SQL_NO_DATA, w', m', e) \<and> fetching s w' \<and> rows_of s w' = []"
proof -
  obtain st dbc ps rb where st: "stmts w s = Some st" "stream_ok st" "retrieve_data st \<noteq> SQL_RD_OFF" "dbcs w (stmt_dbc st) = Some dbc" "dbc_conn dbc"
    "stmt_stmt st = Some ps" "ps_error ps = None" "row_binding_of w s = Some rb" "rb_array_size rb = 1"
    using assms(1) by (auto simp: fetching_def)
  obtain d where d: "api_fetch eng u db s (w, m, e) = map_option (\<lambda>(ret, st', m'). (ret, put_stmt s st' w, m', e))
      (fetch_next eng u (dbc_dsn dbc) rb 0 (st\<lparr>stmt_diag := d\<rparr>, m))" using SQLFetch_fetching [OF st(1-8), of eng u db m e] by blast
  obtain s' where s': "fetch_next eng u (dbc_dsn dbc) rb 0 (st\<lparr>stmt_diag := d\<rparr>, m) = Some (SQL_NO_DATA, s')" "stream_ok (fst s')"
      "remaining_rows (fst s') = []" "same_stream (st\<lparr>stmt_diag := d\<rparr>) (fst s')"
    using stream_end [of "st\<lparr>stmt_diag := d\<rparr>" eng u "dbc_dsn dbc" rb 0 m] assms(2) st by (auto simp: diag_irrelevant rows_of_def)
  have "same_stream st (fst s')" using s'(4) by (simp add: same_stream_def)
  then show ?thesis
    using d s' same_stream_fetching [OF _ s'(2) st(3-9)] by (auto simp: rows_of_def split: prod.splits)
qed

interpretation api: row_stream "\<lambda>x. fetching s (fst x)" "\<lambda>x. rows_of s (fst x)" "\<lambda>x. row_of s (fst x)" "api_fetch eng u db s"
proof
  fix x :: "driver \<times> memory \<times> 'a" and r rs
  assume "fetching s (fst x)" "rows_of s (fst x) = r # rs"
  then show "\<exists>x'. api_fetch eng u db s x = Some (SQL_SUCCESS, x') \<and> fetching s (fst x') \<and> rows_of s (fst x') = rs \<and> row_of s (fst x') = Some r"
    using api_row [of s "fst x" r rs eng u db "fst (snd x)" "snd (snd x)"] by auto
next
  fix x :: "driver \<times> memory \<times> 'a"
  assume "fetching s (fst x)" "rows_of s (fst x) = []"
  then show "\<exists>x'. api_fetch eng u db s x = Some (SQL_NO_DATA, x') \<and> fetching s (fst x') \<and> rows_of s (fst x') = []"
    using api_end [of s "fst x" eng u db "fst (snd x)" "snd (snd x)"] by auto
qed

section \<open>Executing and fetching\<close>

text \<open>A statement that is ready to execute: prepared, on a live connection, forward-only, with one row per fetch and no bound
  column, and with the descriptors in place.\<close>

definition executable_stmt :: "nat \<Rightarrow> driver \<Rightarrow> OdbcHandleStmt \<Rightarrow> PreparedStatement \<Rightarrow> bool" where
  "executable_stmt s w st ps \<longleftrightarrow> stmts w s = Some st \<and> stmt_stmt st = Some ps \<and> ps_error ps = None \<and> ps_bound_all_parameters ps
     \<and> retrieve_data st \<noteq> SQL_RD_OFF \<and> cursor_type (odbc_fetcher st) = SQL_CURSOR_FORWARD_ONLY
     \<and> bound_cols st \<noteq> [] \<and> list_all unbound (bound_cols st) \<and> length (ps_types ps) \<le> length (bound_cols st)
     \<and> (\<exists>dbc. dbcs w (stmt_dbc st) = Some dbc \<and> dbc_conn dbc)
     \<and> (\<exists>rb. row_binding_of w s = Some rb \<and> rb_array_size rb = 1)"

lemma FetchFirst_result:
  assumes "stmt_res st = Some res" "qr_error res = None" "qr_pending res = map FetchChunk cs" "\<forall>c \<in> set cs. c \<noteq> [] \<and> length c < 2 ^ 62"
    and "odbc_fetcher st = ClearChunks f" "cursor_type f = SQL_CURSOR_FORWARD_ONLY"
  shows "\<exists>ret st'. FetchFirst dsn n st = Some (ret, st') \<and> ret \<noteq> SQL_ERROR \<and> same_stream st st' \<and> chunk_ok (odbc_fetcher st')
    \<and> (\<exists>res' cs'. stmt_res st' = Some res' \<and> qr_error res' = None \<and> qr_pending res' = map FetchChunk cs' \<and> set cs' \<subseteq> set cs
         \<and> (resultset_end (odbc_fetcher st') \<longrightarrow> cs' = []))
    \<and> remaining_rows st' = concat cs"
proof (cases cs)
  case Nil
  then show ?thesis
    using assms
    by (simp add: FetchFirst_def FetchNextChunk_def SetFirstCurrentChunk_def BeforeStart_def ClearChunks_def FetchNext_def result_Fetch_def
        same_stream_def chunk_ok_def remaining_rows_def deref_chunk_def Let_def)
next
  case (Cons c cs')
  then obtain r rs where c: "c = r # rs" using assms(4) by (cases c) auto
  show ?thesis
    using assms Cons c
    by (simp add: FetchFirst_def FetchNextChunk_def SetFirstCurrentChunk_def BeforeStart_def ClearChunks_def FetchNext_def result_Fetch_def
        SetCurrentChunk_def add_chunk_def same_stream_def chunk_ok_def remaining_rows_def deref_chunk_def comp_def Let_def)
      (intro exI [of _ cs'], auto)
qed

lemma single_execute:
  assumes "stmts w s = Some st" "stmt_stmt st = Some ps" "param_descs w s st = Some (own, apd, ipd)" "desc_records ipd = []"
    and "db_execute db e ps [] = (res, e')" "qr_error res = None"
  shows "SingleExecuteStmt db s w m e = Some (SQL_SUCCESS,
    put_stmt s (st\<lparr>odbc_fetcher := ClearChunks (odbc_fetcher st), stmt_res := Some res, stmt_open := True\<rparr>) w,
    store_int 8 m (rows_fetched_ptr st) 0, e')"
proof -
  have "param_descs w s (st\<lparr>stmt_res := r, odbc_fetcher := f, stmt_open := b\<rparr>) = Some (own, apd, ipd)" for r f b
    using assms(3) by (simp add: param_descs_def GetAPD_def)
  then show ?thesis using assms(1,2,4-6) by (simp add: SingleExecuteStmt_def GetParamValues_def Let_def)
qed

lemma executed_fetching:
  assumes "executable_stmt s w st ps" "stmt_res st1 = Some res" "qr_error res = None" "qr_pending res = map FetchChunk cs"
    and "\<forall>c \<in> set cs. c \<noteq> [] \<and> length c < 2 ^ 62" "odbc_fetcher st1 = ClearChunks (odbc_fetcher st)" "stmt_open st1"
    and "bound_cols st1 = bound_cols st" "stmt_stmt st1 = stmt_stmt st" "stmt_dbc st1 = stmt_dbc st" "retrieve_data st1 = retrieve_data st"
  shows "\<exists>ret st'. fetch_first_chunk s (put_stmt s st1 w) = Some (ret, put_stmt s st' w) \<and> ret \<noteq> SQL_ERROR \<and> same_stream st1 st'
    \<and> fetching s (put_stmt s st' w) \<and> remaining_rows st' = concat cs
    \<and> refresh_columns db u s (put_stmt s st' w) = Some (put_stmt s st' w) \<and> executable_stmt s (put_stmt s st' w) st' ps"
proof -
  note ex = assms(1) [unfolded executable_stmt_def]
  then obtain rb where rb: "row_binding_of w s = Some rb" "rb_array_size rb = 1" by blast
  obtain ret st' where st': "FetchFirst (stmt_dsn (put_stmt s st1 w) st1) (rb_array_size rb) st1 = Some (ret, st')" "ret \<noteq> SQL_ERROR"
    "same_stream st1 st'" "chunk_ok (odbc_fetcher st')"
    "\<exists>res' cs'. stmt_res st' = Some res' \<and> qr_error res' = None \<and> qr_pending res' = map FetchChunk cs' \<and> set cs' \<subseteq> set cs
         \<and> (resultset_end (odbc_fetcher st') \<longrightarrow> cs' = [])" "remaining_rows st' = concat cs"
    using FetchFirst_result [OF assms(2-6)] ex by metis
  have "fetch_first_chunk s (put_stmt s st1 w) = Some (ret, put_stmt s st' w)"
    using rb(1) st'(1) by (simp add: fetch_first_chunk_def)
  moreover have same: "stmt_stmt st' = Some ps" "bound_cols st' = bound_cols st" "stmt_dbc st' = stmt_dbc st" "retrieve_data st' = retrieve_data st"
      "stmt_open st'" "cursor_type (odbc_fetcher st') = SQL_CURSOR_FORWARD_ONLY"
    using st'(3) assms(6-11) ex by (simp_all add: same_stream_def ClearChunks_def)
  moreover have "stream_ok st'"
    using st'(4,5) same ex assms(5) unfolding stream_ok_def ColumnCount_def by (simp, blast)
  then have "fetching s (put_stmt s st' w)" using same ex rb by (simp add: fetching_def)
  moreover have "refresh_columns db u s (put_stmt s st' w) = Some (put_stmt s st' w)" using same(1) ex by (simp add: refresh_columns_def)
  moreover have "executable_stmt s (put_stmt s st' w) st' ps" using same ex by (simp add: executable_stmt_def)
  ultimately show ?thesis using st'(2,3,6) by blast
qed

text \<open>C1: executing and fetching delivers the result of the query: on a prepared statement without parameters and with a
  forward-only cursor, when the engine executes it to a result with the chunks \<open>cs\<close>, \<^verbatim>\<open>SQLExecute\<close> succeeds, executes it once,
  and an application that then calls \<^verbatim>\<open>SQLFetch\<close> until it answers \<^verbatim>\<open>SQL_NO_DATA\<close> is positioned, one after
  the other, on exactly the rows of these chunks.\<close>

theorem execute_fetch_delivers_result:
  assumes "executable_stmt s w st ps" "param_descs w s st = Some (own, apd, ipd)" "desc_records ipd = []"
    and "db_execute db e ps [] = (res, e')" "qr_error res = None" "qr_pending res = map FetchChunk cs"
    and "\<forall>c \<in> set cs. c \<noteq> [] \<and> length c < 2 ^ 62" "length (concat cs) < n"
  shows "\<exists>w' m' x. SQLExecute db u0 1 (Some (StmtPtr s)) w m e = Some (Some (SQL_SUCCESS, w', m', e'))
    \<and> drain (api_fetch eng u db s) (\<lambda>x. row_of s (fst x)) n (w', m', e') = Some (concat cs, x)"
proof -
  note ex = assms(1) [unfolded executable_stmt_def]
  define st0 where "st0 = st\<lparr>stmt_diag := Clean (stmt_diag st)\<rparr>"
  define w0 where "w0 = put_stmt s st0 w"
  have ex0: "executable_stmt s w0 st0 ps" using ex by (simp add: executable_stmt_def w0_def st0_def)
  have desc0: "param_descs w0 s st0 = Some (own, apd, ipd)" using assms(2) by (simp add: param_descs_def GetAPD_def w0_def st0_def)
  have conv: "ConvertHSTMT w (Some (StmtPtr s)) = Some (Inr s, w0)" using ex by (auto simp: ConvertHSTMT_def w0_def st0_def)
  define st1 where "st1 = st0\<lparr>odbc_fetcher := ClearChunks (odbc_fetcher st0), stmt_res := Some res, stmt_open := True\<rparr>"
  define m1 where "m1 = store_int 8 m (rows_fetched_ptr st0) 0"
  have single: "SingleExecuteStmt db s w0 m e = Some (SQL_SUCCESS, put_stmt s st1 w0, m1, e')"
    using single_execute [OF _ _ desc0 assms(3-5)] ex0 by (simp add: executable_stmt_def st1_def m1_def)
  obtain ret w' where w': "fetch_first_chunk s (put_stmt s st1 w0) = Some (ret, w')" "ret \<noteq> SQL_ERROR" "fetching s w'" "rows_of s w' = concat cs"
    "refresh_columns db u0 s w' = Some w'"
    using executed_fetching [OF ex0, of st1 res cs db u0] assms(5-7) by (auto simp: st1_def rows_of_def)
  have "stmts w0 s = Some st0" by (simp add: w0_def)
  then have "SQLExecute db u0 1 (Some (StmtPtr s)) w m e = Some (Some (SQL_SUCCESS, w', m1, e'))"
    using conv single w' by (simp add: SQLExecute_def on_stmt_exec_def BatchExecuteStmt_def)
  moreover have "\<exists>x. drain (api_fetch eng u db s) (\<lambda>x. row_of s (fst x)) n (w', m1, e') = Some (concat cs, x)"
    using api.drain_all [of s "(w', m1, e')" n eng u db] w'(3,4) assms(8) by auto
  ultimately show ?thesis by blast
qed

section \<open>Sets of parameters\<close>

text \<open>The parameters are integers of 1, 2, 4 or 8 bytes, each bound column-wise to an array of integers of the C type of its
  own size and to an array of indicators, without a bind offset; each of the first \<open>K\<close> indicators is a length or
  \<^verbatim>\<open>SQL_NULL_DATA\<close>. Status array and counter of the processed sets are not bound.\<close>

definition integer_type :: "SQLSMALLINT \<Rightarrow> LogicalTypeId \<times> nat" where
  "integer_type t = (if t = SQL_TINYINT then (TINYINT, 1) else if t = SQL_SMALLINT then (SMALLINT, 2) else if t = SQL_INTEGER then (INTEGER, 4) else (BIGINT, 8))"

definition integer_types :: "(SQLSMALLINT \<times> SQLSMALLINT) set" where
  "integer_types = {(SQL_TINYINT, SQL_C_STINYINT), (SQL_SMALLINT, SQL_C_SSHORT), (SQL_INTEGER, SQL_C_SLONG), (SQL_BIGINT, SQL_C_SBIGINT)}"

definition int_params :: "OdbcHandleDesc \<Rightarrow> OdbcHandleDesc \<Rightarrow> memory \<Rightarrow> nat \<Rightarrow> bool" where
  "int_params apd ipd m K \<longleftrightarrow> desc_records ipd \<noteq> [] \<and> sql_desc_array_status_ptr (desc_header ipd) = nullptr
     \<and> sql_desc_rows_processed_ptr (desc_header ipd) = nullptr
     \<and> (\<forall>r < length (desc_records ipd). r < length (desc_records apd)
          \<and> bound_param apd ipd r (desc_records apd ! r) (desc_records ipd ! r)
          \<and> (sql_desc_type (desc_records ipd ! r), sql_desc_type (desc_records apd ! r)) \<in> integer_types
          \<and> (\<forall>k < K. \<exists>i. load_sint 8 m (sql_desc_indicator_ptr (desc_records apd ! r) + 8 * k) = Some i
               \<and> (i = SQL_NULL_DATA \<or> 0 \<le> i \<and> i < 2 ^ 62)))"

text \<open>The values of set \<open>k\<close>: NULL where the indicator says so, otherwise element \<open>k\<close> of the array.\<close>

definition int_set :: "OdbcHandleDesc \<Rightarrow> OdbcHandleDesc \<Rightarrow> memory \<Rightarrow> nat \<Rightarrow> Value list" where
  "int_set apd ipd m k =
     map (\<lambda>r. let ar = desc_records apd ! r; (t, n) = integer_type (sql_desc_type (desc_records ipd ! r)) in
            if load_sint 8 m (sql_desc_indicator_ptr ar + 8 * k) = Some SQL_NULL_DATA then NullValue (simple_type VARCHAR)
            else IntValue (simple_type t) (le_sint (read_bytes m (sql_desc_data_ptr ar + k * n) n))) [0..<length (desc_records ipd)]"

lemma length_int_set: "length (int_set apd ipd m k) = length (desc_records ipd)"
  by (simp add: int_set_def)

lemma SetValue_int:
  assumes "int_params apd ipd m K" "r < length (desc_records ipd)" "paramset_idx pd < K"
  shows "SetValue valid own apd ipd pd m r
    = Some (SQL_SUCCESS, pd\<lparr>pd_values := store_value (pd_values pd) (int_set apd ipd m (paramset_idx pd) ! r) r\<rparr>, m)"
proof -
  let ?ar = "desc_records apd ! r" and ?ir = "desc_records ipd ! r"
  obtain i where i: "load_sint 8 m (sql_desc_indicator_ptr ?ar + 8 * paramset_idx pd) = Some i" "i = SQL_NULL_DATA \<or> 0 \<le> i \<and> i < 2 ^ 62"
    using assms unfolding int_params_def by blast
  have b: "bound_param apd ipd r ?ar ?ir" and t: "(sql_desc_type ?ir, sql_desc_type ?ar) \<in> integer_types"
    using assms(1,2) unfolding int_params_def by blast+
  show ?thesis
  proof (cases "i = SQL_NULL_DATA")
    case True
    then show ?thesis using SetValue_null [OF b, of m pd valid own] i(1) assms(2) by (simp add: int_set_def Let_def split: prod.split)
  next
    case False
    then have "0 \<le> i \<or> i = SQL_NTS" "i < 2 ^ 62" using i(2) by simp_all
    note read = SetValue_read [OF b i(1) this, of valid own]
    have "read_value valid own ?ar ?ir m r (paramset_idx pd) (sql_desc_data_ptr ?ar) (sql_desc_indicator_ptr ?ar + 8 * paramset_idx pd) i
        = Some (Inr (int_set apd ipd m (paramset_idx pd) ! r, m))"
      using t i(1) assms(2) False unfolding integer_types_def
      by (elim insertE emptyE; simp add: integer_type_def read_value_def is_char_param_def switch_value_def LoadFromSet_def int_set_def Let_def)
    then show ?thesis using read by simp
  qed
qed

lemma param_step_int:
  assumes "int_params apd ipd m K" "r < length (desc_records ipd)" "paramset_idx (param_desc st) = k" "k < K" "r \<le> length (pd_values (param_desc st))"
  shows "param_step valid dsn own apd ipd r (values, st, m) = Some (None, values @ [int_set apd ipd m k ! r],
    st\<lparr>param_desc := (param_desc st)\<lparr>pd_values := store_value (pd_values (param_desc st)) (int_set apd ipd m k ! r) r\<rparr>\<rparr>, m)"
  using SetValue_int [OF assms(1,2), of "param_desc st" valid own] assms(1,3,4) store_value_at [OF assms(5)]
  by (simp add: param_step_def set_status_def int_params_def GetNextValue_def Let_def del: at_eq_Some)

lemma param_loop_int:
  assumes "int_params apd ipd m K" "j + r = length (desc_records ipd)" "paramset_idx (param_desc st) = k" "k < K" "r \<le> length (pd_values (param_desc st))"
  shows "\<exists>vs. param_loop (param_step valid dsn own apd ipd) [r..<length (desc_records ipd)] (acc, st, m)
    = Some (None, acc @ drop r (int_set apd ipd m k), st\<lparr>param_desc := (param_desc st)\<lparr>pd_values := vs\<rparr>\<rparr>, m)"
  using assms
proof (induction j arbitrary: r acc st)
  case 0
  then show ?case by (intro exI [of _ "pd_values (param_desc st)"]) (simp add: int_set_def)
next
  case (Suc j)
  let ?v = "int_set apd ipd m k ! r" and ?n = "length (desc_records ipd)"
  let ?st = "st\<lparr>param_desc := (param_desc st)\<lparr>pd_values := store_value (pd_values (param_desc st)) ?v r\<rparr>\<rparr>"
  have r: "r < ?n" "[r..<?n] = r # [Suc r..<?n]" "drop r (int_set apd ipd m k) = ?v # drop (Suc r) (int_set apd ipd m k)"
    using Suc.prems(2) upt_conv_Cons [of r ?n] Cons_nth_drop_Suc [of r "int_set apd ipd m k"] length_int_set by simp_all
  have "Suc r \<le> length (pd_values (param_desc ?st))" using Suc.prems(5) by (simp add: store_value_def)
  then show ?case
    using Suc.IH [of "Suc r" ?st "acc @ [?v]"] Suc.prems r param_step_int [OF Suc.prems(1) r(1) Suc.prems(3-5)] by simp
qed

lemma GetParamValues_int:
  assumes "int_params apd ipd m K" "paramset_idx (param_desc st) = k" "k < K" "int k + 1 < 2 ^ 64"
  shows "\<exists>vs. GetParamValues valid dsn own apd ipd st m = Some (if int (Suc k) = sql_desc_array_size (desc_header apd) then SQL_SUCCESS else SQL_STILL_EXECUTING,
    int_set apd ipd m k, st\<lparr>param_desc := (param_desc st)\<lparr>pd_values := vs, paramset_idx := Suc k\<rparr>\<rparr>, m)"
proof -
  obtain vs where "param_loop (param_step valid dsn own apd ipd) [0..<length (desc_records ipd)] ([], st, m)
      = Some (None, int_set apd ipd m k, st\<lparr>param_desc := (param_desc st)\<lparr>pd_values := vs\<rparr>\<rparr>, m)"
    using param_loop_int [of apd ipd m K "length (desc_records ipd)" 0 st k valid dsn own "[]"] assms(1-3) by auto
  then show ?thesis
    using assms(1,2,4) by (auto simp: GetParamValues_def SetParamIndex_def int_params_def store_int_def to_uint64_id nat_add_distrib Let_def)
qed

section \<open>The loop over the sets\<close>

text \<open>The statement before the execution of set \<open>k\<close>.\<close>

definition at_set :: "nat \<Rightarrow> PreparedStatement \<Rightarrow> OdbcHandleDesc \<times> OdbcHandleDesc \<times> OdbcHandleDesc \<Rightarrow> nat \<Rightarrow> driver \<Rightarrow> bool" where
  "at_set s ps ds k w \<longleftrightarrow> (\<exists>st. executable_stmt s w st ps \<and> param_descs w s st = Some ds \<and> paramset_idx (param_desc st) = k
     \<and> rows_fetched_ptr st = nullptr)"

text \<open>An engine that executes the statement successfully, whatever the values, to a result of non-empty chunks.\<close>

definition executes :: "'e database \<Rightarrow> PreparedStatement \<Rightarrow> bool" where
  "executes db ps \<longleftrightarrow> (\<forall>e vs. qr_error (fst (db_execute db e ps vs)) = None
     \<and> (\<exists>cs. qr_pending (fst (db_execute db e ps vs)) = map FetchChunk cs \<and> (\<forall>c \<in> set cs. c \<noteq> [] \<and> length c < 2 ^ 62)))"

lemma put_stmt_same: "stmts w s = Some st \<Longrightarrow> put_stmt s st w = w"
  by (cases w) (auto simp: put_stmt_def)

lemma execute_set:
  assumes "at_set s ps (own, apd, ipd) k w" "int_params apd ipd m K" "k < K" "int k + 1 < 2 ^ 64" "executes db ps"
  shows "\<exists>w'. SingleExecuteStmt db s w m e
      = Some (if int (Suc k) = sql_desc_array_size (desc_header apd) then SQL_SUCCESS else SQL_STILL_EXECUTING, w', m,
          snd (db_execute db e ps (int_set apd ipd m k)))
    \<and> at_set s ps (own, apd, ipd) (Suc k) w'
    \<and> (\<exists>ret w''. fetch_first_chunk s w' = Some (ret, w'') \<and> ret \<noteq> SQL_ERROR \<and> refresh_columns db u s w'' = Some w''
         \<and> at_set s ps (own, apd, ipd) (Suc k) w'')"
proof -
  obtain st where st: "executable_stmt s w st ps" "param_descs w s st = Some (own, apd, ipd)" "paramset_idx (param_desc st) = k" "rows_fetched_ptr st = nullptr"
    using assms(1) by (auto simp: at_set_def)
  note ex = st(1) [unfolded executable_stmt_def]
  define st0 where "st0 = st\<lparr>stmt_res := None, odbc_fetcher := ClearChunks (odbc_fetcher st), stmt_open := False\<rparr>"
  define res where "res = fst (db_execute db e ps (int_set apd ipd m k))"
  have "paramset_idx (param_desc st0) = k" using st(3) by (simp add: st0_def)
  then obtain vs where vs: "GetParamValues (db_valid db) (stmt_dsn w st0) own apd ipd st0 m
      = Some (if int (Suc k) = sql_desc_array_size (desc_header apd) then SQL_SUCCESS else SQL_STILL_EXECUTING,
          int_set apd ipd m k, st0\<lparr>param_desc := (param_desc st0)\<lparr>pd_values := vs, paramset_idx := Suc k\<rparr>\<rparr>, m)"
    using GetParamValues_int [OF assms(2) _ assms(3,4)] by blast
  define st1 where "st1 = st0\<lparr>param_desc := (param_desc st0)\<lparr>pd_values := vs, paramset_idx := Suc k\<rparr>, stmt_res := Some res, stmt_open := True\<rparr>"
  have descs: "param_descs w s st0 = Some (own, apd, ipd)" using st(2) by (simp add: param_descs_def GetAPD_def st0_def)
  have engine: "qr_error res = None" "\<exists>cs. qr_pending res = map FetchChunk cs \<and> (\<forall>c \<in> set cs. c \<noteq> [] \<and> length c < 2 ^ 62)"
    using assms(5) unfolding executes_def res_def by blast+
  have "SingleExecuteStmt db s w m e = Some (if int (Suc k) = sql_desc_array_size (desc_header apd) then SQL_SUCCESS else SQL_STILL_EXECUTING,
      put_stmt s st1 w, m, snd (db_execute db e ps (int_set apd ipd m k)))"
    using ex vs descs engine(1) st(4)
    by (simp add: SingleExecuteStmt_def Let_def st0_def st1_def res_def store_int_def stmt_dsn_def case_prod_beta)
  moreover have ex1: "executable_stmt s (put_stmt s st1 w) st1 ps"
    using ex by (simp add: executable_stmt_def st1_def st0_def ClearChunks_def)
  then have "at_set s ps (own, apd, ipd) (Suc k) (put_stmt s st1 w)"
    using descs st(4) unfolding at_set_def by (intro exI [of _ st1]) (simp add: st1_def st0_def param_descs_def GetAPD_def)
  moreover obtain cs where cs: "qr_pending res = map FetchChunk cs" "\<forall>c \<in> set cs. c \<noteq> [] \<and> length c < 2 ^ 62" using engine(2) by blast
  obtain ret st' where st': "fetch_first_chunk s (put_stmt s st1 w) = Some (ret, put_stmt s st' w)" "ret \<noteq> SQL_ERROR" "same_stream st1 st'"
      "refresh_columns db u s (put_stmt s st' w) = Some (put_stmt s st' w)" "executable_stmt s (put_stmt s st' w) st' ps"
    using executed_fetching [OF ex1, of st1 res cs db u] engine(1) cs by (auto simp: st1_def st0_def ClearChunks_def)
  moreover have "at_set s ps (own, apd, ipd) (Suc k) (put_stmt s st' w)"
    using st'(3,5) descs st(4) unfolding at_set_def
    by (intro exI [of _ st']) (simp add: same_stream_def st1_def st0_def param_descs_def GetAPD_def)
  ultimately show ?thesis by blast
qed

text \<open>The engine after the sets \<open>k\<close> to \<open>n - 1\<close> have been executed in this order.\<close>

definition run_sets :: "'e database \<Rightarrow> PreparedStatement \<Rightarrow> (nat \<Rightarrow> Value list) \<Rightarrow> nat \<Rightarrow> nat \<Rightarrow> 'e \<Rightarrow> 'e" where
  "run_sets db ps vals k n e = fold (\<lambda>i e. snd (db_execute db e ps (vals i))) [k..<n] e"

lemma execute_sets_all:
  assumes "at_set s ps (own, apd, ipd) k w" "int_params apd ipd m K" "k + Suc j \<le> K" "int K < 2 ^ 64" "executes db ps"
    and "sql_desc_array_size (desc_header apd) = int (k + Suc j)" "Suc j \<le> fuel"
  shows "\<exists>w'. execute_sets db fuel s w m e = Some (Some (SQL_SUCCESS, w', m, run_sets db ps (int_set apd ipd m) k (k + Suc j) e))
    \<and> (\<exists>ret w''. fetch_first_chunk s w' = Some (ret, w'') \<and> ret \<noteq> SQL_ERROR \<and> refresh_columns db u s w'' = Some w''
         \<and> at_set s ps (own, apd, ipd) (k + Suc j) w'')"
  using assms
proof (induction j arbitrary: k w e fuel)
  case 0
  then obtain n where n: "fuel = Suc n" by (cases fuel) auto
  have k: "k < K" "int k + 1 < 2 ^ 64" "int (Suc k) = sql_desc_array_size (desc_header apd)" using "0.prems" by simp_all
  show ?case
    using execute_set [OF "0.prems"(1,2) k(1,2) "0.prems"(5), of e u] k(3) n by (auto simp: run_sets_def)
next
  case (Suc j)
  then obtain n where n: "fuel = Suc n" "Suc j \<le> n" by (cases fuel) auto
  have k: "k < K" "int k + 1 < 2 ^ 64" "int (Suc k) \<noteq> sql_desc_array_size (desc_header apd)" using Suc.prems by simp_all
  obtain w1 where w1: "SingleExecuteStmt db s w m e = Some (SQL_STILL_EXECUTING, w1, m, snd (db_execute db e ps (int_set apd ipd m k)))"
    "at_set s ps (own, apd, ipd) (Suc k) w1"
    using execute_set [OF Suc.prems(1,2) k(1,2) Suc.prems(5), of e u] k(3) by auto
  have "run_sets db ps (int_set apd ipd m) k (k + Suc (Suc j)) e
      = run_sets db ps (int_set apd ipd m) (Suc k) (Suc k + Suc j) (snd (db_execute db e ps (int_set apd ipd m k)))"
    by (simp add: run_sets_def upt_conv_Cons del: upt_Suc)
  then show ?case
    using Suc.IH [OF w1(2) Suc.prems(2) _ Suc.prems(4,5) _ n(2), of "snd (db_execute db e ps (int_set apd ipd m k))"] Suc.prems(3,6) w1(1) n(1)
    by simp
qed

lemma execute_sets_past_end:
  assumes "at_set s ps (own, apd, ipd) k w" "int_params apd ipd m K" "k + fuel \<le> K" "int K < 2 ^ 64" "executes db ps"
    and "sql_desc_array_size (desc_header apd) \<le> int k"
  shows "execute_sets db fuel s w m e = None"
  using assms
proof (induction fuel arbitrary: k w e)
  case (Suc n)
  have k: "k < K" "int k + 1 < 2 ^ 64" "int (Suc k) \<noteq> sql_desc_array_size (desc_header apd)" using Suc.prems by simp_all
  obtain w1 where w1: "SingleExecuteStmt db s w m e = Some (SQL_STILL_EXECUTING, w1, m, snd (db_execute db e ps (int_set apd ipd m k)))"
    "at_set s ps (own, apd, ipd) (Suc k) w1"
    using execute_set [OF Suc.prems(1,2) k(1,2) Suc.prems(5), of e sample_record] k(3) by auto
  show ?case using Suc.IH [OF w1(2) Suc.prems(2) _ Suc.prems(4,5)] Suc.prems(3,6) w1(1) by simp
qed simp

lemma at_set_clean:
  assumes "at_set s ps ds k w"
  shows "\<exists>w0. (\<forall>body. on_stmt_exec w m e (Some (StmtPtr s)) body = (case stmts w0 s of None \<Rightarrow> Some None | Some st \<Rightarrow> body s st w0))
    \<and> (\<exists>st. stmts w0 s = Some st) \<and> at_set s ps ds k w0"
proof -
  obtain st where st: "executable_stmt s w st ps" "param_descs w s st = Some ds" "paramset_idx (param_desc st) = k" "rows_fetched_ptr st = nullptr"
    using assms by (auto simp: at_set_def)
  let ?st = "st\<lparr>stmt_diag := Clean (stmt_diag st)\<rparr>"
  let ?w = "put_stmt s ?st w"
  have "ConvertHSTMT w (Some (StmtPtr s)) = Some (Inr s, ?w)"
    using st(1) by (auto simp: executable_stmt_def ConvertHSTMT_def)
  moreover have "at_set s ps ds k ?w"
    using st unfolding at_set_def by (intro exI [of _ ?st]) (simp add: executable_stmt_def param_descs_def GetAPD_def)
  ultimately show ?thesis by (intro exI [of _ ?w]) (simp add: on_stmt_exec_def)
qed

lemma SQLExecute_sets:
  assumes "at_set s ps (own, apd, ipd) 0 w" "int_params apd ipd m K" "0 < N" "N \<le> K" "int K < 2 ^ 64" "executes db ps"
    and "sql_desc_array_size (desc_header apd) = int N"
  shows "\<exists>w'. SQLExecute db u N (Some (StmtPtr s)) w m e = Some (Some (SQL_SUCCESS, w', m, run_sets db ps (int_set apd ipd m) 0 N e))
    \<and> at_set s ps (own, apd, ipd) N w'"
proof -
  obtain w0 where w0: "\<forall>body. on_stmt_exec w m e (Some (StmtPtr s)) body = (case stmts w0 s of None \<Rightarrow> Some None | Some st \<Rightarrow> body s st w0)"
    "\<exists>st. stmts w0 s = Some st" "at_set s ps (own, apd, ipd) 0 w0" using at_set_clean [OF assms(1), of m e] by blast
  obtain j where j: "N = Suc j" using assms(3) by (cases N) auto
  show ?thesis
    using execute_sets_all [OF w0(3) assms(2) _ assms(5,6), of j N e u] assms(4,7) w0(1,2) j
    by (auto simp: SQLExecute_def BatchExecuteStmt_def simp del: execute_sets.simps)
qed

section \<open>Executing again\<close>

text \<open>\<^verbatim>\<open>ParameterDescriptor::Reset\<close>, which \<^verbatim>\<open>SQLCloseCursor\<close> calls, goes back to the first set. Of the descriptors it clears only the
  counts in their headers.\<close>

definition no_count :: "OdbcHandleDesc \<Rightarrow> OdbcHandleDesc" where
  "no_count d = d\<lparr>desc_header := (desc_header d)\<lparr>sql_desc_count := 0\<rparr>\<rparr>"

lemma no_count_params [simp]: "int_params (no_count apd) (no_count ipd) m K = int_params apd ipd m K" "int_set (no_count apd) (no_count ipd) m = int_set apd ipd m"
  by (simp_all add: no_count_def int_params_def int_set_def bound_param_def fun_eq_iff)

lemma Reset_descs:
  assumes "param_descs w s st = Some (own, apd, ipd)"
  shows "\<exists>w'. ParameterDescriptor_Reset s st w = Some w' \<and> dbcs w' = dbcs w
    \<and> stmts w' = (stmts w)(s \<mapsto> st\<lparr>param_desc := (param_desc st)\<lparr>pool_allocated_ptr := [], paramset_idx := 0, cur_paramset_idx := 0, cur_param_idx := 0\<rparr>\<rparr>)
    \<and> descs w' = (\<lambda>p. if p = IpdOf s \<or> p = GetAPD st then map_option no_count (descs w p) else descs w p)"
proof -
  have d: "descs w (IpdOf s) = Some ipd" "descs w (GetAPD st) = Some apd" using assms by (auto simp: param_descs_def split: option.splits)
  have n: "no_count (no_count x) = no_count x" "x\<lparr>desc_header := (desc_header x)\<lparr>sql_desc_count := 0\<rparr>\<rparr> = no_count x" for x by (simp_all add: no_count_def)
  show ?thesis using d by (auto simp: ParameterDescriptor_Reset_def set_header_def put_desc_def put_stmt_def n fun_eq_iff)
qed

lemma close_at_set:
  assumes "at_set s ps (own, apd, ipd) k w"
  shows "\<exists>w' own'. SQLCloseCursor (Some (StmtPtr s)) w = Some (SQL_SUCCESS, w') \<and> at_set s ps (own', no_count apd, no_count ipd) 0 w'"
proof -
  obtain st where st: "executable_stmt s w st ps" "param_descs w s st = Some (own, apd, ipd)" "rows_fetched_ptr st = nullptr"
    using assms by (auto simp: at_set_def)
  note ex = st(1) [unfolded executable_stmt_def]
  define w0 where "w0 = put_stmt s (st\<lparr>stmt_diag := Clean (stmt_diag st)\<rparr>) w"
  define st0 where "st0 = st\<lparr>stmt_diag := Clean (stmt_diag st), stmt_open := False, stmt_res := None, odbc_fetcher := ClearChunks (odbc_fetcher st)\<rparr>"
  have w0: "ConvertHSTMT w (Some (StmtPtr s)) = Some (Inr s, w0)" "dbcs w0 = dbcs w" "descs w0 = descs w" "GetAPD st0 = GetAPD st"
    "stmts w0 s = Some (st\<lparr>stmt_diag := Clean (stmt_diag st)\<rparr>)"
    using ex by (auto simp: ConvertHSTMT_def w0_def st0_def put_stmt_def GetAPD_def)
  then have "param_descs w0 s st0 = Some (own, apd, ipd)" using st(2) by (simp add: param_descs_def)
  from Reset_descs [OF this, unfolded w0(2-4)] obtain w' where w': "ParameterDescriptor_Reset s st0 w0 = Some w'" "dbcs w' = dbcs w"
    "stmts w' s = Some (st0\<lparr>param_desc := (param_desc st0)\<lparr>pool_allocated_ptr := [], paramset_idx := 0, cur_paramset_idx := 0, cur_param_idx := 0\<rparr>\<rparr>)"
    "descs w' = (\<lambda>p. if p = IpdOf s \<or> p = GetAPD st then map_option no_count (descs w p) else descs w p)"
    using w0 by auto
  let ?st = "st0\<lparr>param_desc := (param_desc st0)\<lparr>pool_allocated_ptr := [], paramset_idx := 0, cur_paramset_idx := 0, cur_param_idx := 0\<rparr>\<rparr>"
  have "SQLCloseCursor (Some (StmtPtr s)) w = Some (SQL_SUCCESS, w')"
    using w0(1,5) w'(1) by (simp add: SQLCloseCursor_def on_stmt_def CloseStmt_def stmt_Close_def st0_def)
  moreover have state: "paramset_idx (param_desc ?st) = 0" "rows_fetched_ptr ?st = nullptr" using st(3) by (simp_all add: st0_def)
  moreover have "row_binding_of w' s = row_binding_of w s"
    unfolding row_binding_of_def w'(4) by (auto simp: no_count_def split: option.split)
  then have "executable_stmt s w' ?st ps" using ex w'(2,3) by (simp add: executable_stmt_def st0_def ClearChunks_def)
  moreover have "\<exists>own'. param_descs w' s ?st = Some (own', no_count apd, no_count ipd)"
    using st(2) unfolding param_descs_def w'(4) by (auto simp: GetAPD_def st0_def split: option.splits)
  ultimately show ?thesis
    using st(3) unfolding at_set_def by (intro exI [of _ w']) (metis (no_types, lifting) state)
qed

text \<open>C2: an array of parameter sets is executed completely and in order: for a statement that is prepared on an open
  connection, forward-only and without bound columns (\<open>at_set\<close>), whose parameters are integers of 1 to 8 bytes, bound to arrays of \<open>N\<close> integers of the C type of the same size and of \<open>N\<close> indicators
  (\<open>int_params\<close>), and an engine that executes it each time successfully to a result of
  non-empty chunks (\<open>executes\<close>), \<^verbatim>\<open>SQLExecute\<close> returns
  \<^verbatim>\<open>SQL_SUCCESS\<close> after executing the statement exactly once for each of the \<open>N\<close> sets, first to last, with the
  elements of the arrays as its values, or NULL where the indicator is \<^verbatim>\<open>SQL_NULL_DATA\<close>, and no more often.\<close>

theorem parameter_sets_executed_in_order:
  assumes "at_set s ps (own, apd, ipd) 0 w" "int_params apd ipd m N" "0 < N" "int N < 2 ^ 64" "executes db ps"
    and "sql_desc_array_size (desc_header apd) = int N"
  shows "\<exists>w'. SQLExecute db u N (Some (StmtPtr s)) w m e = Some (Some (SQL_SUCCESS, w', m, run_sets db ps (int_set apd ipd m) 0 N e))"
  using SQLExecute_sets [OF assms(1-3) order_refl assms(4-6)] by blast

text \<open>C16: a statement can be executed again after its cursor was closed: for a statement as in the previous theorem that was executed
  for its \<open>N\<close> sets, \<^verbatim>\<open>SQLCloseCursor\<close> succeeds, and the next \<^verbatim>\<open>SQLExecute\<close> returns after executing the statement
  for the same sets once more, in order, with the values the arrays hold then. (Without closing, it starts behind the last set; see
  \<open>second_execute_never_returns\<close>.)\<close>

theorem closed_statement_executes_again:
  assumes "at_set s ps (own, apd, ipd) 0 w" "int_params apd ipd m N" "int_params apd ipd m2 N" "0 < N" "int N < 2 ^ 64" "executes db ps"
    and "sql_desc_array_size (desc_header apd) = int N"
  shows "\<exists>w1 e1 w2 w3. SQLExecute db u N (Some (StmtPtr s)) w m e = Some (Some (SQL_SUCCESS, w1, m, e1))
    \<and> SQLCloseCursor (Some (StmtPtr s)) w1 = Some (SQL_SUCCESS, w2)
    \<and> SQLExecute db u N (Some (StmtPtr s)) w2 m2 e1 = Some (Some (SQL_SUCCESS, w3, m2, run_sets db ps (int_set apd ipd m2) 0 N e1))"
proof -
  obtain w1 e1 where 1: "SQLExecute db u N (Some (StmtPtr s)) w m e = Some (Some (SQL_SUCCESS, w1, m, e1))" "at_set s ps (own, apd, ipd) N w1"
    using SQLExecute_sets [OF assms(1,2,4) order_refl assms(5-7)] by blast
  obtain w2 own' where 2: "SQLCloseCursor (Some (StmtPtr s)) w1 = Some (SQL_SUCCESS, w2)" "at_set s ps (own', no_count apd, no_count ipd) 0 w2"
    using close_at_set [OF 1(2)] by blast
  have "sql_desc_array_size (desc_header (no_count apd)) = int N" using assms(7) by (simp add: no_count_def)
  with SQLExecute_sets [OF 2(2), of m2 N N db u e1] assms(3-6) show ?thesis using 1(1) 2(1) by auto
qed

text \<open>A second execution without closing the cursor or resetting the parameters first does not end: after \<^verbatim>\<open>SQLExecute\<close> of a
  statement with integer parameters and one set,
  calling \<^verbatim>\<open>SQLExecute\<close> again executes the statement over and over, with parameter values
  from beyond the arrays of the application: for every number of iterations during which these memory locations still hold
  indicators that are not negative or NULL, the loop has not returned. (A debug build stops at the assertion of
  \<^verbatim>\<open>HasParamSetToProcess\<close>.)\<close>

theorem second_execute_never_returns:
  assumes "at_set s ps (own, apd, ipd) 0 w" "int_params apd ipd m (Suc fuel)" "int (Suc fuel) < 2 ^ 64" "executes db ps"
    and "sql_desc_array_size (desc_header apd) = 1"
  shows "\<exists>w' e'. SQLExecute db u 1 (Some (StmtPtr s)) w m e = Some (Some (SQL_SUCCESS, w', m, e'))
    \<and> SQLExecute db u fuel (Some (StmtPtr s)) w' m e' = None"
proof -
  obtain w2 e' where 1: "SQLExecute db u 1 (Some (StmtPtr s)) w m e = Some (Some (SQL_SUCCESS, w2, m, e'))" "at_set s ps (own, apd, ipd) 1 w2"
    using SQLExecute_sets [OF assms(1,2) _ _ assms(3,4), of 1 u e] assms(5) by auto
  obtain w3 where w3: "\<forall>body. on_stmt_exec w2 m e' (Some (StmtPtr s)) body = (case stmts w3 s of None \<Rightarrow> Some None | Some st \<Rightarrow> body s st w3)"
    "\<exists>st. stmts w3 s = Some st" "at_set s ps (own, apd, ipd) 1 w3" using at_set_clean [OF 1(2), of m e'] by blast
  have "execute_sets db fuel s w3 m e' = None"
    using execute_sets_past_end [OF w3(3) assms(2) _ assms(3,4)] assms(5) by simp
  then have "SQLExecute db u fuel (Some (StmtPtr s)) w2 m e' = None"
    using w3(1,2) by (auto simp: SQLExecute_def BatchExecuteStmt_def)
  with 1(1) show ?thesis by blast
qed

text \<open>Executing a statement that was never prepared throws: \<^verbatim>\<open>SQLExecute\<close> on a new statement handle
  follows the null pointer to the prepared statement, instead of reporting a function sequence error.\<close>

theorem execute_unprepared_throws:
  assumes "stmts w s = Some st" "stmt_stmt st = None" "dbcs w (stmt_dbc st) = Some dbc" "dbc_conn dbc"
    and "param_descs w s st = Some (own, apd, ipd)" "desc_records ipd = []"
  shows "SQLExecute db u (Suc fuel) (Some (StmtPtr s)) w m e = Some None"
proof -
  have "param_descs (put_stmt s st' w) s (st\<lparr>stmt_diag := d, stmt_res := r, odbc_fetcher := f, stmt_open := b\<rparr>) = Some (own, apd, ipd)" for st' d r f b
    using assms(5) by (simp add: param_descs_def GetAPD_def)
  then show ?thesis
    using assms(1-4,6)
    by (simp add: SQLExecute_def on_stmt_exec_def ConvertHSTMT_def BatchExecuteStmt_def SingleExecuteStmt_def GetParamValues_def Let_def)
qed

section \<open>Witnesses\<close>

text \<open>An engine whose state is the list of the executions, and that answers each with two rows.\<close>

definition sample_database :: "Value list list database" where
  "sample_database = \<lparr>db_prepare = \<lambda>e q. (\<lparr>ps_error = None, ps_types = [], ps_names = [], ps_bound_all_parameters = True, ps_named_params = 0, ps_row_changes = False\<rparr>, e),
     db_extract = \<lambda>e q. Inr [q], db_execute = \<lambda>e ps vs. (\<lparr>qr_error = None, qr_types = [], qr_names = [], qr_pending = map FetchChunk [sample_rows 2]\<rparr>, e @ [vs]),
     db_type_name = \<lambda>t. [], db_varchar_name = ''VARCHAR'', db_catalog_name = ''system'', db_valid = \<lambda>_. True\<rparr>"

definition sample_driver :: "OdbcHandleStmt \<Rightarrow> OdbcHandleDesc \<Rightarrow> OdbcHandleDesc \<Rightarrow> driver" where
  "sample_driver st apd ipd = \<lparr>envs = \<lambda>_. None, dbcs = [1 \<mapsto> (make_OdbcHandleDbc 0 0)\<lparr>dbc_conn := True\<rparr>], stmts = [2 \<mapsto> st],
     descs = [ApdOf 2 \<mapsto> apd, IpdOf 2 \<mapsto> ipd, ArdOf 2 \<mapsto> sample_desc, IrdOf 2 \<mapsto> sample_desc], next_handle = 3\<rparr>"

abbreviation sample_ps :: PreparedStatement where
  "sample_ps \<equiv> \<lparr>ps_error = None, ps_types = [\<lparr>lt_id = INTEGER, lt_width = 0, lt_scale = 0\<rparr>], ps_names = [''i''],
     ps_bound_all_parameters = True, ps_named_params = 0, ps_row_changes = False\<rparr>"

lemma sample_executable: "executable_stmt 2 (sample_driver (sample_stream []) apd ipd) (sample_stream []) sample_ps"
  by (simp add: executable_stmt_def sample_driver_def sample_stream_def sample_fetch_def unbound_def make_OdbcBoundCol_def IsBound_def
      IsVarcharBound_def row_binding_of_def sample_desc_def make_OdbcHandleDesc_def make_DescHeader_def DescHeader_Reset_def)

lemma sample_param_descs: "param_descs (sample_driver (sample_stream []) apd ipd) 2 (sample_stream []) = Some (apd, apd, ipd)"
  by (simp add: param_descs_def sample_driver_def GetAPD_def sample_stream_def sample_fetch_def)

lemma sample_at_set: "at_set 2 sample_ps (apd, apd, ipd) 0 (sample_driver (sample_stream []) apd ipd)"
  unfolding at_set_def using sample_executable sample_param_descs
  by (intro exI [of _ "sample_stream []"]) (simp add: sample_stream_def sample_fetch_def)

lemma sample_executes: "executes sample_database sample_ps"
  unfolding executes_def by (auto simp: sample_database_def sample_rows_def intro!: exI [of _ "[sample_rows 2]"])

theorem execute_fetch_delivers_result_witness:
  "\<exists>w' m' x. SQLExecute sample_database sample_record 1 (Some (StmtPtr 2)) (sample_driver (sample_stream []) sample_desc (sample_desc\<lparr>desc_records := []\<rparr>)) (\<lambda>_. CHR 0x00) []
      = Some (Some (SQL_SUCCESS, w', m', [[]]))
    \<and> drain (api_fetch sample_engine 0 sample_database 2) (\<lambda>x. row_of 2 (fst x)) 3 (w', m', [[]]) = Some (concat [sample_rows 2], x)"
  by (rule execute_fetch_delivers_result [OF sample_executable sample_param_descs, where
        res = "\<lparr>qr_error = None, qr_types = [], qr_names = [], qr_pending = map FetchChunk [sample_rows 2]\<rparr>"])
    (simp_all add: sample_database_def sample_rows_def)

definition sample_sets :: OdbcHandleDesc where
  "sample_sets = (let d = sample_apd SQL_C_SLONG 2000 in d\<lparr>desc_header := (desc_header d)\<lparr>sql_desc_array_size := 3\<rparr>\<rparr>)"

lemma zero_indicator: "p \<noteq> nullptr \<Longrightarrow> load_sint 8 (\<lambda>_. CHR 0x00) p = Some 0"
  by (simp add: load_sint_def read_bytes_def le_sint_def map_replicate_const numeral_eq_Suc)

lemma sample_int_params:
  "int_params (sample_apd SQL_C_SLONG 2000) (sample_ipd SQL_INTEGER 4 0 0) (\<lambda>_. CHR 0x00) K"
  "int_params sample_sets (sample_ipd SQL_INTEGER 4 0 0) (\<lambda>_. CHR 0x00) K"
proof -
  show one: "int_params (sample_apd SQL_C_SLONG 2000) (sample_ipd SQL_INTEGER 4 0 0) (\<lambda>_. CHR 0x00) K"
    using sample_bound [of 4 SQL_C_SLONG SQL_INTEGER 0 0]
    by (simp add: int_params_def sample_ipd_def sample_apd_def make_OdbcHandleDesc_def make_DescHeader_def DescHeader_Reset_def zero_indicator integer_types_def Let_def)
  then show "int_params sample_sets (sample_ipd SQL_INTEGER 4 0 0) (\<lambda>_. CHR 0x00) K"
    by (simp add: int_params_def bound_param_def sample_sets_def Let_def)
qed

theorem parameter_sets_executed_in_order_witness:
  "\<exists>w'. SQLExecute sample_database sample_record 3 (Some (StmtPtr 2)) (sample_driver (sample_stream []) sample_sets (sample_ipd SQL_INTEGER 4 0 0)) (\<lambda>_. CHR 0x00) []
    = Some (Some (SQL_SUCCESS, w', \<lambda>_. CHR 0x00, run_sets sample_database sample_ps (int_set sample_sets (sample_ipd SQL_INTEGER 4 0 0) (\<lambda>_. CHR 0x00)) 0 3 []))"
  by (rule parameter_sets_executed_in_order [OF sample_at_set sample_int_params(2) _ _ sample_executes]) (simp_all add: sample_sets_def Let_def)

theorem closed_statement_executes_again_witness:
  "\<exists>w1 e1 w2 w3. SQLExecute sample_database sample_record 3 (Some (StmtPtr 2)) (sample_driver (sample_stream []) sample_sets (sample_ipd SQL_INTEGER 4 0 0)) (\<lambda>_. CHR 0x00) []
      = Some (Some (SQL_SUCCESS, w1, \<lambda>_. CHR 0x00, e1))
    \<and> SQLCloseCursor (Some (StmtPtr 2)) w1 = Some (SQL_SUCCESS, w2)
    \<and> SQLExecute sample_database sample_record 3 (Some (StmtPtr 2)) w2 (\<lambda>_. CHR 0x00) e1
      = Some (Some (SQL_SUCCESS, w3, \<lambda>_. CHR 0x00, run_sets sample_database sample_ps (int_set sample_sets (sample_ipd SQL_INTEGER 4 0 0) (\<lambda>_. CHR 0x00)) 0 3 e1))"
  by (rule closed_statement_executes_again [OF sample_at_set sample_int_params(2) sample_int_params(2) _ _ sample_executes])
    (simp_all add: sample_sets_def Let_def)

theorem second_execute_never_returns_witness:
  "\<exists>w' e'. SQLExecute sample_database sample_record 1 (Some (StmtPtr 2))
      (sample_driver (sample_stream []) (sample_apd SQL_C_SLONG 2000) (sample_ipd SQL_INTEGER 4 0 0)) (\<lambda>_. CHR 0x00) []
      = Some (Some (SQL_SUCCESS, w', \<lambda>_. CHR 0x00, e'))
    \<and> SQLExecute sample_database sample_record 1000000 (Some (StmtPtr 2)) w' (\<lambda>_. CHR 0x00) e' = None"
  by (rule second_execute_never_returns [OF sample_at_set sample_int_params(1) _ sample_executes])
    (simp_all add: sample_apd_def make_OdbcHandleDesc_def make_DescHeader_def DescHeader_Reset_def Let_def)

theorem execute_unprepared_throws_witness:
  "SQLExecute sample_database sample_record (Suc 0) (Some (StmtPtr 2))
      (sample_driver (sample_fetch 0 False []) sample_desc (sample_desc\<lparr>desc_records := []\<rparr>)) (\<lambda>_. CHR 0x00) [] = Some None"
  by (rule execute_unprepared_throws [where st = "sample_fetch 0 False []" and dbc = "(make_OdbcHandleDbc 0 0)\<lparr>dbc_conn := True\<rparr>"
        and own = sample_desc and apd = sample_desc and ipd = "sample_desc\<lparr>desc_records := []\<rparr>"])
    (simp_all add: sample_driver_def sample_fetch_def param_descs_def GetAPD_def)

end
