(* ===== verification/Session_Init.thy ===== *)
theory Session_Init
  imports Statement_Exec
begin

text \<open>
  The session initialisation file: \<^verbatim>\<open>connect/session_init.cpp\<close>. A data source may name an SQL file,
  with an optional SHA-256 checksum, whose first part is run when the database is created and whose second
  part, after a marker comment, is run for every connection.

  The file system and the hash function are the record \<open>file_system\<close>: the functions of
  \<^verbatim>\<open>common/file_io.cpp\<close>, which only call the operating system, and \<^verbatim>\<open>picosha2::hash256\<close> as a
  lower-case hexadecimal string. A thrown \<^verbatim>\<open>FileIOException\<close> is \<open>Inl\<close> of its message. The queries are run
  through the statement functions of \<open>Statement_Exec\<close>; local buffers lie at the address \<open>frame\<close>.

  The theorems show how the file is split at the marker, that a file with a checksum is only used when the
  checksum is that of its content, and two limits of the implementation: a checksum in upper case is never
  accepted, and an error message longer than the local buffer is read beyond it.
\<close>

section \<open>Reading the file\<close>

record SessionInitSQLFile =
  db_init_sql :: string
  conn_init_sql :: string
  orig_file_text :: string

definition no_SQLFile :: SessionInitSQLFile where
  "no_SQLFile = \<lparr>db_init_sql = [], conn_init_sql = [], orig_file_text = []\<rparr>"

definition SQLFile_IsEmpty :: "SessionInitSQLFile \<Rightarrow> bool" where
  "SQLFile_IsEmpty f \<longleftrightarrow> db_init_sql f = [] \<and> conn_init_sql f = [] \<and> orig_file_text f = []"

definition SQL_FILE_MAX_SIZE_BYTES :: nat where "SQL_FILE_MAX_SIZE_BYTES = 1048576"

definition SQL_FILE_OPTION :: string where "SQL_FILE_OPTION = ''session_init_sql_file''"

definition SQL_FILE_SHA256_OPTION :: string where "SQL_FILE_SHA256_OPTION = ''session_init_sql_file_sha256''"

record file_system =
  FileExists :: "string \<Rightarrow> bool"
  FileSizeBytes :: "string \<Rightarrow> string + nat"
  FileReadToString :: "string \<Rightarrow> nat \<Rightarrow> string + string"
  fs_hash256 :: "string \<Rightarrow> string"

text \<open>The regular expression of the marker: the opening of a comment, white space, the name, white space, the
  closing of the comment. The result is what follows the match at the front.\<close>

definition strip_prefix :: "string \<Rightarrow> string \<Rightarrow> string option" where
  "strip_prefix p s = (if take (length p) s = p then Some (drop (length p) s) else None)"

definition MARKER_NAME :: string where "MARKER_NAME = ''DUCKDB_CONNECTION_INIT_BELOW_MARKER''"

definition match_marker :: "string \<Rightarrow> string option" where
  "match_marker s = do {
     s \<leftarrow> strip_prefix ''/*'' s;
     s \<leftarrow> strip_prefix MARKER_NAME (dropWhile IsSpace s);
     strip_prefix ''*/'' (dropWhile IsSpace s) }"

fun find_marker :: "string \<Rightarrow> (string \<times> string) option" where
  "find_marker [] = None"
| "find_marker (c # cs) = (case match_marker (c # cs) of
      Some post \<Rightarrow> Some ([], post)
    | None \<Rightarrow> map_option (\<lambda>(pre, post). (c # pre, post)) (find_marker cs))"

lemma strip_prefix_iff: "strip_prefix p s = Some r \<longleftrightarrow> s = p @ r"
  unfolding strip_prefix_def by (metis append_eq_conv_conj option.inject option.distinct(1))

text \<open>What the regular expression matches.\<close>

lemma match_marker_iff:
  "match_marker s = Some r \<longleftrightarrow> (\<exists>v1 v2. s = ''/*'' @ v1 @ MARKER_NAME @ v2 @ ''*/'' @ r \<and> list_all IsSpace v1 \<and> list_all IsSpace v2)"
  (is "_ \<longleftrightarrow> ?match")
proof
  assume "match_marker s = Some r"
  then obtain s1 s2 where s: "s = ''/*'' @ s1" "dropWhile IsSpace s1 = MARKER_NAME @ s2" "dropWhile IsSpace s2 = ''*/'' @ r"
    unfolding match_marker_def by (auto simp only: bind_eq_Some_conv strip_prefix_iff)
  have "s1 = takeWhile IsSpace s1 @ MARKER_NAME @ takeWhile IsSpace s2 @ ''*/'' @ r"
    by (simp only: s(3) [symmetric] takeWhile_dropWhile_id s(2) [symmetric])
  moreover have "list_all IsSpace (takeWhile IsSpace x)" for x by (auto simp: list_all_iff dest: set_takeWhileD)
  ultimately show ?match using s(1) by blast
next
  assume ?match
  then obtain v1 v2 where v: "s = ''/*'' @ v1 @ MARKER_NAME @ v2 @ ''*/'' @ r" "\<forall>x\<in>set v1. IsSpace x" "\<forall>x\<in>set v2. IsSpace x"
    by (auto simp only: list_all_iff)
  have 1: "dropWhile IsSpace (v1 @ MARKER_NAME @ y) = MARKER_NAME @ y" for y
    using v(2) by (simp add: dropWhile_append2) (simp add: MARKER_NAME_def IsSpace_def)
  have 2: "dropWhile IsSpace (v2 @ ''*/'' @ r) = ''*/'' @ r"
    using v(3) by (simp add: dropWhile_append2 IsSpace_def)
  show "match_marker s = Some r"
    unfolding v(1) match_marker_def by (simp only: strip_prefix_iff [THEN iffD2, OF refl] bind.simps 1 2)
qed

lemma find_marker_shorter: "find_marker s = Some (pre, post) \<Longrightarrow> length post < length s"
proof (induction s arbitrary: pre)
  case (Cons c cs)
  show ?case
  proof (cases "match_marker (c # cs)")
    case None
    then show ?thesis using Cons by fastforce
  next
    case (Some r)
    then have "length r < length (c # cs)" by (auto simp only: match_marker_iff length_append) simp
    then show ?thesis using Some Cons.prems by simp
  qed
qed simp

text \<open>The parts between the matches; a rest after the last match is a part only when it is not empty.\<close>

function SplitByMarker :: "string \<Rightarrow> string list" where
  "SplitByMarker s = (case find_marker s of
      None \<Rightarrow> [s]
    | Some (pre, post) \<Rightarrow> pre # (if post = [] then [] else SplitByMarker post))"
  by pat_completeness auto
termination
  by (relation "measure length") (auto simp: find_marker_shorter)

declare SplitByMarker.simps [simp del]

definition ascii_lower :: "string \<Rightarrow> string" where
  "ascii_lower = map (\<lambda>c. let n = of_char c :: nat in
     if 65 \<le> n \<and> n \<le> 90 then char_of (n + 32) else c)"

definition CONN_INIT_MARKER :: string where
  "CONN_INIT_MARKER = ''/'' @ [CHR 0x5C] @ ''*'' @ [CHR 0x5C] @ ''s*'' @ MARKER_NAME @ [CHR 0x5C] @ ''s*'' @ [CHR 0x5C] @ ''*/''"

definition ReadSQLFile :: "file_system \<Rightarrow> string \<Rightarrow> string \<Rightarrow> string + SessionInitSQLFile" where
  "ReadSQLFile fs file sha256 =
     (if file = [] then Inr no_SQLFile
      else if \<not> FileExists fs file then Inl (''Specified session init SQL file not found, path: '' @ file)
      else case FileSizeBytes fs file of
        Inl msg \<Rightarrow> Inl msg
      | Inr file_size \<Rightarrow>
          if file_size > SQL_FILE_MAX_SIZE_BYTES then
            Inl (''Specified session init SQL file size: '' @ to_string (int file_size)
                 @ '' exceeds max allowed size: '' @ to_string (int SQL_FILE_MAX_SIZE_BYTES))
          else (case FileReadToString fs file file_size of
              Inl msg \<Rightarrow> Inl msg
            | Inr text \<Rightarrow>
                if sha256 \<noteq> [] \<and> fs_hash256 fs text \<noteq> sha256 then
                  Inl (''Session init SQL file SHA-256 mismatch, expected: '' @ ascii_lower sha256
                       @ '', actual: '' @ fs_hash256 fs text)
                else
                  let parts = SplitByMarker text in
                  if length parts > 2 then
                    Inl (''Connection init marker: '' @ [CHR 0x27] @ CONN_INIT_MARKER @ [CHR 0x27] @ '' can only be specified once'')
                  else Inr \<lparr>db_init_sql = TrimString (parts ! 0),
                            conn_init_sql = (if length parts = 2 then TrimString (parts ! 1) else []),
                            orig_file_text = text\<rparr>))"

section \<open>Running the queries\<close>

text \<open>The text of the first diagnostic record of a statement, through local buffers of 6 and 1024 bytes. The
  length that \<^verbatim>\<open>SQLGetDiagRec\<close> reports is taken as the number of bytes in the buffer, so that a longer
  message is read beyond it.\<close>

definition first_diagnostic :: "addr \<Rightarrow> OdbcHandleStmt \<Rightarrow> memory \<Rightarrow> (string \<times> OdbcHandleStmt) option" where
  "first_diagnostic frame st m =
     (let msg_len_ptr = frame + 16; msg_buf = frame + 24 in
      case GetDiagRecInternal False SQL_HANDLE_STMT (Some (STMT, Some (stmt_diag st))) 1 m frame (frame + 8) msg_buf 1024 msg_len_ptr of
        None \<Rightarrow> None
      | Some (diag_ret, handle, m) \<Rightarrow>
          let st = (case handle of Some (_, Some d) \<Rightarrow> st\<lparr>stmt_diag := d\<rparr> | _ \<Rightarrow> st);
              msg_len = le_sint (read_bytes m msg_len_ptr 2) in
          if \<not> SQL_SUCCEEDED diag_ret then Some (''N/A'', st)
          else if msg_len < 0 \<or> msg_len > 1024 then None
          else Some (read_bytes m frame 5 @ '': '' @ read_bytes m msg_buf (nat msg_len), st))"

definition RunQueryWithStmt ::
  "'e database \<Rightarrow> garbage \<Rightarrow> DescRecord \<Rightarrow> addr \<Rightarrow> nat \<Rightarrow> nat \<Rightarrow> string \<Rightarrow> driver \<Rightarrow> memory \<Rightarrow> 'e \<Rightarrow> 'e exec_result option" where
  "RunQueryWithStmt db g u frame fuel c query w m e = (case SQLAllocHandle g SQL_HANDLE_STMT (Some (DbcPtr c)) w of
      None \<Rightarrow> Some None
    | Some (alloc_ret, hstmt, w) \<Rightarrow>
        if \<not> SQL_SUCCEEDED alloc_ret then
          Some (map_option (\<lambda>dbc. let (ret, w) = dbc_post c dbc w alloc_ret ''SQLDriverConnect''
                   (''Connection init error: cannot allocate statement handle, SQL:'' @ [CHR 0x0A] @ query) ST_HY000 [] in (ret, w, m, e)) (dbcs w c))
        else
          (case ExecDirectInternal db u fuel hstmt (Some (query @ [CHR 0x00])) (to_int16 (int (length query))) w m e of
             None \<Rightarrow> None
           | Some None \<Rightarrow> Some None
           | Some (Some (exec_ret, w, m, e)) \<Rightarrow> Some (do {
               w \<leftarrow> (if SQL_SUCCEEDED exec_ret then Some w
                    else (case hstmt of
                        Some (StmtPtr s) \<Rightarrow> do {
                          st \<leftarrow> stmts w s;
                          (message, st) \<leftarrow> first_diagnostic frame st m;
                          let w = put_stmt s st w;
                          dbc \<leftarrow> dbcs w c;
                          Some (snd (dbc_post c dbc w exec_ret ''SQLDriverConnect''
                            (''Connection init error:'' @ [CHR 0x0A] @ message @ [CHR 0x0A] @ query) ST_42000 [])) }
                      | _ \<Rightarrow> None));
               (_, w) \<leftarrow> SQLFreeStmt hstmt SQL_CLOSE w;
               (_, w) \<leftarrow> FreeHandle SQL_HANDLE_STMT hstmt w;
               Some (exec_ret, w, m, e) })))"

definition SessionInit_Run ::
  "'e database \<Rightarrow> garbage \<Rightarrow> DescRecord \<Rightarrow> addr \<Rightarrow> nat \<Rightarrow> nat \<Rightarrow> SessionInitSQLFile \<Rightarrow> bool \<Rightarrow> driver \<Rightarrow> memory \<Rightarrow> 'e \<Rightarrow> 'e exec_result option" where
  "SessionInit_Run db g u frame fuel c sql_file db_created w m e =
     (let run = (\<lambda>skip query w m e k. if skip \<or> query = [] then k w m e
            else case RunQueryWithStmt db g u frame fuel c query w m e of
              Some (Some (ret, w, m, e)) \<Rightarrow> if \<not> SQL_SUCCEEDED ret then Some (Some (ret, w, m, e)) else k w m e
            | r \<Rightarrow> r) in
      run (\<not> db_created) (db_init_sql sql_file) w m e (\<lambda>w m e.
        run False (conn_init_sql sql_file) w m e (\<lambda>w m e.
          Some (map_option (\<lambda>dbc. let (ret, w) = dbc_post c dbc w SQL_SUCCESS_WITH_INFO ''SQLDriverConnect''
                  (''Session init SQL:'' @ [CHR 0x0A] @ orig_file_text sql_file) ST_01000 [] in (ret, w, m, e)) (dbcs w c)))))"

section \<open>Properties\<close>

text \<open>No match of the marker has a slash in its interior.\<close>

lemma marker_no_slash: "CHR ''/'' \<notin> set MARKER_NAME"
  by (simp add: MARKER_NAME_def)

lemma prefix_before: "x \<notin> set i \<Longrightarrow> u @ x # y = i @ x # r \<Longrightarrow> \<exists>z. u = i @ z"
proof (induction i arbitrary: u)
  case (Cons c i)
  then show ?case by (cases u) auto
qed simp

lemma match_marker_before_slash:
  assumes "match_marker (u @ CHR ''/'' # y) = Some r" "u \<noteq> []"
  shows "match_marker (u @ ''/'') \<noteq> None"
proof -
  obtain v1 v2 where v: "u @ CHR ''/'' # y = ''/*'' @ v1 @ MARKER_NAME @ v2 @ ''*/'' @ r"
    "list_all IsSpace v1" "list_all IsSpace v2" using assms(1) by (auto simp only: match_marker_iff)
  let ?i = "''*'' @ v1 @ MARKER_NAME @ v2 @ ''*''"
  have sp: "CHR ''/'' \<notin> set v" if "list_all IsSpace v" for v using that by (auto simp: list_all_iff IsSpace_def)
  have ni: "CHR ''/'' \<notin> set ?i" using sp v(2,3) marker_no_slash by auto
  obtain u' where u: "u = CHR ''/'' # u'" "u' @ CHR ''/'' # y = ?i @ CHR ''/'' # r"
    using v(1) assms(2) by (cases u) auto
  have "\<exists>z. u' = ?i @ z" by (rule prefix_before [OF ni u(2)])
  then obtain z where z: "u' = ?i @ z" by blast
  show ?thesis
  proof (cases z)
    case Nil
    then have "u @ ''/'' = ''/*'' @ v1 @ MARKER_NAME @ v2 @ ''*/'' @ []" using u(1) z by simp
    then show ?thesis using match_marker_iff v(2,3) by fastforce
  next
    case (Cons c z')
    then have "c = CHR ''/''" using u(2) z by simp
    then have "u @ ''/'' = ''/*'' @ v1 @ MARKER_NAME @ v2 @ ''*/'' @ (z' @ ''/'')" using u(1) z Cons by simp
    then show ?thesis using match_marker_iff v(2,3) by fastforce
  qed
qed

lemma find_marker_first:
  assumes "find_marker (a @ ''/'') = None" "match_marker s = Some b" "hd s = CHR ''/''" "s \<noteq> []"
  shows "find_marker (a @ s) = Some (a, b)"
  using assms(1)
proof (induction a)
  case Nil
  then show ?case using assms(2-4) by (cases s) auto
next
  case (Cons c a)
  then have n: "match_marker (c # a @ ''/'') = None" "find_marker (a @ ''/'') = None"
    by (auto split: option.splits)
  have "match_marker ((c # a) @ s) = None"
    using match_marker_before_slash [of "c # a" "tl s"] n(1) assms(3,4)
    by (cases "match_marker ((c # a) @ s)") (auto simp: hd_conv_nth, metis assms(3) hd_Cons_tl)
  then show ?case using Cons.IH [OF n(2)] by simp
qed

text \<open>C24: the session file is split at the marker: a file with one marker comment, in any of the spellings the
  regular expression allows, gives the text before it as the script for a new database and the text after it as the script
  for a connection, both without surrounding white space, provided that the checksum, when one is given, is that of the file.\<close>

theorem session_file_split:
  assumes "file \<noteq> []" "FileExists fs file" "FileSizeBytes fs file = Inr n" "n \<le> SQL_FILE_MAX_SIZE_BYTES"
    and "FileReadToString fs file n = Inr text" "sha256 = [] \<or> sha256 = fs_hash256 fs text"
    and "text = a @ ''/*'' @ pad @ MARKER_NAME @ gap @ ''*/'' @ b" "list_all IsSpace pad" "list_all IsSpace gap"
    and "find_marker (a @ ''/'') = None" "find_marker b = None"
  shows "ReadSQLFile fs file sha256 = Inr \<lparr>db_init_sql = TrimString a, conn_init_sql = TrimString b, orig_file_text = text\<rparr>"
proof -
  let ?s = "''/*'' @ pad @ MARKER_NAME @ gap @ ''*/'' @ b"
  have "match_marker ?s = Some b" using assms(8,9) match_marker_iff by blast
  then have "find_marker text = Some (a, b)" unfolding assms(7) by (rule find_marker_first [OF assms(10)]) simp_all
  then have "SplitByMarker text = a # (if b = [] then [] else [b])"
    using assms(11) by (subst SplitByMarker.simps) (simp add: SplitByMarker.simps [of b])
  moreover have "TrimString [] = []" by (simp add: TrimString_def)
  ultimately show ?thesis using assms(1-6) by (auto simp: ReadSQLFile_def Let_def)
qed

text \<open>A checksum in upper case is never accepted. The expected checksum is converted to lower case for the error
  message, but the comparison is with the checksum as it was written: when it contains an upper-case letter, a file is refused
  although its checksum is the expected one up to case.\<close>

theorem upper_case_checksum_refused:
  assumes "file \<noteq> []" "FileExists fs file" "FileSizeBytes fs file = Inr n" "n \<le> SQL_FILE_MAX_SIZE_BYTES"
    and "FileReadToString fs file n = Inr text" "ascii_lower (fs_hash256 fs text) = fs_hash256 fs text"
    and "ascii_lower sha256 = fs_hash256 fs text" "ascii_lower sha256 \<noteq> sha256"
  shows "ReadSQLFile fs file sha256
    = Inl (''Session init SQL file SHA-256 mismatch, expected: '' @ fs_hash256 fs text @ '', actual: '' @ fs_hash256 fs text)"
proof -
  have "sha256 \<noteq> []" using assms(8) by (auto simp: ascii_lower_def)
  then show ?thesis using assms by (auto simp: ReadSQLFile_def)
qed

text \<open>A message longer than the local buffer: the reported length is that of the whole message.\<close>

lemma first_diagnostic_long:
  assumes "SetDiagnosticRecord (Clean make_OdbcDiagnostic) ret caller msg ST_42000 server = (ret', stmt_diag st)"
    and "1024 < length (diagnostic_text server caller msg)" "length (diagnostic_text server caller msg) \<le> 32767" "frame \<noteq> nullptr"
  shows "first_diagnostic frame st m = None"
proof -
  let ?t = "diagnostic_text server caller msg" and ?d = "Clean make_OdbcDiagnostic :: OdbcDiagnostic"
  define R where "R = FormatDiagnosticMessage (make_DiagRecord msg ST_42000 server SQL_NO_COLUMN_NUMBER 0 SQL_NO_ROW_NUMBER) server caller"
  have "stmt_diag st = snd (SetDiagnosticRecord ?d ret caller msg ST_42000 server)" using assms(1) by simp
  then have st: "diag_records (stmt_diag st) = [R]" "vec_record_idx (stmt_diag st) = [0]"
    by (simp_all add: SetDiagnosticRecord_def Let_def AddDiagRecord_def Clean_def R_def to_int16_id)
  have R: "stack_msg_offset R = [0]" "sql_diag_message_text R = ?t" "ClearStackMsgOffset R = R"
    by (simp_all add: R_def FormatDiagnosticMessage_def make_DiagRecord_def SetMessage_def ClearStackMsgOffset_def diagnostic_text_def)
  have t: "to_int16 (int (length ?t)) = int (length ?t)" "to_int16 (int (length ?t) - 1024) > 0" "?t \<noteq> []" "\<not> int (length ?t) \<le> 1024"
    using assms(2,3) by (auto simp: to_int16_id)
  have msg: "GetMessage R 1024 = Some (?t, R\<lparr>stack_msg_offset := [1024, 0]\<rparr>)"
    using R(1,2) assms(2) by (auto simp: GetMessage_def Let_def to_uint64_id)
  have len: "le_sint (read_bytes (store_int 2 m' (frame + 16) (int (length ?t))) (frame + 16) 2) = int (length ?t)" for m'
    using assms(3) by (simp add: store_int_def read_write_same [of _ _ "le_bytes 2 x" for x, simplified] le_sint_le_bytes2)
  show ?thesis
    using assms(4) t
    by (simp add: first_diagnostic_def Let_def GetDiagRecInternal_def ConvertHandle_def GetDiagRecFields_def
        WriteStringWithLenInChars_narrow GetDiagRecord_def st R msg GetTotalRecords_def AddNewRecIdx_def len to_int16_id)
qed

text \<open>A long error of the session script is read beyond the local buffer: when the engine refuses the script with a message
  that, formatted, is longer than 1024 bytes, the length that \<^verbatim>\<open>SQLGetDiagRec\<close> reports is that of the whole message, and the
  driver builds a string of that length from the buffer of 1024 bytes.\<close>

theorem session_script_error_overreads:
  assumes "dbcs w c = Some dbc" "dbc_conn dbc" "db_extract db e query = Inl msg" "length query < 32768"
    and "1024 < length (diagnostic_text (dbc_dsn dbc) ''SQLExecDirect'' msg)"
    and "length (diagnostic_text (dbc_dsn dbc) ''SQLExecDirect'' msg) \<le> 32767" "frame \<noteq> nullptr"
  shows "RunQueryWithStmt db g u frame fuel c query w m e = Some None"
proof -
  define s where "s = next_handle w"
  define st0 where "st0 = make_OdbcHandleStmt (g_open g) (g_fetch g) s c"
  define w1 where "w1 = new_stmt g s c (put_dbc c (dbc\<lparr>vec_stmt_ref := vec_stmt_ref dbc @ [s]\<rparr>) (w\<lparr>next_handle := Suc s\<rparr>))"
  define st1 where "st1 = PrepareQuery (st0\<lparr>stmt_diag := Clean (stmt_diag st0)\<rparr>)"
  define st2 where "st2 = st1\<lparr>stmt_diag := snd (SetDiagnosticRecord (stmt_diag st1) SQL_ERROR ''SQLExecDirect'' msg ST_42000 (dbc_dsn dbc))\<rparr>"
  have alloc: "SQLAllocHandle g SQL_HANDLE_STMT (Some (DbcPtr c)) w = Some (SQL_SUCCESS, Some (StmtPtr s), w1)"
    using assms(1) by (simp add: SQLAllocHandle_def s_def w1_def Let_def)
  have w1: "stmts w1 s = Some st0" "dbcs w1 c = Some (dbc\<lparr>vec_stmt_ref := vec_stmt_ref dbc @ [s]\<rparr>)" "stmt_dbc st0 = c"
    by (simp_all add: w1_def new_stmt_def st0_def make_OdbcHandleStmt_def Let_def put_simps)
  have query: "ConvertSQLCHARToString (Some (query @ [CHR 0x00])) (to_int16 (int (length query))) = Some query"
    using assms(4) by (simp add: ConvertSQLCHARToString_def to_int16_id Let_def)
  have exec: "ExecDirectInternal db u fuel (Some (StmtPtr s)) (Some (query @ [CHR 0x00])) (to_int16 (int (length query))) w1 m e
     = Some (Some (SQL_ERROR, put_stmt s st2 (put_stmt s (st0\<lparr>stmt_diag := Clean (stmt_diag st0)\<rparr>) w1), m, e))"
    unfolding ExecDirectInternal_def on_stmt_exec_def ExecDirectStmt_def query
    using w1 assms(2,3)
    by (simp add: ConvertHSTMT_def stmt_post_def post_on_def st2_def st1_def put_simps stmt_dsn_def PrepareQuery_def SetDiagnosticRecord_def Let_def)
  have "stmt_diag st2 = snd (SetDiagnosticRecord (Clean make_OdbcDiagnostic) SQL_ERROR ''SQLExecDirect'' msg ST_42000 (dbc_dsn dbc))"
    by (simp add: st2_def st1_def st0_def PrepareQuery_def make_OdbcHandleStmt_def)
  then have "first_diagnostic frame st2 m = None"
    by (intro first_diagnostic_long [where ret' = SQL_ERROR, OF _ assms(5,6,7)]) (simp add: SetDiagnosticRecord_def Let_def)
  then show ?thesis
    by (simp add: RunQueryWithStmt_def alloc exec put_simps)
qed

section \<open>Witnesses\<close>

definition sample_script :: string where
  "sample_script = ''CREATE TABLE t(i INT); '' @ ''/*'' @ '' '' @ MARKER_NAME @ '' '' @ ''*/'' @ '' SET x=1''"

definition sample_files :: file_system where
  "sample_files = \<lparr>FileExists = (\<lambda>f. f = ''init.sql''), FileSizeBytes = (\<lambda>_. Inr (length sample_script)),
     FileReadToString = (\<lambda>_ _. Inr sample_script), fs_hash256 = (\<lambda>_. ''ab12'')\<rparr>"

lemma sample_size: "length sample_script \<le> SQL_FILE_MAX_SIZE_BYTES"
  by (simp add: sample_script_def MARKER_NAME_def SQL_FILE_MAX_SIZE_BYTES_def)

theorem session_file_split_witness:
  "ReadSQLFile sample_files ''init.sql'' ''ab12''
     = Inr \<lparr>db_init_sql = TrimString ''CREATE TABLE t(i INT); '', conn_init_sql = TrimString '' SET x=1'', orig_file_text = sample_script\<rparr>"
  by (rule session_file_split [where n = "length sample_script" and pad = "'' ''" and gap = "'' ''"])
    (simp_all add: sample_size, simp_all add: sample_files_def sample_script_def IsSpace_def match_marker_def strip_prefix_def MARKER_NAME_def)

lemma sample_lower: "ascii_lower ''ab12'' = ''ab12''" "ascii_lower ''AB12'' = ''ab12''"
  by code_simp+

theorem upper_case_checksum_refused_witness:
  "ReadSQLFile sample_files ''init.sql'' ''AB12''
    = Inl (''Session init SQL file SHA-256 mismatch, expected: '' @ fs_hash256 sample_files sample_script @ '', actual: '' @ fs_hash256 sample_files sample_script)"
  by (rule upper_case_checksum_refused [where n = "length sample_script"])
    (simp_all add: sample_size, simp_all add: sample_files_def sample_lower)

theorem session_script_error_overreads_witness:
  "RunQueryWithStmt (sample_database\<lparr>db_extract := (\<lambda>_ _. Inl (replicate 1100 (CHR ''x'')))\<rparr>)
     sample_garbage sample_record 4096 1 1 ''SELEC 1''
     (sample_driver (sample_stream []) (sample_apd SQL_C_SLONG 2000) (sample_ipd SQL_INTEGER 4 0 0)) (\<lambda>_. CHR 0x00) [] = Some None"
  by (rule session_script_error_overreads [where msg = "replicate 1100 (CHR ''x'')" and dbc = "(make_OdbcHandleDbc 0 0)\<lparr>dbc_conn := True\<rparr>"])
    (simp_all add: sample_driver_def diagnostic_text_def make_OdbcHandleDbc_def)

end
