(* ===== verification/Connection_Api.thy ===== *)
theory Connection_Api
  imports Session_Init "HOL-Library.List_Lexorder" "HOL-Library.Char_ord"
begin

text \<open>
  Opening a connection: the class \<^verbatim>\<open>Connect\<close> of \<^verbatim>\<open>connect/connect.cpp\<close> (the connection string, the options of the
  data source, opening the database) and \<^verbatim>\<open>SQLConnect\<close> and \<^verbatim>\<open>SQLDriverConnect\<close> of \<^verbatim>\<open>odbc_api/connection_api.cpp\<close>.

  What the engine and the driver manager provide is the record \<open>platform\<close>: the names of the options of a database
  configuration, setting them, opening a database, and reading an entry of \<^verbatim>\<open>odbc.ini\<close>. What is compiled depending on the system are its
  fields \<open>pf_windows\<close> and \<open>pf_attach\<close>, the latter \<open>AttachCupolaConnection\<close> here or that of the theory \<open>Cupola_Connection\<close>. A configuration is a value of the
  type \<open>'c\<close>. The map of options ignores case, so its keys are lower-case. \<open>None\<close> is an exception that leaves the C interface,
  such as the one for a value that is not valid UTF-8.

  The theorems show that a connection string with braced values is parsed back to the keys and values it was printed from,
  that no connection string can name a session initialisation script, and that \<^verbatim>\<open>CupolaConnection\<close> excludes every other option.
\<close>

section \<open>State\<close>

record ('c, 'e) platform =
  pf_option_names :: "string list"
  pf_candidates :: "string \<Rightarrow> string"
  pf_valid :: "string \<Rightarrow> bool"
  pf_profile :: "(string \<Rightarrow> string \<Rightarrow> int \<times> string) option"
  pf_config :: 'c
  pf_set_option :: "'c \<Rightarrow> string \<Rightarrow> string \<Rightarrow> string + 'c"
  pf_set_options :: "'c \<Rightarrow> (string \<rightharpoonup> string) \<Rightarrow> string + 'c"
  pf_open :: "'e \<Rightarrow> 'c \<Rightarrow> string \<Rightarrow> bool \<Rightarrow> string + bool \<times> 'e"
  pf_connect :: "'e \<Rightarrow> bool \<Rightarrow> 'e"
  pf_error_text :: "string \<Rightarrow> string"
  pf_files :: file_system
  pf_windows :: bool
  pf_attach :: "'e \<Rightarrow> string \<Rightarrow> (string + unit) \<times> 'e"

text \<open>The object, with the connection handle it works on.\<close>

record Connect =
  cn_dbc :: OdbcHandleDbc
  success_with_info :: bool
  seen_config_options :: "string \<rightharpoonup> bool"
  config_map :: "string \<rightharpoonup> string"

abbreviation CUPOLA :: string where "CUPOLA \<equiv> ''cupolaconnection''"

definition IGNORE_KEYS :: "string list" where
  "IGNORE_KEYS = [''driver'', ''trusted_connection'', ''uid'', ''pwd'']"

definition registered_names :: "('c, 'e) platform \<Rightarrow> string list" where
  "registered_names pf = sort (remdups (pf_option_names pf
     @ [CUPOLA, ''database'', ''dsn'', SQL_FILE_OPTION, SQL_FILE_SHA256_OPTION]))"

definition make_Connect :: "('c, 'e) platform \<Rightarrow> OdbcHandleDbc \<Rightarrow> Connect" where
  "make_Connect pf dbc = \<lparr>cn_dbc = dbc, success_with_info = False,
     seen_config_options = (\<lambda>k. if k \<in> set (registered_names pf) then Some False else None), config_map = Map.empty\<rparr>"

definition SetSuccessWithInfo :: "SQLRETURN \<Rightarrow> Connect \<Rightarrow> bool \<times> Connect" where
  "SetSuccessWithInfo ret cn =
     (if \<not> SQL_SUCCEEDED ret then (False, cn)
      else (True, if ret = SQL_SUCCESS_WITH_INFO then cn\<lparr>success_with_info := True\<rparr> else cn))"

definition connect_post :: "SQLRETURN \<Rightarrow> string \<Rightarrow> SQLStateType \<Rightarrow> Connect \<Rightarrow> SQLRETURN \<times> Connect" where
  "connect_post ret msg state cn =
     (let (ret, d) = SetDiagnosticRecord (dbc_diag (cn_dbc cn)) ret ''SQLDriverConnect'' msg state []
      in (ret, cn\<lparr>cn_dbc := (cn_dbc cn)\<lparr>dbc_diag := d\<rparr>\<rparr>))"

text \<open>Storing a value in the map of options constructs a value of the engine, which checks its encoding.\<close>

definition set_config :: "('c, 'e) platform \<Rightarrow> string \<Rightarrow> string \<Rightarrow> Connect \<Rightarrow> Connect option" where
  "set_config pf key val cn =
     (if \<not> pf_valid pf val then None
      else Some (cn\<lparr>seen_config_options := (seen_config_options cn)(key \<mapsto> True),
                    config_map := (config_map cn)(ascii_lower key \<mapsto> val)\<rparr>))"

definition erase_config :: "string \<Rightarrow> Connect \<Rightarrow> Connect" where
  "erase_config key cn = cn\<lparr>config_map := (config_map cn)(ascii_lower key := None)\<rparr>"

definition GetOptionFromConfigMap :: "string \<Rightarrow> string \<Rightarrow> Connect \<Rightarrow> string option" where
  "GetOptionFromConfigMap option_name default_val cn =
     (if seen_config_options cn option_name \<noteq> Some True then Some default_val
      else config_map cn (ascii_lower option_name))"

section \<open>The connection string\<close>

definition FindMatchingKey :: "('c, 'e) platform \<Rightarrow> string \<Rightarrow> Connect \<Rightarrow> SQLRETURN \<times> Connect" where
  "FindMatchingKey pf input cn =
     (if seen_config_options cn input \<noteq> None then (SQL_SUCCESS, cn)
      else connect_post SQL_SUCCESS_WITH_INFO (''Invalid keyword: '' @ [CHR 0x27] @ input @ [CHR 0x27] @ ''. '' @ pf_candidates pf input) ST_01S09 cn)"

definition FindKeyValPair :: "('c, 'e) platform \<Rightarrow> string \<Rightarrow> Connect \<Rightarrow> (SQLRETURN \<times> Connect) option" where
  "FindKeyValPair pf row cn =
     (if CHR ''='' \<notin> set row then Some (connect_post SQL_ERROR ''Invalid connection string'' ST_HY000 cn)
      else
        let key = TrimString (ascii_lower (takeWhile (\<lambda>c. c \<noteq> CHR ''='') row)) in
        if key \<in> set IGNORE_KEYS then Some (SQL_SUCCESS, cn)
        else
          let (ret, cn) = FindMatchingKey pf key cn in
          if ret \<noteq> SQL_SUCCESS then Some (ret, cn)
          else if key = SQL_FILE_OPTION \<or> key = SQL_FILE_SHA256_OPTION then
            Some (connect_post SQL_ERROR (''Options '' @ [CHR 0x27] @ SQL_FILE_OPTION @ [CHR 0x27] @ '' and '' @ [CHR 0x27] @ SQL_FILE_SHA256_OPTION @ [CHR 0x27]
              @ '' can only be specified in DSN configuration in a file or registry.'') ST_01S09 cn)
          else map_option (\<lambda>cn. (SQL_SUCCESS, cn)) (set_config pf key (TrimString (tl (dropWhile (\<lambda>c. c \<noteq> CHR ''='') row))) cn))"

text \<open>The text of a braced value up to its closing brace, with doubled braces undone, and what follows; \<open>None\<close> when the
  brace is not closed.\<close>

fun parse_braced :: "string \<Rightarrow> (string \<times> string) option" where
  "parse_braced [] = None"
| "parse_braced (ch # s) =
     (if ch = CHR ''}'' then
        (if s \<noteq> [] \<and> hd s = CHR ''}'' then map_option (\<lambda>(v, r). (ch # v, r)) (parse_braced (tl s)) else Some ([], s))
      else map_option (\<lambda>(v, r). (ch # v, r)) (parse_braced s))"

definition parse_value :: "string \<Rightarrow> (string \<times> string) option" where
  "parse_value s =
     (let s = dropWhile IsSpace s in
      if s \<noteq> [] \<and> hd s = CHR ''{'' then
        (case parse_braced (tl s) of
           None \<Rightarrow> None
         | Some (v, r) \<Rightarrow>
             let r = dropWhile IsSpace r in if r \<noteq> [] \<and> hd r \<noteq> CHR '';'' then None else Some (v, r))
      else Some (TrimString (takeWhile (\<lambda>c. c \<noteq> CHR '';'') s), dropWhile (\<lambda>c. c \<noteq> CHR '';'') s))"

lemma parse_braced_shorter: "parse_braced s = Some (v, r) \<Longrightarrow> length r < length s"
proof (induction s arbitrary: v rule: parse_braced.induct)
  case (2 ch s)
  then show ?case by (cases s) (fastforce split: if_splits)+
qed simp

lemma parse_value_shorter:
  assumes "parse_value s = Some (v, r)"
  shows "length r \<le> length s"
proof -
  let ?t = "dropWhile IsSpace s"
  have t: "length ?t \<le> length s" by (rule length_dropWhile_le)
  show ?thesis
  proof (cases "?t \<noteq> [] \<and> hd ?t = CHR ''{''")
    case True
    then obtain r' where r: "parse_braced (tl ?t) = Some (v, r')" "r = dropWhile IsSpace r'"
      using assms by (auto simp: parse_value_def Let_def split: option.splits if_splits)
    have "length r \<le> length r'" unfolding r(2) by (rule length_dropWhile_le)
    also have "\<dots> \<le> length ?t" using parse_braced_shorter [OF r(1)] by simp
    finally show ?thesis using t by simp
  next
    case False
    then have "r = dropWhile (\<lambda>c. c \<noteq> CHR '';'') ?t" using assms unfolding parse_value_def Let_def by (simp only: if_False) simp
    then have "length r \<le> length ?t" by (simp add: length_dropWhile_le)
    then show ?thesis using t by simp
  qed
qed

lemma parse_rest_shorter:
  assumes "x \<in> set (dropWhile P s)" "parse_value (tl (dropWhile (\<lambda>c. c \<noteq> x) (dropWhile P s))) = Some (v, r)"
  shows "length r < length s"
proof -
  let ?t = "dropWhile P s"
  have "dropWhile (\<lambda>c. c \<noteq> x) ?t \<noteq> []" using assms(1) by (simp add: dropWhile_eq_Nil_conv)
  then have "length (tl (dropWhile (\<lambda>c. c \<noteq> x) ?t)) < length (dropWhile (\<lambda>c. c \<noteq> x) ?t)" by simp
  also have "\<dots> \<le> length ?t" by (rule length_dropWhile_le)
  also have "\<dots> \<le> length s" by (rule length_dropWhile_le)
  finally show ?thesis using parse_value_shorter [OF assms(2)] by simp
qed

definition unexpected_with_cupola :: "string \<Rightarrow> string \<Rightarrow> bool" where
  "unexpected_with_cupola key val \<longleftrightarrow> key \<noteq> ''driver'' \<and> key \<noteq> CUPOLA
     \<and> \<not> ((key = ''uid'' \<or> key = ''pwd'' \<or> key = ''trusted_connection'') \<and> val = [])"

text \<open>The loop over the string, from the rest \<open>s\<close> on: an early return is \<open>Inl\<close>, the end of the string is \<open>Inr\<close> with the
  two flags.\<close>

function parse_pairs ::
  "('c, 'e) platform \<Rightarrow> string \<Rightarrow> string set \<Rightarrow> bool \<Rightarrow> bool \<Rightarrow> Connect \<Rightarrow> (SQLRETURN \<times> Connect + bool \<times> bool \<times> Connect) option" where
  "parse_pairs pf s supplied duplicate unexpected cn =
     (let s = dropWhile (\<lambda>c. c = CHR '';'' \<or> IsSpace c) s in
      if s = [] then Some (Inr (duplicate, unexpected, cn))
      else if CHR ''='' \<notin> set s then Some (Inl (connect_post SQL_ERROR ''Invalid ODBC connection string'' ST_HY000 cn))
      else
        let key = ascii_lower (TrimString (takeWhile (\<lambda>c. c \<noteq> CHR ''='') s)); duplicate = (duplicate \<or> key \<in> supplied) in
        case parse_value (tl (dropWhile (\<lambda>c. c \<noteq> CHR ''='') s)) of
          None \<Rightarrow> Some (Inl (connect_post SQL_ERROR ''Invalid ODBC braced value'' ST_HY000 cn))
        | Some (val, rest) \<Rightarrow>
            let unexpected = (unexpected \<or> unexpected_with_cupola key val) in
            if key = CUPOLA then
              (case set_config pf key val cn of
                 None \<Rightarrow> None
               | Some cn \<Rightarrow> parse_pairs pf rest (insert key supplied) duplicate unexpected cn)
            else
              (case FindKeyValPair pf (key @ ''='' @ val) cn of
                 None \<Rightarrow> None
               | Some (ret, cn) \<Rightarrow>
                   let (ok, cn) = SetSuccessWithInfo ret cn in
                   if \<not> ok then Some (Inl (ret, cn)) else parse_pairs pf rest (insert key supplied) duplicate unexpected cn))"
  by pat_completeness auto
termination
  by (relation "measure (\<lambda>(pf, s, _). length s)") (auto simp: parse_rest_shorter)

declare parse_pairs.simps [simp del]

definition ParseInputStr :: "('c, 'e) platform \<Rightarrow> string \<Rightarrow> Connect \<Rightarrow> (SQLRETURN \<times> Connect) option" where
  "ParseInputStr pf input_str cn = (case parse_pairs pf input_str {} False False cn of
      None \<Rightarrow> None
    | Some (Inl (ret, cn)) \<Rightarrow> Some (ret, cn)
    | Some (Inr (duplicate, unexpected, cn)) \<Rightarrow>
        if seen_config_options cn CUPOLA = Some True \<and> (duplicate \<or> unexpected) then
          Some (connect_post SQL_ERROR (''CupolaConnection cannot be combined with a DSN, database, credentials, duplicate ''
            @ ''keys, or other connection options.'') ST_HY000 cn)
        else
          map_option (\<lambda>dsn. (if success_with_info cn then SQL_SUCCESS_WITH_INFO else SQL_SUCCESS,
              cn\<lparr>cn_dbc := (cn_dbc cn)\<lparr>dbc_dsn := dsn\<rparr>\<rparr>))
            (GetOptionFromConfigMap ''dsn'' [] cn))"

section \<open>Opening the database\<close>

text \<open>\<^verbatim>\<open>ReadFromIniFile\<close> looks up every registered option that is not set, in the order of the map. \<open>prof\<close> is
  \<^verbatim>\<open>SQLGetPrivateProfileString\<close> with the file \<^verbatim>\<open>odbc.ini\<close>.\<close>

fun read_profile :: "('c, 'e) platform \<Rightarrow> (string \<Rightarrow> string \<Rightarrow> int \<times> string) \<Rightarrow> string list \<Rightarrow> Connect \<Rightarrow> (SQLRETURN \<times> Connect) option" where
  "read_profile pf prof [] cn = Some (SQL_SUCCESS, cn)"
| "read_profile pf prof (key # keys) cn =
     (if seen_config_options cn key = Some True then read_profile pf prof keys cn
      else case prof (dbc_dsn (cn_dbc cn)) key of (read_size, char_val) \<Rightarrow>
        if read_size = 0 then read_profile pf prof keys cn
        else if read_size < 0 then Some (connect_post SQL_ERROR ''Error reading from .odbc.ini'' ST_01S09 cn)
        else (case set_config pf key char_val cn of None \<Rightarrow> None | Some cn \<Rightarrow> read_profile pf prof keys cn))"

definition ReadFromIniFile :: "('c, 'e) platform \<Rightarrow> Connect \<Rightarrow> (SQLRETURN \<times> Connect) option" where
  "ReadFromIniFile pf cn = (case pf_profile pf of
      None \<Rightarrow> Some (SQL_SUCCESS, cn)
    | Some prof \<Rightarrow>
        if dbc_dsn (cn_dbc cn) = [] then Some (SQL_SUCCESS, cn) else read_profile pf prof (registered_names pf) cn)"

definition NormalizeWindowsPathSeparators :: "('c, 'e) platform \<Rightarrow> string \<Rightarrow> Connect \<Rightarrow> Connect option" where
  "NormalizeWindowsPathSeparators pf option_name cn =
     (if \<not> pf_windows pf then Some cn
      else do {
        value_str \<leftarrow> GetOptionFromConfigMap option_name [] cn;
        if value_str = [] then Some cn
        else
          let value_str_norm = map (\<lambda>ch. if ch = CHR 0x5C then CHR ''/'' else ch) value_str;
              cn = erase_config option_name cn in
          if \<not> pf_valid pf value_str_norm then None
          else Some (cn\<lparr>config_map := (config_map cn)(ascii_lower option_name \<mapsto> value_str_norm)\<rparr>) })"

abbreviation IN_MEMORY_PATH :: string where "IN_MEMORY_PATH \<equiv> '':memory:''"

text \<open>The configuration before the \<^verbatim>\<open>try\<close> block: an exception of these calls is not caught.\<close>

definition base_config :: "('c, 'e) platform \<Rightarrow> string \<Rightarrow> 'c option" where
  "base_config pf cupola =
     (case (if cupola \<noteq> [] then pf_set_option pf (pf_config pf) ''allow_unsigned_extensions'' ''false'' else Inr (pf_config pf)) of
        Inl _ \<Rightarrow> None
      | Inr cfg \<Rightarrow> (case pf_set_option pf cfg ''duckdb_api'' ''odbc'' of Inl _ \<Rightarrow> None | Inr cfg \<Rightarrow> Some cfg))"

text \<open>The \<^verbatim>\<open>try\<close> block: \<open>Inl\<close> is the message of an exception.\<close>

definition open_database ::
  "('c, 'e) platform \<Rightarrow> 'c \<Rightarrow> (string \<rightharpoonup> string) \<Rightarrow> string \<Rightarrow> string \<Rightarrow> string \<Rightarrow> string \<Rightarrow> 'e \<Rightarrow> string + SessionInitSQLFile \<times> bool \<times> 'e" where
  "open_database pf cfg opts external sql_file sha256 database e =
     (case ReadSQLFile (pf_files pf) sql_file sha256 of
        Inl msg \<Rightarrow> Inl msg
      | Inr content \<Rightarrow>
          (case pf_set_options pf cfg opts of
             Inl msg \<Rightarrow> Inl msg
           | Inr cfg \<Rightarrow>
               (case (if external \<noteq> [] then pf_set_option pf cfg ''enable_external_access'' external else Inr cfg) of
                  Inl msg \<Rightarrow> Inl msg
                | Inr cfg \<Rightarrow>
                    (case pf_open pf e cfg database (database \<noteq> IN_MEMORY_PATH) of
                       Inl msg \<Rightarrow> Inl msg
                     | Inr (db_created, e) \<Rightarrow> Inr (content, db_created, e)))))"

definition drop_conn :: "nat \<Rightarrow> driver \<Rightarrow> driver option" where
  "drop_conn c w = map_option (\<lambda>dbc. put_dbc c (dbc\<lparr>dbc_conn := False\<rparr>) w) (dbcs w c)"

text \<open>\<^verbatim>\<open>AttachCupolaConnection\<close>, which throws on systems other than Windows.\<close>

definition AttachCupolaConnection :: "'e \<Rightarrow> string \<Rightarrow> (string + unit) \<times> 'e" where
  "AttachCupolaConnection e requested = (Inl ''Cupola connections require the Windows per-user connection store.'', e)"

text \<open>After the database was opened: the connection object, the session script and the Cupola connection. A failure drops the
  connection object.\<close>

definition start_session ::
  "('c, 'e) platform \<Rightarrow> 'e database \<Rightarrow> garbage \<Rightarrow> DescRecord \<Rightarrow> addr \<Rightarrow> nat \<Rightarrow> nat \<Rightarrow> string \<Rightarrow> SessionInitSQLFile \<Rightarrow> bool
    \<Rightarrow> OdbcHandleDbc \<Rightarrow> driver \<Rightarrow> memory \<Rightarrow> 'e \<Rightarrow> 'e exec_result option" where
  "start_session pf db g u frame fuel c cupola content db_created dbc w m e =
     (let e = (if dbc_conn dbc then e else pf_connect pf e (autocommit dbc));
          w = put_dbc c (dbc\<lparr>dbc_conn := True\<rparr>) w in
      case (if SQLFile_IsEmpty content then Some (Some (SQL_SUCCESS, w, m, e))
            else SessionInit_Run db g u frame fuel c content db_created w m e) of
        Some (Some (ret, w, m, e)) \<Rightarrow>
          if \<not> SQL_SUCCEEDED ret then Some (map_option (\<lambda>w. (ret, w, m, e)) (drop_conn c w))
          else if cupola = [] then Some (Some (ret, w, m, e))
          else
            (case pf_attach pf e cupola of
               (Inr _, e) \<Rightarrow> Some (Some (ret, w, m, e))
             | (Inl msg, e) \<Rightarrow> Some (do {
                 w \<leftarrow> drop_conn c w;
                 dbc \<leftarrow> dbcs w c;
                 let (ret, w) = dbc_post c dbc w SQL_ERROR ''SQLDriverConnect'' msg ST_HY000 [];
                 Some (ret, w, m, e) }))
      | r \<Rightarrow> r)"

definition SetConnection ::
  "('c, 'e) platform \<Rightarrow> 'e database \<Rightarrow> garbage \<Rightarrow> DescRecord \<Rightarrow> addr \<Rightarrow> nat \<Rightarrow> nat \<Rightarrow> Connect \<Rightarrow> driver \<Rightarrow> memory \<Rightarrow> 'e \<Rightarrow> 'e exec_result option" where
  "SetConnection pf db g u frame fuel c cn w m e =
     (let fail = (\<lambda>cn msg state. let (ret, cn) = connect_post SQL_ERROR msg state cn in Some (Some (ret, put_dbc c (cn_dbc cn) w, m, e))) in
      case (do {
        (_, cn) \<leftarrow> ReadFromIniFile pf cn;
        cupola \<leftarrow> GetOptionFromConfigMap CUPOLA [] cn;
        Some (cn, cupola) }) of
        None \<Rightarrow> Some None
      | Some (cn, cupola) \<Rightarrow>
          if seen_config_options cn CUPOLA = Some True \<and> cupola = [] then
            fail cn ''CupolaConnection must name an existing connection.'' ST_HY000
          else
            (case (do {
               let cn = erase_config CUPOLA cn;
               database \<leftarrow> GetOptionFromConfigMap ''database'' IN_MEMORY_PATH cn;
               cfg \<leftarrow> base_config pf cupola;
               external \<leftarrow> GetOptionFromConfigMap ''enable_external_access'' [] cn;
               cn \<leftarrow> NormalizeWindowsPathSeparators pf ''allowed_paths'' cn;
               cn \<leftarrow> NormalizeWindowsPathSeparators pf ''allowed_directories'' cn;
               sql_file \<leftarrow> GetOptionFromConfigMap SQL_FILE_OPTION [] cn;
               sha256 \<leftarrow> GetOptionFromConfigMap SQL_FILE_SHA256_OPTION [] cn;
               let cn = cn\<lparr>cn_dbc := SetDatabaseName (cn_dbc cn) database\<rparr>;
               let cn = erase_config ''enable_external_access'' (erase_config SQL_FILE_SHA256_OPTION (erase_config SQL_FILE_OPTION
                          (erase_config ''dsn'' (erase_config ''database'' cn))));
               Some (cn, database, cfg, external, sql_file, sha256) }) of
               None \<Rightarrow> Some None
             | Some (cn, database, cfg, external, sql_file, sha256) \<Rightarrow>
                 (case open_database pf cfg (config_map cn) external sql_file sha256 database e of
                    Inl msg \<Rightarrow> fail cn (pf_error_text pf msg) ST_IM003
                  | Inr (content, db_created, e) \<Rightarrow>
                      start_session pf db g u frame fuel c cupola content db_created (cn_dbc cn) w m e)))"

section \<open>Entry points\<close>

definition ConvertDBCBeforeConnection :: "driver \<Rightarrow> SQLHANDLE \<Rightarrow> (SQLRETURN + nat) option" where
  "ConvertDBCBeforeConnection w connection_handle = (case connection_handle of
      None \<Rightarrow> Some (Inl SQL_INVALID_HANDLE)
    | Some h \<Rightarrow> if \<not> live w h then None
        else case h of DbcPtr c \<Rightarrow> Some (Inr c) | _ \<Rightarrow> Some (Inl SQL_INVALID_HANDLE))"

definition on_new_connection ::
  "driver \<Rightarrow> memory \<Rightarrow> 'e \<Rightarrow> SQLHANDLE \<Rightarrow> (nat \<Rightarrow> OdbcHandleDbc \<Rightarrow> 'e exec_result option) \<Rightarrow> 'e exec_result option" where
  "on_new_connection w m e connection_handle body = (case ConvertDBCBeforeConnection w connection_handle of
      None \<Rightarrow> Some None
    | Some (Inl ret) \<Rightarrow> Some (Some (ret, w, m, e))
    | Some (Inr c) \<Rightarrow> (case dbcs w c of None \<Rightarrow> Some None | Some dbc \<Rightarrow> body c dbc))"

definition ConnectInternal ::
  "('c, 'e) platform \<Rightarrow> 'e database \<Rightarrow> garbage \<Rightarrow> DescRecord \<Rightarrow> addr \<Rightarrow> nat \<Rightarrow> SQLHANDLE \<Rightarrow> string option \<Rightarrow> SQLSMALLINT \<Rightarrow> driver \<Rightarrow> memory \<Rightarrow> 'e \<Rightarrow> 'e exec_result option" where
  "ConnectInternal pf db g u frame fuel connection_handle server_name name_length1 w m e =
     on_new_connection w m e connection_handle (\<lambda>c dbc. case ConvertSQLCHARToString server_name name_length1 of
         None \<Rightarrow> Some None
       | Some server_name \<Rightarrow> SetConnection pf db g u frame fuel c (make_Connect pf (dbc\<lparr>dbc_dsn := server_name\<rparr>)) w m e)"

text \<open>\<^verbatim>\<open>snprintf(out, size, "%s", s.c_str())\<close>, with the size converted from a signed number.\<close>

definition snprintf_str :: "memory \<Rightarrow> addr \<Rightarrow> int \<Rightarrow> string \<Rightarrow> int \<times> memory" where
  "snprintf_str m out buf_size s =
     (let s = takeWhile (\<lambda>c. c \<noteq> CHR 0x00) s
      in (int (length s), if to_uint64 buf_size = 0 then m else write_bytes m out (take (nat (to_uint64 buf_size - 1)) s @ [CHR 0x00])))"

definition DriverConnectInternal ::
  "('c, 'e) platform \<Rightarrow> 'e database \<Rightarrow> garbage \<Rightarrow> DescRecord \<Rightarrow> addr \<Rightarrow> nat \<Rightarrow> SQLHANDLE \<Rightarrow> string option \<Rightarrow> SQLSMALLINT
    \<Rightarrow> addr \<Rightarrow> SQLSMALLINT \<Rightarrow> addr \<Rightarrow> driver \<Rightarrow> memory \<Rightarrow> 'e \<Rightarrow> 'e exec_result option" where
  "DriverConnectInternal pf db g u frame fuel connection_handle in_connection_string string_length1
     out_connection_string buffer_length string_length2_ptr w m e =
     on_new_connection w m e connection_handle (\<lambda>c dbc. case ConvertSQLCHARToString in_connection_string string_length1 of
         None \<Rightarrow> Some None
       | Some in_conn_str \<Rightarrow>
           (case ParseInputStr pf in_conn_str (make_Connect pf dbc) of
              None \<Rightarrow> Some None
            | Some (ret, cn) \<Rightarrow>
                (case SetSuccessWithInfo ret cn of (ok, cn) \<Rightarrow>
                   if \<not> ok then Some (Some (ret, put_dbc c (cn_dbc cn) w, m, e))
                   else
                     (case SetConnection pf db g u frame fuel c cn w m e of
                        None \<Rightarrow> None
                      | Some None \<Rightarrow> Some None
                      | Some (Some (ret, w, m, e)) \<Rightarrow>
                          if \<not> SQL_SUCCEEDED ret then Some (Some (ret, w, m, e))
                          else
                            let info = (success_with_info cn \<or> ret = SQL_SUCCESS_WITH_INFO);
                                m = (if out_connection_string \<noteq> nullptr then
                                       (let (available, m) = snprintf_str m out_connection_string buffer_length in_conn_str
                                        in store_int 2 m string_length2_ptr available)
                                     else store_int 2 m string_length2_ptr (int (length in_conn_str)))
                            in Some (Some (if info then SQL_SUCCESS_WITH_INFO else ret, w, m, e))))))"

section \<open>Text of keys and values\<close>

lemma ascii_lower_idem: "ascii_lower (ascii_lower s) = ascii_lower s"
  by (auto simp: ascii_lower_def Let_def of_char_of)

definition lower_char :: "char \<Rightarrow> char" where
  "lower_char c = (let n = of_char c :: nat in if 65 \<le> n \<and> n \<le> 90 then char_of (n + 32) else c)"

lemma ascii_lower_map: "ascii_lower = map lower_char"
  by (rule ext) (simp add: ascii_lower_def lower_char_def)

lemma IsSpace_lower_char: "IsSpace (lower_char c) = IsSpace c"
proof (cases "65 \<le> (of_char c :: nat) \<and> of_char c \<le> (90 :: nat)")
  case True
  then have "(of_char (lower_char c) :: nat) = of_char c + 32" by (simp add: lower_char_def Let_def)
  moreover have "IsSpace d \<Longrightarrow> (of_char d :: nat) \<le> 32" for d by (auto simp: IsSpace_def)
  ultimately have "\<not> IsSpace (lower_char c)" "\<not> IsSpace c" using True by fastforce+
  then show ?thesis by simp
qed (auto simp: lower_char_def Let_def)

lemma ascii_lower_TrimString: "ascii_lower (TrimString s) = TrimString (ascii_lower s)"
proof -
  have "IsSpace \<circ> lower_char = IsSpace" by (rule ext) (simp add: IsSpace_lower_char)
  then show ?thesis by (simp add: TrimString_def ascii_lower_map Let_def rev_map takeWhile_map take_map drop_map)
qed

lemma connect_post_simps [simp]:
  "fst (connect_post ret msg st cn) = ret"
  "config_map (snd (connect_post ret msg st cn)) = config_map cn"
  "seen_config_options (snd (connect_post ret msg st cn)) = seen_config_options cn"
  "success_with_info (snd (connect_post ret msg st cn)) = success_with_info cn"
  by (simp_all add: connect_post_def Let_def SetDiagnosticRecord_def)

section \<open>Invariants of the parser\<close>

text \<open>What holds of the object at every step of the loop; the flag is \<^verbatim>\<open>unexpected\<close>.\<close>

locale pair_parser =
  fixes pf :: "('c, 'e) platform" and inv :: "bool \<Rightarrow> Connect \<Rightarrow> bool"
  assumes inv_cupola: "inv u cn \<Longrightarrow> set_config pf CUPOLA v cn = Some cn' \<Longrightarrow> inv u cn'"
    and inv_pair: "inv u cn \<Longrightarrow> k \<noteq> CUPOLA \<Longrightarrow> FindKeyValPair pf (k @ ''='' @ v) cn = Some (ret, cn')
      \<Longrightarrow> inv (u \<or> unexpected_with_cupola k v) cn'"
    and inv_weaken: "inv False cn \<Longrightarrow> inv u cn"
    and inv_info: "inv u cn \<Longrightarrow> inv u (cn\<lparr>success_with_info := b\<rparr>)"
    and inv_post: "inv u cn \<Longrightarrow> inv u (snd (connect_post r msg st cn))"
begin

lemma inv_SetSuccessWithInfo: "inv u cn \<Longrightarrow> inv u (snd (SetSuccessWithInfo ret cn))"
  using inv_info [of u cn True] by (simp add: SetSuccessWithInfo_def)

lemma parse_pairs_inv:
  "inv u cn \<Longrightarrow> parse_pairs pf s sp d u cn = Some res
    \<Longrightarrow> (case res of Inl (ret, cn') \<Rightarrow> \<not> SQL_SUCCEEDED ret \<and> (\<exists>u'. inv u' cn') | Inr (d', u', cn') \<Rightarrow> inv u' cn')"
proof (induction "length s" arbitrary: s sp d u cn res rule: less_induct)
  case less
  define t where "t = dropWhile (\<lambda>c. c = CHR '';'' \<or> IsSpace c) s"
  define key where "key = ascii_lower (TrimString (takeWhile (\<lambda>c. c \<noteq> CHR ''='') t))"
  note res = less.prems(2) [unfolded parse_pairs.simps [of pf s] Let_def, folded t_def, folded key_def]
  have early: "\<not> SQL_SUCCEEDED ret \<and> (\<exists>u'. inv u' cn')" if "connect_post SQL_ERROR msg st cn = (ret, cn')" for ret cn' msg st
    using inv_post [OF less.prems(1), of SQL_ERROR msg st] that connect_post_simps(1) [of SQL_ERROR msg st cn] by (metis SQL_SUCCEEDED_simps(3) fst_conv snd_conv)
  consider "t = []" | "t \<noteq> []" "CHR ''='' \<notin> set t" | "t \<noteq> []" "CHR ''='' \<in> set t" "parse_value (tl (dropWhile (\<lambda>c. c \<noteq> CHR ''='') t)) = None"
    | v r where "t \<noteq> []" "CHR ''='' \<in> set t" "parse_value (tl (dropWhile (\<lambda>c. c \<noteq> CHR ''='') t)) = Some (v, r)" by fastforce
  then show ?case
  proof cases
    case 1
    then show ?thesis using res less.prems(1) by auto
  next
    case 2
    then show ?thesis using res by (auto dest!: early)
  next
    case 3
    then show ?thesis using res by (auto dest!: early)
  next
    case 4
    have len: "length r < length s" using parse_rest_shorter 4(2,3) unfolding t_def by blast
    let ?u = "u \<or> unexpected_with_cupola key v"
    show ?thesis
    proof (cases "key = CUPOLA")
      case True
      then obtain cn' where cn': "set_config pf CUPOLA v cn = Some cn'" "parse_pairs pf r (insert key sp) (d \<or> key \<in> sp) u cn' = Some res"
        using res 4 by (auto simp: unexpected_with_cupola_def split: option.splits)
      show ?thesis by (rule less.hyps [OF len inv_cupola [OF less.prems(1) cn'(1)] cn'(2)])
    next
      case False
      then obtain ret cn1 ok cn' where cn1: "FindKeyValPair pf (key @ ''='' @ v) cn = Some (ret, cn1)" "SetSuccessWithInfo ret cn1 = (ok, cn')"
        and step: "(if \<not> ok then Some (Inl (ret, cn')) else parse_pairs pf r (insert key sp) (d \<or> key \<in> sp) ?u cn') = Some res"
        using res 4 by (auto split: option.splits prod.splits)
      have i: "inv ?u cn'" using inv_SetSuccessWithInfo [OF inv_pair [OF less.prems(1) False cn1(1)], of ret] cn1(2) by simp
      show ?thesis
      proof (cases ok)
        case True
        then show ?thesis using less.hyps [OF len i] step by simp
      next
        case False
        then have "\<not> SQL_SUCCEEDED ret" using cn1(2) by (auto simp: SetSuccessWithInfo_def split: if_splits)
        then show ?thesis using False step i by auto
      qed
    qed
  qed
qed

end

text \<open>What one pair of the connection string can change in the map of options.\<close>

lemma FindKeyValPair_cases:
  assumes "FindKeyValPair pf row cn = Some (ret, cn')"
  shows "config_map cn' = config_map cn
    \<or> (\<exists>k v. k = TrimString (ascii_lower (takeWhile (\<lambda>c. c \<noteq> CHR ''='') row)) \<and> ascii_lower k = k \<and> k \<notin> set IGNORE_KEYS
        \<and> k \<noteq> SQL_FILE_OPTION \<and> k \<noteq> SQL_FILE_SHA256_OPTION \<and> config_map cn' = (config_map cn)(k \<mapsto> v))"
proof -
  define k where "k = TrimString (ascii_lower (takeWhile (\<lambda>c. c \<noteq> CHR ''='') row))"
  have k: "ascii_lower k = k" by (simp add: k_def ascii_lower_TrimString ascii_lower_idem)
  have post: "connect_post r msg st x = (ret, cn') \<Longrightarrow> config_map cn' = config_map x" for r msg st x
    by (metis connect_post_simps(2) snd_conv)
  have match: "FindMatchingKey pf k cn = (r, x) \<Longrightarrow> config_map x = config_map cn" for r x
    by (auto simp: FindMatchingKey_def split: if_splits) (metis connect_post_simps(2) snd_conv)
  show ?thesis
    using assms unfolding FindKeyValPair_def Let_def k_def [symmetric] 
    by (auto simp: k set_config_def split: if_splits prod.splits dest!: post match)
qed

definition no_script :: "Connect \<Rightarrow> bool" where
  "no_script cn \<longleftrightarrow> config_map cn SQL_FILE_OPTION = None \<and> config_map cn SQL_FILE_SHA256_OPTION = None"

lemma lower_names: "ascii_lower CUPOLA = CUPOLA" "ascii_lower SQL_FILE_OPTION = SQL_FILE_OPTION"
  "ascii_lower SQL_FILE_SHA256_OPTION = SQL_FILE_SHA256_OPTION" "ascii_lower ''dsn'' = ''dsn''"
  by code_simp+

lemma script_names: "CUPOLA \<noteq> SQL_FILE_OPTION" "CUPOLA \<noteq> SQL_FILE_SHA256_OPTION"
  by (simp_all add: SQL_FILE_OPTION_def SQL_FILE_SHA256_OPTION_def)

interpretation no_script: pair_parser pf "\<lambda>_. no_script"
proof
  show "no_script cn \<Longrightarrow> set_config pf CUPOLA v cn = Some cn' \<Longrightarrow> no_script cn'" for cn cn' v
    using script_names by (auto simp: set_config_def no_script_def lower_names split: if_splits)
  show "no_script cn \<Longrightarrow> k \<noteq> CUPOLA \<Longrightarrow> FindKeyValPair pf (k @ ''='' @ v) cn = Some (ret, cn') \<Longrightarrow> no_script cn'" for cn cn' k v ret
    using FindKeyValPair_cases [of pf "k @ ''='' @ v" cn ret cn'] by (auto simp: no_script_def)
qed (simp_all add: no_script_def)

definition cupola_only :: "bool \<Rightarrow> Connect \<Rightarrow> bool" where
  "cupola_only unexpected cn \<longleftrightarrow> unexpected \<or> (\<forall>k. k \<noteq> CUPOLA \<longrightarrow> config_map cn k = None)"

lemma ignored_names: "k \<in> set IGNORE_KEYS \<Longrightarrow> TrimString (ascii_lower (takeWhile (\<lambda>c. c \<noteq> CHR ''='') (k @ ''='' @ v))) = k"
proof -
  have "\<forall>k\<in>set IGNORE_KEYS. TrimString (ascii_lower k) = k \<and> CHR ''='' \<notin> set k" by code_simp
  then show "k \<in> set IGNORE_KEYS \<Longrightarrow> ?thesis" by (auto simp: takeWhile_append)
qed

interpretation cupola_only: pair_parser pf cupola_only
proof
  show "cupola_only u cn \<Longrightarrow> set_config pf CUPOLA v cn = Some cn' \<Longrightarrow> cupola_only u cn'" for u cn cn' v
    by (auto simp: set_config_def cupola_only_def lower_names split: if_splits)
  fix u cn k v ret cn'
  assume c: "cupola_only u cn" "k \<noteq> CUPOLA" "FindKeyValPair pf (k @ ''='' @ v) cn = Some (ret, cn')"
  show "cupola_only (u \<or> unexpected_with_cupola k v) cn'"
  proof (cases "unexpected_with_cupola k v")
    case False
    then have "k \<in> set IGNORE_KEYS" using c(2) by (auto simp: unexpected_with_cupola_def IGNORE_KEYS_def)
    then have "config_map cn' = config_map cn" using FindKeyValPair_cases [OF c(3)] ignored_names by metis
    then show ?thesis using c(1) by (auto simp: cupola_only_def)
  qed (simp add: cupola_only_def)
qed (simp_all add: cupola_only_def)

lemma ParseInputStr_Inl: "parse_pairs pf s {} False False cn0 = Some (Inl r) \<Longrightarrow> ParseInputStr pf s cn0 = Some r"
  by (cases r) (simp add: ParseInputStr_def)

lemma ParseInputStr_Inr:
  assumes "parse_pairs pf s {} False False cn0 = Some (Inr (duplicate, unexpected, cn1))" "ParseInputStr pf s cn0 = Some (ret, cn)"
  shows "config_map cn = config_map cn1 \<and> seen_config_options cn = seen_config_options cn1
    \<and> (SQL_SUCCEEDED ret \<longrightarrow> \<not> (seen_config_options cn CUPOLA = Some True \<and> (duplicate \<or> unexpected))
          \<and> GetOptionFromConfigMap ''dsn'' [] cn1 = Some (dbc_dsn (cn_dbc cn)))"
proof (cases "seen_config_options cn1 CUPOLA = Some True \<and> (duplicate \<or> unexpected)")
  case True
  then obtain msg where "connect_post SQL_ERROR msg ST_HY000 cn1 = (ret, cn)" using assms by (simp add: ParseInputStr_def)
  then have "ret = SQL_ERROR" "config_map cn = config_map cn1" "seen_config_options cn = seen_config_options cn1"
    by (metis connect_post_simps(1) fst_conv, metis connect_post_simps(2) snd_conv, metis connect_post_simps(3) snd_conv)
  then show ?thesis by simp
next
  case False
  then obtain dsn where "GetOptionFromConfigMap ''dsn'' [] cn1 = Some dsn" "cn = cn1\<lparr>cn_dbc := (cn_dbc cn1)\<lparr>dbc_dsn := dsn\<rparr>\<rparr>"
    using assms unfolding ParseInputStr_def by (simp only: option.case sum.case prod.case if_False map_option_eq_Some) blast
  then show ?thesis using False by simp
qed

text \<open>C11: no connection string can name a session script: whatever text \<^verbatim>\<open>SQLDriverConnect\<close> is given, after it is
  parsed the options \<^verbatim>\<open>session_init_sql_file\<close> and \<^verbatim>\<open>session_init_sql_file_sha256\<close> are not set, whichever way they are
  spelled, spaced or braced. They can only come from the configuration of a data source.\<close>

theorem connection_string_sets_no_script:
  assumes "ParseInputStr pf s (make_Connect pf dbc) = Some (ret, cn)"
  shows "config_map cn SQL_FILE_OPTION = None \<and> config_map cn SQL_FILE_SHA256_OPTION = None"
proof -
  obtain res where res: "parse_pairs pf s {} False False (make_Connect pf dbc) = Some res"
    using assms by (cases "parse_pairs pf s {} False False (make_Connect pf dbc)") (simp_all add: ParseInputStr_def)
  have "no_script (make_Connect pf dbc)" by (simp add: no_script_def make_Connect_def)
  note inv = no_script.parse_pairs_inv [OF this res]
  show ?thesis
  proof (cases res)
    case (Inl r)
    then have "r = (ret, cn)" using ParseInputStr_Inl res assms by (metis option.inject)
    then show ?thesis using inv Inl by (simp add: no_script_def)
  next
    case (Inr r)
    then obtain d u cn1 where r: "res = Inr (d, u, cn1)" by (cases r) auto
    then show ?thesis using inv ParseInputStr_Inr [OF _ assms] res by (simp add: no_script_def)
  qed
qed

text \<open>C23: \<^verbatim>\<open>CupolaConnection\<close> excludes every other option: a connection string that is accepted and names a Cupola connection
  sets nothing else, neither a database nor a data source nor any option of the engine.\<close>

theorem cupola_excludes_other_options:
  assumes "ParseInputStr pf s (make_Connect pf dbc) = Some (ret, cn)" "SQL_SUCCEEDED ret"
    and "seen_config_options cn CUPOLA = Some True"
  shows "dom (config_map cn) \<subseteq> {CUPOLA} \<and> dbc_dsn (cn_dbc cn) = []"
proof -
  obtain res where res: "parse_pairs pf s {} False False (make_Connect pf dbc) = Some res"
    using assms(1) by (cases "parse_pairs pf s {} False False (make_Connect pf dbc)") (simp_all add: ParseInputStr_def)
  have "cupola_only False (make_Connect pf dbc)" by (simp add: cupola_only_def make_Connect_def)
  note inv = cupola_only.parse_pairs_inv [OF this res]
  show ?thesis
  proof (cases res)
    case (Inl r)
    then have "r = (ret, cn)" using ParseInputStr_Inl res assms(1) by (metis option.inject)
    then show ?thesis using inv Inl assms(2) by simp
  next
    case (Inr r)
    then obtain d u cn1 where r: "res = Inr (d, u, cn1)" by (cases r) auto
    then have c: "config_map cn = config_map cn1" "\<not> u" "GetOptionFromConfigMap ''dsn'' [] cn1 = Some (dbc_dsn (cn_dbc cn))"
      using ParseInputStr_Inr [OF _ assms(1)] res assms(2,3) by auto
    then have none: "k \<noteq> CUPOLA \<Longrightarrow> config_map cn k = None" for k using inv r by (simp add: cupola_only_def)
    moreover have "dbc_dsn (cn_dbc cn) = []"
      using c none [of "''dsn''"] by (auto simp: GetOptionFromConfigMap_def lower_names split: if_splits)
    ultimately show ?thesis by (metis domIff insertCI subsetI)
  qed
qed

section \<open>Printing a connection string\<close>

text \<open>The form in which an application writes a connection string: every value in braces, closing braces doubled.\<close>

definition escape_braces :: "string \<Rightarrow> string" where
  "escape_braces v = concat (map (\<lambda>c. if c = CHR ''}'' then ''}}'' else [c]) v)"

definition print_pair :: "string \<times> string \<Rightarrow> string" where
  "print_pair kv = fst kv @ ''={'' @ escape_braces (snd kv) @ ''};''"

definition connection_string :: "(string \<times> string) list \<Rightarrow> string" where
  "connection_string ps = concat (map print_pair ps)"

definition settable_key :: "('c, 'e) platform \<Rightarrow> string \<Rightarrow> bool" where
  "settable_key pf k \<longleftrightarrow> k \<in> set (registered_names pf) \<and> ascii_lower k = k \<and> TrimString k = k \<and> k \<noteq> [] \<and> CHR ''='' \<notin> set k
     \<and> hd k \<noteq> CHR '';'' \<and> k \<notin> set IGNORE_KEYS \<and> k \<noteq> SQL_FILE_OPTION \<and> k \<noteq> SQL_FILE_SHA256_OPTION \<and> k \<noteq> CUPOLA"

lemma parse_braced_escape: "hd r \<noteq> CHR ''}'' \<Longrightarrow> parse_braced (escape_braces v @ ''}'' @ r) = Some (v, r)"
  by (induction v) (auto simp: escape_braces_def)

lemma parse_value_braced: "parse_value (''{'' @ escape_braces v @ ''};'' @ r) = Some (v, CHR '';'' # r)"
  using parse_braced_escape [of "CHR '';'' # r" v] by (simp add: parse_value_def IsSpace_def)

lemma parse_pairs_separator: "parse_pairs pf (CHR '';'' # s) sp d u cn = parse_pairs pf s sp d u cn"
  by (simp add: parse_pairs.simps [of pf "CHR '';'' # s"] parse_pairs.simps [of pf s])

lemma split_at_equal:
  assumes "CHR ''='' \<notin> set k"
  shows "takeWhile (\<lambda>c. c \<noteq> CHR ''='') (k @ CHR ''='' # r) = k" "dropWhile (\<lambda>c. c \<noteq> CHR ''='') (k @ CHR ''='' # r) = CHR ''='' # r"
  using assms by (induction k) auto

definition put_option :: "Connect \<Rightarrow> string \<times> string \<Rightarrow> Connect" where
  "put_option cn kv = cn\<lparr>seen_config_options := (seen_config_options cn)(fst kv \<mapsto> True), config_map := (config_map cn)(fst kv \<mapsto> snd kv)\<rparr>"

lemma FindKeyValPair_set:
  assumes "settable_key pf k" "seen_config_options cn k \<noteq> None" "pf_valid pf (TrimString v)"
  shows "FindKeyValPair pf (k @ ''='' @ v) cn = Some (SQL_SUCCESS, put_option cn (k, TrimString v))"
  using assms split_at_equal [of k v]
  by (simp add: settable_key_def FindKeyValPair_def FindMatchingKey_def set_config_def put_option_def)

lemma parse_pairs_pair:
  assumes "settable_key pf k" "seen_config_options cn k \<noteq> None" "pf_valid pf (TrimString v)"
  shows "parse_pairs pf (print_pair (k, v) @ r) sp d u cn
    = parse_pairs pf r (insert k sp) (d \<or> k \<in> sp) (u \<or> unexpected_with_cupola k v) (put_option cn (k, TrimString v))"
proof -
  let ?s = "print_pair (k, v) @ r"
  have k: "ascii_lower k = k" "TrimString k = k" "k \<noteq> []" "CHR ''='' \<notin> set k" "hd k \<noteq> CHR '';''" "k \<noteq> CUPOLA"
    using assms(1) by (auto simp: settable_key_def)
  have sp: "\<not> IsSpace (hd k)" using TrimString_spec [of k] k(2,3) by auto
  have s: "?s = k @ CHR ''='' # (''{'' @ escape_braces v @ ''};'' @ r)" by (simp add: print_pair_def)
  have "dropWhile (\<lambda>c. c = CHR '';'' \<or> IsSpace c) ?s = ?s"
    using k(3,5) sp unfolding s by (cases k) auto
  moreover have "takeWhile (\<lambda>c. c \<noteq> CHR ''='') ?s = k" "tl (dropWhile (\<lambda>c. c \<noteq> CHR ''='') ?s) = ''{'' @ escape_braces v @ ''};'' @ r"
    unfolding s split_at_equal [OF k(4)] by simp_all
  moreover have "print_pair (k, v) \<noteq> []" "CHR ''='' \<in> set (print_pair (k, v))" by (simp_all add: print_pair_def)
  ultimately show ?thesis
    unfolding parse_pairs.simps [of pf ?s]
    by (simp add: Let_def k parse_value_braced [simplified] FindKeyValPair_set [OF assms, simplified] SetSuccessWithInfo_def parse_pairs_separator)
qed

lemma parse_pairs_printed:
  assumes "\<forall>(k, v) \<in> set ps. settable_key pf k \<and> seen_config_options cn k \<noteq> None \<and> pf_valid pf (TrimString v)"
  shows "\<exists>d' u'. parse_pairs pf (connection_string ps) sp d u cn
    = Some (Inr (d', u', foldl put_option cn (map (\<lambda>(k, v). (k, TrimString v)) ps)))"
  using assms
proof (induction ps arbitrary: sp d u cn)
  case Nil
  then show ?case by (simp add: connection_string_def parse_pairs.simps)
next
  case (Cons kv ps)
  obtain k v where kv: "kv = (k, v)" by (cases kv)
  have "\<forall>(k', v') \<in> set ps. settable_key pf k' \<and> seen_config_options (put_option cn (k, TrimString v)) k' \<noteq> None \<and> pf_valid pf (TrimString v')"
    using Cons.prems by (auto simp: put_option_def)
  from Cons.IH [OF this] show ?case
    using Cons.prems parse_pairs_pair [of pf k cn v] by (simp add: connection_string_def kv)
qed

lemma foldl_put_option:
  "config_map (foldl put_option cn ps) = config_map cn ++ map_of (rev ps)"
  "seen_config_options (foldl put_option cn ps) k = (if k \<in> fst ` set ps then Some True else seen_config_options cn k)"
  "success_with_info (foldl put_option cn ps) = success_with_info cn"
  "cn_dbc (foldl put_option cn ps) = cn_dbc cn"
  by (induction ps arbitrary: cn) (auto simp: put_option_def map_add_def split: option.splits)

lemma ParseInputStr_printed:
  assumes "\<forall>(k, v) \<in> set ps. settable_key pf k \<and> pf_valid pf (TrimString v)"
  shows "\<exists>cn. ParseInputStr pf (connection_string ps) (make_Connect pf dbc) = Some (SQL_SUCCESS, cn)
    \<and> config_map cn = map_of (rev (map (\<lambda>(k, v). (k, TrimString v)) ps))
    \<and> dbc_dsn (cn_dbc cn) = (case map_of (rev (map (\<lambda>(k, v). (k, TrimString v)) ps)) ''dsn'' of None \<Rightarrow> [] | Some dsn \<Rightarrow> dsn)"
proof -
  let ?ps = "map (\<lambda>(k, v). (k, TrimString v)) ps" and ?cn0 = "make_Connect pf dbc"
  have "\<forall>(k, v) \<in> set ps. settable_key pf k \<and> seen_config_options ?cn0 k \<noteq> None \<and> pf_valid pf (TrimString v)"
    using assms by (auto simp: make_Connect_def settable_key_def)
  from parse_pairs_printed [OF this] obtain d u where p: "parse_pairs pf (connection_string ps) {} False False ?cn0 = Some (Inr (d, u, foldl put_option ?cn0 ?ps))"
    by blast
  have c: "seen_config_options (foldl put_option ?cn0 ?ps) CUPOLA \<noteq> Some True"
    using assms by (auto simp: foldl_put_option make_Connect_def settable_key_def)
  have "\<exists>dsn. GetOptionFromConfigMap ''dsn'' [] (foldl put_option ?cn0 ?ps) = Some dsn
    \<and> dsn = (case map_of (rev ?ps) ''dsn'' of None \<Rightarrow> [] | Some dsn \<Rightarrow> dsn)"
  proof (cases "map_of (rev ?ps) ''dsn''")
    case None
    then have "''dsn'' \<notin> fst ` set ?ps" by (simp only: map_of_eq_None_iff set_rev) simp
    then show ?thesis using None by (simp add: GetOptionFromConfigMap_def foldl_put_option make_Connect_def)
  next
    case (Some dsn)
    then have "''dsn'' \<in> fst ` set ?ps" by (metis map_of_eq_None_iff option.distinct(1) set_rev)
    then show ?thesis using Some by (simp add: GetOptionFromConfigMap_def foldl_put_option make_Connect_def lower_names)
  qed
  moreover have "config_map ?cn0 = Map.empty" "success_with_info ?cn0 = False" by (simp_all add: make_Connect_def)
  ultimately show ?thesis
    using c by (auto simp: ParseInputStr_def p foldl_put_option(1,3))
qed

text \<open>C21: a connection string is read as it was written, but for white space at the ends of a value. For every list of values for
  keys that a connection string can set (registered names of options, other than the ignored keys, the session script and
  \<^verbatim>\<open>CupolaConnection\<close>), printed in braces with closing braces doubled, \<^verbatim>\<open>SQLDriverConnect\<close> stores exactly these values without the
  white space at their ends, whatever semicolons, braces, equal signs or quotes they contain; a key that is given twice has its
  last value.\<close>

theorem connection_string_round_trip:
  assumes "\<forall>(k, v) \<in> set ps. settable_key pf k \<and> pf_valid pf (TrimString v)"
  shows "\<exists>cn. ParseInputStr pf (connection_string ps) (make_Connect pf dbc) = Some (SQL_SUCCESS, cn)
    \<and> config_map cn = map_of (rev (map (\<lambda>(k, v). (k, TrimString v)) ps))
    \<and> dbc_dsn (cn_dbc cn) = (case map_of (rev (map (\<lambda>(k, v). (k, TrimString v)) ps)) ''dsn'' of None \<Rightarrow> [] | Some dsn \<Rightarrow> dsn)"
  by (rule ParseInputStr_printed [OF assms])

text \<open>Braces do not protect white space: a value that is written in braces loses the blanks at its ends, since the pair is
  put together again and its value trimmed a second time.\<close>

theorem braced_blanks_lost:
  assumes "settable_key pf k" "pf_valid pf (TrimString v)" "TrimString v \<noteq> v"
  shows "\<exists>cn. ParseInputStr pf (connection_string [(k, v)]) (make_Connect pf dbc) = Some (SQL_SUCCESS, cn) \<and> config_map cn k = Some (TrimString v)
    \<and> config_map cn k \<noteq> Some v"
  using ParseInputStr_printed [of "[(k, v)]" pf dbc] assms by auto

section \<open>Witnesses\<close>

definition sample_platform :: "((string \<times> string) list, Value list list) platform" where
  "sample_platform = \<lparr>pf_option_names = [''access_mode'', ''enable_external_access''], pf_candidates = (\<lambda>_. []), pf_valid = (\<lambda>_. True),
     pf_profile = None, pf_config = [], pf_set_option = (\<lambda>cfg k v. Inr (cfg @ [(k, v)])), pf_set_options = (\<lambda>cfg _. Inr cfg),
     pf_open = (\<lambda>e _ _ _. Inr (True, e)), pf_connect = (\<lambda>e _. e), pf_error_text = (\<lambda>msg. msg), pf_files = sample_files,
     pf_windows = False, pf_attach = AttachCupolaConnection\<rparr>"

definition sample_conn_dbc :: OdbcHandleDbc where "sample_conn_dbc = make_OdbcHandleDbc 0 0"

abbreviation sample_pairs :: "(string \<times> string) list" where
  "sample_pairs \<equiv> [(''database'', ''C:{a;b}=c''), (''access_mode'', ''read_only'')]"

lemma sample_settable: "settable_key sample_platform ''database''" "settable_key sample_platform ''access_mode''"
  by code_simp+

lemma sample_trim: "TrimString ''C:{a;b}=c'' = ''C:{a;b}=c''" "TrimString ''read_only'' = ''read_only''" "TrimString '' a b '' = ''a b''"
  by code_simp+

lemma sample_valid: "pf_valid sample_platform v" by (simp add: sample_platform_def)

theorem connection_string_round_trip_witness:
  "\<exists>cn. ParseInputStr sample_platform (connection_string sample_pairs) (make_Connect sample_platform sample_conn_dbc) = Some (SQL_SUCCESS, cn)
    \<and> config_map cn = map_of (rev sample_pairs) \<and> dbc_dsn (cn_dbc cn) = []"
  using connection_string_round_trip [of sample_pairs sample_platform sample_conn_dbc]
  by (simp add: sample_settable sample_trim sample_valid)

theorem braced_blanks_lost_witness:
  "\<exists>cn. ParseInputStr sample_platform (connection_string [(''database'', '' a b '')]) (make_Connect sample_platform sample_conn_dbc) = Some (SQL_SUCCESS, cn)
    \<and> config_map cn ''database'' = Some (TrimString '' a b '') \<and> config_map cn ''database'' \<noteq> Some '' a b ''"
  by (rule braced_blanks_lost) (simp_all add: sample_settable sample_trim sample_valid)

definition parsed :: "string \<Rightarrow> (SQLRETURN \<times> Connect) option" where
  "parsed s = ParseInputStr sample_platform s (make_Connect sample_platform sample_conn_dbc)"

lemma sample_parsed:
  "\<not> Option.is_none (parsed ''access_mode=x; Session_Init_SQL_File = {/tmp/x}'')"
  "case parsed ''Driver={x};CupolaConnection={My Conn}'' of Some (ret, cn) \<Rightarrow> SQL_SUCCEEDED ret \<and> seen_config_options cn CUPOLA = Some True | None \<Rightarrow> False"
  by code_simp+

theorem connection_string_sets_no_script_witness:
  "\<exists>ret cn. parsed ''access_mode=x; Session_Init_SQL_File = {/tmp/x}'' = Some (ret, cn)
    \<and> config_map cn SQL_FILE_OPTION = None \<and> config_map cn SQL_FILE_SHA256_OPTION = None"
proof -
  obtain ret cn where p: "parsed ''access_mode=x; Session_Init_SQL_File = {/tmp/x}'' = Some (ret, cn)"
    using sample_parsed(1) by (auto simp: Option.is_none_def)
  then show ?thesis using connection_string_sets_no_script [OF p [unfolded parsed_def]] by blast
qed

theorem cupola_excludes_other_options_witness:
  "\<exists>ret cn. parsed ''Driver={x};CupolaConnection={My Conn}'' = Some (ret, cn) \<and> dom (config_map cn) \<subseteq> {CUPOLA} \<and> dbc_dsn (cn_dbc cn) = []"
proof -
  obtain ret cn where p: "parsed ''Driver={x};CupolaConnection={My Conn}'' = Some (ret, cn)" "SQL_SUCCEEDED ret" "seen_config_options cn CUPOLA = Some True"
    using sample_parsed(2) by (auto split: option.splits)
  then show ?thesis using cupola_excludes_other_options [OF p(1) [unfolded parsed_def] p(2,3)] by blast
qed

section \<open>A failed connection\<close>

interpretation keeps_conn: pair_parser pf "\<lambda>_ cn. dbc_conn (cn_dbc cn) = b"
proof
  have post [simp]: "dbc_conn (cn_dbc (snd (connect_post r msg st cn))) = dbc_conn (cn_dbc cn)" for r msg st cn
    by (simp add: connect_post_def Let_def SetDiagnosticRecord_def)
  then have post': "connect_post r msg st cn = (ret, cn') \<Longrightarrow> dbc_conn (cn_dbc cn') = dbc_conn (cn_dbc cn)" for r msg st cn ret cn'
    by (metis snd_conv)
  show "dbc_conn (cn_dbc cn) = b \<Longrightarrow> dbc_conn (cn_dbc (snd (connect_post r msg st cn))) = b" for cn r msg st by simp
  show "dbc_conn (cn_dbc cn) = b \<Longrightarrow> FindKeyValPair pf (k @ ''='' @ v) cn = Some (ret, cn') \<Longrightarrow> dbc_conn (cn_dbc cn') = b" for cn k v ret cn'
    by (auto simp: FindKeyValPair_def FindMatchingKey_def Let_def set_config_def split: if_splits prod.splits dest!: post')
qed (auto simp: set_config_def split: if_splits)

lemma connect_post_conn: "connect_post r msg st cn = (ret, cn') \<Longrightarrow> ret = r \<and> dbc_conn (cn_dbc cn') = dbc_conn (cn_dbc cn)"
  by (auto simp: connect_post_def Let_def SetDiagnosticRecord_def)

lemma ParseInputStr_conn:
  assumes "ParseInputStr pf s cn0 = Some (ret, cn)"
  shows "dbc_conn (cn_dbc cn) = dbc_conn (cn_dbc cn0)"
proof -
  obtain res where res: "parse_pairs pf s {} False False cn0 = Some res"
    using assms by (cases "parse_pairs pf s {} False False cn0") (simp_all add: ParseInputStr_def)
  note inv = keeps_conn.parse_pairs_inv [OF refl res]
  show ?thesis
  proof (cases res)
    case (Inl r)
    then have "r = (ret, cn)" using ParseInputStr_Inl res assms by (metis option.inject)
    then show ?thesis using inv Inl by simp
  next
    case (Inr r)
    obtain d u cn1 where r: "r = (d, u, cn1)" by (cases r)
    then have "dbc_conn (cn_dbc cn1) = dbc_conn (cn_dbc cn0)" using inv Inr by simp
    then show ?thesis using assms res Inr r
      by (auto simp: ParseInputStr_def split: if_splits dest!: connect_post_conn)
  qed
qed

lemma read_profile_conn: "read_profile pf prof ks cn = Some (ret, cn') \<Longrightarrow> dbc_conn (cn_dbc cn') = dbc_conn (cn_dbc cn)"
  by (induction pf prof ks cn rule: read_profile.induct)
    (auto simp: set_config_def split: if_splits prod.splits option.splits dest!: connect_post_conn)

lemma ReadFromIniFile_conn: "ReadFromIniFile pf cn = Some (ret, cn') \<Longrightarrow> dbc_conn (cn_dbc cn') = dbc_conn (cn_dbc cn)"
  by (auto simp: ReadFromIniFile_def read_profile_conn split: option.splits if_splits)

lemma erase_config_dbc [simp]: "cn_dbc (erase_config k cn) = cn_dbc cn"
  by (simp add: erase_config_def)

lemma NormalizeWindowsPathSeparators_dbc: "NormalizeWindowsPathSeparators pf k cn = Some cn' \<Longrightarrow> cn_dbc cn' = cn_dbc cn"
  by (auto simp: NormalizeWindowsPathSeparators_def bind_eq_Some_conv Let_def split: if_splits)

lemma SetDatabaseName_conn [simp]: "dbc_conn (SetDatabaseName dbc n) = dbc_conn dbc"
  by (simp add: SetDatabaseName_def)

lemma drop_conn_closed: "drop_conn c w = Some w' \<Longrightarrow> \<exists>dbc. dbcs w' c = Some dbc \<and> \<not> dbc_conn dbc"
  by (auto simp: drop_conn_def)

lemma start_session_closed:
  assumes "start_session pf db g u frame fuel c cupola content db_created dbc w m e = Some (Some (ret, w', m', e'))" "\<not> SQL_SUCCEEDED ret"
  shows "\<exists>dbc. dbcs w' c = Some dbc \<and> \<not> dbc_conn dbc"
proof -
  let ?e = "if dbc_conn dbc then e else pf_connect pf e (autocommit dbc)" and ?w = "put_dbc c (dbc\<lparr>dbc_conn := True\<rparr>) w"
  define r where "r = (if SQLFile_IsEmpty content then Some (Some (SQL_SUCCESS, ?w, m, ?e)) else SessionInit_Run db g u frame fuel c content db_created ?w m ?e)"
  note out = assms(1) [unfolded start_session_def Let_def r_def [symmetric]]
  obtain ret1 w1 m1 e1 where r: "r = Some (Some (ret1, w1, m1, e1))" using out by (cases r; cases "the r") auto
  show ?thesis
  proof (cases "SQL_SUCCEEDED ret1")
    case True
    then show ?thesis using out assms(2)
      by (auto simp: r bind_eq_Some_conv drop_conn_def dbc_post_def post_on_def SetDiagnosticRecord_def Let_def split: if_splits prod.splits sum.splits)
  next
    case False
    then show ?thesis using out drop_conn_closed by (auto simp: r)
  qed
qed

lemma SetConnection_closed:
  assumes "SetConnection pf db g u frame fuel c cn w m e = Some (Some (ret, w', m', e'))" "\<not> SQL_SUCCEEDED ret" "\<not> dbc_conn (cn_dbc cn)"
  shows "\<exists>dbc. dbcs w' c = Some dbc \<and> \<not> dbc_conn dbc"
proof -
  show ?thesis
    using assms(1,3) unfolding SetConnection_def Let_def
    by (auto simp: bind_eq_Some_conv split: option.splits if_splits sum.splits prod.splits
        dest!: ReadFromIniFile_conn NormalizeWindowsPathSeparators_dbc connect_post_conn start_session_closed [OF _ assms(2)])
qed

text \<open>C8: a connection that could not be opened stays closed: when \<^verbatim>\<open>SQLDriverConnect\<close> on a handle without a connection
  returns an error, whether from the connection string, the database, the session script or the Cupola connection, the handle has
  no connection afterwards, so that no statement can be run on it.\<close>

theorem failed_connect_stays_closed:
  assumes "dbcs w c = Some dbc" "\<not> dbc_conn dbc"
    and "DriverConnectInternal pf db g u frame fuel (Some (DbcPtr c)) s n out b lp w m e = Some (Some (ret, w', m', e'))" "\<not> SQL_SUCCEEDED ret"
  shows "\<exists>dbc'. dbcs w' c = Some dbc' \<and> \<not> dbc_conn dbc'"
proof -
  have conn: "ParseInputStr pf str (make_Connect pf dbc) = Some (r, cn) \<Longrightarrow> \<not> dbc_conn (cn_dbc cn)" for str r cn
    using ParseInputStr_conn assms(2) by (fastforce simp: make_Connect_def)
  have info: "SetSuccessWithInfo r cn = (ok, cn') \<Longrightarrow> cn_dbc cn' = cn_dbc cn" for r cn ok cn'
    by (auto simp: SetSuccessWithInfo_def split: if_splits)
  show ?thesis
    using assms(1,3,4) unfolding DriverConnectInternal_def on_new_connection_def ConvertDBCBeforeConnection_def Let_def
    by (auto split: option.splits if_splits prod.splits dest!: conn info intro: SetConnection_closed)
qed

definition closed_driver :: driver where
  "closed_driver = \<lparr>envs = (\<lambda>_. None), dbcs = [1 \<mapsto> sample_conn_dbc], stmts = (\<lambda>_. None), descs = (\<lambda>_. None), next_handle = 2\<rparr>"

theorem failed_connect_stays_closed_witness:
  "\<exists>w'. DriverConnectInternal sample_platform sample_database sample_garbage sample_record 4096 1 (Some (DbcPtr 1)) (Some ''nonsense'') 8
      nullptr 0 nullptr closed_driver (\<lambda>_. CHR 0x00) [] = Some (Some (SQL_ERROR, w', \<lambda>_. CHR 0x00, []))
    \<and> (\<exists>dbc'. dbcs w' 1 = Some dbc' \<and> \<not> dbc_conn dbc')"
proof -
  have parse: "ParseInputStr sample_platform ''nonsense'' (make_Connect sample_platform sample_conn_dbc)
    = Some (connect_post SQL_ERROR ''Invalid ODBC connection string'' ST_HY000 (make_Connect sample_platform sample_conn_dbc))"
    by (simp add: ParseInputStr_def parse_pairs.simps IsSpace_def split: prod.splits)
  obtain cn where cn: "connect_post SQL_ERROR ''Invalid ODBC connection string'' ST_HY000 (make_Connect sample_platform sample_conn_dbc) = (SQL_ERROR, cn)"
    by (simp add: connect_post_def SetDiagnosticRecord_def Let_def)
  have closed: "\<not> dbc_conn sample_conn_dbc"
    by (simp add: sample_conn_dbc_def make_OdbcHandleDbc_def)
  have run: "DriverConnectInternal sample_platform sample_database sample_garbage sample_record 4096 1 (Some (DbcPtr 1)) (Some ''nonsense'') 8
      nullptr 0 nullptr closed_driver (\<lambda>_. CHR 0x00) [] = Some (Some (SQL_ERROR, put_dbc 1 (cn_dbc cn) closed_driver, \<lambda>_. CHR 0x00, []))"
    by (simp add: DriverConnectInternal_def on_new_connection_def ConvertDBCBeforeConnection_def closed_driver_def ConvertSQLCHARToString_def parse cn SetSuccessWithInfo_def)
  have "\<exists>dbc'. dbcs (put_dbc 1 (cn_dbc cn) closed_driver) 1 = Some dbc' \<and> \<not> dbc_conn dbc'"
    using failed_connect_stays_closed [OF _ closed run] by (simp add: closed_driver_def)
  then show ?thesis using run by blast
qed

end
