(* ===== verification/Metadata_Api.thy ===== *)
theory Metadata_Api
  imports Statement_Exec
begin

text \<open>
  The catalog functions: \<^verbatim>\<open>SQLTables\<close> and \<^verbatim>\<open>SQLColumns\<close> of \<^verbatim>\<open>odbc_api/metadata_api.cpp\<close>, with \<^verbatim>\<open>GetQueryDuckdbTables\<close> and
  \<^verbatim>\<open>GetQueryDuckdbColumns\<close> of \<^verbatim>\<open>common/odbc_utils.cpp\<close>. They build an SQL text from the search patterns of the application and execute it.

  The raw string literals are lists of lines, in which a back quote stands for a quote, a caret for a double quote and a bar for a
  tabulator, none of which occurs in them (\<open>raw\<close>). The type numbers of the columns query are the list \<open>column_mapping\<close>, from which its
  lines are printed. The regular expressions are the recursive functions \<open>replace_word\<close> and \<open>merge_commas\<close>.

  The theorem shows that the list of table types is translated to the type names of the engine.
\<close>

section \<open>The texts\<close>

definition raw_char :: "char \<Rightarrow> char" where
  "raw_char c = (if c = CHR 0x60 then CHR 0x27 else if c = CHR ''^'' then CHR 0x22 else if c = CHR ''|'' then CHR 0x09 else c)"

fun raw :: "string list \<Rightarrow> string" where
  "raw [] = []"
| "raw [l] = map raw_char l"
| "raw (l # ls) = map raw_char l @ [CHR 0x0A] @ raw ls"

definition columns_lines_1 :: "string list" where
  "columns_lines_1 = [
     '''', ''        SELECT * EXCLUDE (mapping, data_type_no_typmod)'', ''        FROM ('',
     ''            SELECT NULL::VARCHAR AS ^TABLE_CAT^,'', ''            SCHEMA_NAME AS ^TABLE_SCHEM^,'',
     ''            TABLE_NAME AS ^TABLE_NAME^,'', ''            COLUMN_NAME AS ^COLUMN_NAME^,'', ''            MAP {'']"

definition column_mapping :: "(string \<times> int \<times> string) list" where
  "column_mapping = [
     (''BOOLEAN'', 1, ''SQL_CHAR''), (''TINYINT'', - 6, ''SQL_TINYINT''), (''UTINYINT'', - 6, ''SQL_TINYINT''),
     (''SMALLINT'', 5, ''SQL_SMALLINT''), (''USMALLINT'', 5, ''SQL_SMALLINT''), (''INTEGER'', 4, ''SQL_INTEGER''),
     (''UINTEGER'', 4, ''SQL_INTEGER''), (''BIGINT'', - 5, ''SQL_BIGINT''), (''UBIGINT'', - 5, ''SQL_BIGINT''),
     (''HUGEINT'', 2, ''SQL_NUMERIC''), (''UHUGEINT'', 2, ''SQL_NUMERIC''), (''FLOAT'', 6, ''SQL_FLOAT''),
     (''DOUBLE'', 8, ''SQL_DOUBLE''), (''DATE'', 91, ''SQL_TYPE_DATE''), (''TIME'', 92, ''SQL_TYPE_TIME''),
     (''VARCHAR'', 12, ''SQL_VARCHAR''), (''BLOB'', - 3, ''SQL_VARBINARY''), (''INTERVAL'', 10, ''SQL_INTERVAL''),
     (''DECIMAL'', 2, ''SQL_NUMERIC''), (''BIT'', - 7, ''SQL_BIT''), (''LIST'', 12, ''SQL_VARCHAR'')]"

definition columns_lines_2 :: "string list" where
  "columns_lines_2 = [
     ''            } AS mapping,'', ''            STRING_SPLIT(data_type, `(`)[1] AS data_type_no_typmod,'',
     ''            CASE'', ''                -- value 93 is SQL_TIMESTAMP'',
     ''                -- TODO: investigate why map key with spaces and regexes don`t work'',
     ''                WHEN data_type LIKE `TIMESTAMP%` THEN 93::SMALLINT'',
     ''                WHEN mapping[data_type_no_typmod] IS NOT NULL THEN mapping[data_type_no_typmod]::SMALLINT'',
     ''                ELSE data_type_id::SMALLINT'', ''            END AS ^DATA_TYPE^,'', ''            CASE'',
     ''                WHEN data_type_no_typmod = `DECIMAL` THEN `NUMERIC`'',
     ''                WHEN data_type LIKE `TIMESTAMP%` THEN `TIMESTAMP`'', ''                ELSE data_type_no_typmod'',
     ''            END AS ^TYPE_NAME^,'', ''            CASE'', ''                WHEN data_type=`DATE` THEN 12'',
     ''                WHEN data_type=`TIME` THEN 15'', ''                WHEN data_type LIKE `TIMESTAMP%` THEN 26'',
     ''                WHEN data_type=`CHAR`'', ''                    OR data_type=`BOOLEAN` THEN 1'',
     ''                WHEN data_type=`VARCHAR`'', ''                    OR data_type=`BLOB` THEN character_maximum_length'',
     ''                WHEN data_type LIKE `%INT%` THEN numeric_precision'',
     ''                WHEN data_type like `DECIMAL%` THEN numeric_precision'', ''                WHEN data_type=`FLOAT`'',
     ''                    OR data_type=`DOUBLE` THEN numeric_precision'', ''                ELSE NULL'',
     ''            END AS ^COLUMN_SIZE^,'', ''            CASE'', ''                WHEN data_type=`DATE` THEN 4'',
     ''                WHEN data_type LIKE `TIMESTAMP%` THEN 8'', ''                WHEN data_type LIKE `TIME%` THEN 8 '',
     ''                WHEN data_type=`CHAR`'', ''                    OR data_type=`BOOLEAN` THEN 1'',
     ''                WHEN data_type=`VARCHAR`'', ''                    OR data_type=`BLOB` THEN 16'',
     ''                WHEN data_type LIKE `%TINYINT` THEN 1'', ''                WHEN data_type LIKE `%SMALLINT` THEN 2'',
     ''                WHEN data_type LIKE `%INTEGER` THEN 4'', ''                WHEN data_type LIKE `%BIGINT` THEN 8'',
     ''                WHEN data_type=`HUGEINT` THEN 16'', ''                WHEN data_type like `DECIMAL%` THEN 16'',
     ''                WHEN data_type=`FLOAT` THEN 4'', ''                WHEN data_type=`DOUBLE` THEN 8'',
     ''                ELSE NULL'', ''            END AS ^BUFFER_LENGTH^,'',
     ''            numeric_scale::SMALLINT AS ^DECIMAL_DIGITS^,'',
     ''            numeric_precision_radix::SMALLINT ^NUM_PREC_RADIX^,'', ''            CASE is_nullable'',
     ''                WHEN FALSE THEN 0::SMALLINT'', ''                WHEN TRUE THEN 1::SMALLINT'',
     ''                ELSE 2::SMALLINT'', ''            END AS ^NULLABLE^,'', ''            `` AS ^REMARKS^,'',
     ''            column_default AS ^COLUMN_DEF^,'', ''            CASE'',
     ''                WHEN data_type LIKE `TIMESTAMP%` THEN 93::SMALLINT'',
     ''                WHEN mapping[data_type_no_typmod] IS NOT NULL THEN mapping[data_type_no_typmod]::SMALLINT'',
     ''                ELSE data_type_id::SMALLINT'', ''            END AS ^SQL_DATA_TYPE^,'', ''            CASE'',
     ''                WHEN data_type=`DATE` then 1::SMALLINT'',
     ''                WHEN data_type LIKE `TIMESTAMP%` THEN 3::SMALLINT'',
     ''                WHEN data_type LIKE `TIME%` THEN 2::SMALLINT'', ''                ELSE NULL::SMALLINT'',
     ''            END AS ^SQL_DATETIME_SUB^,'', ''            CASE'', ''                WHEN data_type=`%CHAR`'',
     ''                     OR data_type=`BLOB` THEN character_maximum_length'', ''                ELSE NULL'',
     ''            END AS ^CHAR_OCTET_LENGTH^,'', ''            column_index AS ^ORDINAL_POSITION^,'',
     ''            CASE is_nullable'', ''                WHEN FALSE THEN `NO`'', ''                WHEN TRUE THEN `YES`'',
     ''                ELSE ``'', ''            END AS ^IS_NULLABLE^'', ''            FROM duckdb_columns'', ''        )'',
     ''|'']"

fun mapping_lines :: "(string \<times> int \<times> string) list \<Rightarrow> string list" where
  "mapping_lines [] = []"
| "mapping_lines [(n, v, c)] = [replicate 16 (CHR '' '') @ ''`'' @ n @ ''`: '' @ to_string v @ '' -- '' @ c]"
| "mapping_lines ((n, v, c) # es) = (replicate 16 (CHR '' '') @ ''`'' @ n @ ''`: '' @ to_string v @ '', -- '' @ c) # mapping_lines es"

definition columns_order :: string where
  "columns_order = raw [
     '''', ''||ORDER BY'', ''|||^TABLE_CAT^,'', ''|||^TABLE_SCHEM^,'', ''|||^TABLE_NAME^,'', ''|||^ORDINAL_POSITION^'', ''|'']"

definition GetQueryDuckdbColumns :: "string \<Rightarrow> string \<Rightarrow> string \<Rightarrow> string \<Rightarrow> string" where
  "GetQueryDuckdbColumns catalog_filter schema_filter table_filter column_filter =
     raw (columns_lines_1 @ mapping_lines column_mapping @ columns_lines_2) @ '' WHERE ''
       @ (if catalog_filter \<noteq> [] then catalog_filter @ '' AND '' else [])
       @ (if schema_filter \<noteq> [] then schema_filter @ '' AND '' else [])
       @ (if table_filter \<noteq> [] then table_filter @ '' AND '' else []) @ column_filter @ columns_order"

definition tables_select :: string where
  "tables_select = raw [
     '''', ''||SELECT'', ''|||table_catalog::VARCHAR ^TABLE_CAT^,'', ''|||table_schema::VARCHAR ^TABLE_SCHEM^,'',
     ''|||table_name::VARCHAR ^TABLE_NAME^,'', ''|||CASE'', ''||||WHEN table_type=`BASE TABLE`'', ''||||THEN `TABLE`::VARCHAR'',
     ''||||ELSE table_type::VARCHAR'', ''|||END ^TABLE_TYPE^,'', ''|||``::VARCHAR ^REMARKS^'',
     ''|||FROM information_schema.tables'', ''|'']"

definition GetQueryDuckdbTables :: "string \<Rightarrow> string \<Rightarrow> string \<Rightarrow> string \<Rightarrow> string" where
  "GetQueryDuckdbTables catalog_filter schema_filter table_filter table_type_filter =
     tables_select @ '' WHERE '' @ catalog_filter @ [CHR 0x0A] @ '' AND '' @ schema_filter @ [CHR 0x0A] @ '' AND '' @ table_filter
       @ (if table_type_filter \<noteq> [] \<and> table_type_filter \<noteq> raw [''`%`'']
          then [CHR 0x0A] @ '' AND table_type IN ('' @ table_type_filter @ '') '' else [])
       @ [CHR 0x0A] @ raw ['' AND table_catalog NOT LIKE `__ducklake_%` '']
       @ [CHR 0x0A] @ '' ORDER BY TABLE_TYPE, TABLE_CATALOG, TABLE_SCHEMA, TABLE_NAME''"

section \<open>Regular expressions\<close>

abbreviation QUOTE :: char where "QUOTE \<equiv> CHR 0x27"

definition starts_with :: "string \<Rightarrow> string \<Rightarrow> bool" where
  "starts_with p s \<longleftrightarrow> take (length p) s = p"

text \<open>\<^verbatim>\<open>regex_replace(s, regex("('w'|w)"), r)\<close> for a word that is not empty.\<close>

function replace_word :: "string \<Rightarrow> string \<Rightarrow> string \<Rightarrow> string" where
  "replace_word word r [] = []"
| "replace_word word r (c # cs) =
     (if word = [] then c # cs
      else if starts_with (QUOTE # word @ [QUOTE]) (c # cs) then r @ replace_word word r (drop (length word + 2) (c # cs))
      else if starts_with word (c # cs) then r @ replace_word word r (drop (length word) (c # cs))
      else c # replace_word word r cs)"
  by pat_completeness auto
termination
  by (relation "measure (\<lambda>(_, _, s). length s)") auto

text \<open>\<^verbatim>\<open>regex_replace(s, regex(",\s*,"), ",")\<close>: after a match the search goes on behind it.\<close>

function merge_commas :: "string \<Rightarrow> string" where
  "merge_commas [] = []"
| "merge_commas (c # cs) =
     (let rest = dropWhile IsSpace cs in
      if c = CHR '','' \<and> rest \<noteq> [] \<and> hd rest = CHR '','' then CHR '','' # merge_commas (tl rest) else c # merge_commas cs)"
  by pat_completeness auto
termination
proof (relation "measure length")
  show "(tl rest, c # cs) \<in> measure length" if "rest = dropWhile IsSpace cs" for c cs rest
    using length_dropWhile_le [of IsSpace cs] that by simp
qed auto

definition table_types :: "string \<Rightarrow> string" where
  "table_types table_tp =
     (let t = replace_word ''SYSTEM TABLE'' [] table_tp;
          t = merge_commas t;
          t = replace_word ''TABLE'' (QUOTE # ''BASE TABLE'' @ [QUOTE]) t;
          t = replace_word ''VIEW'' (QUOTE # ''VIEW'' @ [QUOTE]) t
      in replace_word ''%'' (QUOTE # ''%'' @ [QUOTE]) t)"

section \<open>SQLTables and SQLColumns\<close>

definition catalogs_query :: string where
  "catalogs_query = raw [
     '''', ''SELECT DISTINCT'', ''|CAST(catalog_name AS VARCHAR) AS ^TABLE_CAT^,'',
     ''|CAST(NULL         AS VARCHAR) AS ^TABLE_SCHEM^,'', ''|CAST(NULL         AS VARCHAR) AS ^TABLE_NAME^,'',
     ''|CAST(NULL         AS VARCHAR) AS ^TABLE_TYPE^,'', ''|CAST(NULL         AS VARCHAR) AS ^REMARKS^'',
     ''FROM information_schema.schemata'', ''WHERE catalog_name NOT IN ('', ''|`system`,'', ''|`temp`)'',
     ''AND catalog_name NOT LIKE `__ducklake_%`'', ''ORDER BY ^TABLE_CAT^'', '''']"

definition schemas_query :: string where
  "schemas_query = raw [
     '''', ''SELECT'', ''|CAST(NULL        AS VARCHAR) AS ^TABLE_CAT^,'', ''|CAST(schema_name AS VARCHAR) AS ^TABLE_SCHEM^,'',
     ''|CAST(NULL        AS VARCHAR) AS ^TABLE_NAME^,'', ''|CAST(NULL        AS VARCHAR) AS ^TABLE_TYPE^,'',
     ''|CAST(NULL        AS VARCHAR) AS ^REMARKS^'', ''FROM information_schema.schemata'', ''WHERE catalog_name NOT IN ('',
     ''|`system`,'', ''|`temp`)'', ''AND catalog_name NOT LIKE `__ducklake_%`'', ''ORDER BY ^TABLE_SCHEM^'', '''']"

definition table_types_query :: string where
  "table_types_query = raw [
     '''', ''SELECT'', ''|CAST(NULL AS VARCHAR) AS ^TABLE_CAT^,'', ''|CAST(NULL AS VARCHAR) AS ^TABLE_SCHEM^,'',
     ''|CAST(NULL AS VARCHAR) AS ^TABLE_NAME^,'', ''|UNNEST(['', ''||CAST(`TABLE` AS VARCHAR),'',
     ''||CAST(`VIEW`  AS VARCHAR)'', ''|]) AS ^TABLE_TYPE^,'', ''|CAST(NULL AS VARCHAR) AS ^REMARKS^'', '''']"

abbreviation (input) SQL_ALL_CATALOGS :: string where "SQL_ALL_CATALOGS \<equiv> ''%''"
abbreviation (input) SQL_ALL_SCHEMAS :: string where "SQL_ALL_SCHEMAS \<equiv> ''%''"
abbreviation (input) SQL_ALL_TABLE_TYPES :: string where "SQL_ALL_TABLE_TYPES \<equiv> ''%''"
abbreviation (input) DEFAULT_SCHEMA :: string where "DEFAULT_SCHEMA \<equiv> ''main''"
abbreviation TABLE_CAT :: string where "TABLE_CAT \<equiv> [CHR 0x22] @ ''TABLE_CAT'' @ [CHR 0x22]"
abbreviation TABLE_SCHEM :: string where "TABLE_SCHEM \<equiv> [CHR 0x22] @ ''TABLE_SCHEM'' @ [CHR 0x22]"
abbreviation TABLE_NAME :: string where "TABLE_NAME \<equiv> [CHR 0x22] @ ''TABLE_NAME'' @ [CHR 0x22]"
abbreviation COLUMN_NAME :: string where "COLUMN_NAME \<equiv> [CHR 0x22] @ ''COLUMN_NAME'' @ [CHR 0x22]"

text \<open>The query for four names; \<open>None\<close> when a filter leaves by an exception.\<close>

definition tables_query :: "SQLUINTEGER \<Rightarrow> string \<Rightarrow> string \<Rightarrow> string \<Rightarrow> string \<Rightarrow> string option" where
  "tables_query metadata_id catalog_n schema_n table_n table_tp = do {
     catalog_filter \<leftarrow> ParseStringFilter TABLE_CAT catalog_n metadata_id [];
     schema_filter \<leftarrow> ParseStringFilter TABLE_SCHEM schema_n metadata_id [];
     table_filter \<leftarrow> ParseStringFilter TABLE_NAME table_n metadata_id [];
     Some (if catalog_n = SQL_ALL_CATALOGS \<and> schema_n = [] \<and> table_n = [] \<and> table_tp = [] then catalogs_query
           else if schema_n = SQL_ALL_SCHEMAS \<and> catalog_n = [] \<and> table_n = [] \<and> table_tp = [] then schemas_query
           else if table_tp = SQL_ALL_TABLE_TYPES \<and> catalog_n = [] \<and> schema_n = [] \<and> table_n = [] then table_types_query
           else GetQueryDuckdbTables catalog_filter schema_filter table_filter (table_types table_tp)) }"

definition metadata_id_of :: "driver \<Rightarrow> OdbcHandleStmt \<Rightarrow> SQLUINTEGER option" where
  "metadata_id_of w st = map_option sql_attr_metadata_id (dbcs w (stmt_dbc st))"

definition TablesInternal ::
  "'e database \<Rightarrow> DescRecord \<Rightarrow> nat \<Rightarrow> SQLHANDLE \<Rightarrow> string option \<Rightarrow> SQLSMALLINT \<Rightarrow> string option \<Rightarrow> SQLSMALLINT \<Rightarrow> string option
    \<Rightarrow> SQLSMALLINT \<Rightarrow> string option \<Rightarrow> SQLSMALLINT \<Rightarrow> driver \<Rightarrow> memory \<Rightarrow> 'e \<Rightarrow> 'e exec_result option" where
  "TablesInternal db r fuel statement_handle catalog_name name_length1 schema_name name_length2 table_name name_length3
     table_type name_length4 w m e =
     on_stmt_exec w m e statement_handle (\<lambda>s st w.
       case (do {
           metadata_id \<leftarrow> metadata_id_of w st;
           catalog_n \<leftarrow> ConvertSQLCHARToString catalog_name name_length1;
           schema_n \<leftarrow> ConvertSQLCHARToString schema_name name_length2;
           table_n \<leftarrow> ConvertSQLCHARToString table_name name_length3;
           table_tp \<leftarrow> ConvertSQLCHARToString table_type name_length4;
           tables_query metadata_id catalog_n schema_n table_n table_tp }) of
         None \<Rightarrow> Some None
       | Some query \<Rightarrow> ExecDirectStmt db r fuel s query w m e)"

text \<open>Without \<^verbatim>\<open>SQL_ATTR_METADATA_ID\<close> a catalog name has no effect.\<close>

definition columns_query :: "SQLUINTEGER \<Rightarrow> string \<Rightarrow> string \<Rightarrow> string \<Rightarrow> string \<Rightarrow> string option" where
  "columns_query metadata_id catalog_n schema_n table_n column_n = do {
     catalog_filter \<leftarrow> (if catalog_n = [] then Some (TABLE_CAT @ '' IS NULL'')
                        else if metadata_id = SQL_TRUE then map_option (\<lambda>i. TABLE_CAT @ ''='' @ i) (GetStringAsIdentifier catalog_n)
                        else Some []);
     schema_filter \<leftarrow> ParseStringFilter TABLE_SCHEM schema_n metadata_id DEFAULT_SCHEMA;
     table_filter \<leftarrow> ParseStringFilter TABLE_NAME table_n metadata_id [];
     column_filter \<leftarrow> ParseStringFilter COLUMN_NAME column_n metadata_id [];
     Some (GetQueryDuckdbColumns catalog_filter schema_filter table_filter column_filter) }"

definition ColumnsInternal ::
  "'e database \<Rightarrow> DescRecord \<Rightarrow> nat \<Rightarrow> SQLHANDLE \<Rightarrow> string option \<Rightarrow> SQLSMALLINT \<Rightarrow> string option \<Rightarrow> SQLSMALLINT \<Rightarrow> string option
    \<Rightarrow> SQLSMALLINT \<Rightarrow> string option \<Rightarrow> SQLSMALLINT \<Rightarrow> driver \<Rightarrow> memory \<Rightarrow> 'e \<Rightarrow> 'e exec_result option" where
  "ColumnsInternal db r fuel statement_handle catalog_name name_length1 schema_name name_length2 table_name name_length3
     column_name name_length4 w m e =
     on_stmt_exec w m e statement_handle (\<lambda>s st w.
       case (do {
           metadata_id \<leftarrow> metadata_id_of w st;
           catalog_n \<leftarrow> ConvertSQLCHARToString catalog_name name_length1;
           schema_n \<leftarrow> ConvertSQLCHARToString schema_name name_length2;
           table_n \<leftarrow> ConvertSQLCHARToString table_name name_length3;
           column_n \<leftarrow> ConvertSQLCHARToString column_name name_length4;
           columns_query metadata_id catalog_n schema_n table_n column_n }) of
         None \<Rightarrow> Some None
       | Some query \<Rightarrow> map_option (map_option (\<lambda>(ret, w, m, e). (if \<not> SQL_SUCCEEDED ret then ret else SQL_SUCCESS, w, m, e)))
           (ExecDirectStmt db r fuel s query w m e))"

text \<open>The wide versions.\<close>

definition wide_name :: "SQLWCHAR list option \<Rightarrow> SQLSMALLINT \<Rightarrow> (string option \<times> SQLSMALLINT) option" where
  "wide_name name len =
     map_option (\<lambda>conv. (if conv_utf8_str conv then Some (conv_utf8_vec conv) else None, utf8_len_smallint conv)) (make_utf16_conv name len)"

definition with_wide_names ::
  "(string option \<Rightarrow> SQLSMALLINT \<Rightarrow> string option \<Rightarrow> SQLSMALLINT \<Rightarrow> string option \<Rightarrow> SQLSMALLINT \<Rightarrow> string option \<Rightarrow> SQLSMALLINT \<Rightarrow> 'r option option)
    \<Rightarrow> SQLWCHAR list option \<Rightarrow> SQLSMALLINT \<Rightarrow> SQLWCHAR list option \<Rightarrow> SQLSMALLINT \<Rightarrow> SQLWCHAR list option \<Rightarrow> SQLSMALLINT
    \<Rightarrow> SQLWCHAR list option \<Rightarrow> SQLSMALLINT \<Rightarrow> 'r option option" where
  "with_wide_names f a la b lb c lc d ld = (case (wide_name a la, wide_name b lb, wide_name c lc, wide_name d ld) of
      (Some (a, la), Some (b, lb), Some (c, lc), Some (d, ld)) \<Rightarrow> f a la b lb c lc d ld
    | _ \<Rightarrow> Some None)"

definition SQLTablesW where
  "SQLTablesW db r fuel statement_handle a la b lb c lc d ld w m e =
     with_wide_names (\<lambda>a la b lb c lc d ld. TablesInternal db r fuel statement_handle a la b lb c lc d ld w m e) a la b lb c lc d ld"

definition SQLColumnsW where
  "SQLColumnsW db r fuel statement_handle a la b lb c lc d ld w m e =
     with_wide_names (\<lambda>a la b lb c lc d ld. ColumnsInternal db r fuel statement_handle a la b lb c lc d ld w m e) a la b lb c lc d ld"

section \<open>Lists of table types\<close>

fun comma_join :: "string list \<Rightarrow> string" where
  "comma_join [] = []"
| "comma_join [x] = x"
| "comma_join (x # xs) = x @ '','' @ comma_join xs"

text \<open>A pass over a list that works on each element alone.\<close>

locale list_pass =
  fixes F :: "string \<Rightarrow> string" and g :: "string \<Rightarrow> string" and P :: "string set"
  assumes pass_nil: "F [] = []"
    and pass_element: "p \<in> P \<Longrightarrow> s = [] \<or> (\<exists>s'. s = CHR '','' # s') \<Longrightarrow> F (p @ s) = g p @ F s"
    and pass_comma: "p \<in> P \<Longrightarrow> F (CHR '','' # p @ s) = CHR '','' # F (p @ s)"
begin

lemma pass_join: "set ps \<subseteq> P \<Longrightarrow> F (comma_join ps) = comma_join (map g ps)"
proof (induction ps rule: comma_join.induct)
  case 1
  then show ?case by (simp add: pass_nil)
next
  case (2 p)
  then show ?case using pass_element [of p "[]"] by (simp add: pass_nil)
next
  case (3 p q ps)
  have join: "\<exists>s. comma_join (q # ps) = q @ s" by (cases ps) auto
  have "F (p @ CHR '','' # comma_join (q # ps)) = g p @ F (CHR '','' # comma_join (q # ps))"
    using 3(2) by (intro pass_element) simp_all
  also have "F (CHR '','' # comma_join (q # ps)) = CHR '','' # F (comma_join (q # ps))"
    using join pass_comma [of q] 3(2) by force
  finally show ?case using 3 by simp
qed

end

definition type_text :: "bool \<times> bool \<Rightarrow> string" where
  "type_text t = (case t of (in_quotes, is_view) \<Rightarrow>
     let n = (if is_view then ''VIEW'' else ''TABLE'') in if in_quotes then QUOTE # n @ [QUOTE] else n)"

definition engine_type :: "bool \<times> bool \<Rightarrow> string" where
  "engine_type t = QUOTE # (if snd t then ''VIEW'' else ''BASE TABLE'') @ [QUOTE]"

abbreviation "type_texts \<equiv> {''TABLE'', ''VIEW'', QUOTE # ''TABLE'' @ [QUOTE], QUOTE # ''VIEW'' @ [QUOTE]}"
abbreviation "base_texts \<equiv> {QUOTE # ''BASE TABLE'' @ [QUOTE], ''VIEW'', QUOTE # ''VIEW'' @ [QUOTE]}"
abbreviation "engine_texts \<equiv> {QUOTE # ''BASE TABLE'' @ [QUOTE], QUOTE # ''VIEW'' @ [QUOTE]}"

definition to_base :: "string \<Rightarrow> string" where
  "to_base t = (if t = ''TABLE'' \<or> t = QUOTE # ''TABLE'' @ [QUOTE] then QUOTE # ''BASE TABLE'' @ [QUOTE] else t)"

definition to_quoted :: "string \<Rightarrow> string" where
  "to_quoted t = (if t = ''VIEW'' then QUOTE # ''VIEW'' @ [QUOTE] else t)"

lemma replace_word_comma:
  "hd word \<noteq> CHR '','' \<Longrightarrow> replace_word word r (CHR '','' # s) = (if word = [] then CHR '','' # s else CHR '','' # replace_word word r s)"
  by (cases word) (auto simp: starts_with_def)

text \<open>A pass that replaces a word.\<close>

locale word_pass =
  fixes word :: string and r :: string and g :: "string \<Rightarrow> string" and P :: "string set"
  assumes word_ok: "word \<noteq> []" "hd word \<noteq> CHR '',''"
    and word_element: "p \<in> P \<Longrightarrow> s = [] \<or> (\<exists>s'. s = CHR '','' # s') \<Longrightarrow> replace_word word r (p @ s) = g p @ replace_word word r s"

sublocale word_pass \<subseteq> list_pass "replace_word word r" g P
  using word_ok by unfold_locales (simp_all add: word_element replace_word_comma del: replace_word.simps(2))

lemmas word_elements = starts_with_def to_base_def to_quoted_def

interpretation system_pass: word_pass "''SYSTEM TABLE''" "[]" "\<lambda>t. t" type_texts
  by unfold_locales (simp, simp, elim insertE disjE exE emptyE, simp_all add: word_elements)

interpretation base_pass: word_pass "''TABLE''" "QUOTE # ''BASE TABLE'' @ [QUOTE]" to_base type_texts
  by unfold_locales (simp, simp, elim insertE disjE exE emptyE, simp_all add: word_elements)

interpretation view_pass: word_pass "''VIEW''" "QUOTE # ''VIEW'' @ [QUOTE]" to_quoted base_texts
  by unfold_locales (simp, simp, elim insertE disjE exE emptyE, simp_all add: word_elements)

interpretation all_pass: word_pass "''%''" "QUOTE # ''%'' @ [QUOTE]" "\<lambda>t. t" engine_texts
  by unfold_locales (simp, simp, elim insertE disjE exE emptyE, simp_all add: word_elements)

interpretation comma_pass: list_pass merge_commas "\<lambda>t. t" type_texts
  by unfold_locales (auto simp: IsSpace_def)

text \<open>C25: the table types of \<^verbatim>\<open>SQLTables\<close> are translated to those of the engine: for every list of the types \<^verbatim>\<open>TABLE\<close> and \<^verbatim>\<open>VIEW\<close>, in any
  order, with repetitions, each with or without quotes, the filter of the query is the list of the quoted type names
  \<^verbatim>\<open>BASE TABLE\<close> and \<^verbatim>\<open>VIEW\<close> in the same order.\<close>

theorem table_types_translated:
  "table_types (comma_join (map type_text ts)) = comma_join (map engine_type ts)"
proof -
  have texts: "set (map type_text ts) \<subseteq> type_texts" by (auto simp: type_text_def Let_def split: if_splits)
  have base: "set (map to_base (map type_text ts)) \<subseteq> base_texts" by (auto simp: type_text_def to_base_def Let_def split: if_splits)
  have engine: "set (map to_quoted (map to_base (map type_text ts))) \<subseteq> engine_texts"
    by (auto simp: type_text_def to_base_def to_quoted_def Let_def split: if_splits)
  have "to_quoted (to_base (type_text t)) = engine_type t" for t
    by (auto simp: type_text_def to_base_def to_quoted_def engine_type_def Let_def split: if_splits prod.splits)
  then show ?thesis
    unfolding table_types_def Let_def system_pass.pass_join [OF texts] map_ident comma_pass.pass_join [OF texts]
      base_pass.pass_join [OF texts] view_pass.pass_join [OF base] all_pass.pass_join [OF engine]
    by (simp add: comp_def)
qed

text \<open>A list that begins with \<^verbatim>\<open>SYSTEM TABLE\<close> keeps the comma behind it.\<close>

lemma system_table_leaves_comma: "table_types ''SYSTEM TABLE,TABLE'' = '','' @ engine_type (False, False)"
  by code_simp

end
