(* ===== verification/Connection_Wide.thy ===== *)
theory Connection_Wide
  imports Connection_Api Metadata_Api
begin

text \<open>
  The exported functions \<^verbatim>\<open>SQLConnect\<close>, \<^verbatim>\<open>SQLConnectW\<close>, \<^verbatim>\<open>SQLDriverConnect\<close> and \<^verbatim>\<open>SQLDriverConnectW\<close> of
  \<^verbatim>\<open>odbc_api/connection_api.cpp\<close>. The wide versions convert their arguments to UTF-8; \<^verbatim>\<open>SQLDriverConnectW\<close> receives the output
  string in a vector, which lies at the address \<open>vec_addr\<close>, and converts it into the buffer of the application.

  The theorem shows that a connection string of any well-formed text comes back from \<^verbatim>\<open>SQLDriverConnectW\<close> as it was given.
\<close>

section \<open>Definitions\<close>

definition SQLConnect where
  "SQLConnect pf db g u frame fuel h server_name name_length1 (user_name :: string option) (name_length2 :: SQLSMALLINT)
     (authentication :: string option) (name_length3 :: SQLSMALLINT) w m e =
     ConnectInternal pf db g u frame fuel h server_name name_length1 w m e"

definition SQLConnectW where
  "SQLConnectW pf db g u frame fuel h server_name name_length1 user_name name_length2 authentication name_length3 w m e =
     (case (wide_name server_name name_length1, wide_name user_name name_length2, wide_name authentication name_length3) of
        (Some (server_name, name_length1), Some _, Some _) \<Rightarrow> ConnectInternal pf db g u frame fuel h server_name name_length1 w m e
      | _ \<Rightarrow> Some None)"

definition SQLDriverConnect where
  "SQLDriverConnect pf db g u frame fuel h (window_handle :: addr) in_str string_length1 out_str buffer_length string_length2_ptr
     (driver_completion :: SQLUSMALLINT) w m e =
     DriverConnectInternal pf db g u frame fuel h in_str string_length1 out_str buffer_length string_length2_ptr w m e"

text \<open>The units of the application's buffer.\<close>

definition read_units :: "memory \<Rightarrow> addr \<Rightarrow> nat \<Rightarrow> SQLWCHAR list" where
  "read_units m a n = map (\<lambda>i. word_of_int (le_uint (read_bytes m (a + 2 * i) 2))) [0..<n]"

definition write_out_units :: "memory \<Rightarrow> addr \<Rightarrow> SQLRETURN \<Rightarrow> string \<Rightarrow> SQLSMALLINT \<Rightarrow> (nat \<times> memory) option" where
  "write_out_units m out ret vec buffer_length =
     (case utf16_write_str ret vec (if out = nullptr then None else Some (read_units m out (nat buffer_length))) buffer_length of
        None \<Rightarrow> None
      | Some (written, None) \<Rightarrow> Some (written, m)
      | Some (written, Some units) \<Rightarrow> Some (written, write_bytes m out (units_bytes units)))"

definition SQLDriverConnectW where
  "SQLDriverConnectW pf db g u frame vec_addr fuel h (window_handle :: addr) in_str string_length1 out_str buffer_length string_length2_ptr
     (driver_completion :: SQLUSMALLINT) w m e = (case wide_name in_str string_length1 of
        None \<Rightarrow> Some None
      | Some (in_str, string_length1) \<Rightarrow>
          let vec = utf8_alloc_out_vec buffer_length;
              data = (if vec = [] then nullptr else vec_addr) in
          case DriverConnectInternal pf db g u frame fuel h in_str string_length1 data (to_int16 (int (length vec))) nullptr w
                 (write_bytes m data vec) e of
            None \<Rightarrow> None
          | Some None \<Rightarrow> Some None
          | Some (Some (ret, w, m, e)) \<Rightarrow> Some (do {
              (written, m) \<leftarrow> write_out_units m out_str ret (read_bytes m data (length vec)) buffer_length;
              Some (ret, w, store_int 2 m string_length2_ptr (int written), e) }))"

section \<open>The connection string comes back\<close>

lemma DriverConnect_success:
  assumes "DriverConnectInternal pf db g u frame fuel h s n out blen nullptr w m e = Some (Some (ret, w', m', e'))" "SQL_SUCCEEDED ret"
    and "out \<noteq> nullptr" "ConvertSQLCHARToString s n = Some str"
  shows "\<exists>m1 k. snprintf_str m1 out blen str = (k, m')"
  using assms unfolding DriverConnectInternal_def on_new_connection_def ConvertDBCBeforeConnection_def Let_def SetSuccessWithInfo_def
  by (auto simp: store_int_null split: option.splits if_splits prod.splits sum.splits handle_ptr.splits)

lemma length_encode_utf8: "scalars cps \<Longrightarrow> length (encode_utf8 cps) \<le> 3 * length (encode_utf16 cps)"
  using utf16to8_length [of "encode_utf16 cps"] by (simp add: utf16to8_encode)

lemma takeWhile_nonzero: "CHR 0x00 \<notin> set s \<Longrightarrow> takeWhile (\<lambda>c. c \<noteq> CHR 0x00) (s @ CHR 0x00 # r) = s"
  by (induction s) auto

lemma read_units_written:
  assumes "n \<le> length ws"
  shows "read_units (write_bytes m a (units_bytes ws)) a n = take n ws"
proof (rule nth_equalityI)
  fix i assume "i < length (read_units (write_bytes m a (units_bytes ws)) a n)"
  then have i: "i < n" by (simp add: read_units_def)
  have u: "units_bytes ws = units_bytes (take i ws) @ le_bytes 2 (uint (ws ! i)) @ units_bytes (drop (Suc i) ws)"
    using i assms by (simp add: units_bytes_def flip: concat_append map_append, subst id_take_nth_drop [of i ws]) (simp_all add: units_bytes_def)
  have "length (units_bytes (take i ws)) = 2 * i" using i assms by (simp add: length_units_bytes)
  then have "read_bytes (write_bytes m a (units_bytes ws)) (a + 2 * i) 2 = le_bytes 2 (uint (ws ! i))"
    by (auto simp: u read_bytes_def write_bytes_def nth_append upt_rec numeral_2_eq_2 intro!: nth_equalityI)
  then show "read_units (write_bytes m a (units_bytes ws)) a n ! i = take n ws ! i"
    using i uint_lt2p [of "ws ! i"] by (simp add: read_units_def le_uint_le_bytes)
qed (use assms in \<open>simp add: read_units_def\<close>)

lemma wide_name_encode:
  assumes "scalars cps" "length (encode_utf8 cps) \<le> 32767" "n = int (length (encode_utf16 cps))" "n \<le> 32767"
  shows "wide_name (Some (encode_utf16 cps)) n = Some (Some (encode_utf8 cps @ [CHR 0x00]), int (length (encode_utf8 cps)))"
proof -
  have "n \<noteq> SQL_NTS" "to_uint64 n = n" using assms(3,4) by (simp_all add: to_uint64_id)
  then show ?thesis
    using assms by (simp add: wide_name_def make_utf16_conv_def utf16_to_utf8_lenient_encode utf8_len_smallint_def utf16_conv_utf8_len_internal_def utf8_len_def Let_def)
qed

lemma utf16_write_encode:
  assumes "scalars cps" "CHR 0x00 \<notin> set (encode_utf8 cps)" "encode_utf8 cps \<noteq> []" "SQL_SUCCEEDED ret"
    and "int (length (encode_utf16 cps)) < n" "n \<le> int (length out)"
  shows "utf16_write_str ret (encode_utf8 cps @ CHR 0x00 # r) (Some out) n
    = Some (length (encode_utf16 cps), Some (encode_utf16 cps @ 0 # drop (length (encode_utf16 cps) + 1) out))"
proof -
  have "encode_utf16 cps \<noteq> []" using length_encode_utf8 [OF assms(1)] assms(3) by auto
  then have "n \<noteq> 1" "0 < n" using assms(5) by auto
  moreover have "c_strlen (encode_utf8 cps @ CHR 0x00 # r) = Some (length (encode_utf8 cps))"
    using takeWhile_nonzero [OF assms(2)] by (simp add: c_strlen_def)
  moreover have "min (length (encode_utf16 cps)) (nat (n - 1)) = length (encode_utf16 cps)" using assms(5) by simp
  ultimately show ?thesis using assms(1,3,4,6,5)
    by (simp add: utf16_write_str_def utf8_to_utf16_lenient_encode store_units_def Let_def)
qed

lemma snprintf_encode:
  assumes "CHR 0x00 \<notin> set s" "int (length s) < n" "n \<le> 32767" "snprintf_str m1 out n s = (k, m')"
  shows "\<exists>r. read_bytes m' out (nat n) = s @ CHR 0x00 # r"
proof -
  have t: "takeWhile (\<lambda>c. c \<noteq> CHR 0x00) s = s" by (rule takeWhile_eq_all_conv [THEN iffD2]) (use assms(1) in blast)
  have n: "to_uint64 n = n" using assms(2,3) by (intro to_uint64_id) linarith+
  have "n \<noteq> 0" "take (nat (n - 1)) s = s" using assms(2) by simp_all
  then have m': "m' = write_bytes m1 out (s @ [CHR 0x00])" using assms(4) unfolding snprintf_str_def t Let_def n by simp
  have "length s + 1 \<le> nat n" using assms(2) by linarith
  then obtain j where j: "nat n = length (s @ [CHR 0x00]) + j" using le_Suc_ex [of "length s + 1" "nat n"] by auto
  have "read_bytes m' out (nat n) = read_bytes m' out (length (s @ [CHR 0x00])) @ read_bytes m' (out + length (s @ [CHR 0x00])) j"
    unfolding j by (rule read_bytes_split)
  then show ?thesis unfolding m' read_write_same by simp
qed

lemma read_units_store:
  assumes "p + 2 \<le> a \<or> a + 2 * k \<le> p"
  shows "read_units (store_int 2 m p v) a k = read_units m a k"
proof -
  have "read_bytes (store_int 2 m p v) (a + 2 * i) 2 = read_bytes m (a + 2 * i) 2" if "i < k" for i
    by (rule read_store_int_disjoint) (use assms that in linarith)
  then show ?thesis by (simp add: read_units_def)
qed

text \<open>C22: a connection string comes back as it was given. When \<^verbatim>\<open>SQLDriverConnectW\<close> is called with a well-formed UTF-16 string without
  null characters and succeeds, the output buffer, if it has room for the string and its terminator, holds the same string with its
  terminator, and the length reported is its length in characters, although the string was converted to UTF-8 and back on its way.\<close>

theorem wide_connection_string_returned:
  assumes "SQLDriverConnectW pf db g u frame vec_addr fuel h window (Some (encode_utf16 cps)) n out blen lp completion w m e
      = Some (Some (ret, w', m', e'))" "SQL_SUCCEEDED ret"
    and "scalars cps" "cps \<noteq> []" "CHR 0x00 \<notin> set (encode_utf8 cps)" "length (encode_utf8 cps) < 32767"
    and "n = int (length (encode_utf16 cps))" "n < blen" "blen \<le> 32767" "out \<noteq> nullptr" "vec_addr \<noteq> nullptr"
    and "lp + 2 \<le> out \<or> out + 2 * nat blen \<le> lp"
  shows "read_units m' out (nat n + 1) = encode_utf16 cps @ [0] \<and> (lp \<noteq> nullptr \<longrightarrow> le_uint (read_bytes m' lp 2) = n)"
proof -
  let ?text = "encode_utf8 cps" and ?units = "encode_utf16 cps" and ?vec = "utf8_alloc_out_vec blen"
  have ne: "?text \<noteq> []" using assms(4) by (cases cps) auto
  have "to_uint64 blen = blen" "0 < blen" using assms(7-9) by (simp_all add: to_uint64_id)
  moreover have "to_uint64 (blen * 3) = blen * 3" using assms(7-9) by (simp add: to_uint64_id)
  ultimately have vec: "int (length ?vec) = min (blen * 3) 32767" by (simp add: utf8_alloc_out_vec_def)
  then have vec': "?vec \<noteq> []" "to_int16 (int (length ?vec)) = int (length ?vec)" using \<open>0 < blen\<close> by (auto simp: to_int16_id)
  have fits: "int (length ?text) < int (length ?vec)"
    using length_encode_utf8 [OF assms(3)] assms(6,7,8) unfolding vec by simp
  have wide: "wide_name (Some ?units) n = Some (Some (?text @ [CHR 0x00]), int (length ?text))"
    by (rule wide_name_encode) (use assms(3,6-9) in simp_all)
  obtain m1 m2 written where run: "DriverConnectInternal pf db g u frame fuel h (Some (?text @ [CHR 0x00])) (int (length ?text)) vec_addr (int (length ?vec))
       nullptr w (write_bytes m vec_addr ?vec) e = Some (Some (ret, w', m1, e'))"
      "write_out_units m1 out ret (read_bytes m1 vec_addr (length ?vec)) blen = Some (written, m2)" "m' = store_int 2 m2 lp (int written)"
    using assms(1) vec' by (auto simp: SQLDriverConnectW_def wide Let_def split: option.splits prod.splits bind_splits)
  have "ConvertSQLCHARToString (Some (?text @ [CHR 0x00])) (int (length ?text)) = Some ?text"
    using ne by (simp add: ConvertSQLCHARToString_def)
  then obtain m0 k where printed: "snprintf_str m0 vec_addr (int (length ?vec)) ?text = (k, m1)"
    using DriverConnect_success [OF run(1) assms(2,11)] by blast
  have "int (length ?vec) \<le> 32767" unfolding vec by simp
  then obtain r where "read_bytes m1 vec_addr (length ?vec) = ?text @ CHR 0x00 # r"
    using snprintf_encode [OF assms(5) fits _ printed] unfolding nat_int by blast
  moreover have "length (read_units m1 out (nat blen)) = nat blen" by (simp add: read_units_def)
  ultimately have w: "written = nat n"
      "m2 = write_bytes m1 out (units_bytes (?units @ 0 # drop (nat n + 1) (read_units m1 out (nat blen))))"
    using run(2) utf16_write_encode [OF assms(3,5) ne assms(2), of blen "read_units m1 out (nat blen)" r] assms(7,8,10)
    by (auto simp: write_out_units_def)
  let ?rest = "drop (nat n + 1) (read_units m1 out (nat blen))"
  have room: "nat n + 1 \<le> nat blen" using assms(7,8) by simp
  have "read_units m' out (nat n + 1) = read_units m2 out (nat n + 1)"
    unfolding run(3) by (rule read_units_store) (use assms(12) room in auto)
  also have "\<dots> = take (nat n + 1) (?units @ 0 # ?rest)"
    unfolding w(2) by (rule read_units_written) (simp add: assms(7))
  also have "\<dots> = ?units @ [0]" by (simp add: assms(7))
  finally have echoed: "read_units m' out (nat n + 1) = ?units @ [0]" .
  have "n mod 65536 = n" using assms(7-9) by simp
  then have "le_uint (read_bytes m' lp 2) = n" if "lp \<noteq> nullptr"
    unfolding run(3) read_store_int [OF that] le_uint_le_bytes w(1) using assms(7) by simp
  then show ?thesis using echoed by blast
qed

section \<open>Example\<close>

definition closed_memory :: memory where "closed_memory = (\<lambda>_. CHR 0x00)"

definition sample_text :: "code_point list" where "sample_text = map of_char ''driver=x''"

lemma sample_text_props:
  "scalars sample_text" "encode_utf8 sample_text = ''driver=x''" "length (encode_utf16 sample_text) = 8" "sample_text \<noteq> []"
proof -
  show "scalars sample_text" "length (encode_utf16 sample_text) = 8" "sample_text \<noteq> []"
    by (simp_all add: sample_text_def is_code_point_valid_def is_surrogate_def append16_def is_in_bmp_def)
  show "encode_utf8 sample_text = ''driver=x''"
    by (simp add: sample_text_def utf8_append_def) code_simp
qed

lemma sample_driver_parsed:
  "case parsed ''driver=x'' of
     Some (ret, cn) \<Rightarrow> ret = SQL_SUCCESS \<and> \<not> success_with_info cn
       \<and> list_all (\<lambda>k. seen_config_options cn k \<noteq> Some True)
           [CUPOLA, ''database'', ''dsn'', ''enable_external_access'', SQL_FILE_OPTION, SQL_FILE_SHA256_OPTION]
   | None \<Rightarrow> False"
  by code_simp

lemma sample_connects:
  assumes "\<forall>k \<in> {CUPOLA, ''database'', ''dsn'', ''enable_external_access'', SQL_FILE_OPTION, SQL_FILE_SHA256_OPTION}. seen_config_options cn k \<noteq> Some True"
  shows "\<exists>w. SetConnection sample_platform sample_database sample_garbage sample_record 4096 1 1 cn closed_driver m [] = Some (Some (SQL_SUCCESS, w, m, []))"
proof -
  have erase: "seen_config_options (erase_config k cn) = seen_config_options cn" for k cn by (simp add: erase_config_def)
  have options: "GetOptionFromConfigMap k v cn' = Some v"
    if "k \<in> {CUPOLA, ''database'', ''dsn'', ''enable_external_access'', SQL_FILE_OPTION, SQL_FILE_SHA256_OPTION}"
      "seen_config_options cn' = seen_config_options cn" for k v cn'
    using bspec [OF assms that(1)] that(2) by (simp add: GetOptionFromConfigMap_def)
  show ?thesis
    using assms
    by (simp add: SetConnection_def ReadFromIniFile_def sample_platform_def options erase base_config_def open_database_def ReadSQLFile_def NormalizeWindowsPathSeparators_def
        start_session_def SQLFile_IsEmpty_def no_SQLFile_def)
qed

lemma sample_wide_succeeds:
  "\<exists>w m e. SQLDriverConnectW sample_platform sample_database sample_garbage sample_record 4096 8192 1 (Some (DbcPtr 1)) nullptr
     (Some (encode_utf16 sample_text)) 8 100 32 200 0 closed_driver closed_memory [] = Some (Some (SQL_SUCCESS, w, m, e))"
proof -
  obtain cn where cn: "ParseInputStr sample_platform ''driver=x'' (make_Connect sample_platform sample_conn_dbc) = Some (SQL_SUCCESS, cn)"
      "\<not> success_with_info cn"
      "\<forall>k \<in> {CUPOLA, ''database'', ''dsn'', ''enable_external_access'', SQL_FILE_OPTION, SQL_FILE_SHA256_OPTION}. seen_config_options cn k \<noteq> Some True"
    using sample_driver_parsed unfolding parsed_def by (auto split: option.splits)
  let ?vec = "utf8_alloc_out_vec 32"
  have vec: "length ?vec = 96" "?vec \<noteq> []" by (simp_all add: utf8_alloc_out_vec_def to_uint64_id)
  have wide: "wide_name (Some (encode_utf16 sample_text)) 8 = Some (Some (''driver=x'' @ [CHR 0x00]), 8)"
    using wide_name_encode [OF sample_text_props(1), of 8] by (simp add: sample_text_props)
  obtain w' where w': "SetConnection sample_platform sample_database sample_garbage sample_record 4096 1 1 cn closed_driver (write_bytes closed_memory 8192 ?vec) []
      = Some (Some (SQL_SUCCESS, w', write_bytes closed_memory 8192 ?vec, []))"
    using sample_connects [OF cn(3)] by blast
  obtain k m1 where m1: "snprintf_str (write_bytes closed_memory 8192 ?vec) 8192 96 ''driver=x'' = (k, m1)" by fastforce
  have run: "DriverConnectInternal sample_platform sample_database sample_garbage sample_record 4096 1 (Some (DbcPtr 1)) (Some (''driver=x'' @ [CHR 0x00])) 8
      8192 96 nullptr closed_driver (write_bytes closed_memory 8192 ?vec) [] = Some (Some (SQL_SUCCESS, w', m1, []))"
    using cn(1,2) w' m1
    by (simp add: DriverConnectInternal_def on_new_connection_def ConvertDBCBeforeConnection_def closed_driver_def ConvertSQLCHARToString_def
        SetSuccessWithInfo_def store_int_null)
  obtain r where r: "read_bytes m1 8192 96 = ''driver=x'' @ CHR 0x00 # r"
    using snprintf_encode [OF _ _ _ m1] by auto
  have "\<exists>p. write_out_units m1 100 SQL_SUCCESS (''driver=x'' @ CHR 0x00 # r) 32 = Some p"
    using utf16_write_encode [OF sample_text_props(1), of SQL_SUCCESS 32 "read_units m1 100 32" r]
    by (simp add: write_out_units_def sample_text_props read_units_def)
  then show ?thesis
    using run by (auto simp: SQLDriverConnectW_def wide Let_def vec to_int16_id r simp del: One_nat_def)
qed

theorem wide_connection_string_returned_witness:
  "\<exists>w' m' e'. SQLDriverConnectW sample_platform sample_database sample_garbage sample_record 4096 8192 1 (Some (DbcPtr 1)) nullptr
     (Some (encode_utf16 sample_text)) 8 100 32 200 0 closed_driver closed_memory [] = Some (Some (SQL_SUCCESS, w', m', e'))
    \<and> read_units m' 100 (nat 8 + 1) = encode_utf16 sample_text @ [0] \<and> (200 \<noteq> nullptr \<longrightarrow> le_uint (read_bytes m' 200 2) = 8)"
proof -
  obtain w' m' e' where r: "SQLDriverConnectW sample_platform sample_database sample_garbage sample_record 4096 8192 1 (Some (DbcPtr 1)) nullptr
     (Some (encode_utf16 sample_text)) 8 100 32 200 0 closed_driver closed_memory [] = Some (Some (SQL_SUCCESS, w', m', e'))"
    using sample_wide_succeeds by blast
  have "read_units m' 100 (nat 8 + 1) = encode_utf16 sample_text @ [0] \<and> (200 \<noteq> nullptr \<longrightarrow> le_uint (read_bytes m' 200 2) = 8)"
    by (rule wide_connection_string_returned [OF r]) (simp_all add: sample_text_props)
  then show ?thesis using r by blast
qed

end
