(* ===== verification/Cupola_Connection.thy ===== *)
theory Cupola_Connection
  imports Connection_Api
begin

text \<open>
  \<^verbatim>\<open>connect/cupola_connection.cpp\<close> as it is compiled for Windows: a named connection of the Cupola user store is looked up, its
  credential is decrypted, and it is attached to the database by a few SQL statements.

  What Windows and the JSON library provide is the record \<open>windows\<close>: the conversions of texts, the environment, the folder of
  the user, files, the hash, the splitting of a URL, the decryption of a session for the user, the time, the ordinal comparison that
  ignores case, the file of the driver, and reading and writing JSON. A JSON value is the datatype \<open>json\<close>; the representation of
  a number is left open. An exception is \<open>Inl\<close> of its message. The engine is a function that takes its state and a query and says
  whether the query succeeded.

  The theorems show that no field of a connection breaks out of the quotes of the statement it is put into, that nothing
  is executed for a connection with a reserved or malformed option, and that of the statements of a successful run only the
  \<^verbatim>\<open>ATTACH\<close> statement depends on the credential.
\<close>

section \<open>Windows and JSON\<close>

type_synonym wstring = "SQLWCHAR list"

datatype 'n json = JNull | JBool bool | JNum 'n | JStr string | JArr "'n json list" | JObj "(string \<times> 'n json) list"

record url_parts =
  url_https :: bool
  url_host :: wstring
  url_user :: wstring
  url_password :: wstring
  url_port :: nat
  url_path :: wstring

record 'n windows =
  win_wide :: "string \<Rightarrow> wstring option"
  win_utf8 :: "wstring \<Rightarrow> string"
  win_env :: "wstring \<Rightarrow> wstring option"
  win_app_data :: "wstring option"
  win_file :: "wstring \<Rightarrow> (int \<times> string option) option"
  win_provider :: bool
  win_sha256 :: "string \<Rightarrow> string option"
  win_crack :: "wstring \<Rightarrow> url_parts option"
  win_unprotect :: "string \<Rightarrow> string \<Rightarrow> string option"
  win_now :: "nat \<times> nat \<times> nat \<times> nat \<times> nat \<times> nat"
  win_same_name :: "wstring \<Rightarrow> wstring \<Rightarrow> bool"
  win_module :: wstring
  win_exists :: "wstring \<Rightarrow> bool"
  win_json_read :: "string \<Rightarrow> 'n json option"
  win_json_write :: "'n json \<Rightarrow> string option"

definition attempt :: "string + 'a \<Rightarrow> ('a \<Rightarrow> string + 'b) \<Rightarrow> string + 'b" where
  "attempt x f = (case x of Inl msg \<Rightarrow> Inl msg | Inr a \<Rightarrow> f a)"

text \<open>A wide literal.\<close>

definition wide_literal :: "string \<Rightarrow> wstring" where
  "wide_literal = map (\<lambda>c. of_nat (of_char c))"

abbreviation (input) BACKSLASH :: char where "BACKSLASH \<equiv> CHR 0x5C"
abbreviation (input) SINGLE_MARK :: char where "SINGLE_MARK \<equiv> CHR 0x27"
abbreviation (input) DOUBLE_MARK :: char where "DOUBLE_MARK \<equiv> CHR 0x22"

section \<open>Helpers\<close>

definition Json :: "'n windows \<Rightarrow> string \<Rightarrow> string + 'n json" where
  "Json win text =
     (case win_json_read win (drop (if take 3 text = [CHR 0xEF, CHR 0xBB, CHR 0xBF] then 3 else 0) text) of
        None \<Rightarrow> Inl ''Cupola store contains invalid JSON.''
      | Some v \<Rightarrow> Inr v)"

definition Wide :: "'n windows \<Rightarrow> string \<Rightarrow> string + wstring" where
  "Wide win s = (if s = [] then Inr [] else case win_wide win s of None \<Rightarrow> Inl ''Invalid Cupola text encoding.'' | Some ws \<Rightarrow> Inr ws)"

definition Utf8 :: "'n windows \<Rightarrow> wstring \<Rightarrow> string" where
  "Utf8 win s = (if s = [] then [] else win_utf8 win s)"

definition Env :: "'n windows \<Rightarrow> string \<Rightarrow> wstring" where
  "Env win key = (case win_env win (wide_literal key) of None \<Rightarrow> [] | Some v \<Rightarrow> v)"

definition Root :: "'n windows \<Rightarrow> string + wstring" where
  "Root win =
     (let override_path = Env win ''VGI_EXCEL_CONFIG_HOME'' in
      if override_path \<noteq> [] then Inr override_path
      else case win_app_data win of
        None \<Rightarrow> Inl ''Cupola user store is unavailable.''
      | Some path \<Rightarrow> Inr (path @ wide_literal (BACKSLASH # ''QueryFarm'' @ BACKSLASH # ''VgiExcel'')))"

text \<open>Of a file that can be opened \<open>win_file\<close> gives the position of its end and what reading that many bytes yields.\<close>

definition Read :: "'n windows \<Rightarrow> wstring \<Rightarrow> int \<Rightarrow> string + string" where
  "Read win path limit = (case win_file win path of
      None \<Rightarrow> Inl ''Cupola connection or OAuth session was not found. Open Cupola Connections and sign in if required.''
    | Some (end_pos, data) \<Rightarrow>
        if end_pos < 0 \<or> to_uint64 end_pos > limit then Inl ''Cupola store exceeds its size limit.''
        else if end_pos = 0 then Inr []
        else case data of None \<Rightarrow> Inl ''Cupola store could not be read.'' | Some d \<Rightarrow> Inr d)"

text \<open>\<^verbatim>\<open>yyjson_obj_get\<close>: the first member with the key, and none when the value is not an object.\<close>

fun obj_get :: "'n json \<Rightarrow> string \<Rightarrow> 'n json option" where
  "obj_get (JObj kvs) key = map_of kvs key"
| "obj_get _ key = None"

definition Field_of :: "'n json \<Rightarrow> string \<Rightarrow> string + string" where
  "Field_of obj key = (case obj_get obj key of Some (JStr s) \<Rightarrow> Inr s | _ \<Rightarrow> Inl ''Cupola connection fields are invalid.'')"

definition Optional :: "'n json \<Rightarrow> string \<Rightarrow> string" where
  "Optional obj key = (case obj_get obj key of Some (JStr s) \<Rightarrow> s | _ \<Rightarrow> [])"

fun quote_loop :: "char \<Rightarrow> string \<Rightarrow> string \<Rightarrow> string + string" where
  "quote_loop mark [] v = Inr (v @ [mark])"
| "quote_loop mark (c # s) v =
     (if c = CHR 0x00 then Inl ''Cupola fields must not contain NUL.''
      else quote_loop mark s (v @ [c] @ (if c = mark then [c] else [])))"

definition Quote :: "char \<Rightarrow> string \<Rightarrow> string + string" where
  "Quote mark s = quote_loop mark s [mark]"

definition Dump :: "'n windows \<Rightarrow> 'n json \<Rightarrow> string + string" where
  "Dump win v = (case win_json_write win v of None \<Rightarrow> Inl ''Invalid Cupola option.'' | Some s \<Rightarrow> Inr s)"

definition Hash :: "'n windows \<Rightarrow> string \<Rightarrow> string + string" where
  "Hash win s =
     (if \<not> win_provider win then Inl ''Cupola hash provider unavailable.''
      else case win_sha256 win s of
        None \<Rightarrow> Inl ''Cupola hash failed.''
      | Some value \<Rightarrow>
          let hex = ''0123456789ABCDEF''
          in Inr (concat (map (\<lambda>b. [hex ! (of_char b div 16), hex ! (of_char b mod 16)]) value)))"

definition strip_slashes :: "string \<Rightarrow> string" where
  "strip_slashes key = rev (dropWhile (\<lambda>c. c = CHR ''/'') (rev key))"

definition OAuthKey :: "'n windows \<Rightarrow> string \<Rightarrow> string + string" where
  "OAuthKey win location = attempt (Wide win location) (\<lambda>url.
     let refuse = Inl ''Cupola requires an HTTPS endpoint without embedded credentials.'' in
     case win_crack win url of
       None \<Rightarrow> refuse
     | Some parts \<Rightarrow>
         if \<not> url_https parts \<or> url_host parts = [] \<or> url_user parts \<noteq> [] \<or> url_password parts \<noteq> [] then refuse
         else
           let host = ascii_lower (Utf8 win (url_host parts));
               key = ''https://'' @ host;
               key = (if url_port parts \<noteq> 443 then key @ '':'' @ nat_to_string (url_port parts) else key);
               key = (if url_path parts \<noteq> [] then key @ Utf8 win (url_path parts) else key)
           in Inr (strip_slashes key))"

definition time_stamp :: "nat \<times> nat \<times> nat \<times> nat \<times> nat \<times> nat \<Rightarrow> string" where
  "time_stamp now = (case now of (year, month, day, hour, minute, second) \<Rightarrow>
     pad_zeros 4 (nat_to_string year) @ ''-'' @ pad_zeros 2 (nat_to_string month) @ ''-'' @ pad_zeros 2 (nat_to_string day) @ ''T''
       @ pad_zeros 2 (nat_to_string hour) @ '':'' @ pad_zeros 2 (nat_to_string minute) @ '':'' @ pad_zeros 2 (nat_to_string second))"

text \<open>What the decrypted session gives for the \<^verbatim>\<open>ATTACH\<close> statement: the name of the option and its quoted value.\<close>

definition session_option :: "'n windows \<Rightarrow> 'n json \<Rightarrow> string + string" where
  "session_option win tokens =
     (let token = Optional tokens ''refresh_token'' in
      if token \<noteq> [] then attempt (Quote SINGLE_MARK token) (\<lambda>q. Inr (''oauth_refresh_token '' @ q))
      else
        let expiry = Optional tokens ''ExpiresAtUtc'' in
        if length expiry < 19 \<or> take 19 expiry \<le> time_stamp (win_now win) then
          Inl ''Cupola OAuth session has expired. Sign in again in Cupola.''
        else
          let use_id = (case obj_get tokens ''UseIdToken'' of Some (JBool True) \<Rightarrow> True | _ \<Rightarrow> False);
              token = Optional tokens (if use_id then ''id_token'' else ''access_token'') in
          if token = [] then Inl ''Cupola OAuth session has no usable credential. Sign in again in Cupola.''
          else attempt (Quote SINGLE_MARK token) (\<lambda>q. Inr (''bearer_token '' @ q)))"

definition Credential :: "'n windows \<Rightarrow> wstring \<Rightarrow> string \<Rightarrow> string + string" where
  "Credential win root key =
     attempt (Hash win key) (\<lambda>inner.
     attempt (Hash win (''QueryFarm/VgiExcel/OAuth/'' @ inner)) (\<lambda>outer.
     attempt (Wide win outer) (\<lambda>name.
     attempt (Read win (root @ wide_literal (BACKSLASH # ''oauth-sessions'' @ [BACKSLASH]) @ name @ wide_literal ''.bin'') (1024 * 1024)) (\<lambda>encrypted.
       case win_unprotect win encrypted ''QueryFarm.CupolaForExcel.OAuth.v1'' of
         None \<Rightarrow> Inl ''Cupola OAuth session cannot be decrypted for this Windows user. Sign in again in Cupola.''
       | Some clear \<Rightarrow> attempt (Json win clear) (session_option win)))))"

definition Run :: "('e \<Rightarrow> string \<Rightarrow> bool \<times> 'e) \<Rightarrow> string \<Rightarrow> string \<Rightarrow> 'e \<Rightarrow> (string + unit) \<times> 'e" where
  "Run query sql error e = (let (ok, e) = query e sql in (if ok then Inr () else Inl error, e))"

section \<open>The connection of the store\<close>

text \<open>The loop over the registry.\<close>

fun select_row :: "'n windows \<Rightarrow> wstring \<Rightarrow> 'n json list \<Rightarrow> 'n json option \<Rightarrow> string + 'n json option" where
  "select_row win wanted [] selected = Inr selected"
| "select_row win wanted (row # rows) selected =
     attempt (Field_of row ''Name'') (\<lambda>name.
     attempt (Wide win name) (\<lambda>candidate.
       if win_same_name win candidate wanted then
         (if selected \<noteq> None then Inl ''Cupola connection name is ambiguous.'' else select_row win wanted rows (Some row))
       else select_row win wanted rows selected))"

record 'n cupola =
  cu_root :: wstring
  cu_name :: string
  cu_catalog :: string
  cu_location :: string
  cu_auth :: string
  cu_oauth_key :: string
  cu_options :: "'n json option"

definition find_row :: "'n windows \<Rightarrow> string \<Rightarrow> string + wstring \<times> 'n json" where
  "find_row win requested =
     attempt (Root win) (\<lambda>root.
     attempt (Read win (root @ wide_literal (BACKSLASH # ''desktop-connections.json'')) (8 * 1024 * 1024)) (\<lambda>text.
     attempt (Json win text) (\<lambda>registry.
       case registry of
         JArr rows \<Rightarrow>
           if requested = [] then Inl ''A valid Cupola connection name is required.''
           else
             attempt (Wide win requested) (\<lambda>wanted.
             attempt (select_row win wanted rows None) (\<lambda>selected.
               case selected of
                 None \<Rightarrow> Inl ''The named Cupola connection does not exist. Select an existing connection in Cupola.''
               | Some row \<Rightarrow> Inr (root, row)))
       | _ \<Rightarrow> Inl ''A valid Cupola connection name is required.'')))"

definition find_connection :: "'n windows \<Rightarrow> string \<Rightarrow> string + 'n cupola" where
  "find_connection win requested =
     attempt (find_row win requested) (\<lambda>(root, row).
     attempt (Field_of row ''Name'') (\<lambda>name.
     attempt (Field_of row ''Catalog'') (\<lambda>catalog.
     attempt (Field_of row ''Location'') (\<lambda>location.
     attempt (Field_of row ''Authentication'') (\<lambda>auth.
       if catalog = [] then Inl ''Cupola catalog alias is missing.''
       else
         attempt (OAuthKey win location) (\<lambda>oauth_key.
           if auth \<noteq> ''anonymous'' \<and> auth \<noteq> ''oauth'' then Inl ''Cupola authentication mode is invalid.''
           else
             let options = obj_get row ''AttachOptions'' in
             if (case options of None \<Rightarrow> False | Some JNull \<Rightarrow> False | Some (JObj _) \<Rightarrow> False | _ \<Rightarrow> True) then
               Inl ''Cupola ATTACH options must be an object.''
             else Inr \<lparr>cu_root = root, cu_name = name, cu_catalog = catalog, cu_location = location, cu_auth = auth,
                      cu_oauth_key = oauth_key, cu_options = options\<rparr>))))))"

section \<open>The statements\<close>

definition forbidden :: "string list" where
  "forbidden = [''type'', ''location'', ''access_token'', ''api_key'', ''authorization'', ''bearer_token'',
     ''client_secret'', ''id_token'', ''oauth_refresh_token'', ''password'', ''refresh_token'', ''secret'']"

text \<open>\<^verbatim>\<open>[A-Za-z_][A-Za-z0-9_]*\<close>\<close>

definition name_start :: "char \<Rightarrow> bool" where
  "name_start c \<longleftrightarrow> (let n = of_char c :: nat in 65 \<le> n \<and> n \<le> 90 \<or> 97 \<le> n \<and> n \<le> 122 \<or> n = 95)"

definition name_char :: "char \<Rightarrow> bool" where
  "name_char c \<longleftrightarrow> name_start c \<or> (let n = of_char c :: nat in 48 \<le> n \<and> n \<le> 57)"

definition option_name :: "string \<Rightarrow> bool" where
  "option_name key \<longleftrightarrow> key \<noteq> [] \<and> name_start (hd key) \<and> list_all name_char (tl key)"

fun is_scalar :: "'n json \<Rightarrow> bool" where
  "is_scalar (JArr _) = False"
| "is_scalar (JObj _) = False"
| "is_scalar _ = True"

definition option_value :: "'n windows \<Rightarrow> 'n json \<Rightarrow> string + string" where
  "option_value win v = (case v of JStr s \<Rightarrow> Quote SINGLE_MARK s | _ \<Rightarrow> Dump win v)"

text \<open>The key is taken as a C string.\<close>

fun option_loop :: "'n windows \<Rightarrow> (string \<times> 'n json) list \<Rightarrow> string \<Rightarrow> string + string" where
  "option_loop win [] attach = Inr attach"
| "option_loop win ((k, v) # kvs) attach =
     (let key = takeWhile (\<lambda>c. c \<noteq> CHR 0x00) k in
      if \<not> option_name key \<or> ascii_lower key \<in> set forbidden then
        Inl ''Cupola ATTACH options contain an invalid or reserved name.''
      else if \<not> is_scalar v then Inl ''Cupola ATTACH options must be scalar values.''
      else attempt (option_value win v) (\<lambda>t. option_loop win kvs (attach @ '', '' @ key @ '' '' @ t)))"

definition attach_text :: "'n windows \<Rightarrow> 'n cupola \<Rightarrow> string + string" where
  "attach_text win c =
     attempt (Quote SINGLE_MARK (cu_catalog c)) (\<lambda>catalog.
     attempt (Quote DOUBLE_MARK (cu_catalog c)) (\<lambda>alias.
     attempt (Quote SINGLE_MARK (cu_location c)) (\<lambda>location.
       let attach = ''ATTACH '' @ catalog @ '' AS '' @ alias @ '' (TYPE vgi, LOCATION '' @ location in
       attempt (if cu_auth c = ''oauth'' then attempt (Credential win (cu_root c) (cu_oauth_key c)) (\<lambda>credential. Inr (attach @ '', '' @ credential))
                else Inr attach) (\<lambda>attach.
       attempt (case cu_options c of Some (JObj kvs) \<Rightarrow> option_loop win kvs attach | _ \<Rightarrow> Inr attach) (\<lambda>attach.
         Inr (attach @ '')''))))))"

text \<open>The extension beside the library of the driver.\<close>

definition extension_path :: "'n windows \<Rightarrow> wstring" where
  "extension_path win =
     (let path = win_module win;
          separator = (\<lambda>u. u = of_nat (of_char BACKSLASH) \<or> u = of_nat (of_char (CHR ''/'')))
      in (if list_ex separator path then rev (tl (dropWhile (\<lambda>u. \<not> separator u) (rev path))) else path)
         @ wide_literal (BACKSLASH # ''vgi.duckdb_extension''))"

text \<open>Steps that may throw and change the engine.\<close>

definition and_run :: "(string + unit) \<times> 'e \<Rightarrow> ('e \<Rightarrow> (string + unit) \<times> 'e) \<Rightarrow> (string + unit) \<times> 'e" where
  "and_run r f = (case r of (Inl msg, e) \<Rightarrow> (Inl msg, e) | (Inr _, e) \<Rightarrow> f e)"

definition run_text :: "('e \<Rightarrow> string \<Rightarrow> bool \<times> 'e) \<Rightarrow> string + string \<Rightarrow> string \<Rightarrow> 'e \<Rightarrow> (string + unit) \<times> 'e" where
  "run_text query text error e = (case text of Inl msg \<Rightarrow> (Inl msg, e) | Inr sql \<Rightarrow> Run query sql error e)"

definition load_extension :: "'n windows \<Rightarrow> ('e \<Rightarrow> string \<Rightarrow> bool \<times> 'e) \<Rightarrow> 'e \<Rightarrow> (string + unit) \<times> 'e" where
  "load_extension win query e =
     (if win_exists win (extension_path win) then
        run_text query (attempt (Quote SINGLE_MARK (Utf8 win (extension_path win))) (\<lambda>q. Inr (''LOAD '' @ q)))
          ''Cupola VGI extension could not be loaded.'' e
      else
        and_run (Run query ''INSTALL vgi FROM community'' ''Cupola VGI extension could not be installed.'' e)
          (Run query ''LOAD vgi'' ''Cupola VGI extension could not be loaded.''))"

definition identity_text :: "'n windows \<Rightarrow> 'n cupola \<Rightarrow> string + string" where
  "identity_text win c =
     attempt (case cu_options c of Some (JObj kvs) \<Rightarrow> Dump win (JObj kvs) | _ \<Rightarrow> Inr ''{}'') (\<lambda>option_json.
     attempt (Quote SINGLE_MARK (cu_name c)) (\<lambda>name.
     attempt (Quote SINGLE_MARK (cu_catalog c)) (\<lambda>catalog.
     attempt (Quote SINGLE_MARK (cu_location c)) (\<lambda>location.
     attempt (Quote SINGLE_MARK (cu_auth c)) (\<lambda>auth.
     attempt (Quote SINGLE_MARK option_json) (\<lambda>options.
       Inr (''CREATE TEMP MACRO cupola_connection_info() AS TABLE SELECT 1 AS contract_version, '' @ name
         @ '' AS connection_name, '' @ catalog @ '' AS catalog_alias, '' @ location @ '' AS location, '' @ auth
         @ '' AS authentication, '' @ options @ '' AS attach_options'')))))))"

text \<open>\<^verbatim>\<open>AttachCupolaConnection\<close> on Windows, for the engine \<open>query\<close>.\<close>

definition AttachCupolaConnection_windows ::
  "'n windows \<Rightarrow> ('e \<Rightarrow> string \<Rightarrow> bool \<times> 'e) \<Rightarrow> string \<Rightarrow> 'e \<Rightarrow> (string + unit) \<times> 'e" where
  "AttachCupolaConnection_windows win query requested e =
     (case attempt (find_connection win requested) (\<lambda>c. attempt (attach_text win c) (\<lambda>attach. Inr (c, attach))) of
        Inl msg \<Rightarrow> (Inl msg, e)
      | Inr (c, attach) \<Rightarrow>
          if win_module win = [] \<or> length (win_module win) \<ge> 32768 then (Inl ''Cupola driver directory is unavailable.'', e)
          else
            and_run (load_extension win query e) (\<lambda>e.
            and_run (Run query attach ''Cupola could not attach the HTTPS catalog. Check the connection and sign-in in Cupola.'' e) (\<lambda>e.
            and_run (run_text query (attempt (Quote DOUBLE_MARK (cu_catalog c)) (\<lambda>q. Inr (''USE '' @ q)))
                       ''Cupola could not select its attached catalog.'' e) (\<lambda>e.
              run_text query (identity_text win c) ''Cupola connection identity could not be initialized.'' e))))"

section \<open>Reading quoted text\<close>

text \<open>The reading of a quoted literal in SQL: up to the next mark that is not doubled.\<close>

fun scan_quoted :: "char \<Rightarrow> string \<Rightarrow> (string \<times> string) option" where
  "scan_quoted mark [] = None"
| "scan_quoted mark (c # s) =
     (if c = mark then
        (if s \<noteq> [] \<and> hd s = mark then map_option (\<lambda>(v, r). (c # v, r)) (scan_quoted mark (tl s)) else Some ([], s))
      else map_option (\<lambda>(v, r). (c # v, r)) (scan_quoted mark s))"

datatype sql_token = Plain char | Literal string | Identifier string

lemma scan_quoted_shorter: "scan_quoted mark s = Some (v, r) \<Longrightarrow> length r < length s"
proof (induction mark s arbitrary: v rule: scan_quoted.induct)
  case (2 mark c s)
  then show ?case by (cases s) (fastforce split: if_splits)+
qed simp

text \<open>A statement as its quoted texts and the characters between them.\<close>

function sql_tokens :: "string \<Rightarrow> sql_token list option" where
  "sql_tokens [] = Some []"
| "sql_tokens (c # s) =
     (if c = SINGLE_MARK then
        (case scan_quoted c s of None \<Rightarrow> None | Some (v, r) \<Rightarrow> map_option (\<lambda>ts. Literal v # ts) (sql_tokens r))
      else if c = DOUBLE_MARK then
        (case scan_quoted c s of None \<Rightarrow> None | Some (v, r) \<Rightarrow> map_option (\<lambda>ts. Identifier v # ts) (sql_tokens r))
      else map_option (\<lambda>ts. Plain c # ts) (sql_tokens s))"
  by pat_completeness auto
termination
  by (relation "measure length") (auto dest!: scan_quoted_shorter)

declare sql_tokens.simps [simp del]

lemma attempt_eq_Inr [simp]: "attempt x f = Inr b \<longleftrightarrow> (\<exists>a. x = Inr a \<and> f a = Inr b)"
  by (simp add: attempt_def split: sum.splits)

lemma attempt_Inr [simp]: "attempt (Inr a) f = f a"
  by (simp add: attempt_def)

definition doubled :: "char \<Rightarrow> string \<Rightarrow> string" where
  "doubled mark s = concat (map (\<lambda>c. if c = mark then [c, c] else [c]) s)"

lemma quote_loop_eq: "quote_loop mark s v = Inr q \<longleftrightarrow> CHR 0x00 \<notin> set s \<and> q = v @ doubled mark s @ [mark]"
  by (induction s arbitrary: v) (auto simp: doubled_def)

lemma Quote_eq: "Quote mark s = Inr q \<longleftrightarrow> CHR 0x00 \<notin> set s \<and> q = mark # doubled mark s @ [mark]"
  by (simp add: Quote_def quote_loop_eq)

lemma scan_doubled:
  assumes "r = [] \<or> hd r \<noteq> mark"
  shows "scan_quoted mark (doubled mark s @ mark # r) = Some (s, r)"
  using assms by (induction s) (auto simp: doubled_def)

named_theorems read_sql

lemma tokens_Nil [read_sql]: "sql_tokens [] = Some []"
  by (simp add: sql_tokens.simps)

lemma tokens_plain [read_sql]:
  "SINGLE_MARK \<notin> set t \<Longrightarrow> DOUBLE_MARK \<notin> set t \<Longrightarrow> sql_tokens (t @ r) = map_option (\<lambda>ts. map Plain t @ ts) (sql_tokens r)"
proof (induction t)
  case Nil
  show ?case by (cases "sql_tokens r") simp_all
next
  case (Cons c t)
  then have "sql_tokens ((c # t) @ r) = map_option (\<lambda>ts. Plain c # ts) (sql_tokens (t @ r))"
    by (auto simp: sql_tokens.simps(2))
  then show ?case using Cons by (cases "sql_tokens r") simp_all
qed

lemma tokens_quoted [read_sql]:
  "Quote SINGLE_MARK s = Inr q \<Longrightarrow> r = [] \<or> hd r \<noteq> SINGLE_MARK \<Longrightarrow> sql_tokens (q @ r) = map_option (\<lambda>ts. Literal s # ts) (sql_tokens r)"
  "Quote DOUBLE_MARK s = Inr q \<Longrightarrow> r = [] \<or> hd r \<noteq> DOUBLE_MARK \<Longrightarrow> sql_tokens (q @ r) = map_option (\<lambda>ts. Identifier s # ts) (sql_tokens r)"
  by (simp_all add: Quote_eq sql_tokens.simps scan_doubled)

text \<open>A text that is read as certain tokens, whatever follows. The quoted texts of the statements stand after plain text, so the
  pieces are composed without regard to their neighbours.\<close>

definition plain_start :: "string \<Rightarrow> bool" where
  "plain_start r \<longleftrightarrow> r = [] \<or> hd r \<noteq> SINGLE_MARK \<and> hd r \<noteq> DOUBLE_MARK"

definition plain :: "string \<Rightarrow> bool" where
  "plain t \<longleftrightarrow> SINGLE_MARK \<notin> set t \<and> DOUBLE_MARK \<notin> set t"

definition reads :: "string \<Rightarrow> sql_token list \<Rightarrow> bool" where
  "reads t ts \<longleftrightarrow> plain_start t \<and> (\<forall>r. plain_start r \<longrightarrow> sql_tokens (t @ r) = map_option (\<lambda>us. ts @ us) (sql_tokens r))"

lemma reads_whole: "reads t ts \<Longrightarrow> sql_tokens t = Some ts"
  using tokens_Nil unfolding reads_def plain_start_def by (metis append_Nil2 option.simps(9))

lemma reads_append:
  assumes "reads t ts" "reads u us"
  shows "reads (t @ u) (ts @ us)"
proof -
  have "plain_start (u @ r)" if "plain_start r" for r using assms(2) that by (cases u) (auto simp: reads_def plain_start_def)
  then have "sql_tokens ((t @ u) @ r) = map_option (\<lambda>vs. (ts @ us) @ vs) (sql_tokens r)" if "plain_start r" for r
    using assms that by (simp add: reads_def option.map_comp comp_def)
  moreover have "plain_start (t @ u)" using assms by (cases t) (auto simp: reads_def plain_start_def)
  ultimately show ?thesis by (simp add: reads_def)
qed

lemma reads_Nil: "reads [] []"
  by (simp add: reads_def plain_start_def option.map_ident)

lemma plain_start_append: "plain t \<Longrightarrow> plain_start q \<or> t \<noteq> [] \<Longrightarrow> plain_start (t @ q)"
  by (cases t) (auto simp: plain_start_def plain_def)

lemma reads_plain: "plain t \<Longrightarrow> reads t (map Plain t)"
  using plain_start_append [of t "[]"] by (simp add: reads_def tokens_plain plain_def plain_start_def)

lemma reads_after:
  assumes t: "plain t" "t \<noteq> []" and q: "\<And>r. plain_start r \<Longrightarrow> sql_tokens (q @ r) = map_option (\<lambda>ts. x # ts) (sql_tokens r)"
  shows "reads (t @ q) (map Plain t @ [x])"
proof -
  have "sql_tokens ((t @ q) @ r) = map_option (\<lambda>us. (map Plain t @ [x]) @ us) (sql_tokens r)" if "plain_start r" for r
  proof -
    have "sql_tokens ((t @ q) @ r) = map_option (\<lambda>ts. map Plain t @ ts) (sql_tokens (q @ r))"
      unfolding append_assoc by (rule tokens_plain) (use t(1) in \<open>simp_all add: plain_def\<close>)
    then show ?thesis unfolding q [OF that] by (cases "sql_tokens r") simp_all
  qed
  then show ?thesis using plain_start_append [of t q] t by (simp add: reads_def)
qed

lemma reads_quoted:
  assumes "plain t" "t \<noteq> []"
  shows "Quote SINGLE_MARK s = Inr q \<Longrightarrow> reads (t @ q) (map Plain t @ [Literal s])"
    and "Quote DOUBLE_MARK s = Inr q \<Longrightarrow> reads (t @ q) (map Plain t @ [Identifier s])"
  using assms by (auto simp only: plain_start_def intro!: reads_after tokens_quoted)

text \<open>How an option is read back.\<close>

definition c_string :: "string \<Rightarrow> string" where
  "c_string k = takeWhile (\<lambda>c. c \<noteq> CHR 0x00) k"

fun value_tokens :: "'n windows \<Rightarrow> 'n json \<Rightarrow> sql_token list" where
  "value_tokens win (JStr s) = [Literal s]"
| "value_tokens win v = (case win_json_write win v of None \<Rightarrow> [] | Some s \<Rightarrow> map Plain s)"

definition option_tokens :: "'n windows \<Rightarrow> string \<times> 'n json \<Rightarrow> sql_token list" where
  "option_tokens win kv = map Plain ('', '' @ c_string (fst kv) @ '' '') @ value_tokens win (snd kv)"

definition option_list :: "'n cupola \<Rightarrow> (string \<times> 'n json) list" where
  "option_list c = (case cu_options c of Some (JObj kvs) \<Rightarrow> kvs | _ \<Rightarrow> [])"

text \<open>Numbers, truth values and null are printed without quotes.\<close>

definition plain_scalars :: "'n windows \<Rightarrow> bool" where
  "plain_scalars win \<longleftrightarrow> (\<forall>v s. is_scalar v \<and> (\<forall>t. v \<noteq> JStr t) \<and> win_json_write win v = Some s \<longrightarrow> plain s)"

lemma plain_append [simp]: "plain (s @ t) \<longleftrightarrow> plain s \<and> plain t"
  by (auto simp: plain_def)

lemma plain_Cons [simp]: "plain [] \<and> (plain (c # t) \<longleftrightarrow> c \<noteq> SINGLE_MARK \<and> c \<noteq> DOUBLE_MARK \<and> plain t)"
  by (auto simp: plain_def)

lemma option_name_plain:
  assumes "option_name key"
  shows "plain key"
proof -
  have "name_char c" if "c \<in> set key" for c
    using assms that by (cases key) (auto simp: option_name_def list_all_iff name_char_def)
  moreover have "\<not> name_char SINGLE_MARK" "\<not> name_char DOUBLE_MARK" by (simp_all add: name_char_def name_start_def Let_def)
  ultimately show ?thesis unfolding plain_def by blast
qed

lemma option_read:
  assumes "plain_scalars win" "option_name key" "is_scalar v" "option_value win v = Inr t"
  shows "reads ('', '' @ key @ '' '' @ t) (map Plain ('', '' @ key @ '' '') @ value_tokens win v)"
proof -
  let ?k = "'', '' @ key @ '' ''"
  have k: "plain ?k" "?k \<noteq> []" using option_name_plain [OF assms(2)] by simp_all
  have "reads (?k @ t) (map Plain ?k @ value_tokens win v)"
  proof (cases "\<exists>s. v = JStr s")
    case True
    then show ?thesis using reads_quoted(1) [OF k] assms(4) by (auto simp: option_value_def simp del: append.simps append_assoc map_append)
  next
    case False
    then have t: "win_json_write win v = Some t"
      using assms(4) by (auto simp: option_value_def Dump_def split: json.splits option.splits)
    then have "value_tokens win v = map Plain t" using False by (cases v) auto
    moreover have "plain t" using t assms(1,3) False by (auto simp: plain_scalars_def)
    ultimately show ?thesis using reads_append [OF reads_plain [OF k(1)] reads_plain [of t]] by simp
  qed
  then show ?thesis by simp
qed

lemma options_read:
  assumes "plain_scalars win" "option_loop win kvs attach = Inr t"
  shows "\<exists>u. t = attach @ u \<and> reads u (concat (map (option_tokens win) kvs))"
  using assms(2)
proof (induction kvs arbitrary: attach)
  case Nil
  then show ?case by (simp add: reads_Nil)
next
  case (Cons kv kvs)
  obtain k v where kv: "kv = (k, v)" by (cases kv)
  obtain x where x: "option_name (c_string k)" "is_scalar v" "option_value win v = Inr x"
      "option_loop win kvs (attach @ '', '' @ c_string k @ '' '' @ x) = Inr t"
    using Cons.prems by (auto simp: kv c_string_def Let_def split: if_splits)
  obtain u where u: "t = (attach @ '', '' @ c_string k @ '' '' @ x) @ u" "reads u (concat (map (option_tokens win) kvs))"
    using Cons.IH [OF x(4)] by blast
  have "reads (('', '' @ c_string k @ '' '' @ x) @ u) (concat (map (option_tokens win) (kv # kvs)))"
    using reads_append [OF option_read [OF assms(1) x(1-3)] u(2)] by (simp add: option_tokens_def kv)
  then show ?case using u(1) by (intro exI [of _ "('', '' @ c_string k @ '' '' @ x) @ u"]) auto
qed

text \<open>What the credential contributes, with its name and token.\<close>

definition credential_option :: "string \<Rightarrow> bool" where
  "credential_option t \<longleftrightarrow> (\<exists>name token q. name \<in> {''oauth_refresh_token '', ''bearer_token ''} \<and> Quote SINGLE_MARK token = Inr q \<and> t = name @ q)"

lemma credential_optionI:
  "Quote SINGLE_MARK token = Inr q \<Longrightarrow> credential_option (''oauth_refresh_token '' @ q)"
  "Quote SINGLE_MARK token = Inr q \<Longrightarrow> credential_option (''bearer_token '' @ q)"
  unfolding credential_option_def by blast+

lemma session_option_quoted: "session_option win tokens = Inr t \<Longrightarrow> credential_option t"
  unfolding session_option_def Let_def
  by (auto simp del: append.simps split: if_splits intro: credential_optionI)

lemma Credential_quoted: "Credential win root key = Inr t \<Longrightarrow> credential_option t"
  unfolding Credential_def by (auto split: option.splits intro: session_option_quoted)


section \<open>The statements of a run\<close>

text \<open>An engine that keeps the queries it was sent.\<close>

definition recording :: "('e \<Rightarrow> string \<Rightarrow> bool \<times> 'e) \<Rightarrow> 'e \<times> string list \<Rightarrow> string \<Rightarrow> bool \<times> 'e \<times> string list" where
  "recording query s sql = (let (ok, e) = query (fst s) sql in (ok, e, snd s @ [sql]))"

definition load_statements :: "'n windows \<Rightarrow> string + string list" where
  "load_statements win =
     (if win_exists win (extension_path win) then
        attempt (Quote SINGLE_MARK (Utf8 win (extension_path win))) (\<lambda>q. Inr [''LOAD '' @ q])
      else Inr [''INSTALL vgi FROM community'', ''LOAD vgi''])"

lemma Run_recorded: "Run (recording query) sql error s0 = (Inr (), s) \<Longrightarrow> snd s = snd s0 @ [sql]"
  by (auto simp: Run_def recording_def split: prod.splits if_splits)

lemma run_text_recorded: "run_text (recording query) text error s0 = (Inr (), s) \<Longrightarrow> \<exists>sql. text = Inr sql \<and> snd s = snd s0 @ [sql]"
  by (auto simp: run_text_def dest: Run_recorded split: sum.splits)

lemma and_run_Inr: "and_run r f = (Inr (), s) \<longleftrightarrow> (\<exists>e. r = (Inr (), e) \<and> f e = (Inr (), s))"
  by (cases r) (auto simp: and_run_def split: sum.splits)

lemma load_recorded:
  assumes "load_extension win (recording query) s0 = (Inr (), s)"
  shows "\<exists>ls. load_statements win = Inr ls \<and> snd s = snd s0 @ ls"
proof (cases "win_exists win (extension_path win)")
  case True
  then have "\<exists>sql. attempt (Quote SINGLE_MARK (Utf8 win (extension_path win))) (\<lambda>q. Inr (''LOAD '' @ q)) = Inr sql \<and> snd s = snd s0 @ [sql]"
    using assms unfolding load_extension_def by (intro run_text_recorded) simp
  then show ?thesis using True by (auto simp: load_statements_def)
next
  case False
  then obtain s1 where "Run (recording query) ''INSTALL vgi FROM community'' ''Cupola VGI extension could not be installed.'' s0 = (Inr (), s1)"
      "Run (recording query) ''LOAD vgi'' ''Cupola VGI extension could not be loaded.'' s1 = (Inr (), s)"
    using assms by (auto simp: load_extension_def and_run_Inr)
  from this [THEN Run_recorded] show ?thesis using False by (simp add: load_statements_def)
qed

text \<open>A run that succeeds has sent the statements for the extension, the \<^verbatim>\<open>ATTACH\<close> statement, the \<^verbatim>\<open>USE\<close> statement and the identity.\<close>

lemma attach_recorded:
  assumes "AttachCupolaConnection_windows win (recording query) requested (e, []) = (Inr (), e', sqls)"
  obtains c attach ls q identity where "find_connection win requested = Inr c" "attach_text win c = Inr attach"
    "load_statements win = Inr ls" "Quote DOUBLE_MARK (cu_catalog c) = Inr q" "identity_text win c = Inr identity"
    "sqls = ls @ [attach, ''USE '' @ q, identity]"
proof -
  obtain c attach where c: "find_connection win requested = Inr c" "attach_text win c = Inr attach"
    using assms by (auto simp: AttachCupolaConnection_windows_def attempt_def split: sum.splits)
  obtain s1 s2 s3 where s: "load_extension win (recording query) (e, []) = (Inr (), s1)"
      "Run (recording query) attach ''Cupola could not attach the HTTPS catalog. Check the connection and sign-in in Cupola.'' s1 = (Inr (), s2)"
      "run_text (recording query) (attempt (Quote DOUBLE_MARK (cu_catalog c)) (\<lambda>q. Inr (''USE '' @ q)))
         ''Cupola could not select its attached catalog.'' s2 = (Inr (), s3)"
      "run_text (recording query) (identity_text win c) ''Cupola connection identity could not be initialized.'' s3 = (Inr (), e', sqls)"
    using assms by (auto simp: AttachCupolaConnection_windows_def c and_run_Inr split: if_splits)
  obtain ls where ls: "load_statements win = Inr ls" "snd s1 = ls" using load_recorded [OF s(1)] by auto
  have "snd s2 = ls @ [attach]" using Run_recorded [OF s(2)] ls(2) by simp
  moreover obtain q where "Quote DOUBLE_MARK (cu_catalog c) = Inr q" "snd s3 = snd s2 @ [''USE '' @ q]"
    using run_text_recorded [OF s(3)] by auto
  moreover obtain identity where "identity_text win c = Inr identity" "sqls = snd s3 @ [identity]"
    using run_text_recorded [OF s(4)] by auto
  ultimately show ?thesis using that [OF c ls(1)] by simp
qed

section \<open>Properties\<close>

definition cred_tokens :: "'n cupola \<Rightarrow> sql_token list \<Rightarrow> bool" where
  "cred_tokens c ts \<longleftrightarrow> (if cu_auth c = ''oauth'' then \<exists>name token. name \<in> {''oauth_refresh_token '', ''bearer_token ''}
       \<and> ts = map Plain ('', '' @ name) @ [Literal token]
     else ts = [])"

lemma attach_credential_read:
  assumes "(if cu_auth c = ''oauth'' then attempt (Credential win (cu_root c) (cu_oauth_key c)) (\<lambda>credential. Inr (attach @ '', '' @ credential))
     else Inr attach) = Inr a"
  shows "\<exists>t cs. a = attach @ t \<and> reads t cs \<and> cred_tokens c cs"
proof (cases "cu_auth c = ''oauth''")
  case True
  then obtain t where t: "Credential win (cu_root c) (cu_oauth_key c) = Inr t" "a = attach @ '', '' @ t" using assms by auto
  obtain name token q where q: "name \<in> {''oauth_refresh_token '', ''bearer_token ''}" "Quote SINGLE_MARK token = Inr q" "t = name @ q"
    using Credential_quoted [OF t(1)] unfolding credential_option_def by blast
  have "reads (('', '' @ name) @ q) (map Plain ('', '' @ name) @ [Literal token])"
    by (rule reads_quoted(1) [OF _ _ q(2)]) (use q(1) in auto)
  moreover have "a = attach @ ('', '' @ name) @ q" by (simp only: t(2) q(3) append_assoc)
  moreover have "cred_tokens c (map Plain ('', '' @ name) @ [Literal token])" unfolding cred_tokens_def using True q(1) by metis
  ultimately show ?thesis by blast
next
  case False
  then show ?thesis using assms reads_Nil by (auto simp: cred_tokens_def)
qed

definition attach_tokens :: "'n windows \<Rightarrow> 'n cupola \<Rightarrow> sql_token list \<Rightarrow> sql_token list" where
  "attach_tokens win c credential =
     map Plain ''ATTACH '' @ [Literal (cu_catalog c)] @ map Plain '' AS '' @ [Identifier (cu_catalog c)]
     @ map Plain '' (TYPE vgi, LOCATION '' @ [Literal (cu_location c)] @ credential
     @ concat (map (option_tokens win) (option_list c)) @ map Plain '')''"

lemma attach_read:
  assumes "attach_text win c = Inr attach" "plain_scalars win"
  shows "\<exists>credential. cred_tokens c credential \<and> sql_tokens attach = Some (attach_tokens win c credential)"
proof -
  obtain catalog aliased location a b where t: "Quote SINGLE_MARK (cu_catalog c) = Inr catalog" "Quote DOUBLE_MARK (cu_catalog c) = Inr aliased"
      "Quote SINGLE_MARK (cu_location c) = Inr location"
      "(if cu_auth c = ''oauth'' then attempt (Credential win (cu_root c) (cu_oauth_key c))
          (\<lambda>credential. Inr ((''ATTACH '' @ catalog @ '' AS '' @ aliased @ '' (TYPE vgi, LOCATION '' @ location) @ '', '' @ credential))
        else Inr (''ATTACH '' @ catalog @ '' AS '' @ aliased @ '' (TYPE vgi, LOCATION '' @ location)) = Inr a"
      "(case cu_options c of Some (JObj kvs) \<Rightarrow> option_loop win kvs a | _ \<Rightarrow> Inr a) = Inr b" "attach = b @ '')''"
    using assms(1) unfolding attach_text_def Let_def by (auto simp only: attempt_eq_Inr sum.inject)
  obtain w cs where w: "a = (''ATTACH '' @ catalog @ '' AS '' @ aliased @ '' (TYPE vgi, LOCATION '' @ location) @ w" "reads w cs" "cred_tokens c cs"
    using attach_credential_read [OF t(4)] by blast
  have "option_loop win (option_list c) a = Inr b"
    using t(5) by (auto simp: option_list_def split: option.splits json.splits)
  then obtain u where u: "b = a @ u" "reads u (concat (map (option_tokens win) (option_list c)))"
    using options_read [OF assms(2)] by blast
  have "reads ((''ATTACH '' @ catalog) @ ('' AS '' @ aliased) @ ('' (TYPE vgi, LOCATION '' @ location) @ w @ u @ '')'')
     ((map Plain ''ATTACH '' @ [Literal (cu_catalog c)]) @ (map Plain '' AS '' @ [Identifier (cu_catalog c)])
       @ (map Plain '' (TYPE vgi, LOCATION '' @ [Literal (cu_location c)]) @ cs @ concat (map (option_tokens win) (option_list c)) @ map Plain '')'')"
    by (intro reads_append reads_quoted t w u reads_plain) simp_all
  then have "sql_tokens attach = Some (attach_tokens win c cs)"
    unfolding attach_tokens_def t(6) u(1) w(1) append_assoc by (rule reads_whole)
  then show ?thesis using w(3) by blast
qed

definition identity_tokens :: "'n cupola \<Rightarrow> string \<Rightarrow> sql_token list" where
  "identity_tokens c option_json =
     map Plain ''CREATE TEMP MACRO cupola_connection_info() AS TABLE SELECT 1 AS contract_version, '' @ [Literal (cu_name c)]
     @ map Plain '' AS connection_name, '' @ [Literal (cu_catalog c)] @ map Plain '' AS catalog_alias, '' @ [Literal (cu_location c)]
     @ map Plain '' AS location, '' @ [Literal (cu_auth c)] @ map Plain '' AS authentication, '' @ [Literal option_json]
     @ map Plain '' AS attach_options''"

lemma identity_read:
  assumes "identity_text win c = Inr identity"
  shows "\<exists>option_json. sql_tokens identity = Some (identity_tokens c option_json)"
proof -
  obtain option_json name catalog location auth options where t: "Quote SINGLE_MARK (cu_name c) = Inr name"
      "Quote SINGLE_MARK (cu_catalog c) = Inr catalog" "Quote SINGLE_MARK (cu_location c) = Inr location"
      "Quote SINGLE_MARK (cu_auth c) = Inr auth" "Quote SINGLE_MARK option_json = Inr options"
      "identity = ''CREATE TEMP MACRO cupola_connection_info() AS TABLE SELECT 1 AS contract_version, '' @ name
         @ '' AS connection_name, '' @ catalog @ '' AS catalog_alias, '' @ location @ '' AS location, '' @ auth
         @ '' AS authentication, '' @ options @ '' AS attach_options''"
    using assms unfolding identity_text_def by (auto simp only: attempt_eq_Inr sum.inject)
  have "reads ((''CREATE TEMP MACRO cupola_connection_info() AS TABLE SELECT 1 AS contract_version, '' @ name)
       @ ('' AS connection_name, '' @ catalog) @ ('' AS catalog_alias, '' @ location) @ ('' AS location, '' @ auth)
       @ ('' AS authentication, '' @ options) @ '' AS attach_options'')
     ((map Plain ''CREATE TEMP MACRO cupola_connection_info() AS TABLE SELECT 1 AS contract_version, '' @ [Literal (cu_name c)])
       @ (map Plain '' AS connection_name, '' @ [Literal (cu_catalog c)]) @ (map Plain '' AS catalog_alias, '' @ [Literal (cu_location c)])
       @ (map Plain '' AS location, '' @ [Literal (cu_auth c)]) @ (map Plain '' AS authentication, '' @ [Literal option_json])
       @ map Plain '' AS attach_options'')"
    by (intro reads_append reads_quoted t reads_plain) simp_all
  then have "sql_tokens identity = Some (identity_tokens c option_json)"
    unfolding identity_tokens_def t(6) append_assoc by (rule reads_whole)
  then show ?thesis by blast
qed

text \<open>C7: no field of a Cupola connection breaks out of its quotes. When attaching a connection succeeds, the last three
  queries that were sent, read as SQL, are an \<^verbatim>\<open>ATTACH\<close>, a \<^verbatim>\<open>USE\<close> and a \<^verbatim>\<open>CREATE MACRO\<close> statement of a fixed form, in which the name, the
  catalog, the location, the authentication, the token and the texts of the options are the contents of single literals or identifiers, whatever
  quotes they contain; it is assumed that JSON prints numbers, truth values and null without quotes.\<close>

theorem cupola_fields_stay_quoted:
  assumes "AttachCupolaConnection_windows win (recording query) requested (e, []) = (Inr (), e', sqls)" "plain_scalars win"
  shows "\<exists>c load attach use identity credential option_json. find_connection win requested = Inr c
    \<and> sqls = load @ [attach, use, identity]
    \<and> cred_tokens c credential \<and> sql_tokens attach = Some (attach_tokens win c credential)
    \<and> sql_tokens use = Some (map Plain ''USE '' @ [Identifier (cu_catalog c)])
    \<and> sql_tokens identity = Some (identity_tokens c option_json)"
proof -
  obtain c attach ls q identity where r: "find_connection win requested = Inr c" "attach_text win c = Inr attach"
      "Quote DOUBLE_MARK (cu_catalog c) = Inr q" "identity_text win c = Inr identity" "sqls = ls @ [attach, ''USE '' @ q, identity]"
    using attach_recorded [OF assms(1)] by metis
  have "sql_tokens (''USE '' @ q) = Some (map Plain ''USE '' @ [Identifier (cu_catalog c)])"
    by (rule reads_whole, rule reads_quoted(2) [OF _ _ r(3)]) simp_all
  then show ?thesis using attach_read [OF r(2) assms(2)] identity_read [OF r(4)] r(1,5) by blast
qed

lemma option_loop_good:
  assumes "option_loop win kvs a = Inr b" "(k, v) \<in> set kvs"
  shows "option_name (c_string k) \<and> ascii_lower (c_string k) \<notin> set forbidden \<and> is_scalar v"
  using assms
proof (induction kvs arbitrary: a)
  case (Cons kv kvs)
  obtain k' v' where kv: "kv = (k', v')" by (cases kv)
  obtain a' where "option_name (c_string k')" "ascii_lower (c_string k') \<notin> set forbidden" "is_scalar v'" "option_loop win kvs a' = Inr b"
    using Cons.prems(1) by (auto simp: kv c_string_def Let_def simp del: attempt_Inr split: if_splits)
  then show ?case using Cons.IH Cons.prems(2) by (auto simp: kv)
qed simp

text \<open>C20: nothing is executed for a connection with a bad option: when the options of the connection found contain a name
  that is not an identifier or is reserved for credentials, in any case of its letters, or a value that is not scalar, attaching it
  throws before the first query, and the engine is as it was.\<close>

theorem bad_option_executes_nothing:
  assumes "find_connection win requested = Inr c" "cu_options c = Some (JObj kvs)" "(k, v) \<in> set kvs"
    and "\<not> option_name (c_string k) \<or> ascii_lower (c_string k) \<in> set forbidden \<or> \<not> is_scalar v"
  shows "\<exists>msg. AttachCupolaConnection_windows win query requested e = (Inl msg, e)"
proof -
  have "option_loop win kvs a \<noteq> Inr b" for a b
    using option_loop_good [OF _ assms(3)] assms(4) by blast
  then have "attach_text win c \<noteq> Inr b" for b
    using assms(2) by (auto simp: attach_text_def Let_def)
  then obtain msg where "attach_text win c = Inl msg" by (cases "attach_text win c") auto
  then have "attempt (find_connection win requested) (\<lambda>c. attempt (attach_text win c) (\<lambda>attach. Inr (c, attach))) = Inl msg"
    using assms(1) by (simp add: attempt_def)
  then show ?thesis by (simp add: AttachCupolaConnection_windows_def)
qed

section \<open>Where the credential goes\<close>

text \<open>Another session of the same user at another time.\<close>

definition other_session :: "(string \<Rightarrow> string \<Rightarrow> string option) \<Rightarrow> (nat \<times> nat \<times> nat \<times> nat \<times> nat \<times> nat) \<Rightarrow> 'n windows \<Rightarrow> 'n windows" where
  "other_session unprotect now win = win\<lparr>win_unprotect := unprotect, win_now := now\<rparr>"

named_theorems session_free

lemma other_session_simps [session_free]:
  "win_wide (other_session u n win) = win_wide win" "win_utf8 (other_session u n win) = win_utf8 win"
  "win_env (other_session u n win) = win_env win" "win_app_data (other_session u n win) = win_app_data win"
  "win_file (other_session u n win) = win_file win" "win_crack (other_session u n win) = win_crack win"
  "win_same_name (other_session u n win) = win_same_name win" "win_module (other_session u n win) = win_module win"
  "win_exists (other_session u n win) = win_exists win" "win_json_read (other_session u n win) = win_json_read win"
  "win_json_write (other_session u n win) = win_json_write win"
  by (simp_all add: other_session_def)

lemma helpers_other [session_free]:
  "Json (other_session u n win) = Json win" "Wide (other_session u n win) = Wide win" "Utf8 (other_session u n win) = Utf8 win"
  "Env (other_session u n win) = Env win" "Read (other_session u n win) = Read win" "Dump (other_session u n win) = Dump win"
  unfolding fun_eq_iff Json_def Wide_def Utf8_def Env_def Read_def Dump_def session_free by simp_all

lemma lookups_other [session_free]:
  "Root (other_session u n win) = Root win" "OAuthKey (other_session u n win) = OAuthKey win"
  "extension_path (other_session u n win) = extension_path win"
  unfolding fun_eq_iff Root_def OAuthKey_def extension_path_def session_free by simp_all

lemma select_row_other [session_free]: "select_row (other_session u n win) = select_row win"
proof -
  have "select_row (other_session u n win) wanted rows selected = select_row win wanted rows selected" for wanted rows selected
  proof (induction rows arbitrary: selected)
    case (Cons row rows)
    then show ?case by (simp only: select_row.simps session_free)
  qed simp
  then show ?thesis by (simp add: fun_eq_iff)
qed

lemma find_connection_other [session_free]: "find_connection (other_session u n win) = find_connection win"
  unfolding fun_eq_iff find_connection_def find_row_def session_free by simp

lemma statements_other [session_free]:
  "load_statements (other_session u n win) = load_statements win" "identity_text (other_session u n win) = identity_text win"
  "option_value (other_session u n win) = option_value win"
  unfolding fun_eq_iff load_statements_def identity_text_def option_value_def session_free by simp_all

lemma option_loop_other [session_free]: "option_loop (other_session u n win) = option_loop win"
proof -
  have "option_loop (other_session u n win) kvs a = option_loop win kvs a" for kvs a
    by (induction kvs arbitrary: a) (auto simp: session_free Let_def)
  then show ?thesis by (simp add: fun_eq_iff)
qed

text \<open>C9: of all that is sent to the engine only the \<^verbatim>\<open>ATTACH\<close> statement depends on the credential. Two successful runs with different
  decrypted sessions, at different times and with engines that answer differently, send the same queries, but for the third last one,
  the \<^verbatim>\<open>ATTACH\<close> statement; for a connection without authentication that one is the same, too. In particular the identity
  macro, which later queries can read, has nothing of the credential.\<close>

theorem credential_only_in_attach:
  assumes "AttachCupolaConnection_windows win (recording query1) requested (e1, []) = (Inr (), e1', sqls1)"
    and "AttachCupolaConnection_windows (other_session u n win) (recording query2) requested (e2, []) = (Inr (), e2', sqls2)"
  shows "\<exists>c load attach1 attach2 use identity. find_connection win requested = Inr c
    \<and> sqls1 = load @ [attach1, use, identity] \<and> sqls2 = load @ [attach2, use, identity]
    \<and> (cu_auth c \<noteq> ''oauth'' \<longrightarrow> attach1 = attach2)"
proof -
  obtain c attach ls q identity where r: "find_connection win requested = Inr c" "attach_text win c = Inr attach"
      "load_statements win = Inr ls" "Quote DOUBLE_MARK (cu_catalog c) = Inr q" "identity_text win c = Inr identity"
      "sqls1 = ls @ [attach, ''USE '' @ q, identity]"
    using attach_recorded [OF assms(1)] by metis
  obtain c' attach' ls' q' identity' where r': "find_connection win requested = Inr c'" "attach_text (other_session u n win) c' = Inr attach'"
      "load_statements win = Inr ls'" "Quote DOUBLE_MARK (cu_catalog c') = Inr q'" "identity_text win c' = Inr identity'"
      "sqls2 = ls' @ [attach', ''USE '' @ q', identity']"
    using attach_recorded [OF assms(2)] unfolding session_free by metis
  have "attach_text (other_session u n win) c = attach_text win c" if "cu_auth c \<noteq> ''oauth''"
    using that unfolding attach_text_def session_free by simp
  then show ?thesis using r r' by (auto intro!: exI [of _ c])
qed

section \<open>Examples\<close>

text \<open>A store with one connection, whose catalog has both quotes in its name.\<close>

definition sample_json :: "(string \<times> nat json) list \<Rightarrow> string \<Rightarrow> nat json option" where
  "sample_json opts text =
     (if text = ''registry'' then
        Some (JArr [JObj [(''Name'', JStr ''main''), (''Catalog'', JStr [CHR ''a'', SINGLE_MARK, DOUBLE_MARK]), (''Location'', JStr ''https://h''),
          (''Authentication'', JStr ''oauth''), (''AttachOptions'', JObj opts)]])
      else if text = ''session'' then Some (JObj [(''refresh_token'', JStr [CHR ''t'', SINGLE_MARK])])
      else if text = ''other'' then
        Some (JObj [(''ExpiresAtUtc'', JStr ''2031-01-01T00:00:00Z''), (''access_token'', JStr ''u'')])
      else None)"

definition sample_write :: "nat json \<Rightarrow> string option" where
  "sample_write v = (case v of JNum _ \<Rightarrow> Some ''5'' | JObj _ \<Rightarrow> Some ''{}'' | _ \<Rightarrow> None)"

definition sample_windows :: "(string \<times> nat json) list \<Rightarrow> nat windows" where
  "sample_windows opts = \<lparr>win_wide = (\<lambda>s. Some (wide_literal s)), win_utf8 = (\<lambda>_. ''h''), win_env = (\<lambda>_. None), win_app_data = Some [],
     win_file = (\<lambda>_. Some (8, Some ''registry'')), win_provider = True, win_sha256 = (\<lambda>_. Some [CHR 0x00]),
     win_crack = (\<lambda>_. Some \<lparr>url_https = True, url_host = [1], url_user = [], url_password = [], url_port = 443, url_path = []\<rparr>),
     win_unprotect = (\<lambda>_ _. Some ''session''), win_now = (2030, 1, 1, 0, 0, 0), win_same_name = (=), win_module = [1],
     win_exists = (\<lambda>_. False), win_json_read = sample_json opts, win_json_write = sample_write\<rparr>"

definition sample_query :: "unit \<Rightarrow> string \<Rightarrow> bool \<times> unit" where
  "sample_query e sql = (True, e)"

definition sample_options :: "(string \<times> nat json) list" where
  "sample_options = [(''limit'', JNum 5), (''tag'', JStr [SINGLE_MARK])]"

lemma sample_plain: "plain_scalars (sample_windows opts)"
proof -
  have "plain s" if "is_scalar v" "sample_write v = Some s" for v s
    using that by (cases v) (auto simp: sample_write_def)
  then show ?thesis by (auto simp: plain_scalars_def sample_windows_def)
qed

definition sample_run :: "(string \<Rightarrow> string \<Rightarrow> string option) \<Rightarrow> (string + unit) \<times> unit \<times> string list" where
  "sample_run unprotect = AttachCupolaConnection_windows (other_session unprotect (2030, 1, 1, 0, 0, 0) (sample_windows sample_options))
     (recording sample_query) ''main'' ((), [])"

lemma sample_runs: "fst (sample_run (\<lambda>_ _. Some ''session'')) = Inr ()" "fst (sample_run (\<lambda>_ _. Some ''other'')) = Inr ()"
  by code_simp+

lemma sample_session: "other_session (\<lambda>_ _. Some ''session'') (2030, 1, 1, 0, 0, 0) (sample_windows opts) = sample_windows opts"
  by (simp add: other_session_def sample_windows_def)

lemma sample_run_sent:
  obtains sqls where "AttachCupolaConnection_windows (sample_windows sample_options) (recording sample_query) ''main'' ((), []) = (Inr (), (), sqls)"
    "sample_run (\<lambda>_ _. Some ''session'') = (Inr (), (), sqls)"
  using sample_runs(1) unfolding sample_run_def sample_session by (metis prod.collapse old.unit.exhaust)

theorem cupola_fields_stay_quoted_witness:
  "\<exists>sqls c load attach use identity credential option_json.
    AttachCupolaConnection_windows (sample_windows sample_options) (recording sample_query) ''main'' ((), []) = (Inr (), (), sqls)
    \<and> find_connection (sample_windows sample_options) ''main'' = Inr c
    \<and> sqls = load @ [attach, use, identity]
    \<and> cred_tokens c credential \<and> sql_tokens attach = Some (attach_tokens (sample_windows sample_options) c credential)
    \<and> sql_tokens use = Some (map Plain ''USE '' @ [Identifier (cu_catalog c)])
    \<and> sql_tokens identity = Some (identity_tokens c option_json)"
proof -
  obtain sqls where r: "AttachCupolaConnection_windows (sample_windows sample_options) (recording sample_query) ''main'' ((), []) = (Inr (), (), sqls)"
    by (rule sample_run_sent)
  then show ?thesis using cupola_fields_stay_quoted [OF r sample_plain] by blast
qed

definition bad_options :: "(string \<times> nat json) list" where
  "bad_options = [(''limit'', JNum 5), (''Secret'', JStr ''x'')]"

definition bad_connection :: "nat cupola" where
  "bad_connection = \<lparr>cu_root = wide_literal (BACKSLASH # ''QueryFarm'' @ BACKSLASH # ''VgiExcel''), cu_name = ''main'',
     cu_catalog = [CHR ''a'', SINGLE_MARK, DOUBLE_MARK], cu_location = ''https://h'', cu_auth = ''oauth'', cu_oauth_key = ''https://h'',
     cu_options = Some (JObj bad_options)\<rparr>"

lemma bad_found: "find_connection (sample_windows bad_options) ''main'' = Inr bad_connection"
  by code_simp

theorem bad_option_executes_nothing_witness:
  "\<exists>msg. AttachCupolaConnection_windows (sample_windows bad_options) sample_query ''main'' () = (Inl msg, ())"
proof (rule bad_option_executes_nothing [OF bad_found])
  show "cu_options bad_connection = Some (JObj bad_options)" by (simp add: bad_connection_def)
  show "(''Secret'', JStr ''x'') \<in> set bad_options" by (simp add: bad_options_def)
  show "\<not> option_name (c_string ''Secret'') \<or> ascii_lower (c_string ''Secret'') \<in> set forbidden \<or> \<not> is_scalar (JStr ''x'')"
    by code_simp
qed

theorem credential_only_in_attach_witness:
  "\<exists>sqls1 sqls2. sample_run (\<lambda>_ _. Some ''session'') = (Inr (), (), sqls1) \<and> sample_run (\<lambda>_ _. Some ''other'') = (Inr (), (), sqls2)
    \<and> (\<exists>c load attach1 attach2 use identity. find_connection (sample_windows sample_options) ''main'' = Inr c
      \<and> sqls1 = load @ [attach1, use, identity] \<and> sqls2 = load @ [attach2, use, identity]
      \<and> (cu_auth c \<noteq> ''oauth'' \<longrightarrow> attach1 = attach2))"
proof -
  obtain sqls1 where r1: "AttachCupolaConnection_windows (sample_windows sample_options) (recording sample_query) ''main'' ((), []) = (Inr (), (), sqls1)"
      "sample_run (\<lambda>_ _. Some ''session'') = (Inr (), (), sqls1)"
    by (rule sample_run_sent)
  obtain sqls2 where r2: "sample_run (\<lambda>_ _. Some ''other'') = (Inr (), (), sqls2)"
    using sample_runs(2) by (cases "sample_run (\<lambda>_ _. Some ''other'')") auto
  show ?thesis
    by (rule exI [of _ sqls1], rule exI [of _ sqls2], rule conjI [OF r1(2)], rule conjI [OF r2],
      rule credential_only_in_attach [OF r1(1) r2 [unfolded sample_run_def]])
qed

section \<open>Connecting on Windows\<close>

text \<open>On Windows the code always reads the profile of a data source (\<^verbatim>\<open>SQLGetPrivateProfileString\<close>), which is \<open>profile\<close> here,
  changes the separators of paths, and attaches Cupola connections.\<close>

definition windows_platform ::
  "'n windows \<Rightarrow> (string \<Rightarrow> string \<Rightarrow> int \<times> string) \<Rightarrow> ('e \<Rightarrow> string \<Rightarrow> bool \<times> 'e) \<Rightarrow> ('c, 'e) platform \<Rightarrow> ('c, 'e) platform" where
  "windows_platform win profile query pf = pf\<lparr>pf_windows := True, pf_profile := Some profile,
     pf_attach := (\<lambda>e requested. AttachCupolaConnection_windows win query requested e)\<rparr>"

lemma session_attached:
  assumes "start_session pf db g u frame fuel c cupola content db_created dbc w m e = Some (Some (ret, w', m', e'))" "SQL_SUCCEEDED ret"
    and "cupola \<noteq> []"
  shows "\<exists>e1. pf_attach pf e1 cupola = (Inr (), e')"
  using assms unfolding start_session_def Let_def
  by (auto simp: bind_eq_Some_conv dbc_post_def post_on_def SetDiagnosticRecord_def Let_def
      split: option.splits if_splits prod.splits sum.splits)

text \<open>C10: an opened Cupola connection is attached. When \<^verbatim>\<open>SetConnection\<close> on Windows succeeds and the options name a Cupola connection
  after the profile of the data source was read (be it that the connection string has the name or the profile), the name is not empty, the last thing done with the engine was a successful \<^verbatim>\<open>AttachCupolaConnection\<close> of that name, and the
  registry of the user has a connection of that name whose statements were formed.\<close>

theorem opened_cupola_connection_attached:
  assumes "SetConnection (windows_platform win profile query pf) db g u frame fuel c cn w m e = Some (Some (ret, w', m', e'))" "SQL_SUCCEEDED ret"
    and "ReadFromIniFile (windows_platform win profile query pf) cn = Some (r, cn1)"
    and "seen_config_options cn1 CUPOLA = Some True" "config_map cn1 CUPOLA = Some name"
  shows "name \<noteq> [] \<and> (\<exists>e1. AttachCupolaConnection_windows win query name e1 = (Inr (), e'))
    \<and> (\<exists>row attach. find_connection win name = Inr row \<and> attach_text win row = Inr attach)"
proof -
  note profile = assms(3)
  have named: "GetOptionFromConfigMap CUPOLA [] cn1 = Some name"
    using assms(4,5) lower_names(1) by (simp add: GetOptionFromConfigMap_def)
  have ne: "name \<noteq> []"
    using assms(1,2,4) by (auto simp: SetConnection_def profile named dest!: connect_post_conn split: prod.splits)
  have "\<exists>e1. pf_attach (windows_platform win profile query pf) e1 name = (Inr (), e')"
    using assms(1,2,4) ne unfolding SetConnection_def Let_def
    by (auto simp: profile named split: option.splits sum.splits prod.splits dest!: connect_post_conn elim: session_attached)
  then obtain e1 where e1: "AttachCupolaConnection_windows win query name e1 = (Inr (), e')" by (auto simp: windows_platform_def)
  then have "\<exists>row attach. find_connection win name = Inr row \<and> attach_text win row = Inr attach"
    by (auto simp: AttachCupolaConnection_windows_def attempt_def split: sum.splits)
  then show ?thesis using ne e1 by blast
qed

definition sample_cupola_connect :: Connect where
  "sample_cupola_connect = \<lparr>cn_dbc = sample_conn_dbc, success_with_info = False, seen_config_options = [CUPOLA \<mapsto> True], config_map = [CUPOLA \<mapsto> ''main'']\<rparr>"

definition sample_answer :: "Value list list \<Rightarrow> string \<Rightarrow> bool \<times> Value list list" where
  "sample_answer e sql = (True, e)"

definition sample_profile :: "string \<Rightarrow> string \<Rightarrow> int \<times> string" where
  "sample_profile dsn key = (0, [])"

lemma sample_cupola_profile:
  "ReadFromIniFile (windows_platform (sample_windows sample_options) sample_profile sample_answer sample_platform) sample_cupola_connect
    = Some (SQL_SUCCESS, sample_cupola_connect)"
  by (simp add: ReadFromIniFile_def windows_platform_def sample_cupola_connect_def sample_conn_dbc_def make_OdbcHandleDbc_def)

lemma sample_attached: "AttachCupolaConnection_windows (sample_windows sample_options) sample_answer ''main'' [] = (Inr (), [])"
  by code_simp

lemma sample_cupola_opened:
  "\<exists>w. SetConnection (windows_platform (sample_windows sample_options) sample_profile sample_answer sample_platform) sample_database sample_garbage sample_record
    4096 1 1 sample_cupola_connect closed_driver m [] = Some (Some (SQL_SUCCESS, w, m, []))"
  unfolding SetConnection_def sample_cupola_profile
  by (simp add: windows_platform_def sample_platform_def GetOptionFromConfigMap_def sample_cupola_connect_def
      lower_names erase_config_def base_config_def NormalizeWindowsPathSeparators_def open_database_def ReadSQLFile_def start_session_def
      SQLFile_IsEmpty_def no_SQLFile_def sample_attached
      script_names script_names [symmetric])

theorem opened_cupola_connection_attached_witness:
  "\<exists>w' m' e'. SetConnection (windows_platform (sample_windows sample_options) sample_profile sample_answer sample_platform) sample_database sample_garbage
      sample_record 4096 1 1 sample_cupola_connect closed_driver (\<lambda>_. CHR 0x00) [] = Some (Some (SQL_SUCCESS, w', m', e'))
    \<and> ''main'' \<noteq> [] \<and> (\<exists>e1. AttachCupolaConnection_windows (sample_windows sample_options) sample_answer ''main'' e1 = (Inr (), e'))
    \<and> (\<exists>row attach. find_connection (sample_windows sample_options) ''main'' = Inr row \<and> attach_text (sample_windows sample_options) row = Inr attach)"
proof -
  obtain w' where run: "SetConnection (windows_platform (sample_windows sample_options) sample_profile sample_answer sample_platform) sample_database sample_garbage
      sample_record 4096 1 1 sample_cupola_connect closed_driver (\<lambda>_. CHR 0x00) [] = Some (Some (SQL_SUCCESS, w', \<lambda>_. CHR 0x00, []))"
    using sample_cupola_opened by blast
  show ?thesis
    by (rule exI, rule exI, rule exI, rule conjI [OF run],
        rule opened_cupola_connection_attached [OF run, where r = SQL_SUCCESS and ?cn1.0 = sample_cupola_connect])
      (simp_all add: sample_cupola_profile, simp_all add: sample_cupola_connect_def)
qed

end
