(* ===== verification/Transaction_Api.thy ===== *)
theory Transaction_Api
  imports Statement_Exec Attribute_Api
begin

text \<open>
  \<^verbatim>\<open>SQLEndTran\<close> of \<^verbatim>\<open>odbc_api/transaction_api.cpp\<close> with \<^verbatim>\<open>OdbcHandleDbc::MaterializeResult\<close>.

  The transaction of the connection belongs to the engine: \<^verbatim>\<open>IsAutoCommit\<close>, \<^verbatim>\<open>Commit\<close> and \<^verbatim>\<open>Rollback\<close> of
  \<^verbatim>\<open>duckdb::Connection\<close> are the fields of the record \<open>transactions\<close>, the last two with the message of the exception
  they may throw. As in \<open>Odbc_Fetch\<close> the outer option of a result is \<open>None\<close> when the fuel for the loop of
  \<^verbatim>\<open>Materialize\<close> does not suffice, and the inner one when a call leaves by an exception or its behaviour is undefined.

  The theorem shows that a commit keeps an open result: everything the engine has still to deliver is fetched before the
  transaction ends, and the position of the cursor is kept.
\<close>

section \<open>Definitions\<close>

record 'e transactions =
  tx_is_autocommit :: "'e \<Rightarrow> bool"
  tx_commit :: "'e \<Rightarrow> string + 'e"
  tx_rollback :: "'e \<Rightarrow> string + 'e"

abbreviation (input) SQL_COMMIT :: SQLSMALLINT where "SQL_COMMIT \<equiv> 0"
abbreviation (input) SQL_ROLLBACK :: SQLSMALLINT where "SQL_ROLLBACK \<equiv> 1"

text \<open>Only the result of the statement that was allocated last is fetched.\<close>

definition dbc_MaterializeResult :: "nat \<Rightarrow> OdbcHandleDbc \<Rightarrow> driver \<Rightarrow> (SQLRETURN \<times> driver) option option" where
  "dbc_MaterializeResult fuel dbc w =
     (if vec_stmt_ref dbc = [] then Some (Some (SQL_SUCCESS, w))
      else
        let s = last (vec_stmt_ref dbc) in
        (case stmts w s of
           None \<Rightarrow> Some None
         | Some st \<Rightarrow> map_option (map_option (\<lambda>(ret, st'). (ret, put_stmt s st' w))) (stmt_MaterializeResult (stmt_dsn w st) fuel st)))"

text \<open>\<^verbatim>\<open>SetDiagnosticRecord\<close> through a pointer to a handle of unknown kind.\<close>

definition post_on_handle ::
  "handle_ptr \<Rightarrow> driver \<Rightarrow> SQLRETURN \<Rightarrow> string \<Rightarrow> string \<Rightarrow> SQLStateType \<Rightarrow> (SQLRETURN \<times> driver) option" where
  "post_on_handle h w ret caller msg state = (case h of
      EnvPtr e \<Rightarrow> map_option (\<lambda>env. env_post e env w ret caller msg state []) (envs w e)
    | DbcPtr c \<Rightarrow> map_option (\<lambda>dbc. dbc_post c dbc w ret caller msg state []) (dbcs w c)
    | StmtPtr s \<Rightarrow> map_option (\<lambda>st. stmt_post s st w ret caller msg state []) (stmts w s)
    | DescPtr p \<Rightarrow> map_option (\<lambda>d. let (ret, d') = desc_post d ret caller msg state [] in (ret, put_desc p d' w)) (descs w p))"

definition SQLEndTran ::
  "'e transactions \<Rightarrow> nat \<Rightarrow> SQLSMALLINT \<Rightarrow> SQLHANDLE \<Rightarrow> SQLSMALLINT \<Rightarrow> driver \<Rightarrow> 'e \<Rightarrow> (SQLRETURN \<times> driver \<times> 'e) option option" where
  "SQLEndTran tx fuel handle_type hdl completion_type w e =
     (if handle_type \<noteq> SQL_HANDLE_DBC then
        Some (do {
          h \<leftarrow> hdl;
          (ret, w) \<leftarrow> post_on_handle h w SQL_ERROR ''SQLEndTran'' ''Invalid handle type, must be SQL_HANDLE_DBC.'' ST_HY092;
          Some (ret, w, e) })
      else case ConvertConnection w hdl of
        None \<Rightarrow> Some None
      | Some (Inl ret, w) \<Rightarrow> Some (Some (ret, w, e))
      | Some (Inr c, w) \<Rightarrow>
          (case dbcs w c of
             None \<Rightarrow> Some None
           | Some dbc \<Rightarrow>
               if completion_type = SQL_COMMIT then
                 (case dbc_MaterializeResult fuel dbc w of
                    None \<Rightarrow> None
                  | Some None \<Rightarrow> Some None
                  | Some (Some (ret, w)) \<Rightarrow> Some
                      (if ret \<noteq> SQL_SUCCESS then Some (SQL_ERROR, w, e)
                       else if tx_is_autocommit tx e then Some (SQL_SUCCESS, w, e)
                       else case tx_commit tx e of Inl _ \<Rightarrow> None | Inr e \<Rightarrow> Some (SQL_SUCCESS, w, e)))
               else if completion_type = SQL_ROLLBACK then
                 Some (Some (case tx_rollback tx e of
                    Inr e \<Rightarrow> (SQL_SUCCESS, w, e)
                  | Inl msg \<Rightarrow> (let (ret, w) = dbc_post c dbc w SQL_ERROR ''SQLEndTran'' msg ST_HY115 (dbc_dsn dbc) in (ret, w, e))))
               else
                 (let (ret, w) = dbc_post c dbc w SQL_ERROR ''SQLEndTran'' ''Invalid completion type.'' ST_HY012 (dbc_dsn dbc)
                  in Some (Some (ret, w, e)))))"

section \<open>A commit keeps the open result\<close>

lemma ConvertConnection_open:
  assumes "dbcs w c = Some dbc" "dbc_conn dbc"
  shows "ConvertConnection w (Some (DbcPtr c)) = Some (Inr c, put_dbc c (dbc\<lparr>dbc_diag := Clean (dbc_diag dbc)\<rparr>) w)"
  using assms by (simp add: ConvertConnection_def)

lemma stmts_put [simp]: "stmts (put_dbc c dbc w) = stmts w" "dbcs (put_stmt s st w) = dbcs w"
  by (simp_all add: put_dbc_def put_stmt_def)

text \<open>C14: a commit keeps the open result of the statement that was allocated last. When this statement has an open result on
  a scrollable cursor, is on a row of it and has not read it to its end, the remaining chunks are not empty, the connection is not in
  autocommit mode and the engine commits, \<^verbatim>\<open>SQLEndTran\<close> with \<^verbatim>\<open>SQL_COMMIT\<close> returns \<^verbatim>\<open>SQL_SUCCESS\<close>, after a bounded number of steps, and has
  committed once in the engine; the statement then holds all chunks of the result, the ones it held before followed by the ones the
  engine had still to deliver, in order, needs no further chunk of the engine, and is on the row it was on; every other statement is
  unchanged, so that the code fetches no other open result.\<close>

theorem commit_keeps_result:
  assumes "dbcs w c = Some dbc" "dbc_conn dbc" "vec_stmt_ref dbc = ss @ [s]" "stmts w s = Some st"
    and "stmt_stmt st = Some ps" "ps_error ps = None" "stmt_res st = Some res" "qr_error res = None"
    and "cursor_type (odbc_fetcher st) \<noteq> SQL_CURSOR_FORWARD_ONLY" "\<not> resultset_end (odbc_fetcher st)"
    and "qr_pending res = map FetchChunk cs" "\<forall>ch \<in> set cs. ch \<noteq> []" "deref_chunk (odbc_fetcher st) = Some ch"
    and "\<not> tx_is_autocommit tx e" "tx_commit tx e = Inr e'"
  shows "\<exists>w' st'. SQLEndTran tx (Suc (length cs)) SQL_HANDLE_DBC (Some (DbcPtr c)) SQL_COMMIT w e = Some (Some (SQL_SUCCESS, w', e'))
    \<and> stmts w' = (stmts w)(s \<mapsto> st')
    \<and> map snd (chunks (odbc_fetcher st')) = map snd (chunks (odbc_fetcher st)) @ cs \<and> resultset_end (odbc_fetcher st')
    \<and> deref_chunk (odbc_fetcher st') = Some ch \<and> chunk_row (odbc_fetcher st') = chunk_row (odbc_fetcher st)"
proof -
  let ?dbc = "dbc\<lparr>dbc_diag := Clean (dbc_diag dbc)\<rparr>"
  let ?w = "put_dbc c ?dbc w"
  obtain st' where st': "Materialize (stmt_dsn ?w st) (Suc (length cs)) st = Some (Some (SQL_SUCCESS, st'))"
    "map snd (chunks (odbc_fetcher st')) = map snd (chunks (odbc_fetcher st)) @ cs" "resultset_end (odbc_fetcher st')"
    "deref_chunk (odbc_fetcher st') = Some ch" "chunk_row (odbc_fetcher st') = chunk_row (odbc_fetcher st)"
    using Materialize_scrollable [OF assms(9,10,7,8,11-13)] by blast
  have "dbc_MaterializeResult (Suc (length cs)) ?dbc ?w = Some (Some (SQL_SUCCESS, put_stmt s st' ?w))"
    using assms(3-8) st'(1) by (simp add: dbc_MaterializeResult_def stmt_MaterializeResult_def)
  then show ?thesis
    using st'(2-) assms(14,15) ConvertConnection_open [OF assms(1,2)]
    by (intro exI [of _ "put_stmt s st' ?w"] exI [of _ st']) (simp add: SQLEndTran_def)
qed

text \<open>A failed commit of the engine leaves the function by an exception, since only the rollback is guarded, while a failed
  rollback is reported with a diagnostic of the state \<^verbatim>\<open>HY115\<close>; a connection without statements is enough.\<close>

theorem failed_commit_throws:
  assumes "dbcs w c = Some dbc" "dbc_conn dbc" "vec_stmt_ref dbc = []"
    and "\<not> tx_is_autocommit tx e" "tx_commit tx e = Inl msg" "tx_rollback tx e = Inl msg'"
  shows "SQLEndTran tx fuel SQL_HANDLE_DBC (Some (DbcPtr c)) SQL_COMMIT w e = Some None
    \<and> (\<exists>w'. SQLEndTran tx fuel SQL_HANDLE_DBC (Some (DbcPtr c)) SQL_ROLLBACK w e = Some (Some (SQL_ERROR, w', e)))"
  using assms ConvertConnection_open [OF assms(1,2)]
  by (simp add: SQLEndTran_def dbc_MaterializeResult_def dbc_post_def post_on_def SetDiagnosticRecord_def Let_def)

section \<open>Witnesses\<close>

text \<open>An engine whose state counts the transactions that are still open; a commit or rollback of none fails.\<close>

definition sample_transactions :: "nat transactions" where
  "sample_transactions = \<lparr>tx_is_autocommit = (\<lambda>_. False),
     tx_commit = (\<lambda>n. if n = 0 then Inl ''no transaction is active'' else Inr (n - 1)),
     tx_rollback = (\<lambda>n. if n = 0 then Inl ''no transaction is active'' else Inr (n - 1))\<rparr>"

definition scrolling_stmt :: OdbcHandleStmt where
  "scrolling_stmt = (sample_fetch SQL_CURSOR_STATIC False [sample_rows 2])\<lparr>stmt_stmt := Some sample_ps\<rparr>"

definition scrolling_driver :: "nat list \<Rightarrow> driver" where
  "scrolling_driver refs = \<lparr>envs = (\<lambda>_. None), dbcs = [1 \<mapsto> (make_OdbcHandleDbc 0 0)\<lparr>dbc_conn := True, vec_stmt_ref := refs\<rparr>],
     stmts = [2 \<mapsto> scrolling_stmt], descs = (\<lambda>_. None), next_handle = 3\<rparr>"

theorem commit_keeps_result_witness:
  "\<exists>w' st'. SQLEndTran sample_transactions (Suc (length [sample_rows 2])) SQL_HANDLE_DBC (Some (DbcPtr 1)) SQL_COMMIT (scrolling_driver [2]) 1
      = Some (Some (SQL_SUCCESS, w', 0))
    \<and> stmts w' = (stmts (scrolling_driver [2]))(2 \<mapsto> st')
    \<and> map snd (chunks (odbc_fetcher st')) = map snd (chunks (odbc_fetcher scrolling_stmt)) @ [sample_rows 2] \<and> resultset_end (odbc_fetcher st')
    \<and> deref_chunk (odbc_fetcher st') = Some (sample_rows 3) \<and> chunk_row (odbc_fetcher st') = chunk_row (odbc_fetcher scrolling_stmt)"
  by (rule commit_keeps_result [where ss = "[]" and ps = sample_ps])
    (simp_all add: scrolling_driver_def scrolling_stmt_def sample_fetch_def sample_transactions_def deref_chunk_def, simp_all add: sample_rows_def)

theorem failed_commit_throws_witness:
  "SQLEndTran sample_transactions 0 SQL_HANDLE_DBC (Some (DbcPtr 1)) SQL_COMMIT (scrolling_driver []) 0 = Some None"
  using failed_commit_throws [of "scrolling_driver []" 1 _ sample_transactions 0 _ _ 0]
  by (simp add: scrolling_driver_def sample_transactions_def)

end
