(* ===== verification/Column_Info.thy ===== *)
theory Column_Info
  imports Statement_Exec
begin

text \<open>
  \<^verbatim>\<open>odbc_api/column_info_api.cpp\<close>: \<^verbatim>\<open>SQLDescribeCol\<close>, \<^verbatim>\<open>SQLColAttribute\<close>, \<^verbatim>\<open>SQLColAttributes\<close> and \<^verbatim>\<open>SQLNumResultCols\<close> with
  their wide versions. \<^verbatim>\<open>SQLDescribeCol\<close> asks the prepared statement, \<^verbatim>\<open>SQLColAttribute\<close> the records of the implementation row
  descriptor that \<^verbatim>\<open>FillIRD\<close> has filled; the theorems show where the two agree.

  The kind of a statement and of its result is known to the engine: \<open>statement_type\<close> stands for \<^verbatim>\<open>stmt->data->statement_type\<close>,
  and \<open>return_type\<close> for \<^verbatim>\<open>res->properties.return_type\<close>. The template parameter of the narrow and the wide version is the
  argument \<open>wide\<close>.
\<close>

section \<open>Definitions\<close>

datatype StatementType = INVALID_STATEMENT | SELECT_STATEMENT | INSERT_STATEMENT | UPDATE_STATEMENT | CREATE_STATEMENT
  | DELETE_STATEMENT | PREPARE_STATEMENT | EXECUTE_STATEMENT | ALTER_STATEMENT | TRANSACTION_STATEMENT | COPY_STATEMENT
  | ANALYZE_STATEMENT | VARIABLE_SET_STATEMENT | CREATE_FUNC_STATEMENT | EXPLAIN_STATEMENT | DROP_STATEMENT | EXPORT_STATEMENT
  | PRAGMA_STATEMENT | VACUUM_STATEMENT | CALL_STATEMENT | SET_STATEMENT | LOAD_STATEMENT | RELATION_STATEMENT
  | EXTENSION_STATEMENT | LOGICAL_PLAN_STATEMENT | ATTACH_STATEMENT | DETACH_STATEMENT | MULTI_STATEMENT
  | COPY_DATABASE_STATEMENT | UPDATE_EXTENSIONS_STATEMENT | MERGE_INTO_STATEMENT

datatype StatementReturnType = QUERY_RESULT | CHANGED_ROWS | NOTHING

type_synonym call_result = "(SQLRETURN \<times> driver \<times> memory) option"

abbreviation (input) SQL_COLUMN_COUNT :: int where "SQL_COLUMN_COUNT \<equiv> 0"
abbreviation (input) SQL_COLUMN_NAME :: int where "SQL_COLUMN_NAME \<equiv> 1"
abbreviation (input) SQL_COLUMN_LENGTH :: int where "SQL_COLUMN_LENGTH \<equiv> 3"
abbreviation (input) SQL_COLUMN_PRECISION :: int where "SQL_COLUMN_PRECISION \<equiv> 4"
abbreviation (input) SQL_COLUMN_SCALE :: int where "SQL_COLUMN_SCALE \<equiv> 5"
abbreviation (input) SQL_COLUMN_NULLABLE :: int where "SQL_COLUMN_NULLABLE \<equiv> 7"
abbreviation (input) SQL_NULLABLE_UNKNOWN :: int where "SQL_NULLABLE_UNKNOWN \<equiv> 2"
abbreviation (input) SQL_NO_TOTAL :: int where "SQL_NO_TOTAL \<equiv> - 4"
abbreviation COL_ATTRIBUTE :: string where "COL_ATTRIBUTE \<equiv> ''SQLColAttribute(s)''"

text \<open>\<^verbatim>\<open>SetDiagnosticRecord\<close> on the statement as it is in the store.\<close>

definition repost ::
  "nat \<Rightarrow> SQLRETURN \<Rightarrow> string \<Rightarrow> string \<Rightarrow> SQLStateType \<Rightarrow> string \<Rightarrow> driver \<Rightarrow> memory \<Rightarrow> call_result" where
  "repost s ret caller msg state server w m =
     map_option (\<lambda>st. let (ret, w) = stmt_post s st w ret caller msg state server in (ret, w, m)) (stmts w s)"

text \<open>The wide version names no data source when it reports a truncation.\<close>

definition WriteStringCol ::
  "bool \<Rightarrow> string \<Rightarrow> nat \<Rightarrow> string \<Rightarrow> string \<Rightarrow> addr \<Rightarrow> SQLSMALLINT \<Rightarrow> addr \<Rightarrow> driver \<Rightarrow> memory \<Rightarrow> call_result" where
  "WriteStringCol wide caller_name s dsn str character_attribute_ptr buffer_length string_length w m =
     (case WriteStringWith (char_writer wide) 2 str m character_attribute_ptr buffer_length string_length of
        None \<Rightarrow> None
      | Some (WBadLength, m) \<Rightarrow> repost s SQL_ERROR caller_name ''Invalid string or buffer length'' ST_HY090 dsn w m
      | Some (WTruncated, m) \<Rightarrow>
          repost s SQL_SUCCESS_WITH_INFO caller_name ''String data, right truncated'' ST_01004 (if wide then [] else dsn) w m
      | Some (WStored, m) \<Rightarrow> Some (SQL_SUCCESS, w, m))"

text \<open>The statement behind a handle, which must be prepared.\<close>

definition on_prepared_stmt ::
  "driver \<Rightarrow> memory \<Rightarrow> SQLHANDLE \<Rightarrow> (nat \<Rightarrow> OdbcHandleStmt \<Rightarrow> PreparedStatement \<Rightarrow> driver \<Rightarrow> call_result) \<Rightarrow> call_result" where
  "on_prepared_stmt w m statement_handle body = (case ConvertHSTMTPrepared w statement_handle of
      None \<Rightarrow> None
    | Some (Inl ret, w) \<Rightarrow> Some (ret, w, m)
    | Some (Inr s, w) \<Rightarrow> do { st \<leftarrow> stmts w s; ps \<leftarrow> stmt_stmt st; body s st ps w })"

text \<open>The decimal digits of a column type.\<close>

definition column_digits :: "LogicalType \<Rightarrow> int" where
  "column_digits col_type =
     (if lt_id col_type = DECIMAL then int (lt_scale col_type)
      else
        let sql_type = FindRelatedSQLType (lt_id col_type) in
        if sql_type = SQL_TYPE_TIME \<or> sql_type = SQL_TYPE_TIMESTAMP then GetTemporalPrecision (lt_id col_type) else 0)"

definition DescribeColInternal ::
  "bool \<Rightarrow> SQLHANDLE \<Rightarrow> SQLUSMALLINT \<Rightarrow> addr \<Rightarrow> SQLSMALLINT \<Rightarrow> addr \<Rightarrow> addr \<Rightarrow> addr \<Rightarrow> addr \<Rightarrow> addr \<Rightarrow> driver \<Rightarrow> memory \<Rightarrow> call_result" where
  "DescribeColInternal wide statement_handle column_number column_name buffer_length name_length_ptr data_type_ptr
     column_size_ptr decimal_digits_ptr nullable_ptr w m =
     on_prepared_stmt w m statement_handle (\<lambda>s st ps w.
       if column_number > int (length (ps_types ps)) then Some (SQL_ERROR, w, m)
       else do {
         let col_idx = nat (to_uint64 (column_number - 1));
         name \<leftarrow> at (ps_names ps) col_idx;
         (ret, w, m) \<leftarrow> WriteStringCol wide ''SQLDescribeCol'' s (stmt_dsn w st) name column_name buffer_length name_length_ptr w m;
         col_type \<leftarrow> at (ps_types ps) col_idx;
         let m = store_int 2 m data_type_ptr (FindRelatedSQLType (lt_id col_type));
         let m = store_int 8 m column_size_ptr (GetColumnSize col_type);
         let m = store_int 2 m decimal_digits_ptr (column_digits col_type);
         Some (ret, w, store_int 2 m nullable_ptr SQL_NULLABLE_UNKNOWN) })"

definition SQLDescribeCol ::
  "SQLHANDLE \<Rightarrow> SQLUSMALLINT \<Rightarrow> addr \<Rightarrow> SQLSMALLINT \<Rightarrow> addr \<Rightarrow> addr \<Rightarrow> addr \<Rightarrow> addr \<Rightarrow> addr \<Rightarrow> driver \<Rightarrow> memory \<Rightarrow> call_result" where
  "SQLDescribeCol = DescribeColInternal False"

definition SQLDescribeColW ::
  "SQLHANDLE \<Rightarrow> SQLUSMALLINT \<Rightarrow> addr \<Rightarrow> SQLSMALLINT \<Rightarrow> addr \<Rightarrow> addr \<Rightarrow> addr \<Rightarrow> addr \<Rightarrow> addr \<Rightarrow> driver \<Rightarrow> memory \<Rightarrow> call_result" where
  "SQLDescribeColW statement_handle column_number column_name buffer_length =
     DescribeColInternal True statement_handle column_number column_name (to_int16 (2 * buffer_length))"

definition SetNumericAttributePtr :: "nat \<Rightarrow> string \<Rightarrow> int \<Rightarrow> addr \<Rightarrow> driver \<Rightarrow> memory \<Rightarrow> call_result" where
  "SetNumericAttributePtr s dsn val numeric_attribute_ptr w m =
     (if numeric_attribute_ptr \<noteq> nullptr then Some (SQL_SUCCESS, w, store_int 8 m numeric_attribute_ptr val)
      else repost s SQL_ERROR COL_ATTRIBUTE ''Memory management error; numeric attribute pointer is null'' ST_HY013 dsn w m)"

text \<open>The switch over the field, for a descriptor with \<open>count\<close> records.\<close>

definition attribute_switch ::
  "bool \<Rightarrow> nat \<Rightarrow> string \<Rightarrow> DescRecord \<Rightarrow> nat \<Rightarrow> SQLUSMALLINT \<Rightarrow> addr \<Rightarrow> SQLSMALLINT \<Rightarrow> addr \<Rightarrow> addr \<Rightarrow> driver \<Rightarrow> memory \<Rightarrow> call_result" where
  "attribute_switch wide s dsn r count fld character_attribute_ptr buffer_length string_length_ptr numeric_attribute_ptr w m =
     (let str = (\<lambda>v. WriteStringCol wide COL_ATTRIBUTE s dsn v character_attribute_ptr buffer_length string_length_ptr w m);
          num = (\<lambda>v. SetNumericAttributePtr s dsn v numeric_attribute_ptr w m);
          post = (\<lambda>ret msg state w m. repost s ret COL_ATTRIBUTE msg state dsn w m) in
      if fld = SQL_DESC_AUTO_UNIQUE_VALUE then do {
        (ret, w, m) \<leftarrow> num (sql_desc_auto_unique_value r);
        if ret = SQL_ERROR then Some (ret, w, m)
        else post SQL_SUCCESS_WITH_INFO ''DuckDB does not support autoincrementing columns'' ST_HYC00 w m }
      else if fld = SQL_DESC_BASE_COLUMN_NAME then str (sql_desc_base_column_name r)
      else if fld = SQL_DESC_TABLE_NAME \<or> fld = SQL_DESC_BASE_TABLE_NAME then post SQL_ERROR ''Driver not capable'' ST_HYC00 w m
      else if fld = SQL_DESC_CASE_SENSITIVE then num (sql_desc_case_sensitive r)
      else if fld = SQL_DESC_CATALOG_NAME then str (sql_desc_catalog_name r)
      else if fld = SQL_DESC_CONCISE_TYPE then num (sql_desc_concise_type r)
      else if fld = SQL_COLUMN_COUNT \<or> fld = SQL_DESC_COUNT then num (int count)
      else if fld = SQL_DESC_DISPLAY_SIZE then do {
        (ret, w, m) \<leftarrow> num (sql_desc_display_size r);
        if sql_desc_display_size r = 0
        then post SQL_SUCCESS_WITH_INFO ''Cannot determine the column or parameter length of variable types'' ST_01000 w m
        else Some (ret, w, m) }
      else if fld = SQL_DESC_FIXED_PREC_SCALE then num (sql_desc_fixed_prec_scale r)
      else if fld = SQL_DESC_LABEL then str (sql_desc_label r)
      else if fld = SQL_COLUMN_LENGTH \<or> fld = SQL_DESC_LENGTH then num (sql_desc_length r)
      else if fld = SQL_DESC_LITERAL_PREFIX then str (sql_desc_literal_prefix r)
      else if fld = SQL_DESC_LITERAL_SUFFIX then str (sql_desc_literal_suffix r)
      else if fld = SQL_DESC_LOCAL_TYPE_NAME then str (sql_desc_local_type_name r)
      else if fld = SQL_COLUMN_NAME \<or> fld = SQL_DESC_NAME then str (sql_desc_name r)
      else if fld = SQL_COLUMN_NULLABLE \<or> fld = SQL_DESC_NULLABLE then num (sql_desc_nullable r)
      else if fld = SQL_DESC_NUM_PREC_RADIX then num (sql_desc_num_prec_radix r)
      else if fld = SQL_DESC_OCTET_LENGTH then num (sql_desc_octet_length r)
      else if fld = SQL_COLUMN_PRECISION \<or> fld = SQL_DESC_PRECISION then num (sql_desc_precision r)
      else if fld = SQL_COLUMN_SCALE \<or> fld = SQL_DESC_SCALE then
        (if sql_desc_scale r = - 1 then do {
           (ret, w, m) \<leftarrow> num SQL_NO_TOTAL;
           if SQL_SUCCEEDED ret
           then post SQL_SUCCESS_WITH_INFO ''SQL_NO_TOTAL: Scale is undefined for this column data type'' ST_01000 w m
           else Some (ret, w, m) }
         else num (sql_desc_scale r))
      else if fld = SQL_DESC_SCHEMA_NAME then str (sql_desc_schema_name r)
      else if fld = SQL_DESC_SEARCHABLE then num (sql_desc_searchable r)
      else if fld = SQL_DESC_TYPE then num (sql_desc_type r)
      else if fld = SQL_DESC_TYPE_NAME then str (sql_desc_type_name r)
      else if fld = SQL_DESC_UNNAMED then num (sql_desc_unnamed r)
      else if fld = SQL_DESC_UNSIGNED then num (sql_desc_unsigned r)
      else if fld = SQL_DESC_UPDATABLE then num (sql_desc_updatable r)
      else post SQL_ERROR ''Invalid descriptor field identifier'' ST_HY091 w m)"

definition ColAttributeInternal ::
  "(QueryResult \<Rightarrow> StatementReturnType) \<Rightarrow> bool \<Rightarrow> SQLHANDLE \<Rightarrow> SQLUSMALLINT \<Rightarrow> SQLUSMALLINT \<Rightarrow> addr \<Rightarrow> SQLSMALLINT \<Rightarrow> addr \<Rightarrow> addr
    \<Rightarrow> driver \<Rightarrow> memory \<Rightarrow> call_result" where
  "ColAttributeInternal return_type wide statement_handle column_number field_identifier character_attribute_ptr buffer_length
     string_length_ptr numeric_attribute_ptr w m =
     on_prepared_stmt w m statement_handle (\<lambda>s st ps w.
       let dsn = stmt_dsn w st in
       if field_identifier \<noteq> SQL_DESC_COUNT
         \<and> (case stmt_res st of None \<Rightarrow> False | Some res \<Rightarrow> return_type res \<noteq> QUERY_RESULT \<and> return_type res \<noteq> CHANGED_ROWS)
       then repost s SQL_ERROR COL_ATTRIBUTE ''Prepared statement not a cursor-specification'' ST_07005 dsn w m
       else if column_number < 1 \<or> column_number > int (length (ps_types ps))
       then repost s SQL_ERROR COL_ATTRIBUTE ''Invalid descriptor index'' ST_07009 dsn w m
       else do {
         ird \<leftarrow> descs w (IrdOf s);
         let (r, ird) = GetDescRecord ird (nat (column_number - 1));
         attribute_switch wide s dsn r (length (desc_records ird)) field_identifier character_attribute_ptr buffer_length
           string_length_ptr numeric_attribute_ptr (put_desc (IrdOf s) ird w) m })"

definition SQLColAttribute ::
  "(QueryResult \<Rightarrow> StatementReturnType) \<Rightarrow> SQLHANDLE \<Rightarrow> SQLUSMALLINT \<Rightarrow> SQLUSMALLINT \<Rightarrow> addr \<Rightarrow> SQLSMALLINT \<Rightarrow> addr \<Rightarrow> addr
    \<Rightarrow> driver \<Rightarrow> memory \<Rightarrow> call_result" where
  "SQLColAttribute return_type = ColAttributeInternal return_type False"

definition SQLColAttributeW ::
  "(QueryResult \<Rightarrow> StatementReturnType) \<Rightarrow> SQLHANDLE \<Rightarrow> SQLUSMALLINT \<Rightarrow> SQLUSMALLINT \<Rightarrow> addr \<Rightarrow> SQLSMALLINT \<Rightarrow> addr \<Rightarrow> addr
    \<Rightarrow> driver \<Rightarrow> memory \<Rightarrow> call_result" where
  "SQLColAttributeW return_type statement_handle column_number field_identifier character_attribute_ptr buffer_length
     string_length_ptr numeric_attribute_ptr w m =
     map_option (\<lambda>(ret, w, m). (ret, w,
         if SQL_SUCCEEDED ret \<and> string_length_ptr \<noteq> nullptr
         then store_int 2 m string_length_ptr (2 * le_sint (read_bytes m string_length_ptr 2)) else m))
       (ColAttributeInternal return_type True statement_handle column_number field_identifier character_attribute_ptr buffer_length
          string_length_ptr numeric_attribute_ptr w m)"

definition SQLNumResultCols ::
  "(PreparedStatement \<Rightarrow> StatementType) \<Rightarrow> SQLHANDLE \<Rightarrow> addr \<Rightarrow> driver \<Rightarrow> memory \<Rightarrow> call_result" where
  "SQLNumResultCols statement_type statement_handle column_count_ptr w m =
     on_prepared_stmt w m statement_handle (\<lambda>s st ps w.
       if column_count_ptr = nullptr then Some (SQL_ERROR, w, m)
       else Some (SQL_SUCCESS, w, store_int 2 m column_count_ptr
         (if statement_type ps \<in> {CALL_STATEMENT, EXECUTE_STATEMENT, EXPLAIN_STATEMENT, EXTENSION_STATEMENT, SELECT_STATEMENT}
          then int (length (ps_types ps)) else 0)))"

section \<open>Types of columns\<close>

text \<open>The row of the type table that is used for an SQL type names that type, and its least scale is 0 or undefined.\<close>

definition table_row_ok :: "SQLSMALLINT \<Rightarrow> bool" where
  "table_row_ok v = (case FindDataType v of [] \<Rightarrow> False
     | t # _ \<Rightarrow> to_int16 (ti_sql_data_type t) = v \<and> \<not> IsIntervalType v \<and> to_int16 (ti_minimum_scale t) \<in> {- 1, 0})"

definition scaled_types :: "SQLSMALLINT list" where
  "scaled_types = [SQL_TINYINT, SQL_SMALLINT, SQL_INTEGER, SQL_BIGINT, SQL_DECIMAL, SQL_NUMERIC, SQL_TYPE_TIME, SQL_TYPE_TIMESTAMP]"

lemma table_rows:
  "list_all table_row_ok (scaled_types @ [SQL_CHAR, SQL_FLOAT, SQL_DOUBLE, SQL_TYPE_DATE, SQL_VARCHAR, SQL_VARBINARY, SQL_BIT])"
  "list_all (\<lambda>v. v \<in> {SQL_TYPE_TIME, SQL_TYPE_TIMESTAMP} \<or> to_int16 (ti_minimum_scale (hd (FindDataType v))) = 0) scaled_types"
  by code_simp+

lemma related_types:
  "FindRelatedSQLType i \<notin> {SQL_INTERVAL, SQL_UNKNOWN_TYPE} \<Longrightarrow>
    FindRelatedSQLType i \<in> set (scaled_types @ [SQL_CHAR, SQL_FLOAT, SQL_DOUBLE, SQL_TYPE_DATE, SQL_VARCHAR, SQL_VARBINARY, SQL_BIT])"
  by (cases i) (auto simp: scaled_types_def)

lemma related_decimal: "FindRelatedSQLType i \<in> {SQL_DECIMAL, SQL_NUMERIC} \<longleftrightarrow> i \<in> {DECIMAL, HUGEINT, UHUGEINT}"
  by (cases i) auto


lemma table_row:
  assumes "FindRelatedSQLType i \<notin> {SQL_INTERVAL, SQL_UNKNOWN_TYPE}"
  obtains t ts where "FindDataType (FindRelatedSQLType i) = t # ts" "to_int16 (ti_sql_data_type t) = FindRelatedSQLType i"
    "\<not> IsIntervalType (FindRelatedSQLType i)" "to_int16 (ti_minimum_scale t) \<in> {- 1, 0}"
    "FindRelatedSQLType i \<in> set scaled_types \<Longrightarrow> FindRelatedSQLType i \<notin> {SQL_TYPE_TIME, SQL_TYPE_TIMESTAMP} \<Longrightarrow> to_int16 (ti_minimum_scale t) = 0"
proof -
  have "table_row_ok (FindRelatedSQLType i)"
    using table_rows(1) related_types [OF assms] by (metis list.pred_set)
  moreover have "FindRelatedSQLType i \<in> set scaled_types \<Longrightarrow> FindRelatedSQLType i \<notin> {SQL_TYPE_TIME, SQL_TYPE_TIMESTAMP}
      \<Longrightarrow> to_int16 (ti_minimum_scale (hd (FindDataType (FindRelatedSQLType i)))) = 0"
    using table_rows(2) unfolding list.pred_set by blast
  ultimately show ?thesis using that by (auto simp: table_row_ok_def split: list.splits)
qed

lemma SetSqlDescType_found:
  assumes "FindDataType v = t # ts"
  shows "to_int16 (ti_sql_data_type t) = v \<Longrightarrow> \<not> IsIntervalType v \<Longrightarrow> sql_desc_concise_type (snd (SetSqlDescType r v)) = v"
    and "sql_desc_scale (snd (SetSqlDescType r v)) = to_int16 (ti_minimum_scale t)"
  using assms by (simp_all add: SetSqlDescType_def SetSqlDataType_def Let_def)

lemma ird_record_type:
  assumes "FindRelatedSQLType (lt_id t) \<notin> {SQL_INTERVAL, SQL_UNKNOWN_TYPE}"
  shows "sql_desc_concise_type (ird_record tn vn cn u t name) = FindRelatedSQLType (lt_id t)"
proof -
  define v where "v = FindRelatedSQLType (lt_id t)"
  have "v \<noteq> SQL_INTERVAL" "sql_desc_concise_type (snd (SetSqlDescType r v)) = v" for r
    using table_row [OF assms] SetSqlDescType_found(1) assms unfolding v_def by (blast, metis)
  then show ?thesis unfolding ird_record_def v_def [symmetric] by (auto simp: SetDescUnsignedField_def Let_def)
qed

lemma ird_record_scale:
  assumes "FindRelatedSQLType (lt_id t) \<in> set scaled_types"
  shows "sql_desc_scale (ird_record tn vn cn u t name) = column_digits t"
proof -
  define v where "v = FindRelatedSQLType (lt_id t)"
  have known: "FindRelatedSQLType (lt_id t) \<notin> {SQL_INTERVAL, SQL_UNKNOWN_TYPE}" using assms by (auto simp: scaled_types_def)
  have "v \<noteq> SQL_INTERVAL" "v \<notin> {SQL_TYPE_TIME, SQL_TYPE_TIMESTAMP} \<Longrightarrow> sql_desc_scale (snd (SetSqlDescType r v)) = 0" for r
    using table_row [OF known] SetSqlDescType_found(2) known assms unfolding v_def by (blast, metis)
  moreover have "lt_id t = DECIMAL \<Longrightarrow> v = SQL_DECIMAL" by (simp add: v_def)
  ultimately show ?thesis
    unfolding ird_record_def column_digits_def v_def [symmetric] by (auto simp: SetDescUnsignedField_def Let_def)
qed

section \<open>The records of the implementation row descriptor\<close>

lemma default_rows:
  "\<exists>t ts. FindDataType SQL_INTERVAL_DAY_TO_SECOND = t # ts \<and> to_int16 (ti_sql_data_type t) = SQL_VARCHAR"
  "\<exists>t ts. FindDataType SQL_UNKNOWN_TYPE = t # ts \<and> to_int16 (ti_sql_data_type t) = SQL_VARCHAR"
proof -
  have "case FindDataType SQL_INTERVAL_DAY_TO_SECOND of [] \<Rightarrow> False | t # ts \<Rightarrow> to_int16 (ti_sql_data_type t) = SQL_VARCHAR"
    "case FindDataType SQL_UNKNOWN_TYPE of [] \<Rightarrow> False | t # ts \<Rightarrow> to_int16 (ti_sql_data_type t) = SQL_VARCHAR"
    by code_simp+
  then show "\<exists>t ts. FindDataType SQL_INTERVAL_DAY_TO_SECOND = t # ts \<and> to_int16 (ti_sql_data_type t) = SQL_VARCHAR"
    "\<exists>t ts. FindDataType SQL_UNKNOWN_TYPE = t # ts \<and> to_int16 (ti_sql_data_type t) = SQL_VARCHAR"
    by (auto split: list.splits)
qed

lemma SetSqlDescType_plain:
  assumes "FindDataType v = t # ts" "\<not> IsIntervalType (to_int16 (ti_sql_data_type t))"
  shows "sql_desc_concise_type (snd (SetSqlDescType r v)) = to_int16 (ti_sql_data_type t)"
    "sql_desc_type (snd (SetSqlDescType r v)) = to_int16 (ti_sql_data_type t)"
  using assms by (simp_all add: SetSqlDescType_def SetSqlDataType_def Let_def)

text \<open>The type that \<^verbatim>\<open>SetSqlDescType\<close> stores for a column: intervals and unknown types are text.\<close>

definition column_type :: "LogicalType \<Rightarrow> SQLSMALLINT" where
  "column_type t = (let v = FindRelatedSQLType (lt_id t) in if v = SQL_INTERVAL \<or> v = SQL_UNKNOWN_TYPE then SQL_VARCHAR else v)"

lemma column_type_set:
  assumes "v = FindRelatedSQLType (lt_id t)" "v' = (if v = SQL_INTERVAL then SQL_INTERVAL_DAY_TO_SECOND else v)"
  shows "sql_desc_concise_type (snd (SetSqlDescType r v')) = column_type t" "sql_desc_type (snd (SetSqlDescType r v')) = column_type t"
proof -
  obtain x xs where "FindDataType v' = x # xs" "to_int16 (ti_sql_data_type x) = column_type t" "\<not> IsIntervalType (column_type t)"
  proof (cases "v \<in> {SQL_INTERVAL, SQL_UNKNOWN_TYPE}")
    case True
    have "\<not> IsIntervalType SQL_VARCHAR" by (simp add: IsIntervalType_def)
    then show ?thesis using that default_rows True assms by (auto simp: column_type_def Let_def)
  next
    case False
    then obtain x xs where "FindDataType v = x # xs" "to_int16 (ti_sql_data_type x) = v" "\<not> IsIntervalType v"
      using table_row [of "lt_id t"] unfolding assms(1) by blast
    then show ?thesis using that [of x xs] False assms by (simp add: column_type_def)
  qed
  then show "sql_desc_concise_type (snd (SetSqlDescType r v')) = column_type t" "sql_desc_type (snd (SetSqlDescType r v')) = column_type t"
    using SetSqlDescType_plain by simp_all
qed

text \<open>C33: after \<^verbatim>\<open>FillIRD\<close> the implementation row descriptor has one record for every column of the prepared statement, in
  order, with the column's name as name, label and base column name; with the SQL type that belongs to its type as concise and
  verbose type, where intervals and unknown types are \<^verbatim>\<open>SQL_VARCHAR\<close>; with the name of its type; with the display size of its type;
  and with the declared width and scale of a decimal, or the fractional digits of a time or timestamp, as precision and scale.\<close>

theorem FillIRD_columns:
  assumes "i < length (ps_types ps)" "length (ps_names ps) = length (ps_types ps)" "d = FillIRD tn vn cn u ps ird"
    and "r = desc_records d ! i" "t = ps_types ps ! i" "v = FindRelatedSQLType (lt_id t)"
  shows "length (desc_records d) = length (ps_types ps)
    \<and> sql_desc_name r = ps_names ps ! i \<and> sql_desc_label r = ps_names ps ! i \<and> sql_desc_base_column_name r = ps_names ps ! i
    \<and> sql_desc_concise_type r = (if v = SQL_INTERVAL \<or> v = SQL_UNKNOWN_TYPE then SQL_VARCHAR else v)
    \<and> sql_desc_type r = sql_desc_concise_type r
    \<and> sql_desc_type_name r = (if v = SQL_UNKNOWN_TYPE then vn else tn t)
    \<and> sql_desc_display_size r = GetDisplaySize t
    \<and> (lt_id t = DECIMAL \<longrightarrow> sql_desc_precision r = int (lt_width t) \<and> sql_desc_scale r = int (lt_scale t))
    \<and> (v = SQL_TYPE_TIME \<or> v = SQL_TYPE_TIMESTAMP \<longrightarrow>
         sql_desc_precision r = GetTemporalPrecision (lt_id t) \<and> sql_desc_scale r = GetTemporalPrecision (lt_id t))"
proof -
  let ?n = "ps_names ps ! i"
  let ?r = "ird_record tn vn cn u t ?n"
  have r: "r = copy_DescRecord ?r" using FillIRD_nth [OF assms(1,2)] assms(3-5) by simp
  have type: "sql_desc_concise_type ?r = column_type t" "sql_desc_type ?r = column_type t"
    unfolding ird_record_def assms(6) [symmetric] using column_type_set [OF assms(6) refl] by (auto simp: SetDescUnsignedField_def Let_def)
  have ct: "column_type t = (if v = SQL_INTERVAL \<or> v = SQL_UNKNOWN_TYPE then SQL_VARCHAR else v)" by (simp add: column_type_def assms(6))
  have rest: "sql_desc_type_name ?r = (if v = SQL_UNKNOWN_TYPE then vn else tn t)"
    "sql_desc_name ?r = ?n" "sql_desc_label ?r = ?n" "sql_desc_base_column_name ?r = ?n" "sql_desc_display_size ?r = GetDisplaySize t"
    "v = SQL_TYPE_TIME \<or> v = SQL_TYPE_TIMESTAMP \<Longrightarrow>
      sql_desc_precision ?r = GetTemporalPrecision (lt_id t) \<and> sql_desc_scale ?r = GetTemporalPrecision (lt_id t)"
    unfolding ird_record_def assms(6) [symmetric] by (auto simp: SetDescUnsignedField_def SetSqlDescType_keeps Let_def)
  have "sql_desc_precision ?r = int (lt_width t) \<and> sql_desc_scale ?r = int (lt_scale t)" if "lt_id t = DECIMAL"
    using that by (simp add: ird_record_def SetDescUnsignedField_def Let_def)
  moreover have "length (desc_records d) = length (ps_types ps)" using assms(2) by (simp add: assms(3) FillIRD_def Let_def)
  ultimately show ?thesis using type rest unfolding r ct by (simp add: copy_DescRecord_def)
qed

theorem FillIRD_columns_witness:
  "let ps = \<lparr>ps_error = None, ps_types = [\<lparr>lt_id = DECIMAL, lt_width = 10, lt_scale = 2\<rparr>], ps_names = [''price''],
       ps_bound_all_parameters = True, ps_named_params = 0, ps_row_changes = False\<rparr>;
     r = desc_records (FillIRD (\<lambda>_. ''INT64'') ''VARCHAR'' ''system'' sample_record ps sample_desc) ! 0
   in sql_desc_name r = ''price'' \<and> sql_desc_concise_type r = SQL_DECIMAL \<and> sql_desc_type_name r = ''INT64''
     \<and> sql_desc_precision r = 10 \<and> sql_desc_scale r = 2"
  using FillIRD_columns [of 0 "\<lparr>ps_error = None, ps_types = [\<lparr>lt_id = DECIMAL, lt_width = 10, lt_scale = 2\<rparr>],
      ps_names = [''price''], ps_bound_all_parameters = True, ps_named_params = 0, ps_row_changes = False\<rparr>"
      _ "\<lambda>_. ''INT64''" "''VARCHAR''" "''system''" sample_record sample_desc, OF _ _ refl refl refl refl]
  by (simp add: Let_def)

section \<open>The two descriptions of a column\<close>

text \<open>A prepared statement whose implementation row descriptor has been filled.\<close>

definition described :: "driver \<Rightarrow> nat \<Rightarrow> PreparedStatement \<Rightarrow> bool" where
  "described w s ps \<longleftrightarrow> (\<exists>st dbc. stmts w s = Some st \<and> dbcs w (stmt_dbc st) = Some dbc \<and> dbc_conn dbc \<and> stmt_stmt st = Some ps
     \<and> stmt_res st = None) \<and> ps_error ps = None \<and> length (ps_names ps) = length (ps_types ps)
     \<and> (\<exists>tn vn cn u ird. descs w (IrdOf s) = Some (FillIRD tn vn cn u ps ird))"

lemma on_prepared_stmt_described:
  assumes "described w s ps"
  obtains st w' where "\<And>body. on_prepared_stmt w m (Some (StmtPtr s)) body = body s st ps w'" "described w' s ps" "stmts w' s = Some st" "stmt_res st = None"
proof -
  obtain st dbc where st: "stmts w s = Some st" "dbcs w (stmt_dbc st) = Some dbc" "dbc_conn dbc" "stmt_stmt st = Some ps" "ps_error ps = None" "stmt_res st = None"
    using assms by (auto simp: described_def)
  let ?st = "st\<lparr>stmt_diag := Clean (stmt_diag st)\<rparr>"
  have "on_prepared_stmt w m (Some (StmtPtr s)) body = body s ?st ps (put_stmt s ?st w)" for body
    using Prepared_live [OF st(1-5)] st(4) by (simp add: on_prepared_stmt_def put_stmt_def)
  moreover have "described (put_stmt s ?st w) s ps" using assms st by (auto simp: described_def put_stmt_def)
  ultimately show ?thesis using that [of ?st "put_stmt s ?st w"] st by (simp add: put_stmt_def)
qed

lemma WriteStringCol_narrow:
  assumes "0 \<le> n" "stmts w s = Some st"
  shows "\<exists>ret w' m'. WriteStringCol False caller s dsn str p n lp w m = Some (ret, w', m') \<and> SQL_SUCCEEDED ret"
proof -
  obtain oc m' where "WriteStringWith (char_writer False) 2 str m p n lp = Some (oc, m')" "oc \<noteq> WBadLength"
    using assms(1) by (cases "WriteStringUtf8 str m p n") (auto simp: WriteStringWith_def char_writer_def utf8_writer_def)
  then show ?thesis
    using assms(2) by (cases oc) (auto simp: WriteStringCol_def repost_def stmt_post_def post_on_def SetDiagnosticRecord_def SQL_SUCCEEDED_def Let_def)
qed

lemma describe_cells:
  assumes "described w s ps" "1 \<le> n" "n \<le> int (length (ps_types ps))" "n < 2 ^ 16" "0 \<le> b"
  shows "\<exists>ret w' m'. SQLDescribeCol (Some (StmtPtr s)) n p b lp tp sp dp np w m
      = Some (ret, w', store_int 2 (store_int 2 (store_int 8 (store_int 2 m' tp (FindRelatedSQLType (lt_id (ps_types ps ! nat (n - 1)))))
          sp (GetColumnSize (ps_types ps ! nat (n - 1)))) dp (column_digits (ps_types ps ! nat (n - 1)))) np SQL_NULLABLE_UNKNOWN)
    \<and> SQL_SUCCEEDED ret"
proof -
  obtain st w0 where w0: "\<And>body. on_prepared_stmt w m (Some (StmtPtr s)) body = body s st ps w0" "described w0 s ps" "stmts w0 s = Some st"
    using on_prepared_stmt_described [OF assms(1)] by metis
  have i: "nat (to_uint64 (n - 1)) = nat (n - 1)" "nat (n - 1) < length (ps_types ps)" "length (ps_names ps) = length (ps_types ps)"
    using assms by (auto simp: to_uint64_id described_def)
  obtain ret w' m' where "WriteStringCol False ''SQLDescribeCol'' s (stmt_dsn w0 st) (ps_names ps ! nat (n - 1)) p b lp w0 m = Some (ret, w', m')" "SQL_SUCCEEDED ret"
    using WriteStringCol_narrow [OF assms(5) w0(3)] by blast
  then show ?thesis
    using i assms(3) by (intro exI [of _ ret] exI [of _ w'] exI [of _ m']) (simp add: SQLDescribeCol_def DescribeColInternal_def w0(1) Let_def)
qed

lemma attribute_of_column:
  assumes "described w s ps" "1 \<le> n" "n \<le> int (length (ps_types ps))"
  obtains w' dsn tn vn cn u where "\<And>fld cp b lp ap. SQLColAttribute rt (Some (StmtPtr s)) n fld cp b lp ap w m
      = attribute_switch False s dsn (copy_DescRecord (ird_record tn vn cn u (ps_types ps ! nat (n - 1)) (ps_names ps ! nat (n - 1))))
          (length (ps_types ps)) fld cp b lp ap w' m"
proof -
  obtain st w0 where w0: "\<And>body. on_prepared_stmt w m (Some (StmtPtr s)) body = body s st ps w0" "described w0 s ps" "stmt_res st = None"
    using on_prepared_stmt_described [OF assms(1)] by metis
  obtain tn vn cn u ird where ird: "descs w0 (IrdOf s) = Some (FillIRD tn vn cn u ps ird)" and len: "length (ps_names ps) = length (ps_types ps)"
    using w0(2) by (auto simp: described_def)
  let ?d = "FillIRD tn vn cn u ps ird" and ?i = "nat (n - 1)"
  have i: "?i < length (ps_types ps)" using assms by simp
  have d: "length (desc_records ?d) = length (ps_types ps)" using len by (simp add: FillIRD_def Let_def)
  have "GetDescRecord ?d ?i = (copy_DescRecord (ird_record tn vn cn u (ps_types ps ! ?i) (ps_names ps ! ?i)), ?d)"
    using i d FillIRD_nth [OF i len] by (simp add: GetDescRecord_def Let_def)
  then show ?thesis
    using assms(2,3) w0(3) ird d
    by (intro that [of "stmt_dsn w0 st" tn vn cn u "put_desc (IrdOf s) ?d w0"])
      (simp add: SQLColAttribute_def ColAttributeInternal_def w0(1) Let_def)
qed

text \<open>C26: the two ways to ask for a column agree. For every column of a prepared statement, except one of an interval or an unknown
  type, \<^verbatim>\<open>SQLDescribeCol\<close> and \<^verbatim>\<open>SQLColAttribute\<close> succeed and report the same SQL type; for a column of an exact numeric, a time or a timestamp
  type they report the same scale as well.\<close>

theorem described_columns_agree:
  assumes "described w s ps" "1 \<le> n" "n \<le> int (length (ps_types ps))" "n < 2 ^ 16" "0 \<le> b" "t = ps_types ps ! nat (n - 1)"
    and "FindRelatedSQLType (lt_id t) \<notin> {SQL_INTERVAL, SQL_UNKNOWN_TYPE}" "lt_scale t \<le> 38"
    and "tp \<noteq> nullptr" "dp \<noteq> nullptr" "ap \<noteq> nullptr"
    and "tp + 2 \<le> sp" "sp + 8 \<le> dp" "dp + 2 \<le> np"
  shows "\<exists>ret w1 m1 w2 m2. SQLDescribeCol (Some (StmtPtr s)) n p b lp tp sp dp np w m = Some (ret, w1, m1) \<and> SQL_SUCCEEDED ret
    \<and> SQLColAttribute rt (Some (StmtPtr s)) n SQL_DESC_CONCISE_TYPE nullptr 0 nullptr ap w m = Some (SQL_SUCCESS, w2, m2)
    \<and> le_sint (read_bytes m1 tp 2) = le_sint (read_bytes m2 ap 8)
    \<and> (FindRelatedSQLType (lt_id t) \<in> set scaled_types \<longrightarrow>
        (\<exists>w3 m3. SQLColAttribute rt (Some (StmtPtr s)) n SQL_DESC_SCALE nullptr 0 nullptr ap w m = Some (SQL_SUCCESS, w3, m3)
           \<and> le_sint (read_bytes m1 dp 2) = le_sint (read_bytes m3 ap 8)))"
proof -
  let ?v = "FindRelatedSQLType (lt_id t)" and ?k = "column_digits t"
  obtain ret w1 m0 where desc: "SQLDescribeCol (Some (StmtPtr s)) n p b lp tp sp dp np w m
      = Some (ret, w1, store_int 2 (store_int 2 (store_int 8 (store_int 2 m0 tp ?v) sp (GetColumnSize t)) dp ?k) np SQL_NULLABLE_UNKNOWN)" "SQL_SUCCEEDED ret"
    using describe_cells [OF assms(1-5)] assms(6) by metis
  obtain w2 dsn tn vn cn u where attr: "\<And>fld cp b lp. SQLColAttribute rt (Some (StmtPtr s)) n fld cp b lp ap w m
      = attribute_switch False s dsn (copy_DescRecord (ird_record tn vn cn u t (ps_names ps ! nat (n - 1)))) (length (ps_types ps)) fld cp b lp ap w2 m"
    using attribute_of_column [OF assms(1-3)] assms(6) by metis
  let ?r = "copy_DescRecord (ird_record tn vn cn u t (ps_names ps ! nat (n - 1)))"
  have "- 32768 \<le> ?v \<and> ?v < 32768" by (cases "lt_id t") simp_all
  moreover have "0 \<le> ?k \<and> ?k < 32768" using assms(8) by (simp add: column_digits_def Let_def)
  ultimately have small: "- 32768 \<le> ?v" "?v < 32768" "0 \<le> ?k" "?k < 32768" by auto
  have "sql_desc_concise_type ?r = ?v" using ird_record_type [OF assms(7)] by (simp add: copy_DescRecord_def)
  then have ty: "SQLColAttribute rt (Some (StmtPtr s)) n SQL_DESC_CONCISE_TYPE nullptr 0 nullptr ap w m = Some (SQL_SUCCESS, w2, store_int 8 m ap ?v)"
    using assms(11) by (simp add: attr attribute_switch_def SetNumericAttributePtr_def Let_def)
  have sc: "SQLColAttribute rt (Some (StmtPtr s)) n SQL_DESC_SCALE nullptr 0 nullptr ap w m = Some (SQL_SUCCESS, w2, store_int 8 m ap ?k)"
    if "?v \<in> set scaled_types"
    using ird_record_scale [OF that] small(3) assms(11) by (simp add: copy_DescRecord_def attr attribute_switch_def SetNumericAttributePtr_def Let_def)
  show ?thesis
    using desc ty sc small assms(9-)
    by (simp add: mem_simps le_sint_le_bytes2 le_sint_le_bytes8)
qed

text \<open>Column number 0, the bookmark column, is not excluded by \<^verbatim>\<open>SQLDescribeCol\<close>: the index wraps around, and the access to the names
  leaves the function by an exception, while \<^verbatim>\<open>SQLColAttribute\<close> reports \<^verbatim>\<open>07009\<close>.\<close>

lemma describe_column_zero_throws:
  assumes "described w s ps" "length (ps_types ps) < 2 ^ 64 - 1"
  shows "SQLDescribeCol (Some (StmtPtr s)) 0 p b lp tp sp dp np w m = None
    \<and> (\<exists>w'. SQLColAttribute rt (Some (StmtPtr s)) 0 fld cp b' lp' ap w m = Some (SQL_ERROR, w', m))"
proof -
  obtain st w0 where w0: "\<And>body. on_prepared_stmt w m (Some (StmtPtr s)) body = body s st ps w0" "described w0 s ps" "stmts w0 s = Some st" "stmt_res st = None"
    using on_prepared_stmt_described [OF assms(1)] by metis
  have "nat (to_uint64 (- 1)) = 2 ^ 64 - 1" by (simp add: to_uint64_def mask_eq_exp_minus_1)
  moreover have "length (ps_names ps) = length (ps_types ps)" using w0(2) by (simp add: described_def)
  ultimately have "\<not> nat (to_uint64 (- 1)) < length (ps_names ps)" using assms(2) by simp
  then show ?thesis
    using w0(3,4) by (simp add: SQLDescribeCol_def DescribeColInternal_def SQLColAttribute_def ColAttributeInternal_def w0(1) repost_def
        stmt_post_def post_on_def SetDiagnosticRecord_def at_def Let_def)
qed

section \<open>Witness\<close>

definition decimal_ps :: PreparedStatement where
  "decimal_ps = \<lparr>ps_error = None, ps_types = [\<lparr>lt_id = DECIMAL, lt_width = 10, lt_scale = 2\<rparr>], ps_names = [''price''],
     ps_bound_all_parameters = True, ps_named_params = 0, ps_row_changes = False\<rparr>"

definition described_driver :: driver where
  "described_driver = \<lparr>envs = (\<lambda>_. None), dbcs = [1 \<mapsto> (make_OdbcHandleDbc 0 0)\<lparr>dbc_conn := True\<rparr>],
     stmts = [2 \<mapsto> (sample_fetch SQL_CURSOR_FORWARD_ONLY False [])\<lparr>stmt_stmt := Some decimal_ps, stmt_res := None\<rparr>],
     descs = [IrdOf 2 \<mapsto> FillIRD (\<lambda>_. ''INT64'') ''VARCHAR'' ''system'' sample_record decimal_ps sample_desc], next_handle = 3\<rparr>"

lemma sample_described: "described described_driver 2 decimal_ps"
proof -
  have "\<exists>tn vn cn u ird. descs described_driver (IrdOf 2) = Some (FillIRD tn vn cn u decimal_ps ird)"
    unfolding described_driver_def by (simp, blast)
  then show ?thesis by (simp add: described_def described_driver_def sample_fetch_def) (simp add: decimal_ps_def)
qed

theorem described_columns_agree_witness:
  "\<exists>ret w1 m1 w2 m2. SQLDescribeCol (Some (StmtPtr 2)) 1 100 20 nullptr 200 210 220 230 described_driver (\<lambda>_. CHR 0x00) = Some (ret, w1, m1)
    \<and> SQLColAttribute (\<lambda>_. QUERY_RESULT) (Some (StmtPtr 2)) 1 SQL_DESC_CONCISE_TYPE nullptr 0 nullptr 300 described_driver (\<lambda>_. CHR 0x00) = Some (SQL_SUCCESS, w2, m2)
    \<and> le_sint (read_bytes m1 200 2) = le_sint (read_bytes m2 300 8)"
proof -
  have t: "ps_types decimal_ps ! nat (1 - 1) = \<lparr>lt_id = DECIMAL, lt_width = 10, lt_scale = 2\<rparr>" "length (ps_types decimal_ps) = 1"
    by (simp_all add: decimal_ps_def)
  show ?thesis
    using described_columns_agree [OF sample_described, of 1 20 _ 200 220 300 210 230 100 nullptr "\<lambda>_. CHR 0x00" "\<lambda>_. QUERY_RESULT", OF _ _ _ _ refl]
    unfolding t by auto
qed

end
