(* ===== verification/Info_Api.thy ===== *)
theory Info_Api
  imports Info_Constants Statement_Exec Attribute_Api
begin

text \<open>
  \<^verbatim>\<open>odbc_api/info_api.cpp\<close>: \<^verbatim>\<open>SQLGetInfo\<close>, \<^verbatim>\<open>SQLGetFunctions\<close>, \<^verbatim>\<open>SQLGetTypeInfo\<close>, \<^verbatim>\<open>SQLDataSources\<close> and \<^verbatim>\<open>SQLDrivers\<close>, with
  \<^verbatim>\<open>IsNumericInfoType\<close> of \<^verbatim>\<open>api_info.cpp\<close>.

  The switch of \<^verbatim>\<open>GetInfoInternal\<close> is a table, cut into the parts \<open>info_table_1\<close> to \<open>info_table_6\<close>: the labels of each case, and
  what it replies. A reply is a text, a number of 2 or 4 bytes, nothing at all, or one of the texts that depend on the connection,
  the library or a query. The version of the library and of the ODBC headers are arguments.

  The theorems show that the type of every reply is the one the table of numeric types announces, and what a numeric reply writes.
\<close>

section \<open>Replies\<close>

datatype info_reply = Text string | Num nat int | NoReply | DataSourceName | DatabaseName | LibraryVersion | DmVersion | Keywords

definition mask_of :: "int list \<Rightarrow> int" where
  "mask_of bits = foldr (OR) bits 0"

definition IsNumericInfoType :: "SQLUSMALLINT \<Rightarrow> bool" where
  "IsNumericInfoType info_type \<longleftrightarrow> info_type \<in> set [
     SQL_ACTIVE_ENVIRONMENTS, SQL_AGGREGATE_FUNCTIONS, SQL_ALTER_DOMAIN, SQL_ALTER_TABLE, SQL_ASYNC_DBC_FUNCTIONS,
     SQL_ASYNC_MODE, SQL_ASYNC_NOTIFICATION, SQL_BATCH_ROW_COUNT, SQL_BOOKMARK_PERSISTENCE, SQL_CATALOG_LOCATION,
     SQL_CATALOG_USAGE, SQL_CONCAT_NULL_BEHAVIOR, SQL_CONVERT_BIGINT, SQL_CONVERT_BINARY, SQL_CONVERT_BIT, SQL_CONVERT_CHAR,
     SQL_CONVERT_DATE, SQL_CONVERT_DECIMAL, SQL_CONVERT_DOUBLE, SQL_CONVERT_FLOAT, SQL_CONVERT_INTEGER,
     SQL_CONVERT_INTERVAL_YEAR_MONTH, SQL_CONVERT_INTERVAL_DAY_TIME, SQL_CONVERT_LONGVARBINARY, SQL_CONVERT_LONGVARCHAR,
     SQL_CONVERT_NUMERIC, SQL_CONVERT_REAL, SQL_CONVERT_SMALLINT, SQL_CONVERT_TIME, SQL_CONVERT_TIMESTAMP, SQL_CONVERT_TINYINT,
     SQL_CONVERT_VARBINARY, SQL_CONVERT_VARCHAR, SQL_CONVERT_FUNCTIONS, SQL_CORRELATION_NAME, SQL_CREATE_ASSERTION,
     SQL_CREATE_CHARACTER_SET, SQL_CREATE_COLLATION, SQL_CREATE_DOMAIN, SQL_CREATE_SCHEMA, SQL_CREATE_TABLE,
     SQL_CREATE_TRANSLATION, SQL_CREATE_VIEW, SQL_CURSOR_COMMIT_BEHAVIOR, SQL_CURSOR_ROLLBACK_BEHAVIOR, SQL_CURSOR_SENSITIVITY,
     SQL_DATETIME_LITERALS, SQL_DDL_INDEX, SQL_DEFAULT_TXN_ISOLATION, SQL_DRIVER_AWARE_POOLING_SUPPORTED, SQL_DRIVER_HDESC,
     SQL_DRIVER_HSTMT, SQL_DROP_ASSERTION, SQL_DROP_CHARACTER_SET, SQL_DROP_COLLATION, SQL_DROP_DOMAIN, SQL_DROP_SCHEMA,
     SQL_DROP_TABLE, SQL_DROP_TRANSLATION, SQL_DROP_VIEW, SQL_DYNAMIC_CURSOR_ATTRIBUTES1, SQL_DYNAMIC_CURSOR_ATTRIBUTES2,
     SQL_FILE_USAGE, SQL_FORWARD_ONLY_CURSOR_ATTRIBUTES1, SQL_FORWARD_ONLY_CURSOR_ATTRIBUTES2, SQL_GETDATA_EXTENSIONS,
     SQL_GROUP_BY, SQL_IDENTIFIER_CASE, SQL_INDEX_KEYWORDS, SQL_INFO_SCHEMA_VIEWS, SQL_INSERT_STATEMENT,
     SQL_KEYSET_CURSOR_ATTRIBUTES1, SQL_KEYSET_CURSOR_ATTRIBUTES2, SQL_MAX_ASYNC_CONCURRENT_STATEMENTS,
     SQL_MAX_BINARY_LITERAL_LEN, SQL_MAX_CATALOG_NAME_LEN, SQL_MAX_CHAR_LITERAL_LEN, SQL_MAX_COLUMN_NAME_LEN,
     SQL_MAX_COLUMNS_IN_GROUP_BY, SQL_MAX_COLUMNS_IN_INDEX, SQL_MAX_COLUMNS_IN_ORDER_BY, SQL_MAX_COLUMNS_IN_SELECT,
     SQL_MAX_COLUMNS_IN_TABLE, SQL_MAX_CONCURRENT_ACTIVITIES, SQL_MAX_CURSOR_NAME_LEN, SQL_MAX_DRIVER_CONNECTIONS,
     SQL_MAX_IDENTIFIER_LEN, SQL_MAX_INDEX_SIZE, SQL_MAX_PROCEDURE_NAME_LEN, SQL_MAX_SCHEMA_NAME_LEN, SQL_MAX_STATEMENT_LEN,
     SQL_MAX_TABLE_NAME_LEN, SQL_MAX_TABLES_IN_SELECT, SQL_MAX_USER_NAME_LEN, SQL_NON_NULLABLE_COLUMNS, SQL_NULL_COLLATION,
     SQL_NUMERIC_FUNCTIONS, SQL_OJ_CAPABILITIES, SQL_PARAM_ARRAY_ROW_COUNTS, SQL_PARAM_ARRAY_SELECTS, SQL_POS_OPERATIONS,
     SQL_QUOTED_IDENTIFIER_CASE, SQL_SCHEMA_USAGE, SQL_SCROLL_OPTIONS, SQL_SQL_CONFORMANCE, SQL_SQL92_FOREIGN_KEY_DELETE_RULE,
     SQL_SQL92_FOREIGN_KEY_UPDATE_RULE, SQL_SQL92_GRANT, SQL_SQL92_NUMERIC_VALUE_FUNCTIONS, SQL_SQL92_PREDICATES,
     SQL_SQL92_RELATIONAL_JOIN_OPERATORS, SQL_SQL92_REVOKE, SQL_SQL92_STRING_FUNCTIONS, SQL_SQL92_VALUE_EXPRESSIONS,
     SQL_STATIC_CURSOR_ATTRIBUTES1, SQL_STATIC_CURSOR_ATTRIBUTES2, SQL_STRING_FUNCTIONS, SQL_SUBQUERIES, SQL_SYSTEM_FUNCTIONS,
     SQL_TIMEDATE_ADD_INTERVALS, SQL_TIMEDATE_DIFF_INTERVALS, SQL_TIMEDATE_FUNCTIONS, SQL_TXN_CAPABLE,
     SQL_TXN_ISOLATION_OPTION, SQL_UNION]"

definition info_table_1 :: "(int list \<times> info_reply) list" where
  "info_table_1 = [
     ([SQL_ACCESSIBLE_PROCEDURES], Text ''N''),
     ([SQL_ACCESSIBLE_TABLES], Text ''Y''),
     ([SQL_ACTIVE_ENVIRONMENTS], Num 2 0),
     ([SQL_AGGREGATE_FUNCTIONS], Num 4 (mask_of [SQL_AF_ALL, SQL_AF_AVG, SQL_AF_COUNT, SQL_AF_DISTINCT, SQL_AF_MAX, SQL_AF_MIN,
       SQL_AF_SUM])),
     ([SQL_ALTER_DOMAIN], Num 4 0),
     ([SQL_ALTER_TABLE], Num 4 (mask_of [SQL_AT_ADD_COLUMN_COLLATION, SQL_AT_ADD_COLUMN_DEFAULT, SQL_AT_ADD_COLUMN_SINGLE,
       SQL_AT_ADD_CONSTRAINT, SQL_AT_ADD_TABLE_CONSTRAINT, SQL_AT_DROP_COLUMN_DEFAULT, SQL_AT_SET_COLUMN_DEFAULT])),
     ([SQL_ASYNC_DBC_FUNCTIONS], Num 4 SQL_ASYNC_DBC_NOT_CAPABLE),
     ([SQL_ASYNC_MODE], Num 4 SQL_AM_NONE),
     ([SQL_ASYNC_NOTIFICATION], Num 4 SQL_ASYNC_NOTIFICATION_NOT_CAPABLE),
     ([SQL_BATCH_ROW_COUNT], Num 4 SQL_BRC_EXPLICIT),
     ([SQL_BATCH_SUPPORT], Num 4 (mask_of [SQL_BS_SELECT_EXPLICIT, SQL_BS_ROW_COUNT_EXPLICIT])),
     ([SQL_BOOKMARK_PERSISTENCE], NoReply),
     ([SQL_CATALOG_LOCATION], Num 2 SQL_CL_START),
     ([SQL_CATALOG_NAME], Text ''Y''),
     ([SQL_CATALOG_NAME_SEPARATOR], Text ''.''),
     ([SQL_CATALOG_TERM], Text ''''),
     ([SQL_CATALOG_USAGE], Num 4 (mask_of [SQL_CU_DML_STATEMENTS, SQL_CU_TABLE_DEFINITION])),
     ([SQL_COLLATION_SEQ], Text ''UTF-8''),
     ([SQL_COLUMN_ALIAS], Text ''Y''),
     ([SQL_CONCAT_NULL_BEHAVIOR], Num 2 SQL_CB_NON_NULL),
     ([SQL_CONVERT_TINYINT, SQL_CONVERT_SMALLINT, SQL_CONVERT_INTEGER, SQL_CONVERT_BIGINT], Num 4 (mask_of [SQL_CVT_BIGINT,
       SQL_CVT_BIT, SQL_CVT_CHAR, SQL_CVT_DECIMAL, SQL_CVT_DOUBLE, SQL_CVT_FLOAT, SQL_CVT_INTEGER, SQL_CVT_LONGVARCHAR,
       SQL_CVT_NUMERIC, SQL_CVT_REAL, SQL_CVT_SMALLINT, SQL_CVT_TINYINT, SQL_CVT_VARCHAR])),
     ([SQL_CONVERT_BINARY, SQL_CONVERT_LONGVARBINARY, SQL_CONVERT_VARBINARY], Num 4 (mask_of [SQL_CVT_BINARY, SQL_CVT_CHAR,
       SQL_CVT_LONGVARBINARY, SQL_CVT_LONGVARCHAR, SQL_CVT_VARBINARY, SQL_CVT_VARCHAR])),
     ([SQL_CONVERT_BIT], Num 4 (mask_of [SQL_CVT_BIGINT, SQL_CVT_BIT, SQL_CVT_CHAR, SQL_CVT_INTEGER, SQL_CVT_LONGVARCHAR,
       SQL_CVT_SMALLINT, SQL_CVT_TINYINT, SQL_CVT_VARCHAR])),
     ([SQL_CONVERT_CHAR, SQL_CONVERT_VARCHAR, SQL_CONVERT_LONGVARCHAR], Num 4 (mask_of [SQL_CVT_BIGINT, SQL_CVT_BINARY,
       SQL_CVT_BIT, SQL_CVT_CHAR, SQL_CVT_DATE, SQL_CVT_DECIMAL, SQL_CVT_DOUBLE, SQL_CVT_FLOAT, SQL_CVT_INTEGER,
       SQL_CVT_INTERVAL_DAY_TIME, SQL_CVT_INTERVAL_YEAR_MONTH, SQL_CVT_LONGVARBINARY, SQL_CVT_LONGVARCHAR, SQL_CVT_NUMERIC,
       SQL_CVT_REAL, SQL_CVT_SMALLINT, SQL_CVT_TIME, SQL_CVT_TIMESTAMP, SQL_CVT_TINYINT, SQL_CVT_VARBINARY, SQL_CVT_VARCHAR])),
     ([SQL_CONVERT_GUID], Num 4 0)]"

definition info_table_2 :: "(int list \<times> info_reply) list" where
  "info_table_2 = [
     ([SQL_CONVERT_DATE], Num 4 (mask_of [SQL_CVT_CHAR, SQL_CVT_DATE, SQL_CVT_LONGVARCHAR, SQL_CVT_TIMESTAMP, SQL_CVT_VARCHAR])),
     ([SQL_CONVERT_DECIMAL, SQL_CONVERT_NUMERIC], Num 4 (mask_of [SQL_CVT_BIGINT, SQL_CVT_CHAR, SQL_CVT_DECIMAL, SQL_CVT_DOUBLE,
       SQL_CVT_FLOAT, SQL_CVT_INTEGER, SQL_CVT_INTERVAL_DAY_TIME, SQL_CVT_LONGVARCHAR, SQL_CVT_NUMERIC, SQL_CVT_REAL,
       SQL_CVT_SMALLINT, SQL_CVT_TINYINT, SQL_CVT_VARCHAR])),
     ([SQL_CONVERT_DOUBLE, SQL_CONVERT_REAL, SQL_CONVERT_FLOAT], Num 4 (mask_of [SQL_CVT_BIGINT, SQL_CVT_CHAR, SQL_CVT_DECIMAL,
       SQL_CVT_DOUBLE, SQL_CVT_FLOAT, SQL_CVT_INTEGER, SQL_CVT_LONGVARCHAR, SQL_CVT_NUMERIC, SQL_CVT_REAL, SQL_CVT_SMALLINT,
       SQL_CVT_TINYINT, SQL_CVT_VARCHAR])),
     ([SQL_CONVERT_INTERVAL_DAY_TIME], Num 4 (mask_of [SQL_CVT_BIGINT, SQL_CVT_CHAR, SQL_CVT_INTEGER, SQL_CVT_INTERVAL_DAY_TIME,
       SQL_CVT_LONGVARCHAR, SQL_CVT_SMALLINT, SQL_CVT_TIME, SQL_CVT_TINYINT, SQL_CVT_VARCHAR])),
     ([SQL_CONVERT_INTERVAL_YEAR_MONTH], Num 4 (mask_of [SQL_CVT_BIGINT, SQL_CVT_CHAR, SQL_CVT_INTEGER,
       SQL_CVT_INTERVAL_YEAR_MONTH, SQL_CVT_LONGVARCHAR, SQL_CVT_SMALLINT, SQL_CVT_TINYINT, SQL_CVT_VARCHAR])),
     ([SQL_CONVERT_TIME], Num 4 (mask_of [SQL_CVT_CHAR, SQL_CVT_INTERVAL_DAY_TIME, SQL_CVT_LONGVARCHAR, SQL_CVT_TIME,
       SQL_CVT_VARCHAR])),
     ([SQL_CONVERT_TIMESTAMP], Num 4 (mask_of [SQL_CVT_CHAR, SQL_CVT_DATE, SQL_CVT_LONGVARCHAR, SQL_CVT_TIME, SQL_CVT_TIMESTAMP,
       SQL_CVT_VARCHAR])),
     ([SQL_CONVERT_FUNCTIONS], Num 4 SQL_FN_CVT_CAST),
     ([SQL_CORRELATION_NAME], Num 2 SQL_CN_ANY),
     ([SQL_CONVERT_WCHAR, SQL_CONVERT_WLONGVARCHAR, SQL_CONVERT_WVARCHAR, SQL_CREATE_ASSERTION, SQL_CREATE_CHARACTER_SET,
       SQL_CREATE_COLLATION, SQL_CREATE_DOMAIN, SQL_CREATE_TRANSLATION], Num 4 0),
     ([SQL_CREATE_SCHEMA], Num 4 SQL_CS_CREATE_SCHEMA),
     ([SQL_CREATE_TABLE], Num 4 (mask_of [SQL_CT_COLUMN_CONSTRAINT, SQL_CT_COLUMN_DEFAULT, SQL_CT_CONSTRAINT_NAME_DEFINITION,
       SQL_CT_CREATE_TABLE, SQL_CT_LOCAL_TEMPORARY, SQL_CT_TABLE_CONSTRAINT, SQL_CT_COLUMN_COLLATION])),
     ([SQL_CREATE_VIEW], Num 4 (mask_of [SQL_CV_CREATE_VIEW, SQL_CV_CHECK_OPTION])),
     ([SQL_CURSOR_COMMIT_BEHAVIOR], Num 2 SQL_CB_PRESERVE),
     ([SQL_CURSOR_ROLLBACK_BEHAVIOR], Num 2 SQL_CB_CLOSE),
     ([SQL_CURSOR_SENSITIVITY], Num 4 SQL_INSENSITIVE),
     ([SQL_DATA_SOURCE_NAME], DataSourceName),
     ([SQL_DATA_SOURCE_READ_ONLY], Text ''N''),
     ([SQL_DATABASE_NAME], DatabaseName),
     ([SQL_DATETIME_LITERALS], Num 4 (mask_of [SQL_DL_SQL92_DATE, SQL_DL_SQL92_TIME, SQL_DL_SQL92_TIMESTAMP,
       SQL_DL_SQL92_INTERVAL_YEAR, SQL_DL_SQL92_INTERVAL_MONTH, SQL_DL_SQL92_INTERVAL_DAY, SQL_DL_SQL92_INTERVAL_HOUR,
       SQL_DL_SQL92_INTERVAL_MINUTE, SQL_DL_SQL92_INTERVAL_SECOND, SQL_DL_SQL92_INTERVAL_YEAR_TO_MONTH,
       SQL_DL_SQL92_INTERVAL_DAY_TO_HOUR, SQL_DL_SQL92_INTERVAL_DAY_TO_MINUTE, SQL_DL_SQL92_INTERVAL_DAY_TO_SECOND,
       SQL_DL_SQL92_INTERVAL_HOUR_TO_MINUTE, SQL_DL_SQL92_INTERVAL_HOUR_TO_SECOND, SQL_DL_SQL92_INTERVAL_MINUTE_TO_SECOND])),
     ([SQL_DRIVER_NAME, SQL_DBMS_NAME], Text ''Haybarn'')]"

definition info_table_3 :: "(int list \<times> info_reply) list" where
  "info_table_3 = [
     ([SQL_DBMS_VER], LibraryVersion),
     ([SQL_DDL_INDEX], Num 4 0),
     ([SQL_DEFAULT_TXN_ISOLATION], Num 4 SQL_TXN_SERIALIZABLE),
     ([SQL_DESCRIBE_PARAMETER], Text ''Y''),
     ([SQL_DM_VER], DmVersion),
     ([SQL_DRIVER_AWARE_POOLING_SUPPORTED], Num 4 SQL_DRIVER_AWARE_POOLING_NOT_CAPABLE),
     ([SQL_DRIVER_ODBC_VER], Text ''03.51''),
     ([SQL_DRIVER_VER], Text ''03.51.0000''),
     ([SQL_DROP_ASSERTION], Num 4 0),
     ([SQL_DROP_CHARACTER_SET], Num 4 0),
     ([SQL_DROP_COLLATION], Num 4 0),
     ([SQL_DROP_DOMAIN], Num 4 0),
     ([SQL_DROP_SCHEMA], Num 4 (mask_of [SQL_DS_DROP_SCHEMA, SQL_DS_CASCADE, SQL_DS_RESTRICT])),
     ([SQL_DROP_TABLE], Num 4 (mask_of [SQL_DT_DROP_TABLE, SQL_DT_CASCADE, SQL_DT_RESTRICT])),
     ([SQL_DROP_TRANSLATION], Num 4 0),
     ([SQL_DROP_VIEW], Num 4 (mask_of [SQL_DV_DROP_VIEW, SQL_DV_CASCADE, SQL_DV_RESTRICT])),
     ([SQL_DYNAMIC_CURSOR_ATTRIBUTES1], Num 4 (mask_of [SQL_CA1_ABSOLUTE, SQL_CA1_NEXT, SQL_CA1_RELATIVE])),
     ([SQL_DYNAMIC_CURSOR_ATTRIBUTES2], Num 4 0),
     ([SQL_EXPRESSIONS_IN_ORDERBY], Text ''Y''),
     ([SQL_FILE_USAGE], Num 2 SQL_FILE_NOT_SUPPORTED),
     ([SQL_FORWARD_ONLY_CURSOR_ATTRIBUTES1], Num 4 SQL_CA1_NEXT),
     ([SQL_FORWARD_ONLY_CURSOR_ATTRIBUTES2], Num 4 0),
     ([SQL_GETDATA_EXTENSIONS], Num 4 (mask_of [SQL_GD_ANY_COLUMN, SQL_GD_ANY_ORDER, SQL_GD_BOUND, SQL_GD_BLOCK])),
     ([SQL_GROUP_BY], Num 2 SQL_GB_NO_RELATION),
     ([SQL_IDENTIFIER_CASE], Num 2 SQL_IC_LOWER),
     ([SQL_IDENTIFIER_QUOTE_CHAR], Text [CHR 0x22]),
     ([SQL_INDEX_KEYWORDS], Num 4 SQL_IK_NONE),
     ([SQL_INFO_SCHEMA_VIEWS], Num 4 0),
     ([SQL_INSERT_STATEMENT], Num 4 SQL_IS_INSERT_LITERALS),
     ([SQL_INTEGRITY], Text ''N'')]"

definition info_table_4 :: "(int list \<times> info_reply) list" where
  "info_table_4 = [
     ([SQL_KEYSET_CURSOR_ATTRIBUTES1], Num 4 (mask_of [SQL_CA1_ABSOLUTE, SQL_CA1_NEXT, SQL_CA1_RELATIVE])),
     ([SQL_KEYSET_CURSOR_ATTRIBUTES2], Num 4 0),
     ([SQL_KEYWORDS], Keywords),
     ([SQL_LIKE_ESCAPE_CLAUSE], Text ''Y''),
     ([SQL_MAX_ASYNC_CONCURRENT_STATEMENTS, SQL_MAX_BINARY_LITERAL_LEN, SQL_MAX_CHAR_LITERAL_LEN, SQL_MAX_INDEX_SIZE,
       SQL_MAX_ROW_SIZE, SQL_MAX_STATEMENT_LEN], Num 4 0),
     ([SQL_MAX_CATALOG_NAME_LEN, SQL_MAX_COLUMN_NAME_LEN, SQL_MAX_COLUMNS_IN_GROUP_BY, SQL_MAX_COLUMNS_IN_INDEX,
       SQL_MAX_COLUMNS_IN_ORDER_BY, SQL_MAX_COLUMNS_IN_SELECT, SQL_MAX_COLUMNS_IN_TABLE, SQL_MAX_CONCURRENT_ACTIVITIES,
       SQL_MAX_CURSOR_NAME_LEN, SQL_MAX_IDENTIFIER_LEN, SQL_MAX_PROCEDURE_NAME_LEN, SQL_MAX_SCHEMA_NAME_LEN,
       SQL_MAX_TABLE_NAME_LEN, SQL_MAX_TABLES_IN_SELECT, SQL_MAX_USER_NAME_LEN], Num 2 0),
     ([SQL_MAX_DRIVER_CONNECTIONS], Num 2 1),
     ([SQL_MAX_ROW_SIZE_INCLUDES_LONG], Text ''Y''),
     ([SQL_MULT_RESULT_SETS], Text ''N''),
     ([SQL_MULTIPLE_ACTIVE_TXN], Text ''Y''),
     ([SQL_NEED_LONG_DATA_LEN], Text ''N''),
     ([SQL_NON_NULLABLE_COLUMNS], Num 2 SQL_NNC_NON_NULL),
     ([SQL_NULL_COLLATION], Num 2 SQL_NC_START),
     ([SQL_NUMERIC_FUNCTIONS], Num 4 (mask_of [SQL_FN_NUM_ABS, SQL_FN_NUM_ACOS, SQL_FN_NUM_ASIN, SQL_FN_NUM_ATAN,
       SQL_FN_NUM_ATAN2, SQL_FN_NUM_CEILING, SQL_FN_NUM_COS, SQL_FN_NUM_COT, SQL_FN_NUM_DEGREES, SQL_FN_NUM_EXP,
       SQL_FN_NUM_FLOOR, SQL_FN_NUM_LOG, SQL_FN_NUM_LOG10, SQL_FN_NUM_MOD, SQL_FN_NUM_PI, SQL_FN_NUM_POWER, SQL_FN_NUM_RADIANS,
       SQL_FN_NUM_ROUND, SQL_FN_NUM_SIGN, SQL_FN_NUM_SIN, SQL_FN_NUM_SQRT, SQL_FN_NUM_TAN])),
     ([SQL_ODBC_INTERFACE_CONFORMANCE], Num 4 SQL_OIC_CORE),
     ([SQL_ODBC_API_CONFORMANCE], Num 2 SQL_OAC_LEVEL1),
     ([SQL_OJ_CAPABILITIES], Num 4 (mask_of [SQL_OJ_LEFT, SQL_OJ_RIGHT, SQL_OJ_FULL, SQL_OJ_INNER, SQL_OJ_ALL_COMPARISON_OPS])),
     ([SQL_ORDER_BY_COLUMNS_IN_SELECT], Text ''Y''),
     ([SQL_PARAM_ARRAY_ROW_COUNTS], Num 4 SQL_PARC_BATCH)]"

definition info_table_5 :: "(int list \<times> info_reply) list" where
  "info_table_5 = [
     ([SQL_PARAM_ARRAY_SELECTS], Num 4 SQL_PAS_BATCH),
     ([SQL_POS_OPERATIONS], Num 4 0),
     ([SQL_PROCEDURE_TERM], Text ''''),
     ([SQL_PROCEDURES], Text ''N''),
     ([SQL_QUOTED_IDENTIFIER_CASE], Num 2 SQL_IC_SENSITIVE),
     ([SQL_ROW_UPDATES], Text ''N''),
     ([SQL_SCHEMA_TERM], Text ''schema''),
     ([SQL_SCHEMA_USAGE], Num 4 (mask_of [SQL_SU_DML_STATEMENTS, SQL_SU_TABLE_DEFINITION])),
     ([SQL_SCROLL_OPTIONS], Num 4 SQL_SCROLL_OPTIONS),
     ([SQL_SEARCH_PATTERN_ESCAPE], Text [CHR 0x5C]),
     ([SQL_SERVER_NAME], Text ''''),
     ([SQL_SPECIAL_CHARACTERS], Text (''!%&'' @ [CHR 0x27] @ ''()*+,-./;:<=>?@[]^{}|~'')),
     ([SQL_SQL_CONFORMANCE], Num 4 SQL_SC_SQL92_ENTRY),
     ([SQL_SQL92_DATETIME_FUNCTIONS], Num 4 (mask_of [SQL_SDF_CURRENT_DATE, SQL_SDF_CURRENT_TIME, SQL_SDF_CURRENT_TIMESTAMP])),
     ([SQL_SQL92_FOREIGN_KEY_DELETE_RULE, SQL_SQL92_FOREIGN_KEY_UPDATE_RULE, SQL_SQL92_GRANT], Num 4 0),
     ([SQL_SQL92_NUMERIC_VALUE_FUNCTIONS], Num 4 (mask_of [SQL_SNVF_BIT_LENGTH, SQL_SNVF_EXTRACT, SQL_SNVF_OCTET_LENGTH,
       SQL_SNVF_POSITION])),
     ([SQL_SQL92_PREDICATES], Num 4 (mask_of [SQL_SP_BETWEEN, SQL_SP_COMPARISON, SQL_SP_EXISTS, SQL_SP_IN, SQL_SP_ISNOTNULL,
       SQL_SP_ISNULL, SQL_SP_LIKE])),
     ([SQL_SQL92_RELATIONAL_JOIN_OPERATORS], Num 4 (mask_of [SQL_SRJO_CROSS_JOIN, SQL_SRJO_FULL_OUTER_JOIN, SQL_SRJO_INNER_JOIN,
       SQL_SRJO_LEFT_OUTER_JOIN, SQL_SRJO_NATURAL_JOIN, SQL_SRJO_RIGHT_OUTER_JOIN])),
     ([SQL_SQL92_REVOKE], Num 4 0),
     ([SQL_SQL92_ROW_VALUE_CONSTRUCTOR], Num 4 (mask_of [SQL_SRVC_VALUE_EXPRESSION, SQL_SRVC_NULL, SQL_SRVC_DEFAULT,
       SQL_SRVC_ROW_SUBQUERY])),
     ([SQL_SQL92_STRING_FUNCTIONS], Num 4 (mask_of [SQL_SSF_CONVERT, SQL_SSF_LOWER, SQL_SSF_UPPER, SQL_SSF_SUBSTRING,
       SQL_SSF_TRIM_BOTH, SQL_SSF_TRIM_LEADING, SQL_SSF_TRIM_TRAILING])),
     ([SQL_SQL92_VALUE_EXPRESSIONS], Num 4 (mask_of [SQL_SVE_CASE, SQL_SVE_CAST, SQL_SVE_COALESCE, SQL_SVE_NULLIF])),
     ([SQL_STANDARD_CLI_CONFORMANCE], Num 4 0),
     ([SQL_STATIC_CURSOR_ATTRIBUTES1], Num 4 (mask_of [SQL_CA1_NEXT, SQL_CA1_ABSOLUTE, SQL_CA1_RELATIVE])),
     ([SQL_STATIC_CURSOR_ATTRIBUTES2], Num 4 0),
     ([SQL_STRING_FUNCTIONS], Num 4 (mask_of [SQL_FN_STR_ASCII, SQL_FN_STR_BIT_LENGTH, SQL_FN_STR_CONCAT, SQL_FN_STR_LCASE,
       SQL_FN_STR_LEFT, SQL_FN_STR_LENGTH, SQL_FN_STR_LOCATE, SQL_FN_STR_LTRIM, SQL_FN_STR_REPEAT, SQL_FN_STR_REPLACE,
       SQL_FN_STR_RIGHT, SQL_FN_STR_RTRIM, SQL_FN_STR_SUBSTRING, SQL_FN_STR_UCASE])),
     ([SQL_SUBQUERIES], Num 4 (mask_of [SQL_SQ_CORRELATED_SUBQUERIES, SQL_SQ_COMPARISON, SQL_SQ_EXISTS, SQL_SQ_IN,
       SQL_SQ_QUANTIFIED])),
     ([SQL_SYSTEM_FUNCTIONS], Num 4 0),
     ([SQL_TABLE_TERM], Text ''table''),
     ([SQL_TIMEDATE_ADD_INTERVALS, SQL_TIMEDATE_DIFF_INTERVALS], Num 4 (mask_of [SQL_FN_TSI_FRAC_SECOND, SQL_FN_TSI_SECOND,
       SQL_FN_TSI_MINUTE, SQL_FN_TSI_HOUR, SQL_FN_TSI_DAY, SQL_FN_TSI_WEEK, SQL_FN_TSI_MONTH, SQL_FN_TSI_QUARTER,
       SQL_FN_TSI_YEAR]))]"

definition info_table_6 :: "(int list \<times> info_reply) list" where
  "info_table_6 = [
     ([SQL_TIMEDATE_FUNCTIONS], Num 4 (mask_of [SQL_FN_TD_CURRENT_DATE, SQL_FN_TD_CURRENT_TIME, SQL_FN_TD_CURRENT_TIMESTAMP,
       SQL_FN_TD_DAYNAME, SQL_FN_TD_DAYOFMONTH, SQL_FN_TD_DAYOFWEEK, SQL_FN_TD_DAYOFYEAR, SQL_FN_TD_EXTRACT, SQL_FN_TD_HOUR,
       SQL_FN_TD_MINUTE, SQL_FN_TD_MONTH, SQL_FN_TD_MONTHNAME, SQL_FN_TD_NOW, SQL_FN_TD_QUARTER, SQL_FN_TD_SECOND,
       SQL_FN_TD_WEEK, SQL_FN_TD_YEAR])),
     ([SQL_TXN_CAPABLE], Num 2 SQL_TC_ALL),
     ([SQL_TXN_ISOLATION_OPTION], Num 4 SQL_TXN_SERIALIZABLE),
     ([SQL_UNION], Num 4 (mask_of [SQL_U_UNION, SQL_U_UNION_ALL])),
     ([SQL_USER_NAME, SQL_XOPEN_CLI_YEAR], Text ''''),
     ([SQL_DTC_TRANSACTION_COST], Num 4 0),
     ([SQL_RETURN_ESCAPE_CLAUSE], Num 4 0)]"

definition info_replies :: "(int list \<times> info_reply) list" where
  "info_replies = info_table_1 @ info_table_2 @ info_table_3 @ info_table_4 @ info_table_5 @ info_table_6"

definition info_reply_of :: "SQLUSMALLINT \<Rightarrow> info_reply option" where
  "info_reply_of info_type = map_option snd (find (\<lambda>(labels, _). info_type \<in> set labels) info_replies)"

section \<open>SQLGetInfo\<close>

text \<open>The pointer to the connection is set before the handle is checked, also for a handle without a connection. The narrow version
  reports a truncation through it in every case, the wide one only for a valid handle.\<close>

definition WriteStringInfo ::
  "bool \<Rightarrow> SQLHANDLE \<Rightarrow> string \<Rightarrow> addr \<Rightarrow> SQLSMALLINT \<Rightarrow> addr \<Rightarrow> driver \<Rightarrow> memory \<Rightarrow> (SQLRETURN \<times> driver \<times> memory) option" where
  "WriteStringInfo wide connection_handle str character_attribute_ptr buffer_length string_length w m = do {
     (converted, w) \<leftarrow> ConvertConnection w connection_handle;
     (oc, m) \<leftarrow> WriteStringWith (char_writer wide) 2 str m character_attribute_ptr buffer_length string_length;
     let valid = (case converted of Inr _ \<Rightarrow> True | Inl _ \<Rightarrow> False);
     let post = (\<lambda>ret msg state. (case connection_handle of
         Some (DbcPtr c) \<Rightarrow> map_option (\<lambda>dbc. let (ret, w) = dbc_post c dbc w ret ''SQLGetInfo'' msg state (dbc_dsn dbc) in (ret, w, m)) (dbcs w c)
       | _ \<Rightarrow> None));
     case oc of
       WBadLength \<Rightarrow> if valid then post SQL_ERROR ''Invalid string or buffer length'' ST_HY090 else Some (SQL_ERROR, w, m)
     | WTruncated \<Rightarrow>
         if wide \<and> \<not> valid then Some (SQL_SUCCESS, w, m) else post SQL_SUCCESS_WITH_INFO ''String data, right truncated'' ST_01004
     | WStored \<Rightarrow> Some (SQL_SUCCESS, w, m) }"

text \<open>What is done with the connection behind a handle.\<close>

definition on_connection ::
  "driver \<Rightarrow> memory \<Rightarrow> SQLHANDLE \<Rightarrow> (nat \<Rightarrow> OdbcHandleDbc \<Rightarrow> driver \<Rightarrow> (SQLRETURN \<times> driver \<times> memory) option)
    \<Rightarrow> (SQLRETURN \<times> driver \<times> memory) option" where
  "on_connection w m connection_handle body = (case ConvertConnection w connection_handle of
      None \<Rightarrow> None
    | Some (Inl ret, w) \<Rightarrow> Some (ret, w, m)
    | Some (Inr c, w) \<Rightarrow> do { dbc \<leftarrow> dbcs w c; body c dbc w })"

definition with_engine :: "'e \<Rightarrow> (SQLRETURN \<times> driver \<times> memory) option \<Rightarrow> 'e exec_result option" where
  "with_engine e r = Some (map_option (\<lambda>(ret, w, m). (ret, w, m, e)) r)"

text \<open>The reserved words, fetched one by one into a buffer of 100 bytes at \<open>keyword\<close>. \<open>Inl\<close> is the return code of a call that
  failed. The last comma would be removed from an empty text only.\<close>

abbreviation (input) keyword_size :: int where "keyword_size \<equiv> 100"

fun fetch_keywords ::
  "engine \<Rightarrow> int \<Rightarrow> 'e database \<Rightarrow> addr \<Rightarrow> nat \<Rightarrow> SQLHANDLE \<Rightarrow> string \<Rightarrow> driver \<Rightarrow> memory \<Rightarrow> 'e
    \<Rightarrow> ((SQLRETURN + string) \<times> driver \<times> memory \<times> 'e) option option" where
  "fetch_keywords eng u db keyword 0 hstmt reserved_keywords w m e = None"
| "fetch_keywords eng u db keyword (Suc fuel) hstmt reserved_keywords w m e = (case SQLFetch eng u db fuel hstmt w m e of
      None \<Rightarrow> None
    | Some None \<Rightarrow> Some None
    | Some (Some (ret, w, m, e)) \<Rightarrow>
        if ret = SQL_NO_DATA then Some (Some (Inr reserved_keywords, w, m, e))
        else if \<not> SQL_SUCCEEDED ret then Some (Some (Inl ret, w, m, e))
        else
          (case SQLGetData eng u hstmt 1 SQL_C_CHAR keyword keyword_size nullptr w m of
             None \<Rightarrow> Some None
           | Some (ret, w, m) \<Rightarrow>
               if \<not> SQL_SUCCEEDED ret then Some (Some (Inl ret, w, m, e))
               else (case c_strlen (read_bytes m keyword (nat keyword_size)) of
                   None \<Rightarrow> Some None
                 | Some n \<Rightarrow> fetch_keywords eng u db keyword fuel hstmt (reserved_keywords @ read_bytes m keyword n @ '','') w m e)))"

definition KEYWORDS_QUERY :: string where
  "KEYWORDS_QUERY = ''SELECT keyword_name FROM duckdb_keywords() WHERE keyword_category='' @ [CHR 0x27] @ ''reserved'' @ [CHR 0x27]"

text \<open>After a failed allocation the statement handle is freed although it was not set.\<close>

definition GetKeywords ::
  "engine \<Rightarrow> int \<Rightarrow> 'e database \<Rightarrow> garbage \<Rightarrow> DescRecord \<Rightarrow> addr \<Rightarrow> nat \<Rightarrow> bool \<Rightarrow> SQLHANDLE \<Rightarrow> addr \<Rightarrow> SQLSMALLINT \<Rightarrow> addr
    \<Rightarrow> driver \<Rightarrow> memory \<Rightarrow> 'e \<Rightarrow> 'e exec_result option" where
  "GetKeywords eng u db g r keyword fuel wide connection_handle info_value_ptr buffer_length string_length_ptr w m e =
     (case SQLAllocHandle g SQL_HANDLE_STMT connection_handle w of
        None \<Rightarrow> Some None
      | Some (ret, hstmt, w) \<Rightarrow>
          if \<not> SQL_SUCCEEDED ret then Some None
          else
            (case ExecDirectInternal db r fuel hstmt (Some (KEYWORDS_QUERY @ [CHR 0x00])) SQL_NTS w m e of
               None \<Rightarrow> None
             | Some None \<Rightarrow> Some None
             | Some (Some (ret, w, m, e)) \<Rightarrow>
                 let free = (\<lambda>ret w m e. Some (map_option (\<lambda>(_, w). (ret, w, m, e)) (FreeHandle SQL_HANDLE_STMT hstmt w))) in
                 if \<not> SQL_SUCCEEDED ret then free ret w m e
                 else
                   (case fetch_keywords eng u db keyword fuel hstmt [] w m e of
                      None \<Rightarrow> None
                    | Some None \<Rightarrow> Some None
                    | Some (Some (Inl ret, w, m, e)) \<Rightarrow> free ret w m e
                    | Some (Some (Inr reserved_keywords, w, m, e)) \<Rightarrow>
                        if reserved_keywords = [] then Some None
                        else (case FreeHandle SQL_HANDLE_STMT hstmt w of
                            None \<Rightarrow> Some None
                          | Some (_, w) \<Rightarrow> with_engine e (WriteStringInfo wide connection_handle reserved_keywords info_value_ptr
                              buffer_length string_length_ptr w m)))))"

record build =
  library_version :: string
  SQL_SPEC_MAJOR :: int
  SQL_SPEC_MINOR :: int

definition GetInfoInternal ::
  "engine \<Rightarrow> int \<Rightarrow> 'e database \<Rightarrow> garbage \<Rightarrow> DescRecord \<Rightarrow> addr \<Rightarrow> nat \<Rightarrow> build \<Rightarrow> bool \<Rightarrow> SQLHANDLE \<Rightarrow> SQLUSMALLINT \<Rightarrow> addr
    \<Rightarrow> SQLSMALLINT \<Rightarrow> addr \<Rightarrow> driver \<Rightarrow> memory \<Rightarrow> 'e \<Rightarrow> 'e exec_result option" where
  "GetInfoInternal eng u db g r frame fuel bld wide connection_handle info_type info_value_ptr buffer_length string_length_ptr w m e =
     (let text = (\<lambda>str w. WriteStringInfo wide connection_handle str info_value_ptr buffer_length string_length_ptr w m) in
      if IsNumericInfoType info_type \<and> info_value_ptr = nullptr then
        with_engine e (on_connection w m connection_handle (\<lambda>c dbc w.
          let (ret, w) = dbc_post c dbc w SQL_ERROR ''SQLGetInfo'' ''Invalid null value pointer for numeric info type.'' ST_HY024 (dbc_dsn dbc)
          in Some (ret, w, m)))
      else case info_reply_of info_type of
        Some (Text str) \<Rightarrow> with_engine e (text str w)
      | Some (Num n v) \<Rightarrow> with_engine e (Some (SQL_SUCCESS, w, StoreWithLength n 2 m v info_value_ptr string_length_ptr))
      | Some NoReply \<Rightarrow> with_engine e (Some (SQL_SUCCESS, w, m))
      | Some DataSourceName \<Rightarrow> with_engine e (on_connection w m connection_handle (\<lambda>c dbc w. text (dbc_dsn dbc) w))
      | Some DatabaseName \<Rightarrow> with_engine e (on_connection w m connection_handle (\<lambda>c dbc w.
          let db_name = sql_attr_current_catalog dbc in text (if db_name = '':memory:'' then [] else db_name) w))
      | Some LibraryVersion \<Rightarrow> with_engine e (text (library_version bld) w)
      | Some DmVersion \<Rightarrow> with_engine e (text (to_string (SQL_SPEC_MAJOR bld) @ ''.'' @ to_string (SQL_SPEC_MINOR bld) @ ''.####.####'') w)
      | Some Keywords \<Rightarrow> GetKeywords eng u db g r frame fuel wide connection_handle info_value_ptr buffer_length string_length_ptr w m e
      | None \<Rightarrow> with_engine e (on_connection w m connection_handle (\<lambda>c dbc w.
          let (ret, w) = dbc_post c dbc w SQL_SUCCESS ''SQLGetInfo'' (''Unrecognized attribute: '' @ to_string info_type) ST_HY092 (dbc_dsn dbc)
          in Some (ret, w, m))))"

definition SQLGetInfo ::
  "engine \<Rightarrow> int \<Rightarrow> 'e database \<Rightarrow> garbage \<Rightarrow> DescRecord \<Rightarrow> addr \<Rightarrow> nat \<Rightarrow> build \<Rightarrow> SQLHANDLE \<Rightarrow> SQLUSMALLINT \<Rightarrow> addr
    \<Rightarrow> SQLSMALLINT \<Rightarrow> addr \<Rightarrow> driver \<Rightarrow> memory \<Rightarrow> 'e \<Rightarrow> 'e exec_result option" where
  "SQLGetInfo eng u db g r frame fuel bld = GetInfoInternal eng u db g r frame fuel bld False"

definition SQLGetInfoW ::
  "engine \<Rightarrow> int \<Rightarrow> 'e database \<Rightarrow> garbage \<Rightarrow> DescRecord \<Rightarrow> addr \<Rightarrow> nat \<Rightarrow> build \<Rightarrow> SQLHANDLE \<Rightarrow> SQLUSMALLINT \<Rightarrow> addr
    \<Rightarrow> SQLSMALLINT \<Rightarrow> addr \<Rightarrow> driver \<Rightarrow> memory \<Rightarrow> 'e \<Rightarrow> 'e exec_result option" where
  "SQLGetInfoW eng u db g r frame fuel bld connection_handle info_type info_value_ptr buffer_length string_length_ptr w m e =
     map_option (map_option (\<lambda>(ret, w, m, e). (ret, w,
         if SQL_SUCCEEDED ret \<and> string_length_ptr \<noteq> nullptr
         then store_int 2 m string_length_ptr (2 * le_sint (read_bytes m string_length_ptr 2)) else m, e)))
       (GetInfoInternal eng u db g r frame fuel bld True connection_handle info_type info_value_ptr buffer_length string_length_ptr w m e)"

section \<open>SQLGetFunctions, SQLGetTypeInfo, SQLDataSources and SQLDrivers\<close>

definition SQLGetFunctions :: "nat \<Rightarrow> nat list" where
  "SQLGetFunctions function_id = (if function_id = 999 then GetFunctions30 else GetFunctions function_id)"

abbreviation (input) SQL_ALL_TYPES :: SQLSMALLINT where "SQL_ALL_TYPES \<equiv> 0"

definition type_columns :: "string list" where
  "type_columns = [''TYPE_NAME'', ''DATA_TYPE'', ''COLUMN_SIZE'', ''LITERAL_PREFIX'', ''LITERAL_SUFFIX'', ''CREATE_PARAMS'', ''NULLABLE'',
     ''CASE_SENSITIVE'', ''SEARCHABLE'', ''UNSIGNED_ATTRIBUTE'', ''FIXED_PREC_SCALE'', ''AUTO_UNIQUE_VALUE'', ''LOCAL_TYPE_NAME'',
     ''MINIMUM_SCALE'', ''MAXIMUM_SCALE'', ''SQL_DATA_TYPE'', ''SQL_DATETIME_SUB'', ''NUM_PREC_RADIX'', ''INTERVAL_PRECISION'']"

definition dquoted :: "string \<Rightarrow> string" where
  "dquoted s = [CHR 0x22] @ s @ [CHR 0x22]"

fun comma_lines :: "string list \<Rightarrow> string" where
  "comma_lines [] = []"
| "comma_lines [c] = [CHR 0x0A, CHR 0x09, CHR 0x09] @ dquoted c"
| "comma_lines (c # cs) = [CHR 0x0A, CHR 0x09, CHR 0x09] @ dquoted c @ '','' @ comma_lines cs"

definition type_info_query :: "SQLSMALLINT \<Rightarrow> string" where
  "type_info_query data_type =
     WriteInfoTypesToQueryString (if data_type = SQL_ALL_TYPES then ODBC_SUPPORTED_SQL_TYPES else FindDataType data_type) ''SELECT * FROM (VALUES ''
       @ [CHR 0x0A, CHR 0x09] @ '') AS odbc_types ('' @ comma_lines type_columns @ [CHR 0x0A, CHR 0x09] @ ''))''"

definition GetTypeInfoInternal ::
  "'e database \<Rightarrow> DescRecord \<Rightarrow> nat \<Rightarrow> SQLHANDLE \<Rightarrow> SQLSMALLINT \<Rightarrow> driver \<Rightarrow> memory \<Rightarrow> 'e \<Rightarrow> 'e exec_result option" where
  "GetTypeInfoInternal db r fuel statement_handle data_type w m e =
     on_stmt_exec w m e statement_handle (\<lambda>s st w. ExecDirectStmt db r fuel s (type_info_query data_type) w m e)"

definition driver_manager_only :: "string \<Rightarrow> SQLHANDLE \<Rightarrow> driver \<Rightarrow> (SQLRETURN \<times> driver) option" where
  "driver_manager_only caller environment_handle w = (case ConvertEnvironment w environment_handle of
      None \<Rightarrow> None
    | Some (Inl ret, w) \<Rightarrow> Some (ret, w)
    | Some (Inr e, w) \<Rightarrow> map_option (\<lambda>env. env_post e env w SQL_ERROR caller ''Driver Manager only function'' ST_HY000 []) (envs w e))"

definition DataSourcesInternal :: "SQLHANDLE \<Rightarrow> driver \<Rightarrow> (SQLRETURN \<times> driver) option" where
  "DataSourcesInternal = driver_manager_only ''SQLDataSources''"

definition SQLDrivers :: "SQLHANDLE \<Rightarrow> driver \<Rightarrow> (SQLRETURN \<times> driver) option" where
  "SQLDrivers = driver_manager_only ''SQLDrivers''"

section \<open>Properties\<close>

definition reply_typed :: "int list \<times> info_reply \<Rightarrow> bool" where
  "reply_typed entry = (case entry of (labels, r) \<Rightarrow> (case r of
      Num n v \<Rightarrow> (n = 2 \<or> n = 4) \<and> 0 \<le> v \<and> v < 256 ^ n
    | NoReply \<Rightarrow> labels = [SQL_BOOKMARK_PERSISTENCE]
    | _ \<Rightarrow> \<not> list_ex IsNumericInfoType labels))"

lemma replies_typed: "list_all reply_typed info_replies"
  by code_simp

lemma info_reply_typed:
  assumes "info_reply_of t = Some r"
  shows "\<exists>labels. t \<in> set labels \<and> reply_typed (labels, r)"
  using assms replies_typed by (auto simp: info_reply_of_def list.pred_set find_Some_iff) (metis nth_mem)

lemma numeric_reply:
  assumes "IsNumericInfoType t" "info_reply_of t \<noteq> None" "t \<noteq> SQL_BOOKMARK_PERSISTENCE"
  obtains n v where "info_reply_of t = Some (Num n v)" "n = 2 \<or> n = 4" "0 \<le> v" "v < 256 ^ n"
proof -
  obtain r where r: "info_reply_of t = Some r" using assms(2) by auto
  obtain labels where "t \<in> set labels" "reply_typed (labels, r)" using info_reply_typed [OF r] by blast
  then show ?thesis
    using assms(1,3) r that by (cases r) (auto simp: reply_typed_def list_ex_iff)
qed

text \<open>C27: the table of numeric information types and the replies agree: for every type that \<^verbatim>\<open>IsNumericInfoType\<close> lists and the
  driver answers, \<^verbatim>\<open>SQLGetInfo\<close>, narrow or wide, on whatever handle, writes a number of 2 or 4 bytes at the value pointer, the number
  of bytes at the length pointer, and nothing else, and changes no handle; it never writes a text. Only for bookmark persistence
  nothing is written.\<close>

theorem numeric_info_is_number:
  assumes "IsNumericInfoType t" "info_reply_of t \<noteq> None" "t \<noteq> SQL_BOOKMARK_PERSISTENCE"
    and "p \<noteq> nullptr" "lp \<noteq> nullptr" "lp + 2 \<le> p \<or> p + 4 \<le> lp"
  shows "\<exists>n v m'. GetInfoInternal eng u db g r frame fuel bld wide h t p b lp w m e = Some (Some (SQL_SUCCESS, w, m', e))
    \<and> info_reply_of t = Some (Num n v) \<and> (n = 2 \<or> n = 4)
    \<and> le_uint (read_bytes m' p n) = v \<and> le_uint (read_bytes m' lp 2) = int n
    \<and> (\<forall>x. (x < p \<or> p + n \<le> x) \<and> (x < lp \<or> lp + 2 \<le> x) \<longrightarrow> m' x = m x)"
proof -
  obtain n v where nv: "info_reply_of t = Some (Num n v)" "n = 2 \<or> n = 4" "0 \<le> v" "v < 256 ^ n"
    using numeric_reply [OF assms(1-3)] by blast
  let ?m = "StoreWithLength n 2 m v p lp"
  have "GetInfoInternal eng u db g r frame fuel bld wide h t p b lp w m e = Some (Some (SQL_SUCCESS, w, ?m, e))"
    using assms(4) nv(1) by (simp add: GetInfoInternal_def with_engine_def)
  moreover have "read_bytes ?m p n = le_bytes n v" "read_bytes ?m lp 2 = le_bytes 2 (int n)"
    using assms(4-6) nv(2) by (auto simp: StoreWithLength_def mem_simps)
  moreover have "\<forall>x. (x < p \<or> p + n \<le> x) \<and> (x < lp \<or> lp + 2 \<le> x) \<longrightarrow> ?m x = m x"
    by (simp add: StoreWithLength_def mem_simps)
  moreover have "le_uint (le_bytes n v) = v" "le_uint (le_bytes 2 (int n)) = int n"
    using nv(2-4) by (auto simp: le_uint_le_bytes)
  ultimately show ?thesis using nv(1,2) by (intro exI [of _ n] exI [of _ v] exI [of _ ?m]) simp
qed

text \<open>C28: a text is delivered through \<^verbatim>\<open>SQLGetInfo\<close> like every other text of the driver: on an open connection, with a buffer of
  at least one and less than 32768 bytes that does not overlap the cell of the length,
  the longest prefix that fits with its terminator is stored, the call reports a truncation exactly when the text does not fit, and
  nothing is written outside the buffer and the length.\<close>

theorem text_info_delivered:
  assumes "info_reply_of t = Some (Text str)" "dbcs w c = Some dbc" "dbc_conn dbc"
    and "p \<noteq> nullptr" "1 \<le> b" "b < 2 ^ 15" "lp + 2 \<le> p \<or> p + nat b \<le> lp"
  shows "\<exists>w' m' k. SQLGetInfo eng u db g r frame fuel bld (Some (DbcPtr c)) t p b lp w m e
      = Some (Some (if nat b \<le> length str then SQL_SUCCESS_WITH_INFO else SQL_SUCCESS, w', m', e))
    \<and> k = min (length str) (nat b - 1) \<and> read_bytes m' p (k + 1) = take k str @ [CHR 0x00]
    \<and> (\<forall>x. (x < p \<or> p + nat b \<le> x) \<and> (x < lp \<or> lp + 2 \<le> x) \<longrightarrow> m' x = m x)"
proof -
  have b: "int 1 \<le> b" "b < 2 ^ 63" using assms(5,6) by simp_all
  have report: "utf8.fitting str b < length str \<longleftrightarrow> nat b \<le> length str" using b by auto
  obtain m' where m': "WriteStringWith utf8_writer 2 str m p b lp = Some (if nat b \<le> length str then WTruncated else WStored, m')"
    using utf8.write_string_result [OF assms(4) b, of 2 str m lp] unfolding report by blast
  let ?dbc = "dbc\<lparr>dbc_diag := Clean (dbc_diag dbc)\<rparr>"
  have conv: "ConvertConnection w (Some (DbcPtr c)) = Some (Inr c, put_dbc c ?dbc w)" using assms(2,3) by (simp add: ConvertConnection_def)
  have "dbcs (put_dbc c ?dbc w) c = Some ?dbc" by (simp add: put_dbc_def)
  then obtain w' where "SQLGetInfo eng u db g r frame fuel bld (Some (DbcPtr c)) t p b lp w m e
      = Some (Some (if nat b \<le> length str then SQL_SUCCESS_WITH_INFO else SQL_SUCCESS, w', m', e))"
    using assms(1,4) m' conv
    by (cases "nat b \<le> length str") (auto simp: SQLGetInfo_def GetInfoInternal_def WriteStringInfo_def with_engine_def char_writer_def
        dbc_post_def post_on_def SetDiagnosticRecord_def Let_def)
  moreover have "read_bytes m' p (utf8.fitting str b + 1) = take (utf8.fitting str b) str @ [CHR 0x00]"
    using utf8.write_string_content [OF assms(4) b m' assms(7)] by (simp add: utf8_render_def)
  moreover have "\<forall>x. (x < p \<or> p + nat b \<le> x) \<and> (x < lp \<or> lp + 2 \<le> x) \<longrightarrow> m' x = m x"
    using utf8.write_string_inside [OF assms(4) b m'] by blast
  ultimately show ?thesis by (intro exI [of _ w'] exI [of _ m'] exI [of _ "utf8.fitting str b"]) simp
qed

text \<open>\<^verbatim>\<open>SQLGetInfoW\<close> doubles the length also for numbers: it reports twice the number of bytes it has written.\<close>

lemma wide_numeric_length_doubled:
  assumes "info_reply_of t = Some (Num n v)" "n = 2 \<or> n = 4" "p \<noteq> nullptr" "lp \<noteq> nullptr"
  shows "\<exists>m'. SQLGetInfoW eng u db g r frame fuel bld h t p b lp w m e = Some (Some (SQL_SUCCESS, w, m', e)) \<and> le_sint (read_bytes m' lp 2) = 2 * int n"
proof -
  let ?m = "StoreWithLength n 2 m v p lp"
  have "le_sint (read_bytes ?m lp 2) = int n"
    using assms(2,4) by (auto simp: StoreWithLength_def mem_simps le_sint_le_bytes2)
  then have "SQLGetInfoW eng u db g r frame fuel bld h t p b lp w m e = Some (Some (SQL_SUCCESS, w, store_int 2 ?m lp (2 * int n), e))"
    using assms by (simp add: SQLGetInfoW_def GetInfoInternal_def with_engine_def)
  then show ?thesis using assms(2,4) by (auto simp: mem_simps le_sint_le_bytes2)
qed

section \<open>Witnesses\<close>

definition sample_build :: build where
  "sample_build = \<lparr>library_version = ''v1.4.0'', SQL_SPEC_MAJOR = 3, SQL_SPEC_MINOR = 80\<rparr>"

lemma sample_replies:
  "IsNumericInfoType SQL_TXN_CAPABLE" "info_reply_of SQL_TXN_CAPABLE = Some (Num 2 SQL_TC_ALL)" "info_reply_of SQL_DBMS_NAME = Some (Text ''Haybarn'')"
  by code_simp+

theorem numeric_info_is_number_witness:
  "\<exists>n v m'. GetInfoInternal sample_engine 0 sample_database sample_garbage sample_record 4096 1 sample_build False None SQL_TXN_CAPABLE 100 0 200
      (sample_driver (sample_stream []) sample_desc sample_desc) (\<lambda>_. CHR 0x00) [] = Some (Some (SQL_SUCCESS, (sample_driver (sample_stream []) sample_desc sample_desc), m', []))
    \<and> info_reply_of SQL_TXN_CAPABLE = Some (Num n v) \<and> (n = 2 \<or> n = 4)
    \<and> le_uint (read_bytes m' 100 n) = v \<and> le_uint (read_bytes m' 200 2) = int n
    \<and> (\<forall>x. (x < 100 \<or> 100 + n \<le> x) \<and> (x < 200 \<or> 200 + 2 \<le> x) \<longrightarrow> m' x = CHR 0x00)"
  by (rule numeric_info_is_number) (simp_all add: sample_replies)

theorem text_info_delivered_witness:
  "\<exists>w' m' k. SQLGetInfo sample_engine 0 sample_database sample_garbage sample_record 4096 1 sample_build (Some (DbcPtr 1)) SQL_DBMS_NAME 100 5 200
      (sample_driver (sample_stream []) sample_desc sample_desc) (\<lambda>_. CHR 0x00) []
      = Some (Some (if nat 5 \<le> length ''Haybarn'' then SQL_SUCCESS_WITH_INFO else SQL_SUCCESS, w', m', []))
    \<and> k = min (length ''Haybarn'') (nat 5 - 1) \<and> read_bytes m' 100 (k + 1) = take k ''Haybarn'' @ [CHR 0x00]
    \<and> (\<forall>x. (x < 100 \<or> 100 + nat 5 \<le> x) \<and> (x < 200 \<or> 200 + 2 \<le> x) \<longrightarrow> m' x = CHR 0x00)"
  by (rule text_info_delivered [where dbc = "(make_OdbcHandleDbc 0 0)\<lparr>dbc_conn := True\<rparr>"]) (simp_all add: sample_replies sample_driver_def)

end
