(* ===== verification/Api_Stubs.thy ===== *)
theory Api_Stubs
  imports Metadata_Api Transaction_Api
begin

text \<open>
  \<^verbatim>\<open>odbc_api/empty_api_stubs.cpp\<close>: the catalog functions that return an empty result set with the columns the ODBC specification asks
  for, by executing a query without rows, and the functions that only report that they are not implemented. The wide versions of
  the former convert their arguments and ignore them.
\<close>

section \<open>Empty result sets\<close>

definition PrimaryKeys_query :: string where
  "PrimaryKeys_query = raw [
     '''', ''SELECT'', ''|CAST(`` AS VARCHAR) AS ^TABLE_CAT^,'', ''|CAST(`` AS VARCHAR) AS ^TABLE_SCHEM^,'',
     ''|CAST(`` AS VARCHAR) AS ^TABLE_NAME^,'', ''|CAST(`` AS VARCHAR) AS ^COLUMN_NAME^,'',
     ''|CAST(0 AS SMALLINT) AS ^KEY_SEQ^,'', ''|CAST(`` AS VARCHAR) AS ^PK_NAME^'', ''WHERE 1 < 0'', '''']"

definition ForeignKeys_query :: string where
  "ForeignKeys_query = raw [
     '''', ''SELECT'', ''|CAST(`` AS VARCHAR) AS ^PKTABLE_CAT^,'', ''|CAST(`` AS VARCHAR) AS ^PKTABLE_SCHEM^,'',
     ''|CAST(`` AS VARCHAR) AS ^PKTABLE_NAME^,'', ''|CAST(`` AS VARCHAR) AS ^PKCOLUMN_NAME^,'',
     ''|CAST(`` AS VARCHAR) AS ^FKTABLE_CAT^,'', ''|CAST(`` AS VARCHAR) AS ^FKTABLE_SCHEM^,'',
     ''|CAST(`` AS VARCHAR) AS ^FKTABLE_NAME^,'', ''|CAST(`` AS VARCHAR) AS ^FKCOLUMN_NAME^,'',
     ''|CAST(0 AS SMALLINT) AS ^KEY_SEQ^,'', ''|CAST(0 AS SMALLINT) AS ^UPDATE_RULE^,'',
     ''|CAST(0 AS SMALLINT) AS ^DELETE_RULE^,'', ''|CAST(`` AS VARCHAR) AS ^FK_NAME^,'', ''|CAST(`` AS VARCHAR) AS ^PK_NAME^,'',
     ''|CAST(0 AS SMALLINT) AS ^DEFERRABILITY^'', ''WHERE 1 < 0'', '''']"

definition ProcedureColumns_query :: string where
  "ProcedureColumns_query = raw [
     '''', ''SELECT'', ''|CAST(`` AS VARCHAR) AS ^PROCEDURE_CAT^,'', ''|CAST(`` AS VARCHAR) AS ^PROCEDURE_SCHEM^,'',
     ''|CAST(`` AS VARCHAR) AS ^PROCEDURE_NAME^,'', ''|CAST(`` AS VARCHAR) AS ^COLUMN_NAME^,'',
     ''|CAST(0 AS SMALLINT) AS ^COLUMN_TYPE^,'', ''|CAST(0 AS SMALLINT) AS ^DATA_TYPE^,'',
     ''|CAST(`` AS VARCHAR) AS ^TYPE_NAME^,'', ''|CAST(0 AS INT) AS ^COLUMN_SIZE^,'', ''|CAST(0 AS INT) AS ^BUFFER_LENGTH^,'',
     ''|CAST(0 AS SMALLINT) AS ^DECIMAL_DIGITS^,'', ''|CAST(0 AS SMALLINT) AS ^NUM_PREC_RADIX^,'',
     ''|CAST(0 AS SMALLINT) AS ^NULLABLE^,'', ''|CAST(`` AS VARCHAR) AS ^REMARKS^,'', ''|CAST(`` AS VARCHAR) AS ^COLUMN_DEF^,'',
     ''|CAST(0 AS SMALLINT) AS ^SQL_DATA_TYPE^,'', ''|CAST(0 AS SMALLINT) AS ^SQL_DATETIME_SUB^,'',
     ''|CAST(0 AS INT) AS ^CHAR_OCTET_LENGTH^,'', ''|CAST(0 AS INT) AS ^ORDINAL_POSITION^,'',
     ''|CAST(`` AS VARCHAR) AS ^IS_NULLABLE^'', ''WHERE 1 < 0'', '''']"

definition Procedures_query :: string where
  "Procedures_query = raw [
     '''', ''SELECT'', ''|CAST(`` AS VARCHAR) AS ^PROCEDURE_CAT^,'', ''|CAST(`` AS VARCHAR) AS ^PROCEDURE_SCHEM^,'',
     ''|CAST(`` AS VARCHAR) AS ^PROCEDURE_NAME^,'', ''|CAST(0 AS INT) AS ^NUM_INPUT_PARAMS^,'',
     ''|CAST(0 AS INT) AS ^NUM_OUTPUT_PARAMS^,'', ''|CAST(0 AS INT) AS ^NUM_RESULT_SETS^,'',
     ''|CAST(`` AS VARCHAR) AS ^REMARKS^,'', ''|CAST(0 AS SMALLINT) AS ^PROCEDURE_TYPE^'', ''WHERE 1 < 0'', '''']"

definition ColumnPrivileges_query :: string where
  "ColumnPrivileges_query = raw [
     '''', ''SELECT'', ''|CAST(`` AS VARCHAR) AS ^TABLE_CAT^,'', ''|CAST(`` AS VARCHAR) AS ^TABLE_SCHEM^,'',
     ''|CAST(`` AS VARCHAR) AS ^TABLE_NAME^,'', ''|CAST(`` AS VARCHAR) AS ^COLUMN_NAME^,'',
     ''|CAST(`` AS VARCHAR) AS ^GRANTOR^,'', ''|CAST(`` AS VARCHAR) AS ^GRANTEE^,'', ''|CAST(`` AS VARCHAR) AS ^PRIVILEGE^,'',
     ''|CAST(`` AS VARCHAR) AS ^IS_GRANTABLE^'', ''WHERE 1 < 0'', '''']"

definition TablePrivileges_query :: string where
  "TablePrivileges_query = raw [
     '''', ''SELECT'', ''|CAST(`` AS VARCHAR) AS ^TABLE_CAT^,'', ''|CAST(`` AS VARCHAR) AS ^TABLE_SCHEM^,'',
     ''|CAST(`` AS VARCHAR) AS ^TABLE_NAME^,'', ''|CAST(`` AS VARCHAR) AS ^GRANTOR^,'', ''|CAST(`` AS VARCHAR) AS ^GRANTEE^,'',
     ''|CAST(`` AS VARCHAR) AS ^PRIVILEGE^,'', ''|CAST(`` AS VARCHAR) AS ^IS_GRANTABLE^'', ''WHERE 1 < 0'', '''']"

definition SpecialColumns_query :: string where
  "SpecialColumns_query = raw [
     '''', ''SELECT'', ''|CAST(0  AS SMALLINT) AS ^SCOPE^,'', ''|CAST(`` AS VARCHAR ) AS ^COLUMN_NAME^,'',
     ''|CAST(0  AS SMALLINT) AS ^DATA_TYPE^,'', ''|CAST(`` AS VARCHAR ) AS ^TYPE_NAME^,'',
     ''|CAST(0  AS INT     ) AS ^COLUMN_SIZE^,'', ''|CAST(0  AS INT     ) AS ^BUFFER_LENGTH^,'',
     ''|CAST(0  AS SMALLINT) AS ^DECIMAL_DIGITS^,'', ''|CAST(0  AS SMALLINT) AS ^PSEUDO_COLUMN^'', ''WHERE 1 < 0'', '''']"

definition Statistics_query :: string where
  "Statistics_query = raw [
     '''', ''SELECT'', ''|CAST(`` AS VARCHAR ) AS ^TABLE_CAT^,'', ''|CAST(`` AS VARCHAR ) AS ^TABLE_SCHEM^,'',
     ''|CAST(`` AS VARCHAR ) AS ^TABLE_NAME^,'', ''|CAST(0  AS SMALLINT) AS ^NON_UNIQUE^,'',
     ''|CAST(`` AS VARCHAR ) AS ^INDEX_QUALIFIER^,'', ''|CAST(`` AS VARCHAR ) AS ^INDEX_NAME^,'',
     ''|CAST(0  AS SMALLINT) AS ^TYPE^,'', ''|CAST(0  AS SMALLINT) AS ^ORDINAL_POSITION^,'',
     ''|CAST(`` AS VARCHAR ) AS ^COLUMN_NAME^,'', ''|CAST(`` AS CHAR(1) ) AS ^ASC_OR_DESC^,'',
     ''|CAST(0  AS INT     ) AS ^CARDINALITY^,'', ''|CAST(0  AS INT     ) AS ^PAGES^,'',
     ''|CAST(`` AS VARCHAR ) AS ^FILTER_CONDITION^'', ''WHERE 1 < 0'', '''']"

definition empty_result ::
  "string \<Rightarrow> 'e database \<Rightarrow> DescRecord \<Rightarrow> nat \<Rightarrow> SQLHANDLE \<Rightarrow> driver \<Rightarrow> memory \<Rightarrow> 'e \<Rightarrow> 'e exec_result option" where
  "empty_result query db r fuel statement_handle w m e =
     on_stmt_exec w m e statement_handle (\<lambda>s st w. ExecDirectStmt db r fuel s query w m e)"

definition PrimaryKeysInternal where "PrimaryKeysInternal = empty_result PrimaryKeys_query"
definition ForeignKeysInternal where "ForeignKeysInternal = empty_result ForeignKeys_query"
definition ProcedureColumnsInternal where "ProcedureColumnsInternal = empty_result ProcedureColumns_query"
definition ProceduresInternal where "ProceduresInternal = empty_result Procedures_query"
definition ColumnPrivilegesInternal where "ColumnPrivilegesInternal = empty_result ColumnPrivileges_query"
definition TablePrivilegesInternal where "TablePrivilegesInternal = empty_result TablePrivileges_query"
definition SpecialColumnsInternal where "SpecialColumnsInternal = empty_result SpecialColumns_query"
definition StatisticsInternal where "StatisticsInternal = empty_result Statistics_query"

section \<open>Functions that are not implemented\<close>

definition SetNotImplemented :: "string \<Rightarrow> SQLHANDLE \<Rightarrow> driver \<Rightarrow> (SQLRETURN \<times> driver) option" where
  "SetNotImplemented func_name handle_arg w = (case handle_arg of
      None \<Rightarrow> Some (SQL_INVALID_HANDLE, w)
    | Some h \<Rightarrow> post_on_handle h w SQL_ERROR func_name (func_name @ '' is not implemented'') ST_HYC00)"

definition NativeSQLInternal where "NativeSQLInternal = SetNotImplemented ''SQLNativeSql''"
definition BrowseConnectInternal where "BrowseConnectInternal = SetNotImplemented ''SQLBrowseConnect''"
definition SQLBulkOperations where "SQLBulkOperations = SetNotImplemented ''SQLBulkOperations''"
definition SQLSetPos where "SQLSetPos = SetNotImplemented ''SQLSetPos''"
definition SQLSetCursorName where "SQLSetCursorName = SetNotImplemented ''SQLSetCursorName''"
definition SQLSetCursorNameW where "SQLSetCursorNameW = SetNotImplemented ''SQLSetCursorNameW''"
definition SQLGetCursorName where "SQLGetCursorName = SetNotImplemented ''SQLGetCursorName''"
definition SQLGetCursorNameW where "SQLGetCursorNameW = SetNotImplemented ''SQLGetCursorNameW''"

end
