(* ===== verification/Spec2Isabelle.thy ===== *)
theory Spec2Isabelle
  imports Widechar Odbc_Utils Odbc_Diagnostic Odbc_Interval Api_Info Descriptor Handle_Lifecycle Statement_Exec
    Connection_Wide Cupola_Connection Transaction_Api Column_Info Info_Api Metadata_Api Api_Stubs
begin

text \<open>
  Verification of the DuckDB ODBC driver: \<^verbatim>\<open>src/src/odbc_api\<close> (the functions of the ODBC interface) and \<^verbatim>\<open>src/src/odbc_driver\<close>
  (the handles, descriptors, cursors and conversions behind them), as compiled for Linux on 64-bit machines, and for Windows
  where a connection is opened. The paths below are
  relative to these two directories and to \<^verbatim>\<open>src/include\<close>.

  \<^bold>\<open>The program.\<close> An application allocates an environment, connections, statements and descriptors. It connects with a connection
  string, prepares statements, binds parameters and columns to addresses of its own memory, executes, and fetches rowsets into the
  bound buffers or reads single columns in pieces. Every call converts its handle first, which clears the diagnostic records of
  the handle; errors are posted as new records and reported by the return code. Results come from the engine in chunks, which
  the cursor of a statement keeps or drops, depending on its type.

  \<^bold>\<open>Conventions.\<close> Handles are addresses in one store (record \<open>driver\<close> of \<open>Duckdb_Odbc\<close>), since they point to each other; the memory
  of the application is a function from addresses to bytes (\<open>Odbc_Base\<close>). A function returns the new state and the return code,
  or \<open>None\<close> where the C++ code follows a null or dangling pointer, leaves a vector, or lets an exception pass the C interface. A result
  \<open>Some\<close> is therefore a statement of memory safety. Where a loop need not end there is fuel and a second, outer option, which is
  \<open>None\<close> when the fuel is used up. C integers are \<open>int\<close> with the conversions of \<open>Odbc_Base\<close> written at every cast (\<open>to_int16\<close>,
  \<open>to_uint32\<close>, ...), and words where the code works on bits.

  \<^bold>\<open>Theories.\<close>
  \<^item> \<open>Odbc_Base\<close>: the prelude. Return codes, casts, memory, list lemmas, and the locale \<open>guarded_system\<close> (an invariant that every
    permitted call keeps holds after every run).
  \<^item> \<open>Widechar\<close> (\<^verbatim>\<open>widechar/*\<close> and the part of \<^verbatim>\<open>third_party/utf8\<close> it calls): UTF-8 and UTF-16. Decoding and encoding are inverse on
    well-formed text, the lenient conversion is total, \<^verbatim>\<open>find_invalid\<close> accepts exactly the UTF-8 encodings.
  \<^item> \<open>Odbc_Utils\<close> (\<^verbatim>\<open>common/odbc_utils.cpp\<close>): string arguments and results. The locale \<open>string_writer\<close> is the contract of the writers
    of string results (nothing outside of the buffer, the longest terminated prefix, truncation reported), with the
    interpretations \<open>utf8\<close> and \<open>utf16\<close>.
  \<^item> \<open>Odbc_Diagnostic\<close> (\<^verbatim>\<open>common/odbc_diagnostic.cpp\<close>, \<^verbatim>\<open>diagnostic_api.cpp\<close>): the diagnostic area and its invariant; what is posted is
    what \<^verbatim>\<open>SQLGetDiagRec\<close> returns.
  \<^item> \<open>Odbc_Interval\<close> (\<^verbatim>\<open>common/odbc_interval.cpp\<close>): the fields of an interval, which are exact for a day-to-second interval.
  \<^item> \<open>Api_Info\<close> (\<^verbatim>\<open>api_info.cpp\<close>): the tables of functions and types.
  \<^item> \<open>Descriptor\<close> (\<^verbatim>\<open>descriptor.cpp\<close>, \<^verbatim>\<open>descriptor_api.cpp\<close>): descriptor fields and records, which are read back as they were set.
  \<^item> \<open>Duckdb_Odbc\<close>, \<open>Handle_Api\<close>, \<open>Attribute_Api\<close> (\<^verbatim>\<open>duckdb_odbc.hpp\<close>, \<^verbatim>\<open>common/duckdb_odbc.cpp\<close>, \<^verbatim>\<open>common/handle_functions.cpp\<close>,
    \<^verbatim>\<open>driver.cpp\<close>, \<^verbatim>\<open>handle_api.cpp\<close>, \<^verbatim>\<open>attribute_api.cpp\<close>): the handles and what is done with them. \<open>Handle_Lifecycle\<close> has the
    invariant \<open>world_ok\<close> of the store, the calls an application may make (\<open>allowed\<close>) and their composition \<open>run\<close>; the
    interpretation \<open>lc\<close> of \<open>guarded_system\<close> gives that no call follows a dangling pointer, in any sequence.
  \<^item> \<open>Odbc_Fetch\<close>, \<open>Fetch_Rows\<close> (\<^verbatim>\<open>common/odbc_fetch.cpp\<close>): chunks, positions and rowsets. The locale \<open>row_stream\<close> is the abstract
    cursor, a list of rows that remain; its interpretation \<open>forward\<close> on the model of \<^verbatim>\<open>OdbcFetch::Fetch\<close> gives that every row is
    delivered once and in order, \<open>api\<close> (in \<open>Statement_Exec\<close>) the same for \<^verbatim>\<open>SQLFetch\<close>.
  \<^item> \<open>Engine_Temporal\<close> (\<^verbatim>\<open>duckdb/src/common/types/date.cpp\<close>, \<^verbatim>\<open>time.cpp\<close>, \<^verbatim>\<open>timestamp.cpp\<close>): the calendar functions of the engine that
    the driver calls.
  \<^item> \<open>Blob_Text\<close> (\<^verbatim>\<open>duckdb/src/common/types/blob.cpp\<close>): bytes and their escaped text, which are inverse.
  \<^item> \<open>Get_Data\<close>, \<open>Parameter_Values\<close> (\<^verbatim>\<open>statement/statement_functions.cpp\<close>, \<^verbatim>\<open>parameter_descriptor.cpp\<close>): values to and from the memory of
    the application; text and bytes in pieces arrive whole, timestamps and, but for those with a zero fraction, decimals survive
    the way out and back.
  \<^item> \<open>Statement_Exec\<close> (\<^verbatim>\<open>statement_functions.cpp\<close>, \<^verbatim>\<open>statement_api.cpp\<close>, \<^verbatim>\<open>result_api.cpp\<close>): preparing and executing, once for every
    set of parameters, again after the cursor was closed, and the composition with fetching.
  \<^item> \<open>Session_Init\<close>, \<open>Connection_Api\<close> (\<^verbatim>\<open>connect/session_init.cpp\<close>, \<^verbatim>\<open>connect/connect.cpp\<close>, \<^verbatim>\<open>connection_api.cpp\<close>): connection strings,
    session scripts, opening a database. The locale \<open>pair_parser\<close> carries an invariant through the parser of connection strings;
    its interpretations are \<open>no_script\<close>, \<open>cupola_only\<close> and \<open>keeps_conn\<close>.
  \<^item> \<open>Connection_Wide\<close> (\<^verbatim>\<open>connection_api.cpp\<close>): the exported connection functions; a wide connection string is returned as it was given.
  \<^item> \<open>Cupola_Connection\<close> (\<^verbatim>\<open>connect/cupola_connection.cpp\<close>): the named connections of the user store on Windows. No field breaks out of
    its quotes, a bad option executes nothing, only the \<^verbatim>\<open>ATTACH\<close> statement depends on the credential, and a connection that is opened
    for a name of the store has been attached. The two meet in the field \<open>pf_attach\<close> of \<open>platform\<close>.
  \<^item> \<open>Transaction_Api\<close> (\<^verbatim>\<open>transaction_api.cpp\<close>): a commit keeps the open result of the statement that was allocated last.
  \<^item> \<open>Column_Info\<close> (\<^verbatim>\<open>column_info_api.cpp\<close>): the records of the columns of a prepared statement, and the two
    ways to ask for the type of a column.
  \<^item> \<open>Info_Constants\<close>, \<open>Info_Api\<close> (\<^verbatim>\<open>info_api.cpp\<close>): what the driver says of itself, as tables.
  \<^item> \<open>Metadata_Api\<close>, \<open>Api_Stubs\<close> (\<^verbatim>\<open>metadata_api.cpp\<close>, \<^verbatim>\<open>empty_api_stubs.cpp\<close>): the catalog functions. The locales \<open>list_pass\<close> and its
    extension \<open>word_pass\<close> are one textual replacement over a list of table types, interpreted for the five passes of
    \<^verbatim>\<open>SQLTables\<close> (\<open>system_pass\<close>, \<open>base_pass\<close>, \<open>view_pass\<close>, \<open>all_pass\<close>, \<open>comma_pass\<close>).

  \<^bold>\<open>Fuel.\<close> \<open>fetch_all\<close> and \<open>SetAbsoluteCurrentChunk\<close> fetch chunks until the engine has no more: one step per chunk and one for the end
  suffice, and the theorems that use them say so. \<open>read_until_no_data\<close> and \<open>drain\<close> are loops of the application. \<open>execute_sets\<close> runs once
  per parameter set. Where the code does not end for any fuel, that is a theorem: \<open>Materialize_after_end_diverges\<close>, and, for a
  statement that is executed again without closing its cursor, \<open>second_execute_never_returns\<close>.

  \<^bold>\<open>Parameters.\<close> The engine is not part of the driver: \<open>engine\<close> has its casts and renderings of values, \<open>database\<close> preparing and
  executing, \<open>transactions\<close> commit and rollback, \<open>platform\<close> database configurations, opening, and \<^verbatim>\<open>odbc.ini\<close>, \<open>file_system\<close>
  files and their hash, and \<open>windows\<close> the functions of Windows and of the JSON library.
  Theorems that rely on them name what they rely on as hypotheses, and their witnesses give concrete functions.

  \<^bold>\<open>Not modelled.\<close> The database engine, beyond the calendar functions; the functions of \<^verbatim>\<open>common/file_io.cpp\<close>, which only call the
  operating system; of the code that is compiled for Windows only, the time zone of the operating system;
  constructors and accessors that copy a field.
\<close>

end
